(* ===== verification/Prelude.thy ===== *)
theory Prelude
  imports Main
begin

text \<open>
  Shared vocabulary of the development: the two effect layers of the server code, the tables
  of the database as lists of rows, JSON values, and the generic lemmas about them.

  \<^item> \<open>tx\<close> is the body of one database transaction (\<open>prisma.$transaction\<close>): a function of
    the database that either fails with an error, and then changes nothing, or returns a value
    and the new database.
  \<^item> \<open>proc\<close> is a request handler: a sequence of committed transactions and calls to other
    systems, so that what was committed before an error stays. \<open>atomically\<close> runs a \<open>tx\<close> as
    one step of a \<open>proc\<close>.
  \<^item> The locale \<open>step_order\<close> is the interface through which every component states what its
    transactions do to the database: a reflexive and transitive relation between the database
    before and after. Its lemmas say that the combinators of \<open>tx\<close> and \<open>proc\<close> respect such
    a relation, so that a property of a handler follows from its parts.
\<close>

named_theorems tx_iff \<open>inversion of successful transaction steps\<close>
named_theorems tx_unfold \<open>definitions of the transaction combinators\<close>

section \<open>Transactions\<close>

type_synonym ('s, 'e, 'a) tx = "'s \<Rightarrow> 'e + ('a \<times> 's)"

definition tx_return :: "'a \<Rightarrow> ('s, 'e, 'a) tx" where
  "tx_return x = (\<lambda>s. Inr (x, s))"

definition tx_throw :: "'e \<Rightarrow> ('s, 'e, 'a) tx" where
  "tx_throw e = (\<lambda>s. Inl e)"

definition tx_bind :: "('s, 'e, 'a) tx \<Rightarrow> ('a \<Rightarrow> ('s, 'e, 'b) tx) \<Rightarrow> ('s, 'e, 'b) tx" where
  "tx_bind m f = (\<lambda>s. case m s of Inl e \<Rightarrow> Inl e | Inr r \<Rightarrow> f (fst r) (snd r))"

definition tx_then :: "('s, 'e, 'a) tx \<Rightarrow> ('s, 'e, 'b) tx \<Rightarrow> ('s, 'e, 'b) tx" where
  "tx_then m n = tx_bind m (\<lambda>_. n)"

definition tx_gets :: "('s \<Rightarrow> 'a) \<Rightarrow> ('s, 'e, 'a) tx" where
  "tx_gets f = (\<lambda>s. Inr (f s, s))"

definition tx_modify :: "('s \<Rightarrow> 's) \<Rightarrow> ('s, 'e, unit) tx" where
  "tx_modify f = (\<lambda>s. Inr ((), f s))"

definition tx_lift :: "'e + 'a \<Rightarrow> ('s, 'e, 'a) tx" where
  "tx_lift r = (\<lambda>s. case r of Inl e \<Rightarrow> Inl e | Inr x \<Rightarrow> Inr (x, s))"

text \<open>\<open>tx_require b e\<close> is \<open>if (!b) throw e\<close>; \<open>tx_some e v\<close> is the null check before a use.\<close>

definition tx_require :: "bool \<Rightarrow> 'e \<Rightarrow> ('s, 'e, unit) tx" where
  "tx_require b e = (if b then tx_return () else tx_throw e)"

definition tx_some :: "'e \<Rightarrow> 'a option \<Rightarrow> ('s, 'e, 'a) tx" where
  "tx_some e v = (case v of None \<Rightarrow> tx_throw e | Some x \<Rightarrow> tx_return x)"

definition tx_when :: "bool \<Rightarrow> ('s, 'e, unit) tx \<Rightarrow> ('s, 'e, unit) tx" where
  "tx_when b m = (if b then m else tx_return ())"

text \<open>A \<open>try\<close>/\<open>catch\<close> inside a transaction: the failed statement has changed nothing.\<close>

definition tx_catch :: "('s, 'e, 'a) tx \<Rightarrow> ('e \<Rightarrow> ('s, 'e, 'a) tx) \<Rightarrow> ('s, 'e, 'a) tx" where
  "tx_catch m h = (\<lambda>s. case m s of Inl e \<Rightarrow> h e s | Inr r \<Rightarrow> Inr r)"

fun tx_iterate :: "('a \<Rightarrow> ('s, 'e, unit) tx) \<Rightarrow> 'a list \<Rightarrow> ('s, 'e, unit) tx" where
  "tx_iterate f [] = tx_return ()"
| "tx_iterate f (x # xs) = tx_then (f x) (tx_iterate f xs)"

lemmas tx_defs [tx_unfold] =
  tx_return_def tx_throw_def tx_bind_def tx_then_def tx_gets_def tx_modify_def tx_lift_def
  tx_require_def tx_some_def tx_when_def tx_catch_def

lemma tx_return_iff [tx_iff]: "tx_return x s = Inr r \<longleftrightarrow> r = (x, s)"
  by (auto simp: tx_return_def)

lemma tx_throw_iff [tx_iff]: "tx_throw e s = Inr r \<longleftrightarrow> False"
  by (simp add: tx_throw_def)

lemma tx_bind_iff [tx_iff]:
  "tx_bind m f s = Inr r \<longleftrightarrow> (\<exists>x t. m s = Inr (x, t) \<and> f x t = Inr r)"
  by (auto simp: tx_bind_def split: sum.splits)

lemma tx_then_iff [tx_iff]:
  "tx_then m n s = Inr r \<longleftrightarrow> (\<exists>x t. m s = Inr (x, t) \<and> n t = Inr r)"
  by (auto simp: tx_then_def tx_bind_def split: sum.splits)

lemma tx_gets_iff [tx_iff]: "tx_gets f s = Inr r \<longleftrightarrow> r = (f s, s)"
  by (auto simp: tx_gets_def)

lemma tx_modify_iff [tx_iff]: "tx_modify f s = Inr r \<longleftrightarrow> r = ((), f s)"
  by (auto simp: tx_modify_def)

lemma tx_lift_iff [tx_iff]: "tx_lift v s = Inr r \<longleftrightarrow> v = Inr (fst r) \<and> snd r = s"
  by (cases r) (auto simp: tx_lift_def split: sum.splits)

lemma tx_require_iff [tx_iff]: "tx_require b e s = Inr r \<longleftrightarrow> b \<and> r = ((), s)"
  by (auto simp: tx_require_def tx_return_def tx_throw_def)

lemma tx_some_iff [tx_iff]: "tx_some e v s = Inr r \<longleftrightarrow> v = Some (fst r) \<and> snd r = s"
  by (cases r) (auto simp: tx_some_def tx_return_def tx_throw_def split: option.splits)

lemma tx_when_iff [tx_iff]:
  "tx_when b m s = Inr r \<longleftrightarrow> (if b then m s = Inr r else r = ((), s))"
  by (auto simp: tx_when_def tx_return_def)

lemma tx_catch_iff [tx_iff]:
  "tx_catch m h s = Inr r \<longleftrightarrow> m s = Inr r \<or> (\<exists>e. m s = Inl e \<and> h e s = Inr r)"
  by (auto simp: tx_catch_def split: sum.splits)

lemma tx_if_iff [tx_iff]:
  "(if b then m else n) s = (Inr r :: 'e + ('a \<times> 's)) \<longleftrightarrow> (if b then m s = Inr r else n s = Inr r)"
  by simp

lemma tx_option_iff [tx_iff]:
  "(case v of None \<Rightarrow> m | Some x \<Rightarrow> f x) s = (Inr r :: 'e + ('a \<times> 's)) \<longleftrightarrow>
     (v = None \<and> m s = Inr r) \<or> (\<exists>x. v = Some x \<and> f x s = Inr r)"
  by (cases v) auto

section \<open>Results\<close>

text \<open>Sequencing of plain fallible computations, for the validators that touch no database.\<close>

definition res_bind :: "'e + 'a \<Rightarrow> ('a \<Rightarrow> 'e + 'b) \<Rightarrow> 'e + 'b" where
  "res_bind r f = (case r of Inl e \<Rightarrow> Inl e | Inr x \<Rightarrow> f x)"

definition res_require :: "bool \<Rightarrow> 'e \<Rightarrow> 'e + unit" where
  "res_require b e = (if b then Inr () else Inl e)"

lemma res_bind_simps [simp]: "res_bind (Inl e) f = Inl e" "res_bind (Inr x) f = f x"
  by (simp_all add: res_bind_def)

lemma res_bind_iff [tx_iff]: "res_bind r f = Inr y \<longleftrightarrow> (\<exists>x. r = Inr x \<and> f x = Inr y)"
  by (cases r) auto

lemma res_require_iff [tx_iff]: "res_require b e = Inr u \<longleftrightarrow> b"
  by (auto simp: res_require_def)

lemma sum_case_eq_Inr:
  "(case v of Inl e \<Rightarrow> f e | Inr x \<Rightarrow> g x) = Inr r \<longleftrightarrow>
     (\<exists>e. v = Inl e \<and> f e = Inr r) \<or> (\<exists>x. v = Inr x \<and> g x = Inr r)"
  by (cases v) auto

section \<open>Request handlers\<close>

type_synonym ('s, 'e, 'a) proc = "'s \<Rightarrow> ('e + 'a) \<times> 's"

definition atomically :: "('s, 'e, 'a) tx \<Rightarrow> ('s, 'e, 'a) proc" where
  "atomically m = (\<lambda>s. case m s of Inl e \<Rightarrow> (Inl e, s) | Inr r \<Rightarrow> (Inr (fst r), snd r))"

definition pr_return :: "'a \<Rightarrow> ('s, 'e, 'a) proc" where
  "pr_return x = (\<lambda>s. (Inr x, s))"

definition pr_throw :: "'e \<Rightarrow> ('s, 'e, 'a) proc" where
  "pr_throw e = (\<lambda>s. (Inl e, s))"

definition pr_bind :: "('s, 'e, 'a) proc \<Rightarrow> ('a \<Rightarrow> ('s, 'e, 'b) proc) \<Rightarrow> ('s, 'e, 'b) proc" where
  "pr_bind m f = (\<lambda>s. case m s of (Inl e, t) \<Rightarrow> (Inl e, t) | (Inr x, t) \<Rightarrow> f x t)"

definition pr_lift :: "'e + 'a \<Rightarrow> ('s, 'e, 'a) proc" where
  "pr_lift r = (\<lambda>s. (r, s))"

text \<open>\<open>try\<close>/\<open>catch\<close> of a handler: the transactions committed before the error stay.\<close>

definition pr_catch :: "('s, 'e, 'a) proc \<Rightarrow> ('e \<Rightarrow> ('s, 'e, 'a) proc) \<Rightarrow> ('s, 'e, 'a) proc" where
  "pr_catch m h = (\<lambda>s. case m s of (Inl e, t) \<Rightarrow> h e t | (Inr x, t) \<Rightarrow> (Inr x, t))"

text \<open>\<open>pr_try\<close> continues with the result of a transaction or with the error it raised.\<close>

definition pr_try ::
  "('s, 'e, 'a) tx \<Rightarrow> ('e \<Rightarrow> ('s, 'e, 'b) proc) \<Rightarrow> ('a \<Rightarrow> ('s, 'e, 'b) proc) \<Rightarrow> ('s, 'e, 'b) proc" where
  "pr_try m h f = (\<lambda>s. case m s of Inl e \<Rightarrow> h e s | Inr r \<Rightarrow> f (fst r) (snd r))"

lemmas pr_defs [tx_unfold] =
  atomically_def pr_return_def pr_throw_def pr_bind_def pr_lift_def pr_catch_def pr_try_def

section \<open>Relations between the database before and after\<close>

locale step_order =
  fixes R :: "'s \<Rightarrow> 's \<Rightarrow> bool"
  assumes R_refl: "R s s"
    and R_trans: "R s t \<Longrightarrow> R t u \<Longrightarrow> R s u"
begin

definition resp :: "('s, 'e, 'a) tx \<Rightarrow> bool" where
  "resp m \<longleftrightarrow> (\<forall>s x t. m s = Inr (x, t) \<longrightarrow> R s t)"

definition presp :: "('s, 'e, 'a) proc \<Rightarrow> bool" where
  "presp m \<longleftrightarrow> (\<forall>s. R s (snd (m s)))"

lemma respD: "resp m \<Longrightarrow> m s = Inr (x, t) \<Longrightarrow> R s t"
  by (auto simp: resp_def)

lemma respI: "(\<And>s x t. m s = Inr (x, t) \<Longrightarrow> R s t) \<Longrightarrow> resp m"
  by (auto simp: resp_def)

lemma resp_return: "resp (tx_return x)"
  by (auto simp: resp_def tx_return_def R_refl)

lemma resp_throw: "resp (tx_throw e)"
  by (auto simp: resp_def tx_throw_def)

lemma resp_gets: "resp (tx_gets f)"
  by (auto simp: resp_def tx_gets_def R_refl)

lemma resp_lift: "resp (tx_lift r)"
  by (auto simp: resp_def tx_lift_def R_refl split: sum.splits)

lemma resp_require: "resp (tx_require b e)"
  by (auto simp: tx_require_def resp_return resp_throw)

lemma resp_some: "resp (tx_some e v)"
  by (auto simp: tx_some_def resp_return resp_throw split: option.splits)

lemma resp_modify: "(\<And>s. R s (f s)) \<Longrightarrow> resp (tx_modify f)"
  by (auto simp: resp_def tx_modify_def)

lemma resp_bind:
  assumes "resp m" and "\<And>x. resp (f x)"
  shows "resp (tx_bind m f)"
proof (rule respI)
  fix s y t
  assume "tx_bind m f s = Inr (y, t)"
  then obtain x u where "m s = Inr (x, u)" and "f x u = Inr (y, t)"
    by (auto simp: tx_iff)
  with assms show "R s t" by (blast intro: R_trans dest: respD)
qed

text \<open>The same, with what is known of the value of the first part.\<close>

lemma resp_bind_post:
  assumes "resp m" and "\<And>s x t. m s = Inr (x, t) \<Longrightarrow> resp (f x)"
  shows "resp (tx_bind m f)"
proof (rule respI)
  fix s y t
  assume "tx_bind m f s = Inr (y, t)"
  then obtain x u where "m s = Inr (x, u)" and "f x u = Inr (y, t)"
    by (auto simp: tx_iff)
  with assms show "R s t" by (blast intro: R_trans dest: respD)
qed

lemma resp_then: "resp m \<Longrightarrow> resp n \<Longrightarrow> resp (tx_then m n)"
  unfolding tx_then_def by (rule resp_bind)

text \<open>A check contributes its condition to what follows it.\<close>

lemma resp_lift_bind: "(\<And>x. r = Inr x \<Longrightarrow> resp (f x)) \<Longrightarrow> resp (tx_bind (tx_lift r) f)"
  by (auto simp: resp_def tx_iff)

lemma resp_require_bind: "(\<And>u. b \<Longrightarrow> resp (f u)) \<Longrightarrow> resp (tx_bind (tx_require b e) f)"
  by (auto simp: resp_def tx_iff)

lemma resp_some_bind: "(\<And>x. v = Some x \<Longrightarrow> resp (f x)) \<Longrightarrow> resp (tx_bind (tx_some e v) f)"
  by (auto simp: resp_def tx_iff)

lemma resp_when: "(b \<Longrightarrow> resp m) \<Longrightarrow> resp (tx_when b m)"
  by (auto simp: tx_when_def resp_return)

lemma resp_if: "(b \<Longrightarrow> resp m) \<Longrightarrow> (\<not> b \<Longrightarrow> resp n) \<Longrightarrow> resp (if b then m else n)"
  by simp

lemma resp_catch:
  assumes "resp m" and "\<And>e. resp (h e)"
  shows "resp (tx_catch m h)"
proof (rule respI)
  fix s x t
  assume "tx_catch m h s = Inr (x, t)"
  then have "m s = Inr (x, t) \<or> (\<exists>e. h e s = Inr (x, t))"
    by (auto simp: tx_catch_def split: sum.splits)
  with assms show "R s t" by (blast dest: respD)
qed

lemma resp_iterate: "(\<And>x. resp (f x)) \<Longrightarrow> resp (tx_iterate f xs)"
  by (induction xs) (auto intro: resp_return resp_then)

lemma resp_option_case:
  "(v = None \<Longrightarrow> resp m) \<Longrightarrow> (\<And>x. v = Some x \<Longrightarrow> resp (f x)) \<Longrightarrow>
    resp (case v of None \<Rightarrow> m | Some x \<Rightarrow> f x)"
  by (cases v) auto

lemma resp_Let: "(\<And>x. resp (f x)) \<Longrightarrow> resp (let x = v in f x)"
  by simp

lemma presp_atomically: "resp m \<Longrightarrow> presp (atomically m)"
  by (auto simp: presp_def atomically_def R_refl split: sum.splits dest: respD)

lemma presp_return: "presp (pr_return x)"
  by (simp add: presp_def pr_return_def R_refl)

lemma presp_throw: "presp (pr_throw e)"
  by (simp add: presp_def pr_throw_def R_refl)

lemma presp_lift: "presp (pr_lift r)"
  by (simp add: presp_def pr_lift_def R_refl)

lemma presp_bind:
  assumes "presp m" and "\<And>x. presp (f x)"
  shows "presp (pr_bind m f)"
  unfolding presp_def
proof
  fix s
  from assms(1) have "R s (snd (m s))" by (simp add: presp_def)
  then show "R s (snd (pr_bind m f s))"
    using assms(2) by (auto simp: presp_def pr_bind_def split: prod.splits sum.splits intro: R_trans)
qed

lemma presp_catch:
  assumes "presp m" and "\<And>e. presp (h e)"
  shows "presp (pr_catch m h)"
  unfolding presp_def
proof
  fix s
  from assms(1) have "R s (snd (m s))" by (simp add: presp_def)
  then show "R s (snd (pr_catch m h s))"
    using assms(2) by (auto simp: presp_def pr_catch_def split: prod.splits sum.splits intro: R_trans)
qed

lemma presp_if: "(b \<Longrightarrow> presp m) \<Longrightarrow> (\<not> b \<Longrightarrow> presp n) \<Longrightarrow> presp (if b then m else n)"
  by simp

lemma presp_option_case:
  "(v = None \<Longrightarrow> presp m) \<Longrightarrow> (\<And>x. v = Some x \<Longrightarrow> presp (f x)) \<Longrightarrow>
     presp (case v of None \<Rightarrow> m | Some x \<Rightarrow> f x)"
  by (cases v) auto

lemma presp_lift_bind: "(\<And>x. r = Inr x \<Longrightarrow> presp (f x)) \<Longrightarrow> presp (pr_bind (pr_lift r) f)"
  by (cases r) (auto simp: presp_def pr_bind_def pr_lift_def R_refl)

lemma presp_atomically_bind:
  assumes "resp m" and "\<And>s x t. m s = Inr (x, t) \<Longrightarrow> presp (f x)"
  shows "presp (pr_bind (atomically m) f)"
  unfolding presp_def
proof
  fix s
  show "R s (snd (pr_bind (atomically m) f s))"
  proof (cases "m s")
    case (Inl e)
    then show ?thesis by (simp add: pr_bind_def atomically_def R_refl)
  next
    case (Inr r)
    then obtain x t where r: "m s = Inr (x, t)" by (cases r) auto
    then have "R s t" and "R t (snd (f x t))"
      using assms by (auto simp: presp_def dest: respD)
    with r show ?thesis by (auto simp: pr_bind_def atomically_def intro: R_trans)
  qed
qed

lemma presp_try:
  assumes "resp m" and "\<And>e. presp (h e)" and "\<And>s x t. m s = Inr (x, t) \<Longrightarrow> presp (f x)"
  shows "presp (pr_try m h f)"
  unfolding presp_def
proof
  fix s
  show "R s (snd (pr_try m h f s))"
  proof (cases "m s")
    case (Inl e)
    then show ?thesis using assms(2) by (simp add: pr_try_def presp_def)
  next
    case (Inr r)
    then obtain x t where r: "m s = Inr (x, t)" by (cases r) auto
    then have "R s t" and "R t (snd (f x t))"
      using assms by (auto simp: presp_def dest: respD)
    with r show ?thesis by (auto simp: pr_try_def intro: R_trans)
  qed
qed

lemma presp_sum_case:
  "(\<And>e. v = Inl e \<Longrightarrow> presp (f e)) \<Longrightarrow> (\<And>x. v = Inr x \<Longrightarrow> presp (g x)) \<Longrightarrow>
     presp (case v of Inl e \<Rightarrow> f e | Inr x \<Rightarrow> g x)"
  by (cases v) auto

lemma presp_pair: "(\<And>x y. presp (f x y)) \<Longrightarrow> presp (case p of (x, y) \<Rightarrow> f x y)"
  by (cases p) auto

lemmas resp_rules =
  resp_lift_bind resp_require_bind resp_some_bind
  resp_return resp_throw resp_gets resp_lift resp_require resp_some
  resp_bind resp_then resp_when resp_if resp_catch resp_iterate
  resp_option_case resp_Let

lemmas presp_rules =
  presp_lift_bind presp_return presp_throw presp_lift presp_bind presp_catch presp_if presp_option_case
  presp_atomically presp_sum_case presp_pair

end

end
