(* ===== verification/Errors.thy ===== *)
theory Errors
  imports Prelude
begin

text \<open>
  The errors of the server: \<open>server/src/common/errors/app-error.ts\<close>, the compare-and-swap check
  of \<open>common/lifecycle/compare-and-swap.ts\<close> and the normalisation done by
  \<open>common/middleware/error-handler.ts\<close>. The message text of an error is for humans and is not
  modelled; its HTTP status, type and machine-readable code are. \<open>P2002\<close> is Prisma's
  unique-constraint violation, \<open>P2025\<close> its missing record (\<open>findUniqueOrThrow\<close>), and
  \<open>JsError\<close> any other thrown \<open>Error\<close>.
\<close>

datatype ApiErrorType =
    authentication_error
  | permission_error
  | invalid_request_error
  | not_found_error
  | conflict_error
  | rate_limit_error
  | internal_error

record AppError =
  statusCode :: nat
  errorType :: ApiErrorType
  code :: string

datatype error =
    App AppError
  | P2002
  | P2025
  | ZodError
  | JsError string

definition authenticationError :: error where
  "authenticationError = App \<lparr>statusCode = 401, errorType = authentication_error,
     code = ''authentication_required''\<rparr>"

definition permissionError :: "string \<Rightarrow> error" where
  "permissionError c = App \<lparr>statusCode = 403, errorType = permission_error, code = c\<rparr>"

definition invalidRequest :: "string \<Rightarrow> error" where
  "invalidRequest c = App \<lparr>statusCode = 400, errorType = invalid_request_error, code = c\<rparr>"

definition notFound :: "string \<Rightarrow> error" where
  "notFound c = App \<lparr>statusCode = 404, errorType = not_found_error, code = c\<rparr>"

definition conflict :: "string \<Rightarrow> error" where
  "conflict c = App \<lparr>statusCode = 409, errorType = conflict_error, code = c\<rparr>"

definition rateLimitError :: error where
  "rateLimitError = App \<lparr>statusCode = 429, errorType = rate_limit_error,
     code = ''rate_limit_exceeded''\<rparr>"

definition normalizeError :: "error \<Rightarrow> AppError" where
  "normalizeError e = (case e of
       App a \<Rightarrow> a
     | ZodError \<Rightarrow> \<lparr>statusCode = 400, errorType = invalid_request_error, code = ''validation_failed''\<rparr>
     | _ \<Rightarrow> \<lparr>statusCode = 500, errorType = internal_error, code = ''internal_error''\<rparr>)"

definition isUniqueConstraintError :: "error \<Rightarrow> bool" where
  "isUniqueConstraintError e = (e = P2002)"

definition assertLifecycleCompareAndSwap :: "nat \<Rightarrow> error + unit" where
  "assertLifecycleCompareAndSwap affectedRows =
     (if affectedRows = 1 then Inr () else Inl (conflict ''lifecycle_conflict''))"

lemmas error_defs =
  authenticationError_def permissionError_def invalidRequest_def notFound_def conflict_def
  rateLimitError_def

lemma app_error_not_unique [simp]:
  "\<not> isUniqueConstraintError (invalidRequest c)"
  "\<not> isUniqueConstraintError (notFound c)"
  "\<not> isUniqueConstraintError (conflict c)"
  "\<not> isUniqueConstraintError (permissionError c)"
  "isUniqueConstraintError P2002"
  by (simp_all add: isUniqueConstraintError_def error_defs)

lemma assertLifecycleCompareAndSwap_iff [tx_iff]:
  "assertLifecycleCompareAndSwap n = Inr u \<longleftrightarrow> n = 1"
  by (auto simp: assertLifecycleCompareAndSwap_def)

end
