(* ===== verification/Amounts.thy ===== *)
theory Amounts
  imports Errors
begin

text \<open>
  Monetary amounts: \<open>server/src/common/amounts/integer-amount.ts\<close> and
  \<open>common/amounts/financial-invariants.ts\<close>. An amount is a decimal string (of shannons); the
  code matches it against a regular expression, converts it with \<open>BigInt\<close> and refuses values
  above \<open>2^64 - 1\<close>. The lemmas show that parsing and printing are inverse on the accepted
  strings and characterise exactly when each financial check passes.
\<close>

section \<open>Decimal strings\<close>

definition digit :: "char \<Rightarrow> bool" where
  "digit c \<longleftrightarrow> 48 \<le> (of_char c :: nat) \<and> (of_char c :: nat) \<le> 57"

definition digit_value :: "char \<Rightarrow> int" where
  "digit_value c = int (of_char c) - 48"

definition digit_char :: "nat \<Rightarrow> char" where
  "digit_char n = char_of (48 + n)"

text \<open>\<open>BigInt(value)\<close> on a string of decimal digits, and \<open>toString()\<close> of a non-negative BigInt.\<close>

definition BigInt :: "string \<Rightarrow> int" where
  "BigInt s = foldl (\<lambda>n c. 10 * n + digit_value c) 0 s"

fun show_nat :: "nat \<Rightarrow> string" where
  "show_nat n = (if n < 10 then [digit_char n] else show_nat (n div 10) @ [digit_char (n mod 10)])"

declare show_nat.simps [simp del]

definition show_int :: "int \<Rightarrow> string" where
  "show_int n = (if n < 0 then CHR ''-'' # show_nat (nat (- n)) else show_nat (nat n))"

section \<open>integer-amount.ts\<close>

definition MAX_SHANNONS :: int where
  "MAX_SHANNONS = 18446744073709551615"

text \<open>\<open>/^[1-9]\d*$/\<close>\<close>

definition isPositiveIntegerAmount :: "string \<Rightarrow> bool" where
  "isPositiveIntegerAmount value = (case value of
       [] \<Rightarrow> False
     | c # cs \<Rightarrow> digit c \<and> c \<noteq> CHR ''0'' \<and> list_all digit cs)"

definition parsePositiveIntegerAmount :: "string \<Rightarrow> error + int" where
  "parsePositiveIntegerAmount value =
     (if \<not> isPositiveIntegerAmount value then Inl (invalidRequest ''invalid_amount'')
      else let amount = BigInt value in
        if amount > MAX_SHANNONS then Inl (invalidRequest ''amount_out_of_range'')
        else Inr amount)"

fun sumIntegerAmounts_from :: "int \<Rightarrow> string list \<Rightarrow> error + int" where
  "sumIntegerAmounts_from acc [] = Inr acc"
| "sumIntegerAmounts_from acc (value # values) =
     res_bind (parsePositiveIntegerAmount value)
       (\<lambda>amount. sumIntegerAmounts_from (acc + amount) values)"

definition sumIntegerAmounts :: "string list \<Rightarrow> error + int" where
  "sumIntegerAmounts values = sumIntegerAmounts_from 0 values"

section \<open>financial-invariants.ts\<close>

text \<open>\<open>/^(0|[1-9]\d*)$/\<close>\<close>

definition isNonNegativeIntegerAmount :: "string \<Rightarrow> bool" where
  "isNonNegativeIntegerAmount value \<longleftrightarrow> value = ''0'' \<or> isPositiveIntegerAmount value"

definition parseNonNegativeIntegerAmount :: "string \<Rightarrow> error + int" where
  "parseNonNegativeIntegerAmount value =
     (if \<not> isNonNegativeIntegerAmount value then Inl (invalidRequest ''invalid_amount'')
      else let amount = BigInt value in
        if amount > MAX_SHANNONS then Inl (invalidRequest ''amount_out_of_range'')
        else Inr amount)"

definition assertCurrencyMatchesAgreement :: "string \<Rightarrow> string \<Rightarrow> error + unit" where
  "assertCurrencyMatchesAgreement currency agreementCurrency =
     res_require (currency = agreementCurrency) (invalidRequest ''currency_mismatch'')"

definition assertMilestoneAllocationWithinAgreement :: "int \<Rightarrow> string \<Rightarrow> string \<Rightarrow> error + unit" where
  "assertMilestoneAllocationWithinAgreement existingTotal proposed agreement =
     res_bind (parsePositiveIntegerAmount proposed) (\<lambda>proposedAmount.
     res_bind (parsePositiveIntegerAmount agreement) (\<lambda>agreementAmount.
     res_require (\<not> existingTotal + proposedAmount > agreementAmount)
       (invalidRequest ''milestone_total_exceeds_agreement'')))"

datatype scope = agreement_scope | milestone_scope

definition scope_name :: "scope \<Rightarrow> string" where
  "scope_name sc = (case sc of agreement_scope \<Rightarrow> ''agreement'' | milestone_scope \<Rightarrow> ''milestone'')"

definition assertEscrowAmountWithinScope :: "string \<Rightarrow> string \<Rightarrow> scope \<Rightarrow> bool \<Rightarrow> error + unit" where
  "assertEscrowAmountWithinScope escrow scopeStr sc exact =
     res_bind (parsePositiveIntegerAmount escrow) (\<lambda>escrowAmount.
     res_bind (parsePositiveIntegerAmount scopeStr) (\<lambda>scopeAmount.
     res_bind (res_require (\<not> (exact \<and> escrowAmount \<noteq> scopeAmount))
       (invalidRequest (''escrow_amount_must_equal_'' @ scope_name sc))) (\<lambda>_.
     res_require (\<not> escrowAmount > scopeAmount)
       (invalidRequest (''escrow_amount_exceeds_'' @ scope_name sc)))))"

definition assertSettlementSplit :: "string \<Rightarrow> string \<Rightarrow> string \<Rightarrow> error + unit" where
  "assertSettlementSplit worker client settlement =
     res_bind (parseNonNegativeIntegerAmount worker) (\<lambda>workerAmount.
     res_bind (parseNonNegativeIntegerAmount client) (\<lambda>clientAmount.
     res_bind (parsePositiveIntegerAmount settlement) (\<lambda>settlementAmount.
     res_bind (res_require (\<not> (workerAmount > settlementAmount \<or> clientAmount > settlementAmount))
       (invalidRequest ''invalid_settlement_split'')) (\<lambda>_.
     res_require (\<not> workerAmount + clientAmount \<noteq> settlementAmount)
       (invalidRequest ''invalid_settlement_split'')))))"

section \<open>Parsing and printing\<close>

lemma of_char_digit_char: "n < 10 \<Longrightarrow> (of_char (digit_char n) :: nat) = 48 + n"
  by (simp add: digit_char_def of_char_of)

lemma digit_char_props:
  assumes "n < 10"
  shows "digit (digit_char n)" and "digit_value (digit_char n) = int n"
  using assms by (simp_all add: digit_def digit_value_def of_char_digit_char)

lemma digit_char_value:
  assumes "digit c"
  shows "digit_char (nat (digit_value c)) = c" and "0 \<le> digit_value c" and "digit_value c < 10"
proof -
  let ?n = "of_char c :: nat"
  have n: "48 \<le> ?n" "?n \<le> 57" using assms by (auto simp: digit_def)
  show "0 \<le> digit_value c" "digit_value c < 10" using n by (auto simp: digit_value_def)
  have "48 + nat (digit_value c) = ?n" using n by (simp add: digit_value_def nat_diff_distrib)
  then show "digit_char (nat (digit_value c)) = c"
    by (simp add: digit_char_def)
qed

lemma digit_char_0: "digit_char 0 = CHR ''0''"
  by code_simp

lemma BigInt_snoc: "BigInt (s @ [c]) = 10 * BigInt s + digit_value c"
  by (simp add: BigInt_def)

lemma BigInt_Nil: "BigInt [] = 0"
  by (simp add: BigInt_def)

lemma BigInt_show_nat: "BigInt (show_nat n) = int n"
proof (induction n rule: show_nat.induct)
  case (1 n)
  show ?case
  proof (cases "n < 10")
    case True
    then show ?thesis
      by (simp add: show_nat.simps [of n] BigInt_def digit_char_props)
  next
    case False
    then have "BigInt (show_nat n) = 10 * int (n div 10) + int (n mod 10)"
      using 1 by (simp add: show_nat.simps [of n] BigInt_snoc digit_char_props)
    then show ?thesis by (simp add: zdiv_int zmod_int)
  qed
qed

lemma show_nat_positive: "0 < n \<Longrightarrow> isPositiveIntegerAmount (show_nat n)"
proof (induction n rule: show_nat.induct)
  case (1 n)
  show ?case
  proof (cases "n < 10")
    case True
    have "digit_char n \<noteq> CHR ''0''"
    proof
      assume "digit_char n = CHR ''0''"
      then have "digit_value (digit_char n) = digit_value (CHR ''0'')" by simp
      with True 1 show False by (simp add: digit_char_props) (simp add: digit_value_def)
    qed
    with True show ?thesis
      by (simp add: show_nat.simps [of n] isPositiveIntegerAmount_def digit_char_props)
  next
    case False
    then have "isPositiveIntegerAmount (show_nat (n div 10))" using 1 by simp
    with False show ?thesis
      by (simp add: show_nat.simps [of n] isPositiveIntegerAmount_def digit_char_props split: list.splits)
  qed
qed

lemma BigInt_nonneg: "list_all digit s \<Longrightarrow> 0 \<le> BigInt s"
  by (induction s rule: rev_induct) (auto simp: BigInt_Nil BigInt_snoc digit_char_value)

lemma isPositiveIntegerAmount_digits: "isPositiveIntegerAmount s \<Longrightarrow> list_all digit s \<and> s \<noteq> []"
  by (auto simp: isPositiveIntegerAmount_def split: list.splits)

lemma digit_zero: "digit c \<Longrightarrow> digit_value c = 0 \<Longrightarrow> c = CHR ''0''"
  using digit_char_value(1) [of c] by (simp add: digit_char_0)

lemma show_nat_BigInt: "isPositiveIntegerAmount s \<Longrightarrow> 0 < BigInt s \<and> show_nat (nat (BigInt s)) = s"
proof (induction s rule: rev_induct)
  case Nil
  then show ?case by (simp add: isPositiveIntegerAmount_def)
next
  case (snoc c s)
  then have dc: "digit c" using isPositiveIntegerAmount_digits by fastforce
  note cv = digit_char_value [OF dc]
  show ?case
  proof (cases "s = []")
    case True
    with snoc.prems have "c \<noteq> CHR ''0''" by (simp add: isPositiveIntegerAmount_def)
    with dc have "digit_value c \<noteq> 0" using digit_zero by blast
    with cv True show ?thesis
      by (auto simp: BigInt_def show_nat.simps [of "nat (digit_value c)"])
  next
    case False
    with snoc.prems have "isPositiveIntegerAmount s"
      by (auto simp: isPositiveIntegerAmount_def split: list.splits)
    with snoc.IH have IH: "0 < BigInt s" "show_nat (nat (BigInt s)) = s" by auto
    let ?v = "10 * BigInt s + digit_value c"
    have d: "nat ?v div 10 = nat (BigInt s)" using IH cv by linarith
    have "nat ?v = 10 * nat (BigInt s) + nat (digit_value c)" using IH cv by linarith
    then have m: "nat ?v mod 10 = nat (digit_value c)" using cv by simp
    have "\<not> nat ?v < 10" using IH cv by linarith
    then have "show_nat (nat ?v) = s @ [c]"
      by (simp add: show_nat.simps [of "nat ?v"] d m IH cv)
    with IH cv show ?thesis by (simp add: BigInt_snoc)
  qed
qed

lemma parsePositive_iff:
  "parsePositiveIntegerAmount s = Inr n \<longleftrightarrow> 0 < n \<and> n \<le> MAX_SHANNONS \<and> s = show_nat (nat n)"
proof
  assume a: "parsePositiveIntegerAmount s = Inr n"
  then have "isPositiveIntegerAmount s" and "n = BigInt s" and "n \<le> MAX_SHANNONS"
    by (auto simp: parsePositiveIntegerAmount_def Let_def split: if_splits)
  with show_nat_BigInt show "0 < n \<and> n \<le> MAX_SHANNONS \<and> s = show_nat (nat n)" by auto
next
  assume a: "0 < n \<and> n \<le> MAX_SHANNONS \<and> s = show_nat (nat n)"
  then have "isPositiveIntegerAmount s" and "BigInt s = n"
    using show_nat_positive [of "nat n"] BigInt_show_nat [of "nat n"] by auto
  with a show "parsePositiveIntegerAmount s = Inr n"
    by (simp add: parsePositiveIntegerAmount_def)
qed

lemma show_nat_0: "show_nat 0 = ''0''"
  by (simp add: show_nat.simps [of 0] digit_char_0)

lemma parseNonNegative_iff:
  "parseNonNegativeIntegerAmount s = Inr n \<longleftrightarrow> 0 \<le> n \<and> n \<le> MAX_SHANNONS \<and> s = show_nat (nat n)"
proof (cases "s = ''0''")
  case True
  have z: "BigInt ''0'' = 0" using BigInt_show_nat [of 0] by (simp add: show_nat_0)
  then have "parseNonNegativeIntegerAmount ''0'' = Inr 0"
    by (simp add: parseNonNegativeIntegerAmount_def isNonNegativeIntegerAmount_def MAX_SHANNONS_def)
  moreover have "n = 0" if "0 \<le> n" and "show_nat (nat n) = ''0''"
    using that z BigInt_show_nat [of "nat n"] by simp
  moreover have "0 \<le> MAX_SHANNONS" by (simp add: MAX_SHANNONS_def)
  ultimately show ?thesis using True show_nat_0 by (metis Inr_inject nat_zero_as_int order_refl)
next
  case False
  then have "parseNonNegativeIntegerAmount s = parsePositiveIntegerAmount s"
    by (simp add: parseNonNegativeIntegerAmount_def parsePositiveIntegerAmount_def
        isNonNegativeIntegerAmount_def)
  moreover have "n \<noteq> 0" if "s = show_nat (nat n)" using that False show_nat_0 by auto
  ultimately show ?thesis using parsePositive_iff [of s n] by (metis order_le_less)
qed

lemmas parse_iff [tx_iff] = parsePositive_iff parseNonNegative_iff

lemma parsePositive_pos:
  "parsePositiveIntegerAmount s = Inr n \<Longrightarrow> 0 < n \<and> n \<le> MAX_SHANNONS \<and> BigInt s = n"
  by (auto simp: parsePositive_iff BigInt_show_nat)

lemma sumIntegerAmounts_from_eq:
  "sumIntegerAmounts_from acc vs = Inr t \<Longrightarrow>
     t = acc + (\<Sum>v\<leftarrow>vs. BigInt v) \<and> list_all isPositiveIntegerAmount vs"
proof (induction vs arbitrary: acc)
  case Nil
  then show ?case by simp
next
  case (Cons v vs)
  then obtain a where a: "parsePositiveIntegerAmount v = Inr a"
    and r: "sumIntegerAmounts_from (acc + a) vs = Inr t" by (auto simp: tx_iff)
  from a have "isPositiveIntegerAmount v" and "BigInt v = a"
    by (auto simp: parsePositiveIntegerAmount_def Let_def split: if_splits)
  with Cons.IH [OF r] show ?case by simp
qed

lemma sumIntegerAmounts_eq:
  "sumIntegerAmounts vs = Inr t \<Longrightarrow>
     t = (\<Sum>v\<leftarrow>vs. BigInt v) \<and> list_all isPositiveIntegerAmount vs"
  using sumIntegerAmounts_from_eq [of 0] by (simp add: sumIntegerAmounts_def)

end
