(* ===== verification/Json.thy ===== *)
theory Json
  imports Amounts "HOL-Library.Multiset"
begin

text \<open>
  JSON values and the parts of the JavaScript standard library the server applies to them
  (\<open>JSON.stringify\<close>, \<open>toISOString\<close>, \<open>trim\<close>, \<open>toUpperCase\<close>, \<open>toLowerCase\<close>), and the request
  fingerprint of \<open>server/src/common/idempotency/request-hash.ts\<close>. Strings are byte strings; JSON
  numbers are integers. \<open>localeCompare\<close> depends on the collation of the host and \<open>sha256\<close> is the
  crypto library: both are parameters. The main lemma is that the fingerprint does not depend on
  the order in which the keys of the body are written.
\<close>

section \<open>Strings\<close>

definition to_upper :: "char \<Rightarrow> char" where
  "to_upper c = (let n = (of_char c :: nat) in if 97 \<le> n \<and> n \<le> 122 then char_of (n - 32) else c)"

definition to_lower :: "char \<Rightarrow> char" where
  "to_lower c = (let n = (of_char c :: nat) in if 65 \<le> n \<and> n \<le> 90 then char_of (n + 32) else c)"

definition toUpperCase :: "string \<Rightarrow> string" where
  "toUpperCase s = map to_upper s"

definition toLowerCase :: "string \<Rightarrow> string" where
  "toLowerCase s = map to_lower s"

definition whitespace :: "char \<Rightarrow> bool" where
  "whitespace c \<longleftrightarrow> (let n = (of_char c :: nat) in n = 32 \<or> (9 \<le> n \<and> n \<le> 13))"

definition trim :: "string \<Rightarrow> string" where
  "trim s = rev (dropWhile whitespace (rev (dropWhile whitespace s)))"

fun join :: "string \<Rightarrow> string list \<Rightarrow> string" where
  "join sep [] = []"
| "join sep [s] = s"
| "join sep (s # ss) = s @ sep @ join sep ss"

section \<open>Dates\<close>

text \<open>A \<open>Date\<close> is its time value, the milliseconds since the epoch.\<close>

definition civil_from_days :: "int \<Rightarrow> int \<times> int \<times> int" where
  "civil_from_days days =
     (let z = days + 719468;
          era = z div 146097;
          doe = z - era * 146097;
          yoe = (doe - doe div 1460 + doe div 36524 - doe div 146096) div 365;
          doy = doe - (365 * yoe + yoe div 4 - yoe div 100);
          mp = (5 * doy + 2) div 153;
          d = doy - (153 * mp + 2) div 5 + 1;
          m = (if mp < 10 then mp + 3 else mp - 9);
          y = yoe + era * 400
      in (if m \<le> 2 then y + 1 else y, m, d))"

definition pad :: "nat \<Rightarrow> int \<Rightarrow> string" where
  "pad w n = (let s = show_nat (nat n) in replicate (w - length s) (CHR ''0'') @ s)"

definition toISOString :: "int \<Rightarrow> string" where
  "toISOString t =
     (let days = t div 86400000; ms = t mod 86400000
      in case civil_from_days days of (y, m, d) \<Rightarrow>
           pad 4 y @ ''-'' @ pad 2 m @ ''-'' @ pad 2 d @ ''T'' @ pad 2 (ms div 3600000) @ '':'' @
           pad 2 (ms div 60000 mod 60) @ '':'' @ pad 2 (ms div 1000 mod 60) @ ''.'' @
           pad 3 (ms mod 1000) @ ''Z'')"

section \<open>JSON\<close>

datatype json =
    JNull
  | JBool bool
  | JNum int
  | JStr string
  | JArr "json list"
  | JObj "(string \<times> json) list"

text \<open>Nullable columns, and object literals whose \<open>undefined\<close> members \<open>JSON.stringify\<close> leaves out.\<close>

definition jstr_opt :: "string option \<Rightarrow> json" where
  "jstr_opt v = (case v of None \<Rightarrow> JNull | Some s \<Rightarrow> JStr s)"

definition jnum_opt :: "int option \<Rightarrow> json" where
  "jnum_opt v = (case v of None \<Rightarrow> JNull | Some n \<Rightarrow> JNum n)"

definition jdate :: "int \<Rightarrow> json" where
  "jdate t = JStr (toISOString t)"

definition jdate_opt :: "int option \<Rightarrow> json" where
  "jdate_opt v = (case v of None \<Rightarrow> JNull | Some t \<Rightarrow> jdate t)"

definition jobj :: "(string \<times> json option) list \<Rightarrow> json" where
  "jobj ms = JObj [(k, v). (k, Some v) \<leftarrow> ms]"

definition hex_digit :: "nat \<Rightarrow> char" where
  "hex_digit n = (if n < 10 then char_of (48 + n) else char_of (87 + n))"

definition escape_char :: "char \<Rightarrow> string" where
  "escape_char c = (let n = (of_char c :: nat) in
     if n = 34 then [char_of (92::nat), char_of (34::nat)]
     else if n = 92 then [char_of (92::nat), char_of (92::nat)]
     else if n = 8 then [char_of (92::nat), CHR ''b'']
     else if n = 9 then [char_of (92::nat), CHR ''t'']
     else if n = 10 then [char_of (92::nat), CHR ''n'']
     else if n = 12 then [char_of (92::nat), CHR ''f'']
     else if n = 13 then [char_of (92::nat), CHR ''r'']
     else if n < 32 then char_of (92::nat) # ''u00'' @ [hex_digit (n div 16), hex_digit (n mod 16)]
     else [c])"

definition quote :: "string \<Rightarrow> string" where
  "quote s = char_of (34::nat) # concat (map escape_char s) @ [char_of (34::nat)]"

primrec stringify :: "json \<Rightarrow> string" where
  "stringify JNull = ''null''"
| "stringify (JBool b) = (if b then ''true'' else ''false'')"
| "stringify (JNum n) = show_int n"
| "stringify (JStr s) = quote s"
| "stringify (JArr xs) = ''['' @ join '','' (map stringify xs) @ '']''"
| "stringify (JObj kvs) =
     ''{'' @ join '','' (map (\<lambda>kv. quote (fst kv) @ '':'' @ snd kv)
        (map (map_prod (\<lambda>k. k) stringify) kvs)) @ ''}''"

text \<open>\<open>Buffer.byteLength(JSON.stringify(v))\<close>\<close>

definition byteLength :: "json \<Rightarrow> nat" where
  "byteLength v = length (stringify v)"

section \<open>request-hash.ts\<close>

fun insort_by :: "(string \<Rightarrow> string \<Rightarrow> bool) \<Rightarrow> string \<times> 'a \<Rightarrow> (string \<times> 'a) list \<Rightarrow> (string \<times> 'a) list" where
  "insort_by le x [] = [x]"
| "insort_by le x (y # ys) = (if le (fst x) (fst y) then x # y # ys else y # insort_by le x ys)"

text \<open>The stable sort \<open>entries.sort(([l], [r]) => l.localeCompare(r))\<close>, \<open>le\<close> being \<open>localeCompare <= 0\<close>.\<close>

definition sort_by :: "(string \<Rightarrow> string \<Rightarrow> bool) \<Rightarrow> (string \<times> 'a) list \<Rightarrow> (string \<times> 'a) list" where
  "sort_by le xs = foldr (insort_by le) xs []"

text \<open>Array-index keys come first and ascending in a JavaScript object; the others in the order of insertion.\<close>

definition index_key :: "string \<Rightarrow> bool" where
  "index_key k \<longleftrightarrow> isNonNegativeIntegerAmount k \<and> BigInt k \<le> 4294967294"

definition fromEntries :: "(string \<times> json) list \<Rightarrow> json" where
  "fromEntries es = JObj (sort_by (\<lambda>k l. BigInt k \<le> BigInt l) (filter (index_key \<circ> fst) es)
     @ filter (\<lambda>e. \<not> index_key (fst e)) es)"

primrec sortObject :: "(string \<Rightarrow> string \<Rightarrow> bool) \<Rightarrow> json \<Rightarrow> json" where
  "sortObject le JNull = JNull"
| "sortObject le (JBool b) = JBool b"
| "sortObject le (JNum n) = JNum n"
| "sortObject le (JStr s) = JStr s"
| "sortObject le (JArr xs) = JArr (map (sortObject le) xs)"
| "sortObject le (JObj kvs) = fromEntries (sort_by le (map (map_prod (\<lambda>k. k) (sortObject le)) kvs))"

text \<open>\<open>params.body ?? {}\<close>\<close>

definition body_or_empty :: "json option \<Rightarrow> json" where
  "body_or_empty body = (case body of None \<Rightarrow> JObj [] | Some v \<Rightarrow> if v = JNull then JObj [] else v)"

definition createRequestHash ::
  "(string \<Rightarrow> string \<Rightarrow> bool) \<Rightarrow> (string \<Rightarrow> string) \<Rightarrow> string \<Rightarrow> string \<Rightarrow> json option \<Rightarrow> string" where
  "createRequestHash le sha256 method path body =
     sha256 (stringify (JObj [
       (''method'', JStr (toUpperCase method)),
       (''path'', JStr path),
       (''body'', sortObject le (body_or_empty body))]))"

section \<open>The fingerprint ignores the order of keys\<close>

text \<open>Two JSON values are the same up to the order of the members of their objects.\<close>

inductive same_json :: "json \<Rightarrow> json \<Rightarrow> bool" where
  same_refl: "same_json v v"
| same_arr: "list_all2 same_json xs ys \<Longrightarrow> same_json (JArr xs) (JArr ys)"
| same_obj: "map fst xs = map fst zs \<Longrightarrow> list_all2 same_json (map snd xs) (map snd zs) \<Longrightarrow>
     distinct (map fst xs) \<Longrightarrow> mset zs = mset ys \<Longrightarrow> same_json (JObj xs) (JObj ys)"

locale key_order =
  fixes le :: "string \<Rightarrow> string \<Rightarrow> bool"
  assumes le_total: "le k l \<or> le l k"
    and le_antisym: "le k l \<Longrightarrow> le l k \<Longrightarrow> k = l"
    and le_trans: "le k l \<Longrightarrow> le l m \<Longrightarrow> le k m"
begin

lemma insort_by_mset: "mset (insort_by le x ys) = add_mset x (mset ys)"
  by (induction ys) auto

lemma sort_by_mset: "mset (sort_by le xs) = mset xs"
  by (induction xs) (auto simp: sort_by_def insort_by_mset)

lemma insort_by_sorted:
  "sorted_wrt (\<lambda>a b. le (fst a) (fst b)) ys \<Longrightarrow>
     sorted_wrt (\<lambda>a b. le (fst a) (fst b)) (insort_by le x ys)"
proof (induction ys)
  case Nil
  then show ?case by simp
next
  case (Cons y ys)
  have "set (insort_by le x ys) = insert x (set ys)"
    using insort_by_mset [of x ys] by (metis set_mset_add_mset_insert set_mset_mset)
  with Cons le_total le_trans show ?case by auto
qed

lemma sort_by_sorted: "sorted_wrt (\<lambda>a b. le (fst a) (fst b)) (sort_by le xs)"
  by (induction xs) (auto simp: sort_by_def insort_by_sorted)

lemma sorted_unique:
  assumes "sorted_wrt (\<lambda>a b. le (fst a) (fst b)) xs" "sorted_wrt (\<lambda>a b. le (fst a) (fst b)) ys"
    and "mset xs = mset ys" and "distinct (map fst xs)"
  shows "xs = ys"
  using assms
proof (induction xs arbitrary: ys)
  case Nil
  then show ?case by simp
next
  case (Cons x xs)
  then obtain y ys' where ys: "ys = y # ys'" by (cases ys) auto
  have "x \<in> set ys" "y \<in> set (x # xs)"
    using Cons.prems(3) ys by (metis list.set_intros(1) set_mset_mset)+
  then have "x = y \<or> (le (fst x) (fst y) \<and> le (fst y) (fst x))"
    using Cons.prems(1,2) ys by auto
  then have "fst x = fst y" using le_antisym by auto
  with \<open>y \<in> set (x # xs)\<close> Cons.prems(4) have "x = y"
    by (metis distinct.simps(2) image_eqI list.set_map list.simps(9) set_ConsD)
  with Cons ys show ?case by auto
qed

lemma sort_by_cong:
  "mset xs = mset ys \<Longrightarrow> distinct (map fst xs) \<Longrightarrow> sort_by le xs = sort_by le ys"
proof (rule sorted_unique)
  assume a: "mset xs = mset ys" "distinct (map fst xs)"
  show "mset (sort_by le xs) = mset (sort_by le ys)" using a by (simp add: sort_by_mset)
  have "mset (map fst (sort_by le xs)) = mset (map fst xs)" by (simp add: sort_by_mset)
  with a show "distinct (map fst (sort_by le xs))" by (metis mset_eq_imp_distinct_iff)
qed (rule sort_by_sorted)+

lemma list_all2_sortObject:
  "list_all2 (\<lambda>a b. same_json a b \<and> sortObject le a = sortObject le b) xs ys \<Longrightarrow>
     map (sortObject le) xs = map (sortObject le) ys"
  by (induction rule: list_all2_induct) auto

lemma map_prod_snd_cong:
  "map f (map snd xs) = map f (map snd zs) \<Longrightarrow> map fst xs = map fst zs \<Longrightarrow>
     map (map_prod (\<lambda>k. k) f) xs = map (map_prod (\<lambda>k. k) f) zs"
proof (induction xs arbitrary: zs)
  case Nil
  then show ?case by simp
next
  case (Cons x xs)
  then obtain z zs' where zs: "zs = z # zs'" by (cases zs) auto
  with Cons.prems have "fst x = fst z" "f (snd x) = f (snd z)" by simp_all
  then have "map_prod (\<lambda>k. k) f x = map_prod (\<lambda>k. k) f z" by (cases x; cases z) simp
  moreover have "map (map_prod (\<lambda>k. k) f) xs = map (map_prod (\<lambda>k. k) f) zs'"
    using Cons.prems zs by (intro Cons.IH) simp_all
  ultimately show ?case using zs by simp
qed

lemma sortObject_same: "same_json a b \<Longrightarrow> sortObject le a = sortObject le b"
proof (induction rule: same_json.induct)
  case (same_refl v)
  then show ?case by simp
next
  case (same_arr xs ys)
  then show ?case using list_all2_sortObject by simp
next
  case (same_obj xs zs ys)
  let ?f = "map_prod (\<lambda>k. k) (sortObject le)"
  have "map (sortObject le) (map snd xs) = map (sortObject le) (map snd zs)"
    using same_obj.IH by (rule list_all2_sortObject)
  then have "map ?f xs = map ?f zs"
    using same_obj.hyps(1) by (rule map_prod_snd_cong)
  moreover have "mset (map ?f zs) = mset (map ?f ys)" using same_obj.hyps(3) by simp
  moreover have "distinct (map fst (map ?f xs))"
    using same_obj.hyps(2) by (simp add: comp_def)
  ultimately have "sort_by le (map ?f xs) = sort_by le (map ?f ys)"
    by (metis sort_by_cong)
  then show ?case by simp
qed

lemma requestHash_same:
  assumes "same_json a b" and "a \<noteq> JNull" and "b \<noteq> JNull"
  shows "createRequestHash le sha m p (Some a) = createRequestHash le sha m p (Some b)"
  using assms(2,3) sortObject_same [OF assms(1)]
  by (simp add: createRequestHash_def body_or_empty_def)

end

lemma to_lower_idem: "to_lower (to_lower c) = to_lower c"
proof (cases "65 \<le> (of_char c :: nat) \<and> (of_char c :: nat) \<le> 90")
  case True
  then have "of_char (char_of (of_char c + 32 :: nat) :: char) = (of_char c + 32 :: nat)" by (simp add: of_char_of)
  with True show ?thesis by (simp add: to_lower_def)
next
  case False
  then have "to_lower c = c" by (auto simp: to_lower_def Let_def)
  then show ?thesis by simp
qed

lemma toLowerCase_idem: "toLowerCase (toLowerCase s) = toLowerCase s"
  by (simp add: toLowerCase_def to_lower_idem)

end
