(* ===== verification/Lifecycles.thy ===== *)
theory Lifecycles
  imports Errors "HOL-Library.Sublist"
begin

text \<open>
  The lifecycle tables of the server and the paths the services take through them:
  \<open>modules/escrows/escrow.state-machine.ts\<close>, \<open>modules/milestones/milestone.state-machine.ts\<close>,
  \<open>modules/agreements/agreement.state-machine.ts\<close>, \<open>modules/disputes/dispute.state-machine.ts\<close> and
  \<open>modules/proofs/proof.lifecycle.ts\<close>.

  A status column is a string; the constructors name the strings of the \<open>as const\<close> lists and the
  last constructor of each type stands for any other string, so that the \<open>is...Status\<close> guards of
  the code keep both of their branches.
\<close>

section \<open>Escrows: escrow.state-machine.ts\<close>

datatype EscrowStatus =
    ES_not_created
  | ES_awaiting_funding
  | ES_funding_detected
  | ES_funded
  | ES_release_pending
  | ES_released
  | ES_refund_pending
  | ES_refunded
  | ES_reconciliation_required
  | ES_failed
  | ES_other string

definition ESCROW_STATUSES :: "EscrowStatus list" where
  "ESCROW_STATUSES = [ES_not_created, ES_awaiting_funding, ES_funding_detected, ES_funded,
     ES_release_pending, ES_released, ES_refund_pending, ES_refunded, ES_reconciliation_required,
     ES_failed]"

fun escrow_transitions :: "EscrowStatus \<Rightarrow> EscrowStatus list" where
  "escrow_transitions ES_not_created = [ES_awaiting_funding, ES_reconciliation_required, ES_failed]"
| "escrow_transitions ES_awaiting_funding =
     [ES_funding_detected, ES_funded, ES_reconciliation_required, ES_failed]"
| "escrow_transitions ES_funding_detected = [ES_funded, ES_reconciliation_required, ES_failed]"
| "escrow_transitions ES_funded = [ES_release_pending, ES_refund_pending, ES_reconciliation_required]"
| "escrow_transitions ES_release_pending = [ES_released, ES_reconciliation_required, ES_failed]"
| "escrow_transitions ES_released = [ES_reconciliation_required]"
| "escrow_transitions ES_refund_pending = [ES_refunded, ES_reconciliation_required, ES_failed]"
| "escrow_transitions ES_refunded = [ES_reconciliation_required]"
| "escrow_transitions ES_reconciliation_required =
     [ES_awaiting_funding, ES_funding_detected, ES_funded, ES_release_pending, ES_released,
      ES_refund_pending, ES_refunded, ES_failed]"
| "escrow_transitions ES_failed = [ES_funded]"
| "escrow_transitions (ES_other _) = []"

definition isEscrowStatus :: "EscrowStatus \<Rightarrow> bool" where
  "isEscrowStatus status = List.member ESCROW_STATUSES status"

definition canTransitionEscrow :: "EscrowStatus \<Rightarrow> EscrowStatus \<Rightarrow> bool" where
  "canTransitionEscrow frm to = List.member (escrow_transitions frm) to"

definition assertEscrowTransition :: "EscrowStatus \<Rightarrow> EscrowStatus \<Rightarrow> error + unit" where
  "assertEscrowTransition frm to =
     res_require (canTransitionEscrow frm to) (invalidRequest ''invalid_state_transition'')"

section \<open>Milestones: milestone.state-machine.ts\<close>

datatype MilestoneStatus =
    MS_pending
  | MS_funding_required
  | MS_funded
  | MS_in_progress
  | MS_proof_submitted
  | MS_under_review
  | MS_approved
  | MS_released
  | MS_rejected
  | MS_disputed
  | MS_refunded
  | MS_cancelled
  | MS_expired
  | MS_other string

definition MILESTONE_STATUSES :: "MilestoneStatus list" where
  "MILESTONE_STATUSES = [MS_pending, MS_funding_required, MS_funded, MS_in_progress,
     MS_proof_submitted, MS_under_review, MS_approved, MS_released, MS_rejected, MS_disputed,
     MS_refunded, MS_cancelled, MS_expired]"

fun milestone_transitions :: "MilestoneStatus \<Rightarrow> MilestoneStatus list" where
  "milestone_transitions MS_pending = [MS_funding_required, MS_funded, MS_in_progress]"
| "milestone_transitions MS_funding_required = [MS_funded, MS_refunded]"
| "milestone_transitions MS_funded = [MS_in_progress, MS_disputed, MS_refunded]"
| "milestone_transitions MS_in_progress = [MS_proof_submitted, MS_disputed]"
| "milestone_transitions MS_proof_submitted = [MS_under_review]"
| "milestone_transitions MS_under_review = [MS_approved, MS_rejected, MS_disputed]"
| "milestone_transitions MS_approved = [MS_released]"
| "milestone_transitions MS_released = []"
| "milestone_transitions MS_rejected = [MS_in_progress]"
| "milestone_transitions MS_disputed = [MS_approved, MS_released, MS_refunded]"
| "milestone_transitions MS_refunded = []"
| "milestone_transitions MS_cancelled = []"
| "milestone_transitions MS_expired = []"
| "milestone_transitions (MS_other _) = []"

definition isMilestoneStatus :: "MilestoneStatus \<Rightarrow> bool" where
  "isMilestoneStatus status = List.member MILESTONE_STATUSES status"

definition canTransitionMilestone :: "MilestoneStatus \<Rightarrow> MilestoneStatus \<Rightarrow> bool" where
  "canTransitionMilestone frm to = List.member (milestone_transitions frm) to"

definition assertMilestoneTransition :: "MilestoneStatus \<Rightarrow> MilestoneStatus \<Rightarrow> error + unit" where
  "assertMilestoneTransition frm to =
     res_require (canTransitionMilestone frm to) (invalidRequest ''invalid_state_transition'')"

section \<open>Agreements: agreement.state-machine.ts\<close>

datatype AgreementStatus =
    AS_draft
  | AS_pending_acceptance
  | AS_accepted
  | AS_funding_required
  | AS_funded
  | AS_in_progress
  | AS_proof_submitted
  | AS_under_review
  | AS_approved
  | AS_release_pending
  | AS_released
  | AS_rejected
  | AS_disputed
  | AS_cancelled
  | AS_refunded
  | AS_expired
  | AS_other string

definition AGREEMENT_STATUSES :: "AgreementStatus list" where
  "AGREEMENT_STATUSES = [AS_draft, AS_pending_acceptance, AS_accepted, AS_funding_required,
     AS_funded, AS_in_progress, AS_proof_submitted, AS_under_review, AS_approved,
     AS_release_pending, AS_released, AS_rejected, AS_disputed, AS_cancelled, AS_refunded,
     AS_expired]"

fun agreement_transitions :: "AgreementStatus \<Rightarrow> AgreementStatus list" where
  "agreement_transitions AS_draft = [AS_pending_acceptance]"
| "agreement_transitions AS_pending_acceptance = [AS_accepted]"
| "agreement_transitions AS_accepted = [AS_funding_required]"
| "agreement_transitions AS_funding_required = [AS_funded, AS_cancelled]"
| "agreement_transitions AS_funded = [AS_in_progress, AS_refunded, AS_disputed]"
| "agreement_transitions AS_in_progress = [AS_proof_submitted, AS_disputed]"
| "agreement_transitions AS_proof_submitted = [AS_under_review]"
| "agreement_transitions AS_under_review = [AS_approved, AS_rejected, AS_disputed]"
| "agreement_transitions AS_approved = [AS_release_pending]"
| "agreement_transitions AS_release_pending = [AS_released]"
| "agreement_transitions AS_released = []"
| "agreement_transitions AS_rejected = [AS_in_progress]"
| "agreement_transitions AS_disputed = [AS_approved, AS_refunded, AS_released]"
| "agreement_transitions AS_cancelled = []"
| "agreement_transitions AS_refunded = []"
| "agreement_transitions AS_expired = [AS_cancelled]"
| "agreement_transitions (AS_other _) = []"

definition isAgreementStatus :: "AgreementStatus \<Rightarrow> bool" where
  "isAgreementStatus status = List.member AGREEMENT_STATUSES status"

definition canTransitionAgreement :: "AgreementStatus \<Rightarrow> AgreementStatus \<Rightarrow> bool" where
  "canTransitionAgreement frm to = List.member (agreement_transitions frm) to"

definition assertAgreementTransition :: "AgreementStatus \<Rightarrow> AgreementStatus \<Rightarrow> error + unit" where
  "assertAgreementTransition frm to =
     res_require (canTransitionAgreement frm to) (invalidRequest ''invalid_state_transition'')"

section \<open>Disputes: dispute.state-machine.ts\<close>

datatype DisputeStatus =
    DS_open
  | DS_awaiting_response
  | DS_under_review
  | DS_resolved_release
  | DS_resolved_refund
  | DS_resolved_split
  | DS_cancelled
  | DS_other string

definition DISPUTE_STATUSES :: "DisputeStatus list" where
  "DISPUTE_STATUSES = [DS_open, DS_awaiting_response, DS_under_review, DS_resolved_release,
     DS_resolved_refund, DS_resolved_split, DS_cancelled]"

datatype DisputeResolutionType = DR_release | DR_refund | DR_split

definition isDisputeStatus :: "DisputeStatus \<Rightarrow> bool" where
  "isDisputeStatus status = List.member DISPUTE_STATUSES status"

definition statusForResolutionType :: "DisputeResolutionType \<Rightarrow> DisputeStatus" where
  "statusForResolutionType resolutionType = (case resolutionType of
       DR_release \<Rightarrow> DS_resolved_release
     | DR_refund \<Rightarrow> DS_resolved_refund
     | DR_split \<Rightarrow> DS_resolved_split)"

fun dispute_status_name :: "DisputeStatus \<Rightarrow> string" where
  "dispute_status_name DS_open = ''open''"
| "dispute_status_name DS_awaiting_response = ''awaiting_response''"
| "dispute_status_name DS_under_review = ''under_review''"
| "dispute_status_name DS_resolved_release = ''resolved_release''"
| "dispute_status_name DS_resolved_refund = ''resolved_refund''"
| "dispute_status_name DS_resolved_split = ''resolved_split''"
| "dispute_status_name DS_cancelled = ''cancelled''"
| "dispute_status_name (DS_other s) = s"

definition assertDisputeResolvable :: "DisputeStatus \<Rightarrow> error + unit" where
  "assertDisputeResolvable status =
     (if prefix ''resolved_'' (dispute_status_name status) \<or> status = DS_cancelled
      then Inl (invalidRequest ''dispute_already_resolved'')
      else if \<not> isDisputeStatus status then Inl (invalidRequest ''invalid_dispute_status'')
      else Inr ())"

definition agreementPathForDisputeOpen :: "AgreementStatus \<Rightarrow> error + AgreementStatus list" where
  "agreementPathForDisputeOpen status =
     (if status = AS_funded \<or> status = AS_in_progress \<or> status = AS_under_review
      then Inr [AS_disputed]
      else if status = AS_proof_submitted then Inr [AS_under_review, AS_disputed]
      else Inl (invalidRequest ''invalid_state_transition''))"

definition milestonePathForDisputeOpen :: "MilestoneStatus \<Rightarrow> error + MilestoneStatus list" where
  "milestonePathForDisputeOpen status =
     (if status = MS_funded \<or> status = MS_in_progress \<or> status = MS_under_review
      then Inr [MS_disputed]
      else if status = MS_proof_submitted then Inr [MS_under_review, MS_disputed]
      else Inl (invalidRequest ''invalid_state_transition''))"

definition agreementPathForDisputeResolution ::
  "AgreementStatus \<Rightarrow> DisputeResolutionType \<Rightarrow> error + AgreementStatus list" where
  "agreementPathForDisputeResolution status resolutionType =
     (if status \<noteq> AS_disputed then Inl (invalidRequest ''invalid_state_transition'')
      else if resolutionType = DR_release then Inr [AS_approved]
      else Inr [])"

definition milestonePathForDisputeResolution ::
  "MilestoneStatus \<Rightarrow> DisputeResolutionType \<Rightarrow> error + MilestoneStatus list" where
  "milestonePathForDisputeResolution status resolutionType =
     (if status \<noteq> MS_disputed then Inl (invalidRequest ''invalid_state_transition'')
      else if resolutionType = DR_release then Inr [MS_approved]
      else Inr [])"

section \<open>Proofs: proof.lifecycle.ts\<close>

datatype ProofStatus =
    PS_submitted
  | PS_under_review
  | PS_accepted
  | PS_rejected
  | PS_needs_changes
  | PS_disputed
  | PS_other string

definition PROOF_STATUSES :: "ProofStatus list" where
  "PROOF_STATUSES = [PS_submitted, PS_under_review, PS_accepted, PS_rejected, PS_needs_changes,
     PS_disputed]"

datatype ReviewDecision = RD_approved | RD_rejected | RD_needs_changes

definition TERMINAL_AGREEMENT_STATUSES :: "AgreementStatus list" where
  "TERMINAL_AGREEMENT_STATUSES = [AS_released, AS_refunded, AS_cancelled, AS_expired]"

definition TERMINAL_MILESTONE_STATUSES :: "MilestoneStatus list" where
  "TERMINAL_MILESTONE_STATUSES = [MS_released, MS_refunded]"

definition isProofStatus :: "ProofStatus \<Rightarrow> bool" where
  "isProofStatus status = List.member PROOF_STATUSES status"

definition assertProofSubmissionAgreementAllowed :: "AgreementStatus \<Rightarrow> error + unit" where
  "assertProofSubmissionAgreementAllowed status =
     (if List.member TERMINAL_AGREEMENT_STATUSES status
      then Inl (invalidRequest ''proof_submission_not_allowed'')
      else if \<not> List.member [AS_funded, AS_in_progress, AS_rejected] status
      then Inl (invalidRequest ''proof_submission_requires_active_agreement'')
      else Inr ())"

definition assertProofSubmissionMilestoneAllowed :: "MilestoneStatus \<Rightarrow> error + unit" where
  "assertProofSubmissionMilestoneAllowed status =
     (if List.member TERMINAL_MILESTONE_STATUSES status
      then Inl (invalidRequest ''proof_submission_not_allowed'')
      else if \<not> List.member [MS_funded, MS_in_progress, MS_rejected] status
      then Inl (invalidRequest ''proof_submission_requires_active_milestone'')
      else Inr ())"

definition agreementPathForProofSubmission :: "AgreementStatus \<Rightarrow> error + AgreementStatus list" where
  "agreementPathForProofSubmission status =
     res_bind (assertProofSubmissionAgreementAllowed status) (\<lambda>_.
       if status = AS_funded then Inr [AS_in_progress, AS_proof_submitted]
       else if status = AS_rejected then Inr [AS_in_progress, AS_proof_submitted]
       else Inr [AS_proof_submitted])"

definition milestonePathForProofSubmission :: "MilestoneStatus \<Rightarrow> error + MilestoneStatus list" where
  "milestonePathForProofSubmission status =
     res_bind (assertProofSubmissionMilestoneAllowed status) (\<lambda>_.
       if status = MS_funded then Inr [MS_in_progress, MS_proof_submitted]
       else if status = MS_rejected then Inr [MS_in_progress, MS_proof_submitted]
       else Inr [MS_proof_submitted])"

definition proofStatusForReviewDecision :: "ReviewDecision \<Rightarrow> ProofStatus" where
  "proofStatusForReviewDecision decision = (case decision of
       RD_approved \<Rightarrow> PS_accepted
     | RD_rejected \<Rightarrow> PS_rejected
     | RD_needs_changes \<Rightarrow> PS_needs_changes)"

definition agreementPathForReviewDecision ::
  "AgreementStatus \<Rightarrow> ReviewDecision \<Rightarrow> error + AgreementStatus list" where
  "agreementPathForReviewDecision status decision =
     (if \<not> List.member [AS_proof_submitted, AS_under_review] status
      then Inl (invalidRequest ''proof_review_invalid_agreement_state'')
      else let path = (if status = AS_proof_submitted then [AS_under_review] else []) in
        Inr (case decision of
            RD_approved \<Rightarrow> path @ [AS_approved]
          | RD_rejected \<Rightarrow> path @ [AS_rejected]
          | RD_needs_changes \<Rightarrow> path @ [AS_rejected, AS_in_progress]))"

definition milestonePathForReviewDecision ::
  "MilestoneStatus \<Rightarrow> ReviewDecision \<Rightarrow> error + MilestoneStatus list" where
  "milestonePathForReviewDecision status decision =
     (if \<not> List.member [MS_proof_submitted, MS_under_review] status
      then Inl (invalidRequest ''proof_review_invalid_milestone_state'')
      else let path = (if status = MS_proof_submitted then [MS_under_review] else []) in
        Inr (case decision of
            RD_approved \<Rightarrow> path @ [MS_approved]
          | RD_rejected \<Rightarrow> path @ [MS_rejected]
          | RD_needs_changes \<Rightarrow> path @ [MS_rejected, MS_in_progress]))"

section \<open>Paths through a transition table\<close>

text \<open>
  The interface of a lifecycle: its transition test. A path is legal from a status when every
  step of it passes the test; the services call the path functions above and then take the path
  step by step, so what matters is that every path they are given is legal.
\<close>

locale lifecycle =
  fixes can :: "'st \<Rightarrow> 'st \<Rightarrow> bool"
    and final :: "'st \<Rightarrow> bool"
  assumes final_stuck: "final a \<Longrightarrow> \<not> can a b"
begin

fun legal :: "'st \<Rightarrow> 'st list \<Rightarrow> bool" where
  "legal a [] = True"
| "legal a (b # bs) = (can a b \<and> legal b bs)"

lemma legal_append: "legal a (bs @ cs) \<longleftrightarrow> legal a bs \<and> legal (last (a # bs)) cs"
  by (induction bs arbitrary: a) auto

lemma legal_reaches: "legal a bs \<Longrightarrow> can\<^sup>*\<^sup>* a (last (a # bs))"
proof (induction bs arbitrary: a)
  case Nil
  then show ?case by simp
next
  case (Cons b bs)
  then have "can a b" and "can\<^sup>*\<^sup>* b (last (b # bs))" by auto
  then show ?case by (auto intro: converse_rtranclp_into_rtranclp)
qed

lemma final_stays: "final a \<Longrightarrow> can\<^sup>*\<^sup>* a b \<Longrightarrow> b = a"
  by (metis converse_rtranclpE final_stuck)

lemma final_no_path: "final a \<Longrightarrow> legal a bs \<Longrightarrow> bs = []"
  by (cases bs) (auto dest: final_stuck)

end

definition agreement_final :: "AgreementStatus \<Rightarrow> bool" where
  "agreement_final s \<longleftrightarrow> agreement_transitions s = []"

definition milestone_final :: "MilestoneStatus \<Rightarrow> bool" where
  "milestone_final s \<longleftrightarrow> milestone_transitions s = []"

interpretation agr: lifecycle canTransitionAgreement agreement_final
  by unfold_locales (simp add: agreement_final_def canTransitionAgreement_def)

interpretation mil: lifecycle canTransitionMilestone milestone_final
  by unfold_locales (simp add: milestone_final_def canTransitionMilestone_def)

interpretation esc: lifecycle canTransitionEscrow "\<lambda>s. escrow_transitions s = []"
  by unfold_locales (simp add: canTransitionEscrow_def)

lemmas can_defs = canTransitionAgreement_def canTransitionMilestone_def canTransitionEscrow_def

lemmas assert_transition_iff [tx_iff] =
  assertAgreementTransition_def assertMilestoneTransition_def assertEscrowTransition_def

lemmas path_defs =
  agreementPathForDisputeOpen_def milestonePathForDisputeOpen_def
  agreementPathForDisputeResolution_def milestonePathForDisputeResolution_def
  agreementPathForProofSubmission_def milestonePathForProofSubmission_def
  agreementPathForReviewDecision_def milestonePathForReviewDecision_def
  assertProofSubmissionAgreementAllowed_def assertProofSubmissionMilestoneAllowed_def

end
