(* ===== verification/Store.thy ===== *)
theory Store
  imports Json Lifecycles
begin

text \<open>
  The database and the environment of the server. One record per Prisma model
  (\<open>server/prisma/schema.prisma\<close>, with the columns of the \<open>...Record\<close> types of the \<open>*.model.ts\<close>
  files), one list of rows per table in the order of insertion, and the clock. A column that always
  holds the output of \<open>JSON.stringify\<close> holds the JSON value itself, except the payload of a webhook
  delivery, whose raw text is what is signed. \<open>env\<close> holds the configuration
  (\<open>server/src/config.ts\<close>) and the functions of other packages. The generic table operations are
  those of the Prisma client the repositories call: \<open>findFirst\<close>, \<open>findMany\<close>, \<open>create\<close>,
  \<open>updateMany\<close> and \<open>deleteMany\<close>; \<open>create\<close> raises \<open>P2002\<close> when the row clashes with a unique
  constraint of the schema or of its migrations.
\<close>

section \<open>Rows\<close>

record agreement =
  ag_id :: string
  ag_appId :: string
  ag_externalReferenceId :: "string option"
  ag_title :: string
  ag_description :: string
  ag_clientExternalId :: string
  ag_workerExternalId :: string
  ag_amount :: string
  ag_currency :: string
  ag_deadlineAt :: int
  ag_releaseMode :: string
  ag_disputeMode :: string
  ag_sourceType :: "string option"
  ag_sourceUrl :: "string option"
  ag_metadata :: json
  ag_status :: AgreementStatus
  ag_settlementStatus :: string
  ag_fundingConfirmedAt :: "int option"
  ag_createdAt :: int
  ag_updatedAt :: int

record milestone =
  ms_id :: string
  ms_appId :: string
  ms_agreementId :: string
  ms_externalReferenceId :: "string option"
  ms_title :: string
  ms_description :: string
  ms_amount :: string
  ms_currency :: string
  ms_sortOrder :: int
  ms_status :: MilestoneStatus
  ms_dueDate :: "int option"
  ms_reviewStartedAt :: "int option"
  ms_reviewDeadlineAt :: "int option"
  ms_createdAt :: int
  ms_updatedAt :: int

record escrow =
  es_id :: string
  es_appId :: string
  es_agreementId :: string
  es_milestoneId :: "string option"
  es_amount :: string
  es_currency :: string
  es_rail :: string
  es_network :: string
  es_status :: EscrowStatus
  es_lockAddress :: "string option"
  es_lockTxHash :: "string option"
  es_lockOutputIndex :: "int option"
  es_lockScript :: "json option"
  es_clientLockScript :: "json option"
  es_workerLockScript :: "json option"
  es_cellData :: "string option"
  es_contractVersion :: "int option"
  es_refundTimeoutSince :: "string option"
  es_releaseTxHash :: "string option"
  es_refundTxHash :: "string option"
  es_createdAt :: int
  es_updatedAt :: int

text \<open>
  The transaction kinds and statuses the services write; \<open>operationId\<close> is the template
  \<open>escrow:<id>:<operation>\<close>, kept as the pair of its two varying parts.
\<close>

datatype TransactionType = TT_lock | TT_release | TT_refund | TT_other string

datatype TransactionStatus =
    TS_pending
  | TS_broadcast
  | TS_committed
  | TS_confirmed
  | TS_reconciliation_required
  | TS_rejected
  | TS_reorged
  | TS_failed
  | TS_other string

record transaction =
  tr_id :: string
  tr_appId :: string
  tr_agreementId :: "string option"
  tr_milestoneId :: "string option"
  tr_escrowId :: "string option"
  tr_type :: TransactionType
  tr_rail :: string
  tr_network :: string
  tr_status :: TransactionStatus
  tr_operationId :: "(string \<times> TransactionType) option"
  tr_txHash :: "string option"
  tr_blockHash :: "string option"
  tr_blockNumber :: "string option"
  tr_confirmations :: int
  tr_lastCheckedAt :: "int option"
  tr_broadcastAt :: "int option"
  tr_confirmedAt :: "int option"
  tr_reconciliationError :: "string option"
  tr_amount :: string
  tr_currency :: string
  tr_rawPayload :: "json option"
  tr_createdAt :: int
  tr_updatedAt :: int

record proof_row =
  pf_id :: string
  pf_appId :: string
  pf_agreementId :: string
  pf_milestoneId :: string
  pf_submittedByExternalId :: string
  pf_proofType :: string
  pf_content :: string
  pf_contentHash :: string
  pf_links :: "string list"
  pf_fileRefs :: "string list"
  pf_status :: ProofStatus
  pf_submittedAt :: int
  pf_updatedAt :: int

record review =
  rv_id :: string
  rv_appId :: string
  rv_agreementId :: string
  rv_milestoneId :: string
  rv_proofSubmissionId :: string
  rv_reviewerExternalId :: string
  rv_decision :: ReviewDecision
  rv_note :: "string option"
  rv_createdAt :: int

record dispute =
  dp_id :: string
  dp_appId :: string
  dp_agreementId :: string
  dp_milestoneId :: string
  dp_openedByExternalId :: string
  dp_reason :: string
  dp_evidenceLinks :: "string list"
  dp_status :: DisputeStatus
  dp_resolutionType :: "DisputeResolutionType option"
  dp_resolutionNote :: "string option"
  dp_workerAmount :: "string option"
  dp_clientAmount :: "string option"
  dp_resolvedAt :: "int option"
  dp_createdAt :: int

record event =
  ev_id :: string
  ev_appId :: string
  ev_type :: string
  ev_agreementId :: "string option"
  ev_milestoneId :: "string option"
  ev_escrowId :: "string option"
  ev_proofSubmissionId :: "string option"
  ev_disputeId :: "string option"
  ev_payload :: json
  ev_createdAt :: int

record webhook_endpoint =
  we_id :: string
  we_appId :: string
  we_url :: string
  we_description :: "string option"
  we_subscribedEvents :: "string list"
  we_secretHash :: "string option"
  we_secretCiphertext :: "string option"
  we_encryptionKeyVersion :: "string option"
  we_status :: string
  we_deletedAt :: "int option"
  we_createdAt :: int
  we_updatedAt :: int

datatype DeliveryStatus = WD_PENDING | WD_DELIVERED | WD_FAILED | WD_RETRY

record webhook_delivery =
  wd_id :: string
  wd_appId :: string
  wd_endpointId :: string
  wd_eventId :: "string option"
  wd_agreementId :: "string option"
  wd_eventType :: string
  wd_payloadJson :: string
  wd_payloadHash :: string
  wd_status :: DeliveryStatus
  wd_statusCode :: "int option"
  wd_responseBodySnippet :: "string option"
  wd_attempts :: nat
  wd_lastError :: "string option"
  wd_nextRetryAt :: "int option"
  wd_deliveredAt :: "int option"
  wd_createdAt :: int
  wd_updatedAt :: int

datatype JobStatus = JS_QUEUED | JS_RUNNING | JS_RETRY | JS_COMPLETED | JS_DEAD_LETTER

text \<open>
  The deduplication keys of jobs are the templates \<open>INFRA_WEBHOOK_DELIVERY:<delivery>:<attempt>\<close>
  and \<open>CKB_RECONCILE_TRANSACTION:<transaction>\<close>, kept as their varying parts.
\<close>

datatype AgentJobKind = DELIVER_WEBHOOK | CKB_RECONCILE_TRANSACTION

datatype dedupe_key = Delivery_key string string | Reconcile_key string

record job_payload =
  jp_agreementId :: "string option"
  jp_deliveryId :: "string option"
  jp_transactionId :: "string option"

record agent_job =
  aj_id :: string
  aj_appId :: string
  aj_agreementId :: "string option"
  aj_kind :: AgentJobKind
  aj_queue :: string
  aj_status :: JobStatus
  aj_dedupeKey :: "dedupe_key option"
  aj_payload :: "job_payload option"
  aj_attempts :: nat
  aj_maxAttempts :: nat
  aj_availableAt :: int
  aj_lockedAt :: "int option"
  aj_lockedBy :: "string option"
  aj_leaseExpiresAt :: "int option"
  aj_lastError :: "string option"
  aj_completedAt :: "int option"
  aj_deadLetteredAt :: "int option"
  aj_createdAt :: int
  aj_updatedAt :: int

datatype IdempotencyStatus = IS_pending | IS_completed

record idempotency_key =
  ik_appId :: string
  ik_key :: string
  ik_requestHash :: string
  ik_status :: IdempotencyStatus
  ik_responseStatus :: "nat option"
  ik_responseBody :: "json option"
  ik_responseBytes :: "nat option"
  ik_processingExpiresAt :: int
  ik_expiresAt :: int

record audit_log =
  al_id :: string
  al_appId :: "string option"
  al_agreementId :: "string option"
  al_actorAddress :: "string option"
  al_actorType :: string
  al_actorId :: "string option"
  al_action :: string
  al_targetType :: string
  al_targetId :: string
  al_before :: "json option"
  al_after :: "json option"
  al_ipAddress :: "string option"
  al_userAgent :: "string option"
  al_requestId :: "string option"
  al_createdAt :: int

section \<open>The database\<close>

record db =
  agreements :: "agreement list"
  milestones :: "milestone list"
  escrows :: "escrow list"
  transactions :: "transaction list"
  proofs :: "proof_row list"
  reviews :: "review list"
  disputes :: "dispute list"
  events :: "event list"
  endpoints :: "webhook_endpoint list"
  deliveries :: "webhook_delivery list"
  jobs :: "agent_job list"
  idempotencyKeys :: "idempotency_key list"
  auditLogs :: "audit_log list"
  clock :: int
  uuidCount :: nat

type_synonym 'a dbtx = "(db, error, 'a) tx"
type_synonym 'a dbproc = "(db, error, 'a) proc"

text \<open>
  The functions of other packages the services call (the SHA-256 of \<open>crypto\<close>, the collation behind
  \<open>localeCompare\<close>, \<open>randomUUID\<close> as the \<open>n\<close>-th identifier drawn) and the settings of \<open>config.ts\<close>.
\<close>

record env =
  sha256 :: "string \<Rightarrow> string"
  localeLE :: "string \<Rightarrow> string \<Rightarrow> bool"
  randomUUID :: "nat \<Rightarrow> string"
  idempotencyProcessingLeaseMs :: int
  idempotencyRetentionMs :: int
  idempotencyMaxResponseBytes :: nat

text \<open>The parts of an Express request the services read.\<close>

record request =
  rq_idempotencyKey :: "string option"
  rq_method :: string
  rq_originalUrl :: string
  rq_body :: "json option"
  rq_requestId :: string
  rq_apiKeyId :: "string option"
  rq_ip :: "string option"
  rq_userAgent :: "string option"

section \<open>Table operations\<close>

definition findFirst :: "('s \<Rightarrow> 'r list) \<Rightarrow> ('r \<Rightarrow> bool) \<Rightarrow> ('s, 'e, 'r option) tx" where
  "findFirst get p = tx_gets (\<lambda>s. List.find p (get s))"

definition findMany :: "('s \<Rightarrow> 'r list) \<Rightarrow> ('r \<Rightarrow> bool) \<Rightarrow> ('s, 'e, 'r list) tx" where
  "findMany get p = tx_gets (\<lambda>s. filter p (get s))"

text \<open>\<open>findFirst\<close> with \<open>orderBy: { key: 'desc' }\<close>\<close>

fun latest_by :: "('r \<Rightarrow> int) \<Rightarrow> 'r list \<Rightarrow> 'r option" where
  "latest_by key [] = None"
| "latest_by key (r # rs) = (case latest_by key rs of
     None \<Rightarrow> Some r
   | Some q \<Rightarrow> if key q < key r then Some r else Some q)"

definition findLatest :: "('s \<Rightarrow> 'r list) \<Rightarrow> ('r \<Rightarrow> int) \<Rightarrow> ('r \<Rightarrow> bool) \<Rightarrow> ('s, 'e, 'r option) tx" where
  "findLatest get key p = tx_gets (\<lambda>s. latest_by key (filter p (get s)))"

definition updateMany ::
  "('s \<Rightarrow> 'r list) \<Rightarrow> (('r list \<Rightarrow> 'r list) \<Rightarrow> 's \<Rightarrow> 's) \<Rightarrow> ('r \<Rightarrow> bool) \<Rightarrow> ('s \<Rightarrow> 'r \<Rightarrow> 'r) \<Rightarrow>
   ('s, 'e, nat) tx" where
  "updateMany get upd p f = (\<lambda>s.
     Inr (length (filter p (get s)), upd (map (\<lambda>r. if p r then f s r else r)) s))"

definition deleteMany ::
  "(('r list \<Rightarrow> 'r list) \<Rightarrow> 's \<Rightarrow> 's) \<Rightarrow> ('r \<Rightarrow> bool) \<Rightarrow> ('s, 'e, unit) tx" where
  "deleteMany upd p = tx_modify (upd (filter (\<lambda>r. \<not> p r)))"

definition insertRow ::
  "('s \<Rightarrow> 'r list) \<Rightarrow> (('r list \<Rightarrow> 'r list) \<Rightarrow> 's \<Rightarrow> 's) \<Rightarrow> ('r \<Rightarrow> 'r \<Rightarrow> bool) \<Rightarrow> 'r \<Rightarrow>
   ('s, error, 'r) tx" where
  "insertRow get upd clash row = (\<lambda>s.
     if list_ex (clash row) (get s) then Inl P2002
     else Inr (row, upd (\<lambda>rows. rows @ [row]) s))"

definition freshId :: "env \<Rightarrow> string dbtx" where
  "freshId E = (\<lambda>s. Inr (randomUUID E (uuidCount s), s\<lparr>uuidCount := Suc (uuidCount s)\<rparr>))"

definition now :: "int dbtx" where
  "now = tx_gets clock"

lemma findFirst_iff [tx_iff]: "findFirst get p s = Inr r \<longleftrightarrow> r = (List.find p (get s), s)"
  by (auto simp: findFirst_def tx_iff)

lemma findMany_iff [tx_iff]: "findMany get p s = Inr r \<longleftrightarrow> r = (filter p (get s), s)"
  by (auto simp: findMany_def tx_iff)

lemma findLatest_iff [tx_iff]:
  "findLatest get key p s = Inr r \<longleftrightarrow> r = (latest_by key (filter p (get s)), s)"
  by (auto simp: findLatest_def tx_iff)

lemma updateMany_iff [tx_iff]:
  "updateMany get upd p f s = Inr r \<longleftrightarrow>
     r = (length (filter p (get s)), upd (map (\<lambda>r. if p r then f s r else r)) s)"
  by (auto simp: updateMany_def)

lemma deleteMany_iff [tx_iff]:
  "deleteMany upd p s = Inr r \<longleftrightarrow> r = ((), upd (filter (\<lambda>r. \<not> p r)) s)"
  by (auto simp: deleteMany_def tx_iff)

lemma insertRow_iff [tx_iff]:
  "insertRow get upd clash row s = Inr r \<longleftrightarrow>
     (\<forall>q\<in>set (get s). \<not> clash row q) \<and> r = (row, upd (\<lambda>rows. rows @ [row]) s)"
  by (auto simp: insertRow_def list_ex_iff)

lemma freshId_iff [tx_iff]:
  "freshId E s = Inr r \<longleftrightarrow> r = (randomUUID E (uuidCount s), s\<lparr>uuidCount := Suc (uuidCount s)\<rparr>)"
  by (auto simp: freshId_def)

lemma now_iff [tx_iff]: "now s = Inr r \<longleftrightarrow> r = (clock s, s)"
  by (auto simp: now_def tx_iff)

lemma latest_by_in: "latest_by key rs = Some r \<Longrightarrow> r \<in> set rs"
  by (induction rs) (auto split: option.splits if_splits)

lemma latest_by_None: "latest_by key rs = None \<longleftrightarrow> rs = []"
  by (cases rs) (auto split: option.splits)

section \<open>Tenants: tenant-context.ts\<close>

definition tenantContext :: "string \<Rightarrow> error + string" where
  "tenantContext appId = (let normalized = trim appId in
     if normalized = [] then Inl (JsError ''Tenant context requires a non-empty appId.'')
     else Inr normalized)"

lemma dropWhile_twice: "dropWhile p (dropWhile p xs) = dropWhile p xs"
  by (induction xs) auto

lemma dropWhile_hd: "dropWhile p xs \<noteq> [] \<Longrightarrow> \<not> p (hd (dropWhile p xs))"
  by (rule hd_dropWhile)

lemma dropWhile_rev_fix:
  assumes "ys = [] \<or> \<not> p (hd ys)"
  shows "dropWhile p (rev (dropWhile p (rev ys))) = rev (dropWhile p (rev ys))"
proof (cases "rev (dropWhile p (rev ys))")
  case (Cons z zs)
  have "ys = rev (dropWhile p (rev ys)) @ rev (takeWhile p (rev ys))"
    by (metis rev_append rev_rev_ident takeWhile_dropWhile_id)
  with Cons have "hd ys = z" and "ys \<noteq> []" by (metis append_Cons list.sel(1), auto)
  with assms Cons show ?thesis by simp
next
  case Nil
  then show ?thesis by (metis dropWhile.simps(1))
qed

lemma dropWhile_rev_dropWhile:
  "dropWhile p (rev (dropWhile p (rev (dropWhile p xs)))) = rev (dropWhile p (rev (dropWhile p xs)))"
  by (rule dropWhile_rev_fix) (use dropWhile_hd [of p xs] in blast)

lemma trim_idem: "trim (trim s) = trim s"
  by (simp add: trim_def dropWhile_rev_dropWhile dropWhile_twice)

lemma tenantContext_idem: "tenantContext a = Inr t \<Longrightarrow> tenantContext t = Inr t"
  by (auto simp: tenantContext_def Let_def trim_idem split: if_splits)

section \<open>Updates through a table\<close>

text \<open>
  The interface between the repositories and the tables: a table is read with \<open>get\<close> and changed
  with \<open>upd\<close>. What a successful compare-and-swap on a table means is proved once, here.
\<close>

locale table =
  fixes get :: "'s \<Rightarrow> 'r list"
    and upd :: "('r list \<Rightarrow> 'r list) \<Rightarrow> 's \<Rightarrow> 's"
  assumes get_upd: "get (upd f s) = f (get s)"
begin

lemma update_get:
  "updateMany get upd p f s = Inr (n, t) \<Longrightarrow>
     n = length (filter p (get s)) \<and> get t = map (\<lambda>r. if p r then f s r else r) (get s)"
  by (auto simp: updateMany_def get_upd)

lemma update_one:
  assumes "updateMany get upd p f s = Inr (1, t)"
  obtains pre r post where "get s = pre @ r # post" and "p r"
    and "get t = pre @ f s r # post" and "filter p pre = []" and "filter p post = []"
proof -
  from assms have n: "length (filter p (get s)) = 1"
    and t: "get t = map (\<lambda>r. if p r then f s r else r) (get s)"
    using update_get [OF assms] by auto
  from n obtain r where "filter p (get s) = [r]" by (metis One_nat_def length_0_conv length_Suc_conv)
  then obtain pre post where s: "get s = pre @ r # post" and "\<forall>x\<in>set pre. \<not> p x" and "p r"
    and "filter p post = []"
    by (auto simp: filter_eq_Cons_iff)
  moreover from this have "filter p pre = []" by simp
  moreover have "map (\<lambda>r. if p r then f s r else r) pre = pre"
    "map (\<lambda>r. if p r then f s r else r) post = post"
    using calculation by (auto simp: filter_empty_conv intro: map_idI)
  ultimately show ?thesis using that t by auto
qed

lemma insert_get:
  "insertRow get upd clash row s = Inr (x, t) \<Longrightarrow>
     x = row \<and> get t = get s @ [row] \<and> (\<forall>q\<in>set (get s). \<not> clash row q)"
  by (auto simp: tx_iff get_upd)

lemma delete_get: "deleteMany upd p s = Inr (x, t) \<Longrightarrow> get t = filter (\<lambda>r. \<not> p r) (get s)"
  by (auto simp: tx_iff get_upd)

end

interpretation agreementT: table agreements agreements_update by unfold_locales simp
interpretation milestoneT: table milestones milestones_update by unfold_locales simp
interpretation escrowT: table escrows escrows_update by unfold_locales simp
interpretation transactionT: table transactions transactions_update by unfold_locales simp
interpretation proofT: table proofs proofs_update by unfold_locales simp
interpretation reviewT: table reviews reviews_update by unfold_locales simp
interpretation disputeT: table disputes disputes_update by unfold_locales simp
interpretation eventT: table events events_update by unfold_locales simp
interpretation endpointT: table endpoints endpoints_update by unfold_locales simp
interpretation deliveryT: table deliveries deliveries_update by unfold_locales simp
interpretation jobT: table jobs jobs_update by unfold_locales simp
interpretation idempotencyT: table idempotencyKeys idempotencyKeys_update by unfold_locales simp
interpretation auditT: table auditLogs auditLogs_update by unfold_locales simp


section \<open>What a read or an insertion contributes\<close>

context step_order
begin

lemma resp_findFirst_bind:
  assumes "\<And>v. (\<And>r. v = Some r \<Longrightarrow> p r) \<Longrightarrow> resp (f v)"
  shows "resp (tx_bind (findFirst get p) f)"
proof (rule respI)
  fix s x t
  assume "tx_bind (findFirst get p) f s = Inr (x, t)"
  then have "f (List.find p (get s)) s = Inr (x, t)" by (auto simp: tx_iff)
  moreover have "resp (f (List.find p (get s)))"
    by (rule assms) (auto simp: find_Some_iff)
  ultimately show "R s t" using respD by metis
qed

lemma resp_findMany_bind:
  assumes "\<And>rs. (\<And>r. r \<in> set rs \<Longrightarrow> p r) \<Longrightarrow> resp (f rs)"
  shows "resp (tx_bind (findMany get p) f)"
proof (rule respI)
  fix s x t
  assume "tx_bind (findMany get p) f s = Inr (x, t)"
  then have "f (filter p (get s)) s = Inr (x, t)" by (auto simp: tx_iff)
  moreover have "resp (f (filter p (get s)))" by (rule assms) auto
  ultimately show "R s t" using respD by metis
qed

lemma resp_insert_bind:
  assumes "resp (insertRow get upd c row)" and "resp (f row)"
  shows "resp (tx_bind (insertRow get upd c row) f)"
proof (rule respI)
  fix s x t
  assume "tx_bind (insertRow get upd c row) f s = Inr (x, t)"
  then obtain r u where "insertRow get upd c row s = Inr (r, u)" and "f r u = Inr (x, t)"
    by (auto simp: tx_bind_iff)
  moreover from this have "r = row" by (auto simp: insertRow_iff)
  ultimately show "R s t" using assms respD R_trans by metis
qed

lemma resp_update:
  "(\<And>s. R s (upd (map (\<lambda>r. if p r then f s r else r)) s)) \<Longrightarrow> resp (updateMany get upd p f)"
  by (auto simp: resp_def tx_iff)

lemma resp_insert:
  "(\<And>s. (\<forall>q\<in>set (get s). \<not> c row q) \<Longrightarrow> R s (upd (\<lambda>rows. rows @ [row]) s)) \<Longrightarrow>
     resp (insertRow get upd c row)"
  by (auto simp: resp_def tx_iff)

lemma resp_delete: "(\<And>s. R s (upd (filter (\<lambda>r. \<not> p r)) s)) \<Longrightarrow> resp (deleteMany upd p)"
  by (auto simp: resp_def tx_iff)

lemma resp_reads:
  "resp (findFirst get p)" "resp (findMany get p)" "resp (findLatest get key p)"
  by (auto simp: resp_def tx_iff R_refl)

lemma resp_iterate_mem:
  "(\<And>x. x \<in> set xs \<Longrightarrow> resp (f x)) \<Longrightarrow> resp (tx_iterate f xs)"
  by (induction xs) (auto intro: resp_return resp_then)

lemmas store_rules =
  resp_findFirst_bind resp_insert_bind resp_rules resp_reads

end

section \<open>Rows along a lifecycle\<close>

text \<open>
  The contract of a table whose rows follow a lifecycle: the terms of a row (everything but its
  status and the columns that record progress) never change, its status only moves along the
  lifecycle, new rows start in the initial status, and a row disappears only while it is in the
  initial status and the table allows it (\<open>erasable\<close>).
\<close>

locale lifecycle_rows = lifecycle can final
  for can :: "'st \<Rightarrow> 'st \<Rightarrow> bool" and final :: "'st \<Rightarrow> bool" +
  fixes status :: "'r \<Rightarrow> 'st"
    and terms :: "'r \<Rightarrow> 'k"
    and initial :: 'st
    and erasable :: bool
  assumes initial_source: "\<not> can a initial"
begin

definition row_le :: "'r \<Rightarrow> 'r \<Rightarrow> bool" where
  "row_le x y \<longleftrightarrow> terms x = terms y \<and> can\<^sup>*\<^sup>* (status x) (status y)"

definition fresh :: "'r \<Rightarrow> bool" where
  "fresh x \<longleftrightarrow> can\<^sup>*\<^sup>* initial (status x)"

definition rows_le :: "'r list \<Rightarrow> 'r list \<Rightarrow> bool" where
  "rows_le xs ys \<longleftrightarrow> (\<forall>y\<in>set ys. (\<exists>x\<in>set xs. row_le x y) \<or> fresh y)
     \<and> (\<forall>x\<in>set xs. \<not> (erasable \<and> status x = initial) \<longrightarrow> (\<exists>y\<in>set ys. row_le x y))"

lemma row_le_refl: "row_le x x"
  by (simp add: row_le_def)

lemma row_le_trans: "row_le x y \<Longrightarrow> row_le y z \<Longrightarrow> row_le x z"
  by (auto simp: row_le_def intro: rtranclp_trans)

lemma initial_only: "can\<^sup>*\<^sup>* a initial \<Longrightarrow> a = initial"
  by (metis initial_source rtranclp.cases)

lemma fresh_le: "fresh x \<Longrightarrow> row_le x y \<Longrightarrow> fresh y"
  by (auto simp: fresh_def row_le_def intro: rtranclp_trans)

lemma row_le_initial: "row_le x y \<Longrightarrow> status y = initial \<Longrightarrow> status x = initial"
  unfolding row_le_def using initial_only by metis

lemma rows_le_refl: "rows_le xs xs"
  by (auto simp: rows_le_def intro: row_le_refl)

lemma rows_le_trans:
  assumes "rows_le xs ys" and "rows_le ys zs"
  shows "rows_le xs zs"
  unfolding rows_le_def
proof (intro conjI ballI impI)
  fix z assume "z \<in> set zs"
  then consider y where "y \<in> set ys" "row_le y z" | "fresh z"
    using assms(2) by (auto simp: rows_le_def)
  then show "(\<exists>x\<in>set xs. row_le x z) \<or> fresh z"
  proof cases
    case 1
    then have "(\<exists>x\<in>set xs. row_le x y) \<or> fresh y" using assms(1) by (auto simp: rows_le_def)
    with 1(2) show ?thesis using row_le_trans fresh_le by blast
  qed simp
next
  fix x assume "x \<in> set xs" and k: "\<not> (erasable \<and> status x = initial)"
  then obtain y where y: "y \<in> set ys" "row_le x y" using assms(1) by (auto simp: rows_le_def)
  with k have "\<not> (erasable \<and> status y = initial)" using row_le_initial by blast
  with y(1) obtain z where "z \<in> set zs" "row_le y z" using assms(2) by (auto simp: rows_le_def)
  with y(2) show "\<exists>z\<in>set zs. row_le x z" using row_le_trans by blast
qed

lemma rows_le_map:
  assumes "\<And>x. p x \<Longrightarrow> row_le x (f x)"
  shows "rows_le xs (map (\<lambda>x. if p x then f x else x) xs)"
proof -
  have "row_le x (if p x then f x else x)" for x using assms row_le_refl by simp
  then show ?thesis unfolding rows_le_def set_map by blast
qed

lemma rows_le_snoc: "status x = initial \<Longrightarrow> rows_le xs (xs @ [x])"
  by (auto simp: rows_le_def fresh_def intro: row_le_refl)

lemma rows_le_filter:
  "(\<And>x. \<not> p x \<Longrightarrow> erasable \<and> status x = initial) \<Longrightarrow> rows_le xs (filter p xs)"
  by (auto simp: rows_le_def intro: row_le_refl)

text \<open>A row that has reached a final status stays as it is, except for the columns outside its terms.\<close>

lemma final_row_stays: "final (status x) \<Longrightarrow> row_le x y \<Longrightarrow> status y = status x"
  by (auto simp: row_le_def dest: final_stays)

end

end
