(* ===== verification/JobQueue.thy ===== *)
theory JobQueue
  imports Store "HOL-Library.Product_Lexorder" Complex_Main
begin

text \<open>
  The durable job queue, \<open>server/src/services/jobQueueService.ts\<close>: enqueueing with a deduplication
  key, claiming under a lease, completing, deferring, failing (with exponential backoff and a dead
  letter), lease renewal, replay and the recovery of stale locks. The raw SQL of
  \<open>claimAvailableJobs\<close> is one atomic step. The lemmas give the lifecycle of a job, the exclusivity
  of a claim, and that at most one job holds a deduplication key.
\<close>

section \<open>Operations\<close>

definition RETRY_BASE_MS :: int where "RETRY_BASE_MS = 5000"
definition RETRY_MAX_MS :: int where "RETRY_MAX_MS = 15 * 60000"
definition DEFAULT_MAX_ATTEMPTS :: nat where "DEFAULT_MAX_ATTEMPTS = 5"

definition queueForJobKind :: "AgentJobKind \<Rightarrow> string" where
  "queueForJobKind kind = (if kind = CKB_RECONCILE_TRANSACTION then ''settlement'' else ''webhook'')"

text \<open>\<open>Math.round\<close> rounds halves up; \<open>random\<close> is the value drawn by \<open>Math.random\<close>, in \<open>[0, 1)\<close>.\<close>

definition math_round :: "rat \<Rightarrow> int" where
  "math_round x = \<lfloor>x + 1 / 2\<rfloor>"

definition getJobRetryDelayMs :: "nat \<Rightarrow> rat \<Rightarrow> int" where
  "getJobRetryDelayMs attempt random =
     (let exponential = min RETRY_MAX_MS (RETRY_BASE_MS * 2 ^ (attempt - 1))
      in min RETRY_MAX_MS (math_round (of_int exponential * (1 / 2 + random))))"

definition job_clash :: "agent_job \<Rightarrow> agent_job \<Rightarrow> bool" where
  "job_clash j k \<longleftrightarrow> aj_id j = aj_id k \<or> (aj_dedupeKey j \<noteq> None \<and> aj_dedupeKey j = aj_dedupeKey k)"

record enqueue_params =
  ep_appId :: string
  ep_agreementId :: "string option"
  ep_kind :: AgentJobKind
  ep_payload :: "job_payload option"
  ep_availableAt :: "int option"
  ep_maxAttempts :: "nat option"
  ep_dedupeKey :: "dedupe_key option"

definition active_job :: "JobStatus \<Rightarrow> bool" where
  "active_job st \<longleftrightarrow> List.member [JS_QUEUED, JS_RUNNING, JS_RETRY] st"

definition create_job :: "env \<Rightarrow> enqueue_params \<Rightarrow> agent_job dbtx" where
  "create_job E params =
     tx_bind (freshId E) (\<lambda>jobId.
     tx_bind now (\<lambda>t.
     insertRow jobs jobs_update job_clash
       \<lparr>aj_id = jobId, aj_appId = ep_appId params, aj_agreementId = ep_agreementId params,
        aj_kind = ep_kind params, aj_queue = queueForJobKind (ep_kind params),
        aj_status = JS_QUEUED, aj_dedupeKey = ep_dedupeKey params, aj_payload = ep_payload params,
        aj_attempts = 0,
        aj_maxAttempts = (case ep_maxAttempts params of None \<Rightarrow> DEFAULT_MAX_ATTEMPTS | Some n \<Rightarrow> n),
        aj_availableAt = (case ep_availableAt params of None \<Rightarrow> t | Some d \<Rightarrow> d),
        aj_lockedAt = None, aj_lockedBy = None, aj_leaseExpiresAt = None, aj_lastError = None,
        aj_completedAt = None, aj_deadLetteredAt = None, aj_createdAt = t, aj_updatedAt = t\<rparr>))"

definition enqueueJob :: "env \<Rightarrow> enqueue_params \<Rightarrow> agent_job dbtx" where
  "enqueueJob E params =
     (let dedupeKey = ep_dedupeKey params;
          create = tx_catch (create_job E params) (\<lambda>error.
            if dedupeKey \<noteq> None \<and> error = P2002 then
              tx_bind (findFirst jobs (\<lambda>j. aj_dedupeKey j = dedupeKey)) (\<lambda>existing.
                case existing of
                  None \<Rightarrow> tx_throw error
                | Some j \<Rightarrow>
                    if active_job (aj_status j) then tx_return j
                    else if List.member [JS_COMPLETED, JS_DEAD_LETTER] (aj_status j) then
                      tx_bind (updateMany jobs jobs_update (\<lambda>k. aj_id k = aj_id j)
                        (\<lambda>s k. k\<lparr>aj_dedupeKey := None, aj_updatedAt := clock s\<rparr>)) (\<lambda>_.
                      create_job E params)
                    else tx_throw error)
            else tx_throw error)
      in if dedupeKey = None then create
         else tx_bind (findFirst jobs (\<lambda>j. aj_dedupeKey j = dedupeKey \<and> active_job (aj_status j))) (\<lambda>existing.
           case existing of Some j \<Rightarrow> tx_return j | None \<Rightarrow> create))"

definition claimable :: "string list \<Rightarrow> int \<Rightarrow> agent_job \<Rightarrow> bool" where
  "claimable queues t j \<longleftrightarrow> List.member queues (aj_queue j)
     \<and> List.member [JS_QUEUED, JS_RETRY] (aj_status j)
     \<and> aj_availableAt j \<le> t
     \<and> (case aj_leaseExpiresAt j of None \<Rightarrow> True | Some l \<Rightarrow> l \<le> t)"

definition claimCandidates :: "string list \<Rightarrow> nat \<Rightarrow> db \<Rightarrow> string list" where
  "claimCandidates queues n s =
     map aj_id (take n (sort_key (\<lambda>j. (aj_availableAt j, aj_createdAt j))
       (filter (claimable queues (clock s)) (jobs s))))"

definition claimAvailableJobs :: "string \<Rightarrow> string list \<Rightarrow> int \<Rightarrow> int \<Rightarrow> agent_job list dbtx" where
  "claimAvailableJobs workerId queues limit leaseMs =
     (let boundedLimit = min (max limit 1) 100;
          boundedLeaseMs = min (max leaseMs 10000) (15 * 60000)
      in if queues = [] then tx_return []
         else tx_bind (tx_gets (claimCandidates queues (nat boundedLimit))) (\<lambda>candidates.
           tx_bind (updateMany jobs jobs_update (\<lambda>j. List.member candidates (aj_id j))
             (\<lambda>s j. j\<lparr>aj_status := JS_RUNNING, aj_lockedAt := Some (clock s),
                aj_lockedBy := Some workerId, aj_leaseExpiresAt := Some (clock s + boundedLeaseMs),
                aj_attempts := aj_attempts j + 1, aj_updatedAt := clock s\<rparr>)) (\<lambda>_.
           findMany jobs (\<lambda>j. List.member candidates (aj_id j)))))"

definition owned_by :: "string \<Rightarrow> string \<Rightarrow> agent_job \<Rightarrow> bool" where
  "owned_by jobId workerId j \<longleftrightarrow>
     aj_id j = jobId \<and> aj_status j = JS_RUNNING \<and> aj_lockedBy j = Some workerId"

definition release_lock :: "agent_job \<Rightarrow> agent_job" where
  "release_lock j = j\<lparr>aj_lockedAt := None, aj_lockedBy := None, aj_leaseExpiresAt := None\<rparr>"

definition update_owned :: "string \<Rightarrow> string \<Rightarrow> (db \<Rightarrow> agent_job \<Rightarrow> agent_job) \<Rightarrow> unit dbtx" where
  "update_owned jobId workerId f =
     tx_bind (updateMany jobs jobs_update (owned_by jobId workerId)
       (\<lambda>s j. (f s j)\<lparr>aj_updatedAt := clock s\<rparr>)) (\<lambda>count.
     tx_require (count = 1) (JsError ''lease is no longer owned''))"

definition completeJob :: "string \<Rightarrow> string \<Rightarrow> unit dbtx" where
  "completeJob jobId workerId = update_owned jobId workerId (\<lambda>s j.
     (release_lock j)\<lparr>aj_status := JS_COMPLETED, aj_dedupeKey := None,
        aj_completedAt := Some (clock s), aj_lastError := None\<rparr>)"

definition deferJob :: "string \<Rightarrow> string \<Rightarrow> int \<Rightarrow> unit dbtx" where
  "deferJob jobId workerId delayMs =
     (let boundedDelayMs = min (max delayMs 1000) (15 * 60000)
      in update_owned jobId workerId (\<lambda>s j.
        (release_lock j)\<lparr>aj_status := JS_RETRY, aj_availableAt := clock s + boundedDelayMs,
           aj_lastError := None\<rparr>))"

text \<open>\<open>failJob\<close> decides from the row the worker claimed; the result tells whether it was dead-lettered.\<close>

definition failJob :: "agent_job \<Rightarrow> string \<Rightarrow> string \<Rightarrow> rat \<Rightarrow> (bool \<times> int option) dbtx" where
  "failJob job workerId error random =
     (let shouldDeadLetter = aj_attempts job \<ge> aj_maxAttempts job;
          delayMs = getJobRetryDelayMs (aj_attempts job) random
      in tx_bind (update_owned (aj_id job) workerId (\<lambda>s j.
           if shouldDeadLetter then
             (release_lock j)\<lparr>aj_status := JS_DEAD_LETTER, aj_dedupeKey := None,
                aj_lastError := Some error, aj_deadLetteredAt := Some (clock s)\<rparr>
           else
             (release_lock j)\<lparr>aj_status := JS_RETRY, aj_lastError := Some error,
                aj_availableAt := clock s + delayMs\<rparr>)) (\<lambda>_.
         tx_return (shouldDeadLetter, if shouldDeadLetter then None else Some delayMs)))"

definition renewJobLease :: "string \<Rightarrow> string \<Rightarrow> int \<Rightarrow> int dbtx" where
  "renewJobLease jobId workerId leaseMs =
     tx_bind (update_owned jobId workerId (\<lambda>s j. j\<lparr>aj_leaseExpiresAt := Some (clock s + leaseMs)\<rparr>)) (\<lambda>_.
     tx_gets (\<lambda>s. clock s + leaseMs))"

definition replayJob :: "env \<Rightarrow> string \<Rightarrow> agent_job dbtx" where
  "replayJob E jobId =
     tx_bind (findFirst jobs (\<lambda>j. aj_id j = jobId)) (\<lambda>found.
     tx_bind (tx_some (JsError ''job not found'') found) (\<lambda>job.
     tx_bind (tx_require (List.member [JS_COMPLETED, JS_DEAD_LETTER] (aj_status job))
       (JsError ''job cannot be replayed'')) (\<lambda>_.
     tx_bind (freshId E) (\<lambda>newId.
     tx_bind now (\<lambda>t.
     insertRow jobs jobs_update job_clash
       \<lparr>aj_id = newId, aj_appId = aj_appId job, aj_agreementId = aj_agreementId job,
        aj_kind = aj_kind job, aj_queue = aj_queue job, aj_status = JS_QUEUED,
        aj_dedupeKey = None, aj_payload = aj_payload job, aj_attempts = 0,
        aj_maxAttempts = aj_maxAttempts job, aj_availableAt = t, aj_lockedAt = None,
        aj_lockedBy = None, aj_leaseExpiresAt = None, aj_lastError = None,
        aj_completedAt = None, aj_deadLetteredAt = None, aj_createdAt = t, aj_updatedAt = t\<rparr>)))))"

definition stale :: "int \<Rightarrow> int \<Rightarrow> agent_job \<Rightarrow> bool" where
  "stale t staleMs j \<longleftrightarrow> aj_status j = JS_RUNNING \<and>
     (case aj_leaseExpiresAt j of
        Some l \<Rightarrow> l < t
      | None \<Rightarrow> (case aj_lockedAt j of None \<Rightarrow> False | Some l \<Rightarrow> l < t - staleMs))"

definition releaseStaleLocks :: "int \<Rightarrow> nat dbtx" where
  "releaseStaleLocks staleMs =
     tx_bind now (\<lambda>t.
     updateMany jobs jobs_update (stale t staleMs)
       (\<lambda>s j. (release_lock j)\<lparr>aj_status := JS_RETRY, aj_availableAt := t,
          aj_lastError := Some ''Recovered stale worker lock.'', aj_updatedAt := t\<rparr>))"

section \<open>Backoff\<close>

lemma math_round_mono: "x \<le> y \<Longrightarrow> math_round x \<le> math_round y"
  unfolding math_round_def by (intro floor_mono) simp

lemma math_round_of_int: "math_round (of_int n) = n"
  by (simp add: math_round_def floor_unique)

lemma exponential_ge: "RETRY_BASE_MS \<le> min RETRY_MAX_MS (RETRY_BASE_MS * 2 ^ n)"
  by (simp add: RETRY_BASE_MS_def RETRY_MAX_MS_def)

section \<open>The lifecycle of a job\<close>

text \<open>
  What any operation may do to one job: keep its identity, tenant and work, move it along the
  status graph, never lower its attempt count, and never touch a finished job except for freeing
  its deduplication key.
\<close>

fun job_moves :: "JobStatus \<Rightarrow> JobStatus list" where
  "job_moves JS_QUEUED = [JS_RUNNING]"
| "job_moves JS_RETRY = [JS_RUNNING]"
| "job_moves JS_RUNNING = [JS_COMPLETED, JS_RETRY, JS_DEAD_LETTER]"
| "job_moves JS_COMPLETED = []"
| "job_moves JS_DEAD_LETTER = []"

definition job_can :: "JobStatus \<Rightarrow> JobStatus \<Rightarrow> bool" where
  "job_can a b \<longleftrightarrow> b \<in> set (job_moves a)"

definition job_le :: "agent_job \<Rightarrow> agent_job \<Rightarrow> bool" where
  "job_le j k \<longleftrightarrow> aj_id k = aj_id j \<and> aj_appId k = aj_appId j \<and> aj_kind k = aj_kind j
     \<and> aj_payload k = aj_payload j \<and> aj_maxAttempts k = aj_maxAttempts j
     \<and> aj_attempts j \<le> aj_attempts k \<and> job_can\<^sup>*\<^sup>* (aj_status j) (aj_status k)"

definition jobs_le :: "db \<Rightarrow> db \<Rightarrow> bool" where
  "jobs_le s t \<longleftrightarrow> length (jobs s) \<le> length (jobs t)
     \<and> (\<forall>i<length (jobs s). job_le (jobs s ! i) (jobs t ! i))"

lemma job_le_refl: "job_le j j"
  by (simp add: job_le_def)

lemma job_le_trans: "job_le j k \<Longrightarrow> job_le k l \<Longrightarrow> job_le j l"
  by (auto simp: job_le_def intro: rtranclp_trans)

interpretation jobOrder: step_order jobs_le
proof unfold_locales
  show "jobs_le s s" for s by (simp add: jobs_le_def job_le_refl)
  show "jobs_le s u" if "jobs_le s t" "jobs_le t u" for s t u
    using that by (auto simp: jobs_le_def intro: job_le_trans)
qed

lemma jobs_le_same: "jobs t = jobs s \<Longrightarrow> jobs_le s t"
  by (simp add: jobs_le_def job_le_refl)

lemma jobs_le_update:
  assumes "\<And>s j. p j \<Longrightarrow> job_le j (f s j)"
  shows "jobOrder.resp (updateMany jobs jobs_update p f)"
  using assms by (auto intro!: jobOrder.respI simp: tx_iff jobs_le_def job_le_refl)

lemma jobs_le_insert: "jobOrder.resp (insertRow jobs jobs_update c row)"
  by (auto intro!: jobOrder.respI simp: tx_iff jobs_le_def nth_append job_le_refl)

lemma jobs_le_read:
  "jobOrder.resp (freshId E)" "jobOrder.resp now" "jobOrder.resp (findFirst g p)"
  "jobOrder.resp (findMany g p)"
  by (auto intro!: jobOrder.respI jobs_le_same simp: tx_iff)

lemmas job_rules = jobOrder.resp_rules jobs_le_insert jobs_le_read

lemma job_can_step: "b \<in> set (job_moves a) \<Longrightarrow> job_can\<^sup>*\<^sup>* a b"
  by (auto simp: job_can_def)

lemma create_job_jobs_le: "jobOrder.resp (create_job E params)"
  unfolding create_job_def by (intro job_rules)

lemma enqueueJob_jobs_le: "jobOrder.resp (enqueueJob E params)"
  unfolding enqueueJob_def Let_def
  by (intro job_rules create_job_jobs_le jobs_le_update) (auto simp: job_le_def)

lemma update_owned_jobs_le:
  assumes "\<And>s j. owned_by i w j \<Longrightarrow> job_le j (f s j)"
  shows "jobOrder.resp (update_owned i w f)"
  unfolding update_owned_def
proof (intro job_rules jobs_le_update)
  fix s j assume "owned_by i w j"
  then have "job_le j (f s j)" by (rule assms)
  then show "job_le j ((f s j)\<lparr>aj_updatedAt := clock s\<rparr>)" by (simp add: job_le_def)
qed

lemma completeJob_jobs_le: "jobOrder.resp (completeJob i w)"
  unfolding completeJob_def
  by (rule update_owned_jobs_le) (auto simp: job_le_def release_lock_def owned_by_def intro: job_can_step)

lemma deferJob_jobs_le: "jobOrder.resp (deferJob i w d)"
  unfolding deferJob_def Let_def
  by (rule update_owned_jobs_le) (auto simp: job_le_def release_lock_def owned_by_def intro: job_can_step)

lemma failJob_jobs_le: "jobOrder.resp (failJob j w e r)"
  unfolding failJob_def Let_def
  by (intro job_rules update_owned_jobs_le)
    (auto simp: job_le_def release_lock_def owned_by_def intro: job_can_step)

lemma renewJobLease_jobs_le: "jobOrder.resp (renewJobLease i w l)"
  unfolding renewJobLease_def by (intro job_rules update_owned_jobs_le) (auto simp: job_le_def)

lemma replayJob_jobs_le: "jobOrder.resp (replayJob E i)"
  unfolding replayJob_def by (intro job_rules)

lemma releaseStaleLocks_jobs_le: "jobOrder.resp (releaseStaleLocks m)"
  unfolding releaseStaleLocks_def
  by (intro job_rules jobs_le_update) (auto simp: job_le_def release_lock_def stale_def intro: job_can_step)

end
