(* ===== verification/Events.thy ===== *)
theory Events
  imports JobQueue
begin

text \<open>
  The outbox of the server: lifecycle events (\<open>modules/events/event.repository.ts\<close>), the webhook
  deliveries and delivery jobs created with them in the same transaction
  (\<open>modules/webhooks/webhook.repository.ts\<close>), and the audit log
  (\<open>modules/audit-logs/audit-log.repository.ts\<close>).
\<close>

section \<open>webhook.events.ts\<close>

definition INFRASTRUCTURE_EVENT_TYPES :: "string list" where
  "INFRASTRUCTURE_EVENT_TYPES = [
     ''agreement.created'', ''agreement.accepted'', ''agreement.cancelled'',
     ''agreement.funding_required'', ''agreement.funded'', ''agreement.in_progress'',
     ''agreement.released'', ''agreement.refunded'',
     ''milestone.created'', ''milestone.funded'', ''milestone.proof_submitted'',
     ''milestone.approved'', ''milestone.released'',
     ''escrow.created'', ''escrow.funding_detected'', ''escrow.funded'',
     ''escrow.release_pending'', ''escrow.released'', ''escrow.refund_pending'',
     ''escrow.refunded'', ''escrow.failed'',
     ''proof.submitted'', ''proof.under_review'', ''proof.approved'', ''proof.rejected'',
     ''proof.needs_changes'', ''dispute.opened'', ''dispute.resolved'',
     ''webhook.delivery_failed'']"

definition isInfrastructureEventType :: "string \<Rightarrow> bool" where
  "isInfrastructureEventType value = List.member INFRASTRUCTURE_EVENT_TYPES value"

section \<open>Webhook deliveries of an event: webhook.repository.ts\<close>

definition buildDeliveryPayload :: "event \<Rightarrow> string" where
  "buildDeliveryPayload e = stringify (JObj [
     (''id'', JStr (ev_id e)),
     (''appId'', JStr (ev_appId e)),
     (''type'', JStr (ev_type e)),
     (''agreementId'', jstr_opt (ev_agreementId e)),
     (''milestoneId'', jstr_opt (ev_milestoneId e)),
     (''escrowId'', jstr_opt (ev_escrowId e)),
     (''proofSubmissionId'', jstr_opt (ev_proofSubmissionId e)),
     (''disputeId'', jstr_opt (ev_disputeId e)),
     (''data'', ev_payload e),
     (''createdAt'', jdate (ev_createdAt e))])"

definition delivery_clash :: "webhook_delivery \<Rightarrow> webhook_delivery \<Rightarrow> bool" where
  "delivery_clash d e \<longleftrightarrow> wd_id d = wd_id e"

definition subscribed :: "event \<Rightarrow> webhook_endpoint \<Rightarrow> bool" where
  "subscribed e w \<longleftrightarrow> we_appId w = ev_appId e \<and> we_status w = ''active'' \<and> we_deletedAt w = None
     \<and> List.member (we_subscribedEvents w) (ev_type e)"

definition createDeliveryFor :: "env \<Rightarrow> event \<Rightarrow> webhook_endpoint \<Rightarrow> unit dbtx" where
  "createDeliveryFor E e w =
     (let payloadJson = buildDeliveryPayload e in
     tx_bind (freshId E) (\<lambda>deliveryId.
     tx_bind now (\<lambda>t.
     tx_bind (insertRow deliveries deliveries_update delivery_clash
       \<lparr>wd_id = deliveryId, wd_appId = ev_appId e, wd_endpointId = we_id w, wd_eventId = Some (ev_id e),
        wd_agreementId = ev_agreementId e, wd_eventType = ev_type e, wd_payloadJson = payloadJson,
        wd_payloadHash = sha256 E payloadJson, wd_status = WD_PENDING, wd_statusCode = None,
        wd_responseBodySnippet = None, wd_attempts = 0, wd_lastError = None, wd_nextRetryAt = None,
        wd_deliveredAt = None, wd_createdAt = t, wd_updatedAt = t\<rparr>) (\<lambda>delivery.
     tx_bind (freshId E) (\<lambda>jobId.
     tx_bind (insertRow jobs jobs_update job_clash
       \<lparr>aj_id = jobId, aj_appId = ev_appId e, aj_agreementId = ev_agreementId e,
        aj_kind = DELIVER_WEBHOOK, aj_queue = ''webhook'', aj_status = JS_QUEUED,
        aj_dedupeKey = Some (Delivery_key (wd_id delivery) ''0''),
        aj_payload = Some \<lparr>jp_agreementId = ev_agreementId e, jp_deliveryId = Some (wd_id delivery),
          jp_transactionId = None\<rparr>,
        aj_attempts = 0, aj_maxAttempts = 1, aj_availableAt = t, aj_lockedAt = None,
        aj_lockedBy = None, aj_leaseExpiresAt = None, aj_lastError = None,
        aj_completedAt = None, aj_deadLetteredAt = None, aj_createdAt = t, aj_updatedAt = t\<rparr>) (\<lambda>_.
     tx_return ()))))))"

definition createWebhookDeliveriesForEvent :: "env \<Rightarrow> event \<Rightarrow> unit dbtx" where
  "createWebhookDeliveriesForEvent E e =
     tx_bind (findMany endpoints (subscribed e)) (\<lambda>es. tx_iterate (createDeliveryFor E e) es)"

section \<open>event.repository.ts\<close>

record event_data =
  ed_type :: string
  ed_agreementId :: "string option"
  ed_milestoneId :: "string option"
  ed_escrowId :: "string option"
  ed_proofSubmissionId :: "string option"
  ed_disputeId :: "string option"
  ed_payload :: json

definition event_clash :: "event \<Rightarrow> event \<Rightarrow> bool" where
  "event_clash e f \<longleftrightarrow> ev_id e = ev_id f"

definition createEvent :: "env \<Rightarrow> string \<Rightarrow> event_data \<Rightarrow> event dbtx" where
  "createEvent E appId data =
     tx_bind (freshId E) (\<lambda>eventId.
     tx_bind now (\<lambda>t.
     tx_bind (insertRow events events_update event_clash
       \<lparr>ev_id = eventId, ev_appId = appId, ev_type = ed_type data, ev_agreementId = ed_agreementId data,
        ev_milestoneId = ed_milestoneId data, ev_escrowId = ed_escrowId data,
        ev_proofSubmissionId = ed_proofSubmissionId data, ev_disputeId = ed_disputeId data,
        ev_payload = ed_payload data, ev_createdAt = t\<rparr>) (\<lambda>event.
     tx_bind (createWebhookDeliveriesForEvent E event) (\<lambda>_.
     tx_return event))))"

text \<open>Event data for the resources the services name; the other references are null.\<close>

definition agreement_event :: "string \<Rightarrow> string \<Rightarrow> json \<Rightarrow> event_data" where
  "agreement_event ty a p = \<lparr>ed_type = ty, ed_agreementId = Some a, ed_milestoneId = None,
     ed_escrowId = None, ed_proofSubmissionId = None, ed_disputeId = None, ed_payload = p\<rparr>"

definition serializeEvent :: "event \<Rightarrow> json" where
  "serializeEvent e = JObj [
     (''id'', JStr (ev_id e)),
     (''appId'', JStr (ev_appId e)),
     (''type'', JStr (ev_type e)),
     (''agreementId'', jstr_opt (ev_agreementId e)),
     (''milestoneId'', jstr_opt (ev_milestoneId e)),
     (''escrowId'', jstr_opt (ev_escrowId e)),
     (''proofSubmissionId'', jstr_opt (ev_proofSubmissionId e)),
     (''disputeId'', jstr_opt (ev_disputeId e)),
     (''payload'', ev_payload e),
     (''createdAt'', jdate (ev_createdAt e))]"

section \<open>audit-log.repository.ts\<close>

record audit_input =
  ai_appId :: "string option"
  ai_agreementId :: "string option"
  ai_actorType :: string
  ai_actorId :: "string option"
  ai_actorAddress :: "string option"
  ai_action :: string
  ai_targetType :: string
  ai_targetId :: string
  ai_before :: "json option"
  ai_after :: "json option"
  ai_ipAddress :: "string option"
  ai_userAgent :: "string option"
  ai_requestId :: "string option"

definition audit_clash :: "audit_log \<Rightarrow> audit_log \<Rightarrow> bool" where
  "audit_clash a b \<longleftrightarrow> al_id a = al_id b"

definition createInfrastructureAuditLog :: "env \<Rightarrow> audit_input \<Rightarrow> audit_log dbtx" where
  "createInfrastructureAuditLog E input =
     tx_bind (freshId E) (\<lambda>logId.
     tx_bind now (\<lambda>t.
     insertRow auditLogs auditLogs_update audit_clash
       \<lparr>al_id = logId, al_appId = ai_appId input, al_agreementId = ai_agreementId input,
        al_actorAddress = ai_actorAddress input, al_actorType = ai_actorType input,
        al_actorId = ai_actorId input, al_action = ai_action input,
        al_targetType = ai_targetType input, al_targetId = ai_targetId input,
        al_before = ai_before input, al_after = ai_after input, al_ipAddress = ai_ipAddress input,
        al_userAgent = ai_userAgent input, al_requestId = ai_requestId input, al_createdAt = t\<rparr>))"

text \<open>The audit helpers of the services: an API-key actor with the request's address and agent.\<close>

definition auditRequest ::
  "env \<Rightarrow> request \<Rightarrow> string \<Rightarrow> string \<Rightarrow> string \<Rightarrow> string \<Rightarrow> string \<Rightarrow> json option \<Rightarrow> json option \<Rightarrow> audit_log dbtx" where
  "auditRequest E req appId agreementId targetType targetId action beforeRow after =
     createInfrastructureAuditLog E
       \<lparr>ai_appId = Some appId, ai_agreementId = Some agreementId, ai_actorType = ''api_key'',
        ai_actorId = rq_apiKeyId req, ai_actorAddress = None, ai_action = action,
        ai_targetType = targetType, ai_targetId = targetId, ai_before = beforeRow, ai_after = after,
        ai_ipAddress = rq_ip req, ai_userAgent = rq_userAgent req,
        ai_requestId = Some (rq_requestId req)\<rparr>"

definition serializeAuditLog :: "audit_log \<Rightarrow> json" where
  "serializeAuditLog l = JObj [
     (''id'', JStr (al_id l)),
     (''appId'', jstr_opt (al_appId l)),
     (''agreementId'', jstr_opt (al_agreementId l)),
     (''actorType'', JStr (al_actorType l)),
     (''actorId'', jstr_opt (al_actorId l)),
     (''actorAddress'', jstr_opt (al_actorAddress l)),
     (''action'', JStr (al_action l)),
     (''targetType'', JStr (al_targetType l)),
     (''targetId'', JStr (al_targetId l)),
     (''before'', (case al_before l of None \<Rightarrow> JNull | Some v \<Rightarrow> v)),
     (''after'', (case al_after l of None \<Rightarrow> JNull | Some v \<Rightarrow> v)),
     (''ipAddress'', jstr_opt (al_ipAddress l)),
     (''userAgent'', jstr_opt (al_userAgent l)),
     (''requestId'', jstr_opt (al_requestId l)),
     (''createdAt'', jdate (al_createdAt l))]"

section \<open>What the outbox leaves alone\<close>

text \<open>
  \<open>core s\<close> is the part of the database that holds agreements, milestones, escrows, transactions,
  proofs, reviews, disputes, endpoints and idempotency keys. Writing events, deliveries, jobs and
  audit entries never changes it, nor the clock.
\<close>

definition core :: "db \<Rightarrow> db" where
  "core s = s\<lparr>events := [], deliveries := [], jobs := [], auditLogs := [], uuidCount := 0\<rparr>"

lemma core_simps [simp]:
  "core (s\<lparr>events := a\<rparr>) = core s" "core (s\<lparr>deliveries := b\<rparr>) = core s"
  "core (s\<lparr>jobs := c\<rparr>) = core s" "core (s\<lparr>auditLogs := d\<rparr>) = core s"
  "core (s\<lparr>uuidCount := n\<rparr>) = core s"
  by (simp_all add: core_def)

lemma core_field_update [simp]:
  "core (events_update f s) = core s" "core (deliveries_update g s) = core s"
  "core (jobs_update h s) = core s" "core (auditLogs_update k s) = core s"
  by (cases s; simp add: core_def)+

lemma core_eqD:
  assumes "core t = core s"
  shows "agreements t = agreements s" "milestones t = milestones s" "escrows t = escrows s"
    "transactions t = transactions s" "proofs t = proofs s" "reviews t = reviews s"
    "disputes t = disputes s" "endpoints t = endpoints s" "idempotencyKeys t = idempotencyKeys s"
    "clock t = clock s"
proof -
  have "agreements (core t) = agreements (core s)" "milestones (core t) = milestones (core s)"
    "escrows (core t) = escrows (core s)" "transactions (core t) = transactions (core s)"
    "proofs (core t) = proofs (core s)" "reviews (core t) = reviews (core s)"
    "disputes (core t) = disputes (core s)" "endpoints (core t) = endpoints (core s)"
    "idempotencyKeys (core t) = idempotencyKeys (core s)" "clock (core t) = clock (core s)"
    using assms by simp_all
  then show "agreements t = agreements s" "milestones t = milestones s" "escrows t = escrows s"
    "transactions t = transactions s" "proofs t = proofs s" "reviews t = reviews s"
    "disputes t = disputes s" "endpoints t = endpoints s" "idempotencyKeys t = idempotencyKeys s"
    "clock t = clock s"
    by (simp_all add: core_def)
qed

interpretation coreFrame: step_order "\<lambda>s t. core t = core s"
  by unfold_locales simp_all

lemma core_read:
  "coreFrame.resp (freshId E)" "coreFrame.resp now" "coreFrame.resp (findFirst g p)"
  "coreFrame.resp (findMany g p)"
  by (auto intro!: coreFrame.respI simp: tx_iff)

lemma core_insert:
  "coreFrame.resp (insertRow events events_update c e)"
  "coreFrame.resp (insertRow deliveries deliveries_update c' d)"
  "coreFrame.resp (insertRow jobs jobs_update c'' j)"
  "coreFrame.resp (insertRow auditLogs auditLogs_update c''' a)"
  by (auto intro!: coreFrame.respI simp: tx_iff)

lemma core_update_jobs: "coreFrame.resp (updateMany jobs jobs_update p f)"
  by (auto intro!: coreFrame.respI simp: tx_iff)

lemmas core_rules = coreFrame.resp_rules core_read core_insert core_update_jobs

lemma createWebhookDeliveriesForEvent_core: "coreFrame.resp (createWebhookDeliveriesForEvent E e)"
  unfolding createWebhookDeliveriesForEvent_def createDeliveryFor_def Let_def by (intro core_rules)

lemma createEvent_core: "coreFrame.resp (createEvent E a d)"
  unfolding createEvent_def by (intro core_rules createWebhookDeliveriesForEvent_core)

lemma createInfrastructureAuditLog_core: "coreFrame.resp (createInfrastructureAuditLog E i)"
  unfolding createInfrastructureAuditLog_def by (intro core_rules)

lemma auditRequest_core: "coreFrame.resp (auditRequest E r a b c d e f g)"
  unfolding auditRequest_def by (rule createInfrastructureAuditLog_core)

lemma enqueueJob_core: "coreFrame.resp (enqueueJob E p)"
  unfolding enqueueJob_def create_job_def Let_def by (intro core_rules)

lemmas outbox_core =
  createEvent_core [THEN coreFrame.respD] auditRequest_core [THEN coreFrame.respD]
  createInfrastructureAuditLog_core [THEN coreFrame.respD] enqueueJob_core [THEN coreFrame.respD]

section \<open>The log is append-only\<close>

text \<open>
  No operation of the server removes or rewrites an event or an audit entry: what was recorded
  before an operation is a prefix of what is recorded after it.
\<close>

definition log_le :: "db \<Rightarrow> db \<Rightarrow> bool" where
  "log_le s t \<longleftrightarrow> prefix (events s) (events t) \<and> prefix (auditLogs s) (auditLogs t)"

interpretation logOrder: step_order log_le
  by unfold_locales (auto simp: log_le_def)

lemma log_same: "events t = events s \<Longrightarrow> auditLogs t = auditLogs s \<Longrightarrow> log_le s t"
  by (simp add: log_le_def)

lemma log_read:
  "logOrder.resp (freshId E)" "logOrder.resp now" "logOrder.resp (findFirst g p)"
  "logOrder.resp (findMany g p)" "logOrder.resp (findLatest g k p)"
  by (auto intro!: logOrder.respI log_same simp: tx_iff)

lemma log_insert:
  "logOrder.resp (insertRow events events_update c1 e)"
  "logOrder.resp (insertRow auditLogs auditLogs_update c2 l)"
  "logOrder.resp (insertRow deliveries deliveries_update c3 d)"
  "logOrder.resp (insertRow jobs jobs_update c4 j)"
  "logOrder.resp (insertRow agreements agreements_update c5 a)"
  "logOrder.resp (insertRow milestones milestones_update c6 m)"
  "logOrder.resp (insertRow escrows escrows_update c7 x)"
  "logOrder.resp (insertRow transactions transactions_update c8 tr)"
  "logOrder.resp (insertRow proofs proofs_update c9 p)"
  "logOrder.resp (insertRow reviews reviews_update c10 r)"
  "logOrder.resp (insertRow disputes disputes_update c11 dp)"
  "logOrder.resp (insertRow idempotencyKeys idempotencyKeys_update c12 k)"
  by (auto intro!: logOrder.respI simp: tx_iff log_le_def)

lemma log_update:
  "logOrder.resp (updateMany deliveries deliveries_update p1 f1)"
  "logOrder.resp (updateMany jobs jobs_update p2 f2)"
  "logOrder.resp (updateMany agreements agreements_update p3 f3)"
  "logOrder.resp (updateMany milestones milestones_update p4 f4)"
  "logOrder.resp (updateMany escrows escrows_update p5 f5)"
  "logOrder.resp (updateMany transactions transactions_update p6 f6)"
  "logOrder.resp (updateMany proofs proofs_update p7 f7)"
  "logOrder.resp (updateMany disputes disputes_update p8 f8)"
  "logOrder.resp (updateMany idempotencyKeys idempotencyKeys_update p9 f9)"
  "logOrder.resp (updateMany endpoints endpoints_update p10 f10)"
  by (auto intro!: logOrder.respI simp: tx_iff log_le_def)

lemma log_delete:
  "logOrder.resp (deleteMany idempotencyKeys_update p1)"
  "logOrder.resp (deleteMany escrows_update p2)"
  "logOrder.resp (deleteMany transactions_update p3)"
  by (auto intro!: logOrder.respI simp: tx_iff log_le_def)

lemmas log_base = logOrder.resp_rules log_read log_insert log_update log_delete

lemma createEvent_log: "logOrder.resp (createEvent E a d)"
  unfolding createEvent_def createWebhookDeliveriesForEvent_def createDeliveryFor_def Let_def
  by (intro log_base)

lemma createInfrastructureAuditLog_log: "logOrder.resp (createInfrastructureAuditLog E i)"
  unfolding createInfrastructureAuditLog_def by (intro log_base)

lemma auditRequest_log: "logOrder.resp (auditRequest E r a b c d e f g)"
  unfolding auditRequest_def by (rule createInfrastructureAuditLog_log)

lemma enqueueJob_log: "logOrder.resp (enqueueJob E p)"
  unfolding enqueueJob_def create_job_def Let_def by (intro log_base)

lemmas log_rules =
  log_base createEvent_log auditRequest_log createInfrastructureAuditLog_log enqueueJob_log

end
