(* ===== verification/Idempotency.thy ===== *)
theory Idempotency
  imports Events
begin

text \<open>
  Idempotent mutations: \<open>server/src/common/idempotency/idempotency.repository.ts\<close> and
  \<open>idempotency.service.ts\<close>. A request reserves its \<open>Idempotency-Key\<close> in a transaction of its own,
  runs in a second one that also stores the response, and removes the reservation when the second
  fails. The lemmas show that a completed request is replayed without any further effect, that a
  key is never accepted for a different request, and that a failed request leaves the database as
  it was.
\<close>

section \<open>idempotency.repository.ts\<close>

definition key_is :: "string \<Rightarrow> string \<Rightarrow> idempotency_key \<Rightarrow> bool" where
  "key_is appId key k \<longleftrightarrow> ik_appId k = appId \<and> ik_key k = key"

definition findIdempotencyKey :: "string \<Rightarrow> string \<Rightarrow> idempotency_key option dbtx" where
  "findIdempotencyKey appId key = findFirst idempotencyKeys (key_is appId key)"

definition idempotency_clash :: "idempotency_key \<Rightarrow> idempotency_key \<Rightarrow> bool" where
  "idempotency_clash k l \<longleftrightarrow> ik_appId k = ik_appId l \<and> ik_key k = ik_key l"

definition reserveIdempotencyKey :: "env \<Rightarrow> string \<Rightarrow> string \<Rightarrow> string \<Rightarrow> idempotency_key dbtx" where
  "reserveIdempotencyKey E appId key requestHash =
     tx_bind now (\<lambda>t.
     insertRow idempotencyKeys idempotencyKeys_update idempotency_clash
       \<lparr>ik_appId = appId, ik_key = key, ik_requestHash = requestHash, ik_status = IS_pending,
        ik_responseStatus = None, ik_responseBody = None, ik_responseBytes = None,
        ik_processingExpiresAt = t + idempotencyProcessingLeaseMs E,
        ik_expiresAt = t + idempotencyRetentionMs E\<rparr>)"

definition completeIdempotencyKey ::
  "env \<Rightarrow> string \<Rightarrow> string \<Rightarrow> string \<Rightarrow> nat \<Rightarrow> json \<Rightarrow> nat \<Rightarrow> unit dbtx" where
  "completeIdempotencyKey E appId key requestHash responseStatus responseBody responseBytes =
     tx_bind (updateMany idempotencyKeys idempotencyKeys_update (key_is appId key)
       (\<lambda>s k. k\<lparr>ik_requestHash := requestHash, ik_status := IS_completed,
          ik_responseStatus := Some responseStatus, ik_responseBody := Some responseBody,
          ik_responseBytes := Some responseBytes,
          ik_expiresAt := clock s + idempotencyRetentionMs E\<rparr>)) (\<lambda>count.
     tx_require (count \<noteq> 0) P2025)"

definition expired_key :: "int \<Rightarrow> idempotency_key \<Rightarrow> bool" where
  "expired_key t k \<longleftrightarrow> ik_expiresAt k \<le> t \<or> (ik_status k = IS_pending \<and> ik_processingExpiresAt k \<le> t)"

definition deleteExpiredIdempotencyKey :: "string \<Rightarrow> string \<Rightarrow> unit dbtx" where
  "deleteExpiredIdempotencyKey appId key =
     tx_bind now (\<lambda>t. deleteMany idempotencyKeys_update (\<lambda>k. key_is appId key k \<and> expired_key t k))"

definition cleanupExpiredIdempotencyKeys :: "unit dbtx" where
  "cleanupExpiredIdempotencyKeys = tx_bind now (\<lambda>t. deleteMany idempotencyKeys_update (expired_key t))"

definition deletePendingIdempotencyKey :: "string \<Rightarrow> string \<Rightarrow> string \<Rightarrow> unit dbtx" where
  "deletePendingIdempotencyKey appId key requestHash =
     deleteMany idempotencyKeys_update
       (\<lambda>k. key_is appId key k \<and> ik_requestHash k = requestHash \<and> ik_status k = IS_pending)"

section \<open>idempotency.service.ts\<close>

record context_key =
  ctx_key :: string
  ctx_requestHash :: string

record replay_row =
  rp_statusCode :: nat
  rp_body :: json

text \<open>The header, trimmed, or the error the service throws for it.\<close>

definition idempotencyHeader :: "request \<Rightarrow> error + string" where
  "idempotencyHeader req = (case rq_idempotencyKey req of
       None \<Rightarrow> Inl (invalidRequest ''idempotency_key_required'')
     | Some raw \<Rightarrow> (let key = trim raw in
         if key = [] then Inl (invalidRequest ''idempotency_key_required'')
         else if length key > 200 then Inl (invalidRequest ''idempotency_key_too_long'')
         else Inr key))"

definition requestHashOf :: "env \<Rightarrow> request \<Rightarrow> string" where
  "requestHashOf E req = createRequestHash (localeLE E) (sha256 E) (rq_method req)
     (takeWhile (\<lambda>c. c \<noteq> CHR ''?'') (rq_originalUrl req)) (rq_body req)"

text \<open>What the service does with the row it found under the key.\<close>

definition judgeExisting ::
  "context_key \<Rightarrow> idempotency_key option \<Rightarrow> error + (context_key \<times> replay_row option)" where
  "judgeExisting ctx existing = (case existing of
       None \<Rightarrow> Inr (ctx, None)
     | Some k \<Rightarrow>
         if ik_requestHash k \<noteq> ctx_requestHash ctx then Inl (conflict ''idempotency_key_conflict'')
         else case (ik_status k, ik_responseStatus k, ik_responseBody k) of
             (IS_completed, Some st, Some body) \<Rightarrow>
               Inr (ctx, Some \<lparr>rp_statusCode = st, rp_body = body\<rparr>)
           | _ \<Rightarrow> Inl (conflict ''idempotency_key_in_progress''))"

definition getIdempotencyReplay ::
  "env \<Rightarrow> request \<Rightarrow> string \<Rightarrow> (context_key \<times> replay_row option) dbproc" where
  "getIdempotencyReplay E req appId =
     pr_bind (pr_lift (idempotencyHeader req)) (\<lambda>key.
     let ctx = \<lparr>ctx_key = key, ctx_requestHash = requestHashOf E req\<rparr> in
     pr_bind (atomically (findIdempotencyKey appId key)) (\<lambda>found.
     pr_bind (atomically now) (\<lambda>t.
     pr_bind (case found of
         Some k \<Rightarrow> if expired_key t k
           then pr_bind (atomically (deleteExpiredIdempotencyKey appId key)) (\<lambda>_.
             atomically (findIdempotencyKey appId key))
           else pr_return (Some k)
       | None \<Rightarrow> pr_return None) (\<lambda>existing.
     pr_lift (judgeExisting ctx existing)))))"

definition reserveIdempotentRequest :: "env \<Rightarrow> string \<Rightarrow> context_key \<Rightarrow> idempotency_key dbtx" where
  "reserveIdempotentRequest E appId ctx =
     reserveIdempotencyKey E appId (ctx_key ctx) (ctx_requestHash ctx)"

definition storeIdempotentResponse :: "env \<Rightarrow> string \<Rightarrow> context_key \<Rightarrow> nat \<Rightarrow> json \<Rightarrow> unit dbtx" where
  "storeIdempotentResponse E appId ctx st body =
     (let responseBytes = byteLength body in
     tx_bind (tx_require (\<not> responseBytes > idempotencyMaxResponseBytes E)
       (invalidRequest ''idempotency_response_too_large'')) (\<lambda>_.
     completeIdempotencyKey E appId (ctx_key ctx) (ctx_requestHash ctx) st body responseBytes))"

definition clearPendingIdempotentRequest :: "string \<Rightarrow> context_key \<Rightarrow> unit dbtx" where
  "clearPendingIdempotentRequest appId ctx =
     deletePendingIdempotencyKey appId (ctx_key ctx) (ctx_requestHash ctx)"

text \<open>\<open>replay.body.data\<close>, the member of a stored response envelope.\<close>

fun member_of :: "string \<Rightarrow> json \<Rightarrow> json" where
  "member_of name (JObj kvs) = (case map_of kvs name of None \<Rightarrow> JNull | Some v \<Rightarrow> v)"
| "member_of name _ = JNull"

definition envelope :: "request \<Rightarrow> json \<Rightarrow> json" where
  "envelope req data = JObj [(''data'', data), (''requestId'', JStr (rq_requestId req))]"

text \<open>The \<open>catch\<close> block of \<open>runIdempotentTransaction\<close>; \<open>reserved\<close> is its local flag.\<close>

definition idempotentFailure :: "env \<Rightarrow> request \<Rightarrow> string \<Rightarrow> context_key \<Rightarrow> bool \<Rightarrow> error \<Rightarrow> json dbproc" where
  "idempotentFailure E req appId ctx reserved error =
     pr_bind (if isUniqueConstraintError error
        then pr_bind (getIdempotencyReplay E req appId) (\<lambda>r. pr_return (snd r))
        else pr_return None) (\<lambda>replayAfterRace.
     case replayAfterRace of
       Some r \<Rightarrow> pr_return (member_of ''data'' (rp_body r))
     | None \<Rightarrow>
         pr_bind (if reserved then atomically (clearPendingIdempotentRequest appId ctx)
           else pr_return ()) (\<lambda>_. pr_throw error))"

definition runIdempotentTransaction ::
  "env \<Rightarrow> request \<Rightarrow> string \<Rightarrow> nat \<Rightarrow> (context_key \<Rightarrow> json dbtx) \<Rightarrow> json dbproc" where
  "runIdempotentTransaction E req appId st run =
     pr_bind (getIdempotencyReplay E req appId) (\<lambda>(ctx, replay).
     case replay of
       Some r \<Rightarrow> pr_return (member_of ''data'' (rp_body r))
     | None \<Rightarrow> (\<lambda>s. case atomically (reserveIdempotentRequest E appId ctx) s of
           (Inl error, s1) \<Rightarrow> idempotentFailure E req appId ctx False error s1
         | (Inr _, s1) \<Rightarrow>
             pr_catch (atomically (tx_bind (run ctx) (\<lambda>result.
                 tx_bind (storeIdempotentResponse E appId ctx st (envelope req result)) (\<lambda>_.
                 tx_return result))))
               (idempotentFailure E req appId ctx True) s1))"

section \<open>Replays, conflicts and failures\<close>

lemma member_of_envelope [simp]: "member_of ''data'' (envelope req v) = v"
  by (simp add: envelope_def)

text \<open>The state the lookup leaves: the entry under the key is gone when it had expired.\<close>

definition sweepKey :: "string \<Rightarrow> string \<Rightarrow> db \<Rightarrow> db" where
  "sweepKey appId key s = (case List.find (key_is appId key) (idempotencyKeys s) of
       Some k \<Rightarrow> if expired_key (clock s) k
         then idempotencyKeys_update (filter (\<lambda>k. \<not> (key_is appId key k \<and> expired_key (clock s) k))) s
         else s
     | None \<Rightarrow> s)"

lemma getIdempotencyReplay_eq:
  assumes "idempotencyHeader req = Inr key"
  shows "getIdempotencyReplay E req appId s =
    (let s' = sweepKey appId key s in
      (judgeExisting \<lparr>ctx_key = key, ctx_requestHash = requestHashOf E req\<rparr>
         (List.find (key_is appId key) (idempotencyKeys s')), s'))"
  using assms
  by (auto simp: getIdempotencyReplay_def sweepKey_def findIdempotencyKey_def findFirst_def
      deleteExpiredIdempotencyKey_def deleteMany_def now_def tx_defs pr_defs Let_def
      split: option.splits)

lemma getIdempotencyReplay_header:
  "idempotencyHeader req = Inl e \<Longrightarrow> getIdempotencyReplay E req appId s = (Inl e, s)"
  by (simp add: getIdempotencyReplay_def pr_defs)

lemma sweepKey_clock [simp]: "clock (sweepKey a k s) = clock s"
  by (auto simp: sweepKey_def split: option.splits)

lemma find_filter_None: "List.find p xs = None \<Longrightarrow> List.find p (filter q xs) = None"
  by (auto simp: find_None_iff)

lemma sweepKey_live:
  "List.find (key_is a k) (idempotencyKeys s) = Some e \<Longrightarrow> \<not> expired_key (clock s) e \<Longrightarrow> sweepKey a k s = s"
  by (simp add: sweepKey_def)

text \<open>The table never holds two entries for one key: the unique constraint of the schema.\<close>

definition keys_unique :: "db \<Rightarrow> bool" where
  "keys_unique s \<longleftrightarrow> distinct (map (\<lambda>k. (ik_appId k, ik_key k)) (idempotencyKeys s))"

lemma find_snoc: "List.find p (xs @ [x]) = (case List.find p xs of None \<Rightarrow> if p x then Some x else None | Some y \<Rightarrow> Some y)"
  by (induction xs) auto

lemma find_map_preserving:
  "(\<And>x. p (f x) = p x) \<Longrightarrow> List.find p (map f xs) = map_option f (List.find p xs)"
  by (induction xs) auto

lemma key_is_complete [simp]:
  "key_is a k (e\<lparr>ik_requestHash := h, ik_status := st, ik_responseStatus := rs, ik_responseBody := b,
     ik_responseBytes := n, ik_expiresAt := x\<rparr>) = key_is a k e"
  by (simp add: key_is_def)

lemma storeIdempotentResponse_find:
  assumes "storeIdempotentResponse E a ctx st body s = Inr (u, t)"
  shows "clock t = clock s \<and> (\<exists>e. List.find (key_is a (ctx_key ctx)) (idempotencyKeys t) = Some e
     \<and> ik_requestHash e = ctx_requestHash ctx \<and> ik_status e = IS_completed
     \<and> ik_responseStatus e = Some st \<and> ik_responseBody e = Some body
     \<and> ik_expiresAt e = clock s + idempotencyRetentionMs E)"
proof -
  let ?p = "key_is a (ctx_key ctx)"
  let ?f = "\<lambda>k. k\<lparr>ik_requestHash := ctx_requestHash ctx, ik_status := IS_completed,
     ik_responseStatus := Some st, ik_responseBody := Some body,
     ik_responseBytes := Some (byteLength body), ik_expiresAt := clock s + idempotencyRetentionMs E\<rparr>"
  let ?g = "\<lambda>k. if ?p k then ?f k else k"
  from assms have t: "t = idempotencyKeys_update (map ?g) s"
    and ne: "filter ?p (idempotencyKeys s) \<noteq> []"
    by (auto simp: storeIdempotentResponse_def completeIdempotencyKey_def Let_def tx_iff)
  have "List.find ?p (idempotencyKeys s) \<noteq> None"
    using ne by (auto simp: find_None_iff filter_empty_conv)
  then obtain e where e: "List.find ?p (idempotencyKeys s) = Some e" by auto
  then have "?p e" by (auto simp: find_Some_iff)
  moreover have "List.find ?p (map ?g (idempotencyKeys s)) = map_option ?g (List.find ?p (idempotencyKeys s))"
    by (rule find_map_preserving) simp
  ultimately show ?thesis using e t by simp
qed

lemma judge_completed:
  assumes "ik_requestHash e = ctx_requestHash ctx" "ik_status e = IS_completed"
    "ik_responseStatus e = Some st" "ik_responseBody e = Some body"
  shows "judgeExisting ctx (Some e) = Inr (ctx, Some \<lparr>rp_statusCode = st, rp_body = body\<rparr>)"
  using assms by (simp add: judgeExisting_def)

lemma judge_replay:
  assumes "judgeExisting ctx found = Inr (ctx', Some r)"
  shows "\<exists>e. found = Some e \<and> ctx' = ctx \<and> ik_requestHash e = ctx_requestHash ctx
     \<and> ik_status e = IS_completed \<and> ik_responseStatus e = Some (rp_statusCode r)
     \<and> ik_responseBody e = Some (rp_body r)"
  using assms
  by (auto simp: judgeExisting_def split: option.splits if_splits IdempotencyStatus.splits)

lemma judge_no_replay: "judgeExisting ctx found = Inr (ctx', None) \<Longrightarrow> found = None \<and> ctx' = ctx"
  by (auto simp: judgeExisting_def split: option.splits if_splits IdempotencyStatus.splits)

text \<open>A request under a live completed entry is answered from it and changes nothing.\<close>

lemma run_replays:
  assumes "idempotencyHeader req = Inr key"
    and "List.find (key_is appId key) (idempotencyKeys s) = Some e" and "\<not> expired_key (clock s) e"
    and "ik_requestHash e = requestHashOf E req" "ik_status e = IS_completed"
    "ik_responseStatus e = Some st" "ik_responseBody e = Some body"
  shows "runIdempotentTransaction E req appId st' run s = (Inr (member_of ''data'' body), s)"
  using assms
  by (simp add: runIdempotentTransaction_def pr_defs getIdempotencyReplay_eq sweepKey_live Let_def
      judge_completed)

lemma expired_key_completed [simp]: "ik_status e = IS_completed \<Longrightarrow> expired_key t e \<longleftrightarrow> ik_expiresAt e \<le> t"
  by (auto simp: expired_key_def)

text \<open>The shapes a run can take, for a header that is accepted.\<close>

lemma run_cases:
  assumes h: "idempotencyHeader req = Inr key"
    and ctx: "ctx = \<lparr>ctx_key = key, ctx_requestHash = requestHashOf E req\<rparr>"
  shows "runIdempotentTransaction E req appId st run s =
    (let s' = sweepKey appId key s in
     case judgeExisting ctx (List.find (key_is appId key) (idempotencyKeys s')) of
       Inl e \<Rightarrow> (Inl e, s')
     | Inr (_, Some r) \<Rightarrow> (Inr (member_of ''data'' (rp_body r)), s')
     | Inr (_, None) \<Rightarrow>
        (case reserveIdempotentRequest E appId ctx s' of
           Inl e \<Rightarrow> idempotentFailure E req appId ctx False e s'
         | Inr r1 \<Rightarrow> pr_catch (atomically (tx_bind (run ctx) (\<lambda>result.
                 tx_bind (storeIdempotentResponse E appId ctx st (envelope req result)) (\<lambda>_.
                 tx_return result))))
               (idempotentFailure E req appId ctx True) (snd r1)))"
proof -
  let ?s' = "sweepKey appId key s"
  let ?j = "judgeExisting ctx (List.find (key_is appId key) (idempotencyKeys ?s'))"
  have g: "getIdempotencyReplay E req appId s = (?j, ?s')"
    using h by (simp add: getIdempotencyReplay_eq ctx Let_def)
  show ?thesis
  proof (cases ?j)
    case (Inl e)
    then show ?thesis using g by (simp add: runIdempotentTransaction_def pr_bind_def Let_def)
  next
    case (Inr c)
    obtain ctx' rep where c: "c = (ctx', rep)" by (cases c)
    show ?thesis
    proof (cases rep)
      case None
      then have "ctx' = ctx" using Inr c judge_no_replay by auto
      then show ?thesis using g Inr c None
        by (simp add: runIdempotentTransaction_def pr_bind_def Let_def atomically_def split: sum.splits)
    next
      case (Some r)
      then show ?thesis using g Inr c
        by (simp add: runIdempotentTransaction_def pr_bind_def pr_return_def Let_def)
    qed
  qed
qed


text \<open>The entry under the key answers the request: it is live, completed, and holds \<open>v\<close>.\<close>

definition answered :: "string \<Rightarrow> string \<Rightarrow> string \<Rightarrow> json \<Rightarrow> db \<Rightarrow> bool" where
  "answered appId key hash v s \<longleftrightarrow>
     (case List.find (key_is appId key) (idempotencyKeys s) of
        None \<Rightarrow> False
      | Some e \<Rightarrow> \<not> expired_key (clock s) e \<and> ik_requestHash e = hash \<and> ik_status e = IS_completed
          \<and> ik_responseStatus e \<noteq> None
          \<and> (case ik_responseBody e of None \<Rightarrow> False | Some b \<Rightarrow> member_of ''data'' b = v))"

lemma answered_replays:
  assumes "answered appId key (requestHashOf E req) v s" and "idempotencyHeader req = Inr key"
  shows "runIdempotentTransaction E req appId st run s = (Inr v, s)"
  using assms by (auto simp: answered_def run_replays split: option.splits)

lemma find_in: "List.find p xs = Some x \<Longrightarrow> x \<in> set xs \<and> p x"
  by (auto simp: find_Some_iff)

lemma sweepKey_fresh:
  "List.find (key_is a k) (idempotencyKeys (sweepKey a k s)) = Some e \<Longrightarrow> \<not> expired_key (clock s) e"
  by (auto simp: sweepKey_def split: option.splits if_splits dest!: find_in)

lemma judged_answered:
  assumes "judgeExisting \<lparr>ctx_key = key, ctx_requestHash = h\<rparr>
      (List.find (key_is a key) (idempotencyKeys (sweepKey a key s))) = Inr (c, Some r)"
  shows "answered a key h (member_of ''data'' (rp_body r)) (sweepKey a key s)"
  using judge_replay [OF assms] sweepKey_fresh by (fastforce simp: answered_def)

text \<open>The frame of a transaction body that leaves the idempotency keys and the clock alone.\<close>

definition keys_same :: "db \<Rightarrow> db \<Rightarrow> bool" where
  "keys_same s t \<longleftrightarrow> idempotencyKeys t = idempotencyKeys s \<and> clock t = clock s"

interpretation keyFrame: step_order keys_same
  by unfold_locales (simp_all add: keys_same_def)

lemma reserve_iff:
  "reserveIdempotentRequest E a ctx s = Inr r \<longleftrightarrow>
     (\<forall>k\<in>set (idempotencyKeys s). \<not> key_is a (ctx_key ctx) k) \<and>
     (\<exists>e. key_is a (ctx_key ctx) e \<and> ik_requestHash e = ctx_requestHash ctx \<and> ik_status e = IS_pending
        \<and> ik_processingExpiresAt e = clock s + idempotencyProcessingLeaseMs E
        \<and> ik_expiresAt e = clock s + idempotencyRetentionMs E \<and> ik_responseStatus e = None
        \<and> ik_responseBody e = None \<and> ik_responseBytes e = None
        \<and> r = (e, idempotencyKeys_update (\<lambda>ks. ks @ [e]) s))"
  by (auto simp: reserveIdempotentRequest_def reserveIdempotencyKey_def tx_iff idempotency_clash_def key_is_def)

lemma failure_answered:
  assumes "idempotentFailure E req a ctx b e s = (Inr v, t)" and "idempotencyHeader req = Inr key"
  shows "answered a key (requestHashOf E req) v t"
  using assms judged_answered [of key "requestHashOf E req" a s]
  by (auto simp: idempotentFailure_def pr_defs getIdempotencyReplay_eq Let_def
      split: if_splits prod.splits sum.splits option.splits)

lemma store_answered:
  assumes "storeIdempotentResponse E a ctx st (envelope req v) s = Inr (u, t)"
    and "0 < idempotencyRetentionMs E"
  shows "answered a (ctx_key ctx) (ctx_requestHash ctx) v t"
  using storeIdempotentResponse_find [OF assms(1)] assms(2) by (auto simp: answered_def)

lemma run_answered:
  assumes run: "\<And>c. keyFrame.resp (run c)" and ret: "0 < idempotencyRetentionMs E"
    and ok: "runIdempotentTransaction E req appId st run s = (Inr v, t)"
  shows "\<exists>key. idempotencyHeader req = Inr key \<and> answered appId key (requestHashOf E req) v t"
proof (cases "idempotencyHeader req")
  case (Inl e)
  with ok show ?thesis
    by (simp add: runIdempotentTransaction_def pr_bind_def getIdempotencyReplay_header)
next
  case (Inr key)
  let ?ctx = "\<lparr>ctx_key = key, ctx_requestHash = requestHashOf E req\<rparr>"
  let ?s = "sweepKey appId key s"
  note c = ok [unfolded run_cases [OF Inr refl] Let_def]
  have "answered appId key (requestHashOf E req) v t"
  proof (cases "judgeExisting ?ctx (List.find (key_is appId key) (idempotencyKeys ?s))")
    case J: (Inr q)
    obtain c' rep where q: "q = (c', rep)" by (cases q)
    show ?thesis
    proof (cases rep)
      case (Some r)
      with c J q show ?thesis using judged_answered by auto
    next
      case None
      with c J q show ?thesis
        using failure_answered [OF _ Inr] store_answered [OF _ ret, of appId ?ctx st]
        by (auto simp: pr_catch_def atomically_def tx_iff split: sum.splits)
    qed
  qed (use c in simp)
  with Inr show ?thesis by simp
qed

lemma clear_reserved:
  assumes "reserveIdempotentRequest E a ctx s = Inr (e, s1)"
  shows "clearPendingIdempotentRequest a ctx s1 = Inr ((), s)"
proof -
  from assms obtain e where n: "\<forall>k\<in>set (idempotencyKeys s). \<not> key_is a (ctx_key ctx) k"
    and e: "key_is a (ctx_key ctx) e" "ik_requestHash e = ctx_requestHash ctx" "ik_status e = IS_pending"
    and s1: "s1 = idempotencyKeys_update (\<lambda>ks. ks @ [e]) s"
    by (auto simp: reserve_iff)
  have "filter (\<lambda>k. \<not> (key_is a (ctx_key ctx) k \<and> ik_requestHash k = ctx_requestHash ctx \<and> ik_status k = IS_pending))
      (idempotencyKeys s @ [e]) = idempotencyKeys s"
    using n e by (auto simp: filter_id_conv)
  then show ?thesis using s1
    by (cases s) (simp add: clearPendingIdempotentRequest_def deletePendingIdempotencyKey_def
        deleteMany_def tx_modify_def)
qed

text \<open>A body that fails, other than by a unique-constraint violation, leaves nothing behind.\<close>

lemma run_failure_restores:
  assumes h: "idempotencyHeader req = Inr key"
    and ctx: "ctx = \<lparr>ctx_key = key, ctx_requestHash = requestHashOf E req\<rparr>"
    and none: "List.find (key_is appId key) (idempotencyKeys s) = None"
    and fail: "\<And>s1. run ctx s1 = Inl e" and e: "\<not> isUniqueConstraintError e"
  shows "runIdempotentTransaction E req appId st run s = (Inl e, s)"
proof -
  have sw: "sweepKey appId key s = s" using none by (simp add: sweepKey_def)
  have "\<forall>k\<in>set (idempotencyKeys s). \<not> key_is appId key k" using none by (auto simp: find_None_iff)
  then have "reserveIdempotentRequest E appId ctx s \<noteq> Inl x" for x
    by (auto simp: reserveIdempotentRequest_def reserveIdempotencyKey_def insertRow_def ctx
        idempotency_clash_def key_is_def list_ex_iff tx_defs now_def)
  then obtain s1 r where r: "reserveIdempotentRequest E appId ctx s = Inr (r, s1)"
    by (metis old.sum.exhaust surj_pair)
  show ?thesis
    using none r fail e clear_reserved [OF r]
    by (simp add: run_cases [OF h ctx] sw Let_def judgeExisting_def pr_catch_def atomically_def
        tx_bind_def idempotentFailure_def pr_defs)
qed

end
