(* ===== verification/Frames.thy ===== *)
theory Frames
  imports Idempotency
begin

text \<open>
  The relations between the database before and after an operation that the services are checked
  against, one interpretation of \<open>step_order\<close> each, with the rules for the operations shared by
  all services (events, audit entries, jobs):
  \<^item> \<open>lifeOrder\<close>: agreements, milestones, escrows, proofs and disputes keep their terms and
    only move along their lifecycle tables;
  \<^item> \<open>tenantFrame\<close>: the rows of every other tenant are untouched;
  \<^item> \<open>keyFrame\<close>: the idempotency keys and the clock are untouched (defined with them).
\<close>

section \<open>Lifecycles of the tables\<close>

definition ag_terms :: "agreement \<Rightarrow> agreement" where
  "ag_terms a = a\<lparr>ag_status := AS_draft, ag_settlementStatus := [], ag_fundingConfirmedAt := None,
     ag_updatedAt := 0\<rparr>"

definition ms_terms :: "milestone \<Rightarrow> milestone" where
  "ms_terms m = m\<lparr>ms_status := MS_pending, ms_updatedAt := 0\<rparr>"

definition es_terms :: "escrow \<Rightarrow> string \<times> string \<times> string \<times> string option \<times> string \<times> string \<times> string \<times> string" where
  "es_terms e = (es_id e, es_appId e, es_agreementId e, es_milestoneId e, es_amount e, es_currency e,
     es_rail e, es_network e)"

definition pf_terms :: "proof_row \<Rightarrow> proof_row" where
  "pf_terms p = p\<lparr>pf_status := PS_submitted, pf_updatedAt := 0\<rparr>"

definition dp_terms :: "dispute \<Rightarrow> dispute" where
  "dp_terms d = d\<lparr>dp_status := DS_open, dp_resolutionType := None, dp_resolutionNote := None,
     dp_workerAmount := None, dp_clientAmount := None, dp_resolvedAt := None\<rparr>"

text \<open>Proofs and disputes have no transition table in the source; these are the moves the services make.\<close>

fun proof_moves :: "ProofStatus \<Rightarrow> ProofStatus list" where
  "proof_moves PS_submitted = [PS_under_review]"
| "proof_moves PS_under_review = [PS_accepted, PS_rejected, PS_needs_changes]"
| "proof_moves _ = []"

fun dispute_moves :: "DisputeStatus \<Rightarrow> DisputeStatus list" where
  "dispute_moves DS_open = [DS_resolved_release, DS_resolved_refund, DS_resolved_split]"
| "dispute_moves DS_awaiting_response = [DS_resolved_release, DS_resolved_refund, DS_resolved_split]"
| "dispute_moves DS_under_review = [DS_resolved_release, DS_resolved_refund, DS_resolved_split]"
| "dispute_moves _ = []"

definition proof_can :: "ProofStatus \<Rightarrow> ProofStatus \<Rightarrow> bool" where
  "proof_can a b \<longleftrightarrow> b \<in> set (proof_moves a)"

definition dispute_can :: "DisputeStatus \<Rightarrow> DisputeStatus \<Rightarrow> bool" where
  "dispute_can a b \<longleftrightarrow> b \<in> set (dispute_moves a)"

interpretation agreementRows: lifecycle_rows canTransitionAgreement agreement_final ag_status ag_terms AS_draft False
  by unfold_locales (case_tac a; simp add: canTransitionAgreement_def)

interpretation milestoneRows: lifecycle_rows canTransitionMilestone milestone_final ms_status ms_terms MS_pending False
  by unfold_locales (case_tac a; simp add: canTransitionMilestone_def)

interpretation escrowRows: lifecycle_rows canTransitionEscrow "\<lambda>s. escrow_transitions s = []" es_status es_terms
    ES_not_created True
  by unfold_locales (case_tac a; simp add: canTransitionEscrow_def)

interpretation proofRows: lifecycle_rows proof_can "\<lambda>s. proof_moves s = []" pf_status pf_terms PS_submitted False
proof unfold_locales
  show "proof_moves a = [] \<Longrightarrow> \<not> proof_can a b" for a b by (simp add: proof_can_def)
  show "\<not> proof_can a PS_submitted" for a by (cases a) (simp_all add: proof_can_def)
qed

interpretation disputeRows: lifecycle_rows dispute_can "\<lambda>s. dispute_moves s = []" dp_status dp_terms DS_open False
proof unfold_locales
  show "dispute_moves a = [] \<Longrightarrow> \<not> dispute_can a b" for a b by (simp add: dispute_can_def)
  show "\<not> dispute_can a DS_open" for a by (cases a) (simp_all add: dispute_can_def)
qed

definition life_le :: "db \<Rightarrow> db \<Rightarrow> bool" where
  "life_le s t \<longleftrightarrow> agreementRows.rows_le (agreements s) (agreements t)
     \<and> milestoneRows.rows_le (milestones s) (milestones t)
     \<and> escrowRows.rows_le (escrows s) (escrows t)
     \<and> proofRows.rows_le (proofs s) (proofs t)
     \<and> disputeRows.rows_le (disputes s) (disputes t)"

lemmas rows_refls =
  agreementRows.rows_le_refl milestoneRows.rows_le_refl escrowRows.rows_le_refl
  proofRows.rows_le_refl disputeRows.rows_le_refl

interpretation lifeOrder: step_order life_le
proof unfold_locales
  show "life_le s s" for s by (simp add: life_le_def rows_refls)
  show "life_le s u" if "life_le s t" "life_le t u" for s t u
    using that unfolding life_le_def
    by (blast intro: agreementRows.rows_le_trans milestoneRows.rows_le_trans escrowRows.rows_le_trans
        proofRows.rows_le_trans disputeRows.rows_le_trans)
qed

lemma life_core: "core t = core s \<Longrightarrow> life_le s t"
  using core_eqD [of t s] by (simp add: life_le_def rows_refls)

lemma life_unrelated:
  "lifeOrder.resp (insertRow transactions transactions_update c1 r1)"
  "lifeOrder.resp (insertRow reviews reviews_update c2 r2)"
  "lifeOrder.resp (insertRow idempotencyKeys idempotencyKeys_update c3 r3)"
  "lifeOrder.resp (updateMany transactions transactions_update p1 f1)"
  "lifeOrder.resp (updateMany idempotencyKeys idempotencyKeys_update p2 f2)"
  "lifeOrder.resp (deleteMany transactions_update q1)"
  "lifeOrder.resp (deleteMany idempotencyKeys_update q2)"
  "lifeOrder.resp (freshId E)" "lifeOrder.resp now"
  by (auto intro!: lifeOrder.respI simp: tx_iff life_le_def rows_refls)

lemma life_new_rows:
  "ag_status a = AS_draft \<Longrightarrow> lifeOrder.resp (insertRow agreements agreements_update c1 a)"
  "ms_status m = MS_pending \<Longrightarrow> lifeOrder.resp (insertRow milestones milestones_update c2 m)"
  "es_status e = ES_not_created \<Longrightarrow> lifeOrder.resp (insertRow escrows escrows_update c3 e)"
  "pf_status p = PS_submitted \<Longrightarrow> lifeOrder.resp (insertRow proofs proofs_update c4 p)"
  "dp_status d = DS_open \<Longrightarrow> lifeOrder.resp (insertRow disputes disputes_update c5 d)"
  by (auto intro!: lifeOrder.resp_insert simp: life_le_def rows_refls agreementRows.rows_le_snoc
      milestoneRows.rows_le_snoc escrowRows.rows_le_snoc proofRows.rows_le_snoc disputeRows.rows_le_snoc)

lemma life_moves:
  "(\<And>s r. p1 r \<Longrightarrow> agreementRows.row_le r (f1 s r)) \<Longrightarrow>
     lifeOrder.resp (updateMany agreements agreements_update p1 f1)"
  "(\<And>s r. p2 r \<Longrightarrow> milestoneRows.row_le r (f2 s r)) \<Longrightarrow>
     lifeOrder.resp (updateMany milestones milestones_update p2 f2)"
  "(\<And>s r. p3 r \<Longrightarrow> escrowRows.row_le r (f3 s r)) \<Longrightarrow>
     lifeOrder.resp (updateMany escrows escrows_update p3 f3)"
  "(\<And>s r. p4 r \<Longrightarrow> proofRows.row_le r (f4 s r)) \<Longrightarrow>
     lifeOrder.resp (updateMany proofs proofs_update p4 f4)"
  "(\<And>s r. p5 r \<Longrightarrow> disputeRows.row_le r (f5 s r)) \<Longrightarrow>
     lifeOrder.resp (updateMany disputes disputes_update p5 f5)"
  by (auto intro!: lifeOrder.resp_update simp: life_le_def rows_refls agreementRows.rows_le_map
      milestoneRows.rows_le_map escrowRows.rows_le_map proofRows.rows_le_map disputeRows.rows_le_map)

lemma life_discard:
  "(\<And>e. p e \<Longrightarrow> es_status e = ES_not_created) \<Longrightarrow> lifeOrder.resp (deleteMany escrows_update p)"
  by (auto intro!: lifeOrder.resp_delete escrowRows.rows_le_filter simp: life_le_def rows_refls)

lemma life_outbox:
  "lifeOrder.resp (createEvent E a d)" "lifeOrder.resp (auditRequest E r b c g h i j k)"
  "lifeOrder.resp (createInfrastructureAuditLog E n)" "lifeOrder.resp (enqueueJob E q)"
  by (auto intro!: lifeOrder.respI life_core dest: outbox_core)

lemmas life_rules = lifeOrder.store_rules life_unrelated life_outbox

section \<open>Idempotency keys and the clock\<close>

lemma keys_core: "core t = core s \<Longrightarrow> keys_same s t"
  using core_eqD [of t s] by (simp add: keys_same_def)

lemma keys_base:
  "keyFrame.resp (insertRow transactions transactions_update c1 r1)"
  "keyFrame.resp (insertRow reviews reviews_update c2 r2)"
  "keyFrame.resp (insertRow agreements agreements_update c3 r3)"
  "keyFrame.resp (insertRow milestones milestones_update c4 r4)"
  "keyFrame.resp (insertRow escrows escrows_update c5 r5)"
  "keyFrame.resp (insertRow proofs proofs_update c6 r6)"
  "keyFrame.resp (insertRow disputes disputes_update c7 r7)"
  "keyFrame.resp (updateMany transactions transactions_update p1 f1)"
  "keyFrame.resp (updateMany agreements agreements_update p2 f2)"
  "keyFrame.resp (updateMany milestones milestones_update p3 f3)"
  "keyFrame.resp (updateMany escrows escrows_update p4 f4)"
  "keyFrame.resp (updateMany proofs proofs_update p5 f5)"
  "keyFrame.resp (updateMany disputes disputes_update p6 f6)"
  "keyFrame.resp (freshId E)" "keyFrame.resp now"
  by (auto intro!: keyFrame.respI simp: tx_iff keys_same_def)

lemma keys_outbox:
  "keyFrame.resp (createEvent E a d)" "keyFrame.resp (auditRequest E r b c g h i j k)"
  "keyFrame.resp (createInfrastructureAuditLog E n)" "keyFrame.resp (enqueueJob E q)"
  by (auto intro!: keyFrame.respI keys_core dest: outbox_core)

lemmas key_rules = keyFrame.store_rules keys_base keys_outbox


section \<open>Tenant isolation\<close>

text \<open>
  The rows of the other tenants. A job is compared without its deduplication key, which the queue
  may free when a finished job still holds it.
\<close>

definition job_work :: "agent_job \<Rightarrow> agent_job" where
  "job_work j = j\<lparr>aj_dedupeKey := None, aj_updatedAt := 0\<rparr>"

definition foreign_same :: "string \<Rightarrow> db \<Rightarrow> db \<Rightarrow> bool" where
  "foreign_same a s t \<longleftrightarrow>
     filter (\<lambda>r. ag_appId r \<noteq> a) (agreements t) = filter (\<lambda>r. ag_appId r \<noteq> a) (agreements s)
   \<and> filter (\<lambda>r. ms_appId r \<noteq> a) (milestones t) = filter (\<lambda>r. ms_appId r \<noteq> a) (milestones s)
   \<and> filter (\<lambda>r. es_appId r \<noteq> a) (escrows t) = filter (\<lambda>r. es_appId r \<noteq> a) (escrows s)
   \<and> filter (\<lambda>r. tr_appId r \<noteq> a) (transactions t) = filter (\<lambda>r. tr_appId r \<noteq> a) (transactions s)
   \<and> filter (\<lambda>r. pf_appId r \<noteq> a) (proofs t) = filter (\<lambda>r. pf_appId r \<noteq> a) (proofs s)
   \<and> filter (\<lambda>r. rv_appId r \<noteq> a) (reviews t) = filter (\<lambda>r. rv_appId r \<noteq> a) (reviews s)
   \<and> filter (\<lambda>r. dp_appId r \<noteq> a) (disputes t) = filter (\<lambda>r. dp_appId r \<noteq> a) (disputes s)
   \<and> filter (\<lambda>r. ev_appId r \<noteq> a) (events t) = filter (\<lambda>r. ev_appId r \<noteq> a) (events s)
   \<and> filter (\<lambda>r. we_appId r \<noteq> a) (endpoints t) = filter (\<lambda>r. we_appId r \<noteq> a) (endpoints s)
   \<and> filter (\<lambda>r. wd_appId r \<noteq> a) (deliveries t) = filter (\<lambda>r. wd_appId r \<noteq> a) (deliveries s)
   \<and> map job_work (filter (\<lambda>r. aj_appId r \<noteq> a) (jobs t)) = map job_work (filter (\<lambda>r. aj_appId r \<noteq> a) (jobs s))
   \<and> filter (\<lambda>r. ik_appId r \<noteq> a) (idempotencyKeys t) = filter (\<lambda>r. ik_appId r \<noteq> a) (idempotencyKeys s)
   \<and> filter (\<lambda>r. al_appId r \<noteq> Some a) (auditLogs t) = filter (\<lambda>r. al_appId r \<noteq> Some a) (auditLogs s)"

interpretation tenantFrame: step_order "foreign_same a" for a
  by unfold_locales (simp_all add: foreign_same_def)

lemma filter_map_other:
  "(\<And>r. p r \<Longrightarrow> \<not> q r \<and> \<not> q (f r)) \<Longrightarrow> filter q (map (\<lambda>r. if p r then f r else r) xs) = filter q xs"
  by (induction xs) auto

lemma tenant_insert:
  "ag_appId r1 = a \<Longrightarrow> tenantFrame.resp a (insertRow agreements agreements_update c1 r1)"
  "ms_appId r2 = a \<Longrightarrow> tenantFrame.resp a (insertRow milestones milestones_update c2 r2)"
  "es_appId r3 = a \<Longrightarrow> tenantFrame.resp a (insertRow escrows escrows_update c3 r3)"
  "tr_appId r4 = a \<Longrightarrow> tenantFrame.resp a (insertRow transactions transactions_update c4 r4)"
  "pf_appId r5 = a \<Longrightarrow> tenantFrame.resp a (insertRow proofs proofs_update c5 r5)"
  "rv_appId r6 = a \<Longrightarrow> tenantFrame.resp a (insertRow reviews reviews_update c6 r6)"
  "dp_appId r7 = a \<Longrightarrow> tenantFrame.resp a (insertRow disputes disputes_update c7 r7)"
  "ev_appId r8 = a \<Longrightarrow> tenantFrame.resp a (insertRow events events_update c8 r8)"
  "wd_appId r9 = a \<Longrightarrow> tenantFrame.resp a (insertRow deliveries deliveries_update c9 r9)"
  "aj_appId r10 = a \<Longrightarrow> tenantFrame.resp a (insertRow jobs jobs_update c10 r10)"
  "ik_appId r11 = a \<Longrightarrow> tenantFrame.resp a (insertRow idempotencyKeys idempotencyKeys_update c11 r11)"
  "al_appId r12 = Some a \<Longrightarrow> tenantFrame.resp a (insertRow auditLogs auditLogs_update c12 r12)"
  by (auto intro!: tenantFrame.resp_insert simp: foreign_same_def)

lemma tenant_update:
  "(\<And>s r. p1 r \<Longrightarrow> ag_appId r = a \<and> ag_appId (f1 s r) = a) \<Longrightarrow>
     tenantFrame.resp a (updateMany agreements agreements_update p1 f1)"
  "(\<And>s r. p2 r \<Longrightarrow> ms_appId r = a \<and> ms_appId (f2 s r) = a) \<Longrightarrow>
     tenantFrame.resp a (updateMany milestones milestones_update p2 f2)"
  "(\<And>s r. p3 r \<Longrightarrow> es_appId r = a \<and> es_appId (f3 s r) = a) \<Longrightarrow>
     tenantFrame.resp a (updateMany escrows escrows_update p3 f3)"
  "(\<And>s r. p4 r \<Longrightarrow> tr_appId r = a \<and> tr_appId (f4 s r) = a) \<Longrightarrow>
     tenantFrame.resp a (updateMany transactions transactions_update p4 f4)"
  "(\<And>s r. p5 r \<Longrightarrow> pf_appId r = a \<and> pf_appId (f5 s r) = a) \<Longrightarrow>
     tenantFrame.resp a (updateMany proofs proofs_update p5 f5)"
  "(\<And>s r. p6 r \<Longrightarrow> dp_appId r = a \<and> dp_appId (f6 s r) = a) \<Longrightarrow>
     tenantFrame.resp a (updateMany disputes disputes_update p6 f6)"
  "(\<And>s r. p7 r \<Longrightarrow> ik_appId r = a \<and> ik_appId (f7 s r) = a) \<Longrightarrow>
     tenantFrame.resp a (updateMany idempotencyKeys idempotencyKeys_update p7 f7)"
  "(\<And>s r. p8 r \<Longrightarrow> we_appId r = a \<and> we_appId (f8 s r) = a) \<Longrightarrow>
     tenantFrame.resp a (updateMany endpoints endpoints_update p8 f8)"
  "(\<And>s r. p9 r \<Longrightarrow> wd_appId r = a \<and> wd_appId (f9 s r) = a) \<Longrightarrow>
     tenantFrame.resp a (updateMany deliveries deliveries_update p9 f9)"
  by (intro tenantFrame.resp_update; simp add: foreign_same_def filter_map_other)+

lemma tenant_delete:
  "(\<And>r. p1 r \<Longrightarrow> es_appId r = a) \<Longrightarrow> tenantFrame.resp a (deleteMany escrows_update p1)"
  "(\<And>r. p2 r \<Longrightarrow> tr_appId r = a) \<Longrightarrow> tenantFrame.resp a (deleteMany transactions_update p2)"
  "(\<And>r. p3 r \<Longrightarrow> ik_appId r = a) \<Longrightarrow> tenantFrame.resp a (deleteMany idempotencyKeys_update p3)"
  by (intro tenantFrame.resp_delete; auto simp: foreign_same_def intro!: filter_cong)+

lemma tenant_reads: "tenantFrame.resp a (freshId E)" "tenantFrame.resp a now"
  by (auto intro!: tenantFrame.respI simp: tx_iff foreign_same_def)

lemmas tenant_base = tenantFrame.store_rules tenant_reads

lemma foreign_jobs_free:
  "map job_work (filter (\<lambda>r. aj_appId r \<noteq> a)
     (map (\<lambda>k. if p k then k\<lparr>aj_dedupeKey := None, aj_updatedAt := c\<rparr> else k) xs)) =
   map job_work (filter (\<lambda>r. aj_appId r \<noteq> a) xs)"
  by (induction xs) (auto simp: job_work_def)

lemma tenant_free_dedupe:
  "tenantFrame.resp a (updateMany jobs jobs_update p (\<lambda>s k. k\<lparr>aj_dedupeKey := None, aj_updatedAt := clock s\<rparr>))"
  by (intro tenantFrame.resp_update) (simp add: foreign_same_def foreign_jobs_free)

lemma createDeliveryFor_tenant: "ev_appId e = a \<Longrightarrow> tenantFrame.resp a (createDeliveryFor E e w)"
  unfolding createDeliveryFor_def Let_def by (intro tenant_base tenant_insert) auto

lemma createEvent_tenant: "tenantFrame.resp a (createEvent E a d)"
  unfolding createEvent_def createWebhookDeliveriesForEvent_def
  by (intro tenant_base tenant_insert createDeliveryFor_tenant) auto

lemma createInfrastructureAuditLog_tenant:
  "ai_appId i = Some a \<Longrightarrow> tenantFrame.resp a (createInfrastructureAuditLog E i)"
  unfolding createInfrastructureAuditLog_def by (intro tenant_base tenant_insert) auto

lemma auditRequest_tenant: "tenantFrame.resp a (auditRequest E r a b c d e f g)"
  unfolding auditRequest_def by (rule createInfrastructureAuditLog_tenant) simp

lemma create_job_tenant: "ep_appId q = a \<Longrightarrow> tenantFrame.resp a (create_job E q)"
  unfolding create_job_def by (intro tenant_base tenant_insert) auto

lemma enqueueJob_tenant: "ep_appId q = a \<Longrightarrow> tenantFrame.resp a (enqueueJob E q)"
  unfolding enqueueJob_def Let_def by (intro tenant_base tenant_free_dedupe create_job_tenant)

lemmas tenant_rules =
  tenant_base createEvent_tenant auditRequest_tenant createInfrastructureAuditLog_tenant


section \<open>Idempotent handlers\<close>

text \<open>
  The contract between a handler and the bookkeeping of idempotency keys: a relation that the
  bookkeeping transactions respect (\<open>handler_frame\<close>) is respected by \<open>runIdempotentTransaction\<close>
  whenever its second transaction respects it, whatever path the handler takes. If storing the
  response respects it too (\<open>idempotent_frame\<close>), it is enough that the \<open>run\<close> callback does.
\<close>

locale handler_frame = step_order R for R :: "db \<Rightarrow> db \<Rightarrow> bool" +
  fixes appId :: string
  assumes sweep: "resp (deleteExpiredIdempotencyKey appId key)"
    and reserve: "resp (reserveIdempotentRequest E appId ctx)"
    and clear: "resp (clearPendingIdempotentRequest appId ctx)"
begin

lemma now_resp: "resp now"
  by (simp add: now_def resp_gets)

lemma replay_presp: "presp (getIdempotencyReplay E req appId)"
  unfolding getIdempotencyReplay_def Let_def findIdempotencyKey_def
  by (intro presp_rules resp_reads now_resp sweep)

lemma failure_presp: "presp (idempotentFailure E req appId ctx b e)"
  unfolding idempotentFailure_def by (intro presp_rules replay_presp clear)

lemma handler_presp:
  assumes "\<And>ctx. resp (tx_bind (run ctx) (\<lambda>result.
      tx_bind (storeIdempotentResponse E appId ctx st (envelope req result)) (\<lambda>_. tx_return result)))"
  shows "presp (runIdempotentTransaction E req appId st run)"
proof -
  have body: "presp (pr_catch (atomically (tx_bind (run ctx) (\<lambda>result.
      tx_bind (storeIdempotentResponse E appId ctx st (envelope req result)) (\<lambda>_. tx_return result))))
      (idempotentFailure E req appId ctx True))" for ctx
    by (intro presp_rules failure_presp assms)
  have "R s (snd (case atomically (reserveIdempotentRequest E appId ctx) s of
       (Inl error, s1) \<Rightarrow> idempotentFailure E req appId ctx False error s1
     | (Inr _, s1) \<Rightarrow> pr_catch (atomically (tx_bind (run ctx) (\<lambda>result.
         tx_bind (storeIdempotentResponse E appId ctx st (envelope req result)) (\<lambda>_. tx_return result))))
       (idempotentFailure E req appId ctx True) s1))" for ctx s
    using presp_atomically [OF reserve, of E ctx] body [of ctx] failure_presp [of E req ctx False]
    by (auto simp: presp_def split: prod.splits sum.splits intro: R_trans)
  then show ?thesis unfolding runIdempotentTransaction_def
    by (intro presp_rules replay_presp) (auto simp: presp_def pr_return_def R_refl split: prod.splits option.splits)
qed

end

locale idempotent_frame = handler_frame +
  assumes store: "resp (storeIdempotentResponse E appId ctx st body)"
begin

lemma run_presp:
  assumes "\<And>c. resp (run c)"
  shows "presp (runIdempotentTransaction E req appId st run)"
  by (intro handler_presp resp_rules store assms)

end

lemmas idempotency_defs =
  deleteExpiredIdempotencyKey_def reserveIdempotentRequest_def reserveIdempotencyKey_def
  storeIdempotentResponse_def completeIdempotencyKey_def clearPendingIdempotentRequest_def
  deletePendingIdempotencyKey_def Let_def

interpretation lifeIdem: idempotent_frame life_le appId for appId
  by unfold_locales (unfold idempotency_defs; intro life_rules)+

interpretation tenantIdem: idempotent_frame "foreign_same a" a for a
  by unfold_locales
    (unfold idempotency_defs; intro tenant_rules tenant_insert tenant_update tenant_delete; simp add: key_is_def)+

interpretation logIdem: idempotent_frame log_le appId for appId
  by unfold_locales (unfold idempotency_defs; intro log_rules)+

end
