(* ===== verification/Pagination.thy ===== *)
theory Pagination
  imports Store "HOL-Library.Product_Lexorder" "HOL-Library.List_Lexorder" "HOL-Library.Char_ord"
begin

text \<open>
  The cursor pagination every list endpoint uses: the \<open>findMany\<close> of the repositories with
  \<open>orderBy\<close>, \<open>take: limit + 1\<close>, \<open>cursor\<close> and \<open>skip: 1\<close>, and the \<open>hasMore\<close> computation of
  the services. \<open>walk\<close> follows the returned cursors as a client does; the locale proves, for any
  total order of the rows, that the walk lists every selected row exactly once and in order.
\<close>

text \<open>
  \<open>ordered\<close> is the sorted selection, \<open>table\<close> the whole table the cursor row is looked up in: the
  query returns the selected rows from the cursor row on, without the first of them.
\<close>

definition find_page ::
  "('r \<Rightarrow> 'r \<Rightarrow> bool) \<Rightarrow> ('r \<Rightarrow> string) \<Rightarrow> 'r list \<Rightarrow> 'r list \<Rightarrow> nat \<Rightarrow> string option \<Rightarrow> 'r list" where
  "find_page le ident tab ordered n cursor = (case cursor of
       None \<Rightarrow> take n ordered
     | Some c \<Rightarrow> (case List.find (\<lambda>r. ident r = c) tab of
           None \<Rightarrow> []
         | Some q \<Rightarrow> take n (drop 1 (filter (\<lambda>r. le q r) ordered))))"

record 'a page =
  pg_data :: "'a list"
  pg_limit :: nat
  pg_cursor :: "string option"

text \<open>\<open>hasMore\<close>, \<open>slice(0, limit)\<close> and the cursor of the last row shown.\<close>

definition make_page :: "('r \<Rightarrow> string) \<Rightarrow> ('r \<Rightarrow> 'a) \<Rightarrow> nat \<Rightarrow> 'r list \<Rightarrow> 'a page" where
  "make_page ident serialize limit rows =
     (let hasMore = length rows > limit; data = take limit rows
      in \<lparr>pg_data = map serialize data, pg_limit = limit,
          pg_cursor = (if hasMore \<and> data \<noteq> [] then Some (ident (last data)) else None)\<rparr>)"

text \<open>\<open>orderBy: [{ createdAt: 'desc' }, { id: 'desc' }]\<close>\<close>

definition desc_le :: "('r \<Rightarrow> int) \<Rightarrow> ('r \<Rightarrow> string) \<Rightarrow> 'r \<Rightarrow> 'r \<Rightarrow> bool" where
  "desc_le created ident q r \<longleftrightarrow> (created r, ident r) \<le> (created q, ident q)"

definition desc_order :: "('r \<Rightarrow> int) \<Rightarrow> ('r \<Rightarrow> string) \<Rightarrow> 'r list \<Rightarrow> 'r list" where
  "desc_order created ident rows = rev (sort_key (\<lambda>r. (created r, ident r)) rows)"

definition list_desc ::
  "('r \<Rightarrow> int) \<Rightarrow> ('r \<Rightarrow> string) \<Rightarrow> ('r \<Rightarrow> bool) \<Rightarrow> nat \<Rightarrow> string option \<Rightarrow> 'r list \<Rightarrow> 'r list" where
  "list_desc created ident p limit cursor rows =
     find_page (desc_le created ident) ident rows (desc_order created ident (filter p rows)) (limit + 1) cursor"

text \<open>A client that follows the cursors.\<close>

fun walk :: "nat \<Rightarrow> (string option \<Rightarrow> 'a page) \<Rightarrow> string option \<Rightarrow> 'a list" where
  "walk 0 fetch cursor = []"
| "walk (Suc n) fetch cursor = (let p = fetch cursor in
     pg_data p @ (case pg_cursor p of None \<Rightarrow> [] | Some c \<Rightarrow> walk n fetch (Some c)))"

section \<open>Walking the pages\<close>

locale page_order =
  fixes le :: "'r \<Rightarrow> 'r \<Rightarrow> bool"
    and ident :: "'r \<Rightarrow> string"
  assumes le_refl: "le r r"
    and le_trans: "le q r \<Longrightarrow> le r t \<Longrightarrow> le q t"
    and le_antisym: "le q r \<Longrightarrow> le r q \<Longrightarrow> ident q = ident r"
begin

lemma filter_le_drop:
  assumes "sorted_wrt le ordered" and "distinct (map ident ordered)" and "i < length ordered"
  shows "filter (\<lambda>r. le (ordered ! i) r) ordered = drop i ordered"
proof -
  let ?q = "ordered ! i"
  have split: "ordered = take i ordered @ drop i ordered" by simp
  have "\<not> le ?q r" if "r \<in> set (take i ordered)" for r
  proof
    assume "le ?q r"
    from that obtain j where j: "j < i" "r = ordered ! j" using assms(3) by (auto simp: in_set_conv_nth)
    with assms(1,3) have "le r ?q" by (auto simp: sorted_wrt_iff_nth_less)
    with \<open>le ?q r\<close> have "ident ?q = ident r" by (rule le_antisym)
    with j assms(2,3) show False by (auto simp: distinct_conv_nth)
  qed
  moreover have "le ?q r" if "r \<in> set (drop i ordered)" for r
  proof -
    from that obtain j where "j < length ordered - i" "r = ordered ! (i + j)"
      by (auto simp: in_set_conv_nth)
    with assms(1,3) show ?thesis by (cases j) (auto simp: sorted_wrt_iff_nth_less le_refl)
  qed
  ultimately have "filter (\<lambda>r. le ?q r) (take i ordered) = []"
    "filter (\<lambda>r. le ?q r) (drop i ordered) = drop i ordered"
    by (auto simp: filter_empty_conv filter_id_conv)
  then show ?thesis by (subst split) (simp only: filter_append append_Nil)
qed

lemma find_ident:
  assumes "distinct (map ident tab)" and "r \<in> set tab"
  shows "List.find (\<lambda>q. ident q = ident r) tab = Some r"
  using assms by (induction tab) auto

lemma find_page_at:
  assumes "sorted_wrt le ordered" and "distinct (map ident tab)" and "distinct (map ident ordered)"
    and "set ordered \<subseteq> set tab" and "i < length ordered"
  shows "find_page le ident tab ordered n (Some (ident (ordered ! i))) = take n (drop (Suc i) ordered)"
proof -
  have "ordered ! i \<in> set tab" using assms(4,5) by auto
  with assms show ?thesis
    by (simp add: find_page_def find_ident filter_le_drop drop_drop)
qed

text \<open>The rows a walk still has to list after \<open>m\<close> rows.\<close>

lemma walk_rest:
  assumes order: "sorted_wrt le ordered" "distinct (map ident tab)" "distinct (map ident ordered)"
      "set ordered \<subseteq> set tab"
    and limit: "0 < limit"
    and fetch: "\<And>c. fetch c = make_page ident ser limit (find_page le ident tab ordered (limit + 1) c)"
  shows "m \<le> length ordered \<Longrightarrow> cursor = (if m = 0 then None else Some (ident (ordered ! (m - 1)))) \<Longrightarrow>
     length ordered - m < n \<Longrightarrow> walk n fetch cursor = map ser (drop m ordered)"
proof (induction n arbitrary: m cursor)
  case 0
  then show ?case by simp
next
  case (Suc n)
  have rows: "find_page le ident tab ordered (limit + 1) cursor = take (limit + 1) (drop m ordered)"
    using Suc.prems find_page_at [OF order, of "m - 1"] by (cases m) (auto simp: find_page_def)
  have fc: "fetch cursor = make_page ident ser limit (take (limit + 1) (drop m ordered))"
    by (simp only: fetch rows)
  show ?case
  proof (cases "limit < length ordered - m")
    case True
    let ?d = "take limit (drop m ordered)"
    have last: "last ?d = ordered ! (m + limit - 1)" and ne: "?d \<noteq> []"
      using True limit by (auto simp: last_conv_nth min_def)
    have "walk n fetch (Some (ident (ordered ! (m + limit - 1)))) = map ser (drop (m + limit) ordered)"
      by (rule Suc.IH) (use True limit Suc.prems in auto)
    moreover have "?d @ drop (m + limit) ordered = drop m ordered"
      by (metis append_take_drop_id drop_drop add.commute)
    ultimately show ?thesis using True ne last
      by (simp add: fc make_page_def Let_def min_def flip: map_append)
  next
    case False
    then show ?thesis by (simp add: fc make_page_def Let_def)
  qed
qed

end

lemma desc_page_order: "page_order (desc_le created ident) ident"
  by unfold_locales (auto simp: desc_le_def)

interpretation descOrder: page_order "desc_le created ident" ident for created :: "'r \<Rightarrow> int" and ident
  by (rule desc_page_order)

lemma desc_order_sorted: "sorted_wrt (desc_le created ident) (desc_order created ident rows)"
proof -
  have "sorted (map (\<lambda>r. (created r, ident r)) (sort_key (\<lambda>r. (created r, ident r)) rows))" by simp
  then show ?thesis
    by (simp add: desc_order_def sorted_wrt_rev desc_le_def [abs_def] sorted_map)
qed

lemma set_desc_order [simp]: "set (desc_order created ident rows) = set rows"
  by (simp add: desc_order_def)

lemma mset_desc_order: "mset (desc_order created ident rows) = mset rows"
  by (simp add: desc_order_def)

lemma distinct_desc_order: "distinct (map ident rows) \<Longrightarrow> distinct (map ident (desc_order created ident rows))"
  by (metis mset_desc_order mset_eq_imp_distinct_iff mset_map)

lemma walk_list_desc:
  assumes "distinct (map ident rows)" and "0 < limit" and "length (filter p rows) < n"
  shows "walk n (\<lambda>c. make_page ident ser limit (list_desc created ident p limit c rows)) None =
    map ser (desc_order created ident (filter p rows))"
proof -
  let ?o = "desc_order created ident (filter p rows)"
  have d: "distinct (map ident ?o)"
    by (intro distinct_desc_order) (use assms(1) in \<open>simp add: distinct_map_filter\<close>)
  have "length ?o = length (filter p rows)" by (metis mset_desc_order size_mset)
  then have "length ?o - 0 < n" using assms(3) by simp
  moreover have "set ?o \<subseteq> set rows" by auto
  ultimately have "walk n (\<lambda>c. make_page ident ser limit (list_desc created ident p limit c rows)) None
      = map ser (drop 0 ?o)"
    using desc_order_sorted assms(1,2) d
    by (intro descOrder.walk_rest) (auto simp: list_desc_def)
  then show ?thesis by simp
qed

end
