(* ===== verification/Agreements.thy ===== *)
theory Agreements
  imports Frames Pagination
begin

text \<open>
  Agreements: \<open>modules/agreements/agreement.repository.ts\<close>, \<open>agreement.model.ts\<close>,
  \<open>agreement.events.ts\<close> and \<open>agreement.service.ts\<close>. The bodies of the service transactions are
  definitions of their own (\<open>..._run\<close>), passed to \<open>runIdempotentTransaction\<close> as the code passes
  its \<open>run\<close> callbacks. The \<open>appId\<close> parameters hold the value \<open>tenantContext\<close> returns.
\<close>

section \<open>agreement.repository.ts\<close>

record create_agreement_input =
  cai_externalReferenceId :: "string option"
  cai_title :: string
  cai_description :: string
  cai_clientExternalId :: string
  cai_workerExternalId :: string
  cai_totalAmount :: string
  cai_currency :: string
  cai_releaseMode :: string
  cai_disputeMode :: string
  cai_sourceType :: "string option"
  cai_sourceUrl :: "string option"
  cai_metadata :: json

definition agreement_clash :: "agreement \<Rightarrow> agreement \<Rightarrow> bool" where
  "agreement_clash a b \<longleftrightarrow> ag_id a = ag_id b
     \<or> (ag_appId a = ag_appId b \<and> ag_externalReferenceId a \<noteq> None
        \<and> ag_externalReferenceId a = ag_externalReferenceId b)"

definition createAgreement :: "env \<Rightarrow> string \<Rightarrow> create_agreement_input \<Rightarrow> agreement dbtx" where
  "createAgreement E appId input =
     tx_bind (freshId E) (\<lambda>agreementId.
     tx_bind now (\<lambda>t.
     insertRow agreements agreements_update agreement_clash
       \<lparr>ag_id = agreementId, ag_appId = appId,
        ag_externalReferenceId = cai_externalReferenceId input, ag_title = cai_title input,
        ag_description = cai_description input, ag_clientExternalId = cai_clientExternalId input,
        ag_workerExternalId = cai_workerExternalId input, ag_amount = cai_totalAmount input,
        ag_currency = cai_currency input, ag_deadlineAt = t + 30 * 24 * 60 * 60 * 1000,
        ag_releaseMode = cai_releaseMode input, ag_disputeMode = cai_disputeMode input,
        ag_sourceType = cai_sourceType input, ag_sourceUrl = cai_sourceUrl input,
        ag_metadata = cai_metadata input, ag_status = AS_draft, ag_settlementStatus = ''UNFUNDED'',
        ag_fundingConfirmedAt = None, ag_createdAt = t, ag_updatedAt = t\<rparr>))"

definition agreement_is :: "string \<Rightarrow> string \<Rightarrow> agreement \<Rightarrow> bool" where
  "agreement_is appId agreementId a \<longleftrightarrow> ag_id a = agreementId \<and> ag_appId a = appId"

definition findAgreementForApp :: "string \<Rightarrow> string \<Rightarrow> agreement option dbtx" where
  "findAgreementForApp appId agreementId = findFirst agreements (agreement_is appId agreementId)"

text \<open>\<open>include: { milestones: ... }\<close>\<close>

definition includeMilestones :: "agreement \<Rightarrow> db \<Rightarrow> milestone list" where
  "includeMilestones a s = filter (\<lambda>m. ms_agreementId m = ag_id a \<and> ms_appId m = ag_appId a) (milestones s)"

record agreement_query =
  agq_status :: "AgreementStatus option"
  agq_externalReferenceId :: "string option"
  agq_limit :: nat
  agq_cursor :: "string option"

definition agreement_selected :: "string \<Rightarrow> agreement_query \<Rightarrow> agreement \<Rightarrow> bool" where
  "agreement_selected appId params a \<longleftrightarrow> ag_appId a = appId
     \<and> (case agq_status params of None \<Rightarrow> True | Some st \<Rightarrow> ag_status a = st)
     \<and> (case agq_externalReferenceId params of None \<Rightarrow> True | Some r \<Rightarrow> ag_externalReferenceId a = Some r)"

definition listAgreementRows :: "string \<Rightarrow> agreement_query \<Rightarrow> db \<Rightarrow> agreement list" where
  "listAgreementRows appId params s =
     list_desc ag_createdAt ag_id (agreement_selected appId params) (agq_limit params) (agq_cursor params)
       (agreements s)"

definition settle_columns :: "AgreementStatus \<Rightarrow> int \<Rightarrow> agreement \<Rightarrow> agreement" where
  "settle_columns nextStatus t a = (case nextStatus of
       AS_funding_required \<Rightarrow> a\<lparr>ag_settlementStatus := ''FUNDING_PENDING''\<rparr>
     | AS_funded \<Rightarrow> a\<lparr>ag_settlementStatus := ''FUNDED'', ag_fundingConfirmedAt := Some t\<rparr>
     | AS_released \<Rightarrow> a\<lparr>ag_settlementStatus := ''PAYOUT_CONFIRMED''\<rparr>
     | AS_refunded \<Rightarrow> a\<lparr>ag_settlementStatus := ''REFUND_CONFIRMED''\<rparr>
     | _ \<Rightarrow> a)"

definition transitionAgreementStatus ::
  "string \<Rightarrow> string \<Rightarrow> AgreementStatus \<Rightarrow> AgreementStatus \<Rightarrow> agreement dbtx" where
  "transitionAgreementStatus appId agreementId expectedStatus nextStatus =
     tx_bind (updateMany agreements agreements_update
       (\<lambda>a. agreement_is appId agreementId a \<and> ag_status a = expectedStatus)
       (\<lambda>s a. (settle_columns nextStatus (clock s) a)\<lparr>ag_status := nextStatus, ag_updatedAt := clock s\<rparr>)) (\<lambda>count.
     tx_bind (tx_lift (assertLifecycleCompareAndSwap count)) (\<lambda>_.
     tx_bind (findFirst agreements (agreement_is appId agreementId)) (\<lambda>found.
     tx_some P2025 found)))"

section \<open>agreement.model.ts\<close>

fun agreement_status_name :: "AgreementStatus \<Rightarrow> string" where
  "agreement_status_name AS_draft = ''draft''"
| "agreement_status_name AS_pending_acceptance = ''pending_acceptance''"
| "agreement_status_name AS_accepted = ''accepted''"
| "agreement_status_name AS_funding_required = ''funding_required''"
| "agreement_status_name AS_funded = ''funded''"
| "agreement_status_name AS_in_progress = ''in_progress''"
| "agreement_status_name AS_proof_submitted = ''proof_submitted''"
| "agreement_status_name AS_under_review = ''under_review''"
| "agreement_status_name AS_approved = ''approved''"
| "agreement_status_name AS_release_pending = ''release_pending''"
| "agreement_status_name AS_released = ''released''"
| "agreement_status_name AS_rejected = ''rejected''"
| "agreement_status_name AS_disputed = ''disputed''"
| "agreement_status_name AS_cancelled = ''cancelled''"
| "agreement_status_name AS_refunded = ''refunded''"
| "agreement_status_name AS_expired = ''expired''"
| "agreement_status_name (AS_other s) = s"

definition normalizeStatus :: "AgreementStatus \<Rightarrow> string" where
  "normalizeStatus status =
     (if isAgreementStatus status then agreement_status_name status
      else toLowerCase (agreement_status_name status))"

text \<open>\<open>summary\<close> is the loaded \<open>milestones\<close> relation, absent on a freshly created row.\<close>

definition milestoneSummary :: "milestone list \<Rightarrow> json" where
  "milestoneSummary ms = JObj [
     (''count'', JNum (int (length ms))),
     (''totalAmount'', JStr (show_int (\<Sum>m\<leftarrow>ms. BigInt (ms_amount m))))]"

definition serializeAgreement :: "agreement \<Rightarrow> milestone list option \<Rightarrow> json" where
  "serializeAgreement a summary = jobj [
     (''id'', Some (JStr (ag_id a))),
     (''appId'', Some (JStr (ag_appId a))),
     (''externalReferenceId'', Some (jstr_opt (ag_externalReferenceId a))),
     (''title'', Some (JStr (ag_title a))),
     (''description'', Some (JStr (ag_description a))),
     (''clientExternalId'', Some (JStr (ag_clientExternalId a))),
     (''workerExternalId'', Some (JStr (ag_workerExternalId a))),
     (''status'', Some (JStr (normalizeStatus (ag_status a)))),
     (''totalAmount'', Some (JStr (ag_amount a))),
     (''currency'', Some (JStr (ag_currency a))),
     (''releaseMode'', Some (JStr (ag_releaseMode a))),
     (''disputeMode'', Some (JStr (ag_disputeMode a))),
     (''sourceType'', Some (jstr_opt (ag_sourceType a))),
     (''sourceUrl'', Some (jstr_opt (ag_sourceUrl a))),
     (''metadata'', Some (ag_metadata a)),
     (''milestoneSummary'', map_option milestoneSummary summary),
     (''createdAt'', Some (jdate (ag_createdAt a))),
     (''updatedAt'', Some (jdate (ag_updatedAt a)))]"

section \<open>agreement.events.ts\<close>

definition eventTypeForAgreementStatus :: "AgreementStatus \<Rightarrow> string option" where
  "eventTypeForAgreementStatus status = (case status of
       AS_accepted \<Rightarrow> Some ''agreement.accepted''
     | AS_funding_required \<Rightarrow> Some ''agreement.funding_required''
     | AS_funded \<Rightarrow> Some ''agreement.funded''
     | AS_in_progress \<Rightarrow> Some ''agreement.in_progress''
     | AS_released \<Rightarrow> Some ''agreement.released''
     | AS_refunded \<Rightarrow> Some ''agreement.refunded''
     | AS_cancelled \<Rightarrow> Some ''agreement.cancelled''
     | _ \<Rightarrow> None)"

section \<open>agreement.service.ts\<close>

definition assertInfrastructureStatus :: "AgreementStatus \<Rightarrow> error + AgreementStatus" where
  "assertInfrastructureStatus status =
     (if \<not> isAgreementStatus status then Inl (invalidRequest ''invalid_state_transition'') else Inr status)"

definition auditLifecycleChange ::
  "env \<Rightarrow> request \<Rightarrow> string \<Rightarrow> string \<Rightarrow> string \<Rightarrow> json option \<Rightarrow> json option \<Rightarrow> audit_log dbtx" where
  "auditLifecycleChange E req appId agreementId action beforeRow after =
     auditRequest E req appId agreementId ''agreement'' agreementId action beforeRow after"

definition createAgreement_run :: "env \<Rightarrow> request \<Rightarrow> string \<Rightarrow> create_agreement_input \<Rightarrow> json dbtx" where
  "createAgreement_run E req appId input =
     tx_bind (tx_catch (createAgreement E appId input) (\<lambda>error.
       if cai_externalReferenceId input \<noteq> None \<and> cai_externalReferenceId input \<noteq> Some [] \<and> isUniqueConstraintError error
       then tx_throw (conflict ''agreement_already_exists'')
       else tx_throw error)) (\<lambda>created.
     let serialized = serializeAgreement created None in
     tx_bind (createEvent E appId (agreement_event ''agreement.created'' (ag_id created)
       (JObj [(''agreement'', serialized)]))) (\<lambda>_.
     tx_bind (auditLifecycleChange E req appId (ag_id created) ''agreement.created'' None (Some serialized)) (\<lambda>_.
     tx_return serialized)))"

definition createAgreementForApp :: "env \<Rightarrow> request \<Rightarrow> string \<Rightarrow> create_agreement_input \<Rightarrow> json dbproc" where
  "createAgreementForApp E req appId input =
     runIdempotentTransaction E req appId 201 (\<lambda>_. createAgreement_run E req appId input)"

definition listAgreementsForApp :: "string \<Rightarrow> agreement_query \<Rightarrow> db \<Rightarrow> json page" where
  "listAgreementsForApp appId query s =
     make_page ag_id (\<lambda>a. serializeAgreement a (Some (includeMilestones a s))) (agq_limit query)
       (listAgreementRows appId query s)"

definition getAgreementForApp :: "string \<Rightarrow> string \<Rightarrow> json dbtx" where
  "getAgreementForApp appId agreementId =
     tx_bind (findAgreementForApp appId agreementId) (\<lambda>found.
     tx_bind (tx_some (notFound ''agreement_not_found'') found) (\<lambda>a.
     tx_gets (\<lambda>s. serializeAgreement a (Some (includeMilestones a s)))))"

definition transitionAgreement_run :: "env \<Rightarrow> request \<Rightarrow> string \<Rightarrow> string \<Rightarrow> AgreementStatus \<Rightarrow> json dbtx" where
  "transitionAgreement_run E req appId agreementId toStatus =
     tx_bind (findAgreementForApp appId agreementId) (\<lambda>found.
     tx_bind (tx_some (notFound ''agreement_not_found'') found) (\<lambda>beforeRow.
     tx_bind (tx_gets (\<lambda>s. serializeAgreement beforeRow (Some (includeMilestones beforeRow s)))) (\<lambda>serializedBefore.
     tx_bind (tx_lift (assertInfrastructureStatus (ag_status beforeRow))) (\<lambda>fromStatus.
     tx_bind (tx_lift (assertAgreementTransition fromStatus toStatus)) (\<lambda>_.
     tx_bind (transitionAgreementStatus appId agreementId fromStatus toStatus) (\<lambda>after.
     tx_bind (tx_gets (\<lambda>s. serializeAgreement after (Some (includeMilestones after s)))) (\<lambda>serializedAfter.
     tx_bind (case eventTypeForAgreementStatus toStatus of
         None \<Rightarrow> tx_return ()
       | Some eventType \<Rightarrow> tx_then (createEvent E appId (agreement_event eventType agreementId (JObj [
             (''previousStatus'', JStr (agreement_status_name fromStatus)),
             (''agreement'', serializedAfter)]))) (tx_return ())) (\<lambda>_.
     tx_bind (auditLifecycleChange E req appId agreementId ''agreement.status_changed''
       (Some serializedBefore) (Some serializedAfter)) (\<lambda>_.
     tx_return serializedAfter)))))))))"

definition transitionAgreement :: "env \<Rightarrow> request \<Rightarrow> string \<Rightarrow> string \<Rightarrow> AgreementStatus \<Rightarrow> json dbproc" where
  "transitionAgreement E req appId agreementId toStatus =
     runIdempotentTransaction E req appId 200 (\<lambda>_. transitionAgreement_run E req appId agreementId toStatus)"

definition acceptAgreement_run :: "env \<Rightarrow> request \<Rightarrow> string \<Rightarrow> string \<Rightarrow> json dbtx" where
  "acceptAgreement_run E req appId agreementId =
     tx_bind (findAgreementForApp appId agreementId) (\<lambda>found.
     tx_bind (tx_some (notFound ''agreement_not_found'') found) (\<lambda>beforeRow.
     tx_bind (tx_gets (\<lambda>s. serializeAgreement beforeRow (Some (includeMilestones beforeRow s)))) (\<lambda>serializedBefore.
     tx_bind (tx_lift (assertInfrastructureStatus (ag_status beforeRow))) (\<lambda>fromStatus.
     tx_bind (tx_lift (assertAgreementTransition fromStatus AS_pending_acceptance)) (\<lambda>_.
     tx_bind (tx_lift (assertAgreementTransition AS_pending_acceptance AS_accepted)) (\<lambda>_.
     tx_bind (transitionAgreementStatus appId agreementId fromStatus AS_pending_acceptance) (\<lambda>_.
     tx_bind (transitionAgreementStatus appId agreementId AS_pending_acceptance AS_accepted) (\<lambda>accepted.
     tx_bind (tx_gets (\<lambda>s. serializeAgreement accepted (Some (includeMilestones accepted s)))) (\<lambda>serializedAfter.
     tx_bind (createEvent E appId (agreement_event ''agreement.accepted'' agreementId (JObj [
       (''previousStatus'', JStr (agreement_status_name fromStatus)),
       (''agreement'', serializedAfter)]))) (\<lambda>_.
     tx_bind (auditLifecycleChange E req appId agreementId ''agreement.status_changed''
       (Some serializedBefore) (Some serializedAfter)) (\<lambda>_.
     tx_return serializedAfter)))))))))))"

definition acceptAgreement :: "env \<Rightarrow> request \<Rightarrow> string \<Rightarrow> string \<Rightarrow> json dbproc" where
  "acceptAgreement E req appId agreementId =
     runIdempotentTransaction E req appId 200 (\<lambda>_. acceptAgreement_run E req appId agreementId)"

definition cancelAgreement :: "env \<Rightarrow> request \<Rightarrow> string \<Rightarrow> string \<Rightarrow> json dbproc" where
  "cancelAgreement E req appId agreementId = transitionAgreement E req appId agreementId AS_cancelled"

definition moveAgreementToFundingRequired :: "env \<Rightarrow> request \<Rightarrow> string \<Rightarrow> string \<Rightarrow> json dbproc" where
  "moveAgreementToFundingRequired E req appId agreementId =
     transitionAgreement E req appId agreementId AS_funding_required"

section \<open>What the operations keep\<close>

lemma ag_settle_columns [simp]:
  "ag_appId (settle_columns st t a) = ag_appId a" "ag_id (settle_columns st t a) = ag_id a"
  "ag_terms ((settle_columns st t a)\<lparr>ag_status := st', ag_updatedAt := u\<rparr>) = ag_terms a"
  by (cases st; simp add: settle_columns_def ag_terms_def)+

lemma transitionAgreementStatus_life:
  "canTransitionAgreement frm to \<Longrightarrow> lifeOrder.resp (transitionAgreementStatus appId i frm to)"
  unfolding transitionAgreementStatus_def
  by (intro life_rules life_moves) (auto simp: agreementRows.row_le_def)

lemma transitionAgreementStatus_keys: "keyFrame.resp (transitionAgreementStatus appId i frm to)"
  unfolding transitionAgreementStatus_def by (intro key_rules)

lemma transitionAgreementStatus_tenant: "tenantFrame.resp appId (transitionAgreementStatus appId i frm to)"
  unfolding transitionAgreementStatus_def
  by (intro tenant_rules tenant_update) (auto simp: agreement_is_def)

lemma transitionAgreementStatus_log: "logOrder.resp (transitionAgreementStatus appId i frm to)"
  unfolding transitionAgreementStatus_def by (intro log_rules)

lemmas agreement_runs =
  createAgreement_run_def transitionAgreement_run_def acceptAgreement_run_def createAgreement_def
  findAgreementForApp_def auditLifecycleChange_def Let_def

lemma agreement_runs_life:
  "lifeOrder.resp (createAgreement_run E req appId input)"
  "lifeOrder.resp (transitionAgreement_run E req appId i st)"
  "lifeOrder.resp (acceptAgreement_run E req appId i)"
  unfolding agreement_runs
  by (intro life_rules life_new_rows transitionAgreementStatus_life; simp add: tx_iff)+

lemma agreement_runs_keys:
  "keyFrame.resp (createAgreement_run E req appId input)"
  "keyFrame.resp (transitionAgreement_run E req appId i st)"
  "keyFrame.resp (acceptAgreement_run E req appId i)"
  unfolding agreement_runs by (intro key_rules transitionAgreementStatus_keys)+

lemma agreement_runs_tenant:
  "tenantFrame.resp appId (createAgreement_run E req appId input)"
  "tenantFrame.resp appId (transitionAgreement_run E req appId i st)"
  "tenantFrame.resp appId (acceptAgreement_run E req appId i)"
  unfolding agreement_runs by (intro tenant_rules tenant_insert transitionAgreementStatus_tenant; simp)+

lemma agreement_runs_log:
  "logOrder.resp (createAgreement_run E req appId input)"
  "logOrder.resp (transitionAgreement_run E req appId i st)"
  "logOrder.resp (acceptAgreement_run E req appId i)"
  unfolding agreement_runs by (intro log_rules transitionAgreementStatus_log)+

section \<open>What a new agreement is\<close>

definition new_agreement :: "string \<Rightarrow> string \<Rightarrow> create_agreement_input \<Rightarrow> int \<Rightarrow> agreement" where
  "new_agreement agreementId appId input t =
     \<lparr>ag_id = agreementId, ag_appId = appId,
      ag_externalReferenceId = cai_externalReferenceId input, ag_title = cai_title input,
      ag_description = cai_description input, ag_clientExternalId = cai_clientExternalId input,
      ag_workerExternalId = cai_workerExternalId input, ag_amount = cai_totalAmount input,
      ag_currency = cai_currency input, ag_deadlineAt = t + 30 * 24 * 60 * 60 * 1000,
      ag_releaseMode = cai_releaseMode input, ag_disputeMode = cai_disputeMode input,
      ag_sourceType = cai_sourceType input, ag_sourceUrl = cai_sourceUrl input,
      ag_metadata = cai_metadata input, ag_status = AS_draft, ag_settlementStatus = ''UNFUNDED'',
      ag_fundingConfirmedAt = None, ag_createdAt = t, ag_updatedAt = t\<rparr>"

lemma createAgreement_iff:
  "createAgreement E appId input s = Inr (a, t) \<longleftrightarrow>
     a = new_agreement (randomUUID E (uuidCount s)) appId input (clock s)
     \<and> (\<forall>g\<in>set (agreements s). \<not> agreement_clash a g)
     \<and> t = agreements_update (\<lambda>rows. rows @ [a]) (s\<lparr>uuidCount := Suc (uuidCount s)\<rparr>)"
  by (auto simp: createAgreement_def tx_iff new_agreement_def)

lemma createAgreement_run_effect:
  assumes "createAgreement_run E req appId input s = Inr (v, t)"
  shows "\<exists>a. a = new_agreement (randomUUID E (uuidCount s)) appId input (clock s)
    \<and> v = serializeAgreement a None \<and> (\<forall>g\<in>set (agreements s). \<not> agreement_clash a g)
    \<and> core t = core (agreements_update (\<lambda>rows. rows @ [a]) s)"
proof -
  obtain a s1 e s2 l where a: "createAgreement E appId input s = Inr (a, s1)"
    and e: "createEvent E appId (agreement_event ''agreement.created'' (ag_id a)
      (JObj [(''agreement'', serializeAgreement a None)])) s1 = Inr (e, s2)"
    and l: "auditLifecycleChange E req appId (ag_id a) ''agreement.created'' None (Some (serializeAgreement a None)) s2 = Inr (l, t)"
    and v: "v = serializeAgreement a None"
    using assms by (auto simp: createAgreement_run_def tx_iff Let_def split: if_splits)
  have "core t = core s1"
    using outbox_core(1) [OF e] outbox_core(2) l [unfolded auditLifecycleChange_def] by metis
  with a v show ?thesis by (auto simp: createAgreement_iff core_def)
qed

end
