(* ===== verification/Milestones.thy ===== *)
theory Milestones
  imports Agreements
begin

text \<open>
  Milestones: \<open>modules/milestones/milestone.repository.ts\<close>, \<open>milestone.model.ts\<close> and
  \<open>milestone.service.ts\<close>. The main property is the allocation invariant: the milestones of an
  agreement never add up to more than its amount, whatever operation of the server runs.
\<close>

section \<open>milestone.repository.ts\<close>

record create_milestone_input =
  cmi_externalReferenceId :: "string option"
  cmi_title :: string
  cmi_description :: string
  cmi_amount :: string
  cmi_currency :: "string option"
  cmi_order :: "int option"
  cmi_dueDate :: "int option"

definition milestone_clash :: "milestone \<Rightarrow> milestone \<Rightarrow> bool" where
  "milestone_clash m n \<longleftrightarrow> ms_id m = ms_id n
     \<or> (ms_appId m = ms_appId n \<and> ms_externalReferenceId m \<noteq> None
        \<and> ms_externalReferenceId m = ms_externalReferenceId n)
     \<or> (ms_agreementId m = ms_agreementId n \<and> ms_sortOrder m = ms_sortOrder n)"

definition createMilestone ::
  "env \<Rightarrow> string \<Rightarrow> string \<Rightarrow> create_milestone_input \<Rightarrow> int \<Rightarrow> string \<Rightarrow> milestone dbtx" where
  "createMilestone E appId agreementId input order currency =
     tx_bind (freshId E) (\<lambda>milestoneId.
     tx_bind now (\<lambda>t.
     insertRow milestones milestones_update milestone_clash
       \<lparr>ms_id = milestoneId, ms_appId = appId, ms_agreementId = agreementId,
        ms_externalReferenceId = cmi_externalReferenceId input, ms_title = cmi_title input,
        ms_description = cmi_description input, ms_amount = cmi_amount input,
        ms_currency = currency, ms_sortOrder = order, ms_status = MS_pending,
        ms_dueDate = cmi_dueDate input, ms_reviewStartedAt = None, ms_reviewDeadlineAt = None,
        ms_createdAt = t, ms_updatedAt = t\<rparr>))"

definition milestone_is :: "string \<Rightarrow> string \<Rightarrow> milestone \<Rightarrow> bool" where
  "milestone_is appId milestoneId m \<longleftrightarrow> ms_id m = milestoneId \<and> ms_appId m = appId"

definition findMilestoneForApp :: "string \<Rightarrow> string \<Rightarrow> milestone option dbtx" where
  "findMilestoneForApp appId milestoneId = findFirst milestones (milestone_is appId milestoneId)"

definition transitionMilestoneStatus ::
  "string \<Rightarrow> string \<Rightarrow> MilestoneStatus \<Rightarrow> MilestoneStatus \<Rightarrow> milestone dbtx" where
  "transitionMilestoneStatus appId milestoneId expectedStatus nextStatus =
     tx_bind (updateMany milestones milestones_update
       (\<lambda>m. milestone_is appId milestoneId m \<and> ms_status m = expectedStatus)
       (\<lambda>s m. m\<lparr>ms_status := nextStatus, ms_updatedAt := clock s\<rparr>)) (\<lambda>count.
     tx_bind (tx_lift (assertLifecycleCompareAndSwap count)) (\<lambda>_.
     tx_bind (findFirst milestones (milestone_is appId milestoneId)) (\<lambda>found.
     tx_some P2025 found)))"

text \<open>The row lock has no effect of its own here: a transaction is one step.\<close>

definition lockAgreementForMilestoneAllocation :: "string \<Rightarrow> string \<Rightarrow> bool dbtx" where
  "lockAgreementForMilestoneAllocation appId agreementId =
     tx_bind (findMany agreements (agreement_is appId agreementId)) (\<lambda>rows. tx_return (length rows = 1))"

definition allocated_to :: "string \<Rightarrow> string \<Rightarrow> milestone \<Rightarrow> bool" where
  "allocated_to appId agreementId m \<longleftrightarrow> ms_agreementId m = agreementId \<and> ms_appId m = appId"

definition getMilestoneAmountSumForAgreement :: "string \<Rightarrow> string \<Rightarrow> string list dbtx" where
  "getMilestoneAmountSumForAgreement appId agreementId =
     tx_gets (\<lambda>s. map ms_amount (filter (allocated_to appId agreementId) (milestones s)))"

definition getNextMilestoneOrder :: "string \<Rightarrow> string \<Rightarrow> milestone option dbtx" where
  "getNextMilestoneOrder appId agreementId =
     findLatest milestones ms_sortOrder (allocated_to appId agreementId)"

record milestone_query =
  msq_agreementId :: "string option"
  msq_status :: "MilestoneStatus option"
  msq_limit :: nat
  msq_cursor :: "string option"

definition milestone_selected :: "string \<Rightarrow> milestone_query \<Rightarrow> milestone \<Rightarrow> bool" where
  "milestone_selected appId params m \<longleftrightarrow> ms_appId m = appId
     \<and> (case msq_agreementId params of None \<Rightarrow> True | Some a \<Rightarrow> ms_agreementId m = a)
     \<and> (case msq_status params of None \<Rightarrow> True | Some st \<Rightarrow> ms_status m = st)"

definition listMilestoneRowsForApp :: "string \<Rightarrow> milestone_query \<Rightarrow> db \<Rightarrow> milestone list" where
  "listMilestoneRowsForApp appId params s =
     list_desc ms_createdAt ms_id (milestone_selected appId params) (msq_limit params) (msq_cursor params)
       (milestones s)"

text \<open>\<open>orderBy: { sortOrder: 'asc' }\<close>\<close>

definition listMilestoneRowsForAgreement :: "string \<Rightarrow> string \<Rightarrow> milestone_query \<Rightarrow> db \<Rightarrow> milestone list" where
  "listMilestoneRowsForAgreement appId agreementId params s =
     find_page (\<lambda>q r. ms_sortOrder q \<le> ms_sortOrder r) ms_id (milestones s)
       (sort_key ms_sortOrder (filter (allocated_to appId agreementId) (milestones s)))
       (msq_limit params + 1) (msq_cursor params)"

section \<open>milestone.model.ts\<close>

fun milestone_status_name :: "MilestoneStatus \<Rightarrow> string" where
  "milestone_status_name MS_pending = ''pending''"
| "milestone_status_name MS_funding_required = ''funding_required''"
| "milestone_status_name MS_funded = ''funded''"
| "milestone_status_name MS_in_progress = ''in_progress''"
| "milestone_status_name MS_proof_submitted = ''proof_submitted''"
| "milestone_status_name MS_under_review = ''under_review''"
| "milestone_status_name MS_approved = ''approved''"
| "milestone_status_name MS_released = ''released''"
| "milestone_status_name MS_rejected = ''rejected''"
| "milestone_status_name MS_disputed = ''disputed''"
| "milestone_status_name MS_refunded = ''refunded''"
| "milestone_status_name MS_cancelled = ''cancelled''"
| "milestone_status_name MS_expired = ''expired''"
| "milestone_status_name (MS_other s) = s"

definition serializeMilestone :: "milestone \<Rightarrow> json" where
  "serializeMilestone m = JObj [
     (''id'', JStr (ms_id m)),
     (''appId'', JStr (ms_appId m)),
     (''agreementId'', JStr (ms_agreementId m)),
     (''externalReferenceId'', jstr_opt (ms_externalReferenceId m)),
     (''title'', JStr (ms_title m)),
     (''description'', JStr (ms_description m)),
     (''amount'', JStr (ms_amount m)),
     (''currency'', JStr (ms_currency m)),
     (''order'', JNum (ms_sortOrder m)),
     (''status'', JStr (milestone_status_name (ms_status m))),
     (''dueDate'', jdate_opt (ms_dueDate m)),
     (''reviewStartedAt'', jdate_opt (ms_reviewStartedAt m)),
     (''reviewDeadlineAt'', jdate_opt (ms_reviewDeadlineAt m)),
     (''createdAt'', jdate (ms_createdAt m)),
     (''updatedAt'', jdate (ms_updatedAt m))]"

section \<open>milestone.service.ts\<close>

text \<open>Event data that also names the milestone.\<close>

definition milestone_event :: "string \<Rightarrow> string \<Rightarrow> string \<Rightarrow> json \<Rightarrow> event_data" where
  "milestone_event ty a m p = (agreement_event ty a p)\<lparr>ed_milestoneId := Some m\<rparr>"

definition auditMilestoneCreate :: "env \<Rightarrow> request \<Rightarrow> string \<Rightarrow> string \<Rightarrow> string \<Rightarrow> json \<Rightarrow> audit_log dbtx" where
  "auditMilestoneCreate E req appId agreementId milestoneId after =
     auditRequest E req appId agreementId ''milestone'' milestoneId ''milestone.created'' None (Some after)"

definition immutable_terms :: "AgreementStatus \<Rightarrow> bool" where
  "immutable_terms status \<longleftrightarrow> List.member [AS_funded, AS_in_progress, AS_proof_submitted, AS_under_review,
     AS_approved, AS_release_pending, AS_released, AS_refunded, AS_disputed] status"

definition createMilestone_run ::
  "env \<Rightarrow> request \<Rightarrow> string \<Rightarrow> string \<Rightarrow> create_milestone_input \<Rightarrow> json dbtx" where
  "createMilestone_run E req appId agreementId input =
     tx_bind (lockAgreementForMilestoneAllocation appId agreementId) (\<lambda>locked.
     tx_bind (tx_require locked (notFound ''agreement_not_found'')) (\<lambda>_.
     tx_bind (findAgreementForApp appId agreementId) (\<lambda>found.
     tx_bind (tx_some (notFound ''agreement_not_found'') found) (\<lambda>agreement.
     tx_bind (tx_require (\<not> immutable_terms (ag_status agreement))
       (invalidRequest ''funded_agreement_immutable'')) (\<lambda>_.
     tx_bind (getMilestoneAmountSumForAgreement appId agreementId) (\<lambda>existingMilestones.
     tx_bind (tx_lift (sumIntegerAmounts existingMilestones)) (\<lambda>existingTotal.
     tx_bind (tx_lift (assertMilestoneAllocationWithinAgreement existingTotal (cmi_amount input)
       (ag_amount agreement))) (\<lambda>_.
     tx_bind (getNextMilestoneOrder appId agreementId) (\<lambda>lastMilestone.
     let order = (case cmi_order input of
            Some n \<Rightarrow> n
          | None \<Rightarrow> (case lastMilestone of None \<Rightarrow> 0 | Some m \<Rightarrow> ms_sortOrder m) + 1);
         currency = (case cmi_currency input of Some c \<Rightarrow> c | None \<Rightarrow> ag_currency agreement) in
     tx_bind (tx_lift (assertCurrencyMatchesAgreement currency (ag_currency agreement))) (\<lambda>_.
     tx_bind (tx_catch (createMilestone E appId agreementId input order currency) (\<lambda>error.
       if isUniqueConstraintError error then tx_throw (conflict ''milestone_already_exists'')
       else tx_throw error)) (\<lambda>created.
     let serialized = serializeMilestone created in
     tx_bind (createEvent E appId (milestone_event ''milestone.created'' agreementId (ms_id created)
       (JObj [(''milestone'', serialized)]))) (\<lambda>_.
     tx_bind (auditMilestoneCreate E req appId agreementId (ms_id created) serialized) (\<lambda>_.
     tx_return serialized)))))))))))))"

definition createMilestoneForAgreement ::
  "env \<Rightarrow> request \<Rightarrow> string \<Rightarrow> string \<Rightarrow> create_milestone_input \<Rightarrow> json dbproc" where
  "createMilestoneForAgreement E req appId agreementId input =
     runIdempotentTransaction E req appId 201 (\<lambda>_. createMilestone_run E req appId agreementId input)"

definition listMilestonesForAgreement :: "string \<Rightarrow> string \<Rightarrow> milestone_query \<Rightarrow> json page dbtx" where
  "listMilestonesForAgreement appId agreementId query =
     tx_bind (findAgreementForApp appId agreementId) (\<lambda>found.
     tx_bind (tx_some (notFound ''agreement_not_found'') found) (\<lambda>_.
     tx_gets (\<lambda>s. make_page ms_id serializeMilestone (msq_limit query)
       (listMilestoneRowsForAgreement appId agreementId query s))))"

definition listMilestonesForApp :: "string \<Rightarrow> milestone_query \<Rightarrow> db \<Rightarrow> json page" where
  "listMilestonesForApp appId query s =
     make_page ms_id serializeMilestone (msq_limit query) (listMilestoneRowsForApp appId query s)"

definition getMilestoneForApp :: "string \<Rightarrow> string \<Rightarrow> json dbtx" where
  "getMilestoneForApp appId milestoneId =
     tx_bind (findMilestoneForApp appId milestoneId) (\<lambda>found.
     tx_bind (tx_some (notFound ''milestone_not_found'') found) (\<lambda>m.
     tx_return (serializeMilestone m)))"

section \<open>What the operations keep\<close>

lemma transitionMilestoneStatus_life:
  "canTransitionMilestone frm to \<Longrightarrow> lifeOrder.resp (transitionMilestoneStatus appId i frm to)"
  unfolding transitionMilestoneStatus_def
  by (intro life_rules life_moves) (auto simp: milestoneRows.row_le_def ms_terms_def)

lemma transitionMilestoneStatus_keys: "keyFrame.resp (transitionMilestoneStatus appId i frm to)"
  unfolding transitionMilestoneStatus_def by (intro key_rules)

lemma transitionMilestoneStatus_tenant: "tenantFrame.resp appId (transitionMilestoneStatus appId i frm to)"
  unfolding transitionMilestoneStatus_def
  by (intro tenant_rules tenant_update) (auto simp: milestone_is_def)

lemma transitionMilestoneStatus_log: "logOrder.resp (transitionMilestoneStatus appId i frm to)"
  unfolding transitionMilestoneStatus_def by (intro log_rules)

lemmas milestone_runs =
  createMilestone_run_def createMilestone_def lockAgreementForMilestoneAllocation_def
  getMilestoneAmountSumForAgreement_def getNextMilestoneOrder_def findAgreementForApp_def
  auditMilestoneCreate_def Let_def

lemma createMilestone_run_life: "lifeOrder.resp (createMilestone_run E req appId i input)"
  unfolding milestone_runs by (intro life_rules life_new_rows) simp

lemma createMilestone_run_keys: "keyFrame.resp (createMilestone_run E req appId i input)"
  unfolding milestone_runs by (intro key_rules)

lemma createMilestone_run_tenant: "tenantFrame.resp appId (createMilestone_run E req appId i input)"
  unfolding milestone_runs by (intro tenant_rules tenant_insert) simp

lemma createMilestone_run_log: "logOrder.resp (createMilestone_run E req appId i input)"
  unfolding milestone_runs by (intro log_rules)


section \<open>The allocation invariant\<close>

definition allocatedAmount :: "string \<Rightarrow> string \<Rightarrow> milestone list \<Rightarrow> int" where
  "allocatedAmount appId agreementId ms = (\<Sum>m\<leftarrow>filter (allocated_to appId agreementId) ms. BigInt (ms_amount m))"

text \<open>Every milestone belongs to an agreement, and no agreement is allocated beyond its amount.\<close>

definition alloc_inv :: "db \<Rightarrow> bool" where
  "alloc_inv s \<longleftrightarrow>
     (\<forall>m\<in>set (milestones s). \<exists>g\<in>set (agreements s). allocated_to (ag_appId g) (ag_id g) m)
   \<and> (\<forall>g\<in>set (agreements s). filter (allocated_to (ag_appId g) (ag_id g)) (milestones s) = []
        \<or> allocatedAmount (ag_appId g) (ag_id g) (milestones s) \<le> BigInt (ag_amount g))"

definition alloc_kept :: "db \<Rightarrow> db \<Rightarrow> bool" where
  "alloc_kept s t \<longleftrightarrow> (alloc_inv s \<longrightarrow> alloc_inv t)"

interpretation allocOrder: step_order alloc_kept
  by unfold_locales (auto simp: alloc_kept_def)

text \<open>The invariant only reads the terms of the two tables.\<close>

definition ms_share :: "milestone \<Rightarrow> string \<times> string \<times> string" where
  "ms_share m = (ms_appId m, ms_agreementId m, ms_amount m)"

definition ag_share :: "agreement \<Rightarrow> string \<times> string \<times> string" where
  "ag_share g = (ag_appId g, ag_id g, ag_amount g)"

lemma ms_share_filter:
  "map ms_share ms = map ms_share ns \<Longrightarrow>
     map ms_amount (filter (allocated_to a i) ms) = map ms_amount (filter (allocated_to a i) ns)"
proof (induction ms arbitrary: ns)
  case Nil
  then show ?case by simp
next
  case (Cons m ms)
  then obtain n ns' where n: "ns = n # ns'" "ms_share m = ms_share n" "map ms_share ms = map ms_share ns'"
    by (cases ns) auto
  note ih = Cons.IH [OF n(3)]
  have "allocated_to a i m = allocated_to a i n" "ms_amount m = ms_amount n"
    using n(2) by (auto simp: ms_share_def allocated_to_def)
  with ih n(1) show ?case by simp
qed

lemma set_share: "map f xs = map f ys \<Longrightarrow> x \<in> set xs \<Longrightarrow> \<exists>y\<in>set ys. f y = f x"
  by (metis image_eqI image_iff list.set_map)

lemma alloc_inv_share:
  assumes ag: "map ag_share (agreements t) = map ag_share (agreements s)"
    and ms: "map ms_share (milestones t) = map ms_share (milestones s)"
  shows "alloc_kept s t"
  unfolding alloc_kept_def
proof
  assume inv: "alloc_inv s"
  have f: "map ms_amount (filter (allocated_to a i) (milestones t)) = map ms_amount (filter (allocated_to a i) (milestones s))"
    for a i using ms by (rule ms_share_filter)
  have amount: "allocatedAmount a i (milestones t) = allocatedAmount a i (milestones s)" for a i
    using arg_cong [OF f, of "\<lambda>vs. \<Sum>v\<leftarrow>vs. BigInt v" a i] by (simp add: allocatedAmount_def comp_def)
  have empty: "filter (allocated_to a i) (milestones t) = [] \<longleftrightarrow> filter (allocated_to a i) (milestones s) = []" for a i
    using f [of a i] by (metis map_is_Nil_conv)
  show "alloc_inv t" unfolding alloc_inv_def
  proof (intro conjI ballI)
    fix m assume "m \<in> set (milestones t)"
    then obtain n where n: "n \<in> set (milestones s)" "ms_share n = ms_share m" using set_share [OF ms] by metis
    then obtain g where "g \<in> set (agreements s)" "allocated_to (ag_appId g) (ag_id g) n"
      using inv by (auto simp: alloc_inv_def)
    moreover from this obtain g' where "g' \<in> set (agreements t)" "ag_share g' = ag_share g"
      using set_share [OF ag [symmetric]] by metis
    ultimately show "\<exists>g\<in>set (agreements t). allocated_to (ag_appId g) (ag_id g) m"
      using n(2) by (intro bexI [of _ g']) (auto simp: ag_share_def ms_share_def allocated_to_def)
  next
    fix g assume "g \<in> set (agreements t)"
    then obtain g' where g': "g' \<in> set (agreements s)" "ag_share g' = ag_share g" using set_share [OF ag] by metis
    then have "filter (allocated_to (ag_appId g') (ag_id g')) (milestones s) = []
        \<or> allocatedAmount (ag_appId g') (ag_id g') (milestones s) \<le> BigInt (ag_amount g')"
      using inv by (auto simp: alloc_inv_def)
    with g'(2) show "filter (allocated_to (ag_appId g) (ag_id g)) (milestones t) = []
        \<or> allocatedAmount (ag_appId g) (ag_id g) (milestones t) \<le> BigInt (ag_amount g)"
      by (simp add: ag_share_def amount empty)
  qed
qed

lemma alloc_core: "core t = core s \<Longrightarrow> alloc_kept s t"
  using core_eqD [of t s] by (intro alloc_inv_share) simp_all

lemma alloc_new_agreement:
  assumes inv: "alloc_inv s" and new: "\<forall>g\<in>set (agreements s). ag_id g \<noteq> ag_id a"
  shows "alloc_inv (agreements_update (\<lambda>rows. rows @ [a]) s)"
proof -
  have "filter (allocated_to (ag_appId a) (ag_id a)) (milestones s) = []"
    using inv new by (auto simp: alloc_inv_def allocated_to_def filter_empty_conv)
  with inv show ?thesis by (auto simp: alloc_inv_def)
qed

lemma alloc_base:
  "allocOrder.resp (insertRow transactions transactions_update c1 r1)"
  "allocOrder.resp (insertRow reviews reviews_update c2 r2)"
  "allocOrder.resp (insertRow escrows escrows_update c3 r3)"
  "allocOrder.resp (insertRow proofs proofs_update c4 r4)"
  "allocOrder.resp (insertRow disputes disputes_update c5 r5)"
  "allocOrder.resp (insertRow idempotencyKeys idempotencyKeys_update c6 r6)"
  "allocOrder.resp (updateMany transactions transactions_update p1 f1)"
  "allocOrder.resp (updateMany escrows escrows_update p2 f2)"
  "allocOrder.resp (updateMany proofs proofs_update p3 f3)"
  "allocOrder.resp (updateMany disputes disputes_update p4 f4)"
  "allocOrder.resp (updateMany idempotencyKeys idempotencyKeys_update p5 f5)"
  "allocOrder.resp (deleteMany transactions_update q1)"
  "allocOrder.resp (deleteMany escrows_update q2)"
  "allocOrder.resp (deleteMany idempotencyKeys_update q3)"
  "allocOrder.resp (freshId E)" "allocOrder.resp now"
  by (auto intro!: allocOrder.respI alloc_inv_share simp: tx_iff)

lemma alloc_agreement: "allocOrder.resp (insertRow agreements agreements_update agreement_clash a)"
  by (intro allocOrder.resp_insert) (auto simp: alloc_kept_def agreement_clash_def intro!: alloc_new_agreement)

lemma alloc_progress:
  "(\<And>s r. ag_share (f s r) = ag_share r) \<Longrightarrow> allocOrder.resp (updateMany agreements agreements_update p f)"
  "(\<And>s r. ms_share (g s r) = ms_share r) \<Longrightarrow> allocOrder.resp (updateMany milestones milestones_update q g)"
  by (intro allocOrder.resp_update alloc_inv_share; simp add: comp_def if_distrib cong: if_cong)+

lemma alloc_outbox:
  "allocOrder.resp (createEvent E a d)" "allocOrder.resp (auditRequest E r b c g h i j k)"
  "allocOrder.resp (createInfrastructureAuditLog E n)" "allocOrder.resp (enqueueJob E q)"
  by (rule allocOrder.respI, rule alloc_core, erule outbox_core)+

lemmas alloc_rules = allocOrder.store_rules alloc_base alloc_agreement alloc_outbox

interpretation allocIdem: idempotent_frame alloc_kept appId for appId
  by unfold_locales (unfold idempotency_defs; intro alloc_rules)+

lemma transitions_alloc:
  "allocOrder.resp (transitionAgreementStatus appId i frm to)"
  "allocOrder.resp (transitionMilestoneStatus appId j frm' to')"
proof -
  have "ag_share ((settle_columns to t a)\<lparr>ag_status := to, ag_updatedAt := u\<rparr>) = ag_share a" for t a u
    by (cases to) (simp_all add: settle_columns_def ag_share_def)
  then show "allocOrder.resp (transitionAgreementStatus appId i frm to)"
    unfolding transitionAgreementStatus_def by (intro alloc_rules alloc_progress)
  show "allocOrder.resp (transitionMilestoneStatus appId j frm' to')"
    unfolding transitionMilestoneStatus_def by (intro alloc_rules alloc_progress) (simp add: ms_share_def)
qed

lemma agreement_runs_alloc:
  "allocOrder.resp (createAgreement_run E req appId input)"
  "allocOrder.resp (transitionAgreement_run E req appId i st)"
  "allocOrder.resp (acceptAgreement_run E req appId i)"
  unfolding agreement_runs by (intro alloc_rules transitions_alloc)+

text \<open>What a successful creation found and left.\<close>

lemma createMilestone_run_effect:
  assumes "createMilestone_run E req appId i input s = Inr (x, t)"
  shows "\<exists>g m. filter (agreement_is appId i) (agreements s) = [g] \<and> \<not> immutable_terms (ag_status g)
     \<and> agreements t = agreements s \<and> milestones t = milestones s @ [m] \<and> allocated_to appId i m
     \<and> ms_amount m = cmi_amount input \<and> ms_currency m = ag_currency g \<and> ms_status m = MS_pending
     \<and> 0 < BigInt (ms_amount m)
     \<and> allocatedAmount appId i (milestones s) + BigInt (ms_amount m) \<le> BigInt (ag_amount g)
     \<and> x = serializeMilestone m"
proof -
  from assms obtain g total order currency m u where
    one: "length (filter (agreement_is appId i) (agreements s)) = 1"
    and g: "List.find (agreement_is appId i) (agreements s) = Some g"
    and terms: "\<not> immutable_terms (ag_status g)"
    and total: "sumIntegerAmounts (map ms_amount (filter (allocated_to appId i) (milestones s))) = Inr total"
    and alloc: "assertMilestoneAllocationWithinAgreement total (cmi_amount input) (ag_amount g) = Inr ()"
    and cur: "currency = ag_currency g"
    and new: "createMilestone E appId i input order currency s = Inr (m, u)"
    and rest: "core t = core u" "x = serializeMilestone m"
    unfolding createMilestone_run_def Let_def
    by (auto simp: tx_iff lockAgreementForMilestoneAllocation_def findAgreementForApp_def
        getMilestoneAmountSumForAgreement_def getNextMilestoneOrder_def auditMilestoneCreate_def
        assertCurrencyMatchesAgreement_def split: if_splits dest!: outbox_core)
  obtain h where h: "filter (agreement_is appId i) (agreements s) = [h]"
    using one by (auto simp: length_Suc_conv)
  have "g \<in> set (filter (agreement_is appId i) (agreements s))" using find_in [OF g] by simp
  then have gh: "g = h" using h by simp
  from new have m: "milestones u = milestones s @ [m]" "agreements u = agreements s" "allocated_to appId i m"
    "ms_amount m = cmi_amount input" "ms_currency m = currency" "ms_status m = MS_pending"
    by (auto simp: createMilestone_def tx_iff allocated_to_def)
  have "total = allocatedAmount appId i (milestones s)"
    using sumIntegerAmounts_eq [OF total] by (simp add: allocatedAmount_def comp_def)
  then have "0 < BigInt (cmi_amount input)
      \<and> allocatedAmount appId i (milestones s) + BigInt (cmi_amount input) \<le> BigInt (ag_amount g)"
    using alloc by (auto simp: assertMilestoneAllocationWithinAgreement_def res_bind_iff res_require_iff
        dest!: parsePositive_pos)
  with h gh terms m cur rest core_eqD(1,2) [OF rest(1)] show ?thesis by auto
qed

lemma createMilestone_run_alloc: "allocOrder.resp (createMilestone_run E req appId i input)"
proof (rule allocOrder.respI)
  fix s x t
  assume "createMilestone_run E req appId i input s = Inr (x, t)"
  from createMilestone_run_effect [OF this] obtain g m where
    g: "filter (agreement_is appId i) (agreements s) = [g]"
    and t: "agreements t = agreements s" "milestones t = milestones s @ [m]"
    and m: "allocated_to appId i m"
      "allocatedAmount appId i (milestones s) + BigInt (ms_amount m) \<le> BigInt (ag_amount g)"
    by auto
  have "g \<in> set (filter (agreement_is appId i) (agreements s))" using g by simp
  then have gi: "g \<in> set (agreements s)" "ag_appId g = appId" "ag_id g = i" by (auto simp: agreement_is_def)
  have only: "h = g" if "h \<in> set (agreements s)" "allocated_to (ag_appId h) (ag_id h) m" for h
  proof -
    have "h \<in> set (filter (agreement_is appId i) (agreements s))"
      using that m(1) by (auto simp: agreement_is_def allocated_to_def)
    then show ?thesis using g by simp
  qed
  show "alloc_kept s t" unfolding alloc_kept_def
  proof
    assume inv: "alloc_inv s"
    have "allocatedAmount (ag_appId h) (ag_id h) (milestones t) \<le> BigInt (ag_amount h)
        \<or> filter (allocated_to (ag_appId h) (ag_id h)) (milestones t) = []" if "h \<in> set (agreements s)" for h
    proof (cases "allocated_to (ag_appId h) (ag_id h) m")
      case True
      then have "h = g" using only that by blast
      with True m(2) gi t show ?thesis by (simp add: allocatedAmount_def)
    next
      case False
      with inv that t show ?thesis by (auto simp: alloc_inv_def allocatedAmount_def)
    qed
    moreover have "\<exists>h\<in>set (agreements t). allocated_to (ag_appId h) (ag_id h) n" if "n \<in> set (milestones t)" for n
      using that inv t gi m(1) by (auto simp: alloc_inv_def)
    ultimately show "alloc_inv t" using t(1) by (auto simp: alloc_inv_def)
  qed
qed

end
