(* ===== verification/Proofs.thy ===== *)
theory Proofs
  imports Milestones
begin

text \<open>
  Proofs of work and their reviews: \<open>modules/proofs/proof.repository.ts\<close>, \<open>proof.model.ts\<close>,
  \<open>proof.events.ts\<close>, \<open>proof.service.ts\<close>, and \<open>modules/reviews/review.repository.ts\<close>,
  \<open>review.model.ts\<close> and \<open>review.service.ts\<close>.
\<close>

section \<open>proof.repository.ts and review.repository.ts\<close>

record create_proof_input =
  cpi_agreementId :: string
  cpi_milestoneId :: string
  cpi_submittedByExternalId :: string
  cpi_type :: string
  cpi_content :: string
  cpi_links :: "string list"
  cpi_fileRefs :: "string list"

definition jstrings :: "string list \<Rightarrow> json" where
  "jstrings xs = JArr (map JStr xs)"

definition createProofContentHash :: "env \<Rightarrow> create_proof_input \<Rightarrow> string" where
  "createProofContentHash E input = sha256 E (stringify (JObj [
     (''type'', JStr (cpi_type input)),
     (''content'', JStr (cpi_content input)),
     (''links'', jstrings (cpi_links input)),
     (''fileRefs'', jstrings (cpi_fileRefs input))]))"

definition proof_clash :: "proof_row \<Rightarrow> proof_row \<Rightarrow> bool" where
  "proof_clash p q \<longleftrightarrow> pf_id p = pf_id q"

definition createProof :: "env \<Rightarrow> string \<Rightarrow> create_proof_input \<Rightarrow> proof_row dbtx" where
  "createProof E appId input =
     tx_bind (freshId E) (\<lambda>proofId.
     tx_bind now (\<lambda>t.
     insertRow proofs proofs_update proof_clash
       \<lparr>pf_id = proofId, pf_appId = appId, pf_agreementId = cpi_agreementId input,
        pf_milestoneId = cpi_milestoneId input,
        pf_submittedByExternalId = cpi_submittedByExternalId input, pf_proofType = cpi_type input,
        pf_content = cpi_content input, pf_contentHash = createProofContentHash E input,
        pf_links = cpi_links input, pf_fileRefs = cpi_fileRefs input, pf_status = PS_submitted,
        pf_submittedAt = t, pf_updatedAt = t\<rparr>))"

definition proof_is :: "string \<Rightarrow> string \<Rightarrow> proof_row \<Rightarrow> bool" where
  "proof_is appId proofId p \<longleftrightarrow> pf_id p = proofId \<and> pf_appId p = appId"

definition findProofForApp :: "string \<Rightarrow> string \<Rightarrow> proof_row option dbtx" where
  "findProofForApp appId proofId = findFirst proofs (proof_is appId proofId)"

definition transitionProofStatus :: "string \<Rightarrow> string \<Rightarrow> ProofStatus \<Rightarrow> ProofStatus \<Rightarrow> proof_row dbtx" where
  "transitionProofStatus appId proofId expectedStatus nextStatus =
     tx_bind (updateMany proofs proofs_update
       (\<lambda>p. proof_is appId proofId p \<and> pf_status p = expectedStatus)
       (\<lambda>s p. p\<lparr>pf_status := nextStatus, pf_updatedAt := clock s\<rparr>)) (\<lambda>count.
     tx_bind (tx_lift (assertLifecycleCompareAndSwap count)) (\<lambda>_.
     tx_bind (findFirst proofs (proof_is appId proofId)) (\<lambda>found.
     tx_some P2025 found)))"

record proof_query =
  pfq_agreementId :: "string option"
  pfq_milestoneId :: "string option"
  pfq_status :: "ProofStatus option"
  pfq_limit :: nat
  pfq_cursor :: "string option"

definition proof_selected :: "string \<Rightarrow> proof_query \<Rightarrow> proof_row \<Rightarrow> bool" where
  "proof_selected appId params p \<longleftrightarrow> pf_appId p = appId
     \<and> (case pfq_agreementId params of None \<Rightarrow> True | Some a \<Rightarrow> pf_agreementId p = a)
     \<and> (case pfq_milestoneId params of None \<Rightarrow> True | Some m \<Rightarrow> pf_milestoneId p = m)
     \<and> (case pfq_status params of None \<Rightarrow> True | Some st \<Rightarrow> pf_status p = st)"

text \<open>\<open>orderBy: { submittedAt: 'desc' }\<close>: rows submitted at the same instant have no fixed order.\<close>

definition listProofRows :: "string \<Rightarrow> proof_query \<Rightarrow> db \<Rightarrow> proof_row list" where
  "listProofRows appId params s =
     find_page (\<lambda>q r. pf_submittedAt r \<le> pf_submittedAt q) pf_id (proofs s)
       (rev (sort_key pf_submittedAt (filter (proof_selected appId params) (proofs s))))
       (pfq_limit params + 1) (pfq_cursor params)"

record review_input =
  ri_reviewerExternalId :: string
  ri_decision :: ReviewDecision
  ri_note :: "string option"

definition review_clash :: "review \<Rightarrow> review \<Rightarrow> bool" where
  "review_clash r q \<longleftrightarrow> rv_id r = rv_id q"

definition createReview :: "env \<Rightarrow> string \<Rightarrow> string \<Rightarrow> string \<Rightarrow> string \<Rightarrow> review_input \<Rightarrow> review dbtx" where
  "createReview E appId agreementId milestoneId proofSubmissionId input =
     tx_bind (freshId E) (\<lambda>reviewId.
     tx_bind now (\<lambda>t.
     insertRow reviews reviews_update review_clash
       \<lparr>rv_id = reviewId, rv_appId = appId, rv_agreementId = agreementId, rv_milestoneId = milestoneId,
        rv_proofSubmissionId = proofSubmissionId,
        rv_reviewerExternalId = ri_reviewerExternalId input, rv_decision = ri_decision input,
        rv_note = ri_note input, rv_createdAt = t\<rparr>))"

record review_query =
  rvq_agreementId :: "string option"
  rvq_milestoneId :: "string option"
  rvq_proofSubmissionId :: "string option"
  rvq_decision :: "ReviewDecision option"
  rvq_limit :: nat
  rvq_cursor :: "string option"

definition review_selected :: "string \<Rightarrow> review_query \<Rightarrow> review \<Rightarrow> bool" where
  "review_selected appId params r \<longleftrightarrow> rv_appId r = appId
     \<and> (case rvq_agreementId params of None \<Rightarrow> True | Some a \<Rightarrow> rv_agreementId r = a)
     \<and> (case rvq_milestoneId params of None \<Rightarrow> True | Some m \<Rightarrow> rv_milestoneId r = m)
     \<and> (case rvq_proofSubmissionId params of None \<Rightarrow> True | Some p \<Rightarrow> rv_proofSubmissionId r = p)
     \<and> (case rvq_decision params of None \<Rightarrow> True | Some d \<Rightarrow> rv_decision r = d)"

definition listReviewRows :: "string \<Rightarrow> review_query \<Rightarrow> db \<Rightarrow> review list" where
  "listReviewRows appId params s =
     list_desc rv_createdAt rv_id (review_selected appId params) (rvq_limit params) (rvq_cursor params)
       (reviews s)"

section \<open>proof.model.ts and review.model.ts\<close>

fun proof_status_name :: "ProofStatus \<Rightarrow> string" where
  "proof_status_name PS_submitted = ''submitted''"
| "proof_status_name PS_under_review = ''under_review''"
| "proof_status_name PS_accepted = ''accepted''"
| "proof_status_name PS_rejected = ''rejected''"
| "proof_status_name PS_needs_changes = ''needs_changes''"
| "proof_status_name PS_disputed = ''disputed''"
| "proof_status_name (PS_other s) = s"

fun decision_name :: "ReviewDecision \<Rightarrow> string" where
  "decision_name RD_approved = ''approved''"
| "decision_name RD_rejected = ''rejected''"
| "decision_name RD_needs_changes = ''needs_changes''"

definition serializeProof :: "proof_row \<Rightarrow> json" where
  "serializeProof p = JObj [
     (''id'', JStr (pf_id p)),
     (''appId'', JStr (pf_appId p)),
     (''agreementId'', JStr (pf_agreementId p)),
     (''milestoneId'', JStr (pf_milestoneId p)),
     (''submittedByExternalId'', JStr (pf_submittedByExternalId p)),
     (''type'', JStr (pf_proofType p)),
     (''content'', JStr (pf_content p)),
     (''contentHash'', JStr (pf_contentHash p)),
     (''links'', jstrings (pf_links p)),
     (''fileRefs'', jstrings (pf_fileRefs p)),
     (''status'', JStr (proof_status_name (pf_status p))),
     (''submittedAt'', jdate (pf_submittedAt p)),
     (''updatedAt'', jdate (pf_updatedAt p))]"

definition serializeReview :: "review \<Rightarrow> json" where
  "serializeReview r = JObj [
     (''id'', JStr (rv_id r)),
     (''appId'', JStr (rv_appId r)),
     (''agreementId'', JStr (rv_agreementId r)),
     (''milestoneId'', JStr (rv_milestoneId r)),
     (''proofSubmissionId'', JStr (rv_proofSubmissionId r)),
     (''reviewerExternalId'', JStr (rv_reviewerExternalId r)),
     (''decision'', JStr (decision_name (rv_decision r))),
     (''note'', jstr_opt (rv_note r)),
     (''createdAt'', jdate (rv_createdAt r))]"

section \<open>proof.events.ts\<close>

definition eventTypeForReviewDecision :: "ReviewDecision \<Rightarrow> string" where
  "eventTypeForReviewDecision decision = (case decision of
       RD_approved \<Rightarrow> ''proof.approved''
     | RD_rejected \<Rightarrow> ''proof.rejected''
     | RD_needs_changes \<Rightarrow> ''proof.needs_changes'')"

definition proof_event :: "string \<Rightarrow> string \<Rightarrow> string \<Rightarrow> string \<Rightarrow> json \<Rightarrow> event_data" where
  "proof_event ty a m p payload = (milestone_event ty a m payload)\<lparr>ed_proofSubmissionId := Some p\<rparr>"

section \<open>proof.service.ts\<close>

definition assertInfrastructureMilestoneStatus :: "MilestoneStatus \<Rightarrow> error + MilestoneStatus" where
  "assertInfrastructureMilestoneStatus status =
     (if \<not> isMilestoneStatus status then Inl (invalidRequest ''invalid_state_transition'') else Inr status)"

definition assertInfrastructureAgreementStatus :: "AgreementStatus \<Rightarrow> error + AgreementStatus" where
  "assertInfrastructureAgreementStatus status =
     (if \<not> isAgreementStatus status then Inl (invalidRequest ''invalid_state_transition'') else Inr status)"

fun advanceAgreement :: "string \<Rightarrow> string \<Rightarrow> AgreementStatus \<Rightarrow> AgreementStatus list \<Rightarrow> unit dbtx" where
  "advanceAgreement appId agreementId current [] = tx_return ()"
| "advanceAgreement appId agreementId current (toStatus # path) =
     tx_bind (tx_lift (assertAgreementTransition current toStatus)) (\<lambda>_.
     tx_bind (transitionAgreementStatus appId agreementId current toStatus) (\<lambda>_.
     advanceAgreement appId agreementId toStatus path))"

fun advanceMilestone :: "string \<Rightarrow> string \<Rightarrow> MilestoneStatus \<Rightarrow> MilestoneStatus list \<Rightarrow> unit dbtx" where
  "advanceMilestone appId milestoneId current [] = tx_return ()"
| "advanceMilestone appId milestoneId current (toStatus # path) =
     tx_bind (tx_lift (assertMilestoneTransition current toStatus)) (\<lambda>_.
     tx_bind (transitionMilestoneStatus appId milestoneId current toStatus) (\<lambda>_.
     advanceMilestone appId milestoneId toStatus path))"

definition auditProof ::
  "env \<Rightarrow> request \<Rightarrow> string \<Rightarrow> string \<Rightarrow> string \<Rightarrow> string \<Rightarrow> json option \<Rightarrow> json option \<Rightarrow> audit_log dbtx" where
  "auditProof E req appId agreementId proofId action beforeRow after =
     auditRequest E req appId agreementId ''proof'' proofId action beforeRow after"

text \<open>The milestone of a request must exist and belong to the agreement.\<close>

definition findScopedMilestone :: "string \<Rightarrow> agreement \<Rightarrow> string \<Rightarrow> milestone dbtx" where
  "findScopedMilestone appId agreement milestoneId =
     tx_bind (findMilestoneForApp appId milestoneId) (\<lambda>found.
     tx_bind (tx_some (notFound ''milestone_not_found'') found) (\<lambda>milestone.
     tx_bind (tx_require (ms_agreementId milestone = ag_id agreement) (notFound ''milestone_not_found'')) (\<lambda>_.
     tx_return milestone)))"

definition createProof_run :: "env \<Rightarrow> request \<Rightarrow> string \<Rightarrow> create_proof_input \<Rightarrow> json dbtx" where
  "createProof_run E req appId input =
     tx_bind (findAgreementForApp appId (cpi_agreementId input)) (\<lambda>found.
     tx_bind (tx_some (notFound ''agreement_not_found'') found) (\<lambda>agreement.
     tx_bind (findScopedMilestone appId agreement (cpi_milestoneId input)) (\<lambda>milestone.
     tx_bind (tx_lift (assertInfrastructureAgreementStatus (ag_status agreement))) (\<lambda>agreementStatus.
     tx_bind (tx_lift (assertInfrastructureMilestoneStatus (ms_status milestone))) (\<lambda>milestoneStatus.
     tx_bind (tx_lift (agreementPathForProofSubmission agreementStatus)) (\<lambda>agreementPath.
     tx_bind (tx_lift (milestonePathForProofSubmission milestoneStatus)) (\<lambda>milestonePath.
     tx_bind (createProof E appId input) (\<lambda>created.
     tx_bind (advanceAgreement appId (ag_id agreement) agreementStatus agreementPath) (\<lambda>_.
     tx_bind (advanceMilestone appId (ms_id milestone) milestoneStatus milestonePath) (\<lambda>_.
     let serialized = serializeProof created in
     tx_bind (createEvent E appId (proof_event ''proof.submitted'' (ag_id agreement) (ms_id milestone)
       (pf_id created) (JObj [(''proof'', serialized)]))) (\<lambda>_.
     tx_bind (createEvent E appId (proof_event ''milestone.proof_submitted'' (ag_id agreement) (ms_id milestone)
       (pf_id created) (JObj [(''milestoneId'', JStr (ms_id milestone)),
         (''proofSubmissionId'', JStr (pf_id created))]))) (\<lambda>_.
     tx_bind (auditProof E req appId (ag_id agreement) (pf_id created) ''proof.submitted'' None (Some serialized)) (\<lambda>_.
     tx_return serialized)))))))))))))"

definition createProofForApp :: "env \<Rightarrow> request \<Rightarrow> string \<Rightarrow> create_proof_input \<Rightarrow> json dbproc" where
  "createProofForApp E req appId input =
     runIdempotentTransaction E req appId 201 (\<lambda>_. createProof_run E req appId input)"

definition listProofsForApp :: "string \<Rightarrow> proof_query \<Rightarrow> db \<Rightarrow> json page" where
  "listProofsForApp appId query s =
     make_page pf_id serializeProof (pfq_limit query) (listProofRows appId query s)"

definition getProofForApp :: "string \<Rightarrow> string \<Rightarrow> json dbtx" where
  "getProofForApp appId proofId =
     tx_bind (findProofForApp appId proofId) (\<lambda>found.
     tx_bind (tx_some (notFound ''proof_not_found'') found) (\<lambda>p.
     tx_return (serializeProof p)))"

text \<open>A submitted proof is first put under review; the result is its status then.\<close>

definition startReview :: "env \<Rightarrow> string \<Rightarrow> proof_row \<Rightarrow> ProofStatus dbtx" where
  "startReview E appId p =
     (if pf_status p = PS_submitted then
        tx_bind (transitionProofStatus appId (pf_id p) PS_submitted PS_under_review) (\<lambda>_.
        tx_bind (createEvent E appId (proof_event ''proof.under_review'' (pf_agreementId p) (pf_milestoneId p)
          (pf_id p) (JObj [(''proofSubmissionId'', JStr (pf_id p))]))) (\<lambda>_.
        tx_return PS_under_review))
      else tx_return (pf_status p))"

definition reviewProof_run :: "env \<Rightarrow> request \<Rightarrow> string \<Rightarrow> string \<Rightarrow> review_input \<Rightarrow> json dbtx" where
  "reviewProof_run E req appId proofId input =
     tx_bind (findProofForApp appId proofId) (\<lambda>foundProof.
     tx_bind (tx_some (notFound ''proof_not_found'') foundProof) (\<lambda>p.
     tx_bind (tx_require (List.member [PS_submitted, PS_under_review] (pf_status p))
       (invalidRequest ''proof_already_reviewed'')) (\<lambda>_.
     tx_bind (findAgreementForApp appId (pf_agreementId p)) (\<lambda>found.
     tx_bind (tx_some (notFound ''agreement_not_found'') found) (\<lambda>agreement.
     tx_bind (findScopedMilestone appId agreement (pf_milestoneId p)) (\<lambda>milestone.
     tx_bind (tx_lift (assertInfrastructureAgreementStatus (ag_status agreement))) (\<lambda>agreementStatus.
     tx_bind (tx_lift (assertInfrastructureMilestoneStatus (ms_status milestone))) (\<lambda>milestoneStatus.
     tx_bind (tx_lift (agreementPathForReviewDecision agreementStatus (ri_decision input))) (\<lambda>agreementPath.
     tx_bind (tx_lift (milestonePathForReviewDecision milestoneStatus (ri_decision input))) (\<lambda>milestonePath.
     tx_bind (startReview E appId p) (\<lambda>currentProofStatus.
     tx_bind (advanceAgreement appId (ag_id agreement) agreementStatus agreementPath) (\<lambda>_.
     tx_bind (advanceMilestone appId (ms_id milestone) milestoneStatus milestonePath) (\<lambda>_.
     tx_bind (transitionProofStatus appId (pf_id p) currentProofStatus
       (proofStatusForReviewDecision (ri_decision input))) (\<lambda>reviewedProof.
     tx_bind (createReview E appId (pf_agreementId p) (pf_milestoneId p) (pf_id p) input) (\<lambda>review.
     let serializedProofAfter = serializeProof reviewedProof; serializedReview = serializeReview review;
         both = JObj [(''proof'', serializedProofAfter), (''review'', serializedReview)] in
     tx_bind (createEvent E appId (proof_event (eventTypeForReviewDecision (ri_decision input))
       (pf_agreementId p) (pf_milestoneId p) (pf_id p) both)) (\<lambda>_.
     tx_bind (if ri_decision input = RD_approved
       then tx_then (createEvent E appId (proof_event ''milestone.approved'' (pf_agreementId p) (pf_milestoneId p)
         (pf_id p) (JObj [(''milestoneId'', JStr (pf_milestoneId p)), (''proofSubmissionId'', JStr (pf_id p)),
           (''reviewId'', JStr (rv_id review))]))) (tx_return ())
       else tx_return ()) (\<lambda>_.
     tx_bind (auditProof E req appId (pf_agreementId p) (pf_id p) ''proof.reviewed''
       (Some (serializeProof p)) (Some both)) (\<lambda>_.
     tx_return both))))))))))))))))))"

definition reviewProofForApp :: "env \<Rightarrow> request \<Rightarrow> string \<Rightarrow> string \<Rightarrow> review_input \<Rightarrow> json dbproc" where
  "reviewProofForApp E req appId proofId input =
     runIdempotentTransaction E req appId 200 (\<lambda>_. reviewProof_run E req appId proofId input)"

definition listReviewsForApp :: "string \<Rightarrow> review_query \<Rightarrow> db \<Rightarrow> json page" where
  "listReviewsForApp appId query s =
     make_page rv_id serializeReview (rvq_limit query) (listReviewRows appId query s)"

section \<open>What the operations keep\<close>

lemma advance_life:
  "lifeOrder.resp (advanceAgreement appId i cur path)"
  "lifeOrder.resp (advanceMilestone appId j mcur mpath)"
  by (induction path arbitrary: cur, auto intro!: life_rules transitionAgreementStatus_life simp: tx_iff)
    (induction mpath arbitrary: mcur, auto intro!: life_rules transitionMilestoneStatus_life simp: tx_iff)

lemma advance_keys:
  "keyFrame.resp (advanceAgreement appId i cur path)"
  "keyFrame.resp (advanceMilestone appId j mcur mpath)"
  by (induction path arbitrary: cur, auto intro!: key_rules transitionAgreementStatus_keys)
    (induction mpath arbitrary: mcur, auto intro!: key_rules transitionMilestoneStatus_keys)

lemma advance_tenant:
  "tenantFrame.resp appId (advanceAgreement appId i cur path)"
  "tenantFrame.resp appId (advanceMilestone appId j mcur mpath)"
  by (induction path arbitrary: cur, auto intro!: tenant_rules transitionAgreementStatus_tenant)
    (induction mpath arbitrary: mcur, auto intro!: tenant_rules transitionMilestoneStatus_tenant)

lemma advance_log:
  "logOrder.resp (advanceAgreement appId i cur path)"
  "logOrder.resp (advanceMilestone appId j mcur mpath)"
  by (induction path arbitrary: cur, auto intro!: log_rules transitionAgreementStatus_log)
    (induction mpath arbitrary: mcur, auto intro!: log_rules transitionMilestoneStatus_log)

lemma advance_alloc:
  "allocOrder.resp (advanceAgreement appId i cur path)"
  "allocOrder.resp (advanceMilestone appId j mcur mpath)"
  by (induction path arbitrary: cur, auto intro!: alloc_rules transitions_alloc)
    (induction mpath arbitrary: mcur, auto intro!: alloc_rules transitions_alloc)


lemma transitionProofStatus_frames:
  "proof_can frm to \<Longrightarrow> lifeOrder.resp (transitionProofStatus appId i frm to)"
  "keyFrame.resp (transitionProofStatus appId i frm to)"
  "tenantFrame.resp appId (transitionProofStatus appId i frm to)"
  "logOrder.resp (transitionProofStatus appId i frm to)"
  "allocOrder.resp (transitionProofStatus appId i frm to)"
  unfolding transitionProofStatus_def
  by (intro life_rules life_moves key_rules tenant_rules tenant_update log_rules alloc_rules;
      auto simp: proofRows.row_le_def pf_terms_def proof_is_def)+

lemma startReview_value:
  "startReview E appId p s = Inr (x, t) \<Longrightarrow> List.member [PS_submitted, PS_under_review] (pf_status p) \<Longrightarrow>
     x = PS_under_review"
  by (auto simp: startReview_def tx_iff split: if_splits)

lemma startReview_life: "lifeOrder.resp (startReview E appId p)"
  unfolding startReview_def
  by (intro life_rules transitionProofStatus_frames) (simp add: proof_can_def)

lemma startReview_bind_life:
  assumes "List.member [PS_submitted, PS_under_review] (pf_status p)" and "lifeOrder.resp (f PS_under_review)"
  shows "lifeOrder.resp (tx_bind (startReview E appId p) f)"
  by (rule lifeOrder.resp_bind_post [OF startReview_life]) (use assms startReview_value in blast)

lemma review_can: "proof_can PS_under_review (proofStatusForReviewDecision d)"
  by (cases d) (simp_all add: proofStatusForReviewDecision_def proof_can_def)

lemmas proof_runs =
  createProof_run_def reviewProof_run_def createProof_def createReview_def findProofForApp_def
  findScopedMilestone_def findMilestoneForApp_def findAgreementForApp_def auditProof_def Let_def

lemma proof_runs_life:
  "lifeOrder.resp (createProof_run E req appId input)"
  "lifeOrder.resp (reviewProof_run E req appId i rinput)"
  unfolding proof_runs
  by (intro startReview_bind_life life_rules life_new_rows advance_life transitionProofStatus_frames(1) review_can; simp)+

lemma proof_runs_keys:
  "keyFrame.resp (createProof_run E req appId input)"
  "keyFrame.resp (reviewProof_run E req appId i rinput)"
  unfolding proof_runs startReview_def by (intro key_rules advance_keys transitionProofStatus_frames)+

lemma proof_runs_tenant:
  "tenantFrame.resp appId (createProof_run E req appId input)"
  "tenantFrame.resp appId (reviewProof_run E req appId i rinput)"
  unfolding proof_runs startReview_def
  by (intro tenant_rules tenant_insert advance_tenant transitionProofStatus_frames; simp)+

lemma proof_runs_log:
  "logOrder.resp (createProof_run E req appId input)"
  "logOrder.resp (reviewProof_run E req appId i rinput)"
  unfolding proof_runs startReview_def by (intro log_rules advance_log transitionProofStatus_frames)+

lemma proof_runs_alloc:
  "allocOrder.resp (createProof_run E req appId input)"
  "allocOrder.resp (reviewProof_run E req appId i rinput)"
  unfolding proof_runs startReview_def by (intro alloc_rules advance_alloc transitionProofStatus_frames)+

end
