(* ===== verification/Disputes.thy ===== *)
theory Disputes
  imports Proofs
begin

text \<open>
  Disputes: \<open>modules/disputes/dispute.repository.ts\<close>, \<open>dispute.model.ts\<close> and
  \<open>dispute.service.ts\<close>, with the escrow lookup of \<open>modules/escrows/escrow.repository.ts\<close> that the
  split resolution uses. The service's own copies of \<open>advanceAgreement\<close>, \<open>advanceMilestone\<close> and
  of the status checks are the same code as in \<open>proof.service.ts\<close> and are shared with it here.
\<close>

section \<open>dispute.repository.ts\<close>

record create_dispute_input =
  cdi_agreementId :: string
  cdi_milestoneId :: string
  cdi_openedByExternalId :: string
  cdi_reason :: string
  cdi_evidenceLinks :: "string list"

record resolve_dispute_input =
  rdi_resolutionType :: DisputeResolutionType
  rdi_resolutionNote :: "string option"
  rdi_workerAmount :: "string option"
  rdi_clientAmount :: "string option"

definition unresolved :: "DisputeStatus \<Rightarrow> bool" where
  "unresolved status \<longleftrightarrow> List.member [DS_open, DS_awaiting_response, DS_under_review] status"

definition dispute_scope :: "dispute \<Rightarrow> string \<times> string \<times> string" where
  "dispute_scope d = (dp_appId d, dp_agreementId d, dp_milestoneId d)"

text \<open>The partial unique index of the migrations: one unresolved dispute per scope.\<close>

definition dispute_clash :: "dispute \<Rightarrow> dispute \<Rightarrow> bool" where
  "dispute_clash d e \<longleftrightarrow> dp_id d = dp_id e
     \<or> (unresolved (dp_status d) \<and> unresolved (dp_status e) \<and> dispute_scope d = dispute_scope e)"

definition createDispute :: "env \<Rightarrow> string \<Rightarrow> create_dispute_input \<Rightarrow> dispute dbtx" where
  "createDispute E appId input =
     tx_bind (freshId E) (\<lambda>disputeId.
     tx_bind now (\<lambda>t.
     insertRow disputes disputes_update dispute_clash
       \<lparr>dp_id = disputeId, dp_appId = appId, dp_agreementId = cdi_agreementId input,
        dp_milestoneId = cdi_milestoneId input, dp_openedByExternalId = cdi_openedByExternalId input,
        dp_reason = cdi_reason input, dp_evidenceLinks = cdi_evidenceLinks input, dp_status = DS_open,
        dp_resolutionType = None, dp_resolutionNote = None, dp_workerAmount = None,
        dp_clientAmount = None, dp_resolvedAt = None, dp_createdAt = t\<rparr>))"

definition dispute_is :: "string \<Rightarrow> string \<Rightarrow> dispute \<Rightarrow> bool" where
  "dispute_is appId disputeId d \<longleftrightarrow> dp_id d = disputeId \<and> dp_appId d = appId"

definition findDisputeForApp :: "string \<Rightarrow> string \<Rightarrow> dispute option dbtx" where
  "findDisputeForApp appId disputeId = findFirst disputes (dispute_is appId disputeId)"

definition findUnresolvedDisputeForScope :: "string \<Rightarrow> string \<Rightarrow> string \<Rightarrow> dispute option dbtx" where
  "findUnresolvedDisputeForScope appId agreementId milestoneId =
     findFirst disputes (\<lambda>d. dispute_scope d = (appId, agreementId, milestoneId) \<and> unresolved (dp_status d))"

text \<open>\<open>resolvedAt\<close> is set whenever a dispute is resolved; only whether a row is found matters to the caller.\<close>

definition findResolvedReleaseDisputeForEscrowScope ::
  "string \<Rightarrow> string \<Rightarrow> string option \<Rightarrow> dispute option dbtx" where
  "findResolvedReleaseDisputeForEscrowScope appId agreementId milestoneId =
     findFirst disputes (\<lambda>d. dp_appId d = appId \<and> dp_agreementId d = agreementId
       \<and> (case milestoneId of None \<Rightarrow> True | Some m \<Rightarrow> dp_milestoneId d = m)
       \<and> dp_status d = DS_resolved_release \<and> dp_resolutionType d = Some DR_release)"

definition resolveDispute :: "string \<Rightarrow> string \<Rightarrow> DisputeStatus \<Rightarrow> resolve_dispute_input \<Rightarrow> dispute dbtx" where
  "resolveDispute appId disputeId expectedStatus input =
     (let nextStatus = statusForResolutionType (rdi_resolutionType input) in
     tx_bind (updateMany disputes disputes_update
       (\<lambda>d. dispute_is appId disputeId d \<and> dp_status d = expectedStatus)
       (\<lambda>s d. d\<lparr>dp_status := nextStatus, dp_resolutionType := Some (rdi_resolutionType input),
          dp_resolutionNote := rdi_resolutionNote input, dp_workerAmount := rdi_workerAmount input,
          dp_clientAmount := rdi_clientAmount input, dp_resolvedAt := Some (clock s)\<rparr>)) (\<lambda>count.
     tx_bind (tx_lift (assertLifecycleCompareAndSwap count)) (\<lambda>_.
     tx_bind (findFirst disputes (dispute_is appId disputeId)) (\<lambda>found.
     tx_some P2025 found))))"

record dispute_query =
  dpq_agreementId :: "string option"
  dpq_milestoneId :: "string option"
  dpq_status :: "DisputeStatus option"
  dpq_limit :: nat
  dpq_cursor :: "string option"

definition dispute_selected :: "string \<Rightarrow> dispute_query \<Rightarrow> dispute \<Rightarrow> bool" where
  "dispute_selected appId params d \<longleftrightarrow> dp_appId d = appId
     \<and> (case dpq_agreementId params of None \<Rightarrow> True | Some a \<Rightarrow> dp_agreementId d = a)
     \<and> (case dpq_milestoneId params of None \<Rightarrow> True | Some m \<Rightarrow> dp_milestoneId d = m)
     \<and> (case dpq_status params of None \<Rightarrow> True | Some st \<Rightarrow> dp_status d = st)"

definition listDisputeRows :: "string \<Rightarrow> dispute_query \<Rightarrow> db \<Rightarrow> dispute list" where
  "listDisputeRows appId params s =
     list_desc dp_createdAt dp_id (dispute_selected appId params) (dpq_limit params) (dpq_cursor params)
       (disputes s)"

section \<open>dispute.model.ts\<close>

fun resolution_name :: "DisputeResolutionType \<Rightarrow> string" where
  "resolution_name DR_release = ''release''"
| "resolution_name DR_refund = ''refund''"
| "resolution_name DR_split = ''split''"

definition serializeDispute :: "dispute \<Rightarrow> json" where
  "serializeDispute d = JObj [
     (''id'', JStr (dp_id d)),
     (''appId'', JStr (dp_appId d)),
     (''agreementId'', JStr (dp_agreementId d)),
     (''milestoneId'', JStr (dp_milestoneId d)),
     (''openedByExternalId'', JStr (dp_openedByExternalId d)),
     (''reason'', JStr (dp_reason d)),
     (''evidenceLinks'', jstrings (dp_evidenceLinks d)),
     (''status'', JStr (dispute_status_name (dp_status d))),
     (''resolutionType'', jstr_opt (map_option resolution_name (dp_resolutionType d))),
     (''resolutionNote'', jstr_opt (dp_resolutionNote d)),
     (''workerAmount'', jstr_opt (dp_workerAmount d)),
     (''clientAmount'', jstr_opt (dp_clientAmount d)),
     (''createdAt'', jdate (dp_createdAt d)),
     (''resolvedAt'', jdate_opt (dp_resolvedAt d))]"

section \<open>The escrow of a scope: escrow.repository.ts\<close>

definition active_escrow :: "EscrowStatus \<Rightarrow> bool" where
  "active_escrow status \<longleftrightarrow> List.member [ES_not_created, ES_awaiting_funding, ES_funding_detected,
     ES_funded, ES_release_pending, ES_refund_pending, ES_reconciliation_required, ES_failed] status"

definition escrow_scope :: "escrow \<Rightarrow> string \<times> string \<times> string option" where
  "escrow_scope e = (es_appId e, es_agreementId e, es_milestoneId e)"

definition findActiveEscrowForScope :: "string \<Rightarrow> string \<Rightarrow> string option \<Rightarrow> escrow option dbtx" where
  "findActiveEscrowForScope appId agreementId milestoneId =
     findLatest escrows es_createdAt
       (\<lambda>e. escrow_scope e = (appId, agreementId, milestoneId) \<and> active_escrow (es_status e))"

section \<open>dispute.service.ts\<close>

definition auditDispute ::
  "env \<Rightarrow> request \<Rightarrow> string \<Rightarrow> string \<Rightarrow> string \<Rightarrow> string \<Rightarrow> json option \<Rightarrow> json option \<Rightarrow> audit_log dbtx" where
  "auditDispute E req appId agreementId disputeId action beforeRow after =
     auditRequest E req appId agreementId ''dispute'' disputeId action beforeRow after"

definition dispute_event :: "string \<Rightarrow> string \<Rightarrow> string \<Rightarrow> string \<Rightarrow> json \<Rightarrow> event_data" where
  "dispute_event ty a m d payload = (milestone_event ty a m payload)\<lparr>ed_disputeId := Some d\<rparr>"

definition createDispute_run :: "env \<Rightarrow> request \<Rightarrow> string \<Rightarrow> create_dispute_input \<Rightarrow> json dbtx" where
  "createDispute_run E req appId input =
     tx_bind (findAgreementForApp appId (cdi_agreementId input)) (\<lambda>found.
     tx_bind (tx_some (notFound ''agreement_not_found'') found) (\<lambda>agreement.
     tx_bind (findScopedMilestone appId agreement (cdi_milestoneId input)) (\<lambda>milestone.
     tx_bind (findUnresolvedDisputeForScope appId (ag_id agreement) (ms_id milestone)) (\<lambda>existing.
     tx_bind (tx_require (existing = None) (conflict ''active_dispute_exists'')) (\<lambda>_.
     tx_bind (tx_lift (assertInfrastructureAgreementStatus (ag_status agreement))) (\<lambda>agreementStatus.
     tx_bind (tx_lift (assertInfrastructureMilestoneStatus (ms_status milestone))) (\<lambda>milestoneStatus.
     tx_bind (tx_lift (agreementPathForDisputeOpen agreementStatus)) (\<lambda>agreementPath.
     tx_bind (tx_lift (milestonePathForDisputeOpen milestoneStatus)) (\<lambda>milestonePath.
     tx_bind (tx_catch (createDispute E appId input) (\<lambda>error.
       if isUniqueConstraintError error then tx_throw (conflict ''active_dispute_exists'')
       else tx_throw error)) (\<lambda>created.
     let serialized = serializeDispute created in
     tx_bind (advanceAgreement appId (ag_id agreement) agreementStatus agreementPath) (\<lambda>_.
     tx_bind (advanceMilestone appId (ms_id milestone) milestoneStatus milestonePath) (\<lambda>_.
     tx_bind (createEvent E appId (dispute_event ''dispute.opened'' (ag_id agreement) (ms_id milestone)
       (dp_id created) (JObj [(''dispute'', serialized)]))) (\<lambda>_.
     tx_bind (auditDispute E req appId (ag_id agreement) (dp_id created) ''dispute.opened'' None (Some serialized)) (\<lambda>_.
     tx_return serialized))))))))))))))"

definition createDisputeForApp :: "env \<Rightarrow> request \<Rightarrow> string \<Rightarrow> create_dispute_input \<Rightarrow> json dbproc" where
  "createDisputeForApp E req appId input =
     runIdempotentTransaction E req appId 201 (\<lambda>_. createDispute_run E req appId input)"

definition listDisputesForApp :: "string \<Rightarrow> dispute_query \<Rightarrow> db \<Rightarrow> json page" where
  "listDisputesForApp appId query s =
     make_page dp_id serializeDispute (dpq_limit query) (listDisputeRows appId query s)"

definition getDisputeForApp :: "string \<Rightarrow> string \<Rightarrow> json dbtx" where
  "getDisputeForApp appId disputeId =
     tx_bind (findDisputeForApp appId disputeId) (\<lambda>found.
     tx_bind (tx_some (notFound ''dispute_not_found'') found) (\<lambda>d.
     tx_return (serializeDispute d)))"

text \<open>
  The amounts of a split are present after validation (\<open>resolveDisputeSchema\<close>); an absent one
  reaches the amount parser as \<open>undefined\<close>, which no pattern matches.
\<close>

definition amount_or_undefined :: "string option \<Rightarrow> string" where
  "amount_or_undefined v = (case v of None \<Rightarrow> ''undefined'' | Some s \<Rightarrow> s)"

definition checkSplit :: "string \<Rightarrow> agreement \<Rightarrow> milestone \<Rightarrow> resolve_dispute_input \<Rightarrow> unit dbtx" where
  "checkSplit appId agreement milestone input =
     (if rdi_resolutionType input = DR_split then
        tx_bind (findActiveEscrowForScope appId (ag_id agreement) (Some (ms_id milestone))) (\<lambda>escrow.
        case escrow of
          None \<Rightarrow> tx_throw (invalidRequest ''dispute_funded_escrow_required'')
        | Some e \<Rightarrow>
            tx_bind (tx_require (es_status e = ES_funded) (invalidRequest ''dispute_funded_escrow_required'')) (\<lambda>_.
            tx_lift (assertSettlementSplit (amount_or_undefined (rdi_workerAmount input))
              (amount_or_undefined (rdi_clientAmount input)) (es_amount e))))
      else tx_return ())"

definition resolveDispute_run :: "env \<Rightarrow> request \<Rightarrow> string \<Rightarrow> string \<Rightarrow> resolve_dispute_input \<Rightarrow> json dbtx" where
  "resolveDispute_run E req appId disputeId input =
     tx_bind (findDisputeForApp appId disputeId) (\<lambda>foundDispute.
     tx_bind (tx_some (notFound ''dispute_not_found'') foundDispute) (\<lambda>d.
     tx_bind (tx_lift (assertDisputeResolvable (dp_status d))) (\<lambda>_.
     tx_bind (findAgreementForApp appId (dp_agreementId d)) (\<lambda>found.
     tx_bind (tx_some (notFound ''agreement_not_found'') found) (\<lambda>agreement.
     tx_bind (findScopedMilestone appId agreement (dp_milestoneId d)) (\<lambda>milestone.
     tx_bind (checkSplit appId agreement milestone input) (\<lambda>_.
     tx_bind (tx_lift (assertInfrastructureAgreementStatus (ag_status agreement))) (\<lambda>agreementStatus.
     tx_bind (tx_lift (assertInfrastructureMilestoneStatus (ms_status milestone))) (\<lambda>milestoneStatus.
     tx_bind (tx_lift (agreementPathForDisputeResolution agreementStatus (rdi_resolutionType input))) (\<lambda>agreementPath.
     tx_bind (tx_lift (milestonePathForDisputeResolution milestoneStatus (rdi_resolutionType input))) (\<lambda>milestonePath.
     tx_bind (resolveDispute appId disputeId (dp_status d) input) (\<lambda>resolved.
     let serializedAfter = serializeDispute resolved in
     tx_bind (advanceAgreement appId (ag_id agreement) agreementStatus agreementPath) (\<lambda>_.
     tx_bind (advanceMilestone appId (ms_id milestone) milestoneStatus milestonePath) (\<lambda>_.
     tx_bind (createEvent E appId (dispute_event ''dispute.resolved'' (dp_agreementId d) (dp_milestoneId d)
       (dp_id d) (JObj [(''dispute'', serializedAfter)]))) (\<lambda>_.
     tx_bind (auditDispute E req appId (dp_agreementId d) (dp_id d) ''dispute.resolved''
       (Some (serializeDispute d)) (Some serializedAfter)) (\<lambda>_.
     tx_return serializedAfter))))))))))))))))"

definition resolveDisputeForApp :: "env \<Rightarrow> request \<Rightarrow> string \<Rightarrow> string \<Rightarrow> resolve_dispute_input \<Rightarrow> json dbproc" where
  "resolveDisputeForApp E req appId disputeId input =
     runIdempotentTransaction E req appId 200 (\<lambda>_. resolveDispute_run E req appId disputeId input)"

section \<open>What the operations keep\<close>

lemma resolvable_unresolved: "assertDisputeResolvable st = Inr u \<Longrightarrow> unresolved st"
  by (cases st) (auto simp: assertDisputeResolvable_def unresolved_def isDisputeStatus_def DISPUTE_STATUSES_def
      split: if_splits)

lemma resolution_can: "unresolved st \<Longrightarrow> dispute_can st (statusForResolutionType r)"
  by (cases st; cases r) (simp_all add: unresolved_def dispute_can_def statusForResolutionType_def)

lemma resolveDispute_frames:
  "unresolved st \<Longrightarrow> lifeOrder.resp (resolveDispute appId i st input)"
  "keyFrame.resp (resolveDispute appId i st input)"
  "tenantFrame.resp appId (resolveDispute appId i st input)"
  "logOrder.resp (resolveDispute appId i st input)"
  "allocOrder.resp (resolveDispute appId i st input)"
  unfolding resolveDispute_def Let_def
  by (intro life_rules life_moves key_rules tenant_rules tenant_update log_rules alloc_rules;
      auto simp: disputeRows.row_le_def dp_terms_def dispute_is_def dest: resolution_can)+

lemmas dispute_runs =
  createDispute_run_def resolveDispute_run_def createDispute_def findDisputeForApp_def
  findUnresolvedDisputeForScope_def checkSplit_def findActiveEscrowForScope_def
  findScopedMilestone_def findMilestoneForApp_def findAgreementForApp_def auditDispute_def Let_def

lemma dispute_runs_life:
  "lifeOrder.resp (createDispute_run E req appId input)"
  "lifeOrder.resp (resolveDispute_run E req appId i rinput)"
  unfolding dispute_runs
  by (intro life_rules life_new_rows advance_life resolveDispute_frames(1); simp add: resolvable_unresolved)+

lemma dispute_runs_keys:
  "keyFrame.resp (createDispute_run E req appId input)"
  "keyFrame.resp (resolveDispute_run E req appId i rinput)"
  unfolding dispute_runs by (intro key_rules advance_keys resolveDispute_frames)+

lemma dispute_runs_tenant:
  "tenantFrame.resp appId (createDispute_run E req appId input)"
  "tenantFrame.resp appId (resolveDispute_run E req appId i rinput)"
  unfolding dispute_runs by (intro tenant_rules tenant_insert advance_tenant resolveDispute_frames; simp)+

lemma dispute_runs_log:
  "logOrder.resp (createDispute_run E req appId input)"
  "logOrder.resp (resolveDispute_run E req appId i rinput)"
  unfolding dispute_runs by (intro log_rules advance_log resolveDispute_frames)+

lemma dispute_runs_alloc:
  "allocOrder.resp (createDispute_run E req appId input)"
  "allocOrder.resp (resolveDispute_run E req appId i rinput)"
  unfolding dispute_runs by (intro alloc_rules advance_alloc resolveDispute_frames)+

end
