(* ===== verification/CkbRail.thy ===== *)
theory CkbRail
  imports Json "HOL-Library.Word"
begin

text \<open>
  The CKB rail: \<open>server/src/rails/ckb/script-utils.ts\<close>, \<open>escrow-codec.ts\<close>,
  \<open>transaction-builder.ts\<close> and \<open>reconciliation.ts\<close>. The hash functions, the capacity rule and the
  script hash of the \<open>@ckb-ccc/core\<close> package are the fields of \<open>ckb_lib\<close>; the answers of the CKB
  node are those of \<open>ckb_node\<close>, with the quantities of the RPC given as the numbers they encode.
  The lemmas show that the codecs are inverse, and what a verified funding or settlement
  transaction contains.
\<close>

section \<open>Hexadecimal strings and bytes\<close>

definition hex_char :: "char \<Rightarrow> bool" where
  "hex_char c \<longleftrightarrow> (let n = (of_char c :: nat) in (48 \<le> n \<and> n \<le> 57) \<or> (97 \<le> n \<and> n \<le> 102))"

definition hex_value :: "char \<Rightarrow> nat" where
  "hex_value c = (let n = (of_char c :: nat) in if n \<le> 57 then n - 48 else n - 87)"

type_synonym byte = "8 word"

definition byte_hex :: "byte \<Rightarrow> string" where
  "byte_hex b = [hex_digit (unat b div 16), hex_digit (unat b mod 16)]"

text \<open>\<open>toString('hex')\<close> and \<open>Buffer.from(s, 'hex')\<close> on a string of hexadecimal digits of even length.\<close>

definition bytes_hex :: "byte list \<Rightarrow> string" where
  "bytes_hex bs = concat (map byte_hex bs)"

fun hex_bytes :: "string \<Rightarrow> byte list" where
  "hex_bytes (c # d # s) = of_nat (16 * hex_value c + hex_value d) # hex_bytes s"
| "hex_bytes _ = []"

text \<open>Little-endian fields: \<open>writeUInt32LE\<close>, \<open>writeBigUInt64LE\<close> and their readers.\<close>

fun le_bytes :: "nat \<Rightarrow> nat \<Rightarrow> byte list" where
  "le_bytes 0 v = []"
| "le_bytes (Suc n) v = of_nat (v mod 256) # le_bytes n (v div 256)"

fun le_value :: "byte list \<Rightarrow> nat" where
  "le_value [] = 0"
| "le_value (b # bs) = unat b + 256 * le_value bs"

section \<open>script-utils.ts\<close>

record ckb_script =
  codeHash :: string
  hashType :: string
  scriptArgs :: string

definition HASH_TYPES :: "string list" where
  "HASH_TYPES = [''data'', ''type'', ''data1'', ''data2'']"

definition member_at :: "json \<Rightarrow> string \<Rightarrow> json option" where
  "member_at v name = (case v of JObj kvs \<Rightarrow> (case map_of kvs name of Some JNull \<Rightarrow> None | r \<Rightarrow> r) | _ \<Rightarrow> None)"

text \<open>\<open>candidate.codeHash ?? candidate.code_hash\<close>\<close>

definition member_or :: "json \<Rightarrow> string \<Rightarrow> string \<Rightarrow> json option" where
  "member_or v name other = (case member_at v name of None \<Rightarrow> member_at v other | r \<Rightarrow> r)"

definition hex_body :: "nat option \<Rightarrow> string \<Rightarrow> bool" where
  "hex_body bytes s \<longleftrightarrow> list_all hex_char s \<and> (case bytes of None \<Rightarrow> True | Some n \<Rightarrow> length s = 2 * n)"

definition normalizeHex :: "json option \<Rightarrow> nat option \<Rightarrow> string option" where
  "normalizeHex value bytes = (case value of
       Some (JStr s) \<Rightarrow> (let normalized = toLowerCase s in
         if take 2 normalized = ''0x'' \<and> hex_body bytes (drop 2 normalized) then Some normalized else None)
     | _ \<Rightarrow> None)"

definition normalizeScript :: "json option \<Rightarrow> ckb_script option" where
  "normalizeScript script = (case script of
       None \<Rightarrow> None
     | Some candidate \<Rightarrow>
         (case (normalizeHex (member_or candidate ''codeHash'' ''code_hash'') (Some 32),
                normalizeHex (member_at candidate ''args'') None,
                member_or candidate ''hashType'' ''hash_type'') of
            (Some c, Some a, Some (JStr h)) \<Rightarrow>
              if List.member HASH_TYPES (toLowerCase h)
              then Some \<lparr>codeHash = c, hashType = toLowerCase h, scriptArgs = a\<rparr> else None
          | _ \<Rightarrow> None))"

definition scriptsEqual :: "json option \<Rightarrow> json option \<Rightarrow> bool" where
  "scriptsEqual left right = (case (normalizeScript left, normalizeScript right) of
       (Some l, Some r) \<Rightarrow> codeHash l = codeHash r \<and> hashType l = hashType r \<and> scriptArgs l = scriptArgs r
     | _ \<Rightarrow> False)"

definition script_json :: "ckb_script \<Rightarrow> json" where
  "script_json sc = JObj [(''codeHash'', JStr (codeHash sc)), (''hashType'', JStr (hashType sc)),
     (''args'', JStr (scriptArgs sc))]"

section \<open>escrow-codec.ts\<close>

definition ESCROW_LOCK_ARGS_BYTES :: nat where "ESCROW_LOCK_ARGS_BYTES = 96"
definition ESCROW_CELL_DATA_BYTES :: nat where "ESCROW_CELL_DATA_BYTES = 88"
definition ESCROW_CELL_DATA_VERSION :: byte where "ESCROW_CELL_DATA_VERSION = 1"

text \<open>\<open>PACTESC1\<close>\<close>

definition ESCROW_MAGIC :: "byte list" where
  "ESCROW_MAGIC = [80, 65, 67, 84, 69, 83, 67, 49]"

definition UINT32_MAX :: int where "UINT32_MAX = 4294967295"
definition UINT64_MAX :: int where "UINT64_MAX = 18446744073709551615"

definition fixedHex :: "string \<Rightarrow> nat \<Rightarrow> error + string" where
  "fixedHex value bytes = (let normalized = toLowerCase value in
     if take 2 normalized = ''0x'' \<and> hex_body (Some bytes) (drop 2 normalized)
     then Inr (drop 2 normalized)
     else Inl (JsError ''must be a 0x-prefixed hex value''))"

definition unsignedInteger :: "int \<Rightarrow> int \<Rightarrow> error + int" where
  "unsignedInteger value maximum =
     (if value < 0 \<or> value > maximum then Inl (JsError ''outside its unsigned integer range'') else Inr value)"

record EscrowLockArgs =
  clientLockHash :: string
  workerLockHash :: string
  agreementSalt :: string

definition encodeEscrowLockArgs :: "EscrowLockArgs \<Rightarrow> error + string" where
  "encodeEscrowLockArgs a =
     res_bind (fixedHex (clientLockHash a) 32) (\<lambda>c.
     res_bind (fixedHex (workerLockHash a) 32) (\<lambda>w.
     res_bind (fixedHex (agreementSalt a) 32) (\<lambda>s.
     Inr (''0x'' @ c @ w @ s))))"

definition slice :: "nat \<Rightarrow> nat \<Rightarrow> 'a list \<Rightarrow> 'a list" where
  "slice i j xs = take (j - i) (drop i xs)"

definition decodeEscrowLockArgs :: "string \<Rightarrow> error + EscrowLockArgs" where
  "decodeEscrowLockArgs encoded =
     res_bind (fixedHex encoded ESCROW_LOCK_ARGS_BYTES) (\<lambda>value.
     Inr \<lparr>clientLockHash = ''0x'' @ slice 0 64 value, workerLockHash = ''0x'' @ slice 64 128 value,
          agreementSalt = ''0x'' @ slice 128 192 value\<rparr>)"

record EscrowCellData =
  milestoneIndex :: int
  refundTimeoutSince :: int
  agreementDigest :: string
  milestoneDigest :: string

definition encodeEscrowCellData :: "EscrowCellData \<Rightarrow> error + string" where
  "encodeEscrowCellData d =
     res_bind (unsignedInteger (milestoneIndex d) UINT32_MAX) (\<lambda>index.
     res_bind (unsignedInteger (refundTimeoutSince d) UINT64_MAX) (\<lambda>since.
     res_bind (fixedHex (agreementDigest d) 32) (\<lambda>agreement.
     res_bind (fixedHex (milestoneDigest d) 32) (\<lambda>milestone.
     Inr (''0x'' @ bytes_hex (ESCROW_MAGIC @ [ESCROW_CELL_DATA_VERSION, 0, 0, 0] @ le_bytes 4 (nat index)
       @ le_bytes 8 (nat since) @ hex_bytes agreement @ hex_bytes milestone))))))"

definition decodeEscrowCellData :: "string \<Rightarrow> error + EscrowCellData" where
  "decodeEscrowCellData encoded =
     res_bind (fixedHex encoded ESCROW_CELL_DATA_BYTES) (\<lambda>value.
     let bytes = hex_bytes value in
     res_bind (res_require (slice 0 8 bytes = ESCROW_MAGIC) (JsError ''invalid escrow magic value'')) (\<lambda>_.
     res_bind (res_require (bytes ! 8 = ESCROW_CELL_DATA_VERSION) (JsError ''unsupported version'')) (\<lambda>_.
     Inr \<lparr>milestoneIndex = int (le_value (slice 12 16 bytes)),
          refundTimeoutSince = int (le_value (slice 16 24 bytes)),
          agreementDigest = ''0x'' @ bytes_hex (slice 24 56 bytes),
          milestoneDigest = ''0x'' @ bytes_hex (slice 56 88 bytes)\<rparr>)))"

section \<open>The codecs are inverse\<close>

lemma le_bytes_length [simp]: "length (le_bytes n v) = n"
  by (induction n arbitrary: v) auto

lemma le_value_bytes: "v < 256 ^ n \<Longrightarrow> le_value (le_bytes n v) = v"
proof (induction n arbitrary: v)
  case 0
  then show ?case by simp
next
  case (Suc n)
  then have "v div 256 < 256 ^ n" by (simp add: less_mult_imp_div_less mult.commute)
  with Suc.IH have "le_value (le_bytes n (v div 256)) = v div 256" .
  moreover have "unat (of_nat (v mod 256) :: byte) = v mod 256" by (simp add: unat_of_nat)
  ultimately show ?case by simp
qed

lemma of_char_hex_digit: "n < 16 \<Longrightarrow> (of_char (hex_digit n) :: nat) = (if n < 10 then 48 + n else 87 + n)"
  by (simp add: hex_digit_def of_char_of)

lemma hex_digit_props: "n < 16 \<Longrightarrow> hex_char (hex_digit n) \<and> hex_value (hex_digit n) = n"
  by (auto simp: hex_char_def hex_value_def of_char_hex_digit Let_def)

lemma hex_value_digit: "hex_char c \<Longrightarrow> hex_value c < 16 \<and> hex_digit (hex_value c) = c"
proof -
  assume h: "hex_char c"
  let ?n = "of_char c :: nat"
  have c: "char_of ?n = c" by simp
  from h have "(48 \<le> ?n \<and> ?n \<le> 57) \<or> (97 \<le> ?n \<and> ?n \<le> 102)" by (simp add: hex_char_def Let_def)
  then show ?thesis
  proof
    assume "48 \<le> ?n \<and> ?n \<le> 57"
    then have "hex_value c = ?n - 48" "?n - 48 < 10" "48 + (?n - 48) = ?n"
      by (auto simp: hex_value_def Let_def)
    with c show ?thesis by (simp add: hex_digit_def)
  next
    assume a: "97 \<le> ?n \<and> ?n \<le> 102"
    then have "hex_value c = ?n - 87" "\<not> ?n - 87 < 10" "87 + (?n - 87) = ?n"
      by (auto simp: hex_value_def Let_def)
    with a c show ?thesis by (simp add: hex_digit_def)
  qed
qed

lemma unat_byte_lt: "unat (b :: byte) < 256"
  using unsigned_less [of b] by simp

lemma unat_of_nat_byte: "n < 256 \<Longrightarrow> unat (of_nat n :: byte) = n"
  by (simp add: unat_of_nat)

lemma hex_bytes_byte: "hex_bytes (byte_hex b @ s) = b # hex_bytes s"
proof -
  have d: "unat b div 16 < 16" "unat b mod 16 < 16" using unat_byte_lt [of b] by auto
  have "16 * (unat b div 16) + unat b mod 16 = unat b" by simp
  then show ?thesis using hex_digit_props [OF d(1)] hex_digit_props [OF d(2)]
    by (simp add: byte_hex_def)
qed

lemma hex_bytes_hex: "hex_bytes (bytes_hex bs @ s) = bs @ hex_bytes s"
  by (induction bs) (auto simp: bytes_hex_def hex_bytes_byte)

lemma hex_bytes_of_bytes_hex [simp]: "hex_bytes (bytes_hex bs) = bs"
  using hex_bytes_hex [of bs "[]"] by simp

lemma bytes_hex_bytes: "list_all hex_char s \<Longrightarrow> even (length s) \<Longrightarrow> bytes_hex (hex_bytes s) = s"
proof (induction s rule: hex_bytes.induct)
  case (1 c d s)
  let ?n = "16 * hex_value c + hex_value d"
  have v: "hex_value c < 16" "hex_value d < 16" "hex_digit (hex_value c) = c" "hex_digit (hex_value d) = d"
    using 1 hex_value_digit by auto
  then have "?n < 256" by linarith
  then have "unat (of_nat ?n :: byte) = ?n" by (rule unat_of_nat_byte)
  moreover have "?n div 16 = hex_value c" "?n mod 16 = hex_value d" using v by auto
  ultimately have "byte_hex (of_nat ?n) = [c, d]" using v by (simp add: byte_hex_def)
  with 1 show ?case by (simp add: bytes_hex_def)
qed (auto simp: bytes_hex_def)

lemma length_bytes_hex [simp]: "length (bytes_hex bs) = 2 * length bs"
  by (induction bs) (auto simp: bytes_hex_def byte_hex_def)

lemma bytes_hex_chars: "list_all hex_char (bytes_hex bs)"
proof (induction bs)
  case (Cons b bs)
  have "unat b div 16 < 16" "unat b mod 16 < 16" using unat_byte_lt [of b] by auto
  then show ?case using Cons hex_digit_props by (auto simp: bytes_hex_def byte_hex_def)
qed (simp add: bytes_hex_def)

lemma length_hex_bytes: "even (length s) \<Longrightarrow> length (hex_bytes s) = length s div 2"
  by (induction s rule: hex_bytes.induct) auto

lemma to_lower_hex: "hex_char c \<Longrightarrow> to_lower c = c"
  by (auto simp: hex_char_def to_lower_def Let_def)

lemma toLowerCase_hex: "list_all hex_char s \<Longrightarrow> toLowerCase (''0x'' @ s) = ''0x'' @ s"
proof -
  have "to_lower (CHR ''0'') = CHR ''0''" "to_lower (CHR ''x'') = CHR ''x''" by code_simp+
  moreover assume "list_all hex_char s"
  then have "map to_lower s = s" by (induction s) (auto simp: to_lower_hex)
  ultimately show ?thesis by (simp add: toLowerCase_def)
qed

text \<open>The strings \<open>fixedHex\<close> accepts, and what it returns for them.\<close>

lemma fixedHex_iff [tx_iff]:
  "fixedHex v n = Inr s \<longleftrightarrow> toLowerCase v = ''0x'' @ s \<and> list_all hex_char s \<and> length s = 2 * n"
proof -
  have "take 2 w = ''0x'' \<Longrightarrow> w = ''0x'' @ drop 2 w" for w :: string by (metis append_take_drop_id)
  then show ?thesis by (auto simp: fixedHex_def Let_def hex_body_def)
qed

lemma fixedHex_canonical: "list_all hex_char s \<Longrightarrow> length s = 2 * n \<Longrightarrow> fixedHex (''0x'' @ s) n = Inr s"
  by (simp only: fixedHex_iff toLowerCase_hex)

lemma slice_append: "length xs = i \<Longrightarrow> length ys = j - i \<Longrightarrow> slice i j (xs @ ys @ zs) = ys"
  by (simp add: slice_def)


lemma lock_args_roundtrip:
  assumes "encodeEscrowLockArgs a = Inr e"
  shows "decodeEscrowLockArgs e = Inr \<lparr>clientLockHash = toLowerCase (clientLockHash a),
     workerLockHash = toLowerCase (workerLockHash a), agreementSalt = toLowerCase (agreementSalt a)\<rparr>"
proof -
  from assms obtain c w s where h: "toLowerCase (clientLockHash a) = ''0x'' @ c" "toLowerCase (workerLockHash a) = ''0x'' @ w"
      "toLowerCase (agreementSalt a) = ''0x'' @ s"
    and x: "list_all hex_char c" "list_all hex_char w" "list_all hex_char s"
      "length c = 64" "length w = 64" "length s = 64" and e: "e = ''0x'' @ c @ w @ s"
    by (auto simp: encodeEscrowLockArgs_def tx_iff)
  have "fixedHex e ESCROW_LOCK_ARGS_BYTES = Inr (c @ w @ s)"
    unfolding e by (rule fixedHex_canonical) (use x in \<open>simp_all add: ESCROW_LOCK_ARGS_BYTES_def\<close>)
  then show ?thesis using h x by (simp add: decodeEscrowLockArgs_def slice_def)
qed

lemma cell_data_layout:
  assumes "encodeEscrowCellData d = Inr e"
  obtains a m where "toLowerCase (agreementDigest d) = ''0x'' @ a" "toLowerCase (milestoneDigest d) = ''0x'' @ m"
    "list_all hex_char a" "list_all hex_char m" "length a = 64" "length m = 64"
    "0 \<le> milestoneIndex d" "milestoneIndex d \<le> UINT32_MAX" "0 \<le> refundTimeoutSince d" "refundTimeoutSince d \<le> UINT64_MAX"
    "e = ''0x'' @ bytes_hex (ESCROW_MAGIC @ [ESCROW_CELL_DATA_VERSION, 0, 0, 0] @ le_bytes 4 (nat (milestoneIndex d))
       @ le_bytes 8 (nat (refundTimeoutSince d)) @ hex_bytes a @ hex_bytes m)"
  using assms by (auto simp: encodeEscrowCellData_def tx_iff unsignedInteger_def split: if_splits)

lemma cell_data_roundtrip:
  assumes enc: "encodeEscrowCellData d = Inr e"
  shows "decodeEscrowCellData e = Inr (d\<lparr>agreementDigest := toLowerCase (agreementDigest d),
     milestoneDigest := toLowerCase (milestoneDigest d)\<rparr>)"
proof -
  obtain a m where h: "toLowerCase (agreementDigest d) = ''0x'' @ a" "toLowerCase (milestoneDigest d) = ''0x'' @ m"
    and x: "list_all hex_char a" "list_all hex_char m" "length a = 64" "length m = 64"
    and r: "0 \<le> milestoneIndex d" "milestoneIndex d \<le> UINT32_MAX" "0 \<le> refundTimeoutSince d"
      "refundTimeoutSince d \<le> UINT64_MAX"
    and e: "e = ''0x'' @ bytes_hex (ESCROW_MAGIC @ [ESCROW_CELL_DATA_VERSION, 0, 0, 0] @ le_bytes 4 (nat (milestoneIndex d))
       @ le_bytes 8 (nat (refundTimeoutSince d)) @ hex_bytes a @ hex_bytes m)"
    by (rule cell_data_layout [OF enc])
  let ?i = "le_bytes 4 (nat (milestoneIndex d))" and ?t = "le_bytes 8 (nat (refundTimeoutSince d))"
  let ?bs = "ESCROW_MAGIC @ [ESCROW_CELL_DATA_VERSION, 0, 0, 0] @ ?i @ ?t @ hex_bytes a @ hex_bytes m"
  have len: "length ESCROW_MAGIC = 8" "length (hex_bytes a) = 32" "length (hex_bytes m) = 32"
    using x by (simp_all add: ESCROW_MAGIC_def length_hex_bytes)
  then have "length (bytes_hex ?bs) = 2 * 88" by simp
  then have f: "fixedHex e ESCROW_CELL_DATA_BYTES = Inr (bytes_hex ?bs)"
    unfolding e by (intro fixedHex_canonical bytes_hex_chars) (simp add: ESCROW_CELL_DATA_BYTES_def)
  have slices: "slice 0 8 ?bs = ESCROW_MAGIC" "slice 12 16 ?bs = ?i" "slice 16 24 ?bs = ?t"
    "slice 24 56 ?bs = hex_bytes a" "slice 56 88 ?bs = hex_bytes m" "?bs ! 8 = ESCROW_CELL_DATA_VERSION"
    using len by (simp_all add: slice_def nth_append)
  have "nat (milestoneIndex d) < 256 ^ 4" "nat (refundTimeoutSince d) < 256 ^ 8"
    using r by (auto simp: UINT32_MAX_def UINT64_MAX_def nat_less_iff)
  then have "le_value ?i = nat (milestoneIndex d)" "le_value ?t = nat (refundTimeoutSince d)"
    by (auto intro: le_value_bytes)
  then show ?thesis using f slices h x r
    by (simp add: decodeEscrowCellData_def Let_def bytes_hex_bytes res_require_def)
qed

section \<open>transaction-builder.ts\<close>

record ckb_lib =
  hashCkb :: "string \<Rightarrow> string"
  scriptHash :: "ckb_script \<Rightarrow> string"
  occupiedCapacity :: "ckb_script \<Rightarrow> string \<Rightarrow> int"

record ckb_config =
  railEnabled :: bool
  railNetwork :: string
  contractCodeHash :: string
  contractHashType :: string
  railConfirmations :: int

definition MAX_BLOCK_SINCE :: int where
  "MAX_BLOCK_SINCE = 2 ^ 56 - 1"

definition requiredScript :: "json option \<Rightarrow> error + ckb_script" where
  "requiredScript value = (case normalizeScript value of
       None \<Rightarrow> Inl (invalidRequest ''invalid_ckb_script'') | Some sc \<Rightarrow> Inr sc)"

definition digest :: "ckb_lib \<Rightarrow> string list \<Rightarrow> string" where
  "digest L parts = hashCkb L (stringify (JArr (map JStr parts)))"

definition parseRefundTimeoutSince :: "string \<Rightarrow> error + int" where
  "parseRefundTimeoutSince value =
     (if \<not> isNonNegativeIntegerAmount value then Inl (invalidRequest ''invalid_ckb_since'')
      else let since = BigInt value in
        if since > MAX_BLOCK_SINCE then Inl (invalidRequest ''invalid_ckb_since'') else Inr since)"

record commitment_input =
  ci_agreementId :: string
  ci_milestoneId :: string
  ci_milestoneIndex :: int
  ci_amount :: string
  ci_clientLockScript :: "json option"
  ci_workerLockScript :: "json option"
  ci_refundTimeoutSince :: string

record CkbEscrowCommitment =
  cm_lockScript :: ckb_script
  cm_clientLockScript :: ckb_script
  cm_workerLockScript :: ckb_script
  cm_cellData :: string
  cm_contractVersion :: int
  cm_refundTimeoutSince :: string
  cm_amount :: string
  cm_outputIndex :: int

definition createCommitment :: "ckb_lib \<Rightarrow> ckb_config \<Rightarrow> commitment_input \<Rightarrow> error + CkbEscrowCommitment" where
  "createCommitment L cfg input =
     res_bind (parsePositiveIntegerAmount (ci_amount input)) (\<lambda>amount.
     res_bind (requiredScript (ci_clientLockScript input)) (\<lambda>client.
     res_bind (requiredScript (ci_workerLockScript input)) (\<lambda>worker.
     res_bind (parseRefundTimeoutSince (ci_refundTimeoutSince input)) (\<lambda>since.
     res_bind (encodeEscrowLockArgs \<lparr>clientLockHash = scriptHash L client, workerLockHash = scriptHash L worker,
       agreementSalt = digest L [''pactagent'', ''agreement-salt'', ci_agreementId input]\<rparr>) (\<lambda>lockArgs.
     let lockScript = \<lparr>codeHash = contractCodeHash cfg, hashType = contractHashType cfg, scriptArgs = lockArgs\<rparr> in
     res_bind (encodeEscrowCellData \<lparr>milestoneIndex = ci_milestoneIndex input, refundTimeoutSince = since,
       agreementDigest = digest L [''pactagent'', ''agreement'', ci_agreementId input],
       milestoneDigest = digest L [''pactagent'', ''milestone'', ci_agreementId input, ci_milestoneId input,
         ci_amount input]\<rparr>) (\<lambda>cellData.
     res_bind (res_require (\<not> amount < occupiedCapacity L lockScript cellData)
       (invalidRequest ''ckb_occupied_capacity_too_low'')) (\<lambda>_.
     Inr \<lparr>cm_lockScript = lockScript, cm_clientLockScript = client, cm_workerLockScript = worker,
          cm_cellData = cellData, cm_contractVersion = uint ESCROW_CELL_DATA_VERSION,
          cm_refundTimeoutSince = show_int since, cm_amount = show_int amount, cm_outputIndex = 0\<rparr>)))))))"

datatype settlement_operation = Release | Refund

record settlement_input =
  si_lockTxHash :: string
  si_lockOutputIndex :: int
  si_amount :: string
  si_clientLockScript :: "json option"
  si_workerLockScript :: "json option"
  si_refundTimeoutSince :: string

record settlement_intent =
  in_operation :: settlement_operation
  in_outPointTxHash :: string
  in_outPointIndex :: int
  in_amount :: int
  in_destinationLock :: ckb_script
  in_authorizerLock :: ckb_script
  in_since :: int

text \<open>\<open>/^0x[0-9a-fA-F]{64}$/\<close>\<close>

definition is_tx_hash :: "string \<Rightarrow> bool" where
  "is_tx_hash v \<longleftrightarrow> take 2 v = ''0x'' \<and> hex_body (Some 32) (toLowerCase (drop 2 v))"

definition createSettlementIntent :: "settlement_operation \<Rightarrow> settlement_input \<Rightarrow> error + settlement_intent" where
  "createSettlementIntent operation input =
     res_bind (res_require (is_tx_hash (si_lockTxHash input)) (invalidRequest ''invalid_ckb_transaction'')) (\<lambda>_.
     res_bind (parsePositiveIntegerAmount (si_amount input)) (\<lambda>amount.
     res_bind (requiredScript (if operation = Release then si_workerLockScript input
       else si_clientLockScript input)) (\<lambda>destination.
     res_bind (requiredScript (if operation = Release then si_clientLockScript input
       else si_workerLockScript input)) (\<lambda>authorizer.
     res_bind (if operation = Refund then parseRefundTimeoutSince (si_refundTimeoutSince input) else Inr 0) (\<lambda>since.
     Inr \<lparr>in_operation = operation, in_outPointTxHash = toLowerCase (si_lockTxHash input),
          in_outPointIndex = si_lockOutputIndex input, in_amount = amount,
          in_destinationLock = destination, in_authorizerLock = authorizer, in_since = since\<rparr>)))))"


section \<open>reconciliation.ts\<close>

record ckb_output =
  ou_capacity :: int
  ou_lock :: json

record ckb_input =
  ip_txHash :: string
  ip_index :: int

record rpc_transaction =
  rx_inputs :: "ckb_input list"
  rx_outputs :: "ckb_output list"
  rx_outputsData :: "string list"

record tx_response =
  rs_transaction :: "rpc_transaction option"
  rs_status :: string
  rs_blockHash :: "string option"
  rs_blockNumber :: "int option"
  rs_reason :: "string option"

record ckb_node =
  getTransaction :: "string \<Rightarrow> error + tx_response option"
  getTipNumber :: "error + int"

datatype ckb_status = CS_pending | CS_committed | CS_confirmed | CS_rejected | CS_unknown

record observation =
  ob_status :: ckb_status
  ob_confirmations :: int
  ob_blockHash :: "string option"
  ob_blockNumber :: "int option"
  ob_reason :: "string option"

definition bare_observation :: "ckb_status \<Rightarrow> observation" where
  "bare_observation st = \<lparr>ob_status = st, ob_confirmations = 0, ob_blockHash = None, ob_blockNumber = None,
     ob_reason = None\<rparr>"

definition observeTransaction :: "ckb_config \<Rightarrow> ckb_node \<Rightarrow> string \<Rightarrow> error + observation" where
  "observeTransaction cfg node txHash =
     res_bind (getTransaction node txHash) (\<lambda>found.
     case found of
       None \<Rightarrow> Inr (bare_observation CS_unknown)
     | Some response \<Rightarrow>
         if rs_status response = ''rejected'' then
           Inr \<lparr>ob_status = CS_rejected, ob_confirmations = 0, ob_blockHash = rs_blockHash response,
                ob_blockNumber = rs_blockNumber response, ob_reason = rs_reason response\<rparr>
         else case (rs_status response = ''committed'', rs_blockNumber response) of
             (True, Some blockNumber) \<Rightarrow>
               res_bind (getTipNumber node) (\<lambda>tip.
               let confirmations = tip - blockNumber + 1 in
               Inr \<lparr>ob_status = (if confirmations \<ge> railConfirmations cfg then CS_confirmed else CS_committed),
                    ob_confirmations = max 0 confirmations, ob_blockHash = rs_blockHash response,
                    ob_blockNumber = Some blockNumber, ob_reason = None\<rparr>)
           | _ \<Rightarrow> Inr (bare_observation CS_pending))"

text \<open>
  The node is asked twice: \<open>node\<close> answers the check of the contents and \<open>later\<close> the observation.
  \<open>nth_opt\<close> is an array access, \<open>undefined\<close> out of range.
\<close>

definition nth_opt :: "'a list \<Rightarrow> int \<Rightarrow> 'a option" where
  "nth_opt xs i = (if 0 \<le> i \<and> i < int (length xs) then Some (xs ! nat i) else None)"

record funding_claim =
  fc_txHash :: string
  fc_outputIndex :: int
  fc_lockScript :: "json option"
  fc_cellData :: string
  fc_amount :: string

definition funding_output :: "funding_claim \<Rightarrow> rpc_transaction \<Rightarrow> ckb_output \<Rightarrow> bool" where
  "funding_output input tx output \<longleftrightarrow> nth_opt (rx_outputs tx) (fc_outputIndex input) = Some output
     \<and> scriptsEqual (Some (ou_lock output)) (fc_lockScript input)
     \<and> map_option toLowerCase (nth_opt (rx_outputsData tx) (fc_outputIndex input)) = Some (toLowerCase (fc_cellData input))"

definition verifyFunding :: "ckb_config \<Rightarrow> ckb_node \<Rightarrow> ckb_node \<Rightarrow> funding_claim \<Rightarrow> error + observation" where
  "verifyFunding cfg node later input =
     res_bind (getTransaction node (fc_txHash input)) (\<lambda>response.
     case Option.bind response rs_transaction of
       None \<Rightarrow> Inl (invalidRequest ''ckb_funding_not_found'')
     | Some tx \<Rightarrow>
         (case nth_opt (rx_outputs tx) (fc_outputIndex input) of
            None \<Rightarrow> Inl (invalidRequest ''ckb_funding_mismatch'')
          | Some output \<Rightarrow>
              res_bind (res_require (funding_output input tx output) (invalidRequest ''ckb_funding_mismatch'')) (\<lambda>_.
              res_bind (res_require (ou_capacity output = BigInt (fc_amount input))
                (invalidRequest ''ckb_funding_amount_mismatch'')) (\<lambda>_.
              observeTransaction cfg later (fc_txHash input)))))"

record settlement_claim =
  sc_txHash :: string
  sc_lockTxHash :: string
  sc_lockOutputIndex :: int
  sc_destinationLockScript :: "json option"
  sc_amount :: string

definition spends_escrow :: "settlement_claim \<Rightarrow> ckb_input \<Rightarrow> bool" where
  "spends_escrow input i \<longleftrightarrow> toLowerCase (ip_txHash i) = toLowerCase (sc_lockTxHash input)
     \<and> ip_index i = sc_lockOutputIndex input"

definition pays_destination :: "settlement_claim \<Rightarrow> ckb_output \<Rightarrow> bool" where
  "pays_destination input o' \<longleftrightarrow> scriptsEqual (Some (ou_lock o')) (sc_destinationLockScript input)
     \<and> ou_capacity o' = BigInt (sc_amount input)"

definition verifySettlement :: "ckb_config \<Rightarrow> ckb_node \<Rightarrow> ckb_node \<Rightarrow> settlement_claim \<Rightarrow> error + observation" where
  "verifySettlement cfg node later input =
     res_bind (getTransaction node (sc_txHash input)) (\<lambda>response.
     case Option.bind response rs_transaction of
       None \<Rightarrow> Inl (invalidRequest ''ckb_settlement_not_found'')
     | Some tx \<Rightarrow>
         res_bind (res_require (length (filter (spends_escrow input) (rx_inputs tx)) = 1)
           (invalidRequest ''ckb_settlement_input_mismatch'')) (\<lambda>_.
         res_bind (res_require (length (filter (pays_destination input) (rx_outputs tx)) = 1)
           (invalidRequest ''ckb_settlement_output_mismatch'')) (\<lambda>_.
         observeTransaction cfg later (sc_txHash input))))"

section \<open>What the checks establish\<close>

lemma scriptsEqual_sym: "scriptsEqual a b = scriptsEqual b a"
  by (auto simp: scriptsEqual_def split: option.splits)

lemma scriptsEqual_trans: "scriptsEqual a b \<Longrightarrow> scriptsEqual b c \<Longrightarrow> scriptsEqual a c"
  by (auto simp: scriptsEqual_def split: option.splits)

lemma confirmed_depth:
  assumes "observeTransaction cfg node h = Inr ob" and "ob_status ob = CS_confirmed"
  shows "\<exists>r b tip. getTransaction node h = Inr (Some r) \<and> rs_status r = ''committed''
    \<and> rs_blockNumber r = Some b \<and> getTipNumber node = Inr tip \<and> railConfirmations cfg \<le> tip - b + 1
    \<and> ob_confirmations ob = max 0 (tip - b + 1)"
proof -
  from assms(1) obtain found where f: "getTransaction node h = Inr found"
    by (auto simp: observeTransaction_def res_bind_iff)
  with assms obtain r where r: "found = Some r"
    by (cases found) (auto simp: observeTransaction_def bare_observation_def)
  show ?thesis using assms f r
    by (cases "rs_blockNumber r")
      (auto simp: observeTransaction_def bare_observation_def res_bind_iff Let_def split: if_splits bool.splits)
qed

lemma verifyFunding_contents:
  assumes "verifyFunding cfg node later c = Inr ob"
  shows "\<exists>r tx output. getTransaction node (fc_txHash c) = Inr (Some r) \<and> rs_transaction r = Some tx
    \<and> funding_output c tx output \<and> ou_capacity output = BigInt (fc_amount c)
    \<and> observeTransaction cfg later (fc_txHash c) = Inr ob"
proof -
  from assms obtain found where f: "getTransaction node (fc_txHash c) = Inr found"
    by (auto simp: verifyFunding_def res_bind_iff)
  with assms obtain r tx where r: "found = Some r" "rs_transaction r = Some tx"
    by (cases found; cases "rs_transaction (the found)") (auto simp: verifyFunding_def)
  show ?thesis using assms f r
    by (auto simp: verifyFunding_def res_bind_iff res_require_iff split: option.splits)
qed

lemma verifySettlement_contents:
  assumes "verifySettlement cfg node later c = Inr ob"
  shows "\<exists>r tx i out. getTransaction node (sc_txHash c) = Inr (Some r) \<and> rs_transaction r = Some tx
    \<and> filter (spends_escrow c) (rx_inputs tx) = [i] \<and> filter (pays_destination c) (rx_outputs tx) = [out]
    \<and> observeTransaction cfg later (sc_txHash c) = Inr ob"
proof -
  from assms obtain found where f: "getTransaction node (sc_txHash c) = Inr found"
    by (auto simp: verifySettlement_def res_bind_iff)
  with assms obtain r tx where r: "found = Some r" "rs_transaction r = Some tx"
    by (cases found; cases "rs_transaction (the found)") (auto simp: verifySettlement_def)
  show ?thesis using assms f r
    by (auto simp: verifySettlement_def res_bind_iff res_require_iff length_Suc_conv)
qed

end
