(* ===== verification/EscrowAdapters.thy ===== *)
theory EscrowAdapters
  imports Disputes CkbRail
begin

text \<open>
  The settlement rails behind an escrow: \<open>modules/escrows/adapters/escrow-adapter.interface.ts\<close>,
  \<open>mock-escrow.adapter.ts\<close>, \<open>manual-escrow.adapter.ts\<close>, \<open>ckb-escrow.adapter.ts\<close> and
  \<open>adapters/index.ts\<close>. An adapter is a record of functions, as the interface is; the signer and the
  node of the CKB rail are the fields of \<open>ckb_services\<close>. The locale \<open>escrow_adapter_contract\<close>
  states which statuses each call of an adapter may answer; every adapter of the repository is an
  interpretation of it. The text of an error message is represented by its code.
\<close>

section \<open>escrow-adapter.interface.ts\<close>

record adapter_create_input =
  aci_escrowId :: string
  aci_agreementId :: string
  aci_milestoneId :: "string option"
  aci_amount :: string
  aci_currency :: string
  aci_rail :: string
  aci_network :: string
  aci_milestoneIndex :: "int option"
  aci_clientLockScript :: "json option"
  aci_workerLockScript :: "json option"
  aci_refundTimeoutSince :: "string option"

record adapter_result =
  ar_status :: EscrowStatus
  ar_lockAddress :: "string option"
  ar_txHash :: "string option"
  ar_rawPayload :: "json option"
  ar_lockOutputIndex :: "int option"
  ar_lockScript :: "json option"
  ar_clientLockScript :: "json option"
  ar_workerLockScript :: "json option"
  ar_cellData :: "string option"
  ar_contractVersion :: "int option"
  ar_refundTimeoutSince :: "string option"
  ar_confirmations :: "int option"
  ar_blockHash :: "string option"
  ar_blockNumber :: "string option"

record adapter_context =
  ac_escrowId :: string
  ac_amount :: string
  ac_currency :: string
  ac_network :: string
  ac_lockTxHash :: "string option"
  ac_lockOutputIndex :: "int option"
  ac_lockScript :: "json option"
  ac_clientLockScript :: "json option"
  ac_workerLockScript :: "json option"
  ac_cellData :: "string option"
  ac_refundTimeoutSince :: "string option"

text \<open>The answer about a transaction, whose status is one of the chain and not of an escrow.\<close>

record tx_observation =
  to_status :: ckb_status
  to_confirmations :: "int option"
  to_blockHash :: "string option"
  to_blockNumber :: "string option"
  to_reason :: "string option"
  to_rawPayload :: json

record escrow_adapter =
  ad_createEscrowLock :: "adapter_create_input \<Rightarrow> error + adapter_result"
  ad_checkFundingStatus :: "adapter_context \<Rightarrow> error + adapter_result"
  ad_markFunded :: "adapter_context \<Rightarrow> string option \<Rightarrow> error + adapter_result"
  ad_release :: "adapter_context \<Rightarrow> error + adapter_result"
  ad_refund :: "adapter_context \<Rightarrow> error + adapter_result"
  ad_getTransactionStatus :: "string \<Rightarrow> error + tx_observation"
  ad_checkSettlementStatus :: "adapter_context \<Rightarrow> settlement_operation \<Rightarrow> string \<Rightarrow> error + tx_observation"

definition plain_result :: "EscrowStatus \<Rightarrow> string option \<Rightarrow> json \<Rightarrow> adapter_result" where
  "plain_result st txHash payload = \<lparr>ar_status = st, ar_lockAddress = None, ar_txHash = txHash,
     ar_rawPayload = Some payload, ar_lockOutputIndex = None, ar_lockScript = None,
     ar_clientLockScript = None, ar_workerLockScript = None, ar_cellData = None,
     ar_contractVersion = None, ar_refundTimeoutSince = None, ar_confirmations = None,
     ar_blockHash = None, ar_blockNumber = None\<rparr>"

section \<open>mock-escrow.adapter.ts and manual-escrow.adapter.ts\<close>

definition mockHash :: "env \<Rightarrow> string list \<Rightarrow> string" where
  "mockHash E parts = ''mock_'' @ take 32 (sha256 E (join '':'' parts))"

definition mock_payload :: "string \<Rightarrow> json" where
  "mock_payload operation = JObj [(''adapter'', JStr ''mock''), (''operation'', JStr operation)]"

definition mock_createEscrowLock :: "env \<Rightarrow> adapter_create_input \<Rightarrow> adapter_result" where
  "mock_createEscrowLock E input =
     (plain_result ES_awaiting_funding (Some (mockHash E [''lock'', aci_escrowId input]))
       (mock_payload ''createEscrowLock''))\<lparr>ar_lockAddress := Some (''mock_escrow_'' @ aci_escrowId input)\<rparr>"

definition mock_checkFundingStatus :: "adapter_context \<Rightarrow> adapter_result" where
  "mock_checkFundingStatus input = plain_result ES_awaiting_funding None
     (JObj [(''adapter'', JStr ''mock''), (''operation'', JStr ''checkFundingStatus''),
       (''escrowId'', JStr (ac_escrowId input))])"

definition mock_markFunded :: "env \<Rightarrow> adapter_context \<Rightarrow> string option \<Rightarrow> adapter_result" where
  "mock_markFunded E input txHash = plain_result ES_funded
     (Some (case txHash of Some h \<Rightarrow> h | None \<Rightarrow> mockHash E [''fund'', ac_escrowId input]))
     (mock_payload ''markFunded'')"

definition mock_release :: "env \<Rightarrow> adapter_context \<Rightarrow> adapter_result" where
  "mock_release E input = plain_result ES_released (Some (mockHash E [''release'', ac_escrowId input]))
     (mock_payload ''release'')"

definition mock_refund :: "env \<Rightarrow> adapter_context \<Rightarrow> adapter_result" where
  "mock_refund E input = plain_result ES_refunded (Some (mockHash E [''refund'', ac_escrowId input]))
     (mock_payload ''refund'')"

definition mock_getTransactionStatus :: "string \<Rightarrow> tx_observation" where
  "mock_getTransactionStatus txHash = \<lparr>to_status = CS_confirmed, to_confirmations = None, to_blockHash = None,
     to_blockNumber = None, to_reason = None, to_rawPayload = mock_payload ''getTransactionStatus''\<rparr>"

definition MockEscrowAdapter :: "env \<Rightarrow> escrow_adapter" where
  "MockEscrowAdapter E = \<lparr>
     ad_createEscrowLock = (\<lambda>i. Inr (mock_createEscrowLock E i)),
     ad_checkFundingStatus = (\<lambda>c. Inr (mock_checkFundingStatus c)),
     ad_markFunded = (\<lambda>c h. Inr (mock_markFunded E c h)),
     ad_release = (\<lambda>c. Inr (mock_release E c)),
     ad_refund = (\<lambda>c. Inr (mock_refund E c)),
     ad_getTransactionStatus = (\<lambda>h. Inr (mock_getTransactionStatus h)),
     ad_checkSettlementStatus = (\<lambda>c operation h. Inr (mock_getTransactionStatus h))\<rparr>"

definition manual_createEscrowLock :: "env \<Rightarrow> adapter_create_input \<Rightarrow> adapter_result" where
  "manual_createEscrowLock E input =
     (mock_createEscrowLock E input)\<lparr>ar_lockAddress := Some (''manual_escrow_'' @ aci_escrowId input),
       ar_rawPayload := Some (JObj [(''adapter'', JStr ''manual''), (''operation'', JStr ''createEscrowLock'')])\<rparr>"

definition ManualEscrowAdapter :: "env \<Rightarrow> escrow_adapter" where
  "ManualEscrowAdapter E =
     (MockEscrowAdapter E)\<lparr>ad_createEscrowLock := (\<lambda>i. Inr (manual_createEscrowLock E i))\<rparr>"

section \<open>ckb-escrow.adapter.ts\<close>

text \<open>A signed transaction and its hash; \<open>ckb_send\<close> is the node's answer to a broadcast.\<close>

type_synonym signed_tx = "string \<times> string"

record ckb_signer =
  signEscrowLock :: "CkbEscrowCommitment \<Rightarrow> error + signed_tx"
  signSettlement :: "settlement_intent \<Rightarrow> error + signed_tx"

record ckb_services =
  ckb_cfg :: ckb_config
  ckb_library :: ckb_lib
  ckb_signer_provider :: "error + ckb_signer"
  ckb_send :: "string \<Rightarrow> error + string"
  ckb_now :: ckb_node
  ckb_later :: ckb_node

definition error_text :: "error \<Rightarrow> string" where
  "error_text e = (case e of
       App a \<Rightarrow> code a
     | P2002 \<Rightarrow> ''P2002''
     | P2025 \<Rightarrow> ''P2025''
     | ZodError \<Rightarrow> ''ZodError''
     | JsError m \<Rightarrow> m)"

text \<open>JavaScript's falsy optional strings: absent, null or empty.\<close>

definition truthy :: "string option \<Rightarrow> bool" where
  "truthy v \<longleftrightarrow> v \<noteq> None \<and> v \<noteq> Some []"

definition requireSigner :: "ckb_services \<Rightarrow> error + ckb_signer" where
  "requireSigner K =
     (if \<not> railEnabled (ckb_cfg K) then Inl (invalidRequest ''escrow_adapter_not_ready'')
      else ckb_signer_provider K)"

definition assertNetwork :: "ckb_services \<Rightarrow> string \<Rightarrow> error + unit" where
  "assertNetwork K network =
     res_require (network = railNetwork (ckb_cfg K)) (invalidRequest ''ckb_network_mismatch'')"

record required_context =
  rc_lockTxHash :: string
  rc_lockOutputIndex :: int
  rc_lockScript :: json
  rc_clientLockScript :: json
  rc_workerLockScript :: json
  rc_cellData :: string
  rc_refundTimeoutSince :: string

definition requiredContext :: "adapter_context \<Rightarrow> error + required_context" where
  "requiredContext c =
     (if truthy (ac_lockTxHash c) \<and> truthy (ac_cellData c) \<and> truthy (ac_refundTimeoutSince c)
      then (case (ac_lockOutputIndex c, ac_lockScript c, ac_clientLockScript c, ac_workerLockScript c) of
          (Some i, Some l, Some cl, Some w) \<Rightarrow>
            Inr \<lparr>rc_lockTxHash = the (ac_lockTxHash c), rc_lockOutputIndex = i, rc_lockScript = l,
                 rc_clientLockScript = cl, rc_workerLockScript = w, rc_cellData = the (ac_cellData c),
                 rc_refundTimeoutSince = the (ac_refundTimeoutSince c)\<rparr>
        | _ \<Rightarrow> Inl (invalidRequest ''ckb_escrow_context_incomplete''))
      else Inl (invalidRequest ''ckb_escrow_context_incomplete''))"

text \<open>The outcome of a broadcast: the status, the hash to keep and the ambiguity, if any.\<close>

definition broadcastLock :: "ckb_services \<Rightarrow> signed_tx \<Rightarrow> EscrowStatus \<times> string \<times> string option" where
  "broadcastLock K signedTx = (case ckb_send K (fst signedTx) of
       Inl e \<Rightarrow> (ES_reconciliation_required, snd signedTx, Some (error_text e))
     | Inr h \<Rightarrow> if toLowerCase h \<noteq> toLowerCase (snd signedTx)
         then (ES_reconciliation_required, h, Some ''CKB node returned a different transaction hash.'')
         else (ES_awaiting_funding, h, None))"

definition ckb_createEscrowLock :: "ckb_services \<Rightarrow> adapter_create_input \<Rightarrow> error + adapter_result" where
  "ckb_createEscrowLock K input =
     res_bind (res_require (railEnabled (ckb_cfg K)) (invalidRequest ''escrow_adapter_not_ready'')) (\<lambda>_.
     res_bind (assertNetwork K (aci_network input)) (\<lambda>_.
     res_bind (res_require (truthy (aci_milestoneId input) \<and> aci_milestoneIndex input \<noteq> None
       \<and> aci_milestoneIndex input \<noteq> Some 0 \<and> truthy (aci_refundTimeoutSince input))
       (invalidRequest ''ckb_escrow_terms_required'')) (\<lambda>_.
     res_bind (createCommitment (ckb_library K) (ckb_cfg K)
       \<lparr>ci_agreementId = aci_agreementId input, ci_milestoneId = the (aci_milestoneId input),
        ci_milestoneIndex = the (aci_milestoneIndex input), ci_amount = aci_amount input,
        ci_clientLockScript = aci_clientLockScript input, ci_workerLockScript = aci_workerLockScript input,
        ci_refundTimeoutSince = the (aci_refundTimeoutSince input)\<rparr>) (\<lambda>commitment.
     res_bind (requireSigner K) (\<lambda>signer.
     res_bind (signEscrowLock signer commitment) (\<lambda>signedTx.
     case broadcastLock K signedTx of (status, txHash, ambiguity) \<Rightarrow>
     Inr \<lparr>ar_status = status, ar_lockAddress = None, ar_txHash = Some txHash,
          ar_rawPayload = Some (JObj [(''operation'', JStr ''createEscrowLock''),
            (''expectedTxHash'', JStr (snd signedTx)), (''broadcastAmbiguity'', jstr_opt ambiguity)]),
          ar_lockOutputIndex = Some (cm_outputIndex commitment),
          ar_lockScript = Some (script_json (cm_lockScript commitment)),
          ar_clientLockScript = Some (script_json (cm_clientLockScript commitment)),
          ar_workerLockScript = Some (script_json (cm_workerLockScript commitment)),
          ar_cellData = Some (cm_cellData commitment),
          ar_contractVersion = Some (cm_contractVersion commitment),
          ar_refundTimeoutSince = Some (cm_refundTimeoutSince commitment),
          ar_confirmations = None, ar_blockHash = None, ar_blockNumber = None\<rparr>))))))"

fun ckb_status_name :: "ckb_status \<Rightarrow> string" where
  "ckb_status_name CS_pending = ''pending''"
| "ckb_status_name CS_committed = ''committed''"
| "ckb_status_name CS_confirmed = ''confirmed''"
| "ckb_status_name CS_rejected = ''rejected''"
| "ckb_status_name CS_unknown = ''unknown''"

definition block_text :: "observation \<Rightarrow> string option" where
  "block_text ob = map_option show_int (ob_blockNumber ob)"

definition observation_json :: "observation \<Rightarrow> json" where
  "observation_json ob = JObj [
     (''status'', JStr (ckb_status_name (ob_status ob))),
     (''confirmations'', JNum (ob_confirmations ob)),
     (''blockHash'', jstr_opt (ob_blockHash ob)),
     (''blockNumber'', jstr_opt (block_text ob)),
     (''reason'', jstr_opt (ob_reason ob))]"

definition ckb_checkFundingStatus :: "ckb_services \<Rightarrow> adapter_context \<Rightarrow> error + adapter_result" where
  "ckb_checkFundingStatus K input =
     res_bind (assertNetwork K (ac_network input)) (\<lambda>_.
     res_bind (requiredContext input) (\<lambda>ctx.
     res_bind (verifyFunding (ckb_cfg K) (ckb_now K) (ckb_later K)
       \<lparr>fc_txHash = rc_lockTxHash ctx, fc_outputIndex = rc_lockOutputIndex ctx,
        fc_lockScript = Some (rc_lockScript ctx), fc_cellData = rc_cellData ctx, fc_amount = ac_amount input\<rparr>) (\<lambda>ob.
     Inr ((plain_result (if ob_status ob = CS_confirmed then ES_funded else ES_funding_detected)
        (Some (rc_lockTxHash ctx)) (observation_json ob))\<lparr>ar_confirmations := Some (ob_confirmations ob),
          ar_blockHash := ob_blockHash ob, ar_blockNumber := block_text ob\<rparr>))))"

definition ckb_markFunded :: "ckb_services \<Rightarrow> adapter_context \<Rightarrow> string option \<Rightarrow> error + adapter_result" where
  "ckb_markFunded K input txHash =
     res_bind (res_require (\<not> (truthy txHash \<and> truthy (ac_lockTxHash input)
       \<and> toLowerCase (the txHash) \<noteq> toLowerCase (the (ac_lockTxHash input))))
       (invalidRequest ''ckb_funding_mismatch'')) (\<lambda>_.
     ckb_checkFundingStatus K input)"

definition operation_name :: "settlement_operation \<Rightarrow> string" where
  "operation_name operation = (case operation of Release \<Rightarrow> ''release'' | Refund \<Rightarrow> ''refund'')"

definition settlementPendingStatus :: "settlement_operation \<Rightarrow> EscrowStatus" where
  "settlementPendingStatus operation = (case operation of Release \<Rightarrow> ES_release_pending | Refund \<Rightarrow> ES_refund_pending)"

definition settlementTerminalStatus :: "settlement_operation \<Rightarrow> EscrowStatus" where
  "settlementTerminalStatus operation = (case operation of Release \<Rightarrow> ES_released | Refund \<Rightarrow> ES_refunded)"

definition ckb_settle :: "ckb_services \<Rightarrow> settlement_operation \<Rightarrow> adapter_context \<Rightarrow> error + adapter_result" where
  "ckb_settle K operation input =
     res_bind (assertNetwork K (ac_network input)) (\<lambda>_.
     res_bind (requiredContext input) (\<lambda>ctx.
     res_bind (createSettlementIntent operation
       \<lparr>si_lockTxHash = rc_lockTxHash ctx, si_lockOutputIndex = rc_lockOutputIndex ctx, si_amount = ac_amount input,
        si_clientLockScript = Some (rc_clientLockScript ctx), si_workerLockScript = Some (rc_workerLockScript ctx),
        si_refundTimeoutSince = rc_refundTimeoutSince ctx\<rparr>) (\<lambda>intent.
     res_bind (requireSigner K) (\<lambda>signer.
     res_bind (signSettlement signer intent) (\<lambda>signedTx.
     case ckb_send K (fst signedTx) of
       Inr txHash \<Rightarrow> Inr (plain_result (settlementPendingStatus operation) (Some txHash)
         (JObj [(''expectedTxHash'', JStr (snd signedTx))]))
     | Inl e \<Rightarrow> Inr (plain_result ES_reconciliation_required (Some (snd signedTx))
         (JObj [(''expectedTxHash'', JStr (snd signedTx)), (''broadcastAmbiguity'', JStr (error_text e))])))))))"

definition tx_observation_of :: "observation \<Rightarrow> tx_observation" where
  "tx_observation_of ob = \<lparr>to_status = ob_status ob, to_confirmations = Some (ob_confirmations ob),
     to_blockHash = ob_blockHash ob, to_blockNumber = block_text ob, to_reason = ob_reason ob,
     to_rawPayload = observation_json ob\<rparr>"

definition ckb_checkSettlementStatus ::
  "ckb_services \<Rightarrow> adapter_context \<Rightarrow> settlement_operation \<Rightarrow> string \<Rightarrow> error + tx_observation" where
  "ckb_checkSettlementStatus K input operation txHash =
     res_bind (assertNetwork K (ac_network input)) (\<lambda>_.
     res_bind (requiredContext input) (\<lambda>ctx.
     res_bind (verifySettlement (ckb_cfg K) (ckb_now K) (ckb_later K)
       \<lparr>sc_txHash = txHash, sc_lockTxHash = rc_lockTxHash ctx, sc_lockOutputIndex = rc_lockOutputIndex ctx,
        sc_destinationLockScript = Some (if operation = Release then rc_workerLockScript ctx
          else rc_clientLockScript ctx),
        sc_amount = ac_amount input\<rparr>) (\<lambda>ob.
     Inr (tx_observation_of ob))))"

definition ckb_getTransactionStatus :: "ckb_services \<Rightarrow> string \<Rightarrow> error + tx_observation" where
  "ckb_getTransactionStatus K txHash =
     res_bind (observeTransaction (ckb_cfg K) (ckb_now K) txHash) (\<lambda>ob. Inr (tx_observation_of ob))"

definition CkbEscrowAdapter :: "ckb_services \<Rightarrow> escrow_adapter" where
  "CkbEscrowAdapter K = \<lparr>
     ad_createEscrowLock = ckb_createEscrowLock K,
     ad_checkFundingStatus = ckb_checkFundingStatus K,
     ad_markFunded = ckb_markFunded K,
     ad_release = ckb_settle K Release,
     ad_refund = ckb_settle K Refund,
     ad_getTransactionStatus = ckb_getTransactionStatus K,
     ad_checkSettlementStatus = ckb_checkSettlementStatus K\<rparr>"

section \<open>adapters/index.ts\<close>

definition getEscrowAdapter :: "env \<Rightarrow> ckb_services \<Rightarrow> string \<Rightarrow> error + escrow_adapter" where
  "getEscrowAdapter E K rail =
     (if rail = ''mock'' then Inr (MockEscrowAdapter E)
      else if rail = ''manual'' then Inr (ManualEscrowAdapter E)
      else if rail = ''ckb'' then Inr (CkbEscrowAdapter K)
      else Inl (invalidRequest ''unsupported_escrow_rail''))"

section \<open>The contract of an adapter\<close>

locale escrow_adapter_contract =
  fixes adapter :: escrow_adapter
  assumes create_status: "ad_createEscrowLock adapter i = Inr r \<Longrightarrow>
      ar_status r \<in> {ES_awaiting_funding, ES_reconciliation_required} \<and> ar_txHash r \<noteq> None"
    and fund_status: "ad_markFunded adapter c h = Inr r \<Longrightarrow> ar_status r \<in> {ES_funding_detected, ES_funded}"
    and release_status: "ad_release adapter c = Inr r \<Longrightarrow>
      ar_status r \<in> {ES_release_pending, ES_released, ES_reconciliation_required} \<and> ar_txHash r \<noteq> None"
    and refund_status: "ad_refund adapter c = Inr r \<Longrightarrow>
      ar_status r \<in> {ES_refund_pending, ES_refunded, ES_reconciliation_required} \<and> ar_txHash r \<noteq> None"
begin

text \<open>What the escrow service needs of these statuses: the transitions it then asserts are legal.\<close>

lemma create_can: "ad_createEscrowLock adapter i = Inr r \<Longrightarrow> canTransitionEscrow ES_not_created (ar_status r)"
  using create_status by (fastforce simp: canTransitionEscrow_def)

lemma fund_can:
  "ad_markFunded adapter c h = Inr r \<Longrightarrow> canTransitionEscrow ES_awaiting_funding (ar_status r)"
  using fund_status by (fastforce simp: canTransitionEscrow_def)

lemma release_can: "ad_release adapter c = Inr r \<Longrightarrow>
    ar_status r = ES_release_pending \<or> canTransitionEscrow ES_release_pending (ar_status r)"
  using release_status by (fastforce simp: canTransitionEscrow_def)

lemma refund_can: "ad_refund adapter c = Inr r \<Longrightarrow>
    ar_status r = ES_refund_pending \<or> canTransitionEscrow ES_refund_pending (ar_status r)"
  using refund_status by (fastforce simp: canTransitionEscrow_def)

end

lemmas adapter_defs =
  mock_createEscrowLock_def mock_markFunded_def mock_release_def mock_refund_def plain_result_def

interpretation mock: escrow_adapter_contract "MockEscrowAdapter E" for E
  by unfold_locales (auto simp: MockEscrowAdapter_def adapter_defs)

interpretation manual: escrow_adapter_contract "ManualEscrowAdapter E" for E
  by unfold_locales (auto simp: ManualEscrowAdapter_def manual_createEscrowLock_def MockEscrowAdapter_def adapter_defs)

lemma broadcastLock_status:
  "fst (broadcastLock K signedTx) = ES_awaiting_funding \<or> fst (broadcastLock K signedTx) = ES_reconciliation_required"
  by (auto simp: broadcastLock_def split: sum.splits)

lemma ckb_create_status:
  assumes "ckb_createEscrowLock K i = Inr r"
  shows "ar_status r \<in> {ES_awaiting_funding, ES_reconciliation_required} \<and> ar_txHash r \<noteq> None"
proof -
  from assms obtain signedTx where "ar_status r = fst (broadcastLock K signedTx)" "ar_txHash r \<noteq> None"
    by (auto simp: ckb_createEscrowLock_def res_bind_iff case_prod_beta)
  then show ?thesis using broadcastLock_status [of K signedTx] by auto
qed

lemma ckb_settle_status:
  "ckb_settle K operation c = Inr r \<Longrightarrow>
     ar_status r \<in> {settlementPendingStatus operation, ES_reconciliation_required} \<and> ar_txHash r \<noteq> None"
  by (auto simp: ckb_settle_def res_bind_iff sum_case_eq_Inr plain_result_def)

interpretation ckb: escrow_adapter_contract "CkbEscrowAdapter K" for K
proof unfold_locales
  fix i c h and r :: adapter_result
  show "ad_createEscrowLock (CkbEscrowAdapter K) i = Inr r \<Longrightarrow>
      ar_status r \<in> {ES_awaiting_funding, ES_reconciliation_required} \<and> ar_txHash r \<noteq> None"
    using ckb_create_status by (simp add: CkbEscrowAdapter_def)
  show "ad_markFunded (CkbEscrowAdapter K) c h = Inr r \<Longrightarrow> ar_status r \<in> {ES_funding_detected, ES_funded}"
    by (auto simp: CkbEscrowAdapter_def ckb_markFunded_def ckb_checkFundingStatus_def res_bind_iff
        plain_result_def split: if_splits)
  show "ad_release (CkbEscrowAdapter K) c = Inr r \<Longrightarrow>
      ar_status r \<in> {ES_release_pending, ES_released, ES_reconciliation_required} \<and> ar_txHash r \<noteq> None"
    using ckb_settle_status [of K Release c r] by (auto simp: CkbEscrowAdapter_def settlementPendingStatus_def)
  show "ad_refund (CkbEscrowAdapter K) c = Inr r \<Longrightarrow>
      ar_status r \<in> {ES_refund_pending, ES_refunded, ES_reconciliation_required} \<and> ar_txHash r \<noteq> None"
    using ckb_settle_status [of K Refund c r] by (auto simp: CkbEscrowAdapter_def settlementPendingStatus_def)
qed

lemma getEscrowAdapter_contract: "getEscrowAdapter E K rail = Inr a \<Longrightarrow> escrow_adapter_contract a"
  by (auto simp: getEscrowAdapter_def mock.escrow_adapter_contract_axioms
      manual.escrow_adapter_contract_axioms ckb.escrow_adapter_contract_axioms split: if_splits)

end
