(* ===== verification/Escrows.thy ===== *)
theory Escrows
  imports EscrowAdapters
begin

text \<open>
  Escrows: \<open>modules/escrows/escrow.repository.ts\<close>, \<open>escrow.model.ts\<close>, the transaction records of
  \<open>modules/transactions/\<close>, and the operations of \<open>escrow.service.ts\<close> that a client calls: creating
  an escrow, marking it funded, releasing and refunding it. A handler is a sequence of committed
  transactions around one call of the rail adapter: a reservation, the call, and a finalisation that
  is tried twice.
\<close>

section \<open>escrow.repository.ts\<close>

record create_escrow_input =
  cei_agreementId :: string
  cei_milestoneId :: "string option"
  cei_amount :: string
  cei_currency :: string
  cei_rail :: string
  cei_network :: string
  cei_clientLockScript :: "json option"
  cei_workerLockScript :: "json option"
  cei_refundTimeoutSince :: "string option"

text \<open>The partial unique indexes of the migrations: one active escrow per scope.\<close>

definition escrow_clash :: "escrow \<Rightarrow> escrow \<Rightarrow> bool" where
  "escrow_clash e f \<longleftrightarrow> es_id e = es_id f
     \<or> (active_escrow (es_status e) \<and> active_escrow (es_status f) \<and> escrow_scope e = escrow_scope f)"

definition createEscrow :: "env \<Rightarrow> string \<Rightarrow> create_escrow_input \<Rightarrow> escrow dbtx" where
  "createEscrow E appId input =
     tx_bind (freshId E) (\<lambda>escrowId.
     tx_bind now (\<lambda>t.
     insertRow escrows escrows_update escrow_clash
       \<lparr>es_id = escrowId, es_appId = appId, es_agreementId = cei_agreementId input,
        es_milestoneId = cei_milestoneId input, es_amount = cei_amount input,
        es_currency = cei_currency input, es_rail = cei_rail input, es_network = cei_network input,
        es_status = ES_not_created, es_lockAddress = None, es_lockTxHash = None,
        es_lockOutputIndex = None, es_lockScript = None,
        es_clientLockScript = cei_clientLockScript input,
        es_workerLockScript = cei_workerLockScript input, es_cellData = None,
        es_contractVersion = None, es_refundTimeoutSince = cei_refundTimeoutSince input,
        es_releaseTxHash = None, es_refundTxHash = None, es_createdAt = t, es_updatedAt = t\<rparr>))"

definition escrow_is :: "string \<Rightarrow> string \<Rightarrow> escrow \<Rightarrow> bool" where
  "escrow_is appId escrowId e \<longleftrightarrow> es_id e = escrowId \<and> es_appId e = appId"

text \<open>\<open>data\<close> is the update of the columns; the result is the number of rows changed.\<close>

definition transitionEscrowStatus ::
  "string \<Rightarrow> string \<Rightarrow> EscrowStatus \<Rightarrow> (escrow \<Rightarrow> escrow) \<Rightarrow> nat dbtx" where
  "transitionEscrowStatus appId escrowId fromStatus data =
     updateMany escrows escrows_update
       (\<lambda>e. escrow_is appId escrowId e \<and> es_status e = fromStatus)
       (\<lambda>s e. (data e)\<lparr>es_updatedAt := clock s\<rparr>)"

definition findEscrowForApp :: "string \<Rightarrow> string \<Rightarrow> escrow option dbtx" where
  "findEscrowForApp appId escrowId = findFirst escrows (escrow_is appId escrowId)"

definition terminal_escrow :: "EscrowStatus \<Rightarrow> bool" where
  "terminal_escrow status \<longleftrightarrow> List.member [ES_released, ES_refunded] status"

definition findTerminalEscrowForAgreement :: "string \<Rightarrow> string \<Rightarrow> escrow option dbtx" where
  "findTerminalEscrowForAgreement appId agreementId =
     findFirst escrows (\<lambda>e. es_appId e = appId \<and> es_agreementId e = agreementId \<and> es_milestoneId e = None
       \<and> terminal_escrow (es_status e))"

definition findTerminalEscrowForMilestone :: "string \<Rightarrow> string \<Rightarrow> escrow option dbtx" where
  "findTerminalEscrowForMilestone appId milestoneId =
     findFirst escrows (\<lambda>e. es_appId e = appId \<and> es_milestoneId e = Some milestoneId
       \<and> terminal_escrow (es_status e))"

definition listEscrowsForAgreement :: "string \<Rightarrow> string \<Rightarrow> escrow list dbtx" where
  "listEscrowsForAgreement appId agreementId =
     findMany escrows (\<lambda>e. es_appId e = appId \<and> es_agreementId e = agreementId)"

definition findTransactionForEscrowType :: "string \<Rightarrow> string \<Rightarrow> TransactionType \<Rightarrow> transaction option dbtx" where
  "findTransactionForEscrowType appId escrowId ty =
     findLatest transactions tr_createdAt
       (\<lambda>x. tr_appId x = appId \<and> tr_escrowId x = Some escrowId \<and> tr_type x = ty)"

record escrow_query =
  esq_agreementId :: "string option"
  esq_status :: "EscrowStatus option"
  esq_limit :: nat
  esq_cursor :: "string option"

definition escrow_selected :: "string \<Rightarrow> escrow_query \<Rightarrow> escrow \<Rightarrow> bool" where
  "escrow_selected appId params e \<longleftrightarrow> es_appId e = appId
     \<and> (case esq_agreementId params of None \<Rightarrow> True | Some a \<Rightarrow> es_agreementId e = a)
     \<and> (case esq_status params of None \<Rightarrow> True | Some st \<Rightarrow> es_status e = st)"

definition listEscrowRows :: "string \<Rightarrow> escrow_query \<Rightarrow> db \<Rightarrow> escrow list" where
  "listEscrowRows appId params s =
     list_desc es_createdAt es_id (escrow_selected appId params) (esq_limit params) (esq_cursor params)
       (escrows s)"

section \<open>escrow.model.ts\<close>

fun escrow_status_name :: "EscrowStatus \<Rightarrow> string" where
  "escrow_status_name ES_not_created = ''not_created''"
| "escrow_status_name ES_awaiting_funding = ''awaiting_funding''"
| "escrow_status_name ES_funding_detected = ''funding_detected''"
| "escrow_status_name ES_funded = ''funded''"
| "escrow_status_name ES_release_pending = ''release_pending''"
| "escrow_status_name ES_released = ''released''"
| "escrow_status_name ES_refund_pending = ''refund_pending''"
| "escrow_status_name ES_refunded = ''refunded''"
| "escrow_status_name ES_reconciliation_required = ''reconciliation_required''"
| "escrow_status_name ES_failed = ''failed''"
| "escrow_status_name (ES_other s) = s"

definition json_or_null :: "json option \<Rightarrow> json" where
  "json_or_null v = (case v of None \<Rightarrow> JNull | Some j \<Rightarrow> j)"

definition serializeEscrow :: "escrow \<Rightarrow> json" where
  "serializeEscrow e = JObj [
     (''id'', JStr (es_id e)),
     (''appId'', JStr (es_appId e)),
     (''agreementId'', JStr (es_agreementId e)),
     (''milestoneId'', jstr_opt (es_milestoneId e)),
     (''amount'', JStr (es_amount e)),
     (''currency'', JStr (es_currency e)),
     (''rail'', JStr (es_rail e)),
     (''network'', JStr (es_network e)),
     (''status'', JStr (escrow_status_name (es_status e))),
     (''lockAddress'', jstr_opt (es_lockAddress e)),
     (''lockTxHash'', jstr_opt (es_lockTxHash e)),
     (''lockOutputIndex'', jnum_opt (es_lockOutputIndex e)),
     (''lockScript'', json_or_null (es_lockScript e)),
     (''clientLockScript'', json_or_null (es_clientLockScript e)),
     (''workerLockScript'', json_or_null (es_workerLockScript e)),
     (''cellData'', jstr_opt (es_cellData e)),
     (''contractVersion'', jnum_opt (es_contractVersion e)),
     (''refundTimeoutSince'', jstr_opt (es_refundTimeoutSince e)),
     (''releaseTxHash'', jstr_opt (es_releaseTxHash e)),
     (''refundTxHash'', jstr_opt (es_refundTxHash e)),
     (''createdAt'', jdate (es_createdAt e)),
     (''updatedAt'', jdate (es_updatedAt e))]"

section \<open>transaction.repository.ts, transaction.model.ts and transaction.service.ts\<close>

record transaction_data =
  td_agreementId :: "string option"
  td_milestoneId :: "string option"
  td_escrowId :: "string option"
  td_type :: TransactionType
  td_rail :: string
  td_network :: string
  td_status :: TransactionStatus
  td_amount :: string
  td_currency :: string
  td_rawPayload :: json
  td_operationId :: "(string \<times> TransactionType) option"

definition transaction_clash :: "transaction \<Rightarrow> transaction \<Rightarrow> bool" where
  "transaction_clash x y \<longleftrightarrow> tr_id x = tr_id y
     \<or> (tr_appId x = tr_appId y \<and> tr_operationId x \<noteq> None \<and> tr_operationId x = tr_operationId y)
     \<or> (tr_rail x = tr_rail y \<and> tr_network x = tr_network y \<and> tr_type x = tr_type y
        \<and> tr_txHash x \<noteq> None \<and> tr_txHash x = tr_txHash y \<and> tr_escrowId x \<noteq> None \<and> tr_escrowId x = tr_escrowId y)"

definition createTransaction :: "env \<Rightarrow> string \<Rightarrow> transaction_data \<Rightarrow> transaction dbtx" where
  "createTransaction E appId data =
     tx_bind (freshId E) (\<lambda>transactionId.
     tx_bind now (\<lambda>t.
     insertRow transactions transactions_update transaction_clash
       \<lparr>tr_id = transactionId, tr_appId = appId, tr_agreementId = td_agreementId data,
        tr_milestoneId = td_milestoneId data, tr_escrowId = td_escrowId data, tr_type = td_type data,
        tr_rail = td_rail data, tr_network = td_network data, tr_status = td_status data,
        tr_operationId = td_operationId data, tr_txHash = None, tr_blockHash = None,
        tr_blockNumber = None, tr_confirmations = 0, tr_lastCheckedAt = None, tr_broadcastAt = None,
        tr_confirmedAt = None, tr_reconciliationError = None, tr_amount = td_amount data,
        tr_currency = td_currency data, tr_rawPayload = Some (td_rawPayload data),
        tr_createdAt = t, tr_updatedAt = t\<rparr>))"

definition transaction_is :: "string \<Rightarrow> string \<Rightarrow> transaction \<Rightarrow> bool" where
  "transaction_is appId transactionId x \<longleftrightarrow> tr_id x = transactionId \<and> tr_appId x = appId"

definition updateTransaction ::
  "string \<Rightarrow> string \<Rightarrow> (int \<Rightarrow> transaction \<Rightarrow> transaction) \<Rightarrow> nat dbtx" where
  "updateTransaction appId transactionId data =
     updateMany transactions transactions_update (transaction_is appId transactionId)
       (\<lambda>s x. (data (clock s) x)\<lparr>tr_updatedAt := clock s\<rparr>)"

record transaction_query =
  trq_escrowId :: "string option"
  trq_agreementId :: "string option"
  trq_limit :: nat
  trq_cursor :: "string option"

definition transaction_selected :: "string \<Rightarrow> transaction_query \<Rightarrow> transaction \<Rightarrow> bool" where
  "transaction_selected appId params x \<longleftrightarrow> tr_appId x = appId
     \<and> (case trq_escrowId params of None \<Rightarrow> True | Some e \<Rightarrow> tr_escrowId x = Some e)
     \<and> (case trq_agreementId params of None \<Rightarrow> True | Some a \<Rightarrow> tr_agreementId x = Some a)"

definition listTransactionsForApp :: "string \<Rightarrow> transaction_query \<Rightarrow> db \<Rightarrow> transaction list" where
  "listTransactionsForApp appId params s =
     list_desc tr_createdAt tr_id (transaction_selected appId params) (trq_limit params) (trq_cursor params)
       (transactions s)"

fun transaction_type_name :: "TransactionType \<Rightarrow> string" where
  "transaction_type_name TT_lock = ''lock''"
| "transaction_type_name TT_release = ''release''"
| "transaction_type_name TT_refund = ''refund''"
| "transaction_type_name (TT_other s) = s"

fun transaction_status_name :: "TransactionStatus \<Rightarrow> string" where
  "transaction_status_name TS_pending = ''pending''"
| "transaction_status_name TS_broadcast = ''broadcast''"
| "transaction_status_name TS_committed = ''committed''"
| "transaction_status_name TS_confirmed = ''confirmed''"
| "transaction_status_name TS_reconciliation_required = ''reconciliation_required''"
| "transaction_status_name TS_rejected = ''rejected''"
| "transaction_status_name TS_reorged = ''reorged''"
| "transaction_status_name TS_failed = ''failed''"
| "transaction_status_name (TS_other s) = s"

definition operation_id :: "string \<times> TransactionType \<Rightarrow> string" where
  "operation_id p = ''escrow:'' @ fst p @ '':'' @ transaction_type_name (snd p)"

definition serializeTransaction :: "transaction \<Rightarrow> json" where
  "serializeTransaction x = JObj [
     (''id'', JStr (tr_id x)),
     (''appId'', JStr (tr_appId x)),
     (''agreementId'', jstr_opt (tr_agreementId x)),
     (''milestoneId'', jstr_opt (tr_milestoneId x)),
     (''escrowId'', jstr_opt (tr_escrowId x)),
     (''type'', JStr (transaction_type_name (tr_type x))),
     (''rail'', JStr (tr_rail x)),
     (''network'', JStr (tr_network x)),
     (''status'', JStr (transaction_status_name (tr_status x))),
     (''operationId'', jstr_opt (map_option operation_id (tr_operationId x))),
     (''txHash'', jstr_opt (tr_txHash x)),
     (''blockHash'', jstr_opt (tr_blockHash x)),
     (''blockNumber'', jstr_opt (tr_blockNumber x)),
     (''confirmations'', JNum (tr_confirmations x)),
     (''lastCheckedAt'', jdate_opt (tr_lastCheckedAt x)),
     (''broadcastAt'', jdate_opt (tr_broadcastAt x)),
     (''confirmedAt'', jdate_opt (tr_confirmedAt x)),
     (''reconciliationError'', jstr_opt (tr_reconciliationError x)),
     (''amount'', JStr (tr_amount x)),
     (''currency'', JStr (tr_currency x)),
     (''rawPayload'', json_or_null (tr_rawPayload x)),
     (''createdAt'', jdate (tr_createdAt x)),
     (''updatedAt'', jdate (tr_updatedAt x))]"

definition listAppTransactions :: "string \<Rightarrow> transaction_query \<Rightarrow> db \<Rightarrow> json page" where
  "listAppTransactions appId params s =
     make_page tr_id serializeTransaction (trq_limit params) (listTransactionsForApp appId params s)"

section \<open>Helpers of escrow.service.ts\<close>

definition assertStatus :: "EscrowStatus \<Rightarrow> error + EscrowStatus" where
  "assertStatus status =
     (if \<not> isEscrowStatus status then Inl (invalidRequest ''invalid_escrow_status'') else Inr status)"

definition confirmedForRail :: "string \<Rightarrow> string \<Rightarrow> bool" where
  "confirmedForRail rail network \<longleftrightarrow> (rail = ''mock'' \<or> rail = ''manual'') \<and> network = ''sandbox''"

definition auditEscrow ::
  "env \<Rightarrow> request \<Rightarrow> string \<Rightarrow> string \<Rightarrow> string \<Rightarrow> string \<Rightarrow> json option \<Rightarrow> json option \<Rightarrow> audit_log dbtx" where
  "auditEscrow E req appId agreementId escrowId action beforeRow after =
     auditRequest E req appId agreementId ''escrow'' escrowId action beforeRow after"

definition escrow_event :: "string \<Rightarrow> escrow \<Rightarrow> json \<Rightarrow> event_data" where
  "escrow_event ty e payload =
     (agreement_event ty (es_agreementId e) payload)\<lparr>ed_milestoneId := es_milestoneId e, ed_escrowId := Some (es_id e)\<rparr>"

definition terminalMilestoneStatus :: "settlement_operation \<Rightarrow> MilestoneStatus" where
  "terminalMilestoneStatus operation = (case operation of Release \<Rightarrow> MS_released | Refund \<Rightarrow> MS_refunded)"

definition terminalAgreementStatus :: "settlement_operation \<Rightarrow> AgreementStatus" where
  "terminalAgreementStatus operation = (case operation of Release \<Rightarrow> AS_released | Refund \<Rightarrow> AS_refunded)"

definition scope_payload :: "string \<Rightarrow> string \<Rightarrow> json" where
  "scope_payload milestoneId escrowId = JObj [(''milestoneId'', JStr milestoneId), (''escrowId'', JStr escrowId)]"

definition transitionMilestoneIfAllowed ::
  "env \<Rightarrow> string \<Rightarrow> settlement_operation \<Rightarrow> escrow \<Rightarrow> string \<Rightarrow> unit dbtx" where
  "transitionMilestoneIfAllowed E appId operation escrow milestoneId =
     (let toStatus = terminalMilestoneStatus operation in
     tx_bind (findMilestoneForApp appId milestoneId) (\<lambda>found.
     case found of
       None \<Rightarrow> tx_return ()
     | Some m \<Rightarrow>
         if \<not> isMilestoneStatus (ms_status m) \<or> ms_status m = toStatus
            \<or> \<not> canTransitionMilestone (ms_status m) toStatus
         then tx_return ()
         else tx_bind (transitionMilestoneStatus appId milestoneId (ms_status m) toStatus) (\<lambda>_.
           if operation = Release
           then tx_then (createEvent E appId (escrow_event ''milestone.released'' escrow
             (scope_payload milestoneId (es_id escrow)))) (tx_return ())
           else tx_return ())))"

text \<open>The agreement ends when all its escrows ended the same way.\<close>

definition transitionAgreementWhenAllEscrowsTerminal ::
  "string \<Rightarrow> string \<Rightarrow> settlement_operation \<Rightarrow> unit dbtx" where
  "transitionAgreementWhenAllEscrowsTerminal appId agreementId operation =
     (let targetStatus = terminalAgreementStatus operation in
     tx_bind (findAgreementForApp appId agreementId) (\<lambda>found.
     case found of
       None \<Rightarrow> tx_return ()
     | Some agreement \<Rightarrow>
         if \<not> isAgreementStatus (ag_status agreement) \<or> ag_status agreement = targetStatus then tx_return ()
         else tx_bind (listEscrowsForAgreement appId agreementId) (\<lambda>es.
           if es = [] \<or> list_ex (\<lambda>e. \<not> terminal_escrow (es_status e)) es then tx_return ()
           else if \<not> list_all (\<lambda>e. es_status e = settlementTerminalStatus operation) es then tx_return ()
           else if canTransitionAgreement (ag_status agreement) AS_release_pending \<and> operation = Release then
             tx_bind (transitionAgreementStatus appId agreementId (ag_status agreement) AS_release_pending) (\<lambda>_.
             tx_bind (transitionAgreementStatus appId agreementId AS_release_pending AS_released) (\<lambda>_.
             tx_return ()))
           else if canTransitionAgreement (ag_status agreement) targetStatus then
             tx_bind (transitionAgreementStatus appId agreementId (ag_status agreement) targetStatus) (\<lambda>_.
             tx_return ())
           else tx_return ())))"

definition transitionFundingScope :: "env \<Rightarrow> string \<Rightarrow> escrow \<Rightarrow> unit dbtx" where
  "transitionFundingScope E appId escrow =
     tx_bind (createEvent E appId (escrow_event ''escrow.funded'' escrow
       (JObj [(''escrow'', serializeEscrow escrow)]))) (\<lambda>_.
     tx_bind (findAgreementForApp appId (es_agreementId escrow)) (\<lambda>found.
     tx_bind (case found of
         None \<Rightarrow> tx_return ()
       | Some agreement \<Rightarrow>
           if ag_status agreement = AS_funding_required
           then tx_then (transitionAgreementStatus appId (es_agreementId escrow) AS_funding_required AS_funded)
             (tx_return ())
           else tx_return ()) (\<lambda>_.
     case es_milestoneId escrow of
       None \<Rightarrow> tx_return ()
     | Some milestoneId \<Rightarrow>
         tx_bind (findMilestoneForApp appId milestoneId) (\<lambda>foundMilestone.
         case foundMilestone of
           None \<Rightarrow> tx_return ()
         | Some m \<Rightarrow>
             if List.member [MS_pending, MS_funding_required] (ms_status m) then
               tx_bind (transitionMilestoneStatus appId milestoneId (ms_status m) MS_funded) (\<lambda>_.
               tx_bind (createEvent E appId (escrow_event ''milestone.funded'' escrow
                 (scope_payload milestoneId (es_id escrow)))) (\<lambda>_.
               tx_return ()))
             else tx_return ()))))"

definition assertEscrowAgreementScope ::
  "string \<Rightarrow> create_escrow_input \<Rightarrow> (agreement \<times> milestone option) dbtx" where
  "assertEscrowAgreementScope appId input =
     tx_bind (findAgreementForApp appId (cei_agreementId input)) (\<lambda>found.
     tx_bind (tx_some (notFound ''agreement_not_found'') found) (\<lambda>agreement.
     tx_bind (case cei_milestoneId input of
         None \<Rightarrow> tx_return None
       | Some m \<Rightarrow> tx_bind (findScopedMilestone appId agreement m) (\<lambda>milestone. tx_return (Some milestone))) (\<lambda>milestone.
     let scopeAmount = (case milestone of None \<Rightarrow> ag_amount agreement | Some m \<Rightarrow> ms_amount m);
         sc = (case milestone of None \<Rightarrow> agreement_scope | Some _ \<Rightarrow> milestone_scope) in
     tx_bind (tx_lift (assertCurrencyMatchesAgreement (cei_currency input) (ag_currency agreement))) (\<lambda>_.
     tx_bind (tx_lift (assertEscrowAmountWithinScope (cei_amount input) scopeAmount sc (cei_rail input = ''ckb''))) (\<lambda>_.
     tx_return (agreement, milestone))))))"

definition escrowAdapterContext :: "escrow \<Rightarrow> adapter_context" where
  "escrowAdapterContext e = \<lparr>ac_escrowId = es_id e, ac_amount = es_amount e, ac_currency = es_currency e,
     ac_network = es_network e, ac_lockTxHash = es_lockTxHash e, ac_lockOutputIndex = es_lockOutputIndex e,
     ac_lockScript = es_lockScript e, ac_clientLockScript = es_clientLockScript e,
     ac_workerLockScript = es_workerLockScript e, ac_cellData = es_cellData e,
     ac_refundTimeoutSince = es_refundTimeoutSince e\<rparr>"

definition enqueueCkbReconciliation :: "env \<Rightarrow> escrow \<Rightarrow> string \<Rightarrow> unit dbtx" where
  "enqueueCkbReconciliation E escrow transactionId =
     (if es_rail escrow \<noteq> ''ckb'' then tx_return ()
      else tx_then (enqueueJob E
        \<lparr>ep_appId = es_appId escrow, ep_agreementId = Some (es_agreementId escrow),
         ep_kind = CKB_RECONCILE_TRANSACTION,
         ep_payload = Some \<lparr>jp_agreementId = None, jp_deliveryId = None, jp_transactionId = Some transactionId\<rparr>,
         ep_availableAt = None, ep_maxAttempts = Some 100,
         ep_dedupeKey = Some (Reconcile_key transactionId)\<rparr>) (tx_return ()))"

section \<open>Creating an escrow\<close>

record reserved_creation =
  re_created :: escrow
  re_milestoneIndex :: "int option"
  re_transactionId :: string

definition reserveEscrowCreation ::
  "env \<Rightarrow> string \<Rightarrow> create_escrow_input \<Rightarrow> context_key \<Rightarrow> reserved_creation dbtx" where
  "reserveEscrowCreation E appId input ctx =
     tx_bind (reserveIdempotentRequest E appId ctx) (\<lambda>_.
     tx_bind (assertEscrowAgreementScope appId input) (\<lambda>scope.
     tx_bind (case cei_milestoneId input of
         Some m \<Rightarrow> findTerminalEscrowForMilestone appId m
       | None \<Rightarrow> findTerminalEscrowForAgreement appId (cei_agreementId input)) (\<lambda>terminalEscrow.
     tx_bind (tx_require (terminalEscrow = None) (invalidRequest ''escrow_terminal_state_exists'')) (\<lambda>_.
     tx_bind (findActiveEscrowForScope appId (cei_agreementId input) (cei_milestoneId input)) (\<lambda>activeEscrow.
     tx_bind (tx_require (activeEscrow = None) (conflict ''active_escrow_exists'')) (\<lambda>_.
     tx_bind (tx_catch (createEscrow E appId input) (\<lambda>error.
       if isUniqueConstraintError error then tx_throw (conflict ''active_escrow_exists'')
       else tx_throw error)) (\<lambda>created.
     tx_bind (createTransaction E appId
       \<lparr>td_agreementId = Some (es_agreementId created), td_milestoneId = es_milestoneId created,
        td_escrowId = Some (es_id created), td_type = TT_lock, td_rail = es_rail created,
        td_network = es_network created, td_status = TS_pending, td_amount = es_amount created,
        td_currency = es_currency created,
        td_rawPayload = JObj [(''operation'', JStr ''createEscrowLock''), (''status'', JStr ''reserved'')],
        td_operationId = Some (es_id created, TT_lock)\<rparr>) (\<lambda>transaction.
     tx_return \<lparr>re_created = created, re_milestoneIndex = map_option ms_sortOrder (snd scope),
        re_transactionId = tr_id transaction\<rparr>))))))))"

text \<open>
  The foreign keys on escrows are \<open>onDelete: Restrict\<close> (\<open>Transaction.escrow\<close> and \<open>Event.escrow\<close> of the
  schema): the database refuses to delete an escrow that a row still refers to.
\<close>

definition escrow_referenced :: "escrow \<Rightarrow> db \<Rightarrow> bool" where
  "escrow_referenced e s \<longleftrightarrow>
     list_ex (\<lambda>x. tr_escrowId x = Some (es_id e) \<and> tr_appId x = es_appId e) (transactions s)
     \<or> list_ex (\<lambda>v. ev_escrowId v = Some (es_id e) \<and> ev_appId v = es_appId e) (events s)"

definition deleteEscrows :: "(escrow \<Rightarrow> bool) \<Rightarrow> unit dbtx" where
  "deleteEscrows p =
     tx_bind (tx_gets (\<lambda>s. list_ex (\<lambda>e. p e \<and> escrow_referenced e s) (escrows s))) (\<lambda>referenced.
     tx_bind (tx_require (\<not> referenced) (JsError ''P2003'')) (\<lambda>_.
     deleteMany escrows_update p))"

definition discardEscrowCreation :: "string \<Rightarrow> reserved_creation \<Rightarrow> context_key \<Rightarrow> unit dbtx" where
  "discardEscrowCreation appId reserved ctx =
     tx_bind (deleteMany transactions_update (transaction_is appId (re_transactionId reserved))) (\<lambda>_.
     tx_bind (deleteEscrows
       (\<lambda>e. escrow_is appId (es_id (re_created reserved)) e \<and> es_status e = ES_not_created)) (\<lambda>_.
     deleteMany idempotencyKeys_update (\<lambda>k. key_is appId (ctx_key ctx) k
       \<and> ik_requestHash k = ctx_requestHash ctx \<and> ik_status k = IS_pending)))"

definition option_or :: "'a option \<Rightarrow> 'a option \<Rightarrow> 'a option" where
  "option_or v w = (case v of None \<Rightarrow> w | Some x \<Rightarrow> Some x)"

definition lock_columns :: "EscrowStatus \<Rightarrow> adapter_result \<Rightarrow> escrow \<Rightarrow> escrow \<Rightarrow> escrow" where
  "lock_columns nextStatus r created e = e\<lparr>es_status := nextStatus, es_lockAddress := ar_lockAddress r,
     es_lockTxHash := ar_txHash r, es_lockOutputIndex := ar_lockOutputIndex r, es_lockScript := ar_lockScript r,
     es_clientLockScript := option_or (ar_clientLockScript r) (es_clientLockScript created),
     es_workerLockScript := option_or (ar_workerLockScript r) (es_workerLockScript created),
     es_cellData := ar_cellData r, es_contractVersion := ar_contractVersion r,
     es_refundTimeoutSince := option_or (ar_refundTimeoutSince r) (es_refundTimeoutSince created)\<rparr>"

definition finalizeEscrowCreation ::
  "env \<Rightarrow> request \<Rightarrow> string \<Rightarrow> reserved_creation \<Rightarrow> context_key \<Rightarrow> adapter_result \<Rightarrow> json dbtx" where
  "finalizeEscrowCreation E req appId reserved ctx adapterResult =
     tx_bind (tx_lift (assertStatus (ar_status adapterResult))) (\<lambda>nextStatus.
     tx_bind (tx_lift (assertEscrowTransition ES_not_created nextStatus)) (\<lambda>_.
     let created = re_created reserved in
     tx_bind (transitionEscrowStatus appId (es_id created) ES_not_created
       (lock_columns nextStatus adapterResult created)) (\<lambda>count.
     tx_bind (tx_lift (assertLifecycleCompareAndSwap count)) (\<lambda>_.
     tx_bind (findEscrowForApp appId (es_id created)) (\<lambda>found.
     tx_bind (tx_some (notFound ''escrow_not_found'') found) (\<lambda>updated.
     let serialized = serializeEscrow updated;
         immediateConfirmation = confirmedForRail (es_rail updated) (es_network updated) in
     tx_bind (updateTransaction appId (re_transactionId reserved) (\<lambda>t x. x\<lparr>
         tr_status := (if nextStatus = ES_reconciliation_required then TS_reconciliation_required
           else if immediateConfirmation then TS_confirmed else TS_broadcast),
         tr_txHash := es_lockTxHash updated,
         tr_broadcastAt := (if truthy (es_lockTxHash updated) then Some t else None),
         tr_confirmedAt := (if immediateConfirmation then Some t else None),
         tr_rawPayload := Some (json_or_null (ar_rawPayload adapterResult))\<rparr>)) (\<lambda>_.
     tx_bind (enqueueCkbReconciliation E updated (re_transactionId reserved)) (\<lambda>_.
     tx_bind (createEvent E appId (escrow_event ''escrow.created'' updated (JObj [(''escrow'', serialized)]))) (\<lambda>_.
     tx_bind (auditEscrow E req appId (es_agreementId updated) (es_id updated) ''escrow.created'' None (Some serialized)) (\<lambda>_.
     tx_bind (storeIdempotentResponse E appId ctx 201 (envelope req serialized)) (\<lambda>_.
     tx_return serialized)))))))))))"

text \<open>
  A finalisation is tried twice; if both fail, the response may have been stored by another request,
  and otherwise the first error is reported while the reservation stays.
\<close>

definition finalizeTwice :: "env \<Rightarrow> request \<Rightarrow> string \<Rightarrow> json dbtx \<Rightarrow> json dbproc" where
  "finalizeTwice E req appId finalize =
     pr_catch (atomically finalize) (\<lambda>finalizationError.
     pr_catch (atomically finalize) (\<lambda>_.
     pr_bind (pr_catch (pr_bind (getIdempotencyReplay E req appId) (\<lambda>r. pr_return (snd r)))
       (\<lambda>_. pr_return None)) (\<lambda>replayAfterFinalize.
     case replayAfterFinalize of
       Some r \<Rightarrow> pr_return (member_of ''data'' (rp_body r))
     | None \<Rightarrow> pr_throw finalizationError)))"

text \<open>The outer \<open>catch\<close> of \<open>createEscrowForApp\<close>.\<close>

definition createEscrowFailure ::
  "env \<Rightarrow> request \<Rightarrow> string \<Rightarrow> context_key \<Rightarrow> reserved_creation option \<Rightarrow> bool \<Rightarrow> error \<Rightarrow> json dbproc" where
  "createEscrowFailure E req appId ctx reserved adapterCompleted error =
     pr_bind (if isUniqueConstraintError error
        then pr_bind (getIdempotencyReplay E req appId) (\<lambda>r. pr_return (snd r))
        else pr_return None) (\<lambda>replayAfterRace.
     case replayAfterRace of
       Some r \<Rightarrow> pr_return (member_of ''data'' (rp_body r))
     | None \<Rightarrow>
         pr_bind (case reserved of
             Some r \<Rightarrow> if adapterCompleted then pr_return () else atomically (discardEscrowCreation appId r ctx)
           | None \<Rightarrow> pr_return ()) (\<lambda>_. pr_throw error))"

definition adapterCreateInput :: "create_escrow_input \<Rightarrow> reserved_creation \<Rightarrow> adapter_create_input" where
  "adapterCreateInput input reserved = (let e = re_created reserved in
     \<lparr>aci_escrowId = es_id e, aci_agreementId = es_agreementId e, aci_milestoneId = es_milestoneId e,
      aci_amount = es_amount e, aci_currency = es_currency e, aci_rail = es_rail e, aci_network = es_network e,
      aci_milestoneIndex = re_milestoneIndex reserved, aci_clientLockScript = cei_clientLockScript input,
      aci_workerLockScript = cei_workerLockScript input,
      aci_refundTimeoutSince = cei_refundTimeoutSince input\<rparr>)"

definition createReservedEscrow ::
  "env \<Rightarrow> request \<Rightarrow> string \<Rightarrow> create_escrow_input \<Rightarrow> context_key \<Rightarrow> escrow_adapter \<Rightarrow> reserved_creation \<Rightarrow> json dbproc" where
  "createReservedEscrow E req appId input ctx adapter reserved =
     (case ad_createEscrowLock adapter (adapterCreateInput input reserved) of
        Inl e \<Rightarrow> createEscrowFailure E req appId ctx (Some reserved) False e
      | Inr adapterResult \<Rightarrow>
          pr_catch (finalizeTwice E req appId (finalizeEscrowCreation E req appId reserved ctx adapterResult))
            (createEscrowFailure E req appId ctx (Some reserved) True))"

definition createEscrowForApp ::
  "env \<Rightarrow> ckb_services \<Rightarrow> request \<Rightarrow> string \<Rightarrow> create_escrow_input \<Rightarrow> json dbproc" where
  "createEscrowForApp E K req appId input =
     pr_bind (getIdempotencyReplay E req appId) (\<lambda>(ctx, replay).
     case replay of
       Some r \<Rightarrow> pr_return (member_of ''data'' (rp_body r))
     | None \<Rightarrow>
         pr_bind (pr_lift (getEscrowAdapter E K (cei_rail input))) (\<lambda>adapter.
         pr_try (reserveEscrowCreation E appId input ctx)
           (createEscrowFailure E req appId ctx None False)
           (createReservedEscrow E req appId input ctx adapter)))"

definition listEscrowsForApp :: "string \<Rightarrow> escrow_query \<Rightarrow> db \<Rightarrow> json page" where
  "listEscrowsForApp appId query s =
     make_page es_id serializeEscrow (esq_limit query) (listEscrowRows appId query s)"

definition getEscrowForApp :: "string \<Rightarrow> string \<Rightarrow> json dbtx" where
  "getEscrowForApp appId escrowId =
     tx_bind (findEscrowForApp appId escrowId) (\<lambda>found.
     tx_bind (tx_some (notFound ''escrow_not_found'') found) (\<lambda>e.
     tx_return (serializeEscrow e)))"


section \<open>What the operations keep\<close>

lemma assertStatus_iff [tx_iff]: "assertStatus st = Inr x \<longleftrightarrow> isEscrowStatus st \<and> x = st"
  by (auto simp: assertStatus_def)

lemma transitionEscrowStatus_life:
  assumes "\<And>e. es_status e = frm \<Longrightarrow> es_terms (data e) = es_terms e \<and> canTransitionEscrow\<^sup>*\<^sup>* frm (es_status (data e))"
  shows "lifeOrder.resp (transitionEscrowStatus appId i frm data)"
  unfolding transitionEscrowStatus_def
  by (intro life_moves) (use assms in \<open>auto simp: escrowRows.row_le_def es_terms_def\<close>)

lemma transitionEscrowStatus_log: "logOrder.resp (transitionEscrowStatus appId i frm data)"
  unfolding transitionEscrowStatus_def by (intro log_rules)

lemma transitionEscrowStatus_alloc: "allocOrder.resp (transitionEscrowStatus appId i frm data)"
  unfolding transitionEscrowStatus_def by (intro alloc_rules)

lemma transitionEscrowStatus_tenant:
  assumes "\<And>e. es_appId (data e) = es_appId e"
  shows "tenantFrame.resp appId (transitionEscrowStatus appId i frm data)"
  unfolding transitionEscrowStatus_def
  by (intro tenant_rules tenant_update) (use assms in \<open>auto simp: escrow_is_def\<close>)

lemma updateTransaction_frames:
  "lifeOrder.resp (updateTransaction appId i data)"
  "logOrder.resp (updateTransaction appId i data)"
  "allocOrder.resp (updateTransaction appId i data)"
  "(\<And>t x. tr_appId (data t x) = tr_appId x) \<Longrightarrow> tenantFrame.resp appId (updateTransaction appId i data)"
  unfolding updateTransaction_def
  by (intro life_rules log_rules alloc_rules tenant_rules tenant_update; auto simp: transaction_is_def)+

lemma createTransaction_frames:
  "lifeOrder.resp (createTransaction E appId data)" "logOrder.resp (createTransaction E appId data)"
  "allocOrder.resp (createTransaction E appId data)" "tenantFrame.resp appId (createTransaction E appId data)"
  unfolding createTransaction_def
  by (intro life_rules log_rules alloc_rules tenant_rules tenant_insert; simp)+

lemma enqueueCkbReconciliation_frames:
  "lifeOrder.resp (enqueueCkbReconciliation E e i)" "logOrder.resp (enqueueCkbReconciliation E e i)"
  "allocOrder.resp (enqueueCkbReconciliation E e i)"
  "es_appId e = appId \<Longrightarrow> tenantFrame.resp appId (enqueueCkbReconciliation E e i)"
  unfolding enqueueCkbReconciliation_def
  by (intro life_rules log_rules alloc_rules tenant_rules enqueueJob_tenant; simp)+

lemmas transition_life = transitionAgreementStatus_life transitionMilestoneStatus_life
lemmas transition_log = transitionAgreementStatus_log transitionMilestoneStatus_log
lemmas transition_tenant = transitionAgreementStatus_tenant transitionMilestoneStatus_tenant

lemmas scope_defs =
  transitionMilestoneIfAllowed_def transitionAgreementWhenAllEscrowsTerminal_def transitionFundingScope_def
  findMilestoneForApp_def findAgreementForApp_def listEscrowsForAgreement_def Let_def

lemma scope_life:
  "lifeOrder.resp (transitionMilestoneIfAllowed E appId operation e m)"
  "lifeOrder.resp (transitionAgreementWhenAllEscrowsTerminal appId i operation)"
  "lifeOrder.resp (transitionFundingScope E appId e)"
  unfolding scope_defs
  by (intro life_rules transition_life; auto simp: canTransitionAgreement_def canTransitionMilestone_def)+

lemma scope_log:
  "logOrder.resp (transitionMilestoneIfAllowed E appId operation e m)"
  "logOrder.resp (transitionAgreementWhenAllEscrowsTerminal appId i operation)"
  "logOrder.resp (transitionFundingScope E appId e)"
  unfolding scope_defs by (intro log_rules transition_log)+

lemma scope_alloc:
  "allocOrder.resp (transitionMilestoneIfAllowed E appId operation e m)"
  "allocOrder.resp (transitionAgreementWhenAllEscrowsTerminal appId i operation)"
  "allocOrder.resp (transitionFundingScope E appId e)"
  unfolding scope_defs by (intro alloc_rules transitions_alloc)+

lemma scope_tenant:
  "tenantFrame.resp appId (transitionMilestoneIfAllowed E appId operation e m)"
  "tenantFrame.resp appId (transitionAgreementWhenAllEscrowsTerminal appId i operation)"
  "tenantFrame.resp appId (transitionFundingScope E appId e)"
  unfolding scope_defs by (intro tenant_rules transition_tenant)+

lemmas creation_defs =
  reserveEscrowCreation_def discardEscrowCreation_def deleteEscrows_def finalizeEscrowCreation_def
  createEscrow_def
  assertEscrowAgreementScope_def findScopedMilestone_def findMilestoneForApp_def findAgreementForApp_def
  findTerminalEscrowForMilestone_def findTerminalEscrowForAgreement_def findActiveEscrowForScope_def
  findEscrowForApp_def auditEscrow_def Let_def

lemma creation_life:
  "lifeOrder.resp (reserveEscrowCreation E appId input ctx)"
  "lifeOrder.resp (discardEscrowCreation appId r ctx)"
  "lifeOrder.resp (finalizeEscrowCreation E req appId r ctx res)"
  unfolding creation_defs
  by (intro life_rules life_new_rows life_discard lifeIdem.reserve lifeIdem.store createTransaction_frames
      updateTransaction_frames enqueueCkbReconciliation_frames transitionEscrowStatus_life;
      auto simp: lock_columns_def es_terms_def tx_iff)+

lemma creation_log:
  "logOrder.resp (reserveEscrowCreation E appId input ctx)"
  "logOrder.resp (discardEscrowCreation appId r ctx)"
  "logOrder.resp (finalizeEscrowCreation E req appId r ctx res)"
  unfolding creation_defs
  by (intro log_rules logIdem.reserve logIdem.store createTransaction_frames
      updateTransaction_frames enqueueCkbReconciliation_frames transitionEscrowStatus_log)+

lemma creation_alloc:
  "allocOrder.resp (reserveEscrowCreation E appId input ctx)"
  "allocOrder.resp (discardEscrowCreation appId r ctx)"
  "allocOrder.resp (finalizeEscrowCreation E req appId r ctx res)"
  unfolding creation_defs
  by (intro alloc_rules allocIdem.reserve allocIdem.store createTransaction_frames
      updateTransaction_frames enqueueCkbReconciliation_frames transitionEscrowStatus_alloc)+

lemma creation_tenant:
  "tenantFrame.resp appId (reserveEscrowCreation E appId input ctx)"
  "tenantFrame.resp appId (discardEscrowCreation appId r ctx)"
  "tenantFrame.resp appId (finalizeEscrowCreation E req appId r ctx res)"
  unfolding creation_defs
  by (intro tenant_rules tenant_insert tenant_delete tenantIdem.reserve tenantIdem.store createTransaction_frames
      updateTransaction_frames enqueueCkbReconciliation_frames transitionEscrowStatus_tenant;
      auto simp: lock_columns_def escrow_is_def transaction_is_def key_is_def)+

end
