(* ===== verification/EscrowSettlement.thy ===== *)
theory EscrowSettlement
  imports Escrows
begin

text \<open>
  Funding, release and refund of an escrow (\<open>modules/escrows/escrow.service.ts\<close>) and the
  reconciliation of its CKB transactions, which the settlement worker runs.
\<close>

section \<open>Marking an escrow funded\<close>

definition beginEscrowFunding :: "env \<Rightarrow> request \<Rightarrow> string \<Rightarrow> string \<Rightarrow> context_key \<Rightarrow> escrow dbtx" where
  "beginEscrowFunding E req appId escrowId ctx =
     tx_bind (reserveIdempotentRequest E appId ctx) (\<lambda>_.
     tx_bind (findEscrowForApp appId escrowId) (\<lambda>found.
     tx_bind (tx_some (notFound ''escrow_not_found'') found) (\<lambda>escrow.
     tx_bind (tx_lift (assertStatus (es_status escrow))) (\<lambda>status.
     tx_bind (tx_require (status \<noteq> ES_not_created) (invalidRequest ''escrow_not_created'')) (\<lambda>_.
     tx_bind (if status = ES_funded
       then storeIdempotentResponse E appId ctx 200 (envelope req (serializeEscrow escrow))
       else tx_return ()) (\<lambda>_.
     tx_return escrow))))))"

definition finalizeEscrowFunding ::
  "env \<Rightarrow> request \<Rightarrow> string \<Rightarrow> escrow \<Rightarrow> context_key \<Rightarrow> adapter_result \<Rightarrow> json dbtx" where
  "finalizeEscrowFunding E req appId beforeRow ctx adapterResult =
     tx_bind (findEscrowForApp appId (es_id beforeRow)) (\<lambda>foundCurrent.
     tx_bind (tx_some (notFound ''escrow_not_found'') foundCurrent) (\<lambda>current.
     if es_status current = ES_funded then
       tx_bind (storeIdempotentResponse E appId ctx 200 (envelope req (serializeEscrow current))) (\<lambda>_.
       tx_return (serializeEscrow current))
     else
       tx_bind (tx_lift (assertStatus (es_status current))) (\<lambda>fromStatus.
       tx_bind (tx_lift (assertStatus (ar_status adapterResult))) (\<lambda>nextStatus.
       tx_bind (tx_require (List.member [ES_funding_detected, ES_funded] nextStatus)
         (invalidRequest ''invalid_funding_status'')) (\<lambda>_.
       tx_bind (if fromStatus \<noteq> nextStatus then
           tx_bind (tx_lift (assertEscrowTransition fromStatus nextStatus)) (\<lambda>_.
           tx_bind (transitionEscrowStatus appId (es_id current) fromStatus
             (\<lambda>e. e\<lparr>es_status := nextStatus,
                es_lockTxHash := option_or (ar_txHash adapterResult) (es_lockTxHash current)\<rparr>)) (\<lambda>count.
           tx_lift (assertLifecycleCompareAndSwap count)))
         else tx_return ()) (\<lambda>_.
       tx_bind (findEscrowForApp appId (es_id current)) (\<lambda>foundUpdated.
       tx_bind (tx_some (notFound ''escrow_not_found'') foundUpdated) (\<lambda>updated.
       tx_bind (findTransactionForEscrowType appId (es_id updated) TT_lock) (\<lambda>lockTransaction.
       tx_bind (case lockTransaction of
           None \<Rightarrow> tx_return 0
         | Some lt \<Rightarrow> updateTransaction appId (tr_id lt) (\<lambda>t x. x\<lparr>
             tr_status := (if nextStatus = ES_funded then TS_confirmed else TS_committed),
             tr_txHash := es_lockTxHash updated,
             tr_confirmations := (case ar_confirmations adapterResult of None \<Rightarrow> 0 | Some n \<Rightarrow> n),
             tr_blockHash := ar_blockHash adapterResult, tr_blockNumber := ar_blockNumber adapterResult,
             tr_lastCheckedAt := Some t,
             tr_confirmedAt := (if nextStatus = ES_funded then Some t else None),
             tr_rawPayload := Some (json_or_null (ar_rawPayload adapterResult))\<rparr>)) (\<lambda>_.
       tx_bind (if nextStatus = ES_funded then transitionFundingScope E appId updated else tx_return ()) (\<lambda>_.
       tx_bind (auditEscrow E req appId (es_agreementId updated) (es_id updated)
         (if nextStatus = ES_funded then ''escrow.marked_funded'' else ''escrow.funding_detected'')
         (Some (serializeEscrow current)) (Some (serializeEscrow updated))) (\<lambda>_.
       tx_bind (storeIdempotentResponse E appId ctx 200 (envelope req (serializeEscrow updated))) (\<lambda>_.
       tx_return (serializeEscrow updated))))))))))))))"

text \<open>The \<open>catch\<close> of \<open>markEscrowFunded\<close>; \<open>reserved\<close> is its local flag.\<close>

definition markFundedFailure :: "env \<Rightarrow> request \<Rightarrow> string \<Rightarrow> context_key \<Rightarrow> bool \<Rightarrow> error \<Rightarrow> json dbproc" where
  "markFundedFailure = idempotentFailure"

text \<open>
  The promise of \<open>finalizeEscrowFunding\<close> is returned without \<open>await\<close>, so that its rejection does
  not reach the \<open>catch\<close>: the last step below runs outside the handler.
\<close>

definition fundReservedEscrow ::
  "env \<Rightarrow> ckb_services \<Rightarrow> request \<Rightarrow> string \<Rightarrow> context_key \<Rightarrow> string option \<Rightarrow> escrow \<Rightarrow> json dbproc" where
  "fundReservedEscrow E K req appId ctx txHash beforeRow =
     (if es_status beforeRow = ES_funded then pr_return (serializeEscrow beforeRow)
      else case res_bind (getEscrowAdapter E K (es_rail beforeRow))
             (\<lambda>adapter. ad_markFunded adapter (escrowAdapterContext beforeRow) txHash) of
          Inl e \<Rightarrow> markFundedFailure E req appId ctx True e
        | Inr adapterResult \<Rightarrow> atomically (finalizeEscrowFunding E req appId beforeRow ctx adapterResult))"

definition markEscrowFunded ::
  "env \<Rightarrow> ckb_services \<Rightarrow> request \<Rightarrow> string \<Rightarrow> string \<Rightarrow> string option \<Rightarrow> json dbproc" where
  "markEscrowFunded E K req appId escrowId txHash =
     pr_bind (getIdempotencyReplay E req appId) (\<lambda>(ctx, replay).
     case replay of
       Some r \<Rightarrow> pr_return (member_of ''data'' (rp_body r))
     | None \<Rightarrow>
         pr_try (beginEscrowFunding E req appId escrowId ctx)
           (markFundedFailure E req appId ctx False)
           (fundReservedEscrow E K req appId ctx txHash))"

section \<open>Release and refund\<close>

definition assertReleaseAllowed ::
  "string \<Rightarrow> escrow \<Rightarrow> agreement option \<Rightarrow> milestone option \<Rightarrow> unit dbtx" where
  "assertReleaseAllowed appId escrow agreement milestone =
     tx_bind (tx_require (es_status escrow = ES_funded) (invalidRequest ''escrow_not_funded'')) (\<lambda>_.
     case agreement of
       None \<Rightarrow> tx_throw (invalidRequest ''agreement_not_infrastructure_managed'')
     | Some g \<Rightarrow>
         if \<not> isAgreementStatus (ag_status g) then tx_throw (invalidRequest ''agreement_not_infrastructure_managed'')
         else if ag_status g = AS_approved
            \<and> (\<not> truthy (es_milestoneId escrow) \<or> map_option ms_status milestone = Some MS_approved)
         then tx_return ()
         else
           tx_bind (if ag_status g = AS_disputed
             then findResolvedReleaseDisputeForEscrowScope appId (es_agreementId escrow) (es_milestoneId escrow)
             else tx_return None) (\<lambda>resolvedReleaseDispute.
           if resolvedReleaseDispute \<noteq> None then tx_return ()
           else if ag_status g = AS_released then tx_throw (invalidRequest ''escrow_already_released'')
           else if ag_status g = AS_refunded then tx_throw (invalidRequest ''escrow_already_refunded'')
           else tx_throw (invalidRequest ''escrow_release_not_allowed'')))"

definition assertRefundAllowed :: "escrow \<Rightarrow> agreement option \<Rightarrow> error + unit" where
  "assertRefundAllowed escrow agreement =
     (if es_status escrow = ES_released \<or> es_status escrow = ES_release_pending
      then Inl (invalidRequest ''escrow_already_released'')
      else if es_status escrow \<noteq> ES_funded then Inl (invalidRequest ''escrow_not_funded'')
      else if map_option ag_status agreement = Some AS_released
      then Inl (invalidRequest ''agreement_already_released'')
      else Inr ())"

definition settlementPendingEvent :: "settlement_operation \<Rightarrow> string" where
  "settlementPendingEvent operation = (case operation of Release \<Rightarrow> ''escrow.release_pending'' | Refund \<Rightarrow> ''escrow.refund_pending'')"

definition settlementTerminalEvent :: "settlement_operation \<Rightarrow> string" where
  "settlementTerminalEvent operation = (case operation of Release \<Rightarrow> ''escrow.released'' | Refund \<Rightarrow> ''escrow.refunded'')"

definition settlementAuditAction :: "settlement_operation \<Rightarrow> string" where
  "settlementAuditAction operation = (case operation of Release \<Rightarrow> ''escrow.released'' | Refund \<Rightarrow> ''escrow.refunded'')"

text \<open>\<open>{ status: nextStatus, [settlementHashField(operation)]: txHash }\<close>\<close>

definition settlement_columns :: "settlement_operation \<Rightarrow> EscrowStatus \<Rightarrow> string option \<Rightarrow> escrow \<Rightarrow> escrow" where
  "settlement_columns operation nextStatus txHash e = (case operation of
       Release \<Rightarrow> e\<lparr>es_status := nextStatus, es_releaseTxHash := txHash\<rparr>
     | Refund \<Rightarrow> e\<lparr>es_status := nextStatus, es_refundTxHash := txHash\<rparr>)"

definition operation_type :: "settlement_operation \<Rightarrow> TransactionType" where
  "operation_type operation = (case operation of Release \<Rightarrow> TT_release | Refund \<Rightarrow> TT_refund)"

definition serializeErrorPayload :: "error \<Rightarrow> json" where
  "serializeErrorPayload e = (case e of
       App a \<Rightarrow> jobj [(''name'', Some (JStr ''AppError'')), (''code'', Some (JStr (code a))), (''message'', Some (JStr (error_text e)))]
     | JsError m \<Rightarrow> jobj [(''name'', Some (JStr ''Error'')), (''code'', None), (''message'', Some (JStr m))]
     | _ \<Rightarrow> jobj [(''name'', Some (JStr ''Error'')), (''code'', Some (JStr (error_text e))), (''message'', Some (JStr (error_text e)))])"

record reserved_settlement =
  rs_before :: escrow
  rs_pending :: escrow
  rs_transactionId :: string

definition reserveEscrowSettlement ::
  "env \<Rightarrow> request \<Rightarrow> string \<Rightarrow> string \<Rightarrow> settlement_operation \<Rightarrow> context_key \<Rightarrow> reserved_settlement dbtx" where
  "reserveEscrowSettlement E req appId escrowId operation ctx =
     tx_bind (reserveIdempotentRequest E appId ctx) (\<lambda>_.
     tx_bind (findEscrowForApp appId escrowId) (\<lambda>foundBefore.
     tx_bind (tx_some (notFound ''escrow_not_found'') foundBefore) (\<lambda>beforeRow.
     tx_bind (findAgreementForApp appId (es_agreementId beforeRow)) (\<lambda>agreement.
     tx_bind (if operation = Release then
         tx_bind (case es_milestoneId beforeRow of
             None \<Rightarrow> tx_return None
           | Some m \<Rightarrow> findMilestoneForApp appId m) (\<lambda>milestone.
         assertReleaseAllowed appId beforeRow agreement milestone)
       else tx_lift (assertRefundAllowed beforeRow agreement)) (\<lambda>_.
     let pendingStatus = settlementPendingStatus operation in
     tx_bind (tx_lift (assertStatus (es_status beforeRow))) (\<lambda>status.
     tx_bind (tx_lift (assertEscrowTransition status pendingStatus)) (\<lambda>_.
     tx_bind (transitionEscrowStatus appId escrowId (es_status beforeRow) (\<lambda>e. e\<lparr>es_status := pendingStatus\<rparr>)) (\<lambda>count.
     tx_bind (tx_require (count = 1) (conflict (''escrow_'' @ operation_name operation @ ''_in_progress''))) (\<lambda>_.
     tx_bind (findEscrowForApp appId escrowId) (\<lambda>foundPending.
     tx_bind (tx_some (notFound ''escrow_not_found'') foundPending) (\<lambda>pending.
     tx_bind (createTransaction E appId
       \<lparr>td_agreementId = Some (es_agreementId pending), td_milestoneId = es_milestoneId pending,
        td_escrowId = Some (es_id pending), td_type = operation_type operation, td_rail = es_rail pending,
        td_network = es_network pending, td_status = TS_pending, td_amount = es_amount pending,
        td_currency = es_currency pending,
        td_rawPayload = JObj [(''operation'', JStr (operation_name operation)),
          (''status'', JStr (escrow_status_name pendingStatus)), (''idempotencyKey'', JStr (ctx_key ctx))],
        td_operationId = Some (es_id pending, operation_type operation)\<rparr>) (\<lambda>transaction.
     tx_bind (createEvent E appId (escrow_event (settlementPendingEvent operation) pending (JObj [
       (''escrow'', serializeEscrow pending), (''operation'', JStr (operation_name operation)),
       (''transactionId'', JStr (tr_id transaction))]))) (\<lambda>_.
     tx_bind (auditEscrow E req appId (es_agreementId pending) (es_id pending)
       (''escrow.'' @ escrow_status_name pendingStatus) (Some (serializeEscrow beforeRow)) (Some (serializeEscrow pending))) (\<lambda>_.
     tx_return \<lparr>rs_before = beforeRow, rs_pending = pending, rs_transactionId = tr_id transaction\<rparr>))))))))))))))"

definition finalizeFailedEscrowSettlement ::
  "env \<Rightarrow> request \<Rightarrow> string \<Rightarrow> settlement_operation \<Rightarrow> reserved_settlement \<Rightarrow> context_key \<Rightarrow> error \<Rightarrow> json dbtx" where
  "finalizeFailedEscrowSettlement E req appId operation reserved ctx error =
     tx_bind (findEscrowForApp appId (es_id (rs_pending reserved))) (\<lambda>foundCurrent.
     tx_bind (tx_some (notFound ''escrow_not_found'') foundCurrent) (\<lambda>current.
     let pendingStatus = settlementPendingStatus operation in
     tx_bind (tx_require (es_status current = pendingStatus)
       (conflict (''escrow_'' @ operation_name operation @ ''_state_changed''))) (\<lambda>_.
     tx_bind (tx_lift (assertStatus (es_status current))) (\<lambda>status.
     tx_bind (tx_lift (assertEscrowTransition status ES_failed)) (\<lambda>_.
     tx_bind (transitionEscrowStatus appId (es_id current) pendingStatus (\<lambda>e. e\<lparr>es_status := ES_failed\<rparr>)) (\<lambda>count.
     tx_bind (tx_lift (assertLifecycleCompareAndSwap count)) (\<lambda>_.
     tx_bind (findEscrowForApp appId (es_id current)) (\<lambda>foundFailed.
     tx_bind (tx_some (notFound ''escrow_not_found'') foundFailed) (\<lambda>failed.
     let errorPayload = serializeErrorPayload error; serializedAfter = serializeEscrow failed in
     tx_bind (updateTransaction appId (rs_transactionId reserved) (\<lambda>t x. x\<lparr>tr_status := TS_failed,
       tr_rawPayload := Some (JObj [(''operation'', JStr (operation_name operation)),
         (''adapterError'', errorPayload)])\<rparr>)) (\<lambda>_.
     tx_bind (createEvent E appId (escrow_event ''escrow.failed'' failed (JObj [
       (''escrow'', serializedAfter), (''operation'', JStr (operation_name operation)),
       (''transactionId'', JStr (rs_transactionId reserved)), (''error'', errorPayload)]))) (\<lambda>_.
     tx_bind (auditEscrow E req appId (es_agreementId failed) (es_id failed)
       (''escrow.'' @ operation_name operation @ ''_failed'')
       (Some (serializeEscrow (rs_before reserved))) (Some serializedAfter)) (\<lambda>_.
     tx_bind (storeIdempotentResponse E appId ctx 200 (envelope req serializedAfter)) (\<lambda>_.
     tx_return serializedAfter)))))))))))))"

definition settlementNextStatus :: "settlement_operation \<Rightarrow> bool \<Rightarrow> EscrowStatus \<Rightarrow> EscrowStatus" where
  "settlementNextStatus operation immediateConfirmation adapterStatus =
     (if adapterStatus = ES_reconciliation_required then ES_reconciliation_required
      else if immediateConfirmation \<and> adapterStatus = settlementTerminalStatus operation
      then settlementTerminalStatus operation
      else settlementPendingStatus operation)"

text \<open>The end of a settlement: the terminal event, then the milestone and the agreement follow.\<close>

definition settleScope :: "env \<Rightarrow> string \<Rightarrow> settlement_operation \<Rightarrow> escrow \<Rightarrow> json \<Rightarrow> unit dbtx" where
  "settleScope E appId operation updated payload =
     tx_bind (createEvent E appId (escrow_event (settlementTerminalEvent operation) updated payload)) (\<lambda>_.
     tx_bind (case es_milestoneId updated of
         None \<Rightarrow> tx_return ()
       | Some m \<Rightarrow> transitionMilestoneIfAllowed E appId operation updated m) (\<lambda>_.
     transitionAgreementWhenAllEscrowsTerminal appId (es_agreementId updated) operation))"

definition finalizeSuccessfulEscrowSettlement ::
  "env \<Rightarrow> request \<Rightarrow> string \<Rightarrow> settlement_operation \<Rightarrow> reserved_settlement \<Rightarrow> context_key \<Rightarrow> adapter_result \<Rightarrow> json dbtx" where
  "finalizeSuccessfulEscrowSettlement E req appId operation reserved ctx adapterResult =
     tx_bind (findEscrowForApp appId (es_id (rs_pending reserved))) (\<lambda>foundCurrent.
     tx_bind (tx_some (notFound ''escrow_not_found'') foundCurrent) (\<lambda>current.
     let pendingStatus = settlementPendingStatus operation;
         immediateConfirmation = confirmedForRail (es_rail current) (es_network current) in
     tx_bind (tx_require (es_status current = pendingStatus)
       (conflict (''escrow_'' @ operation_name operation @ ''_state_changed''))) (\<lambda>_.
     tx_bind (tx_lift (assertStatus (ar_status adapterResult))) (\<lambda>adapterStatus.
     let nextStatus = settlementNextStatus operation immediateConfirmation adapterStatus in
     tx_bind (if nextStatus \<noteq> es_status current then
         tx_bind (tx_lift (assertStatus (es_status current))) (\<lambda>status.
         tx_lift (assertEscrowTransition status nextStatus))
       else tx_return ()) (\<lambda>_.
     tx_bind (transitionEscrowStatus appId (es_id current) pendingStatus
       (settlement_columns operation nextStatus (ar_txHash adapterResult))) (\<lambda>count.
     tx_bind (tx_lift (assertLifecycleCompareAndSwap count)) (\<lambda>_.
     tx_bind (findEscrowForApp appId (es_id current)) (\<lambda>foundUpdated.
     tx_bind (tx_some (notFound ''escrow_not_found'') foundUpdated) (\<lambda>updated.
     let serializedAfter = serializeEscrow updated in
     tx_bind (updateTransaction appId (rs_transactionId reserved) (\<lambda>t x. x\<lparr>
         tr_status := (if nextStatus = ES_reconciliation_required then TS_reconciliation_required
           else if immediateConfirmation then TS_confirmed else TS_broadcast),
         tr_txHash := ar_txHash adapterResult,
         tr_broadcastAt := (if truthy (ar_txHash adapterResult) then Some t else None),
         tr_rawPayload := Some (json_or_null (ar_rawPayload adapterResult))\<rparr>)) (\<lambda>_.
     tx_bind (enqueueCkbReconciliation E updated (rs_transactionId reserved)) (\<lambda>_.
     tx_bind (if nextStatus = settlementTerminalStatus operation
       then settleScope E appId operation updated (JObj [(''escrow'', serializedAfter),
         (''operation'', JStr (operation_name operation)), (''transactionId'', JStr (rs_transactionId reserved))])
       else tx_return ()) (\<lambda>_.
     tx_bind (auditEscrow E req appId (es_agreementId updated) (es_id updated) (settlementAuditAction operation)
       (Some (serializeEscrow (rs_before reserved))) (Some serializedAfter)) (\<lambda>_.
     tx_bind (storeIdempotentResponse E appId ctx 200 (envelope req serializedAfter)) (\<lambda>_.
     tx_return serializedAfter))))))))))))))"

definition settleReservedEscrow ::
  "env \<Rightarrow> ckb_services \<Rightarrow> request \<Rightarrow> string \<Rightarrow> settlement_operation \<Rightarrow> context_key \<Rightarrow> reserved_settlement \<Rightarrow> json dbproc" where
  "settleReservedEscrow E K req appId operation ctx reserved =
     pr_bind (pr_lift (getEscrowAdapter E K (es_rail (rs_pending reserved)))) (\<lambda>adapter.
     case (if operation = Release then ad_release adapter (escrowAdapterContext (rs_pending reserved))
           else ad_refund adapter (escrowAdapterContext (rs_pending reserved))) of
       Inl error \<Rightarrow>
         pr_bind (atomically (finalizeFailedEscrowSettlement E req appId operation reserved ctx error)) (\<lambda>_.
         pr_throw error)
     | Inr adapterResult \<Rightarrow>
         finalizeTwice E req appId
           (finalizeSuccessfulEscrowSettlement E req appId operation reserved ctx adapterResult))"

text \<open>The \<open>catch\<close> around the reservation: a lost race is answered from the winner's response.\<close>

definition settlementRace :: "env \<Rightarrow> request \<Rightarrow> string \<Rightarrow> error \<Rightarrow> json dbproc" where
  "settlementRace E req appId error =
     pr_bind (if isUniqueConstraintError error
        then pr_bind (getIdempotencyReplay E req appId) (\<lambda>r. pr_return (snd r))
        else pr_return None) (\<lambda>replayAfterRace.
     case replayAfterRace of
       Some r \<Rightarrow> pr_return (member_of ''data'' (rp_body r))
     | None \<Rightarrow> pr_throw error)"

definition executeEscrowSettlement ::
  "env \<Rightarrow> ckb_services \<Rightarrow> request \<Rightarrow> string \<Rightarrow> string \<Rightarrow> settlement_operation \<Rightarrow> json dbproc" where
  "executeEscrowSettlement E K req appId escrowId operation =
     pr_bind (getIdempotencyReplay E req appId) (\<lambda>(ctx, replay).
     case replay of
       Some r \<Rightarrow> pr_return (member_of ''data'' (rp_body r))
     | None \<Rightarrow>
         pr_try (reserveEscrowSettlement E req appId escrowId operation ctx)
           (settlementRace E req appId)
           (settleReservedEscrow E K req appId operation ctx))"

definition releaseEscrow :: "env \<Rightarrow> ckb_services \<Rightarrow> request \<Rightarrow> string \<Rightarrow> string \<Rightarrow> json dbproc" where
  "releaseEscrow E K req appId escrowId = executeEscrowSettlement E K req appId escrowId Release"

definition refundEscrow :: "env \<Rightarrow> ckb_services \<Rightarrow> request \<Rightarrow> string \<Rightarrow> string \<Rightarrow> json dbproc" where
  "refundEscrow E K req appId escrowId = executeEscrowSettlement E K req appId escrowId Refund"

section \<open>Reconciliation\<close>

definition reconciliationEscrowStatus :: "TransactionType \<Rightarrow> EscrowStatus \<Rightarrow> ckb_status \<Rightarrow> bool \<Rightarrow> EscrowStatus" where
  "reconciliationEscrowStatus transactionType currentStatus observationStatus reorg =
     (if reorg \<or> observationStatus = CS_unknown then ES_reconciliation_required
      else if observationStatus = CS_rejected then ES_failed
      else if transactionType = TT_lock then
        (if observationStatus = CS_confirmed then ES_funded
         else if observationStatus = CS_committed then ES_funding_detected
         else if currentStatus = ES_reconciliation_required then ES_awaiting_funding else currentStatus)
      else if observationStatus = CS_confirmed then
        (if transactionType = TT_release then ES_released else ES_refunded)
      else if currentStatus = ES_reconciliation_required then
        (if transactionType = TT_release then ES_release_pending else ES_refund_pending)
      else currentStatus)"

definition chain_transaction_status :: "ckb_status \<Rightarrow> TransactionStatus" where
  "chain_transaction_status st = (case st of
       CS_pending \<Rightarrow> TS_pending
     | CS_committed \<Rightarrow> TS_committed
     | CS_confirmed \<Rightarrow> TS_confirmed
     | CS_rejected \<Rightarrow> TS_rejected
     | CS_unknown \<Rightarrow> TS_reconciliation_required)"

definition observed_columns :: "tx_observation \<Rightarrow> bool \<Rightarrow> TransactionStatus \<Rightarrow> int \<Rightarrow> transaction \<Rightarrow> transaction" where
  "observed_columns ob reorg st t x = x\<lparr>
     tr_status := st,
     tr_confirmations := (case to_confirmations ob of None \<Rightarrow> 0 | Some n \<Rightarrow> n),
     tr_blockHash := to_blockHash ob, tr_blockNumber := to_blockNumber ob,
     tr_lastCheckedAt := Some t,
     tr_confirmedAt := (if to_status ob = CS_confirmed then option_or (tr_confirmedAt x) (Some t)
       else if reorg then None else tr_confirmedAt x),
     tr_reconciliationError := (case to_reason ob of
         Some r \<Rightarrow> Some r
       | None \<Rightarrow> if to_status ob = CS_unknown
           then Some ''Transaction was not returned by the configured CKB node.'' else None),
     tr_rawPayload := Some (to_rawPayload ob)\<rparr>"

definition auditSystem :: "env \<Rightarrow> string \<Rightarrow> escrow \<Rightarrow> string \<Rightarrow> json \<Rightarrow> json \<Rightarrow> audit_log dbtx" where
  "auditSystem E appId escrow action beforeRow after = createInfrastructureAuditLog E
     \<lparr>ai_appId = Some appId, ai_agreementId = Some (es_agreementId escrow), ai_actorType = ''system'',
      ai_actorId = Some ''ckb-reconciliation-worker'', ai_actorAddress = None, ai_action = action,
      ai_targetType = ''escrow'', ai_targetId = es_id escrow, ai_before = Some beforeRow, ai_after = Some after,
      ai_ipAddress = None, ai_userAgent = None, ai_requestId = None\<rparr>"

definition reconciliationEvents ::
  "env \<Rightarrow> string \<Rightarrow> transaction \<Rightarrow> bool \<Rightarrow> EscrowStatus \<Rightarrow> EscrowStatus \<Rightarrow> escrow \<Rightarrow> json \<Rightarrow> unit dbtx" where
  "reconciliationEvents E appId tr reorg fromStatus nextStatus updatedEscrow beforeRow =
     (let after = serializeEscrow updatedEscrow;
          change = JObj [(''transactionId'', JStr (tr_id tr)), (''txHash'', jstr_opt (tr_txHash tr)),
            (''before'', beforeRow), (''after'', after)];
          event = (\<lambda>ty. tx_then (createEvent E appId (escrow_event ty updatedEscrow change)) (tx_return ())) in
      if reorg \<and> tr_status tr \<noteq> TS_reorged then event ''escrow.reorg_detected''
      else if nextStatus = ES_reconciliation_required \<and> nextStatus \<noteq> fromStatus
      then event ''escrow.reconciliation_required''
      else if nextStatus = ES_failed \<and> nextStatus \<noteq> fromStatus then event ''escrow.failed''
      else if nextStatus = ES_funded \<and> nextStatus \<noteq> fromStatus then transitionFundingScope E appId updatedEscrow
      else if List.member [ES_released, ES_refunded] nextStatus \<and> nextStatus \<noteq> fromStatus
      then settleScope E appId (if nextStatus = ES_released then Release else Refund) updatedEscrow
        (JObj [(''transactionId'', JStr (tr_id tr)), (''txHash'', jstr_opt (tr_txHash tr)), (''escrow'', after)])
      else tx_return ())"

record reconciliation_outcome =
  ro_complete :: bool
  ro_status :: TransactionStatus
  ro_confirmations :: int

definition is_reorg :: "transaction \<Rightarrow> EscrowStatus \<Rightarrow> ckb_status \<Rightarrow> bool" where
  "is_reorg tr fromStatus observed \<longleftrightarrow>
     (tr_status tr = TS_confirmed \<or> List.member [ES_released, ES_refunded] fromStatus \<or> tr_status tr = TS_reorged)
     \<and> \<not> List.member [CS_confirmed, CS_committed] observed"

definition applyObservation ::
  "env \<Rightarrow> int \<Rightarrow> transaction \<Rightarrow> escrow \<Rightarrow> tx_observation \<Rightarrow> reconciliation_outcome dbtx" where
  "applyObservation E ckbConfirmations snapshot snapshotEscrow ob =
     (let appId = tr_appId snapshot in
     tx_bind (findFirst transactions (transaction_is appId (tr_id snapshot))) (\<lambda>foundTransaction.
     tx_bind (findEscrowForApp appId (es_id snapshotEscrow)) (\<lambda>foundEscrow.
     tx_bind (tx_some (JsError ''reconciliation transaction disappeared'') foundTransaction) (\<lambda>currentTransaction.
     tx_bind (tx_some (JsError ''reconciliation transaction disappeared'') foundEscrow) (\<lambda>currentEscrow.
     tx_bind (tx_require (map_option toLowerCase (tr_txHash currentTransaction) = map_option toLowerCase (tr_txHash snapshot))
       (conflict ''ckb_reconciliation_conflict'')) (\<lambda>_.
     tx_bind (tx_lift (assertStatus (es_status currentEscrow))) (\<lambda>fromStatus.
     let reorg = is_reorg currentTransaction fromStatus (to_status ob);
         nextEscrowStatus = reconciliationEscrowStatus (tr_type currentTransaction) fromStatus (to_status ob) reorg;
         transactionStatus = (if reorg then TS_reorged else chain_transaction_status (to_status ob)) in
     tx_bind (if nextEscrowStatus \<noteq> fromStatus then
         tx_bind (tx_lift (assertEscrowTransition fromStatus nextEscrowStatus)) (\<lambda>_.
         tx_bind (transitionEscrowStatus appId (es_id currentEscrow) fromStatus
           (\<lambda>e. e\<lparr>es_status := nextEscrowStatus\<rparr>)) (\<lambda>count.
         tx_lift (assertLifecycleCompareAndSwap count)))
       else tx_return ()) (\<lambda>_.
     tx_bind (updateTransaction appId (tr_id currentTransaction) (observed_columns ob reorg transactionStatus)) (\<lambda>_.
     tx_bind (findEscrowForApp appId (es_id currentEscrow)) (\<lambda>foundUpdated.
     tx_bind (tx_some (JsError ''escrow disappeared during reconciliation'') foundUpdated) (\<lambda>updatedEscrow.
     tx_bind (reconciliationEvents E appId currentTransaction reorg fromStatus nextEscrowStatus updatedEscrow
       (serializeEscrow currentEscrow)) (\<lambda>_.
     tx_bind (if nextEscrowStatus \<noteq> fromStatus \<or> tr_status currentTransaction \<noteq> transactionStatus
       then tx_then (auditSystem E appId updatedEscrow
         (if reorg then ''escrow.ckb_reorg_detected'' else ''escrow.ckb_reconciled'')
         (serializeEscrow currentEscrow) (serializeEscrow updatedEscrow)) (tx_return ())
       else tx_return ()) (\<lambda>_.
     let confirmations = (case to_confirmations ob of None \<Rightarrow> 0 | Some n \<Rightarrow> n) in
     tx_return \<lparr>ro_complete = (to_status ob = CS_rejected
            \<or> (to_status ob = CS_confirmed \<and> confirmations \<ge> ckbConfirmations + 20)),
          ro_status = transactionStatus, ro_confirmations = confirmations\<rparr>)))))))))))))"

text \<open>The part before the transaction: the snapshot, the observation and the check of its contents.\<close>

definition observeSnapshot :: "escrow_adapter \<Rightarrow> transaction \<Rightarrow> escrow \<Rightarrow> string \<Rightarrow> error + tx_observation" where
  "observeSnapshot adapter snapshot escrow txHash =
     res_bind (ad_getTransactionStatus adapter txHash) (\<lambda>ob.
     res_bind (if List.member [CS_committed, CS_confirmed] (to_status ob) then
         (if tr_type snapshot = TT_lock then
            res_bind (ad_checkFundingStatus adapter (escrowAdapterContext escrow)) (\<lambda>_. Inr ())
          else res_bind (ad_checkSettlementStatus adapter (escrowAdapterContext escrow)
            (if tr_type snapshot = TT_release then Release else Refund) txHash) (\<lambda>_. Inr ()))
       else Inr ()) (\<lambda>_.
     Inr ob))"

definition reconcileCkbTransaction ::
  "env \<Rightarrow> ckb_services \<Rightarrow> string \<Rightarrow> reconciliation_outcome dbproc" where
  "reconcileCkbTransaction E K transactionId =
     pr_bind (atomically (findFirst transactions (\<lambda>x. tr_id x = transactionId))) (\<lambda>foundSnapshot.
     pr_bind (atomically (tx_gets (\<lambda>s. case foundSnapshot of
         None \<Rightarrow> None
       | Some x \<Rightarrow> (case tr_escrowId x of None \<Rightarrow> None | Some i \<Rightarrow> List.find (escrow_is (tr_appId x) i) (escrows s))))) (\<lambda>foundEscrow.
     case (foundSnapshot, foundEscrow) of
       (Some snapshot, Some escrow) \<Rightarrow>
         if tr_rail snapshot \<noteq> ''ckb'' \<or> \<not> truthy (tr_txHash snapshot)
         then pr_throw (JsError ''reconciliation transaction is incomplete'')
         else if \<not> List.member [TT_lock, TT_release, TT_refund] (tr_type snapshot)
         then pr_throw (JsError ''unsupported reconciliation transaction type'')
         else pr_bind (pr_lift (observeSnapshot (CkbEscrowAdapter K) snapshot escrow (the (tr_txHash snapshot)))) (\<lambda>ob.
           atomically (applyObservation E (railConfirmations (ckb_cfg K)) snapshot escrow ob))
     | _ \<Rightarrow> pr_throw (JsError ''reconciliation transaction is incomplete'')))"


section \<open>What the operations keep\<close>

lemma can_step: "canTransitionEscrow a b \<Longrightarrow> canTransitionEscrow\<^sup>*\<^sup>* a b"
  by auto

lemma settlementNextStatus_reach:
  "canTransitionEscrow\<^sup>*\<^sup>* (settlementPendingStatus operation) (settlementNextStatus operation im st)"
  by (cases operation) (auto simp: settlementNextStatus_def settlementPendingStatus_def
      settlementTerminalStatus_def canTransitionEscrow_def intro!: r_into_rtranclp)

lemma settlement_columns_keep [simp]:
  "es_terms (settlement_columns operation st h e) = es_terms e"
  "es_status (settlement_columns operation st h e) = st"
  "es_appId (settlement_columns operation st h e) = es_appId e"
  by (cases operation; simp add: settlement_columns_def es_terms_def)+

lemma observed_columns_app [simp]: "tr_appId (observed_columns ob reorg st t x) = tr_appId x"
  by (simp add: observed_columns_def)

lemmas settlement_defs =
  beginEscrowFunding_def finalizeEscrowFunding_def reserveEscrowSettlement_def
  finalizeFailedEscrowSettlement_def finalizeSuccessfulEscrowSettlement_def
  assertReleaseAllowed_def settleScope_def applyObservation_def reconciliationEvents_def auditSystem_def
  findTransactionForEscrowType_def findResolvedReleaseDisputeForEscrowScope_def
  findEscrowForApp_def findAgreementForApp_def findMilestoneForApp_def auditEscrow_def Let_def

lemma asserted_reach:
  "assertEscrowTransition a b = Inr u \<Longrightarrow> canTransitionEscrow\<^sup>*\<^sup>* a b"
  "assertStatus x = Inr a \<Longrightarrow> assertEscrowTransition a b = Inr u \<Longrightarrow> canTransitionEscrow\<^sup>*\<^sup>* x b"
  by (auto simp: assertEscrowTransition_def res_require_iff assertStatus_iff)

lemma status_move_life:
  "canTransitionEscrow\<^sup>*\<^sup>* frm to \<Longrightarrow>
     lifeOrder.resp (transitionEscrowStatus appId i frm (\<lambda>e. e\<lparr>es_status := to\<rparr>))"
  "canTransitionEscrow\<^sup>*\<^sup>* frm to \<Longrightarrow>
     lifeOrder.resp (transitionEscrowStatus appId i frm (\<lambda>e. e\<lparr>es_status := to, es_lockTxHash := h\<rparr>))"
  by (intro transitionEscrowStatus_life, simp add: es_terms_def)+

lemma settlement_move_life:
  "lifeOrder.resp (transitionEscrowStatus appId i (settlementPendingStatus operation)
     (settlement_columns operation (settlementNextStatus operation im st) h))"
  by (intro transitionEscrowStatus_life) (simp add: settlementNextStatus_reach)

lemma failed_reach: "canTransitionEscrow\<^sup>*\<^sup>* (settlementPendingStatus operation) ES_failed"
  by (cases operation) (auto simp: settlementPendingStatus_def canTransitionEscrow_def intro!: r_into_rtranclp)

lemmas settlement_life_rules =
  life_rules lifeIdem.reserve lifeIdem.store createTransaction_frames scope_life
  updateTransaction_frames enqueueCkbReconciliation_frames status_move_life settlement_move_life
  failed_reach

lemma beginEscrowFunding_life: "lifeOrder.resp (beginEscrowFunding E req appId i ctx)"
  unfolding beginEscrowFunding_def findEscrowForApp_def by (intro settlement_life_rules)

lemma finalizeEscrowFunding_life: "lifeOrder.resp (finalizeEscrowFunding E req appId beforeRow ctx res)"
  unfolding finalizeEscrowFunding_def findEscrowForApp_def findTransactionForEscrowType_def auditEscrow_def
  by (intro settlement_life_rules) (erule asserted_reach)

lemma assertReleaseAllowed_life: "lifeOrder.resp (assertReleaseAllowed appId e g m)"
  unfolding assertReleaseAllowed_def findResolvedReleaseDisputeForEscrowScope_def by (intro settlement_life_rules)

lemma reserveEscrowSettlement_life: "lifeOrder.resp (reserveEscrowSettlement E req appId i operation ctx)"
  unfolding reserveEscrowSettlement_def findEscrowForApp_def findAgreementForApp_def findMilestoneForApp_def
    auditEscrow_def Let_def
  by (intro settlement_life_rules assertReleaseAllowed_life) (erule (1) asserted_reach)

lemma finalizeFailedEscrowSettlement_life:
  "lifeOrder.resp (finalizeFailedEscrowSettlement E req appId operation r ctx err)"
  unfolding finalizeFailedEscrowSettlement_def findEscrowForApp_def auditEscrow_def Let_def
  by (intro settlement_life_rules)

lemma settleScope_life: "lifeOrder.resp (settleScope E appId operation e p)"
  unfolding settleScope_def by (intro settlement_life_rules)

lemma finalizeSuccessfulEscrowSettlement_life:
  "lifeOrder.resp (finalizeSuccessfulEscrowSettlement E req appId operation r ctx res)"
  unfolding finalizeSuccessfulEscrowSettlement_def findEscrowForApp_def auditEscrow_def Let_def
  by (intro settlement_life_rules settleScope_life)

lemma applyObservation_life: "lifeOrder.resp (applyObservation E n tr e ob)"
  unfolding applyObservation_def reconciliationEvents_def auditSystem_def findEscrowForApp_def Let_def
  by (intro settlement_life_rules settleScope_life) (erule asserted_reach)

lemmas settlement_life =
  beginEscrowFunding_life finalizeEscrowFunding_life reserveEscrowSettlement_life
  finalizeFailedEscrowSettlement_life finalizeSuccessfulEscrowSettlement_life applyObservation_life

lemma settlement_log:
  "logOrder.resp (beginEscrowFunding E req appId i ctx)"
  "logOrder.resp (finalizeEscrowFunding E req appId beforeRow ctx res)"
  "logOrder.resp (reserveEscrowSettlement E req appId i operation ctx)"
  "logOrder.resp (finalizeFailedEscrowSettlement E req appId operation r ctx err)"
  "logOrder.resp (finalizeSuccessfulEscrowSettlement E req appId operation r ctx res)"
  "logOrder.resp (applyObservation E n tr e ob)"
  unfolding settlement_defs
  by (intro log_rules logIdem.reserve logIdem.store createTransaction_frames scope_log
      updateTransaction_frames enqueueCkbReconciliation_frames transitionEscrowStatus_log)+

lemma settlement_alloc:
  "allocOrder.resp (beginEscrowFunding E req appId i ctx)"
  "allocOrder.resp (finalizeEscrowFunding E req appId beforeRow ctx res)"
  "allocOrder.resp (reserveEscrowSettlement E req appId i operation ctx)"
  "allocOrder.resp (finalizeFailedEscrowSettlement E req appId operation r ctx err)"
  "allocOrder.resp (finalizeSuccessfulEscrowSettlement E req appId operation r ctx res)"
  "allocOrder.resp (applyObservation E n tr e ob)"
  unfolding settlement_defs
  by (intro alloc_rules allocIdem.reserve allocIdem.store createTransaction_frames scope_alloc
      updateTransaction_frames enqueueCkbReconciliation_frames transitionEscrowStatus_alloc)+

lemma settlement_tenant:
  "tenantFrame.resp appId (beginEscrowFunding E req appId i ctx)"
  "tenantFrame.resp appId (finalizeEscrowFunding E req appId beforeRow ctx res)"
  "tenantFrame.resp appId (reserveEscrowSettlement E req appId i operation ctx)"
  "tenantFrame.resp appId (finalizeFailedEscrowSettlement E req appId operation r ctx err)"
  "tenantFrame.resp appId (finalizeSuccessfulEscrowSettlement E req appId operation r ctx res)"
  "tenantFrame.resp (tr_appId tr) (applyObservation E n tr e ob)"
  unfolding settlement_defs
  by (intro tenant_rules tenantIdem.reserve tenantIdem.store createTransaction_frames scope_tenant
      updateTransaction_frames enqueueCkbReconciliation_frames transitionEscrowStatus_tenant;
      auto simp: escrow_is_def)+

end
