(* ===== verification/EscrowScopes.thy ===== *)
theory EscrowScopes
  imports EscrowSettlement
begin

text \<open>
  One escrow per scope. The escrow table never holds two escrows for the same agreement, or for the
  same milestone, in any status: the reservation of \<open>createEscrowForApp\<close> refuses a scope whose
  escrow is active or ended, and every status in the table is one of the two. The partial unique
  indexes of the schema are a consequence, so that no update of an escrow can violate them.
\<close>

definition scope_inv :: "db \<Rightarrow> bool" where
  "scope_inv s \<longleftrightarrow> distinct (map es_id (escrows s)) \<and> distinct (map escrow_scope (escrows s))
     \<and> list_all (\<lambda>e. isEscrowStatus (es_status e)) (escrows s)"

definition scope_kept :: "db \<Rightarrow> db \<Rightarrow> bool" where
  "scope_kept s t \<longleftrightarrow> (scope_inv s \<longrightarrow> scope_inv t)"

interpretation scopeOrder: step_order scope_kept
  by unfold_locales (auto simp: scope_kept_def)

lemma known_status: "isEscrowStatus st \<longleftrightarrow> active_escrow st \<or> terminal_escrow st"
  by (cases st) (simp_all add: isEscrowStatus_def ESCROW_STATUSES_def active_escrow_def terminal_escrow_def)

lemma can_known: "canTransitionEscrow a b \<Longrightarrow> isEscrowStatus b"
  by (cases a) (auto simp: canTransitionEscrow_def isEscrowStatus_def ESCROW_STATUSES_def)

lemma scope_same: "escrows t = escrows s \<Longrightarrow> scope_kept s t"
  by (simp add: scope_kept_def scope_inv_def)

lemma scope_core: "core t = core s \<Longrightarrow> scope_kept s t"
  using core_eqD [of t s] by (simp add: scope_same)

lemma scope_base:
  "scopeOrder.resp (insertRow transactions transactions_update c1 r1)"
  "scopeOrder.resp (insertRow reviews reviews_update c2 r2)"
  "scopeOrder.resp (insertRow idempotencyKeys idempotencyKeys_update c3 r3)"
  "scopeOrder.resp (insertRow agreements agreements_update c4 r4)"
  "scopeOrder.resp (insertRow milestones milestones_update c5 r5)"
  "scopeOrder.resp (insertRow proofs proofs_update c6 r6)"
  "scopeOrder.resp (insertRow disputes disputes_update c7 r7)"
  "scopeOrder.resp (updateMany transactions transactions_update p1 f1)"
  "scopeOrder.resp (updateMany idempotencyKeys idempotencyKeys_update p2 f2)"
  "scopeOrder.resp (updateMany agreements agreements_update p3 f3)"
  "scopeOrder.resp (updateMany milestones milestones_update p4 f4)"
  "scopeOrder.resp (updateMany proofs proofs_update p5 f5)"
  "scopeOrder.resp (updateMany disputes disputes_update p6 f6)"
  "scopeOrder.resp (deleteMany transactions_update q1)"
  "scopeOrder.resp (deleteMany idempotencyKeys_update q2)"
  "scopeOrder.resp (freshId E)" "scopeOrder.resp now"
  by (auto intro!: scopeOrder.respI scope_same simp: tx_iff)

lemma scope_outbox:
  "scopeOrder.resp (createEvent E a d)" "scopeOrder.resp (auditRequest E r b c g h i j k)"
  "scopeOrder.resp (createInfrastructureAuditLog E n)" "scopeOrder.resp (enqueueJob E q)"
  by (auto intro!: scopeOrder.respI scope_core dest: outbox_core)

lemma scope_delete: "scopeOrder.resp (deleteMany escrows_update p)"
  by (auto intro!: scopeOrder.resp_delete simp: scope_kept_def scope_inv_def distinct_map_filter list_all_iff)

lemma transitionEscrowStatus_scope:
  assumes "\<And>e. es_terms (data e) = es_terms e \<and> isEscrowStatus (es_status (data e))"
  shows "scopeOrder.resp (transitionEscrowStatus appId i frm data)"
proof -
  have "es_id (data e) = es_id e" "escrow_scope (data e) = escrow_scope e" for e
    using assms [of e] by (auto simp: es_terms_def escrow_scope_def)
  moreover have "escrow_scope (x\<lparr>es_updatedAt := n\<rparr>) = escrow_scope x" for x n by (simp add: escrow_scope_def)
  ultimately show ?thesis unfolding transitionEscrowStatus_def
    by (intro scopeOrder.resp_update)
      (use assms in \<open>auto simp: scope_kept_def scope_inv_def list_all_iff comp_def if_distrib cong: if_cong\<close>)
qed

lemmas scope_rules = scopeOrder.store_rules scope_base scope_outbox scope_delete

interpretation scopeIdem: idempotent_frame scope_kept appId for appId
  by unfold_locales (unfold idempotency_defs; intro scope_rules)+

lemma scope_transitions:
  "scopeOrder.resp (transitionAgreementStatus appId i frm to)"
  "scopeOrder.resp (transitionMilestoneStatus appId i frm2 to2)"
  unfolding transitionAgreementStatus_def transitionMilestoneStatus_def Let_def by (intro scope_rules)+

lemma scope_advance:
  "scopeOrder.resp (advanceAgreement appId i st path)"
  "scopeOrder.resp (advanceMilestone appId j st2 path2)"
  by (induction path arbitrary: st; simp; intro scope_rules scope_transitions; simp)
     (induction path2 arbitrary: st2; simp; intro scope_rules scope_transitions; simp)

lemma scope_runs_agreement:
  "scopeOrder.resp (createAgreement_run E req appId input)"
  "scopeOrder.resp (acceptAgreement_run E req appId i)"
  "scopeOrder.resp (transitionAgreement_run E req appId i st)"
  unfolding agreement_runs by (intro scope_rules scope_transitions)+

lemma scope_run_milestone: "scopeOrder.resp (createMilestone_run E req appId i input)"
  unfolding milestone_runs by (intro scope_rules)

lemma scope_runs_proof:
  "scopeOrder.resp (createProof_run E req appId input)"
  "scopeOrder.resp (reviewProof_run E req appId i rinput)"
  unfolding proof_runs startReview_def transitionProofStatus_def by (intro scope_rules scope_advance)+

lemma scope_runs_dispute:
  "scopeOrder.resp (createDispute_run E req appId input)"
  "scopeOrder.resp (resolveDispute_run E req appId i rinput)"
  unfolding dispute_runs resolveDispute_def by (intro scope_rules scope_advance)+

lemma scope_transaction:
  "scopeOrder.resp (createTransaction E appId d)" "scopeOrder.resp (updateTransaction appId i data)"
  "scopeOrder.resp (enqueueCkbReconciliation E e i)"
  unfolding createTransaction_def updateTransaction_def enqueueCkbReconciliation_def
  by (intro scope_rules)+

lemma scope_follow:
  "scopeOrder.resp (transitionMilestoneIfAllowed E appId operation e m)"
  "scopeOrder.resp (transitionAgreementWhenAllEscrowsTerminal appId i operation)"
  "scopeOrder.resp (transitionFundingScope E appId e)"
  unfolding scope_defs by (intro scope_rules scope_transitions)+

lemma settlement_known:
  "isEscrowStatus (settlementPendingStatus operation)" "isEscrowStatus ES_failed"
  "isEscrowStatus (settlementNextStatus operation im st)"
  by (cases operation; simp add: isEscrowStatus_def ESCROW_STATUSES_def settlementPendingStatus_def
      settlementNextStatus_def settlementTerminalStatus_def)+

lemma asserted_known: "assertEscrowTransition a b = Inr u \<Longrightarrow> isEscrowStatus b"
  by (auto simp: assertEscrowTransition_def res_require_iff dest: can_known)

lemma move_scope:
  "isEscrowStatus st \<Longrightarrow> scopeOrder.resp (transitionEscrowStatus appId i frm (\<lambda>e. e\<lparr>es_status := st\<rparr>))"
  "isEscrowStatus st \<Longrightarrow> scopeOrder.resp (transitionEscrowStatus appId i frm (\<lambda>e. e\<lparr>es_status := st, es_lockTxHash := h\<rparr>))"
  "isEscrowStatus st \<Longrightarrow> scopeOrder.resp (transitionEscrowStatus appId i frm (settlement_columns operation st h))"
  "isEscrowStatus st \<Longrightarrow> scopeOrder.resp (transitionEscrowStatus appId i frm (lock_columns st r c))"
  by (intro transitionEscrowStatus_scope; simp add: es_terms_def lock_columns_def settlement_columns_def
      split: settlement_operation.split)+

lemmas scope_tx_rules =
  scope_rules scopeIdem.reserve scopeIdem.store scope_transaction scope_follow move_scope settlement_known

lemma scope_discard: "scopeOrder.resp (discardEscrowCreation appId r ctx)"
  unfolding discardEscrowCreation_def deleteEscrows_def by (intro scope_rules)

lemma scope_finalize_creation: "scopeOrder.resp (finalizeEscrowCreation E req appId r ctx res)"
  unfolding creation_defs by (intro scope_tx_rules) (simp add: assertStatus_iff)

lemma scope_begin_funding: "scopeOrder.resp (beginEscrowFunding E req appId i ctx)"
  unfolding settlement_defs by (intro scope_tx_rules)

lemma scope_finalize_funding: "scopeOrder.resp (finalizeEscrowFunding E req appId b ctx res)"
  unfolding settlement_defs by (intro scope_tx_rules) (simp add: assertStatus_iff)

lemma scope_reserve_settlement: "scopeOrder.resp (reserveEscrowSettlement E req appId i operation ctx)"
  unfolding settlement_defs by (intro scope_tx_rules)

lemma scope_settle_failed: "scopeOrder.resp (finalizeFailedEscrowSettlement E req appId operation rs ctx err)"
  unfolding settlement_defs by (intro scope_tx_rules)

lemma scope_settle_done: "scopeOrder.resp (finalizeSuccessfulEscrowSettlement E req appId operation rs ctx res)"
  unfolding settlement_defs by (intro scope_tx_rules)

lemma scope_observe: "scopeOrder.resp (applyObservation E n x e ob)"
  unfolding settlement_defs by (intro scope_tx_rules) (erule asserted_known)

section \<open>The reservation of a new escrow\<close>

lemma createTransaction_escrows: "createTransaction E a d s = Inr (x, t) \<Longrightarrow> escrows t = escrows s"
  by (auto simp: createTransaction_def tx_iff)

lemma assertEscrowAgreementScope_reads: "assertEscrowAgreementScope appId input s = Inr (x, t) \<Longrightarrow> t = s"
  by (auto simp: assertEscrowAgreementScope_def tx_iff Let_def findScopedMilestone_def findMilestoneForApp_def
      findAgreementForApp_def)

lemma createEscrow_effect:
  assumes "createEscrow E appId input s = Inr (e, t)"
  shows "escrows t = escrows s @ [e]" and "es_status e = ES_not_created" and "es_id e \<notin> es_id ` set (escrows s)"
    and "escrow_scope e = (appId, cei_agreementId input, cei_milestoneId input)"
  using assms by (auto simp: createEscrow_def tx_iff escrow_clash_def escrow_scope_def)

definition terminalLookup :: "string \<Rightarrow> create_escrow_input \<Rightarrow> escrow option dbtx" where
  "terminalLookup appId input = (case cei_milestoneId input of
       Some m \<Rightarrow> findTerminalEscrowForMilestone appId m
     | None \<Rightarrow> findTerminalEscrowForAgreement appId (cei_agreementId input))"

lemma scope_free:
  assumes "terminalLookup appId input s = Inr (None, u)"
    and "findActiveEscrowForScope appId (cei_agreementId input) (cei_milestoneId input) u = Inr (None, t)"
  shows "t = s \<and> (\<forall>e\<in>set (escrows s). escrow_scope e = (appId, cei_agreementId input, cei_milestoneId input)
     \<longrightarrow> \<not> isEscrowStatus (es_status e))"
proof -
  have us: "u = s" "t = s"
    using assms by (auto simp: terminalLookup_def findTerminalEscrowForMilestone_def findTerminalEscrowForAgreement_def
        findActiveEscrowForScope_def tx_iff split: option.splits)
  have "\<not> active_escrow (es_status e)"
    if "e \<in> set (escrows s)" "escrow_scope e = (appId, cei_agreementId input, cei_milestoneId input)" for e
    using assms(2) that us
    by (auto simp: findActiveEscrowForScope_def tx_iff latest_by_None filter_empty_conv dest!: sym [of None])
  moreover have "\<not> terminal_escrow (es_status e)"
    if "e \<in> set (escrows s)" "escrow_scope e = (appId, cei_agreementId input, cei_milestoneId input)" for e
    using assms(1) that us
    by (auto simp: terminalLookup_def findTerminalEscrowForMilestone_def findTerminalEscrowForAgreement_def
        tx_iff find_None_iff escrow_scope_def split: option.splits dest!: sym [of None]) force
  ultimately show ?thesis using us by (auto simp: known_status)
qed

lemma reserveEscrowCreation_effect:
  assumes "reserveEscrowCreation E appId input ctx s = Inr (r, t)"
  shows "escrows t = escrows s @ [re_created r] \<and> es_status (re_created r) = ES_not_created
    \<and> escrow_scope (re_created r) = (appId, cei_agreementId input, cei_milestoneId input)
    \<and> es_id (re_created r) \<notin> es_id ` set (escrows s)
    \<and> (\<forall>e\<in>set (escrows s). escrow_scope e = escrow_scope (re_created r) \<longrightarrow> \<not> isEscrowStatus (es_status e))"
proof -
  obtain k s1 a s2 s3 s4 s5 x where
    s1: "reserveIdempotentRequest E appId ctx s = Inr (k, s1)"
    and s2: "assertEscrowAgreementScope appId input s1 = Inr (a, s2)"
    and s3: "terminalLookup appId input s2 = Inr (None, s3)"
    and s4: "findActiveEscrowForScope appId (cei_agreementId input) (cei_milestoneId input) s3 = Inr (None, s4)"
    and s5: "createEscrow E appId input s4 = Inr (re_created r, s5)"
    and t: "\<exists>d. createTransaction E appId d s5 = Inr (x, t)"
    using assms unfolding reserveEscrowCreation_def terminalLookup_def [symmetric]
    by (auto simp: tx_bind_iff tx_require_iff tx_catch_iff tx_return_iff tx_throw_iff tx_if_iff split: if_splits) blast
  have "escrows s1 = escrows s" using s1 by (auto simp: reserve_iff)
  moreover have "s2 = s1" using s2 by (rule assertEscrowAgreementScope_reads)
  moreover note scope_free [OF s3 s4] createEscrow_effect [OF s5]
  moreover have "escrows t = escrows s5" using t by (auto dest: createTransaction_escrows)
  ultimately show ?thesis by auto
qed

lemma fresh_known: "isEscrowStatus ES_not_created"
  by (simp add: isEscrowStatus_def ESCROW_STATUSES_def)

lemma scope_reserve_creation: "scopeOrder.resp (reserveEscrowCreation E appId input ctx)"
  by (rule scopeOrder.respI)
    (fastforce dest!: reserveEscrowCreation_effect simp: scope_kept_def scope_inv_def list_all_iff fresh_known)

lemmas scope_transactions =
  scope_reserve_creation scope_discard scope_finalize_creation scope_begin_funding scope_finalize_funding
  scope_reserve_settlement scope_settle_failed scope_settle_done scope_observe

end
