(* ===== verification/Encodings.thy ===== *)
theory Encodings
  imports CkbRail
begin

text \<open>
  Parts of the JavaScript standard library the webhook and API-key code applies to strings:
  \<open>split\<close>, \<open>startsWith\<close>, \<open>endsWith\<close>, the \<open>base64url\<close> encoding of buffers and the conversion
  \<open>Number(s)\<close>. The lemmas show that splitting a joined list gives the list back, and that decoding
  is the inverse of encoding.
\<close>

section \<open>Splitting and affixes\<close>

fun split_on :: "char \<Rightarrow> string \<Rightarrow> string list" where
  "split_on c [] = [[]]"
| "split_on c (x # xs) = (if x = c then [] # split_on c xs
     else case split_on c xs of [] \<Rightarrow> [[x]] | p # ps \<Rightarrow> (x # p) # ps)"

definition startsWith :: "string \<Rightarrow> string \<Rightarrow> bool" where
  "startsWith s p \<longleftrightarrow> take (length p) s = p"

definition endsWith :: "string \<Rightarrow> string \<Rightarrow> bool" where
  "endsWith s p \<longleftrightarrow> length p \<le> length s \<and> drop (length s - length p) s = p"

lemma split_on_plain: "c \<notin> set s \<Longrightarrow> split_on c s = [s]"
  by (induction s) auto

lemma split_on_append: "c \<notin> set s \<Longrightarrow> split_on c (s @ c # t) = s # split_on c t"
  by (induction s) auto

lemma split_on_join:
  assumes "ps \<noteq> []" and "\<And>p. p \<in> set ps \<Longrightarrow> c \<notin> set p"
  shows "split_on c (join [c] ps) = ps"
  using assms by (induction "[c]" ps rule: join.induct) (auto simp: split_on_plain split_on_append)

lemma split_on_parts: "p \<in> set (split_on c s) \<Longrightarrow> c \<notin> set p \<and> set p \<subseteq> set s"
  by (induction s arbitrary: p) (fastforce split: if_splits list.splits)+

section \<open>base64url\<close>

definition b64_char :: "nat \<Rightarrow> char" where
  "b64_char n = (if n < 26 then char_of (65 + n) else if n < 52 then char_of (71 + n)
     else if n < 62 then char_of (n - 4) else if n = 62 then CHR ''-'' else CHR ''_'')"

text \<open>Decoding accepts both base64 alphabets and skips every other character.\<close>

definition b64_value :: "char \<Rightarrow> nat option" where
  "b64_value c = (let n = (of_char c :: nat) in
     if 65 \<le> n \<and> n \<le> 90 then Some (n - 65) else if 97 \<le> n \<and> n \<le> 122 then Some (n - 71)
     else if 48 \<le> n \<and> n \<le> 57 then Some (n + 4) else if c = CHR ''-'' \<or> c = CHR ''+'' then Some 62
     else if c = CHR ''_'' \<or> c = CHR ''/'' then Some 63 else None)"

fun b64_sextets :: "byte list \<Rightarrow> nat list" where
  "b64_sextets (a # b # c # bs) =
     (let n = (unat a * 256 + unat b) * 256 + unat c
      in [n div 64 div 64 div 64, n div 64 div 64 mod 64, n div 64 mod 64, n mod 64] @ b64_sextets bs)"
| "b64_sextets [a, b] =
     (let n = (unat a * 256 + unat b) * 4 in [n div 64 div 64, n div 64 mod 64, n mod 64])"
| "b64_sextets [a] = (let n = unat a * 16 in [n div 64, n mod 64])"
| "b64_sextets [] = []"

fun b64_bytes :: "nat list \<Rightarrow> byte list" where
  "b64_bytes (p # q # r # s # ns) =
     (let n = ((p * 64 + q) * 64 + r) * 64 + s
      in [of_nat (n div 256 div 256), of_nat (n div 256 mod 256), of_nat (n mod 256)] @ b64_bytes ns)"
| "b64_bytes [p, q, r] =
     (let n = ((p * 64 + q) * 64 + r) div 4 in [of_nat (n div 256), of_nat (n mod 256)])"
| "b64_bytes [p, q] = [of_nat ((p * 64 + q) div 16)]"
| "b64_bytes _ = []"

definition base64url_encode :: "byte list \<Rightarrow> string" where
  "base64url_encode bs = map b64_char (b64_sextets bs)"

definition base64url_decode :: "string \<Rightarrow> byte list" where
  "base64url_decode s = b64_bytes (List.map_filter b64_value s)"

lemma horner3: "((n div k div k) * k + n div k mod k) * k + n mod k = (n :: nat)"
  by (simp add: div_mult_mod_eq)

lemma horner4: "(((n div k div k div k) * k + n div k div k mod k) * k + n div k mod k) * k + n mod k = (n :: nat)"
  by (simp add: div_mult_mod_eq)

lemma two_digits: "y < k \<Longrightarrow> (x * k + y) div k = (x :: nat)" "y < k \<Longrightarrow> (x * k + y) mod k = y"
  by simp_all

lemma b64_bytes_sextets: "b64_bytes (b64_sextets bs) = bs"
proof (induction bs rule: b64_sextets.induct)
  case (1 a b c bs)
  let ?n = "(unat a * 256 + unat b) * 256 + unat c"
  have "?n div 256 div 256 = unat a" "?n div 256 mod 256 = unat b" "?n mod 256 = unat c"
    by (simp_all only: two_digits unat_byte_lt)
  then show ?case using 1 by (simp only: b64_sextets.simps Let_def append.simps b64_bytes.simps horner4) simp
next
  case (2 a b)
  let ?n = "(unat a * 256 + unat b) * 4"
  have "?n div 4 = unat a * 256 + unat b" by simp
  then have "?n div 4 div 256 = unat a" "?n div 4 mod 256 = unat b" by (simp_all only: two_digits unat_byte_lt)
  then show ?case by (simp only: b64_sextets.simps Let_def append.simps b64_bytes.simps horner3) simp
next
  case (3 a)
  have "unat a * 16 div 64 * 64 + unat a * 16 mod 64 = unat a * 16" by (rule div_mult_mod_eq)
  then show ?case by (simp only: b64_sextets.simps Let_def b64_bytes.simps) simp
qed simp

lemma sextets_lt: "n \<in> set (b64_sextets bs) \<Longrightarrow> n < 64"
proof (induction bs rule: b64_sextets.induct)
  case (1 a b c bs)
  have "((unat a * 256 + unat b) * 256 + unat c) div 64 div 64 div 64 < 64"
    using unat_byte_lt [of a] unat_byte_lt [of b] unat_byte_lt [of c] by (simp add: div_mult2_eq [symmetric] less_mult_imp_div_less)
  with 1 show ?case by (auto simp: Let_def)
next
  case (2 a b)
  have "(unat a * 256 + unat b) * 4 div 64 div 64 < 64"
    using unat_byte_lt [of a] unat_byte_lt [of b] by (simp add: div_mult2_eq [symmetric] less_mult_imp_div_less)
  with 2 show ?case by (auto simp: Let_def)
next
  case (3 a)
  have "unat a * 16 div 64 < 64" using unat_byte_lt [of a] by simp
  with 3 show ?case by (auto simp: Let_def)
qed simp

lemma b64_value_char: "n < 64 \<Longrightarrow> b64_value (b64_char n) = Some n"
  by (cases "n = 62"; cases "n = 63") (auto simp: b64_value_def b64_char_def Let_def of_char_of)

lemma b64_value_dot: "b64_value (CHR ''.'') = None"
  by code_simp

lemma base64url_roundtrip: "base64url_decode (base64url_encode bs) = bs"
proof -
  have "List.map_filter b64_value (map b64_char ns) = ns" if "\<forall>n\<in>set ns. n < 64" for ns
    using that by (induction ns) (auto simp: List.map_filter_simps b64_value_char)
  then show ?thesis
    using sextets_lt [of _ bs] by (simp add: base64url_decode_def base64url_encode_def b64_bytes_sextets)
qed

lemma base64url_plain: "CHR ''.'' \<notin> set (base64url_encode bs)"
proof
  assume "CHR ''.'' \<in> set (base64url_encode bs)"
  then obtain n where "n < 64" and "CHR ''.'' = b64_char n" by (auto simp: base64url_encode_def dest: sextets_lt)
  then show False using b64_value_char [of n] b64_value_dot by simp
qed

lemma base64url_empty: "base64url_encode bs = [] \<longleftrightarrow> bs = []"
  by (cases bs rule: b64_sextets.cases) (auto simp: base64url_encode_def Let_def)

end
