(* ===== verification/WebhookSigning.thy ===== *)
theory WebhookSigning
  imports Encodings
begin

text \<open>
  The secrets of webhook endpoints, \<open>modules/webhooks/webhook.signing.ts\<close>: their generation, their
  encryption at rest and the signature of a delivery. The primitives of the \<open>crypto\<close> module
  (SHA-256, AES-256-GCM, HMAC and the random source, whose draws are arguments) are the fields of
  \<open>webhook_crypto\<close>, next to the configured keys. The lemmas show that a secret encrypted under the
  active key is recovered, and which signatures are accepted.
\<close>

record webhook_crypto =
  wc_encryptionKeys :: "string \<Rightarrow> string option"
  wc_secretEncryptionKey :: string
  wc_activeKeyId :: string
  wc_digest :: "string \<Rightarrow> byte list"
  wc_seal :: "byte list \<Rightarrow> byte list \<Rightarrow> byte list \<Rightarrow> byte list \<times> byte list"
  wc_open :: "byte list \<Rightarrow> byte list \<Rightarrow> byte list \<Rightarrow> byte list \<Rightarrow> error + byte list"
  wc_hmac :: "string \<Rightarrow> string \<Rightarrow> string"
  wc_sha256 :: "string \<Rightarrow> string"

definition SECRET_PREFIX :: string where
  "SECRET_PREFIX = ''whsec_''"

text \<open>\<open>Buffer.from(s, 'utf8')\<close> and \<open>toString('utf8')\<close>; strings are byte strings.\<close>

definition utf8_bytes :: "string \<Rightarrow> byte list" where
  "utf8_bytes s = map (\<lambda>c. of_nat (of_char c)) s"

definition utf8_string :: "byte list \<Rightarrow> string" where
  "utf8_string bs = map (\<lambda>b. char_of (unat b)) bs"

definition requireConfig :: "string \<Rightarrow> error + string" where
  "requireConfig value = (if value = [] then Inl (JsError ''Missing required config'') else Inr value)"

text \<open>\<open>a || b\<close> on a string that may be missing.\<close>

definition or_else :: "string option \<Rightarrow> string \<Rightarrow> string" where
  "or_else v w = (case v of None \<Rightarrow> w | Some s \<Rightarrow> if s = [] then w else s)"

definition encryptionKey :: "webhook_crypto \<Rightarrow> string \<Rightarrow> error + byte list" where
  "encryptionKey C keyId =
     res_bind (requireConfig (or_else (wc_encryptionKeys C keyId)
       (if keyId = ''legacy'' then wc_secretEncryptionKey C else ''''))) (\<lambda>source.
     Inr (wc_digest C source))"

definition generateWebhookSecret :: "byte list \<Rightarrow> string" where
  "generateWebhookSecret random32 = SECRET_PREFIX @ base64url_encode random32"

definition hashWebhookSecret :: "webhook_crypto \<Rightarrow> string \<Rightarrow> string" where
  "hashWebhookSecret C secret = wc_sha256 C secret"

definition encryptWebhookSecret :: "webhook_crypto \<Rightarrow> byte list \<Rightarrow> string \<Rightarrow> error + string" where
  "encryptWebhookSecret C iv secret =
     (let keyId = wc_activeKeyId C in
      res_bind (encryptionKey C keyId) (\<lambda>key.
      let (ciphertext, authTag) = wc_seal C key iv (utf8_bytes secret)
      in Inr (join ''.'' [''v2'', keyId, base64url_encode iv, base64url_encode authTag, base64url_encode ciphertext])))"

definition decryptWebhookSecret :: "webhook_crypto \<Rightarrow> string \<Rightarrow> error + string" where
  "decryptWebhookSecret C encrypted =
     (let parts = split_on (CHR ''.'') encrypted;
          isLegacy = (nth_opt parts 0 = Some ''v1'');
          part = (\<lambda>i. case nth_opt parts i of None \<Rightarrow> '''' | Some p \<Rightarrow> p);
          (keyId, iv, authTag, ciphertext) = (if isLegacy then (''legacy'', part 1, part 2, part 3)
            else (part 1, part 2, part 3, part 4))
      in if (\<not> isLegacy \<and> nth_opt parts 0 \<noteq> Some ''v2'') \<or> keyId = [] \<or> iv = [] \<or> authTag = [] \<or> ciphertext = []
         then Inl (JsError ''Invalid encrypted webhook secret.'')
         else res_bind (encryptionKey C keyId) (\<lambda>key.
           res_bind (wc_open C key (base64url_decode iv) (base64url_decode authTag) (base64url_decode ciphertext)) (\<lambda>plaintext.
           Inr (utf8_string plaintext))))"

definition getWebhookEncryptionKeyId :: "string \<Rightarrow> error + string" where
  "getWebhookEncryptionKeyId encrypted =
     (let parts = split_on (CHR ''.'') encrypted in
      if nth_opt parts 0 = Some ''v1'' then Inr ''legacy''
      else case nth_opt parts 1 of
          Some keyId \<Rightarrow> if nth_opt parts 0 = Some ''v2'' \<and> keyId \<noteq> [] then Inr keyId
            else Inl (JsError ''Invalid encrypted webhook secret.'')
        | None \<Rightarrow> Inl (JsError ''Invalid encrypted webhook secret.''))"

definition signWebhookPayload :: "webhook_crypto \<Rightarrow> string \<Rightarrow> string \<Rightarrow> string \<Rightarrow> string" where
  "signWebhookPayload C secret timestamp rawBody = ''sha256='' @ wc_hmac C secret (timestamp @ ''.'' @ rawBody)"

text \<open>\<open>timingSafeEqual\<close> compares the bytes of two buffers of the same length.\<close>

definition verifyWebhookSignature :: "webhook_crypto \<Rightarrow> string \<Rightarrow> string \<Rightarrow> string \<Rightarrow> string \<Rightarrow> bool" where
  "verifyWebhookSignature C secret timestamp rawBody signature =
     (let expected = signWebhookPayload C secret timestamp rawBody
      in if length expected \<noteq> length signature then False else utf8_bytes expected = utf8_bytes signature)"

section \<open>Lemmas\<close>

lemma of_char_lt: "(of_char (c :: char) :: nat) < 256"
  using of_char_mod_256 [of c, where 'a = nat] by (metis mod_less_divisor zero_less_numeral)

lemma utf8_roundtrip: "utf8_string (utf8_bytes s) = s"
  by (induction s) (simp_all add: utf8_string_def utf8_bytes_def unat_of_nat_byte of_char_lt)

lemma utf8_bytes_inj: "utf8_bytes s = utf8_bytes t \<longleftrightarrow> s = t"
  by (metis utf8_roundtrip)

lemma verify_iff: "verifyWebhookSignature C secret timestamp rawBody signature
    \<longleftrightarrow> signature = signWebhookPayload C secret timestamp rawBody"
  by (auto simp: verifyWebhookSignature_def Let_def utf8_bytes_inj)

lemma encrypted_parts:
  assumes "encryptWebhookSecret C iv secret = Inr e" and "CHR ''.'' \<notin> set (wc_activeKeyId C)"
  obtains key ct tag where "encryptionKey C (wc_activeKeyId C) = Inr key"
    and "wc_seal C key iv (utf8_bytes secret) = (ct, tag)"
    and "split_on (CHR ''.'') e = [''v2'', wc_activeKeyId C, base64url_encode iv, base64url_encode tag, base64url_encode ct]"
proof -
  from assms(1) obtain key where k: "encryptionKey C (wc_activeKeyId C) = Inr key"
    by (auto simp: encryptWebhookSecret_def Let_def res_bind_iff)
  obtain ct tag where s: "wc_seal C key iv (utf8_bytes secret) = (ct, tag)" by fastforce
  have e: "e = join ''.'' [''v2'', wc_activeKeyId C, base64url_encode iv, base64url_encode tag, base64url_encode ct]"
    using assms(1) k s by (simp add: encryptWebhookSecret_def)
  show thesis
    by (rule that [OF k s]) (unfold e, rule split_on_join, use assms(2) base64url_plain in auto)
qed

lemma secret_recovered:
  assumes enc: "encryptWebhookSecret C iv secret = Inr e"
    and key: "wc_activeKeyId C \<noteq> []" "CHR ''.'' \<notin> set (wc_activeKeyId C)"
    and iv: "iv \<noteq> []" and secret: "secret \<noteq> []"
    and opens: "\<And>k p. case wc_seal C k iv p of (ct, tag) \<Rightarrow>
        wc_open C k iv tag ct = Inr p \<and> length ct = length p \<and> tag \<noteq> []"
  shows "decryptWebhookSecret C e = Inr secret \<and> getWebhookEncryptionKeyId e = Inr (wc_activeKeyId C)"
proof -
  obtain k ct tag where k: "encryptionKey C (wc_activeKeyId C) = Inr k"
    and s: "wc_seal C k iv (utf8_bytes secret) = (ct, tag)"
    and p: "split_on (CHR ''.'') e = [''v2'', wc_activeKeyId C, base64url_encode iv, base64url_encode tag, base64url_encode ct]"
    by (rule encrypted_parts [OF enc key(2)])
  have o: "wc_open C k iv tag ct = Inr (utf8_bytes secret)" and l: "length ct = length secret" and t: "tag \<noteq> []"
    using opens [of k "utf8_bytes secret"] s by (auto simp: utf8_bytes_def)
  have "ct \<noteq> []" using l secret by auto
  then show ?thesis using k o t iv key(1)
    by (simp add: decryptWebhookSecret_def getWebhookEncryptionKeyId_def p nth_opt_def Let_def base64url_empty
        base64url_roundtrip utf8_roundtrip)
qed

end
