(* ===== verification/Resilience.thy ===== *)
theory Resilience
  imports Json Complex_Main
begin

text \<open>
  Calls to the outside, \<open>common/resilience/provider.ts\<close>: the classification of failures, the retries
  with their delays, the circuit breaker, and the concurrency limit. A call runs against the state
  of its provider; the outcome of attempt \<open>n\<close> and the time at which it ended are arguments. The
  limit is a step relation, since the tasks of the event loop interleave there.
\<close>

section \<open>Failures\<close>

datatype failure =
    AppFailure error
  | ProviderError string bool "int option"
  | DOMException string
  | JsTypeError string
  | CodedError string string
  | PlainError string

fun failure_message :: "failure \<Rightarrow> string" where
  "failure_message (AppFailure e) = (case e of App a \<Rightarrow> code a | JsError m \<Rightarrow> m | _ \<Rightarrow> ''database error'')"
| "failure_message (ProviderError m _ _) = m"
| "failure_message (DOMException name) = name"
| "failure_message (JsTypeError m) = m"
| "failure_message (CodedError _ m) = m"
| "failure_message (PlainError m) = m"

definition retryableStatus :: "int \<Rightarrow> bool" where
  "retryableStatus status \<longleftrightarrow> status = 408 \<or> status = 425 \<or> status = 429 \<or> status \<ge> 500"

fun classifyProviderFailure :: "failure \<Rightarrow> bool \<times> int option" where
  "classifyProviderFailure (ProviderError _ retryable status) = (retryable, status)"
| "classifyProviderFailure (DOMException name) = (List.member [''TimeoutError'', ''AbortError''] name, None)"
| "classifyProviderFailure (JsTypeError _) = (True, None)"
| "classifyProviderFailure (CodedError errorCode _) =
     (List.member [''ECONNRESET'', ''ECONNREFUSED'', ''EHOSTUNREACH'', ''ENETUNREACH'', ''ETIMEDOUT'', ''EAI_AGAIN''] errorCode, None)"
| "classifyProviderFailure (AppFailure _) = (False, None)"
| "classifyProviderFailure (PlainError _) = (False, None)"

section \<open>Attempts and the circuit\<close>

record provider_state =
  pv_failures :: nat
  pv_openUntil :: int

record provider_params =
  pp_maxAttempts :: nat
  pp_failureThreshold :: nat
  pp_circuitResetMs :: int

text \<open>The defaults: \<open>maxAttempts ?? 3\<close>, \<open>failureThreshold ?? 5\<close>, \<open>circuitResetMs ?? 30_000\<close>.\<close>

definition provider_defaults :: provider_params where
  "provider_defaults = \<lparr>pp_maxAttempts = 3, pp_failureThreshold = 5, pp_circuitResetMs = 30000\<rparr>"

definition recordFailure :: "provider_params \<Rightarrow> int \<Rightarrow> provider_state \<Rightarrow> provider_state" where
  "recordFailure params time P =
     (let failures = pv_failures P + 1 in
      P\<lparr>pv_failures := failures,
        pv_openUntil := (if failures \<ge> pp_failureThreshold params then time + pp_circuitResetMs params else pv_openUntil P)\<rparr>)"

definition wrapFailure :: "failure \<Rightarrow> bool \<Rightarrow> int option \<Rightarrow> failure" where
  "wrapFailure cause retryable status = (case cause of
       ProviderError _ _ _ \<Rightarrow> cause
     | _ \<Rightarrow> ProviderError ''Provider request failed.'' retryable status)"

text \<open>The delay before the next attempt; \<open>random\<close> is drawn by \<open>Math.random\<close>.\<close>

definition jitteredDelay :: "nat \<Rightarrow> rat \<Rightarrow> rat" where
  "jitteredDelay attempt random = min 2000 (100 * 2 ^ (attempt - 1)) * (1 / 2 + random)"

text \<open>The loop from attempt \<open>attempt\<close> with \<open>left\<close> attempts to go; the result tells how many ran.\<close>

fun attemptFrom ::
  "provider_params \<Rightarrow> (nat \<Rightarrow> int) \<Rightarrow> (nat \<Rightarrow> failure + 'a) \<Rightarrow> nat \<Rightarrow> nat \<Rightarrow> provider_state \<Rightarrow> (failure + 'a) \<times> nat \<times> provider_state" where
  "attemptFrom params time run attempt 0 P = (Inl (ProviderError ''Provider attempts exhausted.'' True None), 0, P)"
| "attemptFrom params time run attempt (Suc left) P =
     (case run attempt of
        Inr result \<Rightarrow> (Inr result, 1, P\<lparr>pv_failures := 0\<rparr>)
      | Inl cause \<Rightarrow>
          (case classifyProviderFailure cause of (retryable, status) \<Rightarrow>
             if \<not> retryable \<or> left = 0
             then (Inl (wrapFailure cause retryable status), 1, recordFailure params (time attempt) P)
             else (case attemptFrom params time run (Suc attempt) left P of (r, n, Q) \<Rightarrow> (r, Suc n, Q))))"

definition executeProviderRequest ::
  "provider_params \<Rightarrow> int \<Rightarrow> (nat \<Rightarrow> int) \<Rightarrow> (nat \<Rightarrow> failure + 'a) \<Rightarrow> provider_state \<Rightarrow> (failure + 'a) \<times> nat \<times> provider_state" where
  "executeProviderRequest params time0 time run P =
     (if pv_openUntil P > time0 then (Inl (ProviderError ''Provider circuit is open.'' True None), 0, P)
      else attemptFrom params time run 1 (pp_maxAttempts params)
        (if pv_openUntil P \<noteq> 0 then P\<lparr>pv_openUntil := 0\<rparr> else P))"

section \<open>The concurrency limit\<close>

text \<open>
  The tasks of a provider: \<open>ac_active\<close> counts the calls that run, \<open>ac_waiting\<close> the promises in
  \<open>waiters\<close>, \<open>ac_woken\<close> the waiters whose promise was resolved and that have not resumed yet.
\<close>

record acquire_state =
  ac_active :: nat
  ac_waiting :: nat
  ac_woken :: nat

inductive acquire_step :: "nat \<Rightarrow> acquire_state \<Rightarrow> acquire_state \<Rightarrow> bool" for concurrency :: nat where
  enter: "ac_active s < concurrency \<Longrightarrow> acquire_step concurrency s (s\<lparr>ac_active := ac_active s + 1\<rparr>)"
| wait: "ac_active s \<ge> concurrency \<Longrightarrow> acquire_step concurrency s (s\<lparr>ac_waiting := ac_waiting s + 1\<rparr>)"
| resume: "ac_woken s > 0 \<Longrightarrow> acquire_step concurrency s
     (s\<lparr>ac_woken := ac_woken s - 1, ac_active := ac_active s + 1\<rparr>)"
| release: "ac_active s > 0 \<Longrightarrow> acquire_step concurrency s
     (if ac_waiting s > 0
      then s\<lparr>ac_active := ac_active s - 1, ac_waiting := ac_waiting s - 1, ac_woken := ac_woken s + 1\<rparr>
      else s\<lparr>ac_active := ac_active s - 1\<rparr>)"

definition idle :: acquire_state where
  "idle = \<lparr>ac_active = 0, ac_waiting = 0, ac_woken = 0\<rparr>"

section \<open>Lemmas\<close>

lemma attemptFrom_count: "attemptFrom params time run attempt left P = (r, n, Q) \<Longrightarrow> n \<le> left"
  by (induction left arbitrary: attempt r n) (auto split: sum.splits prod.splits if_splits)

text \<open>Each attempt but the last one was a retryable failure.\<close>

lemma attemptFrom_retryable:
  "attemptFrom params time run attempt left P = (r, n, Q) \<Longrightarrow> i + 1 < n \<Longrightarrow>
     (\<exists>cause. run (attempt + i) = Inl cause \<and> fst (classifyProviderFailure cause))"
proof (induction left arbitrary: attempt r n i)
  case (Suc left)
  then obtain cause where c: "run attempt = Inl cause"
    by (cases "run attempt") auto
  with Suc.prems obtain m where m: "attemptFrom params time run (Suc attempt) left P = (r, m, Q)" "n = Suc m"
    and "fst (classifyProviderFailure cause)"
    by (auto split: prod.splits if_splits)
  with c show ?case using Suc.IH [OF m(1), of "i - 1"] Suc.prems(2) by (cases i) auto
qed simp

lemma attemptFrom_success: "attemptFrom params time run attempt left P = (Inr x, n, Q) \<Longrightarrow> Q = P\<lparr>pv_failures := 0\<rparr>"
  by (induction left arbitrary: attempt n) (auto split: sum.splits prod.splits if_splits)

lemma attemptFrom_failure:
  "attemptFrom params time run attempt left P = (Inl e, n, Q) \<Longrightarrow> left \<noteq> 0 \<Longrightarrow>
     0 < n \<and> Q = recordFailure params (time (attempt + n - 1)) P"
proof (induction left arbitrary: attempt n)
  case (Suc left)
  from Suc.prems obtain cause where c: "run attempt = Inl cause" by (cases "run attempt") auto
  show ?case
  proof (cases "fst (classifyProviderFailure cause) \<and> left \<noteq> 0")
    case True
    with Suc.prems c obtain m where m: "attemptFrom params time run (Suc attempt) left P = (Inl e, m, Q)" "n = Suc m"
      by (auto split: prod.splits if_splits)
    with True Suc.IH [OF m(1)] show ?thesis by simp
  qed (use Suc.prems c in \<open>auto split: prod.splits if_splits\<close>)
qed simp

lemma jitter_bounds:
  assumes "0 \<le> random" "random < 1"
  shows "50 \<le> jitteredDelay attempt random \<and> jitteredDelay attempt random < 3000"
proof -
  define b :: rat where "b = min 2000 (100 * 2 ^ (attempt - 1))"
  have b: "100 \<le> b" "b \<le> 2000" by (simp_all add: b_def)
  have d: "jitteredDelay attempt random = b * (1 / 2 + random)" by (simp add: jitteredDelay_def b_def)
  have "b * (1 / 2) \<le> jitteredDelay attempt random" unfolding d using b assms by (intro mult_left_mono) auto
  moreover have "jitteredDelay attempt random \<le> 2000 * (1 / 2 + random)"
    unfolding d using b assms by (intro mult_right_mono) auto
  ultimately show ?thesis using b assms by simp
qed

text \<open>The circuit: closed calls count their failures, and the threshold opens it.\<close>

lemma open_circuit_refuses:
  "pv_openUntil P > time0 \<Longrightarrow>
     executeProviderRequest params time0 time run P = (Inl (ProviderError ''Provider circuit is open.'' True None), 0, P)"
  by (simp add: executeProviderRequest_def)

lemma executeProviderRequest_outcome:
  assumes "executeProviderRequest params time0 time run P = (r, n, Q)" and "pv_openUntil P \<le> time0"
    and "0 < pp_maxAttempts params"
  shows "n \<le> pp_maxAttempts params \<and>
    (case r of
       Inr x \<Rightarrow> pv_failures Q = 0
     | Inl e \<Rightarrow> pv_failures Q = pv_failures P + 1 \<and>
         (pv_failures Q \<ge> pp_failureThreshold params \<longrightarrow> pv_openUntil Q = time n + pp_circuitResetMs params))"
proof -
  let ?P = "if pv_openUntil P \<noteq> 0 then P\<lparr>pv_openUntil := 0\<rparr> else P"
  have a: "attemptFrom params time run 1 (pp_maxAttempts params) ?P = (r, n, Q)"
    using assms(1,2) by (simp add: executeProviderRequest_def)
  show ?thesis
  proof (cases r)
    case (Inr x)
    with a attemptFrom_count [OF a] attemptFrom_success [of params time run 1 "pp_maxAttempts params" ?P x n Q] show ?thesis
      by simp
  next
    case (Inl e)
    with a have "attemptFrom params time run 1 (pp_maxAttempts params) ?P = (Inl e, n, Q)" by simp
    from attemptFrom_failure [OF this] assms(3) have "Q = recordFailure params (time n) ?P" by simp
    with Inl attemptFrom_count [OF a] show ?thesis by (simp add: recordFailure_def Let_def)
  qed
qed

text \<open>
  The limit is not checked again when a waiter resumes, so that a call that arrives between the
  release and the resumption takes the same slot.
\<close>

lemma enter_many: "n \<le> c \<Longrightarrow> (acquire_step c)\<^sup>*\<^sup>* idle \<lparr>ac_active = n, ac_waiting = 0, ac_woken = 0\<rparr>"
proof (induction n)
  case (Suc n)
  have "acquire_step c \<lparr>ac_active = n, ac_waiting = 0, ac_woken = 0\<rparr> \<lparr>ac_active = Suc n, ac_waiting = 0, ac_woken = 0\<rparr>"
    using acquire_step.enter [of "\<lparr>ac_active = n, ac_waiting = 0, ac_woken = 0\<rparr>" c] Suc.prems by simp
  with Suc show ?case by (auto intro: rtranclp.rtrancl_into_rtrancl)
qed (simp add: idle_def)

lemma limit_exceeded:
  assumes "0 < c"
  shows "(acquire_step c)\<^sup>*\<^sup>* idle \<lparr>ac_active = c + 1, ac_waiting = 0, ac_woken = 0\<rparr>"
proof -
  let ?s = "\<lambda>a w r. \<lparr>ac_active = a, ac_waiting = w, ac_woken = r\<rparr>"
  have "(acquire_step c)\<^sup>*\<^sup>* idle (?s c 0 0)" by (rule enter_many) simp
  also have "acquire_step c (?s c 0 0) (?s c 1 0)" using acquire_step.wait [of c "?s c 0 0"] by simp
  also have "acquire_step c (?s c 1 0) (?s (c - 1) 0 1)" using acquire_step.release [of "?s c 1 0" c] assms by simp
  also have "acquire_step c (?s (c - 1) 0 1) (?s c 0 1)" using acquire_step.enter [of "?s (c - 1) 0 1" c] assms by simp
  also have "acquire_step c (?s c 0 1) (?s (c + 1) 0 0)" using acquire_step.resume [of "?s c 0 1" c] by simp
  finally show ?thesis .
qed

end
