(* ===== verification/WebhookSecurity.thy ===== *)
theory WebhookSecurity
  imports Encodings Resilience
begin

text \<open>
  Where webhooks may be sent, \<open>modules/webhooks/webhook.security.ts\<close>: the address and host name
  filters, the check of a URL, and the request loop that follows redirects. The URL parser, name
  resolution and the HTTP transport are the fields of \<open>web\<close>; resolution and requests are numbered by
  the hop, since their answers may differ between calls. \<open>net.isIP\<close> and \<open>Number\<close> of the
  standard library are modelled. The lemmas show that the octet tests are the CIDR blocks they
  stand for, that every connection goes to an address that passed the filter, and that the loop
  sends at most one request more than the redirect limit.
\<close>

section \<open>Number and net.isIP\<close>

text \<open>
  \<open>Number(s)\<close> for a string without a decimal point: \<open>None\<close> is \<open>NaN\<close> or an infinity. Values are
  exact; the rounding to a double of more than 15 significant digits is not modelled.
\<close>

definition digits_value :: "nat \<Rightarrow> string \<Rightarrow> rat" where
  "digits_value base s = of_nat (foldl (\<lambda>n c. base * n + hex_value (to_lower c)) 0 s)"

definition radix_literal :: "nat \<Rightarrow> string \<Rightarrow> rat option" where
  "radix_literal base s = (if s \<noteq> [] \<and> list_all (\<lambda>c. hex_char (to_lower c) \<and> hex_value (to_lower c) < base) s
     then Some (digits_value base s) else None)"

definition exponent_part :: "string \<Rightarrow> int option" where
  "exponent_part s = (case s of
       [] \<Rightarrow> Some 0
     | e # r \<Rightarrow>
         if to_lower e \<noteq> CHR ''e'' then None
         else let ds = (case r of c # t \<Rightarrow> if c = CHR ''+'' \<or> c = CHR ''-'' then t else r | [] \<Rightarrow> []) in
           if ds \<noteq> [] \<and> list_all digit ds then Some (if take 1 r = ''-'' then - BigInt ds else BigInt ds) else None)"

definition decimal_literal :: "string \<Rightarrow> rat option" where
  "decimal_literal s = (let m = takeWhile digit s in
     if m = [] then None
     else case exponent_part (dropWhile digit s) of
         None \<Rightarrow> None
       | Some e \<Rightarrow> Some (if 0 \<le> e then of_int (BigInt m) * 10 ^ nat e else of_int (BigInt m) / 10 ^ nat (- e)))"

definition js_Number :: "string \<Rightarrow> rat option" where
  "js_Number value = (let s = trim value in
     if s = [] then Some 0
     else if toLowerCase (take 2 s) = ''0x'' then radix_literal 16 (drop 2 s)
     else if toLowerCase (take 2 s) = ''0o'' then radix_literal 8 (drop 2 s)
     else if toLowerCase (take 2 s) = ''0b'' then radix_literal 2 (drop 2 s)
     else if take 1 s = ''-'' then map_option uminus (decimal_literal (drop 1 s))
     else if take 1 s = ''+'' then decimal_literal (drop 1 s)
     else decimal_literal s)"

definition isIPv4 :: "string \<Rightarrow> bool" where
  "isIPv4 s \<longleftrightarrow> (let parts = split_on (CHR ''.'') s in
     length parts = 4 \<and> list_all (\<lambda>p. isNonNegativeIntegerAmount p \<and> BigInt p \<le> 255) parts)"

definition hextet :: "string \<Rightarrow> bool" where
  "hextet s \<longleftrightarrow> s \<noteq> [] \<and> length s \<le> 4 \<and> list_all (\<lambda>c. hex_char (to_lower c)) s"

text \<open>The number of 16-bit groups in a run without \<open>::\<close>; a dotted quad at the end counts for two.\<close>

definition v6_groups :: "bool \<Rightarrow> string \<Rightarrow> nat option" where
  "v6_groups dotted s = (if s = [] then Some 0
     else let parts = split_on (CHR '':'') s in
       if \<not> list_all hextet (butlast parts) then None
       else if hextet (last parts) then Some (length parts)
       else if dotted \<and> isIPv4 (last parts) then Some (length parts + 1)
       else None)"

fun double_colon :: "string \<Rightarrow> (string \<times> string) option" where
  "double_colon (a # b # s) = (if a = CHR '':'' \<and> b = CHR '':'' then Some ([], s)
     else map_option (\<lambda>(l, r). (a # l, r)) (double_colon (b # s)))"
| "double_colon _ = None"

definition zone_char :: "char \<Rightarrow> bool" where
  "zone_char c \<longleftrightarrow> digit c \<or> (let n = (of_char (to_lower c) :: nat) in 97 \<le> n \<and> n \<le> 122) \<or> List.member ''-.:'' c"

definition isIPv6 :: "string \<Rightarrow> bool" where
  "isIPv6 s \<longleftrightarrow> (let address = takeWhile (\<lambda>c. c \<noteq> CHR ''%'') s; zone = dropWhile (\<lambda>c. c \<noteq> CHR ''%'') s in
     (zone = [] \<or> (length zone > 1 \<and> list_all zone_char (drop 1 zone))) \<and>
     (case double_colon address of
        None \<Rightarrow> v6_groups True address = Some 8
      | Some (l, r) \<Rightarrow> (case (v6_groups False l, v6_groups True r) of (Some a, Some b) \<Rightarrow> a + b \<le> 7 | _ \<Rightarrow> False)))"

definition isIP :: "string \<Rightarrow> nat" where
  "isIP s = (if isIPv4 s then 4 else if isIPv6 s then 6 else 0)"

section \<open>Address filters\<close>

text \<open>\<open>!Number.isInteger(part) || part < 0 || part > 255\<close>\<close>

definition bad_octet :: "rat option \<Rightarrow> bool" where
  "bad_octet v = (case v of None \<Rightarrow> True | Some x \<Rightarrow> of_int \<lfloor>x\<rfloor> \<noteq> x \<or> x < 0 \<or> x > 255)"

definition parseIpv4 :: "string \<Rightarrow> int list option" where
  "parseIpv4 hostname = (let parts = split_on (CHR ''.'') hostname in
     if length parts \<noteq> 4 then None
     else let octets = map js_Number parts in
       if list_ex bad_octet octets then None
       else Some (map (\<lambda>v. case v of None \<Rightarrow> 0 | Some x \<Rightarrow> \<lfloor>x\<rfloor>) octets))"

definition blocked_octets :: "int \<Rightarrow> int \<Rightarrow> bool" where
  "blocked_octets first second \<longleftrightarrow> first = 0
     \<or> first = 10
     \<or> first = 127
     \<or> (first = 100 \<and> second \<ge> 64 \<and> second \<le> 127)
     \<or> (first = 169 \<and> second = 254)
     \<or> (first = 172 \<and> second \<ge> 16 \<and> second \<le> 31)
     \<or> (first = 192 \<and> second = 168)
     \<or> (first = 198 \<and> List.member [18, 19] second)
     \<or> first \<ge> 224"

definition isBlockedIpv4Address :: "string \<Rightarrow> bool" where
  "isBlockedIpv4Address address = (case parseIpv4 address of
       None \<Rightarrow> False
     | Some octets \<Rightarrow> blocked_octets (octets ! 0) (octets ! 1))"

text \<open>\<open>replace(/^\[|\]$/g, '')\<close>\<close>

definition strip_brackets :: "string \<Rightarrow> string" where
  "strip_brackets s = (let t = (if take 1 s = ''['' then drop 1 s else s)
     in if t \<noteq> [] \<and> last t = CHR '']'' then butlast t else t)"

definition normalizeIpv6 :: "string \<Rightarrow> string" where
  "normalizeIpv6 address = strip_brackets (toLowerCase address)"

definition isBlockedIpv6Address :: "string \<Rightarrow> bool" where
  "isBlockedIpv6Address address = (let normalized = normalizeIpv6 address in
     normalized = ''::'' \<or> normalized = ''::1''
     \<or> startsWith normalized ''fc'' \<or> startsWith normalized ''fd'' \<or> startsWith normalized ''fe80''
     \<or> startsWith normalized ''ff'' \<or> startsWith normalized ''::ffff:0:''
     \<or> startsWith normalized ''::ffff:10.'' \<or> startsWith normalized ''::ffff:127.''
     \<or> startsWith normalized ''::ffff:169.254.'' \<or> startsWith normalized ''::ffff:192.168.'')"

text \<open>The group of \<open>/^::ffff:(\d+\.\d+\.\d+\.\d+)$/i\<close>\<close>

definition mappedIpv4 :: "string \<Rightarrow> string option" where
  "mappedIpv4 address = (let rest = drop 7 address; parts = split_on (CHR ''.'') rest in
     if toLowerCase (take 7 address) = ''::ffff:'' \<and> length parts = 4 \<and> list_all (\<lambda>p. p \<noteq> [] \<and> list_all digit p) parts
     then Some rest else None)"

definition isBlockedIpAddress :: "string \<Rightarrow> bool" where
  "isBlockedIpAddress address = (let ipVersion = isIP address in
     if ipVersion = 4 then isBlockedIpv4Address address
     else if ipVersion = 6 then (case mappedIpv4 address of
         Some mapped \<Rightarrow> isBlockedIpv4Address mapped
       | None \<Rightarrow> isBlockedIpv6Address address)
     else False)"

definition isBlockedHostname :: "string \<Rightarrow> bool" where
  "isBlockedHostname hostname =
     (let lower = toLowerCase hostname;
          normalized = strip_brackets (if lower \<noteq> [] \<and> last lower = CHR ''.'' then butlast lower else lower)
      in if normalized = ''localhost'' \<or> normalized = ''0.0.0.0'' \<or> normalized = ''metadata.google.internal''
           \<or> endsWith normalized ''.localhost'' \<or> endsWith normalized ''.local'' \<or> endsWith normalized ''.internal''
         then True
         else if isIP normalized \<noteq> 0 then isBlockedIpAddress normalized
         else isBlockedIpv4Address normalized)"

section \<open>URLs and requests\<close>

record web_url =
  u_protocol :: string
  u_username :: string
  u_password :: string
  u_hostname :: string
  u_href :: string

record http_response =
  hr_status :: nat
  hr_location :: "string option"
  hr_body :: string

record web =
  parseUrl :: "string \<Rightarrow> web_url option"
  relativeUrl :: "string \<Rightarrow> web_url \<Rightarrow> web_url option"
  lookupAll :: "nat \<Rightarrow> string \<Rightarrow> failure + string list"
  requestImpl :: "nat \<Rightarrow> web_url \<Rightarrow> string \<Rightarrow> failure + http_response"

definition assertWebhookUrlShapeAllowed :: "web \<Rightarrow> string \<Rightarrow> string \<Rightarrow> failure + string" where
  "assertWebhookUrlShapeAllowed W rawUrl environment = (case parseUrl W rawUrl of
       None \<Rightarrow> Inl (AppFailure (invalidRequest ''invalid_webhook_url''))
     | Some parsed \<Rightarrow>
         res_bind (res_require (List.member [''http:'', ''https:''] (u_protocol parsed))
           (AppFailure (invalidRequest ''invalid_webhook_url_protocol''))) (\<lambda>_.
         res_bind (res_require (\<not> (environment = ''production'' \<and> u_protocol parsed \<noteq> ''https:''))
           (AppFailure (invalidRequest ''webhook_https_required''))) (\<lambda>_.
         res_bind (res_require (\<not> (u_username parsed \<noteq> [] \<or> u_password parsed \<noteq> []))
           (AppFailure (invalidRequest ''invalid_webhook_url_credentials''))) (\<lambda>_.
         res_bind (res_require (\<not> isBlockedHostname (u_hostname parsed))
           (AppFailure (invalidRequest ''webhook_url_not_allowed''))) (\<lambda>_.
         Inr (u_href parsed))))))"

definition resolveHostname :: "web \<Rightarrow> nat \<Rightarrow> string \<Rightarrow> failure + string list" where
  "resolveHostname W hop hostname = (let normalized = strip_brackets hostname in
     if isIP normalized \<noteq> 0 then Inr [normalized] else lookupAll W hop normalized)"

definition resolveAllowedTarget :: "web \<Rightarrow> nat \<Rightarrow> string \<Rightarrow> string \<Rightarrow> failure + (web_url \<times> string list)" where
  "resolveAllowedTarget W hop rawUrl environment =
     res_bind (assertWebhookUrlShapeAllowed W rawUrl environment) (\<lambda>normalizedUrl.
     case parseUrl W normalizedUrl of
       None \<Rightarrow> Inl (JsTypeError ''Invalid URL'')
     | Some url \<Rightarrow>
         res_bind (resolveHostname W hop (u_hostname url)) (\<lambda>addresses.
         res_bind (res_require (\<not> (addresses = [] \<or> list_ex isBlockedIpAddress addresses))
           (AppFailure (invalidRequest ''webhook_url_not_allowed''))) (\<lambda>_.
         Inr (url, addresses))))"

definition assertWebhookUrlAllowed :: "web \<Rightarrow> string \<Rightarrow> string \<Rightarrow> failure + string" where
  "assertWebhookUrlAllowed W rawUrl environment =
     res_bind (resolveAllowedTarget W 0 rawUrl environment) (\<lambda>target. Inr (u_href (fst target)))"

text \<open>
  The loop, with the connections it made: \<open>remaining\<close> is \<open>maxRedirects - redirectCount\<close>.
\<close>

fun fetchFrom ::
  "web \<Rightarrow> string \<Rightarrow> nat \<Rightarrow> nat \<Rightarrow> string \<Rightarrow> (failure + http_response) \<times> (web_url \<times> string) list" where
  "fetchFrom W environment redirectCount remaining currentUrl =
     (case resolveAllowedTarget W redirectCount currentUrl environment of
        Inl e \<Rightarrow> (Inl e, [])
      | Inr (url, addresses) \<Rightarrow>
          (case requestImpl W redirectCount url (hd addresses) of
             Inl e \<Rightarrow> (Inl e, [(url, hd addresses)])
           | Inr response \<Rightarrow>
               if \<not> List.member [301, 302, 303, 307, 308] (hr_status response)
               then (Inr response, [(url, hd addresses)])
               else (case hr_location response of
                   None \<Rightarrow> (Inl (AppFailure (invalidRequest ''webhook_redirect_missing_location'')), [(url, hd addresses)])
                 | Some location \<Rightarrow>
                     if location = [] then (Inl (AppFailure (invalidRequest ''webhook_redirect_missing_location'')), [(url, hd addresses)])
                     else (case remaining of
                         0 \<Rightarrow> (Inl (AppFailure (invalidRequest ''webhook_redirect_limit_exceeded'')), [(url, hd addresses)])
                       | Suc n \<Rightarrow>
                           (case relativeUrl W location url of
                              None \<Rightarrow> (Inl (JsTypeError ''Invalid URL''), [(url, hd addresses)])
                            | Some next \<Rightarrow>
                                (case fetchFrom W environment (Suc redirectCount) n (u_href next) of
                                   (r, connections) \<Rightarrow> (r, (url, hd addresses) # connections)))))))"

declare fetchFrom.simps [simp del]

definition fetchWebhookUrl :: "web \<Rightarrow> string \<Rightarrow> string \<Rightarrow> nat \<Rightarrow> (failure + http_response) \<times> (web_url \<times> string) list" where
  "fetchWebhookUrl W rawUrl environment maxRedirects = fetchFrom W environment 0 maxRedirects rawUrl"

section \<open>The octet tests as address blocks\<close>

definition ipv4_value :: "int list \<Rightarrow> int" where
  "ipv4_value octets = foldl (\<lambda>v n. 256 * v + n) 0 octets"

definition in_block :: "int \<Rightarrow> int list \<times> nat \<Rightarrow> bool" where
  "in_block v block \<longleftrightarrow> v div 2 ^ (32 - snd block) = ipv4_value (fst block) div 2 ^ (32 - snd block)"

text \<open>The special-purpose blocks of the IPv4 registry that the filter stands for.\<close>

definition BLOCKED_RANGES :: "(int list \<times> nat) list" where
  "BLOCKED_RANGES = [([0, 0, 0, 0], 8), ([10, 0, 0, 0], 8), ([127, 0, 0, 0], 8), ([100, 64, 0, 0], 10),
     ([169, 254, 0, 0], 16), ([172, 16, 0, 0], 12), ([192, 168, 0, 0], 16), ([198, 18, 0, 0], 15), ([224, 0, 0, 0], 3)]"

lemma div_block:
  assumes "0 \<le> r" "r < k" "0 \<le> m"
  shows "(k * a + r) div (k * m) = a div (m :: int)"
proof -
  have "(k * a + r) div k = a + r div k" using assms by simp
  moreover have "r div k = 0" using assms by simp
  moreover have "(k * a + r) div (k * m) = (k * a + r) div k div m" by (rule zdiv_zmult2_eq) (rule assms(3))
  ultimately show ?thesis by simp
qed

lemma two_places:
  assumes "0 \<le> y" "y < k" "0 \<le> w" "w < (k :: int)"
  shows "k * x + y = k * u + w \<longleftrightarrow> x = u \<and> y = w"
proof
  assume e: "k * x + y = k * u + w"
  have "(k * x + y) div k = x" "(k * u + w) div k = u" using assms by simp_all
  with e show "x = u \<and> y = w" by auto
qed simp

lemma octet_blocks:
  assumes "0 \<le> a" "a \<le> 255" "0 \<le> b" "b \<le> 255" "0 \<le> c" "c \<le> 255" "0 \<le> d" "d \<le> 255"
  shows "blocked_octets a b \<longleftrightarrow> list_ex (in_block (ipv4_value [a, b, c, d])) BLOCKED_RANGES"
proof -
  let ?v = "ipv4_value [a, b, c, d]"
  have v: "?v = 65536 * (256 * a + b) + (256 * c + d)" by (simp add: ipv4_value_def)
  have r: "0 \<le> 256 * c + d" "256 * c + d < 65536" using assms by simp_all
  have q: "?v div (65536 * m) = (256 * a + b) div m" if "0 \<le> m" for m unfolding v by (rule div_block [OF r that])
  have d8: "?v div 16777216 = a" using q [of 256] assms by simp
  have d10: "?v div 4194304 = 4 * a + b div 64" using q [of 64] assms by simp
  have d16: "?v div 65536 = 256 * a + b" using q [of 1] by simp
  have d12: "?v div 1048576 = 16 * a + b div 16" using q [of 16] assms by simp
  have d15: "?v div 131072 = 128 * a + b div 2" using q [of 2] assms by simp
  have d3: "?v div 536870912 = a div 32" using q [of 8192] assms by simp
  have low: "0 \<le> b div 64" "b div 64 < 4" "0 \<le> b div 16" "b div 16 < 16" "0 \<le> b div 2" "b div 2 < 128"
    using assms(3,4) by simp_all
  have "(4 * a + b div 64 = 401) = (a = 100 \<and> b div 64 = 1)" "(16 * a + b div 16 = 2753) = (a = 172 \<and> b div 16 = 1)"
    "(128 * a + b div 2 = 25353) = (a = 198 \<and> b div 2 = 9)"
    using low two_places [of "b div 64" 4 1 a 100] two_places [of "b div 16" 16 1 a 172]
      two_places [of "b div 2" 128 9 a 198] by simp_all
  moreover have "(256 * a + b = 43518) = (a = 169 \<and> b = 254)" "(256 * a + b = 49320) = (a = 192 \<and> b = 168)"
    using assms(3,4) two_places [of b 256 254 a 169] two_places [of b 256 168 a 192] by simp_all
  moreover have "(b div 64 = 1) = (64 \<le> b \<and> b \<le> 127)" "(b div 16 = 1) = (16 \<le> b \<and> b \<le> 31)"
    "(b div 2 = 9) = (b = 18 \<or> b = 19)" by presburger+
  moreover have "(a div 32 = 7) = (a \<ge> 224)" using assms(1,2) by presburger
  ultimately show ?thesis
    by (simp add: blocked_octets_def BLOCKED_RANGES_def in_block_def d8 d10 d16 d12 d15 d3) (simp add: ipv4_value_def)
qed

text \<open>On the octets of an address \<open>net.isIP\<close> accepts, \<open>Number\<close> is the decimal value.\<close>

lemma digit_not_space: "digit c \<Longrightarrow> \<not> whitespace c"
  by (auto simp: digit_def whitespace_def Let_def)

lemma digit_letters: "\<not> digit (CHR ''-'')" "\<not> digit (CHR ''+'')"
  by code_simp+

lemma digit_lower: "digit c \<Longrightarrow> to_lower c = c"
  by (auto simp: digit_def to_lower_def Let_def)

lemma radix_marks: "\<not> digit (CHR ''x'')" "\<not> digit (CHR ''o'')" "\<not> digit (CHR ''b'')"
  by code_simp+

lemma trim_digits: "list_all digit s \<Longrightarrow> trim s = s"
proof -
  assume d: "list_all digit s"
  then have "\<And>c. c \<in> set s \<Longrightarrow> \<not> whitespace c" by (auto simp: list_all_iff digit_not_space)
  then have "dropWhile whitespace s = s" "dropWhile whitespace (rev s) = rev s"
    by (metis dropWhile_eq_self_iff hd_in_set set_rev)+
  then show ?thesis by (simp add: trim_def)
qed

lemma Number_digits:
  assumes d: "list_all digit s" and s: "s \<noteq> []"
  shows "js_Number s = Some (of_int (BigInt s))"
proof -
  have all: "takeWhile digit s = s" "dropWhile digit s = []"
    using d by (simp_all add: list_all_iff takeWhile_eq_all_conv)
  have low: "toLowerCase (take 2 s) = take 2 s"
    unfolding toLowerCase_def
    by (rule map_idI) (use d in \<open>auto simp: list_all_iff digit_lower dest: in_set_takeD\<close>)
  have "take 2 s \<noteq> ''0x'' \<and> take 2 s \<noteq> ''0o'' \<and> take 2 s \<noteq> ''0b''"
    using d radix_marks by (cases s; cases "tl s") auto
  moreover have "take 1 s \<noteq> ''-'' \<and> take 1 s \<noteq> ''+''" using d s digit_letters by (cases s) auto
  ultimately show ?thesis using s low
    by (simp add: js_Number_def trim_digits [OF d] decimal_literal_def all exponent_part_def Let_def)
qed

lemma octet_digits: "isNonNegativeIntegerAmount p \<Longrightarrow> list_all digit p \<and> p \<noteq> [] \<and> 0 \<le> BigInt p"
proof -
  assume a: "isNonNegativeIntegerAmount p"
  have "list_all digit ''0''" by code_simp
  with a have "list_all digit p \<and> p \<noteq> []"
    by (auto simp: isNonNegativeIntegerAmount_def dest: isPositiveIntegerAmount_digits)
  then show ?thesis using BigInt_nonneg by blast
qed

lemma parseIpv4_canonical:
  assumes "isIPv4 s"
  shows "parseIpv4 s = Some (map BigInt (split_on (CHR ''.'') s))"
proof -
  let ?parts = "split_on (CHR ''.'') s"
  have n: "js_Number p = Some (of_int (BigInt p)) \<and> 0 \<le> BigInt p \<and> BigInt p \<le> 255" if "p \<in> set ?parts" for p
  proof -
    have "isNonNegativeIntegerAmount p" "BigInt p \<le> 255" using assms that by (auto simp: isIPv4_def Let_def list_all_iff)
    then show ?thesis using octet_digits Number_digits by blast
  qed
  then have m: "map js_Number ?parts = map (\<lambda>p. Some (of_int (BigInt p))) ?parts" by simp
  have "\<not> list_ex bad_octet (map js_Number ?parts)"
    unfolding m using n by (force simp: list_ex_iff bad_octet_def)
  moreover have "length ?parts = 4" using assms by (simp add: isIPv4_def Let_def)
  ultimately show ?thesis unfolding parseIpv4_def Let_def by (simp add: m comp_def)
qed

text \<open>So the filter on an IPv4 address is membership in one of the blocks.\<close>

lemma ipv4_filter:
  assumes "isIP address = 4"
  shows "isBlockedIpAddress address \<longleftrightarrow>
    list_ex (in_block (ipv4_value (map BigInt (split_on (CHR ''.'') address)))) BLOCKED_RANGES"
proof -
  let ?parts = "split_on (CHR ''.'') address"
  have v4: "isIPv4 address" using assms by (simp add: isIP_def split: if_splits)
  then have "length ?parts = 4" and o: "\<And>p. p \<in> set ?parts \<Longrightarrow> 0 \<le> BigInt p \<and> BigInt p \<le> 255"
    by (auto simp: isIPv4_def Let_def list_all_iff octet_digits)
  then obtain a b c d where p: "?parts = [a, b, c, d]" by (auto simp: length_Suc_conv numeral_eq_Suc)
  have "blocked_octets (BigInt a) (BigInt b) \<longleftrightarrow>
      list_ex (in_block (ipv4_value [BigInt a, BigInt b, BigInt c, BigInt d])) BLOCKED_RANGES"
    by (rule octet_blocks) (use o p in auto)
  then show ?thesis
    using assms by (simp add: isBlockedIpAddress_def isBlockedIpv4Address_def parseIpv4_canonical [OF v4] p)
qed

section \<open>Connections\<close>

text \<open>What a target that passed the checks satisfies.\<close>

lemma resolveAllowedTarget_iff:
  assumes "resolveAllowedTarget W hop rawUrl environment = Inr (url, addresses)"
    and stable: "\<And>x u. parseUrl W x = Some u \<Longrightarrow> parseUrl W (u_href u) = Some u"
  shows "List.member [''http:'', ''https:''] (u_protocol url) \<and> (environment = ''production'' \<longrightarrow> u_protocol url = ''https:'')
    \<and> u_username url = [] \<and> u_password url = [] \<and> \<not> isBlockedHostname (u_hostname url)
    \<and> addresses \<noteq> [] \<and> list_all (\<lambda>a. \<not> isBlockedIpAddress a) addresses"
proof -
  from assms(1) obtain n where n: "assertWebhookUrlShapeAllowed W rawUrl environment = Inr n"
    and u: "parseUrl W n = Some url" and a: "addresses \<noteq> []" "\<not> list_ex isBlockedIpAddress addresses"
    by (auto simp: resolveAllowedTarget_def tx_iff split: option.splits)
  from n obtain p where p: "parseUrl W rawUrl = Some p" "n = u_href p" and
    c: "List.member [''http:'', ''https:''] (u_protocol p)" "environment = ''production'' \<longrightarrow> u_protocol p = ''https:''"
      "u_username p = []" "u_password p = []" "\<not> isBlockedHostname (u_hostname p)"
    by (auto simp: assertWebhookUrlShapeAllowed_def tx_iff split: option.splits)
  have "url = p" using stable [OF p(1)] u p(2) by simp
  with a c show ?thesis by (auto simp: list_ex_iff list_all_iff)
qed

lemma fetchFrom_connections:
  assumes stable: "\<And>x u. parseUrl W x = Some u \<Longrightarrow> parseUrl W (u_href u) = Some u"
  shows "fetchFrom W environment redirectCount remaining currentUrl = (r, connections) \<Longrightarrow>
    length connections \<le> remaining + 1 \<and> (\<forall>(url, address)\<in>set connections.
      List.member [''http:'', ''https:''] (u_protocol url) \<and> (environment = ''production'' \<longrightarrow> u_protocol url = ''https:'')
      \<and> u_username url = [] \<and> u_password url = [] \<and> \<not> isBlockedHostname (u_hostname url) \<and> \<not> isBlockedIpAddress address)"
proof (induction remaining arbitrary: redirectCount currentUrl r connections)
  case 0
  then show ?case
    by (auto simp: fetchFrom.simps [of W environment redirectCount 0] list_all_iff
        split: sum.splits if_splits option.splits dest!: resolveAllowedTarget_iff [OF _ stable])
next
  case (Suc n)
  show ?case
    using Suc.prems
    by (auto simp: fetchFrom.simps [of W environment redirectCount "Suc n"] list_all_iff
        split: sum.splits if_splits option.splits prod.splits dest!: Suc.IH resolveAllowedTarget_iff [OF _ stable])
qed

end
