(* ===== verification/Webhooks.thy ===== *)
theory Webhooks
  imports Frames Pagination WebhookSigning WebhookSecurity
begin

text \<open>
  Webhook endpoints and deliveries: \<open>modules/webhooks/webhook.model.ts\<close>, \<open>webhook.retry.ts\<close>, the
  rest of \<open>webhook.repository.ts\<close> and \<open>webhook.service.ts\<close>. The web, the crypto primitives and the
  configuration are the fields of \<open>webhook_services\<close>; a delivery runs against the state of the
  \<open>webhook\<close> provider. \<open>webhook_step\<close> has a rule for each transaction these services commit. The
  lemmas show that a recorded result is applied at most once, that a delivered delivery is final,
  and when the retries end.
\<close>

section \<open>webhook.model.ts and webhook.retry.ts\<close>

definition truthy_text :: "string option \<Rightarrow> bool" where
  "truthy_text v \<longleftrightarrow> v \<noteq> None \<and> v \<noteq> Some []"

definition serializeWebhookEndpoint :: "webhook_endpoint \<Rightarrow> json" where
  "serializeWebhookEndpoint w = JObj [
     (''id'', JStr (we_id w)),
     (''appId'', JStr (we_appId w)),
     (''url'', JStr (we_url w)),
     (''description'', jstr_opt (we_description w)),
     (''subscribedEvents'', JArr (map JStr (we_subscribedEvents w))),
     (''status'', JStr (we_status w)),
     (''requiresSecretRotation'', JBool (\<not> (truthy_text (we_secretHash w) \<and> truthy_text (we_secretCiphertext w)
        \<and> truthy_text (we_encryptionKeyVersion w)))),
     (''createdAt'', jdate (we_createdAt w)),
     (''updatedAt'', jdate (we_updatedAt w))]"

definition serializeCreatedWebhookEndpoint :: "webhook_endpoint \<Rightarrow> string \<Rightarrow> json" where
  "serializeCreatedWebhookEndpoint w secret = (case serializeWebhookEndpoint w of
       JObj members \<Rightarrow> JObj (members @ [(''secret'', JStr secret)])
     | v \<Rightarrow> v)"

fun deliveryStatus :: "DeliveryStatus \<Rightarrow> string" where
  "deliveryStatus WD_DELIVERED = ''delivered''"
| "deliveryStatus WD_FAILED = ''failed''"
| "deliveryStatus WD_RETRY = ''pending''"
| "deliveryStatus WD_PENDING = ''pending''"

definition serializeWebhookDelivery :: "webhook_delivery \<Rightarrow> json" where
  "serializeWebhookDelivery d = JObj [
     (''id'', JStr (wd_id d)),
     (''appId'', JStr (wd_appId d)),
     (''endpointId'', JStr (wd_endpointId d)),
     (''eventId'', jstr_opt (wd_eventId d)),
     (''agreementId'', jstr_opt (wd_agreementId d)),
     (''eventType'', JStr (wd_eventType d)),
     (''status'', JStr (deliveryStatus (wd_status d))),
     (''attemptCount'', JNum (int (wd_attempts d))),
     (''responseStatus'', jnum_opt (wd_statusCode d)),
     (''responseBodySnippet'', jstr_opt (wd_responseBodySnippet d)),
     (''lastError'', jstr_opt (wd_lastError d)),
     (''nextRetryAt'', jdate_opt (wd_nextRetryAt d)),
     (''deliveredAt'', jdate_opt (wd_deliveredAt d)),
     (''createdAt'', jdate (wd_createdAt d)),
     (''updatedAt'', jdate (wd_updatedAt d))]"

definition WEBHOOK_RETRY_DELAYS_MS :: "int list" where
  "WEBHOOK_RETRY_DELAYS_MS = [60 * 1000, 5 * 60 * 1000, 15 * 60 * 1000, 60 * 60 * 1000, 6 * 60 * 60 * 1000]"

definition getWebhookRetryDelayMs :: "int \<Rightarrow> int option" where
  "getWebhookRetryDelayMs failedAttemptCount =
     (if failedAttemptCount < 1 then nth_opt WEBHOOK_RETRY_DELAYS_MS 0
      else nth_opt WEBHOOK_RETRY_DELAYS_MS (failedAttemptCount - 1))"

section \<open>webhook.repository.ts\<close>

record create_endpoint_input =
  cen_url :: string
  cen_description :: "string option"
  cen_subscribedEvents :: "string list"

text \<open>\<open>uen_description\<close> is \<open>Some v\<close> when the key is in the input, \<open>v\<close> being null or the text.\<close>

record update_endpoint_input =
  uen_url :: "string option"
  uen_description :: "string option option"
  uen_subscribedEvents :: "string list option"
  uen_status :: "string option"

definition endpoint_clash :: "webhook_endpoint \<Rightarrow> webhook_endpoint \<Rightarrow> bool" where
  "endpoint_clash v w \<longleftrightarrow> we_id v = we_id w"

definition createWebhookEndpoint ::
  "env \<Rightarrow> string \<Rightarrow> create_endpoint_input \<Rightarrow> string \<Rightarrow> string \<Rightarrow> string \<Rightarrow> webhook_endpoint dbtx" where
  "createWebhookEndpoint E appId input normalizedUrl secretHash secretCiphertext =
     tx_bind (tx_lift (getWebhookEncryptionKeyId secretCiphertext)) (\<lambda>keyVersion.
     tx_bind (freshId E) (\<lambda>endpointId.
     tx_bind now (\<lambda>t.
     insertRow endpoints endpoints_update endpoint_clash
       \<lparr>we_id = endpointId, we_appId = appId, we_url = normalizedUrl, we_description = cen_description input,
        we_subscribedEvents = cen_subscribedEvents input, we_secretHash = Some secretHash,
        we_secretCiphertext = Some secretCiphertext, we_encryptionKeyVersion = Some keyVersion,
        we_status = ''active'', we_deletedAt = None, we_createdAt = t, we_updatedAt = t\<rparr>)))"

record endpoint_query =
  enq_status :: "string option"
  enq_limit :: nat
  enq_cursor :: "string option"

definition endpoint_selected :: "string \<Rightarrow> endpoint_query \<Rightarrow> webhook_endpoint \<Rightarrow> bool" where
  "endpoint_selected appId params w \<longleftrightarrow> we_appId w = appId \<and> we_deletedAt w = None
     \<and> (case enq_status params of None \<Rightarrow> True | Some st \<Rightarrow> we_status w = st)"

definition listWebhookEndpointRows :: "string \<Rightarrow> endpoint_query \<Rightarrow> db \<Rightarrow> webhook_endpoint list" where
  "listWebhookEndpointRows appId params s =
     list_desc we_createdAt we_id (endpoint_selected appId params) (enq_limit params) (enq_cursor params) (endpoints s)"

definition endpoint_is :: "string \<Rightarrow> string \<Rightarrow> webhook_endpoint \<Rightarrow> bool" where
  "endpoint_is appId endpointId w \<longleftrightarrow> we_id w = endpointId \<and> we_appId w = appId"

definition findWebhookEndpointForApp :: "string \<Rightarrow> string \<Rightarrow> webhook_endpoint option dbtx" where
  "findWebhookEndpointForApp appId endpointId =
     findFirst endpoints (\<lambda>w. endpoint_is appId endpointId w \<and> we_deletedAt w = None)"

text \<open>\<open>prisma.webhookEndpoint.update\<close> with a missing row raises \<open>P2025\<close>.\<close>

definition updateEndpoint :: "string \<Rightarrow> string \<Rightarrow> (db \<Rightarrow> webhook_endpoint \<Rightarrow> webhook_endpoint) \<Rightarrow> webhook_endpoint dbtx" where
  "updateEndpoint appId endpointId data =
     tx_bind (updateMany endpoints endpoints_update (endpoint_is appId endpointId)
       (\<lambda>s w. (data s w)\<lparr>we_updatedAt := clock s\<rparr>)) (\<lambda>_.
     tx_bind (findFirst endpoints (endpoint_is appId endpointId)) (\<lambda>found.
     tx_some P2025 found))"

definition updateWebhookEndpointRow ::
  "string \<Rightarrow> string \<Rightarrow> update_endpoint_input \<Rightarrow> string option \<Rightarrow> webhook_endpoint dbtx" where
  "updateWebhookEndpointRow appId endpointId input normalizedUrl =
     updateEndpoint appId endpointId (\<lambda>s w. w\<lparr>
       we_url := (if truthy_text normalizedUrl then the normalizedUrl else we_url w),
       we_description := (case uen_description input of None \<Rightarrow> we_description w | Some v \<Rightarrow> v),
       we_subscribedEvents := (case uen_subscribedEvents input of None \<Rightarrow> we_subscribedEvents w | Some es \<Rightarrow> es),
       we_status := (if truthy_text (uen_status input) then the (uen_status input) else we_status w)\<rparr>)"

definition deleteWebhookEndpointRow :: "string \<Rightarrow> string \<Rightarrow> webhook_endpoint dbtx" where
  "deleteWebhookEndpointRow appId endpointId =
     updateEndpoint appId endpointId (\<lambda>s w. w\<lparr>we_status := ''disabled'', we_deletedAt := Some (clock s)\<rparr>)"

definition deliveryStatusFilter :: "string \<Rightarrow> DeliveryStatus \<Rightarrow> bool" where
  "deliveryStatusFilter status st =
     (if status = ''delivered'' then st = WD_DELIVERED
      else if status = ''failed'' then st = WD_FAILED
      else if status = ''pending'' then List.member [WD_PENDING, WD_RETRY] st
      else True)"

record delivery_query =
  deq_endpointId :: "string option"
  deq_eventId :: "string option"
  deq_status :: "string option"
  deq_limit :: nat
  deq_cursor :: "string option"

definition delivery_selected :: "string \<Rightarrow> delivery_query \<Rightarrow> webhook_delivery \<Rightarrow> bool" where
  "delivery_selected appId params d \<longleftrightarrow> wd_appId d = appId
     \<and> (truthy_text (deq_endpointId params) \<longrightarrow> Some (wd_endpointId d) = deq_endpointId params)
     \<and> (truthy_text (deq_eventId params) \<longrightarrow> wd_eventId d = deq_eventId params)
     \<and> (case deq_status params of None \<Rightarrow> True | Some st \<Rightarrow> deliveryStatusFilter st (wd_status d))"

definition listWebhookDeliveryRows :: "string \<Rightarrow> delivery_query \<Rightarrow> db \<Rightarrow> webhook_delivery list" where
  "listWebhookDeliveryRows appId params s =
     list_desc wd_createdAt wd_id (delivery_selected appId params) (deq_limit params) (deq_cursor params) (deliveries s)"

definition delivery_is :: "string \<Rightarrow> string \<Rightarrow> webhook_delivery \<Rightarrow> bool" where
  "delivery_is appId deliveryId d \<longleftrightarrow> wd_id d = deliveryId \<and> wd_appId d = appId"

definition findWebhookDeliveryForApp :: "string \<Rightarrow> string \<Rightarrow> webhook_delivery option dbtx" where
  "findWebhookDeliveryForApp appId deliveryId = findFirst deliveries (delivery_is appId deliveryId)"

text \<open>The delivery with the endpoint of its foreign key.\<close>

definition findWebhookDeliveryWithEndpoint ::
  "string \<Rightarrow> db \<Rightarrow> (webhook_delivery \<times> webhook_endpoint option) option" where
  "findWebhookDeliveryWithEndpoint deliveryId s =
     map_option (\<lambda>d. (d, List.find (endpoint_is (wd_appId d) (wd_endpointId d)) (endpoints s)))
       (List.find (\<lambda>d. wd_id d = deliveryId) (deliveries s))"

definition markWebhookDeliveryForRetry :: "string \<Rightarrow> string \<Rightarrow> webhook_delivery option dbtx" where
  "markWebhookDeliveryForRetry appId deliveryId =
     tx_bind (updateMany deliveries deliveries_update
       (\<lambda>d. delivery_is appId deliveryId d \<and> List.member [WD_FAILED, WD_RETRY] (wd_status d))
       (\<lambda>s d. d\<lparr>wd_status := WD_PENDING, wd_nextRetryAt := Some (clock s), wd_lastError := None,
          wd_updatedAt := clock s\<rparr>)) (\<lambda>count.
     if count \<noteq> 1 then tx_return None
     else findFirst deliveries (delivery_is appId deliveryId))"

definition due_delivery :: "int \<Rightarrow> webhook_delivery \<Rightarrow> bool" where
  "due_delivery t d \<longleftrightarrow> List.member [WD_PENDING, WD_RETRY] (wd_status d)
     \<and> (case wd_nextRetryAt d of None \<Rightarrow> True | Some r \<Rightarrow> r \<le> t)"

text \<open>\<open>orderBy: [{ nextRetryAt: 'asc' }, { createdAt: 'asc' }]\<close>; nulls come last.\<close>

definition listDueWebhookDeliveries :: "nat \<Rightarrow> db \<Rightarrow> webhook_delivery list" where
  "listDueWebhookDeliveries limit s =
     take limit (sort_key (\<lambda>d. (wd_nextRetryAt d = None, case wd_nextRetryAt d of None \<Rightarrow> 0 | Some r \<Rightarrow> r, wd_createdAt d))
       (filter (due_delivery (clock s)) (deliveries s)))"

record delivery_result =
  dr_status :: DeliveryStatus
  dr_statusCode :: "int option"
  dr_responseBodySnippet :: "string option"
  dr_lastError :: "string option"
  dr_nextRetryAt :: "int option"
  dr_deliveredAt :: "int option"

definition updateWebhookDeliveryResult ::
  "string \<Rightarrow> string \<Rightarrow> DeliveryStatus \<Rightarrow> nat \<Rightarrow> delivery_result \<Rightarrow> (bool \<times> webhook_delivery) dbtx" where
  "updateWebhookDeliveryResult deliveryId appId expectedStatus expectedAttempts data =
     tx_bind (updateMany deliveries deliveries_update
       (\<lambda>d. delivery_is appId deliveryId d \<and> wd_status d = expectedStatus \<and> wd_attempts d = expectedAttempts)
       (\<lambda>s d. d\<lparr>wd_status := dr_status data, wd_statusCode := dr_statusCode data,
          wd_responseBodySnippet := dr_responseBodySnippet data, wd_lastError := dr_lastError data,
          wd_nextRetryAt := dr_nextRetryAt data, wd_deliveredAt := dr_deliveredAt data,
          wd_attempts := wd_attempts d + 1, wd_updatedAt := clock s\<rparr>)) (\<lambda>count.
     tx_bind (findFirst deliveries (delivery_is appId deliveryId)) (\<lambda>found.
     tx_bind (tx_some P2025 found) (\<lambda>delivery.
     tx_return (count = 1, delivery))))"

section \<open>webhook.service.ts\<close>

text \<open>The headers and the body of a delivery; the transport of a delivery depends on them.\<close>

record delivery_request =
  dq_eventId :: string
  dq_timestamp :: string
  dq_signature :: string
  dq_body :: string

record webhook_services =
  ws_web :: web
  ws_post :: "delivery_request \<Rightarrow> web"
  ws_crypto :: webhook_crypto
  ws_secretBytes :: "byte list"
  ws_ivBytes :: "byte list"
  ws_environment :: "string \<Rightarrow> string option"
  ws_snippetBytes :: nat
  ws_maxRedirects :: nat

definition auditWebhook ::
  "env \<Rightarrow> request \<Rightarrow> string \<Rightarrow> string \<Rightarrow> string \<Rightarrow> string \<Rightarrow> json option \<Rightarrow> json option \<Rightarrow> audit_log dbtx" where
  "auditWebhook E req appId action targetType targetId beforeRow after = createInfrastructureAuditLog E
     \<lparr>ai_appId = Some appId, ai_agreementId = None,
      ai_actorType = (if rq_apiKeyId req \<noteq> None then ''api_key'' else ''system''), ai_actorId = rq_apiKeyId req,
      ai_actorAddress = None, ai_action = action, ai_targetType = targetType, ai_targetId = targetId,
      ai_before = beforeRow, ai_after = after, ai_ipAddress = rq_ip req, ai_userAgent = rq_userAgent req,
      ai_requestId = Some (rq_requestId req)\<rparr>"

definition responseSnippet :: "webhook_services \<Rightarrow> string \<Rightarrow> string" where
  "responseSnippet S body = take (ws_snippetBytes S) body"

definition enqueueWebhookDeliveryJob ::
  "env \<Rightarrow> string \<Rightarrow> string \<Rightarrow> string option \<Rightarrow> string \<Rightarrow> int option \<Rightarrow> unit dbtx" where
  "enqueueWebhookDeliveryJob E appId deliveryId agreementId attemptKey availableAt =
     tx_then (enqueueJob E \<lparr>ep_appId = appId, ep_agreementId = agreementId, ep_kind = DELIVER_WEBHOOK,
       ep_payload = Some \<lparr>jp_agreementId = agreementId, jp_deliveryId = Some deliveryId, jp_transactionId = None\<rparr>,
       ep_availableAt = availableAt, ep_maxAttempts = Some 1,
       ep_dedupeKey = Some (Delivery_key deliveryId attemptKey)\<rparr>) (tx_return ())"

definition failure_error :: "failure \<Rightarrow> error" where
  "failure_error f = (case f of AppFailure e \<Rightarrow> e | _ \<Rightarrow> JsError (failure_message f))"

definition allowed_url :: "webhook_services \<Rightarrow> string \<Rightarrow> string \<Rightarrow> error + string" where
  "allowed_url S url environment = (case assertWebhookUrlAllowed (ws_web S) url environment of
       Inl f \<Rightarrow> Inl (failure_error f) | Inr u \<Rightarrow> Inr u)"

definition createWebhookEndpointForApp ::
  "env \<Rightarrow> webhook_services \<Rightarrow> request \<Rightarrow> string \<Rightarrow> string \<Rightarrow> create_endpoint_input \<Rightarrow> json dbproc" where
  "createWebhookEndpointForApp E S req appId environment input =
     pr_bind (pr_lift (allowed_url S (cen_url input) environment)) (\<lambda>normalizedUrl.
     let secret = generateWebhookSecret (ws_secretBytes S);
         secretHash = hashWebhookSecret (ws_crypto S) secret in
     pr_bind (pr_lift (encryptWebhookSecret (ws_crypto S) (ws_ivBytes S) secret)) (\<lambda>secretCiphertext.
     pr_bind (atomically (createWebhookEndpoint E appId input normalizedUrl secretHash secretCiphertext)) (\<lambda>endpoint.
     pr_bind (atomically (auditWebhook E req appId ''webhook_endpoint.created'' ''webhook_endpoint'' (we_id endpoint)
       None (Some (serializeWebhookEndpoint endpoint)))) (\<lambda>_.
     pr_return (serializeCreatedWebhookEndpoint endpoint secret)))))"

definition listWebhookEndpointsForApp :: "string \<Rightarrow> endpoint_query \<Rightarrow> db \<Rightarrow> json page" where
  "listWebhookEndpointsForApp appId query s =
     make_page we_id serializeWebhookEndpoint (enq_limit query) (listWebhookEndpointRows appId query s)"

definition getWebhookEndpointForApp :: "string \<Rightarrow> string \<Rightarrow> json dbtx" where
  "getWebhookEndpointForApp appId endpointId =
     tx_bind (findWebhookEndpointForApp appId endpointId) (\<lambda>found.
     tx_bind (tx_some (notFound ''webhook_endpoint_not_found'') found) (\<lambda>endpoint.
     tx_return (serializeWebhookEndpoint endpoint)))"

definition updateWebhookEndpointForApp ::
  "env \<Rightarrow> webhook_services \<Rightarrow> request \<Rightarrow> string \<Rightarrow> string \<Rightarrow> string \<Rightarrow> update_endpoint_input \<Rightarrow> json dbproc" where
  "updateWebhookEndpointForApp E S req appId environment endpointId input =
     pr_bind (atomically (findWebhookEndpointForApp appId endpointId)) (\<lambda>found.
     pr_bind (atomically (tx_some (notFound ''webhook_endpoint_not_found'') found)) (\<lambda>beforeRow.
     pr_bind (atomically (tx_require (\<not> (uen_status input = Some ''active''
         \<and> (\<not> truthy_text (we_secretHash beforeRow) \<or> \<not> truthy_text (we_secretCiphertext beforeRow)
            \<or> \<not> truthy_text (we_encryptionKeyVersion beforeRow))))
       (invalidRequest ''webhook_secret_rotation_required''))) (\<lambda>_.
     pr_bind (if truthy_text (uen_url input)
         then pr_bind (pr_lift (allowed_url S (the (uen_url input)) environment)) (\<lambda>u. pr_return (Some u))
         else pr_return None) (\<lambda>normalizedUrl.
     pr_bind (atomically (updateWebhookEndpointRow appId endpointId input normalizedUrl)) (\<lambda>updated.
     pr_bind (atomically (auditWebhook E req appId
       (if uen_status input = Some ''disabled'' then ''webhook_endpoint.disabled'' else ''webhook_endpoint.updated'')
       ''webhook_endpoint'' endpointId (Some (serializeWebhookEndpoint beforeRow)) (Some (serializeWebhookEndpoint updated)))) (\<lambda>_.
     pr_return (serializeWebhookEndpoint updated)))))))"

definition deleteWebhookEndpointForApp :: "env \<Rightarrow> request \<Rightarrow> string \<Rightarrow> string \<Rightarrow> json dbproc" where
  "deleteWebhookEndpointForApp E req appId endpointId =
     pr_bind (atomically (findWebhookEndpointForApp appId endpointId)) (\<lambda>found.
     pr_bind (atomically (tx_some (notFound ''webhook_endpoint_not_found'') found)) (\<lambda>beforeRow.
     pr_bind (atomically (deleteWebhookEndpointRow appId endpointId)) (\<lambda>deleted.
     pr_bind (atomically (auditWebhook E req appId ''webhook_endpoint.disabled'' ''webhook_endpoint'' endpointId
       (Some (serializeWebhookEndpoint beforeRow)) (Some (serializeWebhookEndpoint deleted)))) (\<lambda>_.
     pr_return (serializeWebhookEndpoint deleted)))))"

definition listWebhookDeliveriesForApp :: "string \<Rightarrow> delivery_query \<Rightarrow> db \<Rightarrow> json page" where
  "listWebhookDeliveriesForApp appId query s =
     make_page wd_id serializeWebhookDelivery (deq_limit query) (listWebhookDeliveryRows appId query s)"

definition getWebhookDeliveryForApp :: "string \<Rightarrow> string \<Rightarrow> json dbtx" where
  "getWebhookDeliveryForApp appId deliveryId =
     tx_bind (findWebhookDeliveryForApp appId deliveryId) (\<lambda>found.
     tx_bind (tx_some (notFound ''webhook_delivery_not_found'') found) (\<lambda>delivery.
     tx_return (serializeWebhookDelivery delivery)))"

text \<open>The transaction of \<open>retryWebhookDeliveryForApp\<close>, and the function around it.\<close>

definition retryDelivery_run :: "env \<Rightarrow> request \<Rightarrow> string \<Rightarrow> string \<Rightarrow> webhook_delivery \<Rightarrow> json dbtx" where
  "retryDelivery_run E req appId deliveryId beforeRow =
     tx_bind (markWebhookDeliveryForRetry appId deliveryId) (\<lambda>marked.
     tx_bind (tx_some (invalidRequest ''webhook_delivery_retry_in_progress'') marked) (\<lambda>updated.
     tx_bind (auditWebhook E req appId ''webhook_delivery.retried'' ''webhook_delivery'' deliveryId
       (Some (serializeWebhookDelivery beforeRow)) (Some (serializeWebhookDelivery updated))) (\<lambda>_.
     tx_bind now (\<lambda>t.
     tx_bind (enqueueWebhookDeliveryJob E appId (wd_id updated) (wd_agreementId updated)
       (''manual:'' @ show_int t) None) (\<lambda>_.
     tx_return (serializeWebhookDelivery updated))))))"

definition retryWebhookDeliveryForApp :: "env \<Rightarrow> request \<Rightarrow> string \<Rightarrow> string \<Rightarrow> json dbproc" where
  "retryWebhookDeliveryForApp E req appId deliveryId =
     pr_bind (atomically (findWebhookDeliveryForApp appId deliveryId)) (\<lambda>found.
     pr_bind (atomically (tx_some (notFound ''webhook_delivery_not_found'') found)) (\<lambda>beforeRow.
     pr_bind (atomically (tx_require (wd_status beforeRow \<noteq> WD_DELIVERED)
       (invalidRequest ''webhook_delivery_already_delivered''))) (\<lambda>_.
     atomically (retryDelivery_run E req appId deliveryId beforeRow))))"

definition recordFinalDeliveryFailure :: "env \<Rightarrow> webhook_delivery \<Rightarrow> string \<Rightarrow> unit dbtx" where
  "recordFinalDeliveryFailure E delivery reason =
     (if wd_appId delivery = [] \<or> wd_eventType delivery = ''webhook.delivery_failed'' then tx_return ()
      else tx_then (createEvent E (wd_appId delivery)
        \<lparr>ed_type = ''webhook.delivery_failed'', ed_agreementId = None, ed_milestoneId = None, ed_escrowId = None,
         ed_proofSubmissionId = None, ed_disputeId = None,
         ed_payload = JObj [(''deliveryId'', JStr (wd_id delivery)), (''endpointId'', JStr (wd_endpointId delivery)),
           (''eventId'', jstr_opt (wd_eventId delivery)), (''reason'', JStr reason)]\<rparr>) (tx_return ()))"

text \<open>The transaction after an update that applied, and the whole of it.\<close>

definition followDelivery ::
  "env \<Rightarrow> webhook_delivery \<Rightarrow> string option \<Rightarrow> (string \<times> int option) option \<Rightarrow> unit dbtx" where
  "followDelivery E delivery finalFailureReason retry =
     tx_bind (if truthy_text finalFailureReason
       then recordFinalDeliveryFailure E delivery (the finalFailureReason) else tx_return ()) (\<lambda>_.
     case retry of
       None \<Rightarrow> tx_return ()
     | Some (attemptKey, availableAt) \<Rightarrow>
         enqueueWebhookDeliveryJob E (wd_appId delivery) (wd_id delivery) (wd_agreementId delivery) attemptKey availableAt)"

definition recordDeliveryResult ::
  "env \<Rightarrow> webhook_delivery \<Rightarrow> delivery_result \<Rightarrow> string option \<Rightarrow> (string \<times> int option) option \<Rightarrow> webhook_delivery dbtx" where
  "recordDeliveryResult E delivery data finalFailureReason retry =
     tx_bind (updateWebhookDeliveryResult (wd_id delivery) (wd_appId delivery) (wd_status delivery) (wd_attempts delivery) data)
       (\<lambda>(applied, updated).
     if \<not> applied then tx_return updated
     else tx_bind (followDelivery E delivery finalFailureReason retry) (\<lambda>_. tx_return updated))"

definition failed_result :: "string \<Rightarrow> delivery_result" where
  "failed_result message = \<lparr>dr_status = WD_FAILED, dr_statusCode = None, dr_responseBodySnippet = None,
     dr_lastError = Some message, dr_nextRetryAt = None, dr_deliveredAt = None\<rparr>"

definition response_ok :: "http_response \<Rightarrow> bool" where
  "response_ok r \<longleftrightarrow> 200 \<le> hr_status r \<and> hr_status r \<le> 299"

definition assertProviderResponse :: "http_response \<Rightarrow> failure + unit" where
  "assertProviderResponse r =
     (if \<not> response_ok r
      then Inl (ProviderError (''webhook responded with status '' @ show_nat (hr_status r) @ ''.'')
        (retryableStatus (int (hr_status r))) (Some (int (hr_status r))))
      else Inr ())"

text \<open>
  The call of the endpoint at time \<open>time0\<close>, which ends at \<open>time1\<close>: one attempt through the provider
  wrapper. The connections it opens are those of \<open>fetchWebhookUrl\<close>.
\<close>

definition deliverRequest ::
  "webhook_services \<Rightarrow> provider_state \<Rightarrow> int \<Rightarrow> int \<Rightarrow> webhook_endpoint \<Rightarrow> delivery_request
     \<Rightarrow> (failure + http_response) \<times> nat \<times> provider_state" where
  "deliverRequest S P time0 time1 endpoint post =
     executeProviderRequest (provider_defaults\<lparr>pp_maxAttempts := 1\<rparr>) time0 (\<lambda>_. time1)
       (\<lambda>_. res_bind (fst (fetchWebhookUrl (ws_post S post) (we_url endpoint)
           (case ws_environment S (we_appId endpoint) of None \<Rightarrow> ''sandbox'' | Some e \<Rightarrow> e) (ws_maxRedirects S))) (\<lambda>result.
         res_bind (assertProviderResponse result) (\<lambda>_. Inr result))) P"

text \<open>\<open>Math.floor(Date.now() / 1000)\<close>, the signature over it and the payload, and the headers.\<close>

definition signedRequest :: "webhook_services \<Rightarrow> string \<Rightarrow> int \<Rightarrow> webhook_delivery \<Rightarrow> delivery_request" where
  "signedRequest S secret time0 delivery =
     (let timestamp = show_int (time0 div 1000) in
      \<lparr>dq_eventId = (case wd_eventId delivery of None \<Rightarrow> wd_id delivery | Some e \<Rightarrow> e), dq_timestamp = timestamp,
       dq_signature = signWebhookPayload (ws_crypto S) secret timestamp (wd_payloadJson delivery),
       dq_body = wd_payloadJson delivery\<rparr>)"

text \<open>The \<open>catch\<close> of \<open>deliverWebhookDelivery\<close>.\<close>

definition deliveryFailed :: "env \<Rightarrow> webhook_delivery \<Rightarrow> string \<Rightarrow> json dbproc" where
  "deliveryFailed E delivery message =
     pr_bind (atomically now) (\<lambda>t.
     let failedAttemptCount = wd_attempts delivery + 1;
         retryDelayMs = getWebhookRetryDelayMs (int failedAttemptCount);
         nextRetryAt = map_option (\<lambda>d. t + d) retryDelayMs in
     pr_bind (atomically (recordDeliveryResult E delivery
       \<lparr>dr_status = (if retryDelayMs \<noteq> None then WD_RETRY else WD_FAILED), dr_statusCode = None,
        dr_responseBodySnippet = None, dr_lastError = Some message, dr_nextRetryAt = nextRetryAt, dr_deliveredAt = None\<rparr>
       (if retryDelayMs \<noteq> None then None else Some message)
       (if retryDelayMs \<noteq> None then Some (show_nat failedAttemptCount, nextRetryAt) else None))) (\<lambda>updated.
     pr_return (serializeWebhookDelivery updated)))"

definition error_message :: "error \<Rightarrow> string" where
  "error_message e = failure_message (AppFailure e)"

definition deliverWebhookDelivery :: "env \<Rightarrow> webhook_services \<Rightarrow> provider_state \<Rightarrow> int \<Rightarrow> string \<Rightarrow> json dbproc" where
  "deliverWebhookDelivery E S P time1 deliveryId =
     pr_bind (atomically (tx_gets (findWebhookDeliveryWithEndpoint deliveryId))) (\<lambda>found.
     pr_bind (atomically (tx_some (notFound ''webhook_delivery_not_found'') found)) (\<lambda>(delivery, foundEndpoint).
     pr_bind (atomically (tx_some (notFound ''webhook_endpoint_not_found'') foundEndpoint)) (\<lambda>endpoint.
     if wd_status delivery = WD_DELIVERED then pr_return (serializeWebhookDelivery delivery)
     else if we_status endpoint \<noteq> ''active'' \<or> we_url endpoint = [] then
       pr_bind (atomically (recordDeliveryResult E delivery (failed_result ''Webhook endpoint is inactive.'')
         (Some ''Webhook endpoint is inactive.'') None)) (\<lambda>updated.
       pr_return (serializeWebhookDelivery updated))
     else if \<not> truthy_text (we_secretCiphertext endpoint) then
       pr_bind (atomically (recordDeliveryResult E delivery (failed_result ''Webhook endpoint signing secret is unavailable.'')
         (Some ''Webhook endpoint signing secret is unavailable.'') None)) (\<lambda>updated.
       pr_return (serializeWebhookDelivery updated))
     else
       pr_bind (pr_lift (decryptWebhookSecret (ws_crypto S) (the (we_secretCiphertext endpoint)))) (\<lambda>secret.
       pr_bind (atomically now) (\<lambda>time0.
       case fst (deliverRequest S P time0 time1 endpoint (signedRequest S secret time0 delivery)) of
         Inl f \<Rightarrow> deliveryFailed E delivery (failure_message f)
       | Inr response \<Rightarrow>
           pr_catch
             (pr_bind (atomically now) (\<lambda>t.
              pr_bind (atomically (recordDeliveryResult E delivery
                \<lparr>dr_status = WD_DELIVERED, dr_statusCode = Some (int (hr_status response)),
                 dr_responseBodySnippet = Some (responseSnippet S (hr_body response)), dr_lastError = None,
                 dr_nextRetryAt = None, dr_deliveredAt = Some t\<rparr> None None)) (\<lambda>updated.
              pr_return (serializeWebhookDelivery updated))))
             (\<lambda>e. deliveryFailed E delivery (error_message e)))))))"

text \<open>\<open>processDueWebhookDeliveries\<close>: one delivery after the other; an error ends the loop.\<close>

fun deliverAll :: "env \<Rightarrow> webhook_services \<Rightarrow> (string \<Rightarrow> provider_state) \<Rightarrow> int \<Rightarrow> string list \<Rightarrow> json list dbproc" where
  "deliverAll E S P time1 [] = pr_return []"
| "deliverAll E S P time1 (i # is) =
     pr_bind (deliverWebhookDelivery E S (P i) time1 i) (\<lambda>r.
     pr_bind (deliverAll E S P time1 is) (\<lambda>rs. pr_return (r # rs)))"

definition processDueWebhookDeliveries ::
  "env \<Rightarrow> webhook_services \<Rightarrow> (string \<Rightarrow> provider_state) \<Rightarrow> int \<Rightarrow> nat \<Rightarrow> json list dbproc" where
  "processDueWebhookDeliveries E S P time1 limit =
     pr_bind (atomically (tx_gets (listDueWebhookDeliveries limit))) (\<lambda>due.
     deliverAll E S P time1 (map wd_id due))"

section \<open>The transactions of the webhook services\<close>

inductive webhook_step :: "db \<Rightarrow> db \<Rightarrow> bool" where
  create_endpoint: "createWebhookEndpoint E a input u h c s = Inr (w, t) \<Longrightarrow> webhook_step s t"
| update_endpoint: "updateWebhookEndpointRow a i input u s = Inr (w, t) \<Longrightarrow> webhook_step s t"
| delete_endpoint: "deleteWebhookEndpointRow a i s = Inr (w, t) \<Longrightarrow> webhook_step s t"
| audit: "auditWebhook E req a action ty i b c s = Inr (l, t) \<Longrightarrow> webhook_step s t"
| retry: "retryDelivery_run E req a i b s = Inr (v, t) \<Longrightarrow> webhook_step s t"
| record_result: "recordDeliveryResult E d data reason r s = Inr (w, t) \<Longrightarrow> wd_status d \<noteq> WD_DELIVERED \<Longrightarrow> webhook_step s t"

text \<open>Every function of the service is a sequence of these steps.\<close>

interpretation webhookSteps: step_order "webhook_step\<^sup>*\<^sup>*"
  by unfold_locales auto

lemma webhook_respI: "(\<And>s x t. m s = Inr (x, t) \<Longrightarrow> webhook_step s t) \<Longrightarrow> webhookSteps.resp m"
  by (rule webhookSteps.respI) blast

lemma webhook_read:
  "webhookSteps.resp (findWebhookEndpointForApp a i)" "webhookSteps.resp (findWebhookDeliveryForApp a i)"
  "webhookSteps.resp now"
  unfolding findWebhookEndpointForApp_def findWebhookDeliveryForApp_def now_def findFirst_def
  by (rule webhookSteps.resp_gets)+

lemma webhook_write:
  "webhookSteps.resp (createWebhookEndpoint E a input u h c)"
  "webhookSteps.resp (updateWebhookEndpointRow a i uinput v)"
  "webhookSteps.resp (deleteWebhookEndpointRow a i)"
  "webhookSteps.resp (auditWebhook E req a action ty i b k)"
  "webhookSteps.resp (retryDelivery_run E req a i d)"
  by (rule webhook_respI, erule webhook_step.intros)+

lemma webhook_record:
  "wd_status d \<noteq> WD_DELIVERED \<Longrightarrow> webhookSteps.resp (recordDeliveryResult E d data reason r)"
  by (rule webhook_respI) (erule webhook_step.record_result)

lemmas webhook_rules = webhookSteps.presp_rules webhookSteps.resp_rules webhook_read webhook_write

lemma endpoint_handlers:
  "webhookSteps.presp (createWebhookEndpointForApp E S req a environment input)"
  "webhookSteps.presp (updateWebhookEndpointForApp E S req a environment i uinput)"
  "webhookSteps.presp (deleteWebhookEndpointForApp E req a i)"
  "webhookSteps.presp (retryWebhookDeliveryForApp E req a i)"
  unfolding createWebhookEndpointForApp_def updateWebhookEndpointForApp_def deleteWebhookEndpointForApp_def
    retryWebhookDeliveryForApp_def Let_def
  by (intro webhook_rules)+

lemma deliveryFailed_presp: "wd_status d \<noteq> WD_DELIVERED \<Longrightarrow> webhookSteps.presp (deliveryFailed E d m)"
  unfolding deliveryFailed_def Let_def by (intro webhook_rules webhook_record)

lemma deliver_presp: "webhookSteps.presp (deliverWebhookDelivery E S P time1 i)"
  unfolding deliverWebhookDelivery_def
  by (intro webhook_rules webhook_record deliveryFailed_presp)

lemma deliverAll_presp: "webhookSteps.presp (deliverAll E S P time1 is)"
  by (induction "is") (auto intro!: webhook_rules deliver_presp)

lemma processDue_presp: "webhookSteps.presp (processDueWebhookDeliveries E S P time1 n)"
  unfolding processDueWebhookDeliveries_def by (intro webhook_rules deliverAll_presp)

section \<open>What these transactions leave alone\<close>

text \<open>Everything but endpoints, deliveries, jobs, events and audit entries.\<close>

definition business :: "db \<Rightarrow> db" where
  "business s = core (s\<lparr>endpoints := []\<rparr>)"

interpretation businessFrame: step_order "\<lambda>s t. business t = business s"
  by unfold_locales simp_all

lemma business_core: "core t = core s \<Longrightarrow> business t = business s"
proof -
  assume a: "core t = core s"
  have "business s = (core s)\<lparr>endpoints := []\<rparr>" for s by (cases s) (simp add: business_def core_def)
  with a show ?thesis by simp
qed

lemma business_eqD:
  assumes "business t = business s"
  shows "agreements t = agreements s" "milestones t = milestones s" "escrows t = escrows s"
    "transactions t = transactions s" "proofs t = proofs s" "reviews t = reviews s"
    "disputes t = disputes s" "idempotencyKeys t = idempotencyKeys s" "clock t = clock s"
  using core_eqD [OF assms [unfolded business_def]] by simp_all

lemma business_rows:
  "businessFrame.resp (insertRow endpoints endpoints_update c w)"
  "businessFrame.resp (updateMany endpoints endpoints_update p f)"
  "businessFrame.resp (updateMany deliveries deliveries_update q g)"
  "businessFrame.resp (freshId E)" "businessFrame.resp now"
  by (rule businessFrame.respI, force simp: tx_iff business_def core_def)+

lemma business_outbox:
  "businessFrame.resp (createEvent E a d)" "businessFrame.resp (createInfrastructureAuditLog E i)"
  "businessFrame.resp (enqueueJob E q)"
  by (auto intro!: businessFrame.respI business_core dest: outbox_core)

lemmas business_rules = businessFrame.store_rules businessFrame.resp_rules business_rows business_outbox

lemmas webhook_defs =
  createWebhookEndpoint_def updateWebhookEndpointRow_def deleteWebhookEndpointRow_def updateEndpoint_def
  auditWebhook_def retryDelivery_run_def markWebhookDeliveryForRetry_def enqueueWebhookDeliveryJob_def
  recordDeliveryResult_def followDelivery_def updateWebhookDeliveryResult_def recordFinalDeliveryFailure_def Let_def

lemma resp_split: "(\<And>x y. step_order.resp R (f x y)) \<Longrightarrow> step_order.resp R (case p of (x, y) \<Rightarrow> f x y)"
  by (cases p) simp

lemma webhook_business:
  assumes "webhook_step s t"
  shows "business t = business s"
proof -
  have w: "businessFrame.resp (createWebhookEndpoint E a input u h c)"
    "businessFrame.resp (updateWebhookEndpointRow a i uinput v)" "businessFrame.resp (deleteWebhookEndpointRow a i)"
    "businessFrame.resp (auditWebhook E req a action ty i b k)" "businessFrame.resp (retryDelivery_run E req a i d)"
    "businessFrame.resp (recordDeliveryResult E d data reason r)"
    for E a input u h c i uinput v req action ty b k d data reason r
    unfolding webhook_defs by (intro business_rules resp_split)+
  note d = w [THEN businessFrame.respD]
  from assms show ?thesis by cases (erule d; assumption?)+
qed

lemma log_endpoint: "logOrder.resp (insertRow endpoints endpoints_update c w)"
  by (auto intro!: logOrder.respI simp: tx_iff log_le_def)

lemma webhook_log:
  assumes "webhook_step s t"
  shows "log_le s t"
proof -
  have w: "logOrder.resp (createWebhookEndpoint E a input u h c)"
    "logOrder.resp (updateWebhookEndpointRow a i uinput v)" "logOrder.resp (deleteWebhookEndpointRow a i)"
    "logOrder.resp (auditWebhook E req a action ty i b k)" "logOrder.resp (retryDelivery_run E req a i d)"
    "logOrder.resp (recordDeliveryResult E d data reason r)"
    for E a input u h c i uinput v req action ty b k d data reason r
    unfolding webhook_defs by (intro log_rules log_endpoint resp_split)+
  note d = w [THEN logOrder.respD]
  from assms show ?thesis by cases (erule d; assumption?)+
qed

section \<open>Deliveries\<close>

text \<open>
  What becomes of a delivery: its identity and payload are fixed, its attempts only grow, and a
  delivered delivery is final.
\<close>

definition delivery_le :: "webhook_delivery \<Rightarrow> webhook_delivery \<Rightarrow> bool" where
  "delivery_le d e \<longleftrightarrow> wd_id e = wd_id d \<and> wd_appId e = wd_appId d \<and> wd_endpointId e = wd_endpointId d
     \<and> wd_eventId e = wd_eventId d \<and> wd_eventType e = wd_eventType d \<and> wd_payloadJson e = wd_payloadJson d
     \<and> wd_payloadHash e = wd_payloadHash d \<and> wd_attempts d \<le> wd_attempts e \<and> (wd_status d = WD_DELIVERED \<longrightarrow> e = d)"

definition deliveries_le :: "db \<Rightarrow> db \<Rightarrow> bool" where
  "deliveries_le s t \<longleftrightarrow> length (deliveries s) \<le> length (deliveries t)
     \<and> (\<forall>i<length (deliveries s). delivery_le (deliveries s ! i) (deliveries t ! i))"

lemma delivery_le_refl: "delivery_le d d"
  by (simp add: delivery_le_def)

lemma delivery_le_trans: "delivery_le d e \<Longrightarrow> delivery_le e f \<Longrightarrow> delivery_le d f"
  by (auto simp: delivery_le_def)

interpretation deliveryOrder: step_order deliveries_le
proof unfold_locales
  show "deliveries_le s s" for s by (simp add: deliveries_le_def delivery_le_refl)
  show "deliveries_le s u" if "deliveries_le s t" "deliveries_le t u" for s t u
    using that by (auto simp: deliveries_le_def intro: delivery_le_trans)
qed

lemma deliveries_same: "deliveries t = deliveries s \<Longrightarrow> deliveries_le s t"
  by (simp add: deliveries_le_def delivery_le_refl)

lemma deliveries_insert: "deliveryOrder.resp (insertRow deliveries deliveries_update c d)"
  by (auto intro!: deliveryOrder.respI simp: tx_iff deliveries_le_def nth_append delivery_le_refl)

lemma deliveries_update_le:
  assumes "\<And>s d. p d \<Longrightarrow> delivery_le d (f s d)"
  shows "deliveryOrder.resp (updateMany deliveries deliveries_update p f)"
  using assms by (auto intro!: deliveryOrder.respI simp: tx_iff deliveries_le_def delivery_le_refl)

lemma deliveries_other:
  "deliveryOrder.resp (freshId E)" "deliveryOrder.resp now"
  "deliveryOrder.resp (insertRow events events_update c1 e)"
  "deliveryOrder.resp (insertRow jobs jobs_update c2 j)"
  "deliveryOrder.resp (insertRow auditLogs auditLogs_update c3 l)"
  "deliveryOrder.resp (insertRow endpoints endpoints_update c4 w)"
  "deliveryOrder.resp (updateMany jobs jobs_update p f)"
  "deliveryOrder.resp (updateMany endpoints endpoints_update q g)"
  by (auto intro!: deliveryOrder.respI deliveries_same simp: tx_iff)

lemmas delivery_base = deliveryOrder.store_rules deliveries_insert deliveries_other

lemma outbox_deliveries:
  "deliveryOrder.resp (createEvent E a d)" "deliveryOrder.resp (enqueueJob E q)"
  "deliveryOrder.resp (createInfrastructureAuditLog E i)"
  unfolding createEvent_def createWebhookDeliveriesForEvent_def createDeliveryFor_def enqueueJob_def create_job_def
    createInfrastructureAuditLog_def Let_def
  by (intro delivery_base)+

lemmas delivery_rules = delivery_base outbox_deliveries

lemma webhook_deliveries:
  assumes "webhook_step s t"
  shows "deliveries_le s t"
proof -
  have plain: "deliveryOrder.resp (createWebhookEndpoint E a input u h c)"
    "deliveryOrder.resp (updateWebhookEndpointRow a i uinput v)" "deliveryOrder.resp (deleteWebhookEndpointRow a i)"
    "deliveryOrder.resp (auditWebhook E req a action ty i b k)"
    for E a input u h c i uinput v req action ty b k
    unfolding webhook_defs by (intro delivery_rules)+
  have retried: "deliveryOrder.resp (retryDelivery_run E req a i d)" for E req a i d
    unfolding webhook_defs by (intro delivery_rules deliveries_update_le) (auto simp: delivery_le_def)
  have recorded: "deliveryOrder.resp (recordDeliveryResult E d data reason r)" if "wd_status d \<noteq> WD_DELIVERED" for E d data reason r
    unfolding webhook_defs by (intro delivery_rules deliveries_update_le resp_split) (use that in \<open>auto simp: delivery_le_def\<close>)
  note d = plain [THEN deliveryOrder.respD] retried [THEN deliveryOrder.respD] deliveryOrder.respD [OF recorded]
  from assms show ?thesis by cases (erule d; assumption?)+
qed

text \<open>The outbox only adds deliveries, under new identifiers.\<close>

definition adds_deliveries :: "db \<Rightarrow> db \<Rightarrow> bool" where
  "adds_deliveries s t \<longleftrightarrow> (\<exists>new. deliveries t = deliveries s @ new
     \<and> (\<forall>n\<in>set new. wd_id n \<notin> wd_id ` set (deliveries s)))"

interpretation addsOrder: step_order adds_deliveries
proof unfold_locales
  show "adds_deliveries s s" for s by (simp add: adds_deliveries_def)
  show "adds_deliveries s u" if "adds_deliveries s t" "adds_deliveries t u" for s t u
    using that by (fastforce simp: adds_deliveries_def)
qed

lemma adds_same: "deliveries t = deliveries s \<Longrightarrow> adds_deliveries s t"
  by (simp add: adds_deliveries_def)

lemma adds_base:
  "addsOrder.resp (insertRow deliveries deliveries_update delivery_clash d)"
  "addsOrder.resp (freshId E)" "addsOrder.resp now"
  "addsOrder.resp (insertRow events events_update c1 e)" "addsOrder.resp (insertRow jobs jobs_update c2 j)"
  "addsOrder.resp (updateMany jobs jobs_update p f)"
  by (rule addsOrder.respI, force simp: tx_iff adds_deliveries_def delivery_clash_def)+

lemma outbox_adds: "addsOrder.resp (createEvent E a d)" "addsOrder.resp (enqueueJob E q)"
  unfolding createEvent_def createWebhookDeliveriesForEvent_def createDeliveryFor_def enqueueJob_def create_job_def Let_def
  by (intro addsOrder.store_rules adds_base)+

text \<open>
  The result of an attempt is recorded once: a second record from the same snapshot of the delivery,
  by another worker or a repeated job, finds the attempt counted and changes nothing.
\<close>

definition expects :: "webhook_delivery \<Rightarrow> webhook_delivery \<Rightarrow> bool" where
  "expects d x \<longleftrightarrow> delivery_is (wd_appId d) (wd_id d) x \<and> wd_status x = wd_status d \<and> wd_attempts x = wd_attempts d"

lemma recorded_attempt:
  assumes "recordDeliveryResult E d data reason r s = Inr (u, t)"
  shows "(\<exists>x\<in>set (deliveries t). wd_id x = wd_id d) \<and> (\<forall>x\<in>set (deliveries t). \<not> expects d x)"
proof -
  let ?f = "\<lambda>x. if expects d x then x\<lparr>wd_status := dr_status data, wd_statusCode := dr_statusCode data,
          wd_responseBodySnippet := dr_responseBodySnippet data, wd_lastError := dr_lastError data,
          wd_nextRetryAt := dr_nextRetryAt data, wd_deliveredAt := dr_deliveredAt data,
          wd_attempts := Suc (wd_attempts x), wd_updatedAt := clock s\<rparr> else x"
  let ?k = "\<lambda>n v. if n \<noteq> (1 :: nat) then tx_return v else tx_bind (followDelivery E d reason r) (\<lambda>_. tx_return v)"
  obtain n v where found: "List.find (delivery_is (wd_appId d) (wd_id d)) (map ?f (deliveries s)) = Some v"
    and k: "?k n v (deliveries_update (map ?f) s) = Inr (u, t)"
    using assms unfolding recordDeliveryResult_def updateWebhookDeliveryResult_def expects_def [symmetric]
    by (auto simp: tx_bind_iff tx_some_iff findFirst_iff tx_return_iff updateMany_iff)
  have "addsOrder.resp (?k n v)"
    unfolding recordFinalDeliveryFailure_def enqueueWebhookDeliveryJob_def followDelivery_def
    by (intro addsOrder.store_rules outbox_adds resp_split)
  then have rest: "adds_deliveries (deliveries_update (map ?f) s) t" using k by (rule addsOrder.respD)
  define xs where "xs = map ?f (deliveries s)"
  from rest obtain new where new: "deliveries t = xs @ new" "\<forall>n\<in>set new. wd_id n \<notin> wd_id ` set xs"
    unfolding xs_def by (auto simp: adds_deliveries_def)
  have v: "v \<in> set xs" "wd_id v = wd_id d" using find_in [OF found] unfolding xs_def by (auto simp: delivery_is_def)
  have "\<not> expects d (?f x)" for x by (simp add: expects_def)
  then have "\<forall>x\<in>set xs. \<not> expects d x" unfolding xs_def set_map by blast
  moreover have "wd_id d \<in> wd_id ` set xs" using v(1) by (rule rev_image_eqI) (simp add: v(2))
  then have "\<forall>x\<in>set new. \<not> expects d x" using new(2) by (auto simp: expects_def delivery_is_def)
  ultimately show ?thesis using new(1) v by auto
qed

lemma recorded_once:
  assumes "recordDeliveryResult E d data reason r s = Inr (u, t)"
  shows "\<exists>v. recordDeliveryResult E' d data' reason' r' t = Inr (v, t) \<or> recordDeliveryResult E' d data' reason' r' t = Inl P2025"
proof -
  have n: "\<forall>x\<in>set (deliveries t). \<not> expects d x" using recorded_attempt [OF assms] by blast
  then have "filter (expects d) (deliveries t) = []" by (simp add: filter_empty_conv)
  moreover have "deliveries_update (map (\<lambda>x. if expects d x then g x else x)) t = t" for g
    using n by (cases t) (auto simp: map_idI)
  ultimately show ?thesis
    unfolding recordDeliveryResult_def updateWebhookDeliveryResult_def expects_def [symmetric]
    by (auto simp: tx_defs updateMany_def findFirst_def split: option.splits)
qed

lemma retry_delay_iff: "getWebhookRetryDelayMs n \<noteq> None \<longleftrightarrow> n \<le> 5"
  by (auto simp: getWebhookRetryDelayMs_def WEBHOOK_RETRY_DELAYS_MS_def nth_opt_def)

lemma retry_delay_bounds: "getWebhookRetryDelayMs n = Some d \<Longrightarrow> 60000 \<le> d \<and> d \<le> 21600000"
proof -
  have "\<forall>i<5. 60000 \<le> WEBHOOK_RETRY_DELAYS_MS ! i \<and> WEBHOOK_RETRY_DELAYS_MS ! i \<le> 21600000"
    by (simp add: WEBHOOK_RETRY_DELAYS_MS_def numeral_eq_Suc All_less_Suc)
  then show "getWebhookRetryDelayMs n = Some d \<Longrightarrow> ?thesis"
    by (auto simp: getWebhookRetryDelayMs_def nth_opt_def WEBHOOK_RETRY_DELAYS_MS_def split: if_splits)
qed

end
