(* ===== verification/Server.thy ===== *)
theory Server
  imports EscrowScopes Webhooks
begin

text \<open>
  The server as a whole. \<open>mutation\<close> lists the requests that run as one idempotent transaction and
  \<open>command\<close> all mutating requests of the API; \<open>handle\<close> dispatches a command to its service as the
  route files and controllers of \<open>modules/\<close> do. \<open>txn_step\<close> is the step relation of the system: one committed
  transaction of any handler or of the settlement worker, with arbitrary arguments, so that a
  sequence of steps covers every interleaving of concurrent handlers. A handler that runs alone is
  such a sequence. What every step keeps, every history keeps.
\<close>

section \<open>Requests\<close>

datatype mutation =
    CreateAgreement create_agreement_input
  | AcceptAgreement string
  | TransitionAgreement string AgreementStatus
  | CreateMilestone string create_milestone_input
  | CreateProof create_proof_input
  | ReviewProof string review_input
  | CreateDispute create_dispute_input
  | ResolveDispute string resolve_dispute_input

fun mutation_run :: "env \<Rightarrow> request \<Rightarrow> string \<Rightarrow> mutation \<Rightarrow> json dbtx" where
  "mutation_run E req appId (CreateAgreement input) = createAgreement_run E req appId input"
| "mutation_run E req appId (AcceptAgreement i) = acceptAgreement_run E req appId i"
| "mutation_run E req appId (TransitionAgreement i st) = transitionAgreement_run E req appId i st"
| "mutation_run E req appId (CreateMilestone i input) = createMilestone_run E req appId i input"
| "mutation_run E req appId (CreateProof input) = createProof_run E req appId input"
| "mutation_run E req appId (ReviewProof i input) = reviewProof_run E req appId i input"
| "mutation_run E req appId (CreateDispute input) = createDispute_run E req appId input"
| "mutation_run E req appId (ResolveDispute i input) = resolveDispute_run E req appId i input"

text \<open>The status a successful mutation answers with.\<close>

fun mutation_status :: "mutation \<Rightarrow> nat" where
  "mutation_status (CreateAgreement _) = 201"
| "mutation_status (CreateMilestone _ _) = 201"
| "mutation_status (CreateProof _) = 201"
| "mutation_status (CreateDispute _) = 201"
| "mutation_status _ = 200"

datatype command =
    Mutate mutation
  | CreateEscrow create_escrow_input
  | MarkEscrowFunded string "string option"
  | ReleaseEscrow string
  | RefundEscrow string

fun handle :: "env \<Rightarrow> ckb_services \<Rightarrow> request \<Rightarrow> string \<Rightarrow> command \<Rightarrow> json dbproc" where
  "handle E K req appId (Mutate (CreateAgreement input)) = createAgreementForApp E req appId input"
| "handle E K req appId (Mutate (AcceptAgreement i)) = acceptAgreement E req appId i"
| "handle E K req appId (Mutate (TransitionAgreement i st)) = transitionAgreement E req appId i st"
| "handle E K req appId (Mutate (CreateMilestone i input)) = createMilestoneForAgreement E req appId i input"
| "handle E K req appId (Mutate (CreateProof input)) = createProofForApp E req appId input"
| "handle E K req appId (Mutate (ReviewProof i input)) = reviewProofForApp E req appId i input"
| "handle E K req appId (Mutate (CreateDispute input)) = createDisputeForApp E req appId input"
| "handle E K req appId (Mutate (ResolveDispute i input)) = resolveDisputeForApp E req appId i input"
| "handle E K req appId (CreateEscrow input) = createEscrowForApp E K req appId input"
| "handle E K req appId (MarkEscrowFunded i h) = markEscrowFunded E K req appId i h"
| "handle E K req appId (ReleaseEscrow i) = releaseEscrow E K req appId i"
| "handle E K req appId (RefundEscrow i) = refundEscrow E K req appId i"

lemmas mutation_handlers =
  createAgreementForApp_def acceptAgreement_def transitionAgreement_def createMilestoneForAgreement_def
  createProofForApp_def reviewProofForApp_def createDisputeForApp_def resolveDisputeForApp_def

lemma handle_mutation:
  "handle E K req appId (Mutate m) =
     runIdempotentTransaction E req appId (mutation_status m) (\<lambda>_. mutation_run E req appId m)"
  by (cases m) (simp_all add: mutation_handlers)

section \<open>Handlers as sequences of transactions\<close>

context handler_frame
begin

lemma finalizeTwice_presp: "resp m \<Longrightarrow> presp (finalizeTwice E req appId m)"
  unfolding finalizeTwice_def by (intro presp_rules replay_presp)

lemma createEscrow_presp:
  assumes "\<And>ctx. resp (reserveEscrowCreation E appId input ctx)"
    and "\<And>r ctx. resp (discardEscrowCreation appId r ctx)"
    and "\<And>r ctx res. resp (finalizeEscrowCreation E req appId r ctx res)"
  shows "presp (createEscrowForApp E K req appId input)"
proof -
  have f: "presp (createEscrowFailure E req appId ctx r b e)" for ctx r b e
    unfolding createEscrowFailure_def by (intro presp_rules replay_presp assms(2))
  show ?thesis unfolding createEscrowForApp_def createReservedEscrow_def
    by (intro presp_rules replay_presp presp_try assms(1) f finalizeTwice_presp assms(3))
qed

lemma markFunded_presp:
  assumes "\<And>ctx. resp (beginEscrowFunding E req appId i ctx)"
    and "\<And>b ctx res. resp (finalizeEscrowFunding E req appId b ctx res)"
  shows "presp (markEscrowFunded E K req appId i h)"
  unfolding markEscrowFunded_def fundReservedEscrow_def markFundedFailure_def
  by (intro presp_rules replay_presp presp_try assms failure_presp)

lemma settlement_presp:
  assumes "\<And>ctx. resp (reserveEscrowSettlement E req appId i operation ctx)"
    and "\<And>r ctx e. resp (finalizeFailedEscrowSettlement E req appId operation r ctx e)"
    and "\<And>r ctx res. resp (finalizeSuccessfulEscrowSettlement E req appId operation r ctx res)"
  shows "presp (executeEscrowSettlement E K req appId i operation)"
  unfolding executeEscrowSettlement_def settleReservedEscrow_def settlementRace_def
  by (intro presp_rules replay_presp presp_try assms finalizeTwice_presp)

end

text \<open>The transactions of a tenant; a rule for each kind of transaction the services commit.\<close>

inductive txn_step :: "string \<Rightarrow> db \<Rightarrow> db \<Rightarrow> bool" for appId :: string where
  sweep: "deleteExpiredIdempotencyKey appId key s = Inr (u, t) \<Longrightarrow> txn_step appId s t"
| reserve: "reserveIdempotentRequest E appId ctx s = Inr (k, t) \<Longrightarrow> txn_step appId s t"
| clear: "clearPendingIdempotentRequest appId ctx s = Inr (u, t) \<Longrightarrow> txn_step appId s t"
| mutate: "tx_bind (mutation_run E req appId m) (\<lambda>result.
     tx_bind (storeIdempotentResponse E appId ctx st (envelope req result)) (\<lambda>_. tx_return result)) s = Inr (v, t)
     \<Longrightarrow> txn_step appId s t"
| escrow_reserve: "reserveEscrowCreation E appId input ctx s = Inr (r, t) \<Longrightarrow> txn_step appId s t"
| escrow_discard: "discardEscrowCreation appId r ctx s = Inr (u, t) \<Longrightarrow> txn_step appId s t"
| escrow_finalize: "finalizeEscrowCreation E req appId r ctx res s = Inr (v, t) \<Longrightarrow> txn_step appId s t"
| funding_begin: "beginEscrowFunding E req appId i ctx s = Inr (e, t) \<Longrightarrow> txn_step appId s t"
| funding_finalize: "finalizeEscrowFunding E req appId b ctx res s = Inr (v, t) \<Longrightarrow> txn_step appId s t"
| settle_reserve: "reserveEscrowSettlement E req appId i operation ctx s = Inr (rs, t) \<Longrightarrow> txn_step appId s t"
| settle_failed: "finalizeFailedEscrowSettlement E req appId operation rs ctx err s = Inr (v, t) \<Longrightarrow> txn_step appId s t"
| settle_done: "finalizeSuccessfulEscrowSettlement E req appId operation rs ctx res s = Inr (v, t) \<Longrightarrow> txn_step appId s t"
| observe: "applyObservation E n x e ob s = Inr (out, t) \<Longrightarrow> tr_appId x = appId \<Longrightarrow> txn_step appId s t"

inductive_cases txn_stepE: "txn_step appId s t"

interpretation txns: step_order "(txn_step appId)\<^sup>*\<^sup>*" for appId
  by unfold_locales auto

lemma txn_respI: "(\<And>s x t. m s = Inr (x, t) \<Longrightarrow> txn_step appId s t) \<Longrightarrow> txns.resp appId m"
  by (rule txns.respI) blast

interpretation txnHandlers: handler_frame "(txn_step appId)\<^sup>*\<^sup>*" appId for appId
  by unfold_locales (intro txn_respI, erule txn_step.intros)+

lemma handle_txns: "txns.presp appId (handle E K req appId c)"
proof (cases c)
  case (Mutate m)
  show ?thesis unfolding Mutate handle_mutation
    by (rule txnHandlers.handler_presp) (rule txn_respI, erule txn_step.mutate)
next
  case (CreateEscrow input)
  show ?thesis unfolding CreateEscrow handle.simps
    by (rule txnHandlers.createEscrow_presp; rule txn_respI, erule txn_step.intros)
next
  case (MarkEscrowFunded i h)
  show ?thesis unfolding MarkEscrowFunded handle.simps
    by (rule txnHandlers.markFunded_presp; rule txn_respI, erule txn_step.intros)
next
  case (ReleaseEscrow i)
  show ?thesis unfolding ReleaseEscrow handle.simps releaseEscrow_def
    by (rule txnHandlers.settlement_presp; rule txn_respI, erule txn_step.intros)
next
  case (RefundEscrow i)
  show ?thesis unfolding RefundEscrow handle.simps refundEscrow_def
    by (rule txnHandlers.settlement_presp; rule txn_respI, erule txn_step.intros)
qed

section \<open>What every transaction keeps\<close>

text \<open>
  The transactions of the server against a relation of the database: a \<open>transaction_frame\<close> is an
  \<open>idempotent_frame\<close> that every transaction body of the services respects. Histories and handlers
  then respect it as well.
\<close>

locale transaction_frame = idempotent_frame +
  assumes mutation: "resp (mutation_run E req appId m)"
    and creation: "resp (reserveEscrowCreation E appId input ctx)"
      "resp (discardEscrowCreation appId r ctx)"
      "resp (finalizeEscrowCreation E req appId r ctx res)"
    and funding: "resp (beginEscrowFunding E req appId i ctx)"
      "resp (finalizeEscrowFunding E req appId b ctx res)"
    and settlement: "resp (reserveEscrowSettlement E req appId i operation ctx)"
      "resp (finalizeFailedEscrowSettlement E req appId operation rs ctx err)"
      "resp (finalizeSuccessfulEscrowSettlement E req appId operation rs ctx res)"
    and observation: "tr_appId x = appId \<Longrightarrow> resp (applyObservation E n x e ob)"
begin

lemma step_respects: "txn_step appId s t \<Longrightarrow> R s t"
proof (erule txn_stepE)
  fix E req m ctx st v
  assume a: "tx_bind (mutation_run E req appId m) (\<lambda>result.
     tx_bind (storeIdempotentResponse E appId ctx st (envelope req result)) (\<lambda>_. tx_return result)) s = Inr (v, t)"
  have "resp (tx_bind (mutation_run E req appId m) (\<lambda>result.
     tx_bind (storeIdempotentResponse E appId ctx st (envelope req result)) (\<lambda>_. tx_return result)))"
    by (intro resp_rules store mutation)
  then show "R s t" using a by (rule respD)
qed (erule respD [OF sweep] respD [OF reserve] respD [OF clear] respD [OF creation(1)] respD [OF creation(2)]
    respD [OF creation(3)] respD [OF funding(1)] respD [OF funding(2)] respD [OF settlement(1)]
    respD [OF settlement(2)] respD [OF settlement(3)] respD [OF observation, rotated], assumption?)+

lemma history_respects: "(txn_step appId)\<^sup>*\<^sup>* s t \<Longrightarrow> R s t"
  by (induction rule: rtranclp_induct) (auto intro: R_refl R_trans step_respects)

lemma handler_respects: "R s (snd (handle E K req appId c s))"
  using handle_txns by (intro history_respects) (simp add: txns.presp_def)

end

lemma reconcile_step:
  "snd (reconcileCkbTransaction E K i s) = s
     \<or> (\<exists>a. txn_step a s (snd (reconcileCkbTransaction E K i s)))"
  unfolding reconcileCkbTransaction_def
  by (auto simp: pr_bind_def atomically_def findFirst_def tx_gets_def pr_throw_def pr_lift_def
      split: option.splits sum.splits dest: txn_step.observe [OF _ refl])

interpretation lifeTx: transaction_frame life_le appId for appId
proof unfold_locales
  show "lifeOrder.resp (mutation_run E req appId m)" for E req m
    by (cases m) (simp_all add: agreement_runs_life createMilestone_run_life proof_runs_life dispute_runs_life)
qed (rule creation_life settlement_life)+

interpretation tenantTx: transaction_frame "foreign_same a" a for a
proof unfold_locales
  show "tenantFrame.resp a (mutation_run E req a m)" for E req m
    by (cases m) (simp_all add: agreement_runs_tenant createMilestone_run_tenant proof_runs_tenant dispute_runs_tenant)
qed (use creation_tenant settlement_tenant in auto)

interpretation logTx: transaction_frame log_le appId for appId
proof unfold_locales
  show "logOrder.resp (mutation_run E req appId m)" for E req m
    by (cases m) (simp_all add: agreement_runs_log createMilestone_run_log proof_runs_log dispute_runs_log)
qed (rule creation_log settlement_log)+

interpretation allocTx: transaction_frame alloc_kept appId for appId
proof unfold_locales
  show "allocOrder.resp (mutation_run E req appId m)" for E req m
    by (cases m) (simp_all add: agreement_runs_alloc createMilestone_run_alloc proof_runs_alloc dispute_runs_alloc)
qed (rule creation_alloc settlement_alloc)+

interpretation scopeTx: transaction_frame scope_kept appId for appId
proof unfold_locales
  show "scopeOrder.resp (mutation_run E req appId m)" for E req m
    by (cases m) (simp_all add: scope_runs_agreement scope_run_milestone scope_runs_proof scope_runs_dispute)
qed (rule scope_transactions)+

section \<open>The system\<close>

text \<open>
  A step of the system: a transaction of some tenant, a transaction of the webhook services or of the
  delivery worker, an operation of a worker on the job queue, the removal of expired idempotency keys,
  or the passing of time.
\<close>

inductive queue_step :: "db \<Rightarrow> db \<Rightarrow> bool" where
  enqueue: "enqueueJob E p s = Inr (j, t) \<Longrightarrow> queue_step s t"
| claim: "claimAvailableJobs w queues limit leaseMs s = Inr (js, t) \<Longrightarrow> queue_step s t"
| complete: "completeJob i w s = Inr (u, t) \<Longrightarrow> queue_step s t"
| defer_job: "deferJob i w delay s = Inr (u, t) \<Longrightarrow> queue_step s t"
| fail: "failJob j w err rnd s = Inr (b, t) \<Longrightarrow> queue_step s t"
| renew: "renewJobLease i w leaseMs s = Inr (l, t) \<Longrightarrow> queue_step s t"
| replay: "replayJob E i s = Inr (j, t) \<Longrightarrow> queue_step s t"
| recover: "releaseStaleLocks staleMs s = Inr (n, t) \<Longrightarrow> queue_step s t"

inductive server_step :: "db \<Rightarrow> db \<Rightarrow> bool" where
  tenant: "txn_step appId s t \<Longrightarrow> server_step s t"
| queue: "queue_step s t \<Longrightarrow> server_step s t"
| webhook: "webhook_step s t \<Longrightarrow> server_step s t"
| cleanup: "cleanupExpiredIdempotencyKeys s = Inr (u, t) \<Longrightarrow> server_step s t"
| tick: "clock s \<le> n \<Longrightarrow> server_step s (s\<lparr>clock := n\<rparr>)"

definition empty_db :: db where
  "empty_db = \<lparr>agreements = [], milestones = [], escrows = [], transactions = [], proofs = [], reviews = [],
     disputes = [], events = [], endpoints = [], deliveries = [], jobs = [], idempotencyKeys = [],
     auditLogs = [], clock = 0, uuidCount = 0\<rparr>"

abbreviation reachable :: "db \<Rightarrow> bool" where
  "reachable \<equiv> server_step\<^sup>*\<^sup>* empty_db"

lemma queue_core: "queue_step s t \<Longrightarrow> core t = core s"
proof (erule queue_step.cases)
  show "enqueueJob E p s' = Inr (j, t') \<Longrightarrow> s = s' \<Longrightarrow> t = t' \<Longrightarrow> core t = core s" for E p s' j t'
    using enqueueJob_core [THEN coreFrame.respD] by blast
qed (auto simp: claimAvailableJobs_def completeJob_def deferJob_def failJob_def renewJobLease_def replayJob_def
    releaseStaleLocks_def update_owned_def tx_iff Let_def split: if_splits)

lemma queue_log: "queue_step s t \<Longrightarrow> log_le s t"
proof (erule queue_step.cases)
  show "enqueueJob E p s' = Inr (j, t') \<Longrightarrow> s = s' \<Longrightarrow> t = t' \<Longrightarrow> log_le s t" for E p s' j t'
    using enqueueJob_log [THEN logOrder.respD] by blast
qed (auto simp: claimAvailableJobs_def completeJob_def deferJob_def failJob_def renewJobLease_def replayJob_def
    releaseStaleLocks_def update_owned_def tx_iff Let_def log_le_def split: if_splits)

text \<open>A relation that holds along every step of the system holds along every run of it.\<close>

locale system_frame = step_order R for R :: "db \<Rightarrow> db \<Rightarrow> bool" +
  assumes tenant_step: "txn_step a s t \<Longrightarrow> R s t"
    and queue_moves: "queue_step s t \<Longrightarrow> R s t"
    and webhook_moves: "webhook_step s t \<Longrightarrow> R s t"
    and cleanup_step: "R s (idempotencyKeys_update (filter p) s)"
    and tick_step: "R s (s\<lparr>clock := n\<rparr>)"
begin

lemma server_respects: "server_step s t \<Longrightarrow> R s t"
  by (erule server_step.cases)
    (auto intro: tenant_step queue_moves webhook_moves tick_step simp: cleanupExpiredIdempotencyKeys_def tx_iff cleanup_step)

lemma run_respects: "server_step\<^sup>*\<^sup>* s t \<Longrightarrow> R s t"
  by (induction rule: rtranclp_induct) (auto intro: R_refl R_trans server_respects)

end

interpretation lifeSys: system_frame life_le
proof unfold_locales
  show "txn_step a s t \<Longrightarrow> life_le s t" for a s t by (rule lifeTx.step_respects)
  show "queue_step s t \<Longrightarrow> life_le s t" for s t by (intro life_core queue_core)
  show "life_le s t" if "webhook_step s t" for s t
    by (simp add: life_le_def rows_refls business_eqD [OF webhook_business [OF that]])
qed (simp_all add: life_le_def rows_refls)

interpretation logSys: system_frame log_le
proof unfold_locales
  show "txn_step a s t \<Longrightarrow> log_le s t" for a s t by (rule logTx.step_respects)
  show "queue_step s t \<Longrightarrow> log_le s t" for s t by (rule queue_log)
  show "webhook_step s t \<Longrightarrow> log_le s t" for s t by (rule webhook_log)
qed (simp_all add: log_le_def)

interpretation allocSys: system_frame alloc_kept
proof unfold_locales
  show "txn_step a s t \<Longrightarrow> alloc_kept s t" for a s t by (rule allocTx.step_respects)
  show "queue_step s t \<Longrightarrow> alloc_kept s t" for s t by (intro alloc_core queue_core)
  show "alloc_kept s t" if "webhook_step s t" for s t
    by (simp add: alloc_kept_def alloc_inv_def business_eqD [OF webhook_business [OF that]])
qed (simp_all add: alloc_kept_def alloc_inv_def)

interpretation scopeSys: system_frame scope_kept
proof unfold_locales
  show "txn_step a s t \<Longrightarrow> scope_kept s t" for a s t by (rule scopeTx.step_respects)
  show "queue_step s t \<Longrightarrow> scope_kept s t" for s t by (intro scope_core queue_core)
  show "webhook_step s t \<Longrightarrow> scope_kept s t" for s t by (intro scope_same business_eqD webhook_business)
qed (simp_all add: scope_kept_def scope_inv_def)

lemma empty_inv: "alloc_inv empty_db" "scope_inv empty_db"
  by (simp_all add: empty_db_def alloc_inv_def scope_inv_def)

end
