(* ===== verification/Replays.thy ===== *)
theory Replays
  imports Server
begin

text \<open>
  Idempotency of the API as a whole. A handler that answers has stored its answer under the key of
  the request, whatever way it took, and a handler that finds the answer stored under the key returns
  it and does nothing else. A mutation that fails leaves the database as it found it.
\<close>

section \<open>Transactions that store what they answer\<close>

definition stores :: "env \<Rightarrow> request \<Rightarrow> string \<Rightarrow> context_key \<Rightarrow> json dbtx \<Rightarrow> bool" where
  "stores E req appId ctx m \<longleftrightarrow> (\<forall>s v t. m s = Inr (v, t) \<longrightarrow>
     (\<exists>st r. storeIdempotentResponse E appId ctx st (envelope req v) r = Inr ((), t)))"

lemma stores_last: "stores E req appId ctx
    (tx_bind (storeIdempotentResponse E appId ctx st (envelope req v)) (\<lambda>_. tx_return v))"
  by (auto simp: stores_def tx_iff)

lemma stores_bind: "(\<And>x. stores E req appId ctx (f x)) \<Longrightarrow> stores E req appId ctx (tx_bind m f)"
  by (fastforce simp: stores_def tx_iff)

lemma stores_if:
  "stores E req appId ctx m \<Longrightarrow> stores E req appId ctx n \<Longrightarrow> stores E req appId ctx (if b then m else n)"
  by simp

lemma stores_answered:
  "stores E req appId ctx m \<Longrightarrow> m s = Inr (v, t) \<Longrightarrow> 0 < idempotencyRetentionMs E
     \<Longrightarrow> answered appId (ctx_key ctx) (ctx_requestHash ctx) v t"
  unfolding stores_def by (blast intro: store_answered)

lemmas stores_rules = stores_last stores_bind stores_if

lemma stores_finalizers:
  "stores E req appId ctx (finalizeEscrowCreation E req appId r ctx res)"
  "stores E req appId ctx (finalizeEscrowFunding E req appId b ctx res)"
  "stores E req appId ctx (finalizeFailedEscrowSettlement E req appId operation rs ctx err)"
  "stores E req appId ctx (finalizeSuccessfulEscrowSettlement E req appId operation rs ctx res)"
  unfolding finalizeEscrowCreation_def finalizeEscrowFunding_def finalizeFailedEscrowSettlement_def
    finalizeSuccessfulEscrowSettlement_def Let_def
  by (intro stores_rules)+

section \<open>Handlers\<close>

lemma replay_answered:
  assumes "getIdempotencyReplay E req a s = (Inr (c, Some r), t)" and "idempotencyHeader req = Inr key"
  shows "answered a key (requestHashOf E req) (member_of ''data'' (rp_body r)) t"
  using assms judged_answered [of key "requestHashOf E req" a s] by (auto simp: getIdempotencyReplay_eq Let_def)

lemma replay_context:
  assumes "getIdempotencyReplay E req a s = (Inr (c, None), t)" and "idempotencyHeader req = Inr key"
  shows "c = \<lparr>ctx_key = key, ctx_requestHash = requestHashOf E req\<rparr> \<and> t = sweepKey a key s"
  using assms by (auto simp: getIdempotencyReplay_eq Let_def dest: judge_no_replay)

definition answering :: "env \<Rightarrow> request \<Rightarrow> string \<Rightarrow> string \<Rightarrow> json dbproc \<Rightarrow> bool" where
  "answering E req appId key m \<longleftrightarrow>
     (\<forall>s v t. m s = (Inr v, t) \<longrightarrow> answered appId key (requestHashOf E req) v t)"

lemma answering_throw: "answering E req appId key (pr_throw e)"
  by (simp add: answering_def pr_throw_def)

lemma answering_catch:
  "answering E req appId key m \<Longrightarrow> (\<And>e. answering E req appId key (h e)) \<Longrightarrow> answering E req appId key (pr_catch m h)"
  by (auto simp: answering_def pr_catch_def split: prod.splits sum.splits)

lemma answering_bind:
  "(\<And>x. answering E req appId key (f x)) \<Longrightarrow> answering E req appId key (pr_bind m f)"
  by (auto simp: answering_def pr_bind_def split: prod.splits sum.splits)

lemma answering_sum:
  "(\<And>e. answering E req appId key (f e)) \<Longrightarrow> (\<And>x. answering E req appId key (g x))
     \<Longrightarrow> answering E req appId key (case v of Inl e \<Rightarrow> f e | Inr x \<Rightarrow> g x)"
  by (cases v) auto

text \<open>The recovery paths: a stored answer is returned, or the error stands.\<close>

lemma answering_replay:
  assumes "idempotencyHeader req = Inr key"
    and "\<And>e. answering E req appId key (f e)"
  shows "answering E req appId key (pr_bind (if b
        then pr_bind (getIdempotencyReplay E req appId) (\<lambda>r. pr_return (snd r))
        else pr_return None) (\<lambda>v. case v of Some r \<Rightarrow> pr_return (member_of ''data'' (rp_body r)) | None \<Rightarrow> f e))"
  using assms(2) [of e] replay_answered [OF _ assms(1)]
  by (auto simp: answering_def pr_defs split: if_splits prod.splits sum.splits option.splits)

lemma answering_finalizeTwice:
  assumes h: "idempotencyHeader req = Inr key" and m: "answering E req appId key (atomically m)"
  shows "answering E req appId key (finalizeTwice E req appId m)"
proof -
  have "answering E req appId key (pr_bind (pr_catch (pr_bind (getIdempotencyReplay E req appId) (\<lambda>r. pr_return (snd r)))
       (\<lambda>_. pr_return None)) (\<lambda>v. case v of Some r \<Rightarrow> pr_return (member_of ''data'' (rp_body r)) | None \<Rightarrow> pr_throw e))" for e
    using replay_answered [OF _ h] by (auto simp: answering_def pr_defs split: prod.splits sum.splits option.splits)
  then show ?thesis unfolding finalizeTwice_def by (intro answering_catch m)
qed

lemma answering_finalizer:
  assumes "stores E req appId \<lparr>ctx_key = key, ctx_requestHash = requestHashOf E req\<rparr> m"
    and "0 < idempotencyRetentionMs E"
  shows "answering E req appId key (atomically m)"
  using stores_answered [OF assms(1) _ assms(2)] by (auto simp: answering_def atomically_def split: sum.splits)

text \<open>Every handler starts with the lookup; what follows it has the context of the request.\<close>

lemma answering_lookup:
  assumes h: "idempotencyHeader req = Inr key"
    and "answering E req appId key (f \<lparr>ctx_key = key, ctx_requestHash = requestHashOf E req\<rparr>)"
  shows "answering E req appId key (pr_bind (getIdempotencyReplay E req appId) (\<lambda>(ctx, replay).
     case replay of Some r \<Rightarrow> pr_return (member_of ''data'' (rp_body r)) | None \<Rightarrow> f ctx))"
  using assms(2) replay_answered [OF _ h] replay_context [OF _ h]
  by (fastforce simp: answering_def pr_defs split: prod.splits sum.splits option.splits)

lemma answering_try:
  assumes "\<And>e. answering E req appId key (h e)" and "\<And>x. answering E req appId key (f x)"
  shows "answering E req appId key (pr_try m h f)"
  using assms by (auto simp: answering_def pr_try_def split: sum.splits)

lemma answering_failure:
  assumes "idempotencyHeader req = Inr key"
  shows "answering E req appId key (idempotentFailure E req appId c b e)"
    "answering E req appId key (createEscrowFailure E req appId c r d e)"
    "answering E req appId key (settlementRace E req appId e)"
  unfolding idempotentFailure_def createEscrowFailure_def settlementRace_def
  by (intro answering_replay assms answering_bind answering_throw)+

lemma answering_funding:
  assumes h: "idempotencyHeader req = Inr key" and ret: "0 < idempotencyRetentionMs E"
    and ctx: "ctx = \<lparr>ctx_key = key, ctx_requestHash = requestHashOf E req\<rparr>"
  shows "answering E req appId key (pr_try (beginEscrowFunding E req appId i ctx)
     (markFundedFailure E req appId ctx False) (fundReservedEscrow E K req appId ctx txHash))"
proof -
  have funded: "answered appId key (requestHashOf E req) (serializeEscrow e) t"
    if "beginEscrowFunding E req appId i ctx s = Inr (e, t)" "es_status e = ES_funded" for s e t
    using that store_answered [OF _ ret, of appId ctx] by (auto simp: beginEscrowFunding_def tx_iff ctx)
  have later: "answering E req appId key (atomically (finalizeEscrowFunding E req appId e ctx r))" for e r
    unfolding ctx by (intro answering_finalizer stores_finalizers ret)
  show ?thesis
    using later answering_failure(1) [OF h] funded
    by (auto simp: answering_def pr_try_def fundReservedEscrow_def markFundedFailure_def pr_return_def split: sum.splits)
qed

lemma answering_escrow_handlers:
  assumes h: "idempotencyHeader req = Inr key" and ret: "0 < idempotencyRetentionMs E"
  shows "answering E req appId key (createEscrowForApp E K req appId input)"
    "answering E req appId key (markEscrowFunded E K req appId i txHash)"
    "answering E req appId key (executeEscrowSettlement E K req appId i operation)"
proof -
  let ?ctx = "\<lparr>ctx_key = key, ctx_requestHash = requestHashOf E req\<rparr>"
  note final = answering_finalizeTwice [OF h answering_finalizer [OF stores_finalizers(1) ret]]
    answering_finalizeTwice [OF h answering_finalizer [OF stores_finalizers(4) ret]]
  show "answering E req appId key (createEscrowForApp E K req appId input)"
    unfolding createEscrowForApp_def createReservedEscrow_def
    by (intro answering_lookup h answering_bind answering_try answering_failure answering_sum answering_catch final)
  show "answering E req appId key (markEscrowFunded E K req appId i txHash)"
    unfolding markEscrowFunded_def by (intro answering_lookup h answering_funding ret refl)
  show "answering E req appId key (executeEscrowSettlement E K req appId i operation)"
    unfolding executeEscrowSettlement_def settleReservedEscrow_def
    by (intro answering_lookup h answering_bind answering_try answering_failure answering_sum answering_throw final)
qed

lemma mutation_keys: "keyFrame.resp (mutation_run E req appId m)"
  by (cases m) (simp_all add: agreement_runs_keys createMilestone_run_keys proof_runs_keys dispute_runs_keys)

lemma handler_header: "idempotencyHeader req = Inl e \<Longrightarrow> handle E K req appId c s = (Inl e, s)"
  by (cases c) (simp_all add: handle_mutation runIdempotentTransaction_def createEscrowForApp_def markEscrowFunded_def
      releaseEscrow_def refundEscrow_def executeEscrowSettlement_def pr_bind_def getIdempotencyReplay_header)

lemma handler_answered:
  assumes ret: "0 < idempotencyRetentionMs E" and ok: "handle E K req appId c s = (Inr v, t)"
  shows "\<exists>key. idempotencyHeader req = Inr key \<and> answered appId key (requestHashOf E req) v t"
proof (cases "idempotencyHeader req")
  case (Inl e)
  with ok show ?thesis by (simp add: handler_header)
next
  case (Inr key)
  show ?thesis
  proof (cases c)
    case (Mutate m)
    with ok show ?thesis using run_answered [OF mutation_keys ret] by (simp add: handle_mutation)
  qed (use ok Inr answering_escrow_handlers [OF Inr ret] in
      \<open>auto simp: answering_def releaseEscrow_def refundEscrow_def\<close>)
qed

lemma answered_lookup:
  assumes "answered appId key (requestHashOf E req) v s" and "idempotencyHeader req = Inr key"
  shows "\<exists>c r. getIdempotencyReplay E req appId s = (Inr (c, Some r), s) \<and> member_of ''data'' (rp_body r) = v"
  using assms by (auto simp: answered_def getIdempotencyReplay_eq sweepKey_live Let_def judgeExisting_def
      split: option.splits)

lemma answered_handler:
  assumes "answered appId key (requestHashOf E req) v s" and "idempotencyHeader req = Inr key"
  shows "handle E K req appId c s = (Inr v, s)"
proof -
  from answered_lookup [OF assms] obtain x r
    where "getIdempotencyReplay E req appId s = (Inr (x, Some r), s)" "member_of ''data'' (rp_body r) = v" by blast
  then show ?thesis
    by (cases c) (simp_all add: handle_mutation runIdempotentTransaction_def createEscrowForApp_def markEscrowFunded_def
        releaseEscrow_def refundEscrow_def executeEscrowSettlement_def pr_bind_def pr_return_def)
qed

section \<open>Conflicts and failures\<close>

lemma handler_conflict:
  assumes "idempotencyHeader req = Inr key"
    and "List.find (key_is appId key) (idempotencyKeys s) = Some k" and "\<not> expired_key (clock s) k"
    and "ik_requestHash k \<noteq> requestHashOf E req"
  shows "handle E K req appId c s = (Inl (conflict ''idempotency_key_conflict''), s)"
proof -
  have "getIdempotencyReplay E req appId s = (Inl (conflict ''idempotency_key_conflict''), s)"
    using assms by (simp add: getIdempotencyReplay_eq sweepKey_live Let_def judgeExisting_def)
  then show ?thesis
    by (cases c) (simp_all add: handle_mutation runIdempotentTransaction_def createEscrowForApp_def markEscrowFunded_def
        releaseEscrow_def refundEscrow_def executeEscrowSettlement_def pr_bind_def)
qed

lemma handler_in_progress:
  assumes "idempotencyHeader req = Inr key"
    and "List.find (key_is appId key) (idempotencyKeys s) = Some k" and "\<not> expired_key (clock s) k"
    and "ik_requestHash k = requestHashOf E req" and "ik_status k = IS_pending"
  shows "handle E K req appId c s = (Inl (conflict ''idempotency_key_in_progress''), s)"
proof -
  have "getIdempotencyReplay E req appId s = (Inl (conflict ''idempotency_key_in_progress''), s)"
    using assms by (simp add: getIdempotencyReplay_eq sweepKey_live Let_def judgeExisting_def split: prod.splits)
  then show ?thesis
    by (cases c) (simp_all add: handle_mutation runIdempotentTransaction_def createEscrowForApp_def markEscrowFunded_def
        releaseEscrow_def refundEscrow_def executeEscrowSettlement_def pr_bind_def)
qed

text \<open>
  A mutation that fails leaves the database as the lookup left it. The exception is a
  unique-constraint violation inside the transaction, which the \<open>catch\<close> mistakes for a lost race
  on the key: it finds its own reservation, answers that the request is in progress, and the
  reservation stays.
\<close>

lemma failure_cleared:
  assumes h: "idempotencyHeader req = Inr key"
    and ctx: "ctx = \<lparr>ctx_key = key, ctx_requestHash = requestHashOf E req\<rparr>"
    and r: "reserveIdempotentRequest E appId ctx s = Inr (k, s1)"
    and f: "idempotentFailure E req appId ctx True x s1 = (Inl e, t)"
  shows "(e = conflict ''idempotency_key_in_progress'' \<and> isUniqueConstraintError x \<and> t = s1) \<or> (e = x \<and> t = s)"
proof -
  have none: "\<forall>k\<in>set (idempotencyKeys s). \<not> key_is appId key k" and k: "key_is appId key k"
    "ik_requestHash k = requestHashOf E req" "ik_status k = IS_pending"
    and s1: "s1 = idempotencyKeys_update (\<lambda>ks. ks @ [k]) s"
    using r by (auto simp: reserve_iff ctx)
  have found: "List.find (key_is appId key) (idempotencyKeys s1) = Some k"
    using none k s1 by (simp add: find_snoc find_None_iff [THEN iffD2])
  note c = clear_reserved [OF r]
  have gone: "clearPendingIdempotentRequest appId ctx s = Inr ((), s)"
    using none by (cases s) (auto simp: clearPendingIdempotentRequest_def deletePendingIdempotencyKey_def
        deleteMany_def tx_modify_def ctx filter_id_conv)
  show ?thesis
  proof (cases "isUniqueConstraintError x")
    case False
    with f c show ?thesis by (simp add: idempotentFailure_def pr_defs)
  next
    case True
    show ?thesis
    proof (cases "expired_key (clock s1) k")
      case live: False
      then have "getIdempotencyReplay E req appId s1 = (Inl (conflict ''idempotency_key_in_progress''), s1)"
        using h found k by (simp add: getIdempotencyReplay_eq sweepKey_live Let_def judgeExisting_def ctx split: prod.splits)
      with f True show ?thesis by (simp add: idempotentFailure_def pr_defs)
    next
      case dead: True
      have sw: "sweepKey appId key s1 = s"
        using none k found dead s1 by (cases s) (auto simp: sweepKey_def filter_id_conv)
      then have "getIdempotencyReplay E req appId s1 = (Inr (ctx, None), s)"
        using h none by (auto simp: getIdempotencyReplay_eq Let_def judgeExisting_def ctx find_None_iff split: option.splits
            dest!: find_in)
      with f True gone show ?thesis by (simp add: idempotentFailure_def pr_defs)
    qed
  qed
qed

lemma mutation_failure:
  assumes "handle E K req appId (Mutate m) s = (Inl e, t)"
    and "e \<noteq> conflict ''idempotency_key_in_progress''"
  shows "t = s \<or> (\<exists>key. idempotencyHeader req = Inr key \<and> t = sweepKey appId key s)"
proof (cases "idempotencyHeader req")
  case (Inl x)
  with assms show ?thesis by (simp add: handler_header)
next
  case (Inr key)
  let ?ctx = "\<lparr>ctx_key = key, ctx_requestHash = requestHashOf E req\<rparr>"
  let ?s = "sweepKey appId key s"
  note c = assms(1) [unfolded handle_mutation run_cases [OF Inr refl] Let_def]
  have "t = ?s"
  proof (cases "judgeExisting ?ctx (List.find (key_is appId key) (idempotencyKeys ?s))")
    case J: (Inr q)
    with c obtain c' where q: "q = (c', None)" by (cases q; cases "snd q") auto
    then have "List.find (key_is appId key) (idempotencyKeys ?s) = None" using J judge_no_replay by blast
    then have "\<exists>k s1. reserveIdempotentRequest E appId ?ctx ?s = Inr (k, s1)"
      by (auto simp: reserveIdempotentRequest_def reserveIdempotencyKey_def insertRow_def
          idempotency_clash_def key_is_def list_ex_iff tx_defs now_def find_None_iff)
    then obtain k s1 where r: "reserveIdempotentRequest E appId ?ctx ?s = Inr (k, s1)" by blast
    with c J q obtain x where "idempotentFailure E req appId ?ctx True x s1 = (Inl e, t)"
      by (auto simp: pr_catch_def atomically_def split: sum.splits)
    from failure_cleared [OF Inr refl r this] assms(2) show ?thesis by simp
  qed (use c in simp)
  with Inr show ?thesis by blast
qed

end
