(* ===== verification/WorkFrames.thy ===== *)
theory WorkFrames
  imports Replays
begin

text \<open>
  The outbox of the server: the jobs and the webhook deliveries that transactions leave for the
  workers. No transaction touches them but through \<open>createEvent\<close> and \<open>enqueueJob\<close>, so that a
  relation of the outbox these two respect is respected by every transaction of the server; the
  locale \<open>work_frame\<close> proves it once. For the job queue the relation says that jobs follow their
  lifecycle and that identifiers and deduplication keys stay unique.
\<close>

section \<open>Relations of the outbox\<close>

locale work_frame = step_order R for R :: "db \<Rightarrow> db \<Rightarrow> bool" +
  assumes outbox_same: "jobs t = jobs s \<Longrightarrow> deliveries t = deliveries s \<Longrightarrow> R s t"
    and outbox_event: "resp (createEvent E a d)"
    and outbox_job: "resp (enqueueJob E q)"
begin

lemma outbox_insert:
  "resp (insertRow auditLogs auditLogs_update c2 l)"
  "resp (insertRow agreements agreements_update c5 a)"
  "resp (insertRow milestones milestones_update c6 m)"
  "resp (insertRow escrows escrows_update c7 x)"
  "resp (insertRow transactions transactions_update c8 tr)"
  "resp (insertRow proofs proofs_update c9 p)"
  "resp (insertRow reviews reviews_update c10 r)"
  "resp (insertRow disputes disputes_update c11 dp)"
  "resp (insertRow idempotencyKeys idempotencyKeys_update c12 k)"
  "resp (freshId E)" "resp now"
  by (auto intro!: respI outbox_same simp: tx_iff)

lemma outbox_update:
  "resp (updateMany agreements agreements_update p3 f3)"
  "resp (updateMany milestones milestones_update p4 f4)"
  "resp (updateMany escrows escrows_update p5 f5)"
  "resp (updateMany transactions transactions_update p6 f6)"
  "resp (updateMany proofs proofs_update p7 f7)"
  "resp (updateMany disputes disputes_update p8 f8)"
  "resp (updateMany idempotencyKeys idempotencyKeys_update p9 f9)"
  "resp (deleteMany idempotencyKeys_update q1)"
  "resp (deleteMany escrows_update q2)"
  "resp (deleteMany transactions_update q3)"
  by (auto intro!: respI outbox_same simp: tx_iff)

lemma outbox_audit: "resp (auditRequest E r a b c d e f g)" "resp (createInfrastructureAuditLog E i)"
  unfolding auditRequest_def createInfrastructureAuditLog_def by (intro store_rules outbox_insert)+

lemmas work_rules = store_rules outbox_insert outbox_update outbox_audit outbox_event outbox_job

lemma work_idempotency:
  "resp (deleteExpiredIdempotencyKey appId key)" "resp (reserveIdempotentRequest E appId ctx)"
  "resp (clearPendingIdempotentRequest appId ctx)" "resp (storeIdempotentResponse E appId ctx st body)"
  unfolding idempotency_defs by (intro work_rules)+

lemma work_transitions:
  "resp (transitionAgreementStatus appId i frm to)" "resp (transitionMilestoneStatus appId j mfrm mto)"
  "resp (transitionProofStatus appId k pfrm pto)" "resp (transitionEscrowStatus appId l efrm data)"
  unfolding transitionAgreementStatus_def transitionMilestoneStatus_def transitionProofStatus_def
    transitionEscrowStatus_def
  by (intro work_rules)+

lemma work_advance:
  "resp (advanceAgreement appId i cur path)" "resp (advanceMilestone appId j mcur mpath)"
  by (induction path arbitrary: cur, auto intro!: work_rules work_transitions)
    (induction mpath arbitrary: mcur, auto intro!: work_rules work_transitions)

lemma work_runs:
  "resp (createAgreement_run E req appId ainput)" "resp (acceptAgreement_run E req appId i)"
  "resp (transitionAgreement_run E req appId i st)" "resp (createMilestone_run E req appId i minput)"
  "resp (createProof_run E req appId pinput)" "resp (reviewProof_run E req appId i rinput)"
  "resp (createDispute_run E req appId dinput)" "resp (resolveDispute_run E req appId i sinput)"
  unfolding agreement_runs milestone_runs proof_runs dispute_runs startReview_def resolveDispute_def
  by (intro work_rules work_transitions work_advance)+

lemma work_mutation: "resp (mutation_run E req appId m)"
  by (cases m) (simp_all add: work_runs)

lemma work_scope:
  "resp (transitionMilestoneIfAllowed E appId operation e m)"
  "resp (transitionAgreementWhenAllEscrowsTerminal appId i operation)"
  "resp (transitionFundingScope E appId e)"
  unfolding scope_defs by (intro work_rules work_transitions)+

lemma work_transaction:
  "resp (createTransaction E appId td)" "resp (updateTransaction appId j f)"
  "resp (enqueueCkbReconciliation E e k)"
  unfolding createTransaction_def updateTransaction_def enqueueCkbReconciliation_def by (intro work_rules)+

lemma work_escrow:
  "resp (reserveEscrowCreation E appId input ctx)"
  "resp (discardEscrowCreation appId r ctx)"
  "resp (finalizeEscrowCreation E req appId r ctx res)"
  unfolding creation_defs
  by (intro work_rules work_idempotency work_transaction work_transitions)+

lemma work_settlement:
  "resp (beginEscrowFunding E req appId i ctx)"
  "resp (finalizeEscrowFunding E req appId b ctx res)"
  "resp (reserveEscrowSettlement E req appId i operation ctx)"
  "resp (finalizeFailedEscrowSettlement E req appId operation rs ctx err)"
  "resp (finalizeSuccessfulEscrowSettlement E req appId operation rs ctx res)"
  "resp (applyObservation E n x e ob)"
  unfolding settlement_defs
  by (intro work_rules work_idempotency work_transaction work_transitions work_scope)+

end

sublocale work_frame < tenantWork: transaction_frame R appId for appId
  by unfold_locales
    (rule work_idempotency work_mutation work_escrow work_settlement)+

section \<open>The job queue\<close>

text \<open>Identifiers and deduplication keys are unique in the table.\<close>

definition jobs_inv :: "db \<Rightarrow> bool" where
  "jobs_inv s \<longleftrightarrow> distinct (map aj_id (jobs s)) \<and> distinct (filter (\<lambda>k. k \<noteq> None) (map aj_dedupeKey (jobs s)))"

definition jobs_kept :: "db \<Rightarrow> db \<Rightarrow> bool" where
  "jobs_kept s t \<longleftrightarrow> (jobs_inv s \<longrightarrow> jobs_le s t \<and> jobs_inv t)"

interpretation jobsOrder: step_order jobs_kept
proof unfold_locales
  show "jobs_kept s s" for s by (simp add: jobs_kept_def jobOrder.R_refl)
  show "jobs_kept s u" if "jobs_kept s t" "jobs_kept t u" for s t u
    using that by (auto simp: jobs_kept_def intro: jobOrder.R_trans)
qed

lemma jobs_same: "jobs t = jobs s \<Longrightarrow> jobs_kept s t"
  by (simp add: jobs_kept_def jobs_le_same jobs_inv_def)

lemma jobs_insert: "jobsOrder.resp (insertRow jobs jobs_update job_clash row)"
proof (rule jobsOrder.respI)
  fix s :: db and x t
  assume a: "insertRow jobs jobs_update job_clash row s = Inr (x, t)"
  then have "jobs t = jobs s @ [row]" and "\<forall>j\<in>set (jobs s). \<not> job_clash row j" by (auto simp: tx_iff)
  then have "jobs_inv s \<longrightarrow> jobs_inv t" by (auto simp: jobs_inv_def job_clash_def)
  with a show "jobs_kept s t" using jobs_le_insert [THEN jobOrder.respD] by (simp add: jobs_kept_def)
qed

text \<open>An update that keeps identifiers and keeps or frees deduplication keys.\<close>

lemma distinct_freed:
  assumes "\<And>j. g (f j) = g j \<or> g (f j) = None"
  shows "distinct (filter (\<lambda>k. k \<noteq> None) (map g xs)) \<Longrightarrow> distinct (filter (\<lambda>k. k \<noteq> None) (map g (map f xs)))"
proof (induction xs)
  case (Cons j xs)
  have kept: "x \<in> set (map g xs)" if "x \<in> set (map g (map f xs))" and "x \<noteq> None" for x
  proof -
    from that(1) obtain l where "l \<in> set xs" "x = g (f l)" by auto
    with that(2) assms [of l] show ?thesis by auto
  qed
  show ?case
  proof (cases "g (f j) = None")
    case False
    with assms [of j] have "g (f j) = g j" by metis
    with Cons kept [of "g j"] False show ?thesis by auto
  qed (use Cons in \<open>auto split: if_splits\<close>)
qed simp

lemma jobs_update_kept:
  assumes "\<And>s j. p j \<Longrightarrow> job_le j (f s j)" and "\<And>s j. aj_dedupeKey (f s j) = aj_dedupeKey j \<or> aj_dedupeKey (f s j) = None"
  shows "jobsOrder.resp (updateMany jobs jobs_update p f)"
proof (rule jobsOrder.respI)
  fix s :: db and x t
  assume a: "updateMany jobs jobs_update p f s = Inr (x, t)"
  let ?g = "\<lambda>j. if p j then f s j else j"
  from a have t: "jobs t = map ?g (jobs s)" by (auto simp: tx_iff)
  have "aj_id (?g j) = aj_id j" for j using assms(1) [of j s] by (simp add: job_le_def)
  then have "map aj_id (jobs t) = map aj_id (jobs s)" by (simp add: t)
  moreover have "distinct (filter (\<lambda>k. k \<noteq> None) (map aj_dedupeKey (jobs s))) \<Longrightarrow>
      distinct (filter (\<lambda>k. k \<noteq> None) (map aj_dedupeKey (jobs t)))"
    unfolding t using assms(2) [of s] by (intro distinct_freed) auto
  ultimately have "jobs_inv s \<longrightarrow> jobs_inv t" by (simp add: jobs_inv_def)
  then show "jobs_kept s t" using jobs_le_update [OF assms(1), THEN jobOrder.respD, OF _ a] by (simp add: jobs_kept_def)
qed

lemma jobs_other:
  "jobsOrder.resp (freshId E)" "jobsOrder.resp now"
  "jobsOrder.resp (insertRow events events_update c1 e)"
  "jobsOrder.resp (insertRow deliveries deliveries_update c3 d)"
  "jobsOrder.resp (updateMany deliveries deliveries_update p f)"
  by (auto intro!: jobsOrder.respI jobs_same simp: tx_iff)

lemmas jobs_rules = jobsOrder.store_rules jobs_insert jobs_other

lemma enqueueJob_kept: "jobsOrder.resp (enqueueJob E q)"
  unfolding enqueueJob_def create_job_def Let_def
  by (intro jobs_rules jobs_update_kept) (auto simp: job_le_def)

lemma createEvent_kept: "jobsOrder.resp (createEvent E a d)"
  unfolding createEvent_def createWebhookDeliveriesForEvent_def createDeliveryFor_def Let_def
  by (intro jobs_rules)

interpretation jobsWork: work_frame jobs_kept
  by unfold_locales (auto intro: jobs_same createEvent_kept enqueueJob_kept)

lemma update_owned_kept:
  assumes "\<And>s j. owned_by i w j \<Longrightarrow> job_le j (f s j)"
    and "\<And>s j. aj_dedupeKey (f s j) = aj_dedupeKey j \<or> aj_dedupeKey (f s j) = None"
  shows "jobsOrder.resp (update_owned i w f)"
  unfolding update_owned_def
proof (intro jobs_rules jobs_update_kept)
  fix s j
  show "job_le j ((f s j)\<lparr>aj_updatedAt := clock s\<rparr>)" if "owned_by i w j" using assms(1) [OF that, of s] by (simp add: job_le_def)
  show "aj_dedupeKey ((f s j)\<lparr>aj_updatedAt := clock s\<rparr>) = aj_dedupeKey j \<or> aj_dedupeKey ((f s j)\<lparr>aj_updatedAt := clock s\<rparr>) = None"
    using assms(2) [of s j] by simp
qed

lemmas owned_moves = job_le_def release_lock_def owned_by_def

lemma worker_kept:
  "jobsOrder.resp (completeJob i w)" "jobsOrder.resp (deferJob i w delay)" "jobsOrder.resp (failJob j w err rnd)"
  "jobsOrder.resp (renewJobLease i w leaseMs)" "jobsOrder.resp (replayJob E i)" "jobsOrder.resp (releaseStaleLocks m)"
  unfolding completeJob_def deferJob_def failJob_def renewJobLease_def replayJob_def releaseStaleLocks_def Let_def
  by (intro jobs_rules update_owned_kept jobs_update_kept;
      auto simp: owned_moves stale_def intro: job_can_step split: if_splits)+

text \<open>A claim takes rows that wait and are due, and only those.\<close>

lemma candidate_claimable:
  assumes "jobs_inv s" and "j \<in> set (jobs s)" and "List.member (claimCandidates queues n s) (aj_id j)"
  shows "claimable queues (clock s) j"
proof -
  from assms(3) obtain k where k: "aj_id k = aj_id j" and
    "k \<in> set (take n (sort_key (\<lambda>j. (aj_availableAt j, aj_createdAt j)) (filter (claimable queues (clock s)) (jobs s))))"
    by (auto simp: claimCandidates_def)
  then have "k \<in> set (filter (claimable queues (clock s)) (jobs s))" by (metis in_set_takeD set_sort)
  moreover from this have "k = j" using assms(1,2) k by (auto simp: jobs_inv_def distinct_map inj_on_def)
  ultimately show ?thesis by simp
qed

lemma claim_kept: "jobsOrder.resp (claimAvailableJobs w queues limit leaseMs)"
proof (rule jobsOrder.respI)
  fix s :: db and js t
  let ?c = "claimCandidates queues (nat (min (max limit 1) 100)) s"
  let ?f = "\<lambda>j. if List.member ?c (aj_id j) then j\<lparr>aj_status := JS_RUNNING, aj_lockedAt := Some (clock s),
      aj_lockedBy := Some w, aj_leaseExpiresAt := Some (clock s + min (max leaseMs 10000) (15 * 60000)),
      aj_attempts := aj_attempts j + 1, aj_updatedAt := clock s\<rparr> else j"
  assume "claimAvailableJobs w queues limit leaseMs s = Inr (js, t)"
  then have t: "jobs t = jobs s \<or> jobs t = map ?f (jobs s)"
    by (auto simp: claimAvailableJobs_def Let_def tx_iff split: if_splits)
  have "jobs_le s t \<and> jobs_inv t" if i: "jobs_inv s"
  proof -
    have le: "job_le j (?f j)" if "j \<in> set (jobs s)" for j
      using candidate_claimable [OF i that, of queues "nat (min (max limit 1) 100)"]
      by (auto simp: job_le_def claimable_def intro!: job_can_step)
    have "map aj_id (map ?f (jobs s)) = map aj_id (jobs s)" "map aj_dedupeKey (map ?f (jobs s)) = map aj_dedupeKey (jobs s)"
      by simp_all
    with t i le show ?thesis by (auto simp: jobs_le_def jobs_inv_def job_le_refl simp del: map_map)
  qed
  then show "jobs_kept s t" by (simp add: jobs_kept_def)
qed

lemma queue_kept: "queue_step s t \<Longrightarrow> jobs_kept s t"
  by (erule queue_step.cases)
    (auto dest: enqueueJob_kept [THEN jobsOrder.respD] claim_kept [THEN jobsOrder.respD]
      worker_kept [THEN jobsOrder.respD])

lemma jobs_rows:
  "jobsOrder.resp (insertRow endpoints endpoints_update c1 w)"
  "jobsOrder.resp (insertRow auditLogs auditLogs_update c2 l)"
  "jobsOrder.resp (updateMany endpoints endpoints_update p f)"
  by (auto intro!: jobsOrder.respI jobs_same simp: tx_iff)

lemma webhook_jobs:
  assumes "webhook_step s t"
  shows "jobs_kept s t"
proof -
  have w: "jobsOrder.resp (createWebhookEndpoint E a input u h c)"
    "jobsOrder.resp (updateWebhookEndpointRow a i uinput v)" "jobsOrder.resp (deleteWebhookEndpointRow a i)"
    "jobsOrder.resp (auditWebhook E req a action ty i b k)" "jobsOrder.resp (retryDelivery_run E req a i d)"
    "jobsOrder.resp (recordDeliveryResult E d data reason r)"
    for E a input u h c i uinput v req action ty b k d data reason r
    unfolding webhook_defs createInfrastructureAuditLog_def
    by (intro jobs_rules jobs_rows createEvent_kept enqueueJob_kept resp_split)+
  note d = w [THEN jobsOrder.respD]
  from assms show ?thesis by cases (erule d; assumption?)+
qed

interpretation jobsSys: system_frame jobs_kept
proof unfold_locales
  show "txn_step a s t \<Longrightarrow> jobs_kept s t" for a s t by (rule jobsWork.tenantWork.step_respects)
qed (auto intro: queue_kept webhook_jobs jobs_same)

text \<open>The same for the deliveries: no transaction but those of the webhook services touches one.\<close>

interpretation deliveriesWork: work_frame deliveries_le
  by unfold_locales (auto intro: deliveries_same outbox_deliveries)

lemma queue_deliveries: "queue_step s t \<Longrightarrow> deliveries_le s t"
proof (erule queue_step.cases)
  show "enqueueJob E p s' = Inr (j, t') \<Longrightarrow> s = s' \<Longrightarrow> t = t' \<Longrightarrow> deliveries_le s t" for E p s' j t'
    using outbox_deliveries(2) [THEN deliveryOrder.respD] by blast
qed (auto simp: claimAvailableJobs_def completeJob_def deferJob_def failJob_def renewJobLease_def replayJob_def
    releaseStaleLocks_def update_owned_def tx_iff Let_def intro!: deliveries_same split: if_splits)

interpretation deliveriesSys: system_frame deliveries_le
proof unfold_locales
  show "txn_step a s t \<Longrightarrow> deliveries_le s t" for a s t by (rule deliveriesWork.tenantWork.step_respects)
qed (auto intro: queue_deliveries webhook_deliveries deliveries_same)

lemma empty_jobs: "jobs_inv empty_db"
  by (simp add: empty_db_def jobs_inv_def)

text \<open>What a worker that claims jobs gets.\<close>

lemma claimAvailableJobs_effect:
  assumes "claimAvailableJobs w queues limit leaseMs s = Inr (js, t)" and "jobs_inv s"
  shows "length js \<le> 100 \<and> (\<forall>k\<in>set js. aj_lockedBy k = Some w \<and> aj_status k = JS_RUNNING
     \<and> (\<exists>j\<in>set (jobs s). aj_id j = aj_id k \<and> claimable queues (clock s) j \<and> aj_attempts k = aj_attempts j + 1))"
proof (cases "queues = []")
  case False
  let ?c = "claimCandidates queues (nat (min (max limit 1) 100)) s"
  let ?p = "\<lambda>j. List.member ?c (aj_id j)"
  let ?f = "\<lambda>j. if ?p j then j\<lparr>aj_status := JS_RUNNING, aj_lockedAt := Some (clock s),
      aj_lockedBy := Some w, aj_leaseExpiresAt := Some (clock s + min (max leaseMs 10000) (15 * 60000)),
      aj_attempts := aj_attempts j + 1, aj_updatedAt := clock s\<rparr> else j"
  have js: "js = filter ?p (map ?f (jobs s))"
    using assms(1) False by (auto simp: claimAvailableJobs_def Let_def tx_iff cong: if_cong)
  have "map aj_id (map ?f (jobs s)) = map aj_id (jobs s)" by simp
  then have d: "distinct (map aj_id (map ?f (jobs s)))" using assms(2) unfolding jobs_inv_def by presburger
  have "distinct (map aj_id js)" unfolding js by (rule distinct_map_filter [OF d])
  then have "length js = card (aj_id ` set js)" by (metis distinct_card length_map set_map)
  also have "\<dots> \<le> card (set ?c)" by (rule card_mono) (auto simp: js)
  also have "\<dots> \<le> length ?c" by (rule card_length)
  also have "\<dots> \<le> 100" by (simp add: claimCandidates_def)
  finally have "length js \<le> 100" .
  moreover have "aj_lockedBy k = Some w \<and> aj_status k = JS_RUNNING
     \<and> (\<exists>j\<in>set (jobs s). aj_id j = aj_id k \<and> claimable queues (clock s) j \<and> aj_attempts k = aj_attempts j + 1)"
    if "k \<in> set js" for k
  proof -
    from that obtain j where j: "j \<in> set (jobs s)" "k = ?f j" "?p j" by (auto simp: js split: if_splits)
    then have "claimable queues (clock s) j" using candidate_claimable [OF assms(2)] by blast
    with j show ?thesis by (intro conjI bexI [of _ j]) simp_all
  qed
  ultimately show ?thesis by blast
qed (use assms(1) in \<open>simp add: claimAvailableJobs_def tx_iff\<close>)

text \<open>What a claim returns are rows of the queue, and they are running: no later claim can take them.\<close>

lemma claimAvailableJobs_rows: "claimAvailableJobs w queues limit leaseMs s = Inr (js, t) \<Longrightarrow> set js \<subseteq> set (jobs t)"
  by (auto simp: claimAvailableJobs_def Let_def tx_iff split: if_splits)

lemma claims_disjoint:
  assumes "claimAvailableJobs w queues limit leaseMs s = Inr (js, t)" and "jobs_inv s"
    and "claimAvailableJobs w' queues' limit' leaseMs' t = Inr (js', t')"
  shows "aj_id ` set js \<inter> aj_id ` set js' = {}"
proof -
  have t: "jobs_inv t" using claim_kept [THEN jobsOrder.respD, OF assms(1)] assms(2) by (simp add: jobs_kept_def)
  have "aj_id k \<noteq> aj_id k'" if "k \<in> set js" "k' \<in> set js'" for k k'
  proof
    assume eq: "aj_id k = aj_id k'"
    from claimAvailableJobs_effect [OF assms(3) t] that(2) obtain j
      where j: "j \<in> set (jobs t)" "aj_id j = aj_id k'" "claimable queues' (clock t) j" by blast
    have "k \<in> set (jobs t)" using claimAvailableJobs_rows [OF assms(1)] that(1) by blast
    with j eq t have "k = j" by (auto simp: jobs_inv_def distinct_map inj_on_def)
    moreover have "aj_status k = JS_RUNNING" using claimAvailableJobs_effect [OF assms(1,2)] that(1) by blast
    ultimately show False using j(3) by (simp add: claimable_def)
  qed
  then show ?thesis by auto
qed

end
