(* ===== verification/Worker.thy ===== *)
theory Worker
  imports WorkFrames
begin

text \<open>
  The background worker: \<open>server/src/worker/agentLoop.ts\<close>, \<open>workers/ckb-reconciliation.worker.ts\<close>,
  \<open>common/runtime/job-deadline.ts\<close>. A worker claims due jobs, runs each under a deadline, and completes,
  defers or fails it. What the outside world does during a cycle (the chain, the webhook endpoints, the
  random numbers, whether the deadline of a job passes) is the record \<open>outside\<close>. Jobs of one cycle run
  one after the other in the model; every interleaving of their transactions is a run of \<open>server_step\<close>.
  Metrics and logs are not kept.
\<close>

section \<open>Jobs\<close>

record outside =
  ou_ckb :: ckb_services
  ou_webhooks :: webhook_services
  ou_provider :: "string \<Rightarrow> provider_state"
  ou_time :: int
  ou_random :: rat
  ou_deadline :: "string \<Rightarrow> error option"

record worker_config =
  wk_queues :: "string list"
  wk_concurrency :: int
  wk_jobLeaseMs :: int
  wk_reconciliationPollMs :: int

definition parseJobPayload :: "job_payload option \<Rightarrow> job_payload" where
  "parseJobPayload p = (case p of
     None \<Rightarrow> \<lparr>jp_agreementId = None, jp_deliveryId = None, jp_transactionId = None\<rparr> | Some v \<Rightarrow> v)"

text \<open>The result is the delay of a job that has to run again.\<close>

definition processJob :: "env \<Rightarrow> outside \<Rightarrow> worker_config \<Rightarrow> agent_job \<Rightarrow> int option dbproc" where
  "processJob E X cfg job =
     (let payload = parseJobPayload (aj_payload job) in
      case aj_kind job of
        CKB_RECONCILE_TRANSACTION \<Rightarrow>
          if \<not> truthy (jp_transactionId payload)
          then pr_throw (JsError ''CKB reconciliation job is missing transactionId.'')
          else pr_bind (reconcileCkbTransaction E (ou_ckb X) (the (jp_transactionId payload))) (\<lambda>result.
            pr_return (if \<not> ro_complete result then Some (wk_reconciliationPollMs cfg) else None))
      | DELIVER_WEBHOOK \<Rightarrow>
          if \<not> truthy (jp_deliveryId payload)
          then pr_throw (JsError ''Webhook delivery job is missing deliveryId.'')
          else pr_bind (deliverWebhookDelivery E (ou_webhooks X) (ou_provider X (aj_id job)) (ou_time X)
              (the (jp_deliveryId payload))) (\<lambda>_.
            pr_return None))"

text \<open>
  \<open>runWithJobDeadline\<close>: when the deadline passes, the caller gets its error, while what the job was
  doing takes effect all the same.
\<close>

definition runWithJobDeadline :: "error option \<Rightarrow> 'a dbproc \<Rightarrow> 'a dbproc" where
  "runWithJobDeadline deadline run = (case deadline of
     None \<Rightarrow> run | Some e \<Rightarrow> (\<lambda>s. (Inl e, snd (run s))))"

definition executeClaimedJob :: "env \<Rightarrow> outside \<Rightarrow> worker_config \<Rightarrow> string \<Rightarrow> agent_job \<Rightarrow> unit dbproc" where
  "executeClaimedJob E X cfg workerId job =
     pr_catch
       (pr_bind (runWithJobDeadline (ou_deadline X (aj_id job)) (processJob E X cfg job)) (\<lambda>result.
        case result of
          Some deferMs \<Rightarrow>
            if deferMs \<noteq> 0 then atomically (deferJob (aj_id job) workerId deferMs)
            else atomically (completeJob (aj_id job) workerId)
        | None \<Rightarrow> atomically (completeJob (aj_id job) workerId)))
       (\<lambda>e. pr_bind (atomically (failJob job workerId (error_message e) (ou_random X))) (\<lambda>_. pr_return ()))"

text \<open>\<open>Promise.all\<close>: every job runs; the result is an error when one of them ended with an error.\<close>

fun executeAll :: "env \<Rightarrow> outside \<Rightarrow> worker_config \<Rightarrow> string \<Rightarrow> agent_job list \<Rightarrow> unit dbproc" where
  "executeAll E X cfg workerId [] = pr_return ()"
| "executeAll E X cfg workerId (job # js) = (\<lambda>s.
     case executeClaimedJob E X cfg workerId job s of (r, s1) \<Rightarrow>
     case executeAll E X cfg workerId js s1 of (r', s2) \<Rightarrow>
       (case r of Inl e \<Rightarrow> Inl e | Inr _ \<Rightarrow> r', s2))"

text \<open>The state of the process: whether a cycle runs and when expired keys were last removed.\<close>

record cycle_state =
  cy_inProgress :: bool
  cy_lastIdempotencyCleanupAt :: int

definition runAgentCycle ::
  "env \<Rightarrow> outside \<Rightarrow> worker_config \<Rightarrow> string \<Rightarrow> cycle_state \<Rightarrow> db \<Rightarrow> bool \<times> cycle_state \<times> db" where
  "runAgentCycle E X cfg workerId cy s =
     (if cy_inProgress cy then (True, cy, s)
      else
        let due = clock s - cy_lastIdempotencyCleanupAt cy \<ge> 10 * 60 * 1000;
            cleaned = (if due then snd (atomically cleanupExpiredIdempotencyKeys s) else s);
            cy' = (if due then cy\<lparr>cy_lastIdempotencyCleanupAt := clock s\<rparr> else cy);
            work = pr_bind (atomically (releaseStaleLocks (wk_jobLeaseMs cfg))) (\<lambda>_.
              pr_bind (atomically (claimAvailableJobs workerId (wk_queues cfg) (wk_concurrency cfg) (wk_jobLeaseMs cfg))) (\<lambda>js.
              executeAll E X cfg workerId js))
        in (\<not> isl (fst (work cleaned)), cy'\<lparr>cy_inProgress := False\<rparr>, snd (work cleaned)))"

section \<open>The worker runs steps of the system\<close>

interpretation serverSteps: step_order "server_step\<^sup>*\<^sup>*"
  by unfold_locales auto

lemma server_respI: "(\<And>s x t. m s = Inr (x, t) \<Longrightarrow> server_step s t) \<Longrightarrow> serverSteps.resp m"
  by (rule serverSteps.respI) blast

lemma queue_resp: "(\<And>s x t. m s = Inr (x, t) \<Longrightarrow> queue_step s t) \<Longrightarrow> serverSteps.resp m"
  by (rule server_respI) (blast intro: server_step.queue)

lemma worker_resp:
  "serverSteps.resp (completeJob i w)" "serverSteps.resp (deferJob i w d)" "serverSteps.resp (failJob j w m r)"
  "serverSteps.resp (releaseStaleLocks n)" "serverSteps.resp (claimAvailableJobs w qs l n)"
  by (rule queue_resp, erule queue_step.intros)+

lemma webhook_presp: "webhookSteps.presp m \<Longrightarrow> serverSteps.presp m"
  unfolding webhookSteps.presp_def serverSteps.presp_def
  by (metis mono_rtranclp server_step.webhook)

lemma reconcile_presp: "serverSteps.presp (reconcileCkbTransaction E K i)"
  unfolding serverSteps.presp_def
  by (metis reconcile_step rtranclp.rtrancl_refl r_into_rtranclp server_step.tenant)

lemma processJob_presp: "serverSteps.presp (processJob E X cfg job)"
  unfolding processJob_def Let_def
  by (cases "aj_kind job") (auto intro!: serverSteps.presp_rules reconcile_presp deliver_presp [THEN webhook_presp])

lemma deadline_presp: "serverSteps.presp m \<Longrightarrow> serverSteps.presp (runWithJobDeadline d m)"
  by (cases d) (simp_all add: runWithJobDeadline_def serverSteps.presp_def)

lemma executeClaimedJob_presp: "serverSteps.presp (executeClaimedJob E X cfg w job)"
  unfolding executeClaimedJob_def
  by (intro serverSteps.presp_rules worker_resp deadline_presp processJob_presp)

lemma executeAll_presp: "serverSteps.presp (executeAll E X cfg w js)"
proof (induction js)
  case Nil
  then show ?case by (simp add: serverSteps.presp_return)
next
  case (Cons job js)
  have "server_step\<^sup>*\<^sup>* s (snd (executeClaimedJob E X cfg w job s))" for s
    using executeClaimedJob_presp by (simp add: serverSteps.presp_def)
  with Cons show ?case
    by (auto simp: serverSteps.presp_def split: prod.splits) (metis rtranclp_trans snd_conv)
qed

lemma runAgentCycle_steps: "server_step\<^sup>*\<^sup>* s (snd (snd (runAgentCycle E X cfg w cy s)))"
proof (cases "cy_inProgress cy")
  case True
  then show ?thesis by (simp add: runAgentCycle_def)
next
  case False
  have c: "serverSteps.resp cleanupExpiredIdempotencyKeys" by (rule server_respI) (rule server_step.cleanup)
  have w: "serverSteps.presp (pr_bind (atomically (releaseStaleLocks (wk_jobLeaseMs cfg))) (\<lambda>_.
      pr_bind (atomically (claimAvailableJobs w (wk_queues cfg) (wk_concurrency cfg) (wk_jobLeaseMs cfg))) (\<lambda>js.
      executeAll E X cfg w js)))"
    by (intro serverSteps.presp_rules worker_resp executeAll_presp)
  show ?thesis
    using False serverSteps.presp_atomically [OF c] w
    by (auto simp: runAgentCycle_def Let_def serverSteps.presp_def intro: rtranclp_trans)
qed

section \<open>A job that was executed is given back\<close>

lemma update_owned_released:
  assumes "update_owned i w f s = Inr (u, t)" and "\<And>s j. aj_status (f s j) \<noteq> JS_RUNNING"
  shows "\<forall>j\<in>set (jobs t). \<not> owned_by i w j"
  using assms by (auto simp: update_owned_def tx_iff owned_by_def)

lemma released:
  "completeJob i w s = Inr (u, t) \<Longrightarrow> \<forall>j\<in>set (jobs t). \<not> owned_by i w j"
  "deferJob i w d s = Inr (u, t) \<Longrightarrow> \<forall>j\<in>set (jobs t). \<not> owned_by i w j"
  "failJob k w m r s = Inr (v, t) \<Longrightarrow> \<forall>j\<in>set (jobs t). \<not> owned_by (aj_id k) w j"
  unfolding completeJob_def deferJob_def failJob_def Let_def
  by (auto simp: tx_iff elim!: update_owned_released [THEN bspec, elim_format] split: if_splits)

lemma executeClaimedJob_released:
  assumes "executeClaimedJob E X cfg w job s = (Inr u, t)"
  shows "\<forall>j\<in>set (jobs t). \<not> owned_by (aj_id job) w j"
  using assms
  by (auto simp: executeClaimedJob_def pr_catch_def pr_bind_def atomically_def pr_return_def
      split: prod.splits sum.splits option.splits if_splits dest: released)

text \<open>Conversely a job whose lease the worker still holds when it finishes is given back.\<close>

lemma filter_unique:
  assumes "distinct (map f xs)" and "j \<in> set xs" and "P j" and "\<And>x. P x \<Longrightarrow> f x = f j"
  shows "filter P xs = [j]"
proof -
  have "P x = (x = j)" if "x \<in> set xs" for x
    using assms that by (metis distinct_map inj_onD)
  then have "filter P xs = filter (\<lambda>x. x = j) xs" by (intro filter_cong) simp_all
  moreover have "filter (\<lambda>x. x = j) xs = [j]" if "distinct xs" "j \<in> set xs"
    using that by (induction xs) (auto simp: filter_empty_conv)
  ultimately show ?thesis using assms(1,2) by (simp add: distinct_map)
qed

lemma owned_once: "jobs_inv s \<Longrightarrow> j \<in> set (jobs s) \<Longrightarrow> owned_by i w j \<Longrightarrow> filter (owned_by i w) (jobs s) = [j]"
  by (rule filter_unique [of aj_id]) (auto simp: jobs_inv_def owned_by_def)

lemma failJob_succeeds:
  assumes "jobs_inv s" and "k \<in> set (jobs s)" and "owned_by (aj_id job) w k"
  shows "\<exists>v t. failJob job w m r s = Inr (v, t)"
  using owned_once [OF assms]
  by (simp add: failJob_def update_owned_def updateMany_def tx_unfold Let_def)

lemma completeJob_succeeds:
  assumes "jobs_inv s" and "k \<in> set (jobs s)" and "owned_by i w k"
  shows "\<exists>t. completeJob i w s = Inr ((), t)" and "\<exists>t. deferJob i w d s = Inr ((), t)"
  using owned_once [OF assms]
  by (simp_all add: completeJob_def deferJob_def update_owned_def updateMany_def tx_unfold Let_def)

lemma executeClaimedJob_returns:
  assumes "jobs_inv t" and "runWithJobDeadline (ou_deadline X (aj_id job)) (processJob E X cfg job) s = (r, t)"
    and "k \<in> set (jobs t)" and "owned_by (aj_id job) w k"
  shows "\<exists>u. executeClaimedJob E X cfg w job s = (Inr (), u)"
proof -
  note held = assms(1,3,4)
  obtain c where c: "completeJob (aj_id job) w t = Inr ((), c)" using completeJob_succeeds(1) [OF held] by blast
  have d: "\<exists>d. deferJob (aj_id job) w n t = Inr ((), d)" for n using completeJob_succeeds(2) [OF held] by blast
  have f: "\<exists>v u. failJob job w m x t = Inr (v, u)" for m x using failJob_succeeds [OF held] by blast
  show ?thesis
  proof (cases r)
    case (Inl e)
    with assms(2) f [of "error_message e" "ou_random X"] show ?thesis
      by (auto simp: executeClaimedJob_def pr_catch_def pr_bind_def atomically_def pr_return_def)
  next
    case (Inr result)
    with assms(2) c d [of "the result"] show ?thesis
      by (cases result) (auto simp: executeClaimedJob_def pr_catch_def pr_bind_def atomically_def pr_return_def)
  qed
qed

text \<open>
  The attempts of a job: a failure dead-letters it when its attempts, which every claim increments and
  nothing resets, have reached the maximum. Deferring keeps the count, so a job that was polled often
  enough is dead-lettered by its first failure.
\<close>

lemma update_owned_row:
  "update_owned i w f s = Inr (u, t) \<Longrightarrow> k \<in> set (jobs s) \<Longrightarrow> owned_by i w k \<Longrightarrow>
    (f s k)\<lparr>aj_updatedAt := clock s\<rparr> \<in> set (jobs t)"
  by (auto simp: update_owned_def tx_iff)

lemma failJob_effect:
  assumes "failJob job w m r s = Inr ((dead, delay), t)" and "k \<in> set (jobs s)" and "owned_by (aj_id job) w k"
  shows "dead = (aj_maxAttempts job \<le> aj_attempts job)
    \<and> (\<exists>j\<in>set (jobs t). aj_id j = aj_id job \<and> aj_attempts j = aj_attempts k
        \<and> aj_status j = (if dead then JS_DEAD_LETTER else JS_RETRY)
        \<and> (if dead then delay = None else \<exists>d. delay = Some d \<and> aj_availableAt j = clock s + d))"
proof -
  from assms(1) obtain f u where f: "update_owned (aj_id job) w f s = Inr (u, t)"
    and g: "f = (\<lambda>s j. if aj_maxAttempts job \<le> aj_attempts job
       then (release_lock j)\<lparr>aj_status := JS_DEAD_LETTER, aj_dedupeKey := None, aj_lastError := Some m,
         aj_deadLetteredAt := Some (clock s)\<rparr>
       else (release_lock j)\<lparr>aj_status := JS_RETRY, aj_lastError := Some m,
         aj_availableAt := clock s + getJobRetryDelayMs (aj_attempts job) r\<rparr>)"
    and d: "dead = (aj_maxAttempts job \<le> aj_attempts job)"
      "delay = (if dead then None else Some (getJobRetryDelayMs (aj_attempts job) r))"
    by (auto simp: failJob_def Let_def tx_iff)
  show ?thesis
    using update_owned_row [OF f assms(2,3)] assms(3) d
    by (intro conjI bexI [of _ "(f s k)\<lparr>aj_updatedAt := clock s\<rparr>"]) (auto simp: g release_lock_def owned_by_def)
qed

lemma deferJob_effect:
  assumes "deferJob i w d s = Inr (u, t)" and "k \<in> set (jobs s)" and "owned_by i w k"
  shows "\<exists>j\<in>set (jobs t). aj_id j = i \<and> aj_attempts j = aj_attempts k \<and> aj_status j = JS_RETRY
    \<and> aj_availableAt j = clock s + min (max d 1000) (15 * 60000)"
  by (rule bexI [OF _ update_owned_row [OF assms(1) [unfolded deferJob_def Let_def] assms(2,3)]])
    (use assms(3) in \<open>simp add: release_lock_def owned_by_def\<close>)

section \<open>A delivery nobody delivers\<close>

text \<open>
  When the secret of an endpoint cannot be decrypted, the delivery job fails before it records a result.
  Its only attempt is used up: the job is dead, the delivery is still pending, and the endpoint that
  retries deliveries refuses a pending one.
\<close>

lemma undecryptable_fails:
  assumes "findWebhookDeliveryWithEndpoint i s = Some (d, Some w)" and "wd_status d \<noteq> WD_DELIVERED"
    and "we_status w = ''active''" and "we_url w \<noteq> []" and "we_secretCiphertext w = Some c" and "c \<noteq> []"
    and "decryptWebhookSecret (ws_crypto S) c = Inl e"
  shows "deliverWebhookDelivery E S P time1 i s = (Inl e, s)"
  using assms
  by (simp add: deliverWebhookDelivery_def pr_bind_def atomically_def tx_gets_def tx_some_def tx_return_def
      truthy_text_def pr_lift_def)

lemma undecryptable_stuck:
  assumes "findWebhookDeliveryWithEndpoint i s = Some (d, Some w)" and "wd_status d = WD_PENDING"
    and "we_status w = ''active''" and "we_url w \<noteq> []" and "we_secretCiphertext w = Some c" and "c \<noteq> []"
    and "decryptWebhookSecret (ws_crypto (ou_webhooks X)) c = Inl e"
    and "aj_kind job = DELIVER_WEBHOOK" and "aj_payload job = Some p" and "jp_deliveryId p = Some i" and "i \<noteq> []"
    and "aj_maxAttempts job \<le> aj_attempts job" and "ou_deadline X (aj_id job) = None"
    and "jobs_inv s" and "k \<in> set (jobs s)" and "owned_by (aj_id job) wk k"
  shows "\<exists>t. executeClaimedJob E X cfg wk job s = (Inr (), t) \<and> deliveries t = deliveries s
    \<and> (\<exists>j\<in>set (jobs t). aj_id j = aj_id job \<and> aj_status j = JS_DEAD_LETTER)"
proof -
  have dl: "deliverWebhookDelivery E (ou_webhooks X) (ou_provider X (aj_id job)) (ou_time X) i s = (Inl e, s)"
    using assms by (intro undecryptable_fails) auto
  then have p: "processJob E X cfg job s = (Inl e, s)"
    using assms by (simp add: processJob_def parseJobPayload_def truthy_def pr_bind_def)
  obtain v t where f: "failJob job wk (error_message e) (ou_random X) s = Inr (v, t)"
    using failJob_succeeds [OF assms(14-16)] by blast
  obtain dead delay where v: "v = (dead, delay)" by (cases v)
  from failJob_effect [OF f [unfolded v] assms(15,16)] assms(12)
  have "\<exists>j\<in>set (jobs t). aj_id j = aj_id job \<and> aj_status j = JS_DEAD_LETTER" by auto
  moreover have "deliveries t = deliveries s"
    using f by (auto simp: failJob_def update_owned_def tx_iff Let_def)
  ultimately show ?thesis
    using p f assms(13)
    by (simp add: executeClaimedJob_def pr_catch_def pr_bind_def runWithJobDeadline_def atomically_def pr_return_def)
qed

lemma pending_not_retried:
  assumes "\<forall>d\<in>set (deliveries s). delivery_is a i d \<longrightarrow> wd_status d = WD_PENDING"
  shows "isl (fst (retryWebhookDeliveryForApp E req a i s))"
proof -
  have n: "filter (\<lambda>d. delivery_is a i d \<and> List.member [WD_FAILED, WD_RETRY] (wd_status d)) (deliveries s) = []"
    using assms by (auto simp: filter_empty_conv)
  show ?thesis
  proof (cases "List.find (delivery_is a i) (deliveries s)")
    case None
    then show ?thesis
      by (simp add: retryWebhookDeliveryForApp_def pr_bind_def atomically_def findWebhookDeliveryForApp_def
          findFirst_def tx_gets_def tx_some_def tx_throw_def)
  next
    case (Some d)
    with assms have "wd_status d = WD_PENDING" by (auto simp: find_Some_iff)
    with Some n show ?thesis
      by (simp add: retryWebhookDeliveryForApp_def pr_bind_def atomically_def findWebhookDeliveryForApp_def
          findFirst_def tx_unfold retryDelivery_run_def markWebhookDeliveryForRetry_def updateMany_def cong: if_cong)
  qed
qed

end
