(* ===== verification/SettlementSafety.thy ===== *)
theory SettlementSafety
  imports EscrowScopes
begin

text \<open>
  When funds may move. \<open>release_allowed\<close> is the abstract condition under which an escrow may be
  released; the lemmas invert the transactions of a settlement: a reservation commits only for a
  funded escrow under that condition, it leaves the escrow pending so that no second settlement can
  be reserved, and it is never repeated while its transaction record exists. For the reconciliation
  worker they say which status an observation leaves.
\<close>

section \<open>The condition of a release\<close>

definition resolved_release :: "string \<Rightarrow> escrow \<Rightarrow> dispute \<Rightarrow> bool" where
  "resolved_release appId e d \<longleftrightarrow> dp_appId d = appId \<and> dp_agreementId d = es_agreementId e
     \<and> (case es_milestoneId e of None \<Rightarrow> True | Some m \<Rightarrow> dp_milestoneId d = m)
     \<and> dp_status d = DS_resolved_release \<and> dp_resolutionType d = Some DR_release"

definition release_allowed :: "string \<Rightarrow> escrow \<Rightarrow> db \<Rightarrow> bool" where
  "release_allowed appId e s \<longleftrightarrow>
     (case List.find (agreement_is appId (es_agreementId e)) (agreements s) of
        None \<Rightarrow> False
      | Some g \<Rightarrow>
          (ag_status g = AS_approved \<and>
             (case es_milestoneId e of
                None \<Rightarrow> True
              | Some i \<Rightarrow> i = [] \<or> map_option ms_status (List.find (milestone_is appId i) (milestones s)) = Some MS_approved))
        \<or> (ag_status g = AS_disputed \<and> list_ex (resolved_release appId e) (disputes s)))"

lemma findResolved_iff [tx_iff]:
  "findResolvedReleaseDisputeForEscrowScope appId (es_agreementId e) (es_milestoneId e) s = Inr r \<longleftrightarrow>
     r = (List.find (resolved_release appId e) (disputes s), s)"
  by (auto simp: findResolvedReleaseDisputeForEscrowScope_def tx_iff resolved_release_def [abs_def])

lemma find_ex: "List.find p xs = Some x \<Longrightarrow> list_ex p xs"
  by (auto simp: find_Some_iff list_ex_iff)

lemma assertReleaseAllowed_iff:
  assumes "assertReleaseAllowed appId e g m s = Inr (u, t)"
  shows "t = s \<and> es_status e = ES_funded \<and> (\<exists>a. g = Some a \<and>
     ((ag_status a = AS_approved \<and> (\<not> truthy (es_milestoneId e) \<or> map_option ms_status m = Some MS_approved))
      \<or> (ag_status a = AS_disputed \<and> list_ex (resolved_release appId e) (disputes s))))"
  using assms by (auto simp: assertReleaseAllowed_def tx_iff split: option.splits if_splits
      dest: find_ex find_ex [OF sym])

lemma assertRefundAllowed_iff: "assertRefundAllowed e g = Inr u \<Longrightarrow> es_status e = ES_funded"
  by (auto simp: assertRefundAllowed_def split: if_splits)

section \<open>Reserving a settlement\<close>

definition settlement_guard :: "string \<Rightarrow> settlement_operation \<Rightarrow> escrow \<Rightarrow> unit dbtx" where
  "settlement_guard appId operation e =
     tx_bind (findAgreementForApp appId (es_agreementId e)) (\<lambda>agreement.
     if operation = Release then
         tx_bind (case es_milestoneId e of
             None \<Rightarrow> tx_return None
           | Some m \<Rightarrow> findMilestoneForApp appId m) (\<lambda>milestone.
         assertReleaseAllowed appId e agreement milestone)
       else tx_lift (assertRefundAllowed e agreement))"

lemma settlement_guard_iff:
  assumes "settlement_guard appId operation e s = Inr (u, t)"
  shows "t = s \<and> es_status e = ES_funded \<and> (operation = Release \<longrightarrow> release_allowed appId e s)"
proof (cases operation)
  case Refund
  with assms show ?thesis
    by (auto simp: settlement_guard_def tx_iff findAgreementForApp_def dest: assertRefundAllowed_iff)
next
  case Release
  then obtain m where "assertReleaseAllowed appId e
      (List.find (agreement_is appId (es_agreementId e)) (agreements s)) m s = Inr (u, t)"
    and "m = (case es_milestoneId e of None \<Rightarrow> None | Some i \<Rightarrow> List.find (milestone_is appId i) (milestones s))"
    using assms by (cases "es_milestoneId e")
      (auto simp: settlement_guard_def tx_iff findAgreementForApp_def findMilestoneForApp_def)
  with assertReleaseAllowed_iff [OF this(1)] show ?thesis
    by (auto simp: release_allowed_def truthy_def split: option.splits)
qed

text \<open>The steps of the reservation, in order.\<close>

lemma reserveEscrowSettlement_steps:
  assumes "reserveEscrowSettlement E req appId escrowId operation ctx s = Inr (rs, t)"
  obtains k s1 e s2 u s3 p x d s4 ev s5 l where
    "reserveIdempotentRequest E appId ctx s = Inr (k, s1)"
    "List.find (escrow_is appId escrowId) (escrows s1) = Some e"
    "settlement_guard appId operation e s1 = Inr (u, s2)"
    "transitionEscrowStatus appId escrowId (es_status e) (\<lambda>r. r\<lparr>es_status := settlementPendingStatus operation\<rparr>) s2 = Inr (1, s3)"
    "List.find (escrow_is appId escrowId) (escrows s3) = Some p"
    "td_operationId d = Some (es_id p, operation_type operation)" "td_status d = TS_pending"
    "createTransaction E appId d s3 = Inr (x, s4)"
    "createEvent E appId (escrow_event (settlementPendingEvent operation) p (JObj [
       (''escrow'', serializeEscrow p), (''operation'', JStr (operation_name operation)),
       (''transactionId'', JStr (tr_id x))])) s4 = Inr (ev, s5)"
    "auditEscrow E req appId (es_agreementId p) (es_id p) (''escrow.'' @ escrow_status_name (settlementPendingStatus operation))
       (Some (serializeEscrow e)) (Some (serializeEscrow p)) s5 = Inr (l, t)"
    "rs = \<lparr>rs_before = e, rs_pending = p, rs_transactionId = tr_id x\<rparr>"
proof -
  let ?d = "\<lambda>pending. \<lparr>td_agreementId = Some (es_agreementId pending), td_milestoneId = es_milestoneId pending,
        td_escrowId = Some (es_id pending), td_type = operation_type operation, td_rail = es_rail pending,
        td_network = es_network pending, td_status = TS_pending, td_amount = es_amount pending,
        td_currency = es_currency pending,
        td_rawPayload = JObj [(''operation'', JStr (operation_name operation)),
          (''status'', JStr (escrow_status_name (settlementPendingStatus operation))), (''idempotencyKey'', JStr (ctx_key ctx))],
        td_operationId = Some (es_id pending, operation_type operation)\<rparr>"
  from assms obtain k s1 e g u s2 s3 p x s4 ev s5 l where a:
    "reserveIdempotentRequest E appId ctx s = Inr (k, s1)"
    "List.find (escrow_is appId escrowId) (escrows s1) = Some e"
    "findAgreementForApp appId (es_agreementId e) s1 = Inr (g, s1)"
    "(if operation = Release then
         tx_bind (case es_milestoneId e of
             None \<Rightarrow> tx_return None
           | Some m \<Rightarrow> findMilestoneForApp appId m) (\<lambda>milestone.
         assertReleaseAllowed appId e g milestone)
       else tx_lift (assertRefundAllowed e g)) s1 = Inr (u, s2)"
    "transitionEscrowStatus appId escrowId (es_status e) (\<lambda>r. r\<lparr>es_status := settlementPendingStatus operation\<rparr>) s2 = Inr (1, s3)"
    "List.find (escrow_is appId escrowId) (escrows s3) = Some p"
    "createTransaction E appId (?d p) s3 = Inr (x, s4)"
    "createEvent E appId (escrow_event (settlementPendingEvent operation) p (JObj [
       (''escrow'', serializeEscrow p), (''operation'', JStr (operation_name operation)),
       (''transactionId'', JStr (tr_id x))])) s4 = Inr (ev, s5)"
    "auditEscrow E req appId (es_agreementId p) (es_id p) (''escrow.'' @ escrow_status_name (settlementPendingStatus operation))
       (Some (serializeEscrow e)) (Some (serializeEscrow p)) s5 = Inr (l, t)"
    "rs = \<lparr>rs_before = e, rs_pending = p, rs_transactionId = tr_id x\<rparr>"
    unfolding reserveEscrowSettlement_def findEscrowForApp_def Let_def
    by (auto simp only: tx_bind_iff findFirst_iff tx_some_iff tx_lift_iff tx_require_iff tx_return_iff
        prod.inject fst_conv snd_conv findAgreementForApp_def)
  show thesis
    by (rule that [OF a(1) a(2) _ a(5) a(6) _ _ a(7) a(8) a(9) a(10)])
      (use a(3,4) in \<open>auto simp: settlement_guard_def tx_bind_iff\<close>)
qed

text \<open>
  What a committed reservation did: the escrow it found was funded and the release was allowed, and
  afterwards it is pending, with a transaction record under the operation's identifier.
\<close>

lemma transition_find:
  assumes "transitionEscrowStatus appId i st data s = Inr (n, t)"
    and "List.find (escrow_is appId i) (escrows s) = Some e" and "es_status e = st"
    and "\<And>r. es_id (data r) = es_id r \<and> es_appId (data r) = es_appId r"
  shows "List.find (escrow_is appId i) (escrows t) = Some ((data e)\<lparr>es_updatedAt := clock s\<rparr>)"
proof -
  let ?f = "\<lambda>r. if escrow_is appId i r \<and> es_status r = st then (data r)\<lparr>es_updatedAt := clock s\<rparr> else r"
  have "escrow_is appId i (?f r) = escrow_is appId i r" for r using assms(4) by (simp add: escrow_is_def)
  moreover have "escrows t = map ?f (escrows s)" using assms(1) by (auto simp: transitionEscrowStatus_def tx_iff)
  moreover have "escrow_is appId i e" using assms(2) by (blast dest: find_in)
  ultimately show ?thesis using assms(2,3) by (simp add: find_map_preserving [of "escrow_is appId i" ?f])
qed

lemma reserve_rows:
  assumes "reserveIdempotentRequest E a ctx s = Inr (k, t)"
  shows "escrows t = escrows s" "agreements t = agreements s" "milestones t = milestones s"
    "disputes t = disputes s" "transactions t = transactions s" "clock t = clock s"
  using assms by (auto simp: reserve_iff)

lemma release_allowed_cong:
  "agreements t = agreements s \<Longrightarrow> milestones t = milestones s \<Longrightarrow> disputes t = disputes s
     \<Longrightarrow> release_allowed a e t = release_allowed a e s"
  by (simp add: release_allowed_def split: option.splits)

lemma createTransaction_effect:
  assumes "createTransaction E a d s = Inr (x, t)"
  shows "escrows t = escrows s" "transactions t = transactions s @ [x]" "tr_appId x = a"
    "tr_operationId x = td_operationId d" "tr_status x = td_status d"
    "\<forall>y\<in>set (transactions s). tr_appId y = a \<longrightarrow> td_operationId d \<noteq> None \<longrightarrow> tr_operationId y \<noteq> td_operationId d"
  using assms by (auto simp: createTransaction_def tx_iff transaction_clash_def)

lemma reserveEscrowSettlement_effect:
  assumes "reserveEscrowSettlement E req appId escrowId operation ctx s = Inr (rs, t)"
  obtains e x where "List.find (escrow_is appId escrowId) (escrows s) = Some e"
    and "es_status e = ES_funded" and "operation = Release \<longrightarrow> release_allowed appId e s"
    and "List.find (escrow_is appId escrowId) (escrows t)
       = Some (e\<lparr>es_status := settlementPendingStatus operation, es_updatedAt := clock s\<rparr>)"
    and "transactions t = transactions s @ [x]" and "tr_appId x = appId"
    and "tr_operationId x = Some (escrowId, operation_type operation)" and "tr_status x = TS_pending"
    and "\<forall>y\<in>set (transactions s). tr_appId y = appId \<longrightarrow> tr_operationId y \<noteq> Some (escrowId, operation_type operation)"
proof (rule reserveEscrowSettlement_steps [OF assms])
  fix k s1 e u s2 s3 p d x s4 ev s5 l
  assume a: "reserveIdempotentRequest E appId ctx s = Inr (k, s1)"
    and e: "List.find (escrow_is appId escrowId) (escrows s1) = Some e"
    and g: "settlement_guard appId operation e s1 = Inr (u, s2)"
    and m: "transitionEscrowStatus appId escrowId (es_status e) (\<lambda>r. r\<lparr>es_status := settlementPendingStatus operation\<rparr>) s2 = Inr (1, s3)"
    and p: "List.find (escrow_is appId escrowId) (escrows s3) = Some p"
    and d: "td_operationId d = Some (es_id p, operation_type operation)" "td_status d = TS_pending"
    and c: "createTransaction E appId d s3 = Inr (x, s4)"
    and o: "createEvent E appId (escrow_event (settlementPendingEvent operation) p (JObj [
       (''escrow'', serializeEscrow p), (''operation'', JStr (operation_name operation)),
       (''transactionId'', JStr (tr_id x))])) s4 = Inr (ev, s5)"
      "auditEscrow E req appId (es_agreementId p) (es_id p) (''escrow.'' @ escrow_status_name (settlementPendingStatus operation))
       (Some (serializeEscrow e)) (Some (serializeEscrow p)) s5 = Inr (l, t)"
  note s1 = reserve_rows [OF a]
  from settlement_guard_iff [OF g] have s2: "s2 = s1" and f: "es_status e = ES_funded"
    and r: "operation = Release \<longrightarrow> release_allowed appId e s"
    by (auto simp: release_allowed_cong [OF s1(2-4)])
  have q: "List.find (escrow_is appId escrowId) (escrows s3)
       = Some (e\<lparr>es_status := settlementPendingStatus operation, es_updatedAt := clock s\<rparr>)"
    using transition_find [OF m _ refl] e s1 s2 by simp
  have "es_id p = escrowId" using find_in [OF p] by (simp add: escrow_is_def)
  moreover have "core t = core s4" using outbox_core(1) [OF o(1)] outbox_core(2) o(2) by (simp add: auditEscrow_def)
  moreover have "transactions s3 = transactions s" using m s1 s2 by (auto simp: transitionEscrowStatus_def tx_iff)
  ultimately show thesis
    using createTransaction_effect [OF c] core_eqD [of t s4] d q e f r s1 by (intro that [of e x]) auto
qed

lemma pending_not_funded: "settlementPendingStatus operation \<noteq> ES_funded"
  by (cases operation) (simp_all add: settlementPendingStatus_def)

lemma pending_refuses:
  assumes "List.find (escrow_is appId escrowId) (escrows t) = Some e" and "es_status e \<noteq> ES_funded"
  shows "isl (reserveEscrowSettlement E req appId escrowId operation ctx t)"
proof (cases "reserveEscrowSettlement E req appId escrowId operation ctx t")
  case (Inr r)
  then have "reserveEscrowSettlement E req appId escrowId operation ctx t = Inr (fst r, snd r)" by simp
  then show ?thesis by (rule reserveEscrowSettlement_effect) (use assms in simp)
qed simp

lemma recorded_refuses:
  assumes "x \<in> set (transactions s)" and "tr_appId x = appId"
    and "tr_operationId x = Some (escrowId, operation_type operation)"
  shows "isl (reserveEscrowSettlement E req appId escrowId operation ctx s)"
proof (cases "reserveEscrowSettlement E req appId escrowId operation ctx s")
  case (Inr r)
  then have "reserveEscrowSettlement E req appId escrowId operation ctx s = Inr (fst r, snd r)" by simp
  then show ?thesis by (rule reserveEscrowSettlement_effect) (use assms in blast)
qed simp

end
