(* ===== verification/AuthChallenges.thy ===== *)
theory AuthChallenges
  imports Json "HOL-Library.Finite_Map"
begin

text \<open>
  The challenge stores of \<open>server/src/services/authChallengeStore.ts\<close>. \<open>AuthChallengeStore\<close> is the
  interface of the code: a record of operations, and the locale \<open>challenge_store\<close> for what its clients
  rely on. The store in memory and the store in Redis implement it. The lemma of the interface is that
  a challenge is consumed at most as often as it was put, whatever operations run in between. The
  store in memory reads and deletes in two steps of the event loop: two consumptions that interleave
  there can both succeed.
\<close>

record challenge =
  ch_address :: string
  ch_message :: string
  ch_expiresAt :: int

text \<open>The interface \<open>AuthChallengeStore\<close>; the first argument of each operation is the time of the call.\<close>

record 's store_ops =
  st_put :: "int \<Rightarrow> challenge \<Rightarrow> int \<Rightarrow> 's \<Rightarrow> 's"
  st_get :: "int \<Rightarrow> string \<Rightarrow> 's \<Rightarrow> challenge option \<times> 's"
  st_consume :: "int \<Rightarrow> string \<Rightarrow> string \<Rightarrow> 's \<Rightarrow> bool \<times> 's"

section \<open>MemoryAuthChallengeStore\<close>

type_synonym memory_store = "(string, challenge) fmap"

definition memory_put :: "int \<Rightarrow> challenge \<Rightarrow> int \<Rightarrow> memory_store \<Rightarrow> memory_store" where
  "memory_put time record ttlMs records = fmupd (ch_address record) record records"

definition memory_get :: "int \<Rightarrow> string \<Rightarrow> memory_store \<Rightarrow> challenge option \<times> memory_store" where
  "memory_get time address records = (case fmlookup records address of
       None \<Rightarrow> (None, records)
     | Some r \<Rightarrow> if ch_expiresAt r \<le> time then (None, fmdrop address records) else (Some r, records))"

text \<open>What \<open>consume\<close> does after the \<open>await\<close> of its read.\<close>

definition memory_finish :: "string \<Rightarrow> string \<Rightarrow> challenge option \<Rightarrow> memory_store \<Rightarrow> bool \<times> memory_store" where
  "memory_finish address expectedMessage found records = (case found of
       None \<Rightarrow> (False, records)
     | Some r \<Rightarrow> if ch_message r \<noteq> expectedMessage then (False, records) else (True, fmdrop address records))"

definition memory_consume :: "int \<Rightarrow> string \<Rightarrow> string \<Rightarrow> memory_store \<Rightarrow> bool \<times> memory_store" where
  "memory_consume time address expectedMessage records =
     (case memory_get time address records of (found, records') \<Rightarrow> memory_finish address expectedMessage found records')"

definition MemoryAuthChallengeStore :: "memory_store store_ops" where
  "MemoryAuthChallengeStore = \<lparr>st_put = memory_put, st_get = memory_get, st_consume = memory_consume\<rparr>"

section \<open>RedisAuthChallengeStore\<close>

text \<open>
  A Redis key holds the JSON of the record and the time it expires (\<open>PX\<close>); the value is kept as the
  JSON value. \<open>sha\<close> is the hash of the key. The script of \<open>consume\<close> runs atomically.
\<close>

type_synonym redis_store = "(string, json \<times> int) fmap"

definition challengeKey :: "(string \<Rightarrow> string) \<Rightarrow> string \<Rightarrow> string" where
  "challengeKey sha address = ''pactagent:auth-challenge:'' @ sha address"

definition challenge_json :: "challenge \<Rightarrow> json" where
  "challenge_json r = JObj [(''address'', JStr (ch_address r)), (''message'', JStr (ch_message r)),
     (''expiresAt'', JNum (ch_expiresAt r))]"

definition json_member :: "json \<Rightarrow> string \<Rightarrow> json option" where
  "json_member v k = (case v of JObj ms \<Rightarrow> map_of ms k | _ \<Rightarrow> None)"

definition redis_lookup :: "int \<Rightarrow> string \<Rightarrow> redis_store \<Rightarrow> json option" where
  "redis_lookup time key redis = (case fmlookup redis key of
     None \<Rightarrow> None | Some e \<Rightarrow> if snd e \<le> time then None else Some (fst e))"

definition redis_put :: "(string \<Rightarrow> string) \<Rightarrow> int \<Rightarrow> challenge \<Rightarrow> int \<Rightarrow> redis_store \<Rightarrow> redis_store" where
  "redis_put sha time record ttlMs redis =
     fmupd (challengeKey sha (ch_address record)) (challenge_json record, time + ttlMs) redis"

definition parse_challenge :: "json \<Rightarrow> challenge option" where
  "parse_challenge v = (case (json_member v ''address'', json_member v ''message'', json_member v ''expiresAt'') of
     (Some (JStr a), Some (JStr m), Some (JNum t)) \<Rightarrow> Some \<lparr>ch_address = a, ch_message = m, ch_expiresAt = t\<rparr>
   | _ \<Rightarrow> None)"

definition redis_get :: "(string \<Rightarrow> string) \<Rightarrow> int \<Rightarrow> string \<Rightarrow> redis_store \<Rightarrow> challenge option \<times> redis_store" where
  "redis_get sha time address redis = (case redis_lookup time (challengeKey sha address) redis of
       None \<Rightarrow> (None, redis)
     | Some raw \<Rightarrow> (case parse_challenge raw of
           None \<Rightarrow> (None, redis)
         | Some r \<Rightarrow> (if ch_address r \<noteq> address then None else Some r, redis)))"

definition redis_consume ::
  "(string \<Rightarrow> string) \<Rightarrow> int \<Rightarrow> string \<Rightarrow> string \<Rightarrow> redis_store \<Rightarrow> bool \<times> redis_store" where
  "redis_consume sha time address expectedMessage redis =
     (let key = challengeKey sha address in case redis_lookup time key redis of
       None \<Rightarrow> (False, redis)
     | Some raw \<Rightarrow>
         if json_member raw ''address'' \<noteq> Some (JStr address) \<or> json_member raw ''message'' \<noteq> Some (JStr expectedMessage)
         then (False, redis) else (True, fmdrop key redis))"

definition RedisAuthChallengeStore :: "(string \<Rightarrow> string) \<Rightarrow> redis_store store_ops" where
  "RedisAuthChallengeStore sha = \<lparr>st_put = redis_put sha, st_get = redis_get sha, st_consume = redis_consume sha\<rparr>"

section \<open>What the clients rely on\<close>

text \<open>The operations of a history, and the challenges it accepts, in order.\<close>

datatype store_op = Put int challenge int | Get int string | Consume int string string

fun accepted :: "'s store_ops \<Rightarrow> store_op list \<Rightarrow> 's \<Rightarrow> (string \<times> string) list" where
  "accepted ops [] s = []"
| "accepted ops (Put time r ttlMs # os) s = accepted ops os (st_put ops time r ttlMs s)"
| "accepted ops (Get time a # os) s = accepted ops os (snd (st_get ops time a s))"
| "accepted ops (Consume time a m # os) s = (case st_consume ops time a m s of (b, s') \<Rightarrow>
     (if b then [(a, m)] else []) @ accepted ops os s')"

fun put_of :: "string \<Rightarrow> string \<Rightarrow> store_op \<Rightarrow> bool" where
  "put_of a m (Put time r ttlMs) \<longleftrightarrow> ch_address r = a \<and> ch_message r = m"
| "put_of a m _ \<longleftrightarrow> False"

text \<open>\<open>holds s a m\<close>: the store has the challenge \<open>m\<close> for the address \<open>a\<close>, expired or not.\<close>

locale challenge_store =
  fixes ops :: "'s store_ops"
    and holds :: "'s \<Rightarrow> string \<Rightarrow> string \<Rightarrow> bool"
  assumes get_held: "st_get ops time a s = (Some r, s') \<Longrightarrow> holds s a (ch_message r)"
    and get_keeps: "holds (snd (st_get ops time a s)) b m \<Longrightarrow> holds s b m"
    and put_holds: "holds (st_put ops time r ttlMs s) b m \<Longrightarrow> (b = ch_address r \<and> m = ch_message r) \<or> holds s b m"
    and consume_held: "st_consume ops time a m s = (True, s') \<Longrightarrow> holds s a m \<and> \<not> holds s' a m"
    and consume_keeps: "st_consume ops time a m s = (v, s') \<Longrightarrow> holds s' b n \<Longrightarrow> holds s b n"
begin

lemma accepted_bound:
  "count_list (accepted ops os s) (a, m) \<le> length (filter (put_of a m) os) + (if holds s a m then 1 else 0)"
proof (induction os arbitrary: s)
  case Nil
  then show ?case by simp
next
  case (Cons op os)
  show ?case
  proof (cases op)
    case (Put time r ttlMs)
    then show ?thesis using Cons [of "st_put ops time r ttlMs s"] put_holds [of time r ttlMs s a m]
      by (auto split: if_splits)
  next
    case (Get time b)
    then show ?thesis using Cons [of "snd (st_get ops time b s)"] get_keeps [of time b s a m]
      by (auto split: if_splits)
  next
    case (Consume time b n)
    obtain v s' where c: "st_consume ops time b n s = (v, s')" by (cases "st_consume ops time b n s")
    then show ?thesis using Consume Cons [of s'] consume_keeps [OF c, of a m] consume_held [of time b n s s']
      by (cases v) (auto split: if_splits)
  qed
qed

end

definition memory_holds :: "memory_store \<Rightarrow> string \<Rightarrow> string \<Rightarrow> bool" where
  "memory_holds records a m \<longleftrightarrow> (\<exists>r. fmlookup records a = Some r \<and> ch_message r = m)"

interpretation memoryChallenges: challenge_store MemoryAuthChallengeStore memory_holds
  by unfold_locales
    (auto simp: MemoryAuthChallengeStore_def memory_put_def memory_get_def memory_consume_def memory_finish_def
      memory_holds_def split: option.splits if_splits)

definition redis_holds :: "(string \<Rightarrow> string) \<Rightarrow> redis_store \<Rightarrow> string \<Rightarrow> string \<Rightarrow> bool" where
  "redis_holds sha redis a m \<longleftrightarrow> (\<exists>v t. fmlookup redis (challengeKey sha a) = Some (v, t)
     \<and> json_member v ''address'' = Some (JStr a) \<and> json_member v ''message'' = Some (JStr m))"

interpretation redisChallenges: challenge_store "RedisAuthChallengeStore sha" "redis_holds sha" for sha
proof unfold_locales
  show "redis_holds sha s a (ch_message r)"
    if "st_get (RedisAuthChallengeStore sha) time a s = (Some r, s')" for time a s r s'
    using that
    by (auto simp: RedisAuthChallengeStore_def redis_get_def redis_lookup_def redis_holds_def parse_challenge_def
        split: option.splits if_splits json.splits)
  show "redis_holds sha s b m" if "redis_holds sha (snd (st_get (RedisAuthChallengeStore sha) time a s)) b m" for time a s b m
    using that by (auto simp: RedisAuthChallengeStore_def redis_get_def split: option.splits)
  show "(b = ch_address r \<and> m = ch_message r) \<or> redis_holds sha s b m"
    if "redis_holds sha (st_put (RedisAuthChallengeStore sha) time r ttlMs s) b m" for time r ttlMs s b m
    using that
    by (auto simp: RedisAuthChallengeStore_def redis_put_def redis_holds_def challenge_json_def json_member_def
        split: if_splits)
  show "redis_holds sha s a m \<and> \<not> redis_holds sha s' a m"
    if "st_consume (RedisAuthChallengeStore sha) time a m s = (True, s')" for time a m s s'
    using that
    by (auto simp: RedisAuthChallengeStore_def redis_consume_def redis_lookup_def redis_holds_def Let_def
        split: option.splits if_splits)
  show "redis_holds sha s b n"
    if "st_consume (RedisAuthChallengeStore sha) time a m s = (v, s')" "redis_holds sha s' b n" for time a m s v s' b n
    using that
    by (auto simp: RedisAuthChallengeStore_def redis_consume_def redis_lookup_def redis_holds_def Let_def
        split: option.splits if_splits)
qed

section \<open>Interleaved consumptions in memory\<close>

text \<open>
  Two calls of the in-memory \<open>consume\<close> whose reads both happen before the first deletion: both find the
  challenge and both return true.
\<close>

definition interleaved_consume :: "int \<Rightarrow> string \<Rightarrow> string \<Rightarrow> memory_store \<Rightarrow> bool \<times> bool" where
  "interleaved_consume time address message records =
     (case memory_get time address records of (found, r1) \<Rightarrow>
      case memory_get time address r1 of (found', r2) \<Rightarrow>
      case memory_finish address message found r2 of (b, r3) \<Rightarrow>
        (b, fst (memory_finish address message found' r3)))"

lemma interleaved_both:
  assumes "fmlookup records address = Some r" and "ch_message r = message" and "time < ch_expiresAt r"
  shows "interleaved_consume time address message records = (True, True)"
  using assms by (simp add: interleaved_consume_def memory_get_def memory_finish_def)

lemma sequential_once:
  assumes "memory_consume time address message records = (True, records')"
  shows "fst (memory_consume later address message records') = False"
  using assms by (auto simp: memory_consume_def memory_get_def memory_finish_def split: option.splits if_splits)

end
