(* ===== verification/Auth.thy ===== *)
theory Auth
  imports AuthChallenges Store WebhookSigning
begin

text \<open>
  Wallet authentication: \<open>server/src/services/authService.ts\<close>, \<open>middleware/auth.ts\<close>,
  \<open>middleware/admin.ts\<close> and the two routes of \<open>modules/auth/auth.routes.ts\<close>. Signature verification,
  the addresses of public keys and JSON web tokens belong to other packages: they are the fields of
  \<open>wallet_lib\<close>. The lemmas show what a session proves, for each kind of signature, and when a token that
  was issued is accepted again.
\<close>

record auth_config =
  ac_challengeTtlSecs :: int
  ac_tokenTtlSecs :: int
  ac_jwtKeys :: "string \<Rightarrow> string option"
  ac_jwtActiveKid :: string
  ac_jwtSecret :: string
  ac_adminAddresses :: "string list"

record wallet_signature =
  sg_signature :: string
  sg_identity :: string
  sg_signType :: string

text \<open>The payload of a token: the address when it is a string, and the two times when they are numbers.\<close>

record token_claims =
  tc_address :: "string option"
  tc_iat :: "int option"
  tc_exp :: "int option"

text \<open>
  \<open>wl_publicKeyAddress\<close> is \<open>new SignerCkbPublicKey(client, key).getRecommendedAddress()\<close>: \<open>None\<close> when the
  constructor throws, and otherwise what the promise settles to. \<open>wl_parseJson\<close> is \<open>JSON.parse\<close>, \<open>None\<close>
  when it throws. \<open>wl_sign address key kid time ttl\<close> is \<open>jwt.sign\<close> with the options of the service.
\<close>

record wallet_lib =
  wl_verifyMessage :: "string \<Rightarrow> wallet_signature \<Rightarrow> error + bool"
  wl_publicKeyAddress :: "string \<Rightarrow> (error + string) option"
  wl_parseJson :: "string \<Rightarrow> json option"
  wl_sign :: "string \<Rightarrow> string \<Rightarrow> string \<Rightarrow> int \<Rightarrow> int \<Rightarrow> string"
  wl_decodeKid :: "string \<Rightarrow> string option"
  wl_verifyToken :: "int \<Rightarrow> string \<Rightarrow> string \<Rightarrow> error + token_claims"

section \<open>authService.ts\<close>

definition jwtSigningKey :: "auth_config \<Rightarrow> error + string" where
  "jwtSigningKey cfg = requireConfig (or_else (ac_jwtKeys cfg (ac_jwtActiveKid cfg)) (ac_jwtSecret cfg))"

definition jwtVerificationKey :: "auth_config \<Rightarrow> wallet_lib \<Rightarrow> string \<Rightarrow> error + string" where
  "jwtVerificationKey cfg W token =
     (let kid = or_else (wl_decodeKid W token) [] in
      if kid \<noteq> [] \<and> or_else (ac_jwtKeys cfg kid) [] \<noteq> [] then Inr (or_else (ac_jwtKeys cfg kid) [])
      else if kid = [] \<or> kid = ''legacy'' then
        requireConfig (or_else (Some (ac_jwtSecret cfg)) (or_else (ac_jwtKeys cfg ''legacy'') []))
      else Inl (JsError ''Unknown authentication token key ID.''))"

definition normalizeWalletAddress :: "string \<Rightarrow> string" where
  "normalizeWalletAddress address = toLowerCase (trim address)"

definition buildChallengeMessage :: "string \<Rightarrow> string \<Rightarrow> int \<Rightarrow> string" where
  "buildChallengeMessage address nonce time = join [char_of (10::nat)]
     [''PactAgent Authentication'', [], ''Address: '' @ address, ''Nonce: '' @ nonce,
      ''Issued At: '' @ toISOString time, [], ''Sign this message to authenticate with PactAgent.'']"

definition createChallenge ::
  "auth_config \<Rightarrow> 's store_ops \<Rightarrow> int \<Rightarrow> string \<Rightarrow> string \<Rightarrow> 's \<Rightarrow> (string \<times> string) \<times> 's" where
  "createChallenge cfg ops time nonce address s =
     (let normalized = normalizeWalletAddress address;
          message = buildChallengeMessage normalized nonce time;
          expiresAt = time + ac_challengeTtlSecs cfg * 1000
      in ((message, toISOString expiresAt),
          st_put ops time \<lparr>ch_address = normalized, ch_message = message, ch_expiresAt = expiresAt\<rparr>
            (ac_challengeTtlSecs cfg * 1000) s))"

text \<open>A truthy member of the identity that is a string; \<open>Inl\<close> is the \<open>TypeError\<close> of any other truthy one.\<close>

definition text_member :: "json \<Rightarrow> string \<Rightarrow> unit + string option" where
  "text_member v k = (case json_member v k of
       Some (JStr t) \<Rightarrow> Inr (if t = [] then None else Some t)
     | None \<Rightarrow> Inr None
     | Some JNull \<Rightarrow> Inr None
     | Some (JBool b) \<Rightarrow> (if b then Inl () else Inr None)
     | Some (JNum n) \<Rightarrow> (if n \<noteq> 0 then Inl () else Inr None)
     | Some _ \<Rightarrow> Inl ())"

text \<open>The \<open>try\<close> block of the JoyID branch: \<open>None\<close> when it falls through or throws.\<close>

definition joyIdAddress :: "wallet_lib \<Rightarrow> string \<Rightarrow> (error + string) option" where
  "joyIdAddress W identity = (case wl_parseJson W identity of
       None \<Rightarrow> None
     | Some JNull \<Rightarrow> None
     | Some v \<Rightarrow> (case text_member v ''address'' of
           Inl _ \<Rightarrow> None
         | Inr (Some a) \<Rightarrow> Some (Inr (normalizeWalletAddress a))
         | Inr None \<Rightarrow> (case text_member v ''publicKey'' of
               Inl _ \<Rightarrow> None
             | Inr None \<Rightarrow> None
             | Inr (Some k) \<Rightarrow>
                 (let publicKey = (if startsWith k ''0x'' then k else ''0x'' @ k)
                  in if length publicKey - 2 = 66 then wl_publicKeyAddress W publicKey else None))))"

definition deriveAddressFromSignatureIdentity :: "wallet_lib \<Rightarrow> wallet_signature \<Rightarrow> string \<Rightarrow> error + string" where
  "deriveAddressFromSignatureIdentity W sig requestedAddress =
     (let unsupported = Inl (JsError (''Unsupported signer type for authentication: '' @ sg_signType sig)) in
      if sg_signType sig = ''CkbSecp256k1'' then
        (case wl_publicKeyAddress W (sg_identity sig) of
           None \<Rightarrow> Inl (JsError ''Invalid public key.'') | Some r \<Rightarrow> r)
      else if sg_signType sig = ''JoyId'' then
        (case joyIdAddress W (sg_identity sig) of
           Some r \<Rightarrow> r
         | None \<Rightarrow> if requestedAddress \<noteq> [] then Inr (normalizeWalletAddress requestedAddress) else unsupported)
      else if sg_signType sig = ''EvmPersonal'' \<and> requestedAddress \<noteq> [] then
        Inr (normalizeWalletAddress requestedAddress)
      else unsupported)"

definition isAdminAddress :: "auth_config \<Rightarrow> string \<Rightarrow> bool" where
  "isAdminAddress cfg address \<longleftrightarrow> normalizeWalletAddress address \<in> set (ac_adminAddresses cfg)"

record verify_params =
  vp_address :: string
  vp_message :: string
  vp_signature :: wallet_signature

record session =
  se_token :: string
  se_address :: string
  se_isAdmin :: bool
  se_expiresAt :: string

text \<open>
  The checks between the two calls of the store; \<open>time\<close> is the time of the first call. The result is
  the normalized address.
\<close>

definition checkChallenge :: "wallet_lib \<Rightarrow> int \<Rightarrow> challenge option \<Rightarrow> verify_params \<Rightarrow> error + string" where
  "checkChallenge W time found params =
     (let normalized = normalizeWalletAddress (vp_address params) in
      case found of
        None \<Rightarrow> Inl (JsError ''Authentication challenge not found. Please request a new one.'')
      | Some ch \<Rightarrow>
          res_bind (res_require (\<not> ch_expiresAt ch < time)
            (JsError ''Authentication challenge has expired. Please request a new one.'')) (\<lambda>_.
          res_bind (res_require (ch_address ch = normalized \<and> ch_message ch = vp_message params)
            (JsError ''Challenge message mismatch.'')) (\<lambda>_.
          res_bind (wl_verifyMessage W (vp_message params) (vp_signature params)) (\<lambda>valid.
          res_bind (res_require valid (JsError ''Wallet signature verification failed.'')) (\<lambda>_.
          res_bind (deriveAddressFromSignatureIdentity W (vp_signature params) normalized) (\<lambda>derived.
          res_bind (res_require (normalizeWalletAddress derived = normalized)
            (JsError ''Signed wallet address does not match the requested account.'')) (\<lambda>_.
          Inr normalized)))))))"

text \<open>\<open>time'\<close> is the time of the second call of the store and of the token.\<close>

definition verifyChallenge ::
  "auth_config \<Rightarrow> wallet_lib \<Rightarrow> 's store_ops \<Rightarrow> int \<Rightarrow> int \<Rightarrow> verify_params \<Rightarrow> 's \<Rightarrow> (error + session) \<times> 's" where
  "verifyChallenge cfg W ops time time' params s =
     (case st_get ops time (normalizeWalletAddress (vp_address params)) s of (found, s1) \<Rightarrow>
      case checkChallenge W time found params of
        Inl e \<Rightarrow> (Inl e, s1)
      | Inr normalized \<Rightarrow>
          case st_consume ops time' normalized (vp_message params) s1 of (consumed, s2) \<Rightarrow>
            (if \<not> consumed then
               Inl (JsError ''Authentication challenge was already consumed. Please request a new one.'')
             else res_bind (jwtSigningKey cfg) (\<lambda>key.
               Inr \<lparr>se_token = wl_sign W normalized key (ac_jwtActiveKid cfg) time' (ac_tokenTtlSecs cfg),
                  se_address = normalized, se_isAdmin = isAdminAddress cfg normalized,
                  se_expiresAt = toISOString (time' + ac_tokenTtlSecs cfg * 1000)\<rparr>), s2))"

record auth_info =
  wa_address :: string
  wa_isAdmin :: bool
  wa_issuedAt :: int
  wa_expiresAt :: int

definition verifyAuthToken :: "auth_config \<Rightarrow> wallet_lib \<Rightarrow> int \<Rightarrow> string \<Rightarrow> error + auth_info" where
  "verifyAuthToken cfg W time token =
     res_bind (jwtVerificationKey cfg W token) (\<lambda>key.
     res_bind (wl_verifyToken W time token key) (\<lambda>decoded.
     case tc_address decoded of
       None \<Rightarrow> Inl (JsError ''Invalid authentication token.'')
     | Some a \<Rightarrow>
         if a = [] then Inl (JsError ''Invalid authentication token.'')
         else Inr \<lparr>wa_address = normalizeWalletAddress a, wa_isAdmin = isAdminAddress cfg a,
           wa_issuedAt = (case tc_iat decoded of None \<Rightarrow> 0 | Some t \<Rightarrow> t),
           wa_expiresAt = (case tc_exp decoded of None \<Rightarrow> 0 | Some t \<Rightarrow> t)\<rparr>))"

section \<open>auth.routes.ts and the middleware\<close>

definition verifyRoute ::
  "auth_config \<Rightarrow> wallet_lib \<Rightarrow> 's store_ops \<Rightarrow> int \<Rightarrow> int \<Rightarrow> verify_params \<Rightarrow> 's \<Rightarrow> (error + session) \<times> 's" where
  "verifyRoute cfg W ops time time' params s = (case verifyChallenge cfg W ops time time' params s of
       (Inl e, t) \<Rightarrow> (Inl (invalidRequest ''authentication_verification_failed''), t)
     | (Inr v, t) \<Rightarrow> (Inr v, t))"

definition requireAuth :: "auth_config \<Rightarrow> wallet_lib \<Rightarrow> int \<Rightarrow> string option \<Rightarrow> error + auth_info" where
  "requireAuth cfg W time header =
     (let token = (case header of None \<Rightarrow> [] | Some h \<Rightarrow> if startsWith h ''Bearer '' then drop 7 h else []) in
      if token = [] then Inl authenticationError
      else case verifyAuthToken cfg W time token of Inl e \<Rightarrow> Inl authenticationError | Inr a \<Rightarrow> Inr a)"

definition requireAdmin :: "auth_config \<Rightarrow> auth_info option \<Rightarrow> nat + unit" where
  "requireAdmin cfg auth = (case auth of
       None \<Rightarrow> Inl 401
     | Some a \<Rightarrow> if wa_address a = [] then Inl 401
         else if \<not> isAdminAddress cfg (wa_address a) then Inl 403 else Inr ())"

definition requireInfrastructureAdmin :: "auth_info option \<Rightarrow> error + unit" where
  "requireInfrastructureAdmin auth = (case auth of
       None \<Rightarrow> Inl authenticationError
     | Some a \<Rightarrow> if wa_address a = [] then Inl authenticationError
         else res_require (wa_isAdmin a) (permissionError ''admin_required''))"

section \<open>Addresses and messages\<close>

lemma to_lower_code: "(of_char (to_lower c) :: nat) =
    (if 65 \<le> (of_char c :: nat) \<and> (of_char c :: nat) \<le> 90 then of_char c + 32 else of_char c)"
  by (simp add: to_lower_def Let_def of_char_of)

lemma whitespace_lower: "whitespace (to_lower c) = whitespace c"
  by (auto simp: whitespace_def to_lower_code Let_def)

lemma trim_lower: "trim (toLowerCase s) = toLowerCase (trim s)"
  by (simp add: trim_def toLowerCase_def rev_map dropWhile_map comp_def whitespace_lower)

lemma normalize_idem [simp]: "normalizeWalletAddress (normalizeWalletAddress a) = normalizeWalletAddress a"
  by (simp add: normalizeWalletAddress_def trim_lower trim_idem)
    (simp add: toLowerCase_def to_lower_idem)

text \<open>Challenges with different nonces have different messages.\<close>

lemma first_line: "n @ x # r = n' @ x # r' \<Longrightarrow> x \<notin> set n \<Longrightarrow> x \<notin> set n' \<Longrightarrow> n = n'"
proof (induction n arbitrary: n')
  case Nil
  then show ?case by (cases n') auto
next
  case (Cons c n)
  then show ?case by (cases n') auto
qed

lemma challenge_nonce:
  assumes "buildChallengeMessage a n t = buildChallengeMessage a n' t'"
    and "char_of (10::nat) \<notin> set n" and "char_of (10::nat) \<notin> set n'"
  shows "n = n'"
proof -
  define nl where "nl = char_of (10::nat)"
  define pre where "pre = join [nl] [''PactAgent Authentication'', [], ''Address: '' @ a, ''Nonce: '']"
  define rest where "rest t = join [nl] [''Issued At: '' @ toISOString t, [],
    ''Sign this message to authenticate with PactAgent.'']" for t
  have "buildChallengeMessage a n t = pre @ n @ nl # rest t" for n t
    by (simp add: buildChallengeMessage_def pre_def rest_def nl_def)
  with assms(1) have "n @ nl # rest t = n' @ nl # rest t'" by simp
  then show ?thesis using assms(2,3) unfolding nl_def by (rule first_line)
qed

section \<open>Sessions\<close>

lemma checkChallenge_iff:
  "checkChallenge W time found params = Inr a \<longleftrightarrow>
     a = normalizeWalletAddress (vp_address params)
     \<and> (\<exists>ch. found = Some ch \<and> time \<le> ch_expiresAt ch \<and> ch_address ch = a \<and> ch_message ch = vp_message params)
     \<and> wl_verifyMessage W (vp_message params) (vp_signature params) = Inr True
     \<and> (\<exists>d. deriveAddressFromSignatureIdentity W (vp_signature params) a = Inr d \<and> normalizeWalletAddress d = a)"
  by (auto simp: checkChallenge_def Let_def tx_iff res_require_def split: option.splits if_splits)

text \<open>Every session consumed a challenge of its address.\<close>

lemma verifyChallenge_session:
  assumes "verifyChallenge cfg W ops time time' params s = (Inr v, t)"
  shows "\<exists>s1 found. st_get ops time (normalizeWalletAddress (vp_address params)) s = (found, s1)
    \<and> checkChallenge W time found params = Inr (se_address v)
    \<and> st_consume ops time' (se_address v) (vp_message params) s1 = (True, t)
    \<and> (\<exists>key. jwtSigningKey cfg = Inr key
        \<and> se_token v = wl_sign W (se_address v) key (ac_jwtActiveKid cfg) time' (ac_tokenTtlSecs cfg))"
  using assms by (auto simp: verifyChallenge_def tx_iff split: prod.splits sum.splits if_splits)

text \<open>With a CKB key the session belongs to the owner of the key.\<close>

lemma secp_session:
  assumes "verifyChallenge cfg W ops time time' params s = (Inr v, t)"
    and "sg_signType (vp_signature params) = ''CkbSecp256k1''"
  shows "wl_verifyMessage W (vp_message params) (vp_signature params) = Inr True
    \<and> (\<exists>a. wl_publicKeyAddress W (sg_identity (vp_signature params)) = Some (Inr a)
        \<and> normalizeWalletAddress a = se_address v)"
  using verifyChallenge_session [OF assms(1)] assms(2)
  by (auto simp: checkChallenge_iff deriveAddressFromSignatureIdentity_def split: option.splits)

text \<open>
  With an EVM signature the derived address is the requested one: any signature that verifies, of any
  key, opens a session for any address.
\<close>

lemma evm_session:
  assumes "st_get ops time a s = (Some ch, s1)" and "time \<le> ch_expiresAt ch" and "ch_address ch = a"
    and "a = normalizeWalletAddress (vp_address params)" and "a \<noteq> []"
    and "vp_message params = ch_message ch"
    and "sg_signType (vp_signature params) = ''EvmPersonal''"
    and "wl_verifyMessage W (ch_message ch) (vp_signature params) = Inr True"
    and "st_consume ops time' a (ch_message ch) s1 = (True, t)" and "jwtSigningKey cfg = Inr key"
  shows "\<exists>v. verifyChallenge cfg W ops time time' params s = (Inr v, t) \<and> se_address v = a"
proof -
  have "deriveAddressFromSignatureIdentity W (vp_signature params) a = Inr a"
    using assms(4,5,7) by (simp add: deriveAddressFromSignatureIdentity_def Let_def)
  then have "checkChallenge W time (Some ch) params = Inr a"
    using assms by (auto simp: checkChallenge_iff)
  then show ?thesis using assms by (simp add: verifyChallenge_def)
qed

section \<open>Tokens\<close>

lemma verifyAuthToken_issued:
  assumes "wl_decodeKid W token = Some (ac_jwtActiveKid cfg)" and "jwtSigningKey cfg = Inr key"
    and "or_else (ac_jwtKeys cfg (ac_jwtActiveKid cfg)) [] \<noteq> [] \<or> ac_jwtActiveKid cfg = ''legacy''"
    and "ac_jwtActiveKid cfg \<noteq> []"
  shows "jwtVerificationKey cfg W token = Inr key"
  using assms
  by (auto simp: jwtVerificationKey_def jwtSigningKey_def requireConfig_def or_else_def Let_def
      split: option.splits if_splits)

text \<open>
  A configuration whose active key identifier is not in the keyring, with the legacy secret set, signs
  tokens it never accepts.
\<close>

lemma unknown_kid_refused:
  assumes "wl_decodeKid W token = Some (ac_jwtActiveKid cfg)"
    and "or_else (ac_jwtKeys cfg (ac_jwtActiveKid cfg)) [] = []" and "ac_jwtActiveKid cfg \<notin> {[], ''legacy''}"
  shows "isl (verifyAuthToken cfg W time token)"
  using assms by (auto simp: verifyAuthToken_def jwtVerificationKey_def or_else_def Let_def split: option.splits if_splits)

end
