(* ===== verification/ForeignKeys.thy ===== *)
theory ForeignKeys
  imports Server
begin

text \<open>
  Referential integrity. The schema declares its foreign keys on pairs of an identifier and a tenant
  (\<open>@relation(fields: [agreementId, appId], references: [id, appId])\<close>). The model of the services does not
  check them on insertion: this theory shows that it does not have to, since no transaction of the
  services, of the webhooks or of the workers ever writes a reference to a row that does not exist in
  the same tenant. The locale \<open>fact_logic\<close> is the interface for such proofs: the facts known of the
  current database (here: which rows exist) grow along a transaction, and a fact learnt from a read or
  an insertion is available to everything that follows it.
\<close>

section \<open>Transactions that use what they have read\<close>

text \<open>A handler that only translates the error does not change what a success means.\<close>

lemma tx_catch_rethrow:
  "tx_catch m (\<lambda>e. if b e then tx_throw (c e) else tx_throw e) s = Inr r \<longleftrightarrow> m s = Inr r"
  by (auto simp: tx_catch_iff tx_throw_iff split: if_splits)

lemma find_member: "List.find p xs = Some x \<Longrightarrow> x \<in> set xs"
  by (auto simp: find_Some_iff)

locale fact_logic =
  fixes inv :: "'s \<Rightarrow> bool"
    and facts :: "'s \<Rightarrow> 'k set"
begin

definition yields :: "'k set \<Rightarrow> ('s, 'e, 'a) tx \<Rightarrow> ('a \<Rightarrow> 'k set) \<Rightarrow> bool" where
  "yields F m G \<longleftrightarrow> (\<forall>s x t. inv s \<longrightarrow> F \<subseteq> facts s \<longrightarrow> m s = Inr (x, t) \<longrightarrow>
     inv t \<and> facts s \<subseteq> facts t \<and> G x \<subseteq> facts t)"

definition safe :: "'k set \<Rightarrow> ('s, 'e, 'a) tx \<Rightarrow> bool" where
  "safe F m \<longleftrightarrow> yields F m (\<lambda>_. {})"

lemma yieldsI:
  "(\<And>s x t. inv s \<Longrightarrow> F \<subseteq> facts s \<Longrightarrow> m s = Inr (x, t) \<Longrightarrow> inv t \<and> facts s \<subseteq> facts t \<and> G x \<subseteq> facts t) \<Longrightarrow>
     yields F m G"
  by (simp add: yields_def)

lemma safeI:
  "(\<And>s x t. inv s \<Longrightarrow> F \<subseteq> facts s \<Longrightarrow> m s = Inr (x, t) \<Longrightarrow> inv t \<and> facts s \<subseteq> facts t) \<Longrightarrow> safe F m"
  by (simp add: safe_def yields_def)

lemma safeD: "safe F m \<Longrightarrow> inv s \<Longrightarrow> F \<subseteq> facts s \<Longrightarrow> m s = Inr (x, t) \<Longrightarrow> inv t \<and> facts s \<subseteq> facts t"
  by (auto simp: safe_def yields_def)

lemma safe_inv: "safe {} m \<Longrightarrow> m s = Inr (x, t) \<Longrightarrow> inv s \<Longrightarrow> inv t"
  using safeD [of "{}" m s x t] by simp

lemma yields_safe: "yields F m G \<Longrightarrow> safe F m"
  by (auto simp: safe_def yields_def)

lemma safe_mono: "safe F m \<Longrightarrow> F \<subseteq> F' \<Longrightarrow> safe F' m"
  by (auto simp: safe_def yields_def)

lemma yields_bind: "yields F m G \<Longrightarrow> (\<And>x. safe (F \<union> G x) (f x)) \<Longrightarrow> safe F (tx_bind m f)"
  unfolding safe_def yields_def tx_bind_iff by (clarify, meson Un_least order_trans)

lemma safe_bind: "safe F m \<Longrightarrow> (\<And>x. safe F (f x)) \<Longrightarrow> safe F (tx_bind m f)"
  using yields_bind [of F m "\<lambda>_. {}" f] by (simp add: safe_def)

lemma yields_after: "safe F m \<Longrightarrow> (\<And>x. yields F (f x) G) \<Longrightarrow> yields F (tx_bind m f) G"
  unfolding safe_def yields_def tx_bind_iff by (clarify, meson order_trans)

lemma yields_inserted: "yields F (insertRow get upd c r) (\<lambda>_. K) \<Longrightarrow> G r \<subseteq> K \<Longrightarrow> yields F (insertRow get upd c r) G"
  unfolding yields_def insertRow_iff prod.inject by (clarify, blast)

lemma safe_insert_bind:
  assumes "yields F (insertRow get upd c r) (\<lambda>_. K)" and "safe (F \<union> K) (f r)"
  shows "safe F (tx_bind (insertRow get upd c r) f)"
proof (rule safeI)
  fix s x t
  assume s: "inv s" "F \<subseteq> facts s" and "tx_bind (insertRow get upd c r) f s = Inr (x, t)"
  then obtain y u where u: "insertRow get upd c r s = Inr (y, u)" and f: "f y u = Inr (x, t)" by (auto simp: tx_bind_iff)
  then have "y = r" by (simp add: insertRow_iff)
  moreover have "inv u" "facts s \<subseteq> facts u" "K \<subseteq> facts u" using assms(1) s u by (auto simp: yields_def)
  ultimately show "inv t \<and> facts s \<subseteq> facts t" using safeD [OF assms(2) _ _ f [unfolded \<open>y = r\<close>]] s(2) by auto
qed

lemma yields_catch:
  "yields F m G \<Longrightarrow> yields F (tx_catch m (\<lambda>e. if b e then tx_throw (c e) else tx_throw e)) G"
  unfolding yields_def tx_catch_rethrow .

lemma safe_then: "safe F m \<Longrightarrow> safe F n \<Longrightarrow> safe F (tx_then m n)"
  unfolding tx_then_def by (rule safe_bind)

lemma safe_pure:
  "safe F (tx_return x)" "safe F (tx_throw e)" "safe F (tx_gets g)" "safe F (tx_lift r)"
  "safe F (tx_require b e)" "safe F (tx_some e v)"
  by (auto simp: safe_def yields_def tx_iff)

lemma bind_checks:
  "tx_bind (tx_lift (Inl e)) f = tx_throw e" "tx_bind (tx_lift (Inr x)) f = f x"
  "tx_bind (tx_some e' None) f = tx_throw e'" "tx_bind (tx_some e' (Some x)) f = f x"
  by (simp_all add: tx_defs)

lemma safe_lift_bind: "(\<And>x. r = Inr x \<Longrightarrow> safe F (f x)) \<Longrightarrow> safe F (tx_bind (tx_lift r) f)"
  by (cases r) (simp_all add: bind_checks safe_pure)

lemma safe_require_bind: "(\<And>u. b \<Longrightarrow> safe F (f u)) \<Longrightarrow> safe F (tx_bind (tx_require b e) f)"
  by (auto simp: safe_def yields_def tx_iff)

lemma safe_some_bind: "(\<And>x. v = Some x \<Longrightarrow> safe F (f x)) \<Longrightarrow> safe F (tx_bind (tx_some e v) f)"
  by (cases v) (simp_all add: bind_checks safe_pure)

lemma safe_if: "(b \<Longrightarrow> safe F m) \<Longrightarrow> (\<not> b \<Longrightarrow> safe F n) \<Longrightarrow> safe F (if b then m else n)"
  by simp

lemma safe_option_case:
  "(v = None \<Longrightarrow> safe F m) \<Longrightarrow> (\<And>x. v = Some x \<Longrightarrow> safe F (f x)) \<Longrightarrow>
     safe F (case v of None \<Rightarrow> m | Some x \<Rightarrow> f x)"
  by (cases v) auto

lemma safe_Let: "(\<And>x. safe F (f x)) \<Longrightarrow> safe F (let x = v in f x)"
  by simp

lemma safe_catch: "safe F m \<Longrightarrow> (\<And>e. safe F (h e)) \<Longrightarrow> safe F (tx_catch m h)"
  unfolding safe_def yields_def tx_catch_iff by blast

lemma safe_iterate: "(\<And>x. x \<in> set xs \<Longrightarrow> safe F (f x)) \<Longrightarrow> safe F (tx_iterate f xs)"
  by (induction xs) (auto intro: safe_then safe_pure)

lemma yields_find_bind:
  assumes "\<And>s r. inv s \<Longrightarrow> r \<in> set (get s) \<Longrightarrow> K r \<subseteq> facts s"
    and "\<And>v. (\<And>r. v = Some r \<Longrightarrow> p r) \<Longrightarrow> safe (F \<union> (case v of None \<Rightarrow> {} | Some r \<Rightarrow> K r)) (f v)"
  shows "safe F (tx_bind (findFirst get p) f)"
proof (rule safeI)
  fix s x t
  assume s: "inv s" "F \<subseteq> facts s" and "tx_bind (findFirst get p) f s = Inr (x, t)"
  then have f: "f (List.find p (get s)) s = Inr (x, t)" by (auto simp: tx_iff)
  have "safe (F \<union> (case List.find p (get s) of None \<Rightarrow> {} | Some r \<Rightarrow> K r)) (f (List.find p (get s)))"
    by (rule assms(2)) (auto simp: find_Some_iff)
  moreover have "(case List.find p (get s) of None \<Rightarrow> {} | Some r \<Rightarrow> K r) \<subseteq> facts s"
    using assms(1) [OF s(1)] by (auto split: option.splits dest!: find_member)
  ultimately show "inv t \<and> facts s \<subseteq> facts t" using f s by (blast dest: safeD)
qed

lemma found_bind:
  assumes "\<And>s r. inv s \<Longrightarrow> r \<in> set (get s) \<Longrightarrow> p r \<Longrightarrow> K r \<subseteq> facts s" and "\<And>r. p r \<Longrightarrow> safe (F \<union> K r) (f r)"
  shows "safe F (tx_bind (findFirst get p) (\<lambda>v. tx_bind (tx_some e v) f))"
proof (rule safeI)
  fix s x t
  assume s: "inv s" "F \<subseteq> facts s" and "tx_bind (findFirst get p) (\<lambda>v. tx_bind (tx_some e v) f) s = Inr (x, t)"
  then obtain r where r: "List.find p (get s) = Some r" and f: "f r s = Inr (x, t)" by (auto simp: tx_iff)
  then have p: "r \<in> set (get s)" "p r" by (auto dest: find_member simp: find_Some_iff)
  then show "inv t \<and> facts s \<subseteq> facts t"
    using safeD [OF assms(2) [OF p(2)] s(1) _ f] assms(1) [OF s(1) p] s(2) by simp
qed

lemma yields_findMany_bind:
  assumes "\<And>s r. inv s \<Longrightarrow> r \<in> set (get s) \<Longrightarrow> K r \<subseteq> facts s"
    and "\<And>rs. (\<And>r. r \<in> set rs \<Longrightarrow> p r) \<Longrightarrow> safe (F \<union> \<Union> (K ` set rs)) (f rs)"
  shows "safe F (tx_bind (findMany get p) f)"
proof (rule safeI)
  fix s x t
  assume s: "inv s" "F \<subseteq> facts s" and "tx_bind (findMany get p) f s = Inr (x, t)"
  then have f: "f (filter p (get s)) s = Inr (x, t)" by (auto simp: tx_iff)
  have "safe (F \<union> \<Union> (K ` set (filter p (get s)))) (f (filter p (get s)))"
    by (rule assms(2)) auto
  moreover have "\<Union> (K ` set (filter p (get s))) \<subseteq> facts s" using assms(1) [OF s(1)] by auto
  ultimately show "inv t \<and> facts s \<subseteq> facts t" using f s by (blast dest: safeD)
qed

lemma safe_reads: "safe F (findFirst get p)" "safe F (findMany get p)" "safe F (findLatest get key p)"
  by (auto intro!: safeI simp: tx_iff)

lemmas safe_rules =
  safe_lift_bind safe_require_bind safe_some_bind safe_pure safe_bind safe_then safe_if safe_option_case
  safe_Let safe_catch safe_iterate safe_reads

end

section \<open>References of the rows\<close>

datatype row_key =
    Agreement_key string string
  | Milestone_key string string
  | Escrow_key string string
  | Proof_key string string
  | Dispute_key string string
  | Event_key string string
  | Endpoint_key string string

definition opt_key :: "(string \<Rightarrow> string \<Rightarrow> row_key) \<Rightarrow> string option \<Rightarrow> string \<Rightarrow> row_key set" where
  "opt_key K v a = (case v of None \<Rightarrow> {} | Some i \<Rightarrow> {K i a})"

lemma opt_key_simps [simp]: "opt_key K None a = {}" "opt_key K (Some i) a = {K i a}"
  by (simp_all add: opt_key_def)

definition ag_key :: "agreement \<Rightarrow> row_key" where "ag_key a = Agreement_key (ag_id a) (ag_appId a)"
definition ms_key :: "milestone \<Rightarrow> row_key" where "ms_key m = Milestone_key (ms_id m) (ms_appId m)"
definition es_key :: "escrow \<Rightarrow> row_key" where "es_key e = Escrow_key (es_id e) (es_appId e)"
definition pf_key :: "proof_row \<Rightarrow> row_key" where "pf_key p = Proof_key (pf_id p) (pf_appId p)"
definition dp_key :: "dispute \<Rightarrow> row_key" where "dp_key d = Dispute_key (dp_id d) (dp_appId d)"
definition ev_key :: "event \<Rightarrow> row_key" where "ev_key e = Event_key (ev_id e) (ev_appId e)"
definition we_key :: "webhook_endpoint \<Rightarrow> row_key" where "we_key w = Endpoint_key (we_id w) (we_appId w)"

lemmas key_defs = ag_key_def ms_key_def es_key_def pf_key_def dp_key_def ev_key_def we_key_def

definition ms_refs :: "milestone \<Rightarrow> row_key set" where
  "ms_refs m = {Agreement_key (ms_agreementId m) (ms_appId m)}"

definition es_refs :: "escrow \<Rightarrow> row_key set" where
  "es_refs e = {Agreement_key (es_agreementId e) (es_appId e)} \<union> opt_key Milestone_key (es_milestoneId e) (es_appId e)"

definition tr_refs :: "transaction \<Rightarrow> row_key set" where
  "tr_refs x = opt_key Agreement_key (tr_agreementId x) (tr_appId x) \<union> opt_key Milestone_key (tr_milestoneId x) (tr_appId x)
     \<union> opt_key Escrow_key (tr_escrowId x) (tr_appId x)"

definition pf_refs :: "proof_row \<Rightarrow> row_key set" where
  "pf_refs p = {Agreement_key (pf_agreementId p) (pf_appId p), Milestone_key (pf_milestoneId p) (pf_appId p)}"

definition rv_refs :: "review \<Rightarrow> row_key set" where
  "rv_refs r = {Agreement_key (rv_agreementId r) (rv_appId r), Milestone_key (rv_milestoneId r) (rv_appId r),
     Proof_key (rv_proofSubmissionId r) (rv_appId r)}"

definition dp_refs :: "dispute \<Rightarrow> row_key set" where
  "dp_refs d = {Agreement_key (dp_agreementId d) (dp_appId d), Milestone_key (dp_milestoneId d) (dp_appId d)}"

definition ev_refs :: "event \<Rightarrow> row_key set" where
  "ev_refs e = opt_key Agreement_key (ev_agreementId e) (ev_appId e) \<union> opt_key Milestone_key (ev_milestoneId e) (ev_appId e)
     \<union> opt_key Escrow_key (ev_escrowId e) (ev_appId e) \<union> opt_key Proof_key (ev_proofSubmissionId e) (ev_appId e)
     \<union> opt_key Dispute_key (ev_disputeId e) (ev_appId e)"

definition wd_refs :: "webhook_delivery \<Rightarrow> row_key set" where
  "wd_refs d = {Endpoint_key (wd_endpointId d) (wd_appId d)} \<union> opt_key Event_key (wd_eventId d) (wd_appId d)
     \<union> opt_key Agreement_key (wd_agreementId d) (wd_appId d)"

definition al_refs :: "audit_log \<Rightarrow> row_key set" where
  "al_refs l = (case al_appId l of None \<Rightarrow> {} | Some a \<Rightarrow> opt_key Agreement_key (al_agreementId l) a)"

lemmas ref_defs =
  ms_refs_def es_refs_def tr_refs_def pf_refs_def rv_refs_def dp_refs_def ev_refs_def wd_refs_def al_refs_def

definition row_keys :: "db \<Rightarrow> row_key set" where
  "row_keys s = set (map ag_key (agreements s)) \<union> set (map ms_key (milestones s)) \<union> set (map es_key (escrows s))
     \<union> set (map pf_key (proofs s)) \<union> set (map dp_key (disputes s)) \<union> set (map ev_key (events s)) \<union> set (map we_key (endpoints s))"

definition row_refs :: "db \<Rightarrow> row_key set" where
  "row_refs s = \<Union> (set (map ms_refs (milestones s))) \<union> \<Union> (set (map es_refs (escrows s)))
     \<union> \<Union> (set (map tr_refs (transactions s))) \<union> \<Union> (set (map pf_refs (proofs s))) \<union> \<Union> (set (map rv_refs (reviews s)))
     \<union> \<Union> (set (map dp_refs (disputes s))) \<union> \<Union> (set (map ev_refs (events s))) \<union> \<Union> (set (map wd_refs (deliveries s)))
     \<union> \<Union> (set (map al_refs (auditLogs s)))"

definition ids_unique :: "db \<Rightarrow> bool" where
  "ids_unique s \<longleftrightarrow> distinct (map ag_id (agreements s)) \<and> distinct (map ms_id (milestones s))
     \<and> distinct (map es_id (escrows s)) \<and> distinct (map pf_id (proofs s)) \<and> distinct (map dp_id (disputes s))
     \<and> distinct (map ev_id (events s)) \<and> distinct (map we_id (endpoints s)) \<and> distinct (map wd_id (deliveries s))
     \<and> distinct (map al_id (auditLogs s)) \<and> keys_unique s"

text \<open>Every reference is to a row of the same tenant, and identifiers are unique.\<close>

definition referential :: "db \<Rightarrow> bool" where
  "referential s \<longleftrightarrow> row_refs s \<subseteq> row_keys s \<and> ids_unique s"

interpretation fkl: fact_logic referential row_keys .


section \<open>Operations that keep the references\<close>

definition refs_same :: "db \<Rightarrow> db \<Rightarrow> bool" where
  "refs_same s t \<longleftrightarrow> row_keys s \<subseteq> row_keys t \<and> row_refs t \<subseteq> row_refs s \<and> (ids_unique s \<longrightarrow> ids_unique t)"

interpretation refFrame: step_order refs_same
  by unfold_locales (auto simp: refs_same_def)

lemma refs_safe: "refFrame.resp m \<Longrightarrow> fkl.safe F m"
  by (rule fkl.safeI, drule (1) refFrame.respD) (simp add: referential_def refs_same_def, blast)

lemma refs_tables:
  assumes "agreements t = agreements s" "milestones t = milestones s" "escrows t = escrows s" "proofs t = proofs s"
    "disputes t = disputes s" "events t = events s" "endpoints t = endpoints s" "transactions t = transactions s"
    "reviews t = reviews s" "deliveries t = deliveries s" "auditLogs t = auditLogs s"
    "idempotencyKeys t = idempotencyKeys s"
  shows "refs_same s t"
  using assms by (simp add: refs_same_def row_keys_def row_refs_def ids_unique_def keys_unique_def)

lemma refs_keys:
  "keys_unique (idempotencyKeys_update f s) \<or> \<not> keys_unique s \<Longrightarrow> refs_same s (idempotencyKeys_update f s)"
  by (auto simp: refs_same_def row_keys_def row_refs_def ids_unique_def)

lemma refs_base:
  "refFrame.resp (freshId E)" "refFrame.resp now"
  "refFrame.resp (insertRow jobs jobs_update c1 j)" "refFrame.resp (updateMany jobs jobs_update p1 f1)"
  by (auto intro!: refFrame.respI refs_tables simp: tx_iff)

lemma refs_idempotency:
  "refFrame.resp (insertRow idempotencyKeys idempotencyKeys_update idempotency_clash k)"
  "refFrame.resp (deleteMany idempotencyKeys_update q)"
  "(\<And>s k. p k \<Longrightarrow> ik_appId (f s k) = ik_appId k \<and> ik_key (f s k) = ik_key k) \<Longrightarrow>
     refFrame.resp (updateMany idempotencyKeys idempotencyKeys_update p f)"
proof -
  show "refFrame.resp (insertRow idempotencyKeys idempotencyKeys_update idempotency_clash k)"
    by (rule refFrame.resp_insert, rule refs_keys) (force simp: keys_unique_def idempotency_clash_def)
  show "refFrame.resp (deleteMany idempotencyKeys_update q)"
    by (rule refFrame.resp_delete, rule refs_keys) (auto simp: keys_unique_def distinct_map_filter)
  show "refFrame.resp (updateMany idempotencyKeys idempotencyKeys_update p f)"
    if "\<And>s k. p k \<Longrightarrow> ik_appId (f s k) = ik_appId k \<and> ik_key (f s k) = ik_key k"
    by (rule refFrame.resp_update, rule refs_keys) (use that in \<open>simp add: keys_unique_def comp_def if_distrib cong: if_cong\<close>)
qed

lemma map_if: "(\<And>r. p r \<Longrightarrow> g (f r) = g r) \<Longrightarrow> map g (map (\<lambda>r. if p r then f r else r) xs) = map g xs"
  by simp

lemma refs_update:
  "(\<And>s r. p1 r \<Longrightarrow> ag_id (f1 s r) = ag_id r \<and> ag_key (f1 s r) = ag_key r) \<Longrightarrow>
     refFrame.resp (updateMany agreements agreements_update p1 f1)"
  "(\<And>s r. p2 r \<Longrightarrow> ms_id (f2 s r) = ms_id r \<and> ms_key (f2 s r) = ms_key r \<and> ms_refs (f2 s r) = ms_refs r) \<Longrightarrow>
     refFrame.resp (updateMany milestones milestones_update p2 f2)"
  "(\<And>s r. p3 r \<Longrightarrow> es_id (f3 s r) = es_id r \<and> es_key (f3 s r) = es_key r \<and> es_refs (f3 s r) = es_refs r) \<Longrightarrow>
     refFrame.resp (updateMany escrows escrows_update p3 f3)"
  "(\<And>s r. p4 r \<Longrightarrow> pf_id (f4 s r) = pf_id r \<and> pf_key (f4 s r) = pf_key r \<and> pf_refs (f4 s r) = pf_refs r) \<Longrightarrow>
     refFrame.resp (updateMany proofs proofs_update p4 f4)"
  "(\<And>s r. p5 r \<Longrightarrow> dp_id (f5 s r) = dp_id r \<and> dp_key (f5 s r) = dp_key r \<and> dp_refs (f5 s r) = dp_refs r) \<Longrightarrow>
     refFrame.resp (updateMany disputes disputes_update p5 f5)"
  "(\<And>s r. p6 r \<Longrightarrow> tr_refs (f6 s r) = tr_refs r) \<Longrightarrow>
     refFrame.resp (updateMany transactions transactions_update p6 f6)"
  "(\<And>s r. p7 r \<Longrightarrow> we_id (f7 s r) = we_id r \<and> we_key (f7 s r) = we_key r) \<Longrightarrow>
     refFrame.resp (updateMany endpoints endpoints_update p7 f7)"
  "(\<And>s r. p8 r \<Longrightarrow> wd_id (f8 s r) = wd_id r \<and> wd_refs (f8 s r) = wd_refs r) \<Longrightarrow>
     refFrame.resp (updateMany deliveries deliveries_update p8 f8)"
  by (rule refFrame.resp_update, simp add: refs_same_def row_keys_def row_refs_def ids_unique_def keys_unique_def map_if
      del: set_map map_map list.set_map)+

lemma refs_delete_transactions: "refFrame.resp (deleteMany transactions_update p)"
  by (rule refFrame.resp_delete) (auto simp: refs_same_def row_keys_def row_refs_def ids_unique_def keys_unique_def)

lemmas refs_rules = refFrame.store_rules refs_base

lemma enqueueJob_refs: "refFrame.resp (enqueueJob E q)"
  unfolding enqueueJob_def create_job_def Let_def by (intro refs_rules)

interpretation refIdem: idempotent_frame refs_same appId for appId
  by unfold_locales (unfold idempotency_defs; intro refs_rules refs_idempotency; simp)+

lemma transition_refs:
  "refFrame.resp (transitionAgreementStatus appId i frm to)"
  "refFrame.resp (transitionMilestoneStatus appId i frm2 to2)"
  "refFrame.resp (transitionProofStatus appId i frm3 to3)"
  "refFrame.resp (resolveDispute appId i frm4 input)"
  unfolding transitionAgreementStatus_def transitionMilestoneStatus_def transitionProofStatus_def resolveDispute_def Let_def
  by (intro refs_rules refs_update; simp add: key_defs ref_defs)+

lemma transitionEscrowStatus_refs:
  "(\<And>e. es_terms (data e) = es_terms e) \<Longrightarrow> refFrame.resp (transitionEscrowStatus appId i frm data)"
  unfolding transitionEscrowStatus_def
  by (intro refs_update) (auto simp: key_defs ref_defs es_terms_def)

lemma advance_refs:
  "refFrame.resp (advanceAgreement appId i st path)" "refFrame.resp (advanceMilestone appId j st2 path2)"
  by (induction path arbitrary: st; simp; intro refs_rules transition_refs; simp)
     (induction path2 arbitrary: st2; simp; intro refs_rules transition_refs; simp)

lemma updateTransaction_refs:
  "(\<And>n x. tr_refs (data n x) = tr_refs x) \<Longrightarrow> refFrame.resp (updateTransaction appId i data)"
  unfolding updateTransaction_def by (intro refs_update) (simp add: tr_refs_def)

lemma enqueueCkbReconciliation_refs: "refFrame.resp (enqueueCkbReconciliation E e i)"
  unfolding enqueueCkbReconciliation_def by (intro refs_rules enqueueJob_refs)


section \<open>Insertions\<close>

lemma referential_refs:
  assumes "referential s"
  shows "a \<in> set (agreements s) \<Longrightarrow> {ag_key a} \<subseteq> row_keys s"
    and "m \<in> set (milestones s) \<Longrightarrow> insert (ms_key m) (ms_refs m) \<subseteq> row_keys s"
    and "e \<in> set (escrows s) \<Longrightarrow> insert (es_key e) (es_refs e) \<subseteq> row_keys s"
    and "p \<in> set (proofs s) \<Longrightarrow> insert (pf_key p) (pf_refs p) \<subseteq> row_keys s"
    and "d \<in> set (disputes s) \<Longrightarrow> insert (dp_key d) (dp_refs d) \<subseteq> row_keys s"
    and "w \<in> set (endpoints s) \<Longrightarrow> {we_key w} \<subseteq> row_keys s"
  using assms by (auto simp: referential_def row_refs_def row_keys_def)

lemmas find_rules =
  fkl.yields_find_bind [OF referential_refs(1)] fkl.yields_find_bind [OF referential_refs(2)]
  fkl.yields_find_bind [OF referential_refs(3)] fkl.yields_find_bind [OF referential_refs(4)]
  fkl.yields_find_bind [OF referential_refs(5)]

lemma known_rows:
  assumes "referential s"
  shows "a \<in> set (agreements s) \<Longrightarrow> agreement_is appId i a \<Longrightarrow> {Agreement_key i appId} \<subseteq> row_keys s"
    and "p \<in> set (proofs s) \<Longrightarrow> proof_is appId i p \<Longrightarrow>
      {Proof_key i appId, Agreement_key (pf_agreementId p) appId, Milestone_key (pf_milestoneId p) appId} \<subseteq> row_keys s"
    and "d \<in> set (disputes s) \<Longrightarrow> dispute_is appId i d \<Longrightarrow>
      {Dispute_key i appId, Agreement_key (dp_agreementId d) appId, Milestone_key (dp_milestoneId d) appId} \<subseteq> row_keys s"
    and "e \<in> set (escrows s) \<Longrightarrow> escrow_is appId i e \<Longrightarrow>
      {Escrow_key i appId, Agreement_key (es_agreementId e) appId} \<union> opt_key Milestone_key (es_milestoneId e) appId \<subseteq> row_keys s"
  using referential_refs(1,3,4,5) [OF assms]
  by (fastforce simp: agreement_is_def proof_is_def dispute_is_def escrow_is_def key_defs ref_defs)+

lemma found_rules:
  "(\<And>a. agreement_is appId i a \<Longrightarrow> fkl.safe (F \<union> {Agreement_key i appId}) (f1 a)) \<Longrightarrow>
     fkl.safe F (tx_bind (findFirst agreements (agreement_is appId i)) (\<lambda>v. tx_bind (tx_some e v) f1))"
  "(\<And>p. proof_is appId i p \<Longrightarrow> fkl.safe (F \<union> {Proof_key i appId, Agreement_key (pf_agreementId p) appId,
       Milestone_key (pf_milestoneId p) appId}) (f2 p)) \<Longrightarrow>
     fkl.safe F (tx_bind (findFirst proofs (proof_is appId i)) (\<lambda>v. tx_bind (tx_some e v) f2))"
  "(\<And>d. dispute_is appId i d \<Longrightarrow> fkl.safe (F \<union> {Dispute_key i appId, Agreement_key (dp_agreementId d) appId,
       Milestone_key (dp_milestoneId d) appId}) (f3 d)) \<Longrightarrow>
     fkl.safe F (tx_bind (findFirst disputes (dispute_is appId i)) (\<lambda>v. tx_bind (tx_some e v) f3))"
  "(\<And>r. escrow_is appId i r \<Longrightarrow> fkl.safe (F \<union> ({Escrow_key i appId, Agreement_key (es_agreementId r) appId}
       \<union> opt_key Milestone_key (es_milestoneId r) appId)) (f4 r)) \<Longrightarrow>
     fkl.safe F (tx_bind (findFirst escrows (escrow_is appId i)) (\<lambda>v. tx_bind (tx_some e v) f4))"
  by (rule fkl.found_bind, rule known_rows, assumption+, simp)+

lemma insert_yields:
  assumes "\<And>s. row_keys (upd (\<lambda>rows. rows @ [r]) s) = K \<union> row_keys s"
    and "\<And>s. row_refs (upd (\<lambda>rows. rows @ [r]) s) = R \<union> row_refs s"
    and "\<And>s. ids_unique s \<Longrightarrow> \<forall>q\<in>set (get s). \<not> clash r q \<Longrightarrow> ids_unique (upd (\<lambda>rows. rows @ [r]) s)"
    and "R \<subseteq> F"
  shows "fkl.yields F (insertRow get upd clash r) (\<lambda>_. K)"
proof (rule fkl.yieldsI)
  fix s x t
  assume s: "referential s" "F \<subseteq> row_keys s" and i: "insertRow get upd clash r s = Inr (x, t)"
  then have t: "t = upd (\<lambda>rows. rows @ [r]) s" and c: "\<forall>q\<in>set (get s). \<not> clash r q" by (auto simp: tx_iff)
  have "row_keys t = K \<union> row_keys s" "row_refs t = R \<union> row_refs s" "ids_unique t"
    using assms(1-3) s(1) c by (simp_all add: t referential_def)
  then show "referential t \<and> row_keys s \<subseteq> row_keys t \<and> K \<subseteq> row_keys t"
    using s assms(4) unfolding referential_def by (metis Un_least le_supI2 order_trans sup_ge1 sup_ge2)
qed

lemma keys_snoc:
  "row_keys (agreements_update (\<lambda>rows. rows @ [r1]) s) = {ag_key r1} \<union> row_keys s"
  "row_keys (milestones_update (\<lambda>rows. rows @ [r2]) s) = {ms_key r2} \<union> row_keys s"
  "row_keys (escrows_update (\<lambda>rows. rows @ [r3]) s) = {es_key r3} \<union> row_keys s"
  "row_keys (proofs_update (\<lambda>rows. rows @ [r4]) s) = {pf_key r4} \<union> row_keys s"
  "row_keys (disputes_update (\<lambda>rows. rows @ [r5]) s) = {dp_key r5} \<union> row_keys s"
  "row_keys (events_update (\<lambda>rows. rows @ [r6]) s) = {ev_key r6} \<union> row_keys s"
  "row_keys (endpoints_update (\<lambda>rows. rows @ [r7]) s) = {we_key r7} \<union> row_keys s"
  "row_keys (transactions_update (\<lambda>rows. rows @ [r8]) s) = {} \<union> row_keys s"
  "row_keys (reviews_update (\<lambda>rows. rows @ [r9]) s) = {} \<union> row_keys s"
  "row_keys (deliveries_update (\<lambda>rows. rows @ [r10]) s) = {} \<union> row_keys s"
  "row_keys (auditLogs_update (\<lambda>rows. rows @ [r11]) s) = {} \<union> row_keys s"
  by (simp_all add: row_keys_def)

lemma refs_snoc:
  "row_refs (agreements_update (\<lambda>rows. rows @ [r1]) s) = {} \<union> row_refs s"
  "row_refs (milestones_update (\<lambda>rows. rows @ [r2]) s) = ms_refs r2 \<union> row_refs s"
  "row_refs (escrows_update (\<lambda>rows. rows @ [r3]) s) = es_refs r3 \<union> row_refs s"
  "row_refs (proofs_update (\<lambda>rows. rows @ [r4]) s) = pf_refs r4 \<union> row_refs s"
  "row_refs (disputes_update (\<lambda>rows. rows @ [r5]) s) = dp_refs r5 \<union> row_refs s"
  "row_refs (events_update (\<lambda>rows. rows @ [r6]) s) = ev_refs r6 \<union> row_refs s"
  "row_refs (endpoints_update (\<lambda>rows. rows @ [r7]) s) = {} \<union> row_refs s"
  "row_refs (transactions_update (\<lambda>rows. rows @ [r8]) s) = tr_refs r8 \<union> row_refs s"
  "row_refs (reviews_update (\<lambda>rows. rows @ [r9]) s) = rv_refs r9 \<union> row_refs s"
  "row_refs (deliveries_update (\<lambda>rows. rows @ [r10]) s) = wd_refs r10 \<union> row_refs s"
  "row_refs (auditLogs_update (\<lambda>rows. rows @ [r11]) s) = al_refs r11 \<union> row_refs s"
  by (simp_all add: row_refs_def Un_ac)

lemmas clash_defs =
  agreement_clash_def milestone_clash_def escrow_clash_def proof_clash_def dispute_clash_def event_clash_def
  endpoint_clash_def delivery_clash_def audit_clash_def

lemma insert_key_rows:
  "fkl.yields F (insertRow agreements agreements_update agreement_clash r1) (\<lambda>_. {ag_key r1})"
  "ms_refs r2 \<subseteq> F \<Longrightarrow> fkl.yields F (insertRow milestones milestones_update milestone_clash r2) (\<lambda>_. {ms_key r2})"
  "es_refs r3 \<subseteq> F \<Longrightarrow> fkl.yields F (insertRow escrows escrows_update escrow_clash r3) (\<lambda>_. {es_key r3})"
  "pf_refs r4 \<subseteq> F \<Longrightarrow> fkl.yields F (insertRow proofs proofs_update proof_clash r4) (\<lambda>_. {pf_key r4})"
  "dp_refs r5 \<subseteq> F \<Longrightarrow> fkl.yields F (insertRow disputes disputes_update dispute_clash r5) (\<lambda>_. {dp_key r5})"
  "ev_refs r6 \<subseteq> F \<Longrightarrow> fkl.yields F (insertRow events events_update event_clash r6) (\<lambda>_. {ev_key r6})"
  "fkl.yields F (insertRow endpoints endpoints_update endpoint_clash r7) (\<lambda>_. {we_key r7})"
  by (rule insert_yields, rule keys_snoc, rule refs_snoc, force simp: ids_unique_def keys_unique_def clash_defs, simp)+

lemma insert_rows:
  "tr_refs r1 \<subseteq> F \<Longrightarrow> fkl.safe F (insertRow transactions transactions_update c1 r1)"
  "rv_refs r2 \<subseteq> F \<Longrightarrow> fkl.safe F (insertRow reviews reviews_update c2 r2)"
  "wd_refs r3 \<subseteq> F \<Longrightarrow> fkl.safe F (insertRow deliveries deliveries_update delivery_clash r3)"
  "al_refs r4 \<subseteq> F \<Longrightarrow> fkl.safe F (insertRow auditLogs auditLogs_update audit_clash r4)"
  unfolding fkl.safe_def
  by (rule insert_yields, rule keys_snoc, rule refs_snoc, force simp: ids_unique_def keys_unique_def clash_defs, simp)+

lemma safe_base: "fkl.safe F (freshId E)" "fkl.safe F now" "fkl.safe F (insertRow jobs jobs_update c j)"
  by (intro refs_safe refs_base)+


section \<open>The outbox\<close>

definition event_refs :: "string \<Rightarrow> event_data \<Rightarrow> row_key set" where
  "event_refs a d = opt_key Agreement_key (ed_agreementId d) a \<union> opt_key Milestone_key (ed_milestoneId d) a
     \<union> opt_key Escrow_key (ed_escrowId d) a \<union> opt_key Proof_key (ed_proofSubmissionId d) a
     \<union> opt_key Dispute_key (ed_disputeId d) a"

lemma createDeliveryFor_safe:
  assumes "{Endpoint_key (we_id w) (ev_appId e), ev_key e} \<union> ev_refs e \<subseteq> F"
  shows "fkl.safe F (createDeliveryFor E e w)"
proof -
  have w: "fkl.safe F (insertRow deliveries deliveries_update delivery_clash r)"
    if "wd_refs r = {Endpoint_key (we_id w) (ev_appId e), ev_key e} \<union> opt_key Agreement_key (ev_agreementId e) (ev_appId e)" for r
    using assms that by (intro insert_rows) (auto simp: ev_refs_def)
  show ?thesis unfolding createDeliveryFor_def Let_def
    by (intro fkl.safe_rules safe_base w) (auto simp: wd_refs_def ev_key_def)
qed

lemma createEvent_safe:
  assumes "event_refs appId d \<subseteq> F"
  shows "fkl.safe F (createEvent E appId d)"
proof -
  have d: "fkl.safe G (createWebhookDeliveriesForEvent E e)" if "insert (ev_key e) (ev_refs e) \<subseteq> G" for e G
    unfolding createWebhookDeliveriesForEvent_def
    by (rule fkl.yields_findMany_bind [OF referential_refs(6)], assumption, assumption, intro fkl.safe_rules createDeliveryFor_safe)
      (use that in \<open>auto simp: subscribed_def we_key_def\<close>)
  show ?thesis unfolding createEvent_def
    by (intro fkl.safe_insert_bind [OF insert_key_rows(6)] fkl.safe_rules safe_base d)
      (use assms in \<open>auto simp: ev_refs_def event_refs_def\<close>)
qed

lemma createInfrastructureAuditLog_safe:
  "(\<And>a g. ai_appId i = Some a \<Longrightarrow> ai_agreementId i = Some g \<Longrightarrow> Agreement_key g a \<in> F) \<Longrightarrow>
     fkl.safe F (createInfrastructureAuditLog E i)"
  unfolding createInfrastructureAuditLog_def
  by (intro fkl.safe_rules safe_base insert_rows) (auto simp: al_refs_def opt_key_def split: option.splits)

lemma auditRequest_safe: "Agreement_key g a \<in> F \<Longrightarrow> fkl.safe F (auditRequest E req a g ty i action b c)"
  unfolding auditRequest_def by (rule createInfrastructureAuditLog_safe) simp

section \<open>Creation of the rows\<close>

lemma created_yields:
  assumes "\<And>i t. fkl.yields F (insertRow get upd c (row i t)) (\<lambda>_. K i t)" and "\<And>i t. G (row i t) \<subseteq> K i t"
  shows "fkl.yields F (tx_bind (freshId E) (\<lambda>i. tx_bind now (\<lambda>t. insertRow get upd c (row i t)))) G"
  by (rule fkl.yields_after, rule safe_base, rule fkl.yields_after, rule safe_base,
      rule fkl.yields_inserted, rule assms(1), rule assms(2))

lemma createAgreement_yields: "fkl.yields F (createAgreement E appId input) (\<lambda>a. {Agreement_key (ag_id a) appId})"
  unfolding createAgreement_def by (rule created_yields, rule insert_key_rows) (simp add: ag_key_def)

lemma createMilestone_yields:
  "Agreement_key g appId \<in> F \<Longrightarrow>
     fkl.yields F (createMilestone E appId g input order currency) (\<lambda>m. {Milestone_key (ms_id m) appId})"
  unfolding createMilestone_def by (rule created_yields, rule insert_key_rows) (simp_all add: ms_key_def ms_refs_def)

lemma createProof_yields:
  "{Agreement_key (cpi_agreementId input) appId, Milestone_key (cpi_milestoneId input) appId} \<subseteq> F \<Longrightarrow>
     fkl.yields F (createProof E appId input) (\<lambda>p. {Proof_key (pf_id p) appId})"
  unfolding createProof_def by (rule created_yields, rule insert_key_rows) (simp_all add: pf_key_def pf_refs_def)

lemma createDispute_yields:
  "{Agreement_key (cdi_agreementId input) appId, Milestone_key (cdi_milestoneId input) appId} \<subseteq> F \<Longrightarrow>
     fkl.yields F (createDispute E appId input) (\<lambda>d. {Dispute_key (dp_id d) appId})"
  unfolding createDispute_def by (rule created_yields, rule insert_key_rows) (simp_all add: dp_key_def dp_refs_def)

lemma createReview_safe:
  "{Agreement_key g appId, Milestone_key m appId, Proof_key p appId} \<subseteq> F \<Longrightarrow>
     fkl.safe F (createReview E appId g m p input)"
  unfolding createReview_def by (intro fkl.safe_rules safe_base insert_rows) (simp add: rv_refs_def)

lemma createTransaction_safe:
  "opt_key Agreement_key (td_agreementId d) appId \<union> opt_key Milestone_key (td_milestoneId d) appId
      \<union> opt_key Escrow_key (td_escrowId d) appId \<subseteq> F \<Longrightarrow> fkl.safe F (createTransaction E appId d)"
  unfolding createTransaction_def by (intro fkl.safe_rules safe_base insert_rows) (simp add: tr_refs_def)

lemma createEscrow_yields:
  assumes "{Agreement_key (cei_agreementId input) appId} \<union> opt_key Milestone_key (cei_milestoneId input) appId \<subseteq> F"
  shows "fkl.yields F (createEscrow E appId input) (\<lambda>e. {Escrow_key (es_id e) appId,
      Agreement_key (es_agreementId e) appId} \<union> opt_key Milestone_key (es_milestoneId e) appId)"
proof -
  have "fkl.yields F (createEscrow E appId input) (\<lambda>e. {Escrow_key (es_id e) appId})"
    unfolding createEscrow_def by (rule created_yields, rule insert_key_rows) (use assms in \<open>simp_all add: es_key_def es_refs_def\<close>)
  moreover have "es_agreementId e = cei_agreementId input \<and> es_milestoneId e = cei_milestoneId input"
    if "createEscrow E appId input s = Inr (e, t)" for s e t
    using createEscrow_effect(4) [OF that] by (simp add: escrow_scope_def)
  ultimately show ?thesis using assms unfolding fkl.yields_def by (metis Un_insert_left insert_is_Un le_sup_iff order_trans)
qed


section \<open>The transactions of the services\<close>

lemmas create_binds =
  fkl.yields_bind [OF fkl.yields_catch [OF createAgreement_yields]]
  fkl.yields_bind [OF fkl.yields_catch [OF createMilestone_yields]]
  fkl.yields_bind [OF createProof_yields]
  fkl.yields_bind [OF fkl.yields_catch [OF createDispute_yields]]
  fkl.yields_bind [OF fkl.yields_catch [OF createEscrow_yields]]

lemmas kept_rules =
  transition_refs [THEN refs_safe] advance_refs [THEN refs_safe] enqueueCkbReconciliation_refs [THEN refs_safe]
  refIdem.reserve [THEN refs_safe] refIdem.store [THEN refs_safe]

lemmas run_rules =
  create_binds found_rules find_rules fkl.safe_rules kept_rules createEvent_safe auditRequest_safe createReview_safe
  createTransaction_safe

lemmas event_defs =
  event_refs_def agreement_event_def milestone_event_def proof_event_def dispute_event_def escrow_event_def

lemmas lookup_defs =
  agreement_is_def milestone_is_def proof_is_def dispute_is_def escrow_is_def

lemma agreement_runs_safe:
  "fkl.safe F (createAgreement_run E req appId input)"
  "fkl.safe F (transitionAgreement_run E req appId i st)"
  "fkl.safe F (acceptAgreement_run E req appId i)"
  unfolding createAgreement_run_def transitionAgreement_run_def acceptAgreement_run_def findAgreementForApp_def
    auditLifecycleChange_def Let_def
  by (intro run_rules; auto simp: event_defs lookup_defs key_defs)+

lemma createMilestone_run_safe: "fkl.safe F (createMilestone_run E req appId i input)"
  unfolding createMilestone_run_def lockAgreementForMilestoneAllocation_def getMilestoneAmountSumForAgreement_def
    getNextMilestoneOrder_def findAgreementForApp_def auditMilestoneCreate_def Let_def
  by (intro run_rules; auto simp: event_defs lookup_defs key_defs)


lemma scopedMilestone_bind:
  assumes "\<And>m. milestone_is appId i m \<Longrightarrow> ms_agreementId m = ag_id a \<Longrightarrow> fkl.safe (insert (Milestone_key i appId) F) (f m)"
  shows "fkl.safe F (tx_bind (findScopedMilestone appId a i) f)"
proof (rule fkl.safeI)
  fix s x t
  assume s: "referential s" "F \<subseteq> row_keys s" and "tx_bind (findScopedMilestone appId a i) f s = Inr (x, t)"
  then obtain m where m: "List.find (milestone_is appId i) (milestones s) = Some m" "ms_agreementId m = ag_id a"
    and f: "f m s = Inr (x, t)"
    by (auto simp: findScopedMilestone_def findMilestoneForApp_def tx_iff)
  then have i: "milestone_is appId i m" by (auto simp: find_Some_iff)
  then have "Milestone_key i appId \<in> row_keys s"
    using referential_refs(2) [OF s(1) find_member [OF m(1)]] by (auto simp: milestone_is_def ms_key_def)
  then show "referential t \<and> row_keys s \<subseteq> row_keys t"
    using fkl.safeD [OF assms [OF i m(2)] s(1) _ f] s(2) by auto
qed

lemma proof_runs_safe:
  "fkl.safe F (createProof_run E req appId input)"
  "fkl.safe F (reviewProof_run E req appId i rinput)"
  unfolding createProof_run_def reviewProof_run_def findAgreementForApp_def findProofForApp_def startReview_def
    auditProof_def Let_def
  by (intro scopedMilestone_bind run_rules; clarsimp simp: event_defs lookup_defs key_defs pf_refs_def)+

lemma dispute_runs_safe:
  "fkl.safe F (createDispute_run E req appId input)"
  "fkl.safe F (resolveDispute_run E req appId i rinput)"
  unfolding createDispute_run_def resolveDispute_run_def findAgreementForApp_def findDisputeForApp_def checkSplit_def
    findUnresolvedDisputeForScope_def findActiveEscrowForScope_def auditDispute_def Let_def
  by (intro scopedMilestone_bind run_rules; clarsimp simp: event_defs lookup_defs key_defs dp_refs_def)+

lemma mutation_safe: "fkl.safe F (mutation_run E req appId m)"
  by (cases m) (simp_all add: agreement_runs_safe createMilestone_run_safe proof_runs_safe dispute_runs_safe)


section \<open>The transactions of escrows\<close>

definition escrow_keys :: "string \<Rightarrow> escrow \<Rightarrow> row_key set" where
  "escrow_keys appId e = {Escrow_key (es_id e) appId, Agreement_key (es_agreementId e) appId}
     \<union> opt_key Milestone_key (es_milestoneId e) appId"

lemma scope_safe:
  assumes "escrow_keys appId e \<subseteq> F"
  shows "fkl.safe F (transitionMilestoneIfAllowed E appId operation e m)"
    and "fkl.safe F (transitionFundingScope E appId e)"
proof -
  have e: "fkl.safe G (createEvent E appId (escrow_event ty e p))" if "F \<subseteq> G" for G ty p
    using assms that by (intro createEvent_safe) (auto simp: event_defs escrow_keys_def)
  have m: "fkl.safe F (findMilestoneForApp appId i)" "fkl.safe F (findAgreementForApp appId j)" for i j
    unfolding findMilestoneForApp_def findAgreementForApp_def by (rule fkl.safe_reads)+
  show "fkl.safe F (transitionMilestoneIfAllowed E appId operation e m)" "fkl.safe F (transitionFundingScope E appId e)"
    unfolding transitionMilestoneIfAllowed_def transitionFundingScope_def Let_def
    by (intro fkl.safe_rules m e kept_rules; simp)+
qed

lemma all_terminal_refs: "refFrame.resp (transitionAgreementWhenAllEscrowsTerminal appId i operation)"
  unfolding transitionAgreementWhenAllEscrowsTerminal_def findAgreementForApp_def listEscrowsForAgreement_def Let_def
  by (intro refs_rules transition_refs)

lemma settleScope_safe: "escrow_keys appId e \<subseteq> F \<Longrightarrow> fkl.safe F (settleScope E appId operation e payload)"
  unfolding settleScope_def
  by (intro fkl.safe_rules scope_safe createEvent_safe all_terminal_refs [THEN refs_safe]; auto simp: event_defs escrow_keys_def)

lemma agreementScope_yields:
  "fkl.yields F (assertEscrowAgreementScope appId input)
     (\<lambda>_. {Agreement_key (cei_agreementId input) appId} \<union> opt_key Milestone_key (cei_milestoneId input) appId)"
proof (rule fkl.yieldsI)
  fix s x t
  assume s: "referential s" and a: "assertEscrowAgreementScope appId input s = Inr (x, t)"
  from a have "t = s" by (rule assertEscrowAgreementScope_reads)
  moreover from a obtain g where g: "List.find (agreement_is appId (cei_agreementId input)) (agreements s) = Some g"
    and m: "\<And>i. cei_milestoneId input = Some i \<Longrightarrow> \<exists>m. List.find (milestone_is appId i) (milestones s) = Some m"
    by (auto simp: assertEscrowAgreementScope_def findScopedMilestone_def findAgreementForApp_def
        findMilestoneForApp_def tx_iff Let_def)
  moreover have "Agreement_key (cei_agreementId input) appId \<in> row_keys s"
    using known_rows(1) [OF s find_member [OF g]] g by (auto simp: find_Some_iff)
  moreover have "opt_key Milestone_key (cei_milestoneId input) appId \<subseteq> row_keys s"
    using m referential_refs(2) [OF s] by (cases "cei_milestoneId input")
      (fastforce simp: milestone_is_def ms_key_def find_Some_iff dest: find_member)+
  ultimately show "referential t \<and> row_keys s \<subseteq> row_keys t
      \<and> {Agreement_key (cei_agreementId input) appId} \<union> opt_key Milestone_key (cei_milestoneId input) appId \<subseteq> row_keys t"
    using s by simp
qed

lemma reserveEscrowCreation_safe: "fkl.safe F (reserveEscrowCreation E appId input ctx)"
  unfolding reserveEscrowCreation_def findTerminalEscrowForMilestone_def findTerminalEscrowForAgreement_def
    findActiveEscrowForScope_def
  by (intro fkl.yields_bind [OF agreementScope_yields] run_rules; auto)


lemma column_updates:
  "es_terms (e\<lparr>es_status := st\<rparr>) = es_terms e"
  "es_terms (e\<lparr>es_status := st, es_lockTxHash := h\<rparr>) = es_terms e"
  "es_terms (lock_columns st res c e) = es_terms e"
  "es_terms (settlement_columns operation st h e) = es_terms e"
  by (simp_all add: es_terms_def lock_columns_def settlement_columns_def split: settlement_operation.split)

lemma moved_safe:
  "fkl.safe F (transitionEscrowStatus appId i frm (\<lambda>e. e\<lparr>es_status := st\<rparr>))"
  "fkl.safe F (transitionEscrowStatus appId i frm (\<lambda>e. e\<lparr>es_status := st, es_lockTxHash := h\<rparr>))"
  "fkl.safe F (transitionEscrowStatus appId i frm (lock_columns st res c))"
  "fkl.safe F (transitionEscrowStatus appId i frm (settlement_columns operation st h))"
  by (intro refs_safe transitionEscrowStatus_refs column_updates)+

lemma updateTransaction_safe:
  "(\<And>n x. tr_refs (data n x) = tr_refs x) \<Longrightarrow> fkl.safe F (updateTransaction appId i data)"
  by (intro refs_safe updateTransaction_refs)

lemmas escrow_rules = scope_safe settleScope_safe moved_safe updateTransaction_safe run_rules

lemma finalizeEscrowCreation_safe: "fkl.safe F (finalizeEscrowCreation E req appId r ctx res)"
  unfolding finalizeEscrowCreation_def findEscrowForApp_def auditEscrow_def Let_def
  by (intro escrow_rules; simp add: event_defs lookup_defs tr_refs_def; blast?)

lemma funding_safe:
  "fkl.safe F (beginEscrowFunding E req appId i ctx)"
  "fkl.safe F (finalizeEscrowFunding E req appId b ctx res)"
  unfolding beginEscrowFunding_def finalizeEscrowFunding_def findEscrowForApp_def findTransactionForEscrowType_def
    auditEscrow_def Let_def
  by (intro escrow_rules; simp add: event_defs lookup_defs tr_refs_def escrow_keys_def; blast?)+

lemma reserveEscrowSettlement_safe: "fkl.safe F (reserveEscrowSettlement E req appId i operation ctx)"
  unfolding reserveEscrowSettlement_def findEscrowForApp_def findAgreementForApp_def findMilestoneForApp_def
    assertReleaseAllowed_def findResolvedReleaseDisputeForEscrowScope_def auditEscrow_def Let_def
  by (intro escrow_rules; simp add: event_defs lookup_defs tr_refs_def escrow_keys_def; blast?)

lemma settle_safe:
  "fkl.safe F (finalizeFailedEscrowSettlement E req appId operation rs ctx err)"
  "fkl.safe F (finalizeSuccessfulEscrowSettlement E req appId operation rs ctx res)"
  unfolding finalizeFailedEscrowSettlement_def finalizeSuccessfulEscrowSettlement_def findEscrowForApp_def
    auditEscrow_def Let_def
  by (intro escrow_rules; simp add: event_defs lookup_defs tr_refs_def escrow_keys_def; blast?)+


lemma auditSystem_safe: "Agreement_key (es_agreementId e) appId \<in> F \<Longrightarrow> fkl.safe F (auditSystem E appId e action b c)"
  unfolding auditSystem_def by (rule createInfrastructureAuditLog_safe) simp

lemma reconciliationEvents_safe:
  "escrow_keys appId e \<subseteq> F \<Longrightarrow> fkl.safe F (reconciliationEvents E appId x reorg frm nxt e b)"
  unfolding reconciliationEvents_def Let_def
  by (intro escrow_rules; simp add: event_defs escrow_keys_def)

text \<open>The reads of the reconciliation come before the checks that the rows were found.\<close>

lemma applyObservation_safe: "fkl.safe F (applyObservation E n x e ob)"
  unfolding applyObservation_def Let_def findEscrowForApp_def
  by (intro reconciliationEvents_safe auditSystem_safe fkl.safe_bind [OF fkl.safe_reads(1)] escrow_rules;
      simp add: lookup_defs tr_refs_def escrow_keys_def observed_columns_def; blast?)

lemma in_opt_key: "k \<in> opt_key K v a \<longleftrightarrow> (\<exists>i. v = Some i \<and> k = K i a)"
  by (cases v) auto

lemma escrow_in_refs [simp]:
  "Escrow_key i a \<notin> ms_refs m" "Escrow_key i a \<notin> es_refs e" "Escrow_key i a \<notin> pf_refs p" "Escrow_key i a \<notin> rv_refs r"
  "Escrow_key i a \<notin> dp_refs d" "Escrow_key i a \<notin> wd_refs w" "Escrow_key i a \<notin> al_refs l"
  "Escrow_key i a \<in> tr_refs x \<longleftrightarrow> tr_escrowId x = Some i \<and> tr_appId x = a"
  "Escrow_key i a \<in> ev_refs v \<longleftrightarrow> ev_escrowId v = Some i \<and> ev_appId v = a"
  by (auto simp: ref_defs in_opt_key split: option.split)

lemma escrow_reference:
  "Escrow_key i a \<in> row_refs s \<longleftrightarrow>
     (\<exists>x\<in>set (transactions s). tr_escrowId x = Some i \<and> tr_appId x = a)
     \<or> (\<exists>v\<in>set (events s). ev_escrowId v = Some i \<and> ev_appId v = a)"
  by (simp add: row_refs_def)

lemma deleteEscrows_referential:
  assumes "deleteEscrows p s = Inr (u, t)" and "referential s"
  shows "referential t"
proof -
  have t: "t = escrows_update (filter (\<lambda>e. \<not> p e)) s"
    and free: "\<forall>e\<in>set (escrows s). p e \<longrightarrow> \<not> escrow_referenced e s"
    using assms(1) by (auto simp: deleteEscrows_def tx_iff list_ex_iff)
  have refs: "row_refs t \<subseteq> row_refs s" and u: "ids_unique t"
    using assms(2) by (auto simp: t row_refs_def referential_def ids_unique_def keys_unique_def distinct_map_filter)
  have "k \<in> row_keys t" if k: "k \<in> row_refs s" "k \<in> row_keys s" for k
  proof (cases "\<exists>e\<in>set (escrows s). p e \<and> k = es_key e")
    case True
    then obtain e where e: "e \<in> set (escrows s)" "p e" and "k = Escrow_key (es_id e) (es_appId e)" by (auto simp: es_key_def)
    then have "escrow_referenced e s" using k(1) by (simp add: escrow_referenced_def list_ex_iff escrow_reference)
    with free e show ?thesis by blast
  next
    case False
    with k(2) show ?thesis by (auto simp: t row_keys_def)
  qed
  then show ?thesis using refs u assms(2) unfolding referential_def by blast
qed

lemma discard_referential:
  assumes "discardEscrowCreation appId r ctx s = Inr (u, t)" and "referential s"
  shows "referential t"
proof -
  obtain s1 s2 x y where
    s1: "(deleteMany transactions_update (transaction_is appId (re_transactionId r)) :: unit dbtx) s = Inr (x, s1)"
    and s2: "deleteEscrows (\<lambda>e. escrow_is appId (es_id (re_created r)) e \<and> es_status e = ES_not_created) s1 = Inr (y, s2)"
    and t: "(deleteMany idempotencyKeys_update (\<lambda>k. key_is appId (ctx_key ctx) k \<and> ik_requestHash k = ctx_requestHash ctx
       \<and> ik_status k = IS_pending) :: unit dbtx) s2 = Inr (u, t)"
    using assms(1) unfolding discardEscrowCreation_def tx_bind_iff by blast
  have "referential s1" using fkl.safe_inv [OF refs_safe [OF refs_delete_transactions] s1 assms(2)] .
  then have "referential s2" using deleteEscrows_referential [OF s2] by simp
  then show ?thesis using fkl.safe_inv [OF refs_safe [OF refs_idempotency(2)] t] by simp
qed

section \<open>Every reachable state\<close>

definition refs_kept :: "db \<Rightarrow> db \<Rightarrow> bool" where
  "refs_kept s t \<longleftrightarrow> (referential s \<longrightarrow> referential t)"

interpretation refsOrder: step_order refs_kept
  by unfold_locales (auto simp: refs_kept_def)

lemma kept_resp: "fkl.safe {} m \<Longrightarrow> refsOrder.resp m"
  by (rule refsOrder.respI) (auto simp: refs_kept_def dest: fkl.safe_inv)

lemma same_kept: "refs_same s t \<Longrightarrow> refs_kept s t"
  by (auto simp: refs_kept_def referential_def refs_same_def)

interpretation refsTx: transaction_frame refs_kept appId for appId
proof unfold_locales
  show "refsOrder.resp (discardEscrowCreation appId r ctx)" for r ctx
    by (rule refsOrder.respI) (auto simp: refs_kept_def dest: discard_referential)
qed (intro kept_resp mutation_safe reserveEscrowCreation_safe finalizeEscrowCreation_safe funding_safe
    reserveEscrowSettlement_safe settle_safe applyObservation_safe
    refIdem.sweep [THEN refs_safe] refIdem.reserve [THEN refs_safe] refIdem.store [THEN refs_safe]
    refIdem.clear [THEN refs_safe])+

lemma safe_split: "(\<And>x y. fkl.safe F (f x y)) \<Longrightarrow> fkl.safe F (case p of (x, y) \<Rightarrow> f x y)"
  by (cases p) simp

lemma delivery_safe:
  "(\<And>s d. wd_id (g s d) = wd_id d \<and> wd_refs (g s d) = wd_refs d) \<Longrightarrow> fkl.safe F (updateMany deliveries deliveries_update q g)"
  "(\<And>s w. we_id (f s w) = we_id w \<and> we_key (f s w) = we_key w) \<Longrightarrow> fkl.safe F (updateMany endpoints endpoints_update p f)"
  by (intro refs_safe refs_update; simp)+

lemma webhook_refs:
  assumes "webhook_step s t"
  shows "refs_kept s t"
proof -
  have c: "fkl.safe {} (createWebhookEndpoint E a input u h c)" for E a input u h c
    unfolding createWebhookEndpoint_def by (intro fkl.safe_rules safe_base insert_key_rows(7) [THEN fkl.yields_safe])
  have e: "fkl.safe {} (updateWebhookEndpointRow a i uinput v)" "fkl.safe {} (deleteWebhookEndpointRow a i)" for a i uinput v
    unfolding updateWebhookEndpointRow_def deleteWebhookEndpointRow_def updateEndpoint_def
    by (intro fkl.safe_rules delivery_safe; simp add: we_key_def)+
  have w: "fkl.safe {} (auditWebhook E req a action ty i b k)" for E req a action ty i b k
    unfolding auditWebhook_def by (intro createInfrastructureAuditLog_safe) simp
  have y: "fkl.safe {} (retryDelivery_run E req a i d)" for E req a i d
    unfolding retryDelivery_run_def markWebhookDeliveryForRetry_def enqueueWebhookDeliveryJob_def
    by (intro fkl.safe_rules safe_base w delivery_safe enqueueJob_refs [THEN refs_safe]; simp add: wd_refs_def)
  have r: "fkl.safe {} (recordDeliveryResult E d data reason r)" for E d data reason r
    unfolding recordDeliveryResult_def updateWebhookDeliveryResult_def followDelivery_def recordFinalDeliveryFailure_def
      enqueueWebhookDeliveryJob_def
    by (intro fkl.safe_rules safe_split delivery_safe createEvent_safe enqueueJob_refs [THEN refs_safe];
        simp add: wd_refs_def event_refs_def)
  note d = c [THEN kept_resp] e [THEN kept_resp] w [THEN kept_resp] y [THEN kept_resp] r [THEN kept_resp]
  from assms show ?thesis by cases (erule d [THEN refsOrder.respD])+
qed

lemma queue_refs: "queue_step s t \<Longrightarrow> refs_kept s t"
proof (erule queue_step.cases)
  show "enqueueJob E p s' = Inr (j, t') \<Longrightarrow> s = s' \<Longrightarrow> t = t' \<Longrightarrow> refs_kept s t" for E p s' j t'
    using enqueueJob_refs [THEN refFrame.respD] by (auto intro: same_kept)
qed (auto simp: claimAvailableJobs_def completeJob_def deferJob_def failJob_def renewJobLease_def replayJob_def
    releaseStaleLocks_def update_owned_def tx_iff Let_def intro!: same_kept refs_tables split: if_splits)

interpretation refsSys: system_frame refs_kept
proof unfold_locales
  show "refs_kept s (idempotencyKeys_update (filter p) s)" for s p
    by (intro same_kept refs_keys) (auto simp: keys_unique_def distinct_map_filter)
  show "refs_kept s (s\<lparr>clock := n\<rparr>)" for s n by (rule same_kept, rule refs_tables) simp_all
qed (rule refsTx.step_respects queue_refs webhook_refs, assumption)+

lemma empty_referential: "referential empty_db"
  by (simp add: referential_def row_refs_def ids_unique_def keys_unique_def empty_db_def)

lemma reachable_referential: "reachable s \<Longrightarrow> referential s"
  using refsSys.run_respects empty_referential by (auto simp: refs_kept_def)


text \<open>The row of a reference is the only row with its identifier, and of the tenant of the reference.\<close>

lemma unique_owner:
  assumes "referential s"
  shows "r1 \<in> set (agreements s) \<Longrightarrow> Agreement_key (ag_id r1) a \<in> row_keys s \<Longrightarrow> ag_appId r1 = a"
    and "r2 \<in> set (milestones s) \<Longrightarrow> Milestone_key (ms_id r2) a \<in> row_keys s \<Longrightarrow> ms_appId r2 = a"
    and "r3 \<in> set (escrows s) \<Longrightarrow> Escrow_key (es_id r3) a \<in> row_keys s \<Longrightarrow> es_appId r3 = a"
    and "r4 \<in> set (proofs s) \<Longrightarrow> Proof_key (pf_id r4) a \<in> row_keys s \<Longrightarrow> pf_appId r4 = a"
    and "r5 \<in> set (disputes s) \<Longrightarrow> Dispute_key (dp_id r5) a \<in> row_keys s \<Longrightarrow> dp_appId r5 = a"
    and "r6 \<in> set (events s) \<Longrightarrow> Event_key (ev_id r6) a \<in> row_keys s \<Longrightarrow> ev_appId r6 = a"
    and "r7 \<in> set (endpoints s) \<Longrightarrow> Endpoint_key (we_id r7) a \<in> row_keys s \<Longrightarrow> we_appId r7 = a"
  using assms
  by (auto simp: referential_def ids_unique_def row_keys_def key_defs distinct_map dest: inj_onD)

end
