(* ===== verification/Retention.thy ===== *)
theory Retention
  imports Server Pagination
begin

text \<open>
  Data retention: \<open>server/src/services/retentionService.ts\<close>, run by a maintenance script and not by the
  server. Each record class has a count, the SQL of which is a predicate on rows, and a batch that
  removes (for audit entries: copies to the archive) at most \<open>batchSize\<close> of the eligible rows, oldest
  first. The locale \<open>retention_class\<close> is the interface between a class and the loop of \<open>runRetention\<close>;
  the loop is bounded and removes every eligible row when its bounds allow it.
\<close>

record retention_config =
  rc_webhookRetentionDays :: int
  rc_eventRetentionDays :: int
  rc_jobRetentionDays :: int
  rc_auditArchiveAfterDays :: int

record archive_db =
  ar_db :: db
  ar_archive :: "(audit_log \<times> int) list"

record cutoffs =
  co_idempotency :: int
  co_webhookDelivery :: int
  co_event :: int
  co_job :: int
  co_auditArchive :: int

definition retentionCutoffs :: "retention_config \<Rightarrow> int \<Rightarrow> cutoffs" where
  "retentionCutoffs cfg time = (let daysAgo = (\<lambda>days. time - days * 86400000) in
     \<lparr>co_idempotency = time, co_webhookDelivery = daysAgo (rc_webhookRetentionDays cfg),
      co_event = daysAgo (rc_eventRetentionDays cfg), co_job = daysAgo (rc_jobRetentionDays cfg),
      co_auditArchive = daysAgo (rc_auditArchiveAfterDays cfg)\<rparr>)"

section \<open>Record classes\<close>

text \<open>The first \<open>n\<close> eligible rows by age and identifier, and the removal of rows by identifier.\<close>

definition candidates :: "('r \<Rightarrow> int \<times> string) \<Rightarrow> ('r \<Rightarrow> bool) \<Rightarrow> nat \<Rightarrow> 'r list \<Rightarrow> 'r list" where
  "candidates key p n rows = take n (sort_key key (filter p rows))"

definition remove_ids :: "('r \<Rightarrow> 'k) \<Rightarrow> 'r list \<Rightarrow> 'r list \<Rightarrow> 'r list" where
  "remove_ids ident gone rows = filter (\<lambda>r. ident r \<notin> ident ` set gone) rows"

definition expired_idempotency :: "int \<Rightarrow> idempotency_key \<Rightarrow> bool" where
  "expired_idempotency cutoff k \<longleftrightarrow> ik_expiresAt k \<le> cutoff
     \<or> (ik_status k = IS_pending \<and> ik_processingExpiresAt k \<le> cutoff)"

definition old_delivery :: "int \<Rightarrow> webhook_delivery \<Rightarrow> bool" where
  "old_delivery cutoff d \<longleftrightarrow> List.member [WD_DELIVERED, WD_FAILED] (wd_status d) \<and> wd_updatedAt d < cutoff"

definition old_event :: "int \<Rightarrow> webhook_delivery list \<Rightarrow> event \<Rightarrow> bool" where
  "old_event cutoff ds e \<longleftrightarrow> ev_createdAt e < cutoff \<and> \<not> list_ex (\<lambda>d. wd_eventId d = Some (ev_id e)) ds"

definition old_job :: "int \<Rightarrow> agent_job \<Rightarrow> bool" where
  "old_job cutoff j \<longleftrightarrow> List.member [JS_COMPLETED, JS_DEAD_LETTER] (aj_status j) \<and> aj_updatedAt j < cutoff"

definition unarchived :: "int \<Rightarrow> (audit_log \<times> int) list \<Rightarrow> audit_log \<Rightarrow> bool" where
  "unarchived cutoff archive l \<longleftrightarrow> al_createdAt l < cutoff \<and> \<not> list_ex (\<lambda>e. al_id (fst e) = al_id l) archive"

text \<open>A batch returns how many rows it took. Idempotency keys have no modelled identifier: ties of age go by key.\<close>

definition idempotency_batch :: "int \<Rightarrow> nat \<Rightarrow> archive_db \<Rightarrow> nat \<times> archive_db" where
  "idempotency_batch cutoff n a =
     (let gone = candidates (\<lambda>k. (ik_expiresAt k, ik_key k)) (expired_idempotency cutoff) n (idempotencyKeys (ar_db a))
      in (length gone, a\<lparr>ar_db := idempotencyKeys_update (remove_ids (\<lambda>k. (ik_appId k, ik_key k)) gone) (ar_db a)\<rparr>))"

definition delivery_batch :: "int \<Rightarrow> nat \<Rightarrow> archive_db \<Rightarrow> nat \<times> archive_db" where
  "delivery_batch cutoff n a =
     (let gone = candidates (\<lambda>d. (wd_updatedAt d, wd_id d)) (old_delivery cutoff) n (deliveries (ar_db a))
      in (length gone, a\<lparr>ar_db := deliveries_update (remove_ids wd_id gone) (ar_db a)\<rparr>))"

definition event_batch :: "int \<Rightarrow> nat \<Rightarrow> archive_db \<Rightarrow> nat \<times> archive_db" where
  "event_batch cutoff n a =
     (let gone = candidates (\<lambda>e. (ev_createdAt e, ev_id e)) (old_event cutoff (deliveries (ar_db a))) n (events (ar_db a))
      in (length gone, a\<lparr>ar_db := events_update (remove_ids ev_id gone) (ar_db a)\<rparr>))"

definition job_batch :: "int \<Rightarrow> nat \<Rightarrow> archive_db \<Rightarrow> nat \<times> archive_db" where
  "job_batch cutoff n a =
     (let gone = candidates (\<lambda>j. (aj_updatedAt j, aj_id j)) (old_job cutoff) n (jobs (ar_db a))
      in (length gone, a\<lparr>ar_db := jobs_update (remove_ids aj_id gone) (ar_db a)\<rparr>))"

text \<open>The archive keeps the row and the time of archiving; the audit log itself stays.\<close>

definition audit_batch :: "int \<Rightarrow> nat \<Rightarrow> archive_db \<Rightarrow> nat \<times> archive_db" where
  "audit_batch cutoff n a =
     (let copied = candidates (\<lambda>l. (al_createdAt l, al_id l)) (unarchived cutoff (ar_archive a)) n (auditLogs (ar_db a))
      in (length copied, a\<lparr>ar_archive := ar_archive a @ map (\<lambda>l. (l, clock (ar_db a))) copied\<rparr>))"

section \<open>runRetention\<close>

record retention_result =
  rr_eligible :: nat
  rr_affected :: nat
  rr_batches :: nat
  rr_truncated :: bool

text \<open>The \<open>while\<close> loop of one class; the first argument is how many batches are still allowed.\<close>

fun retain_loop ::
  "nat \<Rightarrow> (nat \<Rightarrow> 's \<Rightarrow> nat \<times> 's) \<Rightarrow> nat \<Rightarrow> nat \<Rightarrow> nat \<Rightarrow> nat \<Rightarrow> 's \<Rightarrow> nat \<times> nat \<times> 's" where
  "retain_loop 0 batch limit eligible affected batches s = (affected, batches, s)"
| "retain_loop (Suc n) batch limit eligible affected batches s =
     (if affected < eligible then
        (case batch limit s of (taken, s') \<Rightarrow>
           if taken < limit then (affected + taken, batches + 1, s')
           else retain_loop n batch limit eligible (affected + taken) (batches + 1) s')
      else (affected, batches, s))"

definition retain_class ::
  "bool \<Rightarrow> nat \<Rightarrow> nat \<Rightarrow> ('s \<Rightarrow> nat) \<Rightarrow> (nat \<Rightarrow> 's \<Rightarrow> nat \<times> 's) \<Rightarrow> 's \<Rightarrow> retention_result \<times> 's" where
  "retain_class dryRun limit maxBatches tally batch s =
     (let eligible = tally s in
      if dryRun then (\<lparr>rr_eligible = eligible, rr_affected = 0, rr_batches = 0, rr_truncated = False\<rparr>, s)
      else case retain_loop maxBatches batch limit eligible 0 0 s of (affected, batches, s') \<Rightarrow>
        (\<lparr>rr_eligible = eligible, rr_affected = affected, rr_batches = batches, rr_truncated = affected < eligible\<rparr>, s'))"

definition idempotency_count :: "int \<Rightarrow> archive_db \<Rightarrow> nat" where
  "idempotency_count cutoff a = length (filter (expired_idempotency cutoff) (idempotencyKeys (ar_db a)))"

definition delivery_count :: "int \<Rightarrow> archive_db \<Rightarrow> nat" where
  "delivery_count cutoff a = length (filter (old_delivery cutoff) (deliveries (ar_db a)))"

definition event_count :: "int \<Rightarrow> archive_db \<Rightarrow> nat" where
  "event_count cutoff a = length (filter (old_event cutoff (deliveries (ar_db a))) (events (ar_db a)))"

definition job_count :: "int \<Rightarrow> archive_db \<Rightarrow> nat" where
  "job_count cutoff a = length (filter (old_job cutoff) (jobs (ar_db a)))"

definition audit_count :: "int \<Rightarrow> archive_db \<Rightarrow> nat" where
  "audit_count cutoff a = length (filter (unarchived cutoff (ar_archive a)) (auditLogs (ar_db a)))"

definition runRetention ::
  "retention_config \<Rightarrow> bool \<Rightarrow> nat \<Rightarrow> nat \<Rightarrow> int \<Rightarrow> archive_db \<Rightarrow> retention_result list \<times> archive_db" where
  "runRetention cfg dryRun limit maxBatches time a =
     (let c = retentionCutoffs cfg time; run = retain_class dryRun limit maxBatches in
      case run (idempotency_count (co_idempotency c)) (idempotency_batch (co_idempotency c)) a of (r1, a1) \<Rightarrow>
      case run (delivery_count (co_webhookDelivery c)) (delivery_batch (co_webhookDelivery c)) a1 of (r2, a2) \<Rightarrow>
      case run (event_count (co_event c)) (event_batch (co_event c)) a2 of (r3, a3) \<Rightarrow>
      case run (job_count (co_job c)) (job_batch (co_job c)) a3 of (r4, a4) \<Rightarrow>
      case run (audit_count (co_auditArchive c)) (audit_batch (co_auditArchive c)) a4 of (r5, a5) \<Rightarrow>
        ([r1, r2, r3, r4, r5], a5))"

section \<open>The loop over a class\<close>

locale retention_class =
  fixes tally :: "'s \<Rightarrow> nat"
    and batch :: "nat \<Rightarrow> 's \<Rightarrow> nat \<times> 's"
    and ok :: "'s \<Rightarrow> bool"
  assumes batch_takes: "ok s \<Longrightarrow> batch n s = (k, t) \<Longrightarrow> k = min n (tally s) \<and> tally t = tally s - k \<and> ok t"
begin

lemma retain_loop_takes:
  assumes "ok s" and "0 < limit" and "retain_loop m batch limit (a + tally s) a b s = (affected, batches, t)"
  shows "affected = a + min (m * limit) (tally s) \<and> tally t = tally s - (affected - a) \<and> batches \<le> b + m \<and> ok t"
  using assms
proof (induction m arbitrary: a b s)
  case 0
  then show ?case by simp
next
  case (Suc m)
  obtain k s' where b: "batch limit s = (k, s')" by (cases "batch limit s")
  from batch_takes [OF Suc.prems(1) b] have k: "k = min limit (tally s)" "tally s' = tally s - k" "ok s'" by auto
  show ?case
  proof (cases "tally s = 0 \<or> k < limit")
    case True
    with Suc.prems b k show ?thesis by (auto split: if_splits)
  next
    case False
    then have "k = limit" "limit \<le> tally s" using k by auto
    moreover from this have "retain_loop m batch limit ((a + k) + tally s') (a + k) (b + 1) s' = (affected, batches, t)"
      using Suc.prems(3) b False k by (simp split: if_splits)
    note Suc.IH [OF k(3) \<open>0 < limit\<close> this]
    ultimately show ?thesis using k by (auto simp: min_def)
  qed
qed

lemma retain_class_result:
  assumes "ok s" and "0 < limit" and "retain_class False limit m tally batch s = (r, t)"
  shows "rr_eligible r = tally s \<and> rr_affected r = min (m * limit) (tally s) \<and> rr_batches r \<le> m
    \<and> tally t = tally s - rr_affected r \<and> rr_truncated r = (m * limit < tally s) \<and> ok t"
proof -
  obtain aff bs u where l: "retain_loop m batch limit (tally s) 0 0 s = (aff, bs, u)"
    by (cases "retain_loop m batch limit (tally s) 0 0 s") auto
  with retain_loop_takes [of s limit m 0 0 aff bs u] assms show ?thesis
    by (auto simp: retain_class_def Let_def min_def)
qed

end

section \<open>The classes\<close>

lemma filter_remove:
  assumes "distinct (map ident rows)" and "gone = candidates key p n rows"
  shows "length gone = min n (length (filter p rows))"
    and "length (filter p (remove_ids ident gone rows)) = length (filter p rows) - length gone"
    and "filter (\<lambda>r. \<not> p r) (remove_ids ident gone rows) = filter (\<lambda>r. \<not> p r) rows"
    and "distinct (map ident (remove_ids ident gone rows))"
proof -
  let ?s = "sort_key key (filter p rows)"
  have inj: "inj_on ident (set rows)" and d: "distinct rows" using assms(1) by (simp_all add: distinct_map)
  have g: "set gone \<subseteq> set (filter p rows)" "distinct gone"
    using d set_take_subset [of n ?s] by (auto simp: assms(2) candidates_def)
  show len: "length gone = min n (length (filter p rows))" by (simp add: assms(2) candidates_def)
  have mem: "ident r \<in> ident ` set gone \<longleftrightarrow> r \<in> set gone" if "r \<in> set rows" for r
    using that g(1) inj by (auto simp: inj_on_def)
  then have rm: "remove_ids ident gone rows = filter (\<lambda>r. r \<notin> set gone) rows"
    unfolding remove_ids_def by (intro filter_cong) auto
  have "length (filter p (remove_ids ident gone rows)) = card (set (filter p rows) - set gone)"
    using d by (simp add: rm distinct_card [symmetric]) (rule arg_cong [of _ _ card], auto)
  also have "\<dots> = length (filter p rows) - length gone"
    using g d by (subst card_Diff_subset) (auto simp: distinct_card [symmetric])
  finally show "length (filter p (remove_ids ident gone rows)) = length (filter p rows) - length gone" .
  show "filter (\<lambda>r. \<not> p r) (remove_ids ident gone rows) = filter (\<lambda>r. \<not> p r) rows"
    using g(1) by (auto simp: rm intro!: filter_cong)
  show "distinct (map ident (remove_ids ident gone rows))"
    using assms(1) by (simp add: remove_ids_def distinct_map_filter)
qed

text \<open>Identifiers are unique in the tables.\<close>

definition retention_ok :: "archive_db \<Rightarrow> bool" where
  "retention_ok a \<longleftrightarrow> distinct (map (\<lambda>k. (ik_appId k, ik_key k)) (idempotencyKeys (ar_db a)))
     \<and> distinct (map wd_id (deliveries (ar_db a))) \<and> distinct (map ev_id (events (ar_db a)))
     \<and> distinct (map aj_id (jobs (ar_db a))) \<and> distinct (map al_id (auditLogs (ar_db a)))"

interpretation idempotencyClass: retention_class "idempotency_count c" "idempotency_batch c" retention_ok for c
  by unfold_locales (auto simp: idempotency_batch_def idempotency_count_def retention_ok_def Let_def
      filter_remove(1,2,4) [OF _ refl])

interpretation deliveryClass: retention_class "delivery_count c" "delivery_batch c" retention_ok for c
  by unfold_locales (auto simp: delivery_batch_def delivery_count_def retention_ok_def Let_def
      filter_remove(1,2,4) [OF _ refl])

interpretation eventClass: retention_class "event_count c" "event_batch c" retention_ok for c
  by unfold_locales (auto simp: event_batch_def event_count_def retention_ok_def Let_def
      filter_remove(1,2,4) [OF _ refl])

interpretation jobClass: retention_class "job_count c" "job_batch c" retention_ok for c
  by unfold_locales (auto simp: job_batch_def job_count_def retention_ok_def Let_def
      filter_remove(1,2,4) [OF _ refl])

lemma unarchived_after:
  "filter (unarchived c (ar @ map (\<lambda>l. (l, t)) ls)) rows = filter (unarchived c ar) (remove_ids al_id ls rows)"
proof -
  have "list_ex (\<lambda>e. al_id (fst e) = al_id l) (map (\<lambda>l. (l, t)) ls) \<longleftrightarrow> al_id l \<in> al_id ` set ls" for l
    by (induction ls) auto
  then show ?thesis unfolding remove_ids_def filter_filter by (intro filter_cong) (auto simp: unarchived_def)
qed

interpretation auditClass: retention_class "audit_count c" "audit_batch c" retention_ok for c
  by unfold_locales (auto simp: audit_batch_def audit_count_def retention_ok_def Let_def unarchived_after
      filter_remove(1,2) [OF _ refl])

section \<open>What retention keeps\<close>

text \<open>
  The business tables and the audit log are untouched and the archive only grows; what is not eligible
  stays; and an event that a remaining delivery refers to stays.
\<close>

definition business_tables :: "archive_db \<Rightarrow> db" where
  "business_tables a = (ar_db a)\<lparr>idempotencyKeys := [], deliveries := [], events := [], jobs := []\<rparr>"

definition retention_kept :: "cutoffs \<Rightarrow> archive_db \<Rightarrow> archive_db \<Rightarrow> bool" where
  "retention_kept c a b \<longleftrightarrow> (retention_ok a \<longrightarrow> retention_ok b
     \<and> business_tables b = business_tables a \<and> prefix (ar_archive a) (ar_archive b)
     \<and> filter (\<lambda>k. \<not> expired_idempotency (co_idempotency c) k) (idempotencyKeys (ar_db b))
         = filter (\<lambda>k. \<not> expired_idempotency (co_idempotency c) k) (idempotencyKeys (ar_db a))
     \<and> filter (\<lambda>d. \<not> old_delivery (co_webhookDelivery c) d) (deliveries (ar_db b))
         = filter (\<lambda>d. \<not> old_delivery (co_webhookDelivery c) d) (deliveries (ar_db a))
     \<and> filter (\<lambda>j. \<not> old_job (co_job c) j) (jobs (ar_db b)) = filter (\<lambda>j. \<not> old_job (co_job c) j) (jobs (ar_db a))
     \<and> set (deliveries (ar_db b)) \<subseteq> set (deliveries (ar_db a))
     \<and> (\<forall>e\<in>set (events (ar_db a)). \<not> ev_createdAt e < co_event c
          \<or> list_ex (\<lambda>d. wd_eventId d = Some (ev_id e)) (deliveries (ar_db b)) \<longrightarrow> e \<in> set (events (ar_db b))))"

interpretation retentionOrder: step_order "retention_kept c" for c
proof unfold_locales
  show "retention_kept c a a" for a by (simp add: retention_kept_def)
  show "retention_kept c a e" if "retention_kept c a b" "retention_kept c b e" for a b e
    using that unfolding retention_kept_def list_ex_iff by (auto intro: prefix_order.trans) blast
qed

context step_order
begin

lemma retain_loop_R: "(\<And>n s. R s (snd (batch n s))) \<Longrightarrow> R s (snd (snd (retain_loop m batch n e a b s)))"
proof (induction m arbitrary: a b s)
  case (Suc m)
  from Suc.prems [of s n] show ?case
    using Suc.IH [OF Suc.prems] by (auto simp: R_refl intro: R_trans split: prod.splits)
qed (simp add: R_refl)

lemma retain_class_R: "(\<And>n s. R s (snd (batch n s))) \<Longrightarrow> R s (snd (retain_class dry n m tally batch s))"
  using retain_loop_R [of batch s m n "tally s" 0 0]
  by (auto simp: retain_class_def Let_def R_refl split: prod.splits)

end

lemma remove_subset: "set (remove_ids ident gone rows) \<subseteq> set rows"
  by (auto simp: remove_ids_def)

lemma batch_keeps:
  "retention_kept c a (snd (idempotency_batch (co_idempotency c) n a))"
  "retention_kept c a (snd (delivery_batch (co_webhookDelivery c) n a))"
  "retention_kept c a (snd (job_batch (co_job c) n a))"
  "retention_kept c a (snd (audit_batch (co_auditArchive c) n a))"
  by (auto simp: retention_kept_def retention_ok_def business_tables_def idempotency_batch_def delivery_batch_def
      job_batch_def audit_batch_def Let_def filter_remove(3,4) [OF _ refl] dest: remove_subset [THEN subsetD])

lemma event_batch_keeps: "retention_kept c a (snd (event_batch (co_event c) n a))"
proof -
  let ?p = "old_event (co_event c) (deliveries (ar_db a))"
  let ?g = "candidates (\<lambda>e. (ev_createdAt e, ev_id e)) ?p n (events (ar_db a))"
  have "filter (\<lambda>e. \<not> ?p e) (remove_ids ev_id ?g (events (ar_db a))) = filter (\<lambda>e. \<not> ?p e) (events (ar_db a))"
    if "retention_ok a"
    using that by (intro filter_remove(3) [OF _ refl]) (simp add: retention_ok_def)
  then have "e \<in> set (remove_ids ev_id ?g (events (ar_db a)))"
    if "retention_ok a" "e \<in> set (events (ar_db a))" "\<not> ?p e" for e
    using that by (metis (mono_tags, lifting) mem_Collect_eq set_filter)
  then show ?thesis
    by (auto simp: retention_kept_def retention_ok_def business_tables_def event_batch_def Let_def
        filter_remove(4) [OF _ refl] old_event_def)
qed

lemma runRetention_keeps: "retention_kept (retentionCutoffs cfg time) a (snd (runRetention cfg dry n m time a))"
proof -
  let ?c = "retentionCutoffs cfg time"
  note k = retentionOrder.retain_class_R [OF batch_keeps(1), of ?c] retentionOrder.retain_class_R [OF batch_keeps(2), of ?c]
    retentionOrder.retain_class_R [OF event_batch_keeps, of ?c] retentionOrder.retain_class_R [OF batch_keeps(3), of ?c]
    retentionOrder.retain_class_R [OF batch_keeps(4), of ?c]
  show ?thesis
    unfolding runRetention_def Let_def case_prod_beta snd_conv
    by (rule retentionOrder.R_trans [OF _ k(5)], rule retentionOrder.R_trans [OF _ k(4)],
        rule retentionOrder.R_trans [OF _ k(3)], rule retentionOrder.R_trans [OF k(1) k(2)])
qed

lemma dry_run: "snd (runRetention cfg True n m time a) = a"
  by (simp add: runRetention_def retain_class_def Let_def)

text \<open>Every class takes as many rows as its batches allow, and says so.\<close>

definition exact_result :: "nat \<Rightarrow> nat \<Rightarrow> retention_result \<Rightarrow> bool" where
  "exact_result n m r \<longleftrightarrow> rr_affected r = min (m * n) (rr_eligible r) \<and> rr_batches r \<le> m
     \<and> rr_truncated r = (m * n < rr_eligible r)"

context retention_class
begin

lemma class_exact:
  assumes "ok s" and "0 < n"
  shows "exact_result n m (fst (retain_class False n m tally batch s)) \<and> ok (snd (retain_class False n m tally batch s))"
  using retain_class_result [OF assms, of m] by (cases "retain_class False n m tally batch s") (auto simp: exact_result_def)

end

lemma runRetention_exact:
  assumes "retention_ok a" and "0 < n"
  shows "list_all (exact_result n m) (fst (runRetention cfg False n m time a))"
  using assms idempotencyClass.class_exact deliveryClass.class_exact eventClass.class_exact jobClass.class_exact
    auditClass.class_exact
  by (simp add: runRetention_def Let_def case_prod_beta)

end
