(* ===== verification/TenantAudit.thy ===== *)
theory TenantAudit
  imports ForeignKeys Retention WorkFrames "HOL-Library.List_Lexorder" "HOL-Library.Char_ord"
begin

text \<open>
  The tenant integrity audit: \<open>server/src/scripts/auditTenantIntegrity.ts\<close>. For every relation of the
  list \<open>checks\<close> the script joins the child table with the parent table and reports the pairs whose
  tenants differ, at most a hundred per relation. The answer of the test for a database without tables
  (\<open>to_regclass\<close>) is an argument. The rows are ordered by identifier as text.
  The audit is complete up to its limit, and it finds nothing in any state the server can reach.
\<close>

record TenantViolation =
  tv_relation :: string
  tv_childId :: string
  tv_childAppId :: "string option"
  tv_parentId :: string
  tv_parentAppId :: "string option"

definition checks :: "(string \<times> string \<times> string \<times> string) list" where
  "checks = [
     (''Milestone.agreementId'', ''Milestone'', ''agreementId'', ''Agreement''),
     (''Proof.agreementId'', ''Proof'', ''agreementId'', ''Agreement''),
     (''Proof.milestoneId'', ''Proof'', ''milestoneId'', ''Milestone''),
     (''Review.agreementId'', ''Review'', ''agreementId'', ''Agreement''),
     (''Review.milestoneId'', ''Review'', ''milestoneId'', ''Milestone''),
     (''Review.proofSubmissionId'', ''Review'', ''proofSubmissionId'', ''Proof''),
     (''Escrow.agreementId'', ''Escrow'', ''agreementId'', ''Agreement''),
     (''Escrow.milestoneId'', ''Escrow'', ''milestoneId'', ''Milestone''),
     (''Transaction.agreementId'', ''Transaction'', ''agreementId'', ''Agreement''),
     (''Transaction.milestoneId'', ''Transaction'', ''milestoneId'', ''Milestone''),
     (''Transaction.escrowId'', ''Transaction'', ''escrowId'', ''Escrow''),
     (''Dispute.agreementId'', ''Dispute'', ''agreementId'', ''Agreement''),
     (''Dispute.milestoneId'', ''Dispute'', ''milestoneId'', ''Milestone''),
     (''Event.agreementId'', ''Event'', ''agreementId'', ''Agreement''),
     (''Event.milestoneId'', ''Event'', ''milestoneId'', ''Milestone''),
     (''Event.escrowId'', ''Event'', ''escrowId'', ''Escrow''),
     (''Event.proofSubmissionId'', ''Event'', ''proofSubmissionId'', ''Proof''),
     (''Event.disputeId'', ''Event'', ''disputeId'', ''Dispute''),
     (''WebhookDelivery.endpointId'', ''WebhookDelivery'', ''endpointId'', ''WebhookEndpoint''),
     (''WebhookDelivery.eventId'', ''WebhookDelivery'', ''eventId'', ''Event''),
     (''WebhookDelivery.agreementId'', ''WebhookDelivery'', ''agreementId'', ''Agreement''),
     (''AuditLog.agreementId'', ''AuditLog'', ''agreementId'', ''Agreement'')]"

text \<open>\<open>/^[A-Za-z][A-Za-z0-9]*$/\<close>\<close>

definition ascii_letter :: "char \<Rightarrow> bool" where
  "ascii_letter c \<longleftrightarrow> (CHR ''a'' \<le> c \<and> c \<le> CHR ''z'') \<or> (CHR ''A'' \<le> c \<and> c \<le> CHR ''Z'')"

definition ascii_digit :: "char \<Rightarrow> bool" where
  "ascii_digit c \<longleftrightarrow> CHR ''0'' \<le> c \<and> c \<le> CHR ''9''"

definition sql_identifier :: "string \<Rightarrow> error + string" where
  "sql_identifier value = (case value of
       [] \<Rightarrow> Inl (JsError (''Unsafe SQL identifier: '' @ value))
     | c # cs \<Rightarrow> if ascii_letter c \<and> list_all (\<lambda>d. ascii_letter d \<or> ascii_digit d) cs
         then Inr (CHR 0x22 # value @ [CHR 0x22]) else Inl (JsError (''Unsafe SQL identifier: '' @ value)))"

section \<open>Rows of a table by name\<close>

record sql_row =
  sr_id :: string
  sr_appId :: "string option"
  sr_columns :: "(string \<times> string option) list"

definition sql_table :: "db \<Rightarrow> string \<Rightarrow> sql_row list" where
  "sql_table s name =
    (if name = ''Agreement'' then map (\<lambda>r. \<lparr>sr_id = ag_id r, sr_appId = Some (ag_appId r), sr_columns = []\<rparr>) (agreements s)
     else if name = ''Milestone'' then map (\<lambda>r. \<lparr>sr_id = ms_id r, sr_appId = Some (ms_appId r),
       sr_columns = [(''agreementId'', Some (ms_agreementId r))]\<rparr>) (milestones s)
     else if name = ''Escrow'' then map (\<lambda>r. \<lparr>sr_id = es_id r, sr_appId = Some (es_appId r),
       sr_columns = [(''agreementId'', Some (es_agreementId r)), (''milestoneId'', es_milestoneId r)]\<rparr>) (escrows s)
     else if name = ''Transaction'' then map (\<lambda>r. \<lparr>sr_id = tr_id r, sr_appId = Some (tr_appId r),
       sr_columns = [(''agreementId'', tr_agreementId r), (''milestoneId'', tr_milestoneId r), (''escrowId'', tr_escrowId r)]\<rparr>) (transactions s)
     else if name = ''Proof'' then map (\<lambda>r. \<lparr>sr_id = pf_id r, sr_appId = Some (pf_appId r),
       sr_columns = [(''agreementId'', Some (pf_agreementId r)), (''milestoneId'', Some (pf_milestoneId r))]\<rparr>) (proofs s)
     else if name = ''Review'' then map (\<lambda>r. \<lparr>sr_id = rv_id r, sr_appId = Some (rv_appId r),
       sr_columns = [(''agreementId'', Some (rv_agreementId r)), (''milestoneId'', Some (rv_milestoneId r)),
         (''proofSubmissionId'', Some (rv_proofSubmissionId r))]\<rparr>) (reviews s)
     else if name = ''Dispute'' then map (\<lambda>r. \<lparr>sr_id = dp_id r, sr_appId = Some (dp_appId r),
       sr_columns = [(''agreementId'', Some (dp_agreementId r)), (''milestoneId'', Some (dp_milestoneId r))]\<rparr>) (disputes s)
     else if name = ''Event'' then map (\<lambda>r. \<lparr>sr_id = ev_id r, sr_appId = Some (ev_appId r),
       sr_columns = [(''agreementId'', ev_agreementId r), (''milestoneId'', ev_milestoneId r), (''escrowId'', ev_escrowId r),
         (''proofSubmissionId'', ev_proofSubmissionId r), (''disputeId'', ev_disputeId r)]\<rparr>) (events s)
     else if name = ''WebhookEndpoint'' then map (\<lambda>r. \<lparr>sr_id = we_id r, sr_appId = Some (we_appId r), sr_columns = []\<rparr>) (endpoints s)
     else if name = ''WebhookDelivery'' then map (\<lambda>r. \<lparr>sr_id = wd_id r, sr_appId = Some (wd_appId r),
       sr_columns = [(''endpointId'', Some (wd_endpointId r)), (''eventId'', wd_eventId r), (''agreementId'', wd_agreementId r)]\<rparr>) (deliveries s)
     else if name = ''AuditLog'' then map (\<lambda>r. \<lparr>sr_id = al_id r, sr_appId = al_appId r,
       sr_columns = [(''agreementId'', al_agreementId r)]\<rparr>) (auditLogs s)
     else [])"

definition sql_column :: "string \<Rightarrow> sql_row \<Rightarrow> string option" where
  "sql_column c r = (case map_of (sr_columns r) c of None \<Rightarrow> None | Some v \<Rightarrow> v)"

section \<open>auditTenantIntegrity\<close>

definition violates :: "string \<Rightarrow> sql_row \<Rightarrow> sql_row \<Rightarrow> bool" where
  "violates column child parent \<longleftrightarrow> sql_column column child = Some (sr_id parent) \<and> sr_appId child \<noteq> None
     \<and> sr_appId child \<noteq> sr_appId parent"

text \<open>The query: the join with its condition, \<open>ORDER BY child.id LIMIT 100\<close>.\<close>

definition auditQuery :: "db \<Rightarrow> string \<Rightarrow> string \<Rightarrow> string \<Rightarrow> (sql_row \<times> sql_row) list" where
  "auditQuery s childTable childColumn parentTable =
     take 100 (sort_key (\<lambda>r. sr_id (fst r))
       (filter (\<lambda>(child, parent). violates childColumn child parent)
         (List.product (sql_table s childTable) (sql_table s parentTable))))"

definition auditRelation :: "db \<Rightarrow> string \<times> string \<times> string \<times> string \<Rightarrow> error + TenantViolation list" where
  "auditRelation s check = (case check of (relation, childTable, childColumn, parentTable) \<Rightarrow>
     res_bind (sql_identifier childTable) (\<lambda>_.
     res_bind (sql_identifier parentTable) (\<lambda>_.
     res_bind (sql_identifier childColumn) (\<lambda>_.
     Inr (map (\<lambda>(child, parent). \<lparr>tv_relation = relation, tv_childId = sr_id child, tv_childAppId = sr_appId child,
         tv_parentId = sr_id parent, tv_parentAppId = sr_appId parent\<rparr>)
       (auditQuery s childTable childColumn parentTable))))))"

fun auditRelations ::
  "db \<Rightarrow> (string \<times> string \<times> string \<times> string) list \<Rightarrow> TenantViolation list \<Rightarrow> error + TenantViolation list" where
  "auditRelations s [] violations = Inr violations"
| "auditRelations s (c # cs) violations =
     res_bind (auditRelation s c) (\<lambda>rows. auditRelations s cs (violations @ rows))"

definition auditTenantIntegrity :: "string option \<Rightarrow> db \<Rightarrow> error + TenantViolation list" where
  "auditTenantIntegrity agreementTable s =
     (if \<not> truthy agreementTable then Inr [] else auditRelations s checks [])"

text \<open>The exit code of the script.\<close>

definition auditMain :: "string option \<Rightarrow> db \<Rightarrow> error + nat" where
  "auditMain agreementTable s = res_bind (auditTenantIntegrity agreementTable s) (\<lambda>violations. Inr (if length violations > 0 then 1 else 0))"

section \<open>Correctness of the audit\<close>

definition cross_tenant :: "db \<Rightarrow> string \<times> string \<times> string \<times> string \<Rightarrow> bool" where
  "cross_tenant s check = (case check of (relation, childTable, childColumn, parentTable) \<Rightarrow>
     \<exists>child\<in>set (sql_table s childTable). \<exists>parent\<in>set (sql_table s parentTable). violates childColumn child parent)"

lemma auditQuery_empty: "auditQuery s c k p = [] \<longleftrightarrow> \<not> cross_tenant s (rel, c, k, p)"
proof -
  have "sort_key f xs = [] \<longleftrightarrow> xs = []" for f :: "sql_row \<times> sql_row \<Rightarrow> string" and xs
    by (metis length_0_conv length_sort)
  then show ?thesis by (auto simp: auditQuery_def cross_tenant_def filter_empty_conv)
qed

lemma identifiers_safe: "list_all (\<lambda>(rel, c, k, p). \<forall>n\<in>{c, k, p}. sql_identifier n = Inr (CHR 0x22 # n @ [CHR 0x22])) checks"
  by (simp add: checks_def sql_identifier_def ascii_letter_def ascii_digit_def less_eq_char_def)

lemma auditRelations_ok:
  assumes "list_all (\<lambda>(rel, c, k, p). \<forall>n\<in>{c, k, p}. sql_identifier n = Inr (CHR 0x22 # n @ [CHR 0x22])) cs"
  shows "\<exists>vs. auditRelations s cs acc = Inr vs \<and> (vs = [] \<longleftrightarrow> acc = [] \<and> (\<forall>c\<in>set cs. \<not> cross_tenant s c))"
  using assms
proof (induction cs arbitrary: acc)
  case (Cons c cs)
  obtain rel ct cc pt where c: "c = (rel, ct, cc, pt)" by (cases c)
  let ?rows = "map (\<lambda>(child, parent). \<lparr>tv_relation = rel, tv_childId = sr_id child, tv_childAppId = sr_appId child,
      tv_parentId = sr_id parent, tv_parentAppId = sr_appId parent\<rparr>) (auditQuery s ct cc pt)"
  have "auditRelation s c = Inr ?rows" using Cons.prems by (simp add: c auditRelation_def)
  moreover have "?rows = [] \<longleftrightarrow> \<not> cross_tenant s c" by (simp add: c auditQuery_empty)
  moreover obtain vs where "auditRelations s cs (acc @ ?rows) = Inr vs"
    "vs = [] \<longleftrightarrow> acc @ ?rows = [] \<and> (\<forall>c\<in>set cs. \<not> cross_tenant s c)"
    using Cons.IH [of "acc @ ?rows"] Cons.prems by (auto simp only: list.pred_inject)
  ultimately show ?case by auto
qed simp

lemma audit_total:
  "\<exists>vs. auditTenantIntegrity (Some (c # t)) s = Inr vs \<and> (vs = [] \<longleftrightarrow> (\<forall>c\<in>set checks. \<not> cross_tenant s c))"
  unfolding auditTenantIntegrity_def truthy_def using auditRelations_ok [OF identifiers_safe, of s "[]"] by simp

lemma child_refs:
  assumes "referential s"
  shows "m \<in> set (milestones s) \<Longrightarrow> ms_refs m \<subseteq> row_keys s" "e \<in> set (escrows s) \<Longrightarrow> es_refs e \<subseteq> row_keys s"
    "x \<in> set (transactions s) \<Longrightarrow> tr_refs x \<subseteq> row_keys s" "p \<in> set (proofs s) \<Longrightarrow> pf_refs p \<subseteq> row_keys s"
    "r \<in> set (reviews s) \<Longrightarrow> rv_refs r \<subseteq> row_keys s" "d \<in> set (disputes s) \<Longrightarrow> dp_refs d \<subseteq> row_keys s"
    "v \<in> set (events s) \<Longrightarrow> ev_refs v \<subseteq> row_keys s" "w \<in> set (deliveries s) \<Longrightarrow> wd_refs w \<subseteq> row_keys s"
    "l \<in> set (auditLogs s) \<Longrightarrow> al_refs l \<subseteq> row_keys s"
  using assms unfolding referential_def row_refs_def by auto

lemma column_targets:
  assumes s: "referential s"
  shows "m \<in> set (milestones s) \<Longrightarrow> Agreement_key (ms_agreementId m) (ms_appId m) \<in> row_keys s"
    "e \<in> set (escrows s) \<Longrightarrow> Agreement_key (es_agreementId e) (es_appId e) \<in> row_keys s"
    "e \<in> set (escrows s) \<Longrightarrow> es_milestoneId e = Some i \<Longrightarrow> Milestone_key i (es_appId e) \<in> row_keys s"
    "x \<in> set (transactions s) \<Longrightarrow> tr_agreementId x = Some i \<Longrightarrow> Agreement_key i (tr_appId x) \<in> row_keys s"
    "x \<in> set (transactions s) \<Longrightarrow> tr_milestoneId x = Some i \<Longrightarrow> Milestone_key i (tr_appId x) \<in> row_keys s"
    "x \<in> set (transactions s) \<Longrightarrow> tr_escrowId x = Some i \<Longrightarrow> Escrow_key i (tr_appId x) \<in> row_keys s"
    "p \<in> set (proofs s) \<Longrightarrow> Agreement_key (pf_agreementId p) (pf_appId p) \<in> row_keys s"
    "p \<in> set (proofs s) \<Longrightarrow> Milestone_key (pf_milestoneId p) (pf_appId p) \<in> row_keys s"
    "r \<in> set (reviews s) \<Longrightarrow> Agreement_key (rv_agreementId r) (rv_appId r) \<in> row_keys s"
    "r \<in> set (reviews s) \<Longrightarrow> Milestone_key (rv_milestoneId r) (rv_appId r) \<in> row_keys s"
    "r \<in> set (reviews s) \<Longrightarrow> Proof_key (rv_proofSubmissionId r) (rv_appId r) \<in> row_keys s"
    "d \<in> set (disputes s) \<Longrightarrow> Agreement_key (dp_agreementId d) (dp_appId d) \<in> row_keys s"
    "d \<in> set (disputes s) \<Longrightarrow> Milestone_key (dp_milestoneId d) (dp_appId d) \<in> row_keys s"
    "v \<in> set (events s) \<Longrightarrow> ev_agreementId v = Some i \<Longrightarrow> Agreement_key i (ev_appId v) \<in> row_keys s"
    "v \<in> set (events s) \<Longrightarrow> ev_milestoneId v = Some i \<Longrightarrow> Milestone_key i (ev_appId v) \<in> row_keys s"
    "v \<in> set (events s) \<Longrightarrow> ev_escrowId v = Some i \<Longrightarrow> Escrow_key i (ev_appId v) \<in> row_keys s"
    "v \<in> set (events s) \<Longrightarrow> ev_proofSubmissionId v = Some i \<Longrightarrow> Proof_key i (ev_appId v) \<in> row_keys s"
    "v \<in> set (events s) \<Longrightarrow> ev_disputeId v = Some i \<Longrightarrow> Dispute_key i (ev_appId v) \<in> row_keys s"
    "w \<in> set (deliveries s) \<Longrightarrow> Endpoint_key (wd_endpointId w) (wd_appId w) \<in> row_keys s"
    "w \<in> set (deliveries s) \<Longrightarrow> wd_eventId w = Some i \<Longrightarrow> Event_key i (wd_appId w) \<in> row_keys s"
    "w \<in> set (deliveries s) \<Longrightarrow> wd_agreementId w = Some i \<Longrightarrow> Agreement_key i (wd_appId w) \<in> row_keys s"
    "l \<in> set (auditLogs s) \<Longrightarrow> al_appId l = Some a \<Longrightarrow> al_agreementId l = Some i \<Longrightarrow> Agreement_key i a \<in> row_keys s"
  by (frule child_refs [OF s]; simp add: ref_defs)+

definition parent_key :: "string \<Rightarrow> string \<Rightarrow> string \<Rightarrow> row_key" where
  "parent_key tbl =
     (if tbl = ''Agreement'' then Agreement_key else if tbl = ''Milestone'' then Milestone_key
      else if tbl = ''Escrow'' then Escrow_key else if tbl = ''Proof'' then Proof_key
      else if tbl = ''Dispute'' then Dispute_key else if tbl = ''Event'' then Event_key else Endpoint_key)"

definition check_resolves :: "db \<Rightarrow> string \<times> string \<times> string \<times> string \<Rightarrow> bool" where
  "check_resolves s check = (case check of (relation, childTable, childColumn, parentTable) \<Rightarrow>
     \<forall>child\<in>set (sql_table s childTable). \<forall>i a. sql_column childColumn child = Some i \<longrightarrow> sr_appId child = Some a
       \<longrightarrow> parent_key parentTable i a \<in> row_keys s)"

lemma checks_resolve: "referential s \<Longrightarrow> list_all (check_resolves s) checks"
  by (simp add: checks_def check_resolves_def sql_table_def sql_column_def parent_key_def column_targets)

lemma parents_owned:
  assumes "referential s" and "list_ex (\<lambda>(rel, c, k, p). tbl = p) checks"
    and "parent \<in> set (sql_table s tbl)" and "parent_key tbl (sr_id parent) a \<in> row_keys s"
  shows "sr_appId parent = Some a"
  using assms(2-4) unfolding checks_def
  by (simp, elim disjE; simp add: sql_table_def parent_key_def; elim imageE; simp add: unique_owner [OF assms(1)])

lemma referential_clean:
  assumes s: "referential s" and c: "c \<in> set checks"
  shows "\<not> cross_tenant s c"
proof -
  obtain rel ct cc pt where e: "c = (rel, ct, cc, pt)" by (cases c)
  have "check_resolves s c" using checks_resolve [OF s] c by (simp add: list_all_iff)
  moreover have "list_ex (\<lambda>(rel, c, k, p). pt = p) checks" using c by (auto simp: list_ex_iff e)
  ultimately show ?thesis using parents_owned [OF s]
    by (fastforce simp: e check_resolves_def cross_tenant_def violates_def)
qed


section \<open>Operation with retention\<close>

text \<open>
  The server and the retention script in turn. What both keep: referential integrity and unique jobs.
  A delete of the script never meets a foreign key, since it takes only events without deliveries.
\<close>

inductive operated :: "archive_db \<Rightarrow> bool" where
  start: "operated \<lparr>ar_db = empty_db, ar_archive = []\<rparr>"
| serve: "operated a \<Longrightarrow> server_step (ar_db a) t \<Longrightarrow> operated (a\<lparr>ar_db := t\<rparr>)"
| retain: "operated a \<Longrightarrow> operated (snd (runRetention cfg dry n m time a))"

definition sound_rows :: "archive_db \<Rightarrow> bool" where
  "sound_rows a \<longleftrightarrow> referential (ar_db a) \<and> jobs_inv (ar_db a)"

definition rows_kept :: "archive_db \<Rightarrow> archive_db \<Rightarrow> bool" where
  "rows_kept a b \<longleftrightarrow> (sound_rows a \<longrightarrow> sound_rows b)"

interpretation rowsOrder: step_order rows_kept
  by unfold_locales (auto simp: rows_kept_def)

lemma event_in_refs [simp]:
  "Event_key i a \<notin> ms_refs m" "Event_key i a \<notin> es_refs e" "Event_key i a \<notin> pf_refs p" "Event_key i a \<notin> rv_refs r"
  "Event_key i a \<notin> dp_refs d" "Event_key i a \<notin> tr_refs x" "Event_key i a \<notin> al_refs l" "Event_key i a \<notin> ev_refs v"
  "Event_key i a \<in> wd_refs w \<longleftrightarrow> wd_eventId w = Some i \<and> wd_appId w = a"
  by (auto simp: ref_defs in_opt_key split: option.split)

lemma event_batch_referential:
  assumes "referential s" and "\<And>g d. g \<in> set gone \<Longrightarrow> d \<in> set (deliveries s) \<Longrightarrow> wd_eventId d \<noteq> Some (ev_id g)"
  shows "referential (events_update (remove_ids ev_id gone) s)" (is "referential ?t")
proof -
  have refs: "row_refs ?t \<subseteq> row_refs s" and u: "ids_unique ?t"
    using assms(1) by (auto simp: row_refs_def referential_def ids_unique_def keys_unique_def remove_ids_def distinct_map_filter)
  have "k \<in> row_keys ?t" if k: "k \<in> row_refs s" "k \<in> row_keys s" for k
  proof (cases "\<exists>e\<in>set (events s). ev_id e \<in> ev_id ` set gone \<and> k = ev_key e")
    case True
    then obtain e :: event and g where g: "g \<in> set gone" "ev_id e = ev_id g" and "k = Event_key (ev_id e) (ev_appId e)"
      unfolding ev_key_def by blast
    then have "\<exists>d\<in>set (deliveries s). wd_eventId d = Some (ev_id g)" using k(1) by (auto simp: row_refs_def)
    with assms(2) [OF g(1)] show ?thesis by blast
  next
    case False
    with k(2) show ?thesis by (auto simp: row_keys_def remove_ids_def)
  qed
  then show ?thesis using refs u assms(1) unfolding referential_def by blast
qed

lemma candidates_eligible: "r \<in> set (candidates key p n rows) \<Longrightarrow> p r"
  by (auto simp: candidates_def dest: in_set_takeD)

lemma child_rows_removed:
  "referential s \<Longrightarrow> referential (deliveries_update (remove_ids wd_id gone) s)"
  "referential s \<Longrightarrow> referential (idempotencyKeys_update (remove_ids f gone') s)"
  "referential s \<Longrightarrow> referential (jobs_update h s)"
  by (auto simp: referential_def row_refs_def row_keys_def ids_unique_def keys_unique_def remove_ids_def distinct_map_filter)

lemma jobs_removed: "jobs_inv s \<Longrightarrow> jobs_inv (jobs_update (remove_ids aj_id gone) s)"
proof -
  have "distinct (filter q (map g xs)) \<Longrightarrow> distinct (filter q (map g (filter p xs)))" for q and g :: "agent_job \<Rightarrow> dedupe_key option" and p xs
    by (induction xs) auto
  then show "jobs_inv s \<Longrightarrow> jobs_inv (jobs_update (remove_ids aj_id gone) s)"
    by (simp add: jobs_inv_def remove_ids_def distinct_map_filter)
qed

lemma jobs_untouched: "jobs t = jobs s \<Longrightarrow> jobs_inv s \<Longrightarrow> jobs_inv t"
  by (simp add: jobs_inv_def)

lemma batch_rows:
  "rows_kept a (snd (idempotency_batch c n a))" "rows_kept a (snd (delivery_batch c n a))"
  "rows_kept a (snd (event_batch c n a))" "rows_kept a (snd (job_batch c n a))" "rows_kept a (snd (audit_batch c n a))"
proof -
  show "rows_kept a (snd (job_batch c n a))"
    by (simp add: rows_kept_def sound_rows_def job_batch_def Let_def child_rows_removed jobs_removed)
  show "rows_kept a (snd (event_batch c n a))"
    by (auto simp: rows_kept_def sound_rows_def event_batch_def Let_def old_event_def list_ex_iff dest!: candidates_eligible
        intro!: event_batch_referential elim!: jobs_untouched [rotated])
qed (auto simp: rows_kept_def sound_rows_def idempotency_batch_def delivery_batch_def audit_batch_def Let_def
      intro!: child_rows_removed elim!: jobs_untouched [rotated])

lemma runRetention_rows: "rows_kept a (snd (runRetention cfg dry n m time a))"
proof -
  note k = batch_rows [THEN rowsOrder.retain_class_R]
  show ?thesis unfolding runRetention_def Let_def case_prod_beta snd_conv
    by (rule rowsOrder.R_trans [OF _ k(5)], rule rowsOrder.R_trans [OF _ k(4)], rule rowsOrder.R_trans [OF _ k(3)],
        rule rowsOrder.R_trans [OF k(1) k(2)])
qed

lemma operated_sound: "operated a \<Longrightarrow> sound_rows a"
proof (induction rule: operated.induct)
  case (serve a t)
  then show ?case using refsSys.server_respects jobsSys.server_respects
    by (auto simp: sound_rows_def refs_kept_def jobs_kept_def)
next
  case (retain a cfg dry n m time)
  then show ?case using runRetention_rows [of a cfg dry n m time] by (simp add: rows_kept_def)
qed (simp add: sound_rows_def empty_referential empty_jobs)

lemma sound_retention: "sound_rows a \<Longrightarrow> retention_ok a"
  by (simp add: sound_rows_def retention_ok_def referential_def ids_unique_def keys_unique_def jobs_inv_def)

lemma operated_reachable:
  assumes "reachable s"
  shows "operated \<lparr>ar_db = s, ar_archive = []\<rparr>"
  using assms
proof (induction rule: rtranclp_induct)
  case (step y z)
  then show ?case using operated.serve [OF step.IH, of z] by simp
qed (rule operated.start)

lemma audit_complete: "auditMain (Some (ch # t)) s = Inr 0 \<longleftrightarrow> (\<forall>c\<in>set checks. \<not> cross_tenant s c)"
  using audit_total [of ch t s] by (auto simp: auditMain_def)

lemma operated_audit: "operated a \<Longrightarrow> auditMain t (ar_db a) = Inr 0"
proof -
  assume "operated a"
  then have "\<forall>c\<in>set checks. \<not> cross_tenant (ar_db a) c"
    using referential_clean operated_sound [of a] by (simp add: sound_rows_def)
  then have "auditRelations (ar_db a) checks [] = Inr []"
    using auditRelations_ok [OF identifiers_safe, of "ar_db a" "[]"] by auto
  then show ?thesis by (simp add: auditMain_def auditTenantIntegrity_def)
qed

end
