(* ===== verification/Accounts.thy ===== *)
theory Accounts
  imports Server Pagination
begin

text \<open>
  Applications and their API keys: \<open>modules/apps\<close>, \<open>modules/api-keys\<close>, \<open>common/crypto/api-keys.ts\<close>,
  \<open>modules/auth/scopes.ts\<close>, \<open>modules/auth/rbac.middleware.ts\<close> and the audit helper of
  \<open>modules/audit-logs/audit-log.service.ts\<close>. The state is the database of the tenants with the two
  tables \<open>App\<close> and \<open>ApiKey\<close>. A service of an owner is a sequence of statements, each committed on its
  own. The lemmas show when a raw key authenticates, that a revoked key never does again, and that
  no service of an owner touches the applications or keys of another.
\<close>

section \<open>Rows\<close>

datatype AppStatus = AppActive | AppDisabled | AppSuspended

record app_row =
  ap_id :: string
  ap_name :: string
  ap_slug :: string
  ap_ownerId :: string
  ap_environment :: string
  ap_status :: AppStatus
  ap_defaultCurrency :: string
  ap_defaultNetwork :: string
  ap_createdAt :: int
  ap_updatedAt :: int

datatype KeyStatus = KeyActive | KeyRevoked

record api_key =
  ak_id :: string
  ak_appId :: string
  ak_name :: string
  ak_keyPrefix :: string
  ak_keyHash :: string
  ak_environment :: string
  ak_status :: KeyStatus
  ak_scopes :: "string list"
  ak_lastUsedAt :: "int option"
  ak_createdAt :: int
  ak_revokedAt :: "int option"

record platform =
  pl_db :: db
  pl_apps :: "app_row list"
  pl_apiKeys :: "api_key list"

type_synonym 'a pltx = "(platform, error, 'a) tx"
type_synonym 'a plproc = "(platform, error, 'a) proc"

definition on_db :: "'a dbtx \<Rightarrow> 'a pltx" where
  "on_db m = (\<lambda>p. case m (pl_db p) of Inl e \<Rightarrow> Inl e | Inr r \<Rightarrow> Inr (fst r, p\<lparr>pl_db := snd r\<rparr>))"

lemma on_db_iff [tx_iff]: "on_db m p = Inr r \<longleftrightarrow> (\<exists>x t. m (pl_db p) = Inr (x, t) \<and> r = (x, p\<lparr>pl_db := t\<rparr>))"
  by (auto simp: on_db_def split: sum.splits)

section \<open>api-keys.ts\<close>

definition createRawApiKey :: "byte list \<Rightarrow> string \<Rightarrow> string" where
  "createRawApiKey random environment =
     (let token = base64url_encode random;
          pre = (if environment = ''production'' then ''pa_live'' else ''pa_test'')
      in pre @ ''_'' @ token)"

definition getApiKeyPrefix :: "string \<Rightarrow> string" where
  "getApiKeyPrefix rawKey = take 16 rawKey"

definition hashApiKey :: "env \<Rightarrow> string \<Rightarrow> string" where
  "hashApiKey E rawKey = sha256 E rawKey"

definition maskApiKey :: "string \<Rightarrow> string" where
  "maskApiKey pre = pre @ ''...''"

section \<open>scopes.ts and rbac.middleware.ts\<close>

definition API_KEY_SCOPES :: "string list" where
  "API_KEY_SCOPES = [''apps:read'', ''agreements:create'', ''agreements:read'', ''agreements:update'',
     ''agreements:cancel'', ''milestones:create'', ''milestones:read'', ''escrows:create'', ''escrows:read'',
     ''escrows:fund'', ''escrows:release'', ''escrows:refund'', ''proofs:create'', ''proofs:read'',
     ''proofs:review'', ''disputes:create'', ''disputes:read'', ''disputes:resolve'', ''events:read'',
     ''webhooks:manage'', ''webhooks:read'', ''admin:read'', ''admin:write'']"

definition isApiKeyScope :: "string \<Rightarrow> bool" where
  "isApiKeyScope sc \<longleftrightarrow> sc \<in> set API_KEY_SCOPES"

text \<open>The key of the request, when one was authenticated.\<close>

definition requireScope :: "string \<Rightarrow> api_key option \<Rightarrow> error + unit" where
  "requireScope sc key = res_require (case key of None \<Rightarrow> False | Some k \<Rightarrow> sc \<in> set (ak_scopes k))
     (permissionError ''missing_scope'')"

definition requireAnyScope :: "string list \<Rightarrow> api_key option \<Rightarrow> error + unit" where
  "requireAnyScope scs key = (let granted = (case key of None \<Rightarrow> [] | Some k \<Rightarrow> ak_scopes k) in
     res_require (list_ex (\<lambda>sc. sc \<in> set granted) scs) (permissionError ''missing_scope''))"

section \<open>app.model.ts and api-key.model.ts\<close>

fun app_status_name :: "AppStatus \<Rightarrow> string" where
  "app_status_name AppActive = ''active''"
| "app_status_name AppDisabled = ''disabled''"
| "app_status_name AppSuspended = ''suspended''"

definition serializeApp :: "app_row \<Rightarrow> json" where
  "serializeApp a = JObj [
     (''id'', JStr (ap_id a)),
     (''name'', JStr (ap_name a)),
     (''slug'', JStr (ap_slug a)),
     (''environment'', JStr (ap_environment a)),
     (''status'', JStr (app_status_name (ap_status a))),
     (''defaultCurrency'', JStr (ap_defaultCurrency a)),
     (''defaultNetwork'', JStr (ap_defaultNetwork a)),
     (''createdAt'', jdate (ap_createdAt a)),
     (''updatedAt'', jdate (ap_updatedAt a))]"

fun key_status_name :: "KeyStatus \<Rightarrow> string" where
  "key_status_name KeyActive = ''active''"
| "key_status_name KeyRevoked = ''revoked''"

definition apiKey_members :: "api_key \<Rightarrow> (string \<times> json) list" where
  "apiKey_members k = [
     (''id'', JStr (ak_id k)),
     (''appId'', JStr (ak_appId k)),
     (''name'', JStr (ak_name k)),
     (''keyPrefix'', JStr (ak_keyPrefix k)),
     (''maskedKey'', JStr (maskApiKey (ak_keyPrefix k))),
     (''environment'', JStr (ak_environment k)),
     (''status'', JStr (key_status_name (ak_status k))),
     (''scopes'', JArr (map JStr (ak_scopes k))),
     (''lastUsedAt'', jdate_opt (ak_lastUsedAt k)),
     (''createdAt'', jdate (ak_createdAt k)),
     (''revokedAt'', jdate_opt (ak_revokedAt k))]"

definition serializeApiKey :: "api_key \<Rightarrow> json" where
  "serializeApiKey k = JObj (apiKey_members k)"

definition serializeCreatedApiKey :: "api_key \<Rightarrow> string \<Rightarrow> json" where
  "serializeCreatedApiKey k rawKey = JObj (apiKey_members k @ [(''key'', JStr rawKey)])"

section \<open>app.repository.ts\<close>

record create_app_input =
  ca_name :: string
  ca_slug :: string
  ca_environment :: string
  ca_defaultCurrency :: string
  ca_defaultNetwork :: string

record update_app_input =
  ua_name :: "string option"
  ua_status :: "AppStatus option"
  ua_defaultCurrency :: "string option"
  ua_defaultNetwork :: "string option"

definition app_clash :: "app_row \<Rightarrow> app_row \<Rightarrow> bool" where
  "app_clash a b \<longleftrightarrow> ap_id a = ap_id b \<or> (ap_ownerId a = ap_ownerId b \<and> ap_slug a = ap_slug b)"

definition createApp :: "env \<Rightarrow> string \<Rightarrow> create_app_input \<Rightarrow> app_row pltx" where
  "createApp E ownerId input =
     tx_bind (on_db (freshId E)) (\<lambda>appId.
     tx_bind (on_db now) (\<lambda>t.
     insertRow pl_apps pl_apps_update app_clash
       \<lparr>ap_id = appId, ap_name = ca_name input, ap_slug = ca_slug input, ap_ownerId = ownerId,
        ap_environment = ca_environment input, ap_status = AppActive,
        ap_defaultCurrency = ca_defaultCurrency input, ap_defaultNetwork = ca_defaultNetwork input,
        ap_createdAt = t, ap_updatedAt = t\<rparr>))"

definition listAppRows :: "string \<Rightarrow> nat \<Rightarrow> string option \<Rightarrow> platform \<Rightarrow> app_row list" where
  "listAppRows ownerId limit cursor p =
     list_desc ap_createdAt ap_id (\<lambda>a. ap_ownerId a = ownerId) limit cursor (pl_apps p)"

definition app_is :: "string \<Rightarrow> string \<Rightarrow> app_row \<Rightarrow> bool" where
  "app_is ownerId appId a \<longleftrightarrow> ap_id a = appId \<and> ap_ownerId a = ownerId"

definition findAppForOwner :: "string \<Rightarrow> string \<Rightarrow> app_row option pltx" where
  "findAppForOwner ownerId appId = findFirst pl_apps (app_is ownerId appId)"

definition update_app :: "update_app_input \<Rightarrow> app_row \<Rightarrow> app_row" where
  "update_app input a = a\<lparr>ap_name := (case ua_name input of None \<Rightarrow> ap_name a | Some v \<Rightarrow> v),
     ap_status := (case ua_status input of None \<Rightarrow> ap_status a | Some v \<Rightarrow> v),
     ap_defaultCurrency := (case ua_defaultCurrency input of None \<Rightarrow> ap_defaultCurrency a | Some v \<Rightarrow> v),
     ap_defaultNetwork := (case ua_defaultNetwork input of None \<Rightarrow> ap_defaultNetwork a | Some v \<Rightarrow> v)\<rparr>"

definition updateAppRows :: "string \<Rightarrow> string \<Rightarrow> update_app_input \<Rightarrow> nat pltx" where
  "updateAppRows ownerId appId input =
     updateMany pl_apps pl_apps_update (app_is ownerId appId)
       (\<lambda>p a. (update_app input a)\<lparr>ap_updatedAt := clock (pl_db p)\<rparr>)"

definition disableAppRows :: "string \<Rightarrow> string \<Rightarrow> nat pltx" where
  "disableAppRows ownerId appId =
     updateMany pl_apps pl_apps_update (app_is ownerId appId)
       (\<lambda>p a. a\<lparr>ap_status := AppDisabled, ap_updatedAt := clock (pl_db p)\<rparr>)"

section \<open>api-key.repository.ts\<close>

record create_key_data =
  kd_appId :: string
  kd_name :: string
  kd_keyPrefix :: string
  kd_keyHash :: string
  kd_environment :: string
  kd_scopes :: "string list"

definition key_clash :: "api_key \<Rightarrow> api_key \<Rightarrow> bool" where
  "key_clash k l \<longleftrightarrow> ak_id k = ak_id l \<or> ak_keyHash k = ak_keyHash l"

text \<open>The foreign key of the schema: the application of a key exists.\<close>

definition createApiKey :: "env \<Rightarrow> create_key_data \<Rightarrow> api_key pltx" where
  "createApiKey E d =
     tx_bind (on_db (freshId E)) (\<lambda>keyId.
     tx_bind (on_db now) (\<lambda>t.
     tx_bind (tx_gets (\<lambda>p. list_ex (\<lambda>a. ap_id a = kd_appId d) (pl_apps p))) (\<lambda>known.
     tx_bind (tx_require known (JsError ''P2003'')) (\<lambda>_.
     insertRow pl_apiKeys pl_apiKeys_update key_clash
       \<lparr>ak_id = keyId, ak_appId = kd_appId d, ak_name = kd_name d, ak_keyPrefix = kd_keyPrefix d,
        ak_keyHash = kd_keyHash d, ak_environment = kd_environment d, ak_status = KeyActive,
        ak_scopes = kd_scopes d, ak_lastUsedAt = None, ak_createdAt = t, ak_revokedAt = None\<rparr>))))"

text \<open>The relation filter \<open>app: { ... }\<close>: some application of the key satisfies the condition.\<close>

definition key_app :: "platform \<Rightarrow> (app_row \<Rightarrow> bool) \<Rightarrow> api_key \<Rightarrow> bool" where
  "key_app p cond k \<longleftrightarrow> list_ex (\<lambda>a. ap_id a = ak_appId k \<and> cond a) (pl_apps p)"

definition owner_key :: "platform \<Rightarrow> string \<Rightarrow> string \<Rightarrow> api_key \<Rightarrow> bool" where
  "owner_key p ownerId keyId k \<longleftrightarrow> ak_id k = keyId \<and> key_app p (\<lambda>a. ap_ownerId a = ownerId) k"

definition listApiKeyRows :: "string \<Rightarrow> string option \<Rightarrow> nat \<Rightarrow> string option \<Rightarrow> platform \<Rightarrow> api_key list" where
  "listApiKeyRows ownerId appId limit cursor p =
     list_desc ak_createdAt ak_id
       (\<lambda>k. (case appId of None \<Rightarrow> True | Some a \<Rightarrow> ak_appId k = a) \<and> key_app p (\<lambda>a. ap_ownerId a = ownerId) k)
       limit cursor (pl_apiKeys p)"

definition findApiKeyForOwner :: "string \<Rightarrow> string \<Rightarrow> api_key option pltx" where
  "findApiKeyForOwner ownerId keyId = tx_gets (\<lambda>p. List.find (owner_key p ownerId keyId) (pl_apiKeys p))"

definition active_key :: "platform \<Rightarrow> string \<Rightarrow> api_key \<Rightarrow> bool" where
  "active_key p keyHash k \<longleftrightarrow> ak_keyHash k = keyHash \<and> ak_status k = KeyActive
     \<and> key_app p (\<lambda>a. ap_status a = AppActive) k"

text \<open>The key with its application (\<open>include: { app: true }\<close>).\<close>

definition findActiveApiKeyByHash :: "string \<Rightarrow> (api_key \<times> app_row) option pltx" where
  "findActiveApiKeyByHash keyHash = tx_gets (\<lambda>p.
     case List.find (active_key p keyHash) (pl_apiKeys p) of
       None \<Rightarrow> None
     | Some k \<Rightarrow> map_option (Pair k) (List.find (\<lambda>a. ap_id a = ak_appId k) (pl_apps p)))"

definition revokeApiKeyRows :: "string \<Rightarrow> string \<Rightarrow> nat pltx" where
  "revokeApiKeyRows ownerId keyId = (\<lambda>p.
     updateMany pl_apiKeys pl_apiKeys_update (\<lambda>k. owner_key p ownerId keyId k \<and> ak_status k = KeyActive)
       (\<lambda>p k. k\<lparr>ak_status := KeyRevoked, ak_revokedAt := Some (clock (pl_db p))\<rparr>) p)"

text \<open>\<open>update\<close> of a single row raises \<open>P2025\<close> when there is none.\<close>

definition updateApiKeyLastUsedAt :: "string \<Rightarrow> unit pltx" where
  "updateApiKeyLastUsedAt keyId =
     tx_bind (updateMany pl_apiKeys pl_apiKeys_update (\<lambda>k. ak_id k = keyId)
       (\<lambda>p k. k\<lparr>ak_lastUsedAt := Some (clock (pl_db p))\<rparr>)) (\<lambda>n. tx_require (n \<noteq> 0) P2025)"

section \<open>audit-log.service.ts\<close>

record audit_params =
  au_appId :: "string option"
  au_agreementId :: "string option"
  au_actorType :: "string option"
  au_actorId :: "string option"
  au_actorAddress :: "string option"
  au_action :: string
  au_targetType :: string
  au_targetId :: string
  au_before :: "json option"
  au_after :: "json option"

text \<open>\<open>auth\<close> is the wallet address of the request, \<open>req.auth?.address\<close>.\<close>

definition or_null :: "'a option \<Rightarrow> 'a option \<Rightarrow> 'a option" where
  "or_null a b = (case a of None \<Rightarrow> b | Some x \<Rightarrow> Some x)"

definition createAuditLogForRequest :: "env \<Rightarrow> request \<Rightarrow> string option \<Rightarrow> audit_params \<Rightarrow> audit_log dbtx" where
  "createAuditLogForRequest E req auth u =
     createInfrastructureAuditLog E
       \<lparr>ai_appId = au_appId u, ai_agreementId = au_agreementId u,
        ai_actorType = (case au_actorType u of Some t \<Rightarrow> t
          | None \<Rightarrow> if rq_apiKeyId req \<noteq> None then ''api_key'' else ''user''),
        ai_actorId = or_null (au_actorId u) (rq_apiKeyId req),
        ai_actorAddress = or_null (au_actorAddress u) auth,
        ai_action = au_action u, ai_targetType = au_targetType u, ai_targetId = au_targetId u,
        ai_before = au_before u, ai_after = au_after u, ai_ipAddress = rq_ip req,
        ai_userAgent = rq_userAgent req, ai_requestId = Some (rq_requestId req)\<rparr>"

text \<open>The audit entry of a change an owner makes.\<close>

definition auditOwner ::
  "env \<Rightarrow> request \<Rightarrow> string \<Rightarrow> string \<Rightarrow> string \<Rightarrow> string \<Rightarrow> string \<Rightarrow> json option \<Rightarrow> json \<Rightarrow> audit_log pltx" where
  "auditOwner E req ownerId appId action targetType targetId previous after =
     on_db (createAuditLogForRequest E req (Some ownerId)
       \<lparr>au_appId = Some appId, au_agreementId = None, au_actorType = Some ''user'', au_actorId = None,
        au_actorAddress = Some ownerId, au_action = action, au_targetType = targetType, au_targetId = targetId,
        au_before = previous, au_after = Some after\<rparr>)"

section \<open>app.service.ts\<close>

definition createAppForOwner :: "env \<Rightarrow> request \<Rightarrow> string \<Rightarrow> create_app_input \<Rightarrow> json plproc" where
  "createAppForOwner E req ownerId input =
     pr_catch
       (pr_bind (atomically (createApp E ownerId input)) (\<lambda>app.
        pr_bind (atomically (auditOwner E req ownerId (ap_id app) ''app.created'' ''app'' (ap_id app) None
          (serializeApp app))) (\<lambda>_.
        pr_return (serializeApp app))))
       (\<lambda>e. pr_throw (if e = P2002 then conflict ''app_slug_conflict'' else e))"

definition listAppsForOwner :: "string \<Rightarrow> nat \<Rightarrow> string option \<Rightarrow> platform \<Rightarrow> json page" where
  "listAppsForOwner ownerId limit cursor p = make_page ap_id serializeApp limit (listAppRows ownerId limit cursor p)"

definition getAppForOwner :: "string \<Rightarrow> string \<Rightarrow> json pltx" where
  "getAppForOwner ownerId appId =
     tx_bind (findAppForOwner ownerId appId) (\<lambda>found.
     tx_bind (tx_some (notFound ''app_not_found'') found) (\<lambda>app. tx_return (serializeApp app)))"

definition changeApp ::
  "env \<Rightarrow> request \<Rightarrow> string \<Rightarrow> string \<Rightarrow> string \<Rightarrow> nat pltx \<Rightarrow> json plproc" where
  "changeApp E req ownerId appId action change =
     pr_bind (atomically (findAppForOwner ownerId appId)) (\<lambda>found.
     pr_bind (atomically (tx_some (notFound ''app_not_found'') found)) (\<lambda>previous.
     pr_bind (atomically change) (\<lambda>_.
     pr_bind (atomically (findAppForOwner ownerId appId)) (\<lambda>found'.
     pr_bind (atomically (tx_some (notFound ''app_not_found'') found')) (\<lambda>after.
     pr_bind (atomically (auditOwner E req ownerId appId action ''app'' appId (Some (serializeApp previous))
       (serializeApp after))) (\<lambda>_.
     pr_return (serializeApp after)))))))"

definition updateAppForOwner :: "env \<Rightarrow> request \<Rightarrow> string \<Rightarrow> string \<Rightarrow> update_app_input \<Rightarrow> json plproc" where
  "updateAppForOwner E req ownerId appId input =
     changeApp E req ownerId appId
       (if ua_status input = Some AppDisabled then ''app.disabled'' else ''app.updated'')
       (updateAppRows ownerId appId input)"

definition disableAppForOwner :: "env \<Rightarrow> request \<Rightarrow> string \<Rightarrow> string \<Rightarrow> json plproc" where
  "disableAppForOwner E req ownerId appId =
     changeApp E req ownerId appId ''app.disabled'' (disableAppRows ownerId appId)"

definition getCurrentApiKeyApp :: "app_row option \<Rightarrow> error + json" where
  "getCurrentApiKeyApp currentApp = (case currentApp of
     None \<Rightarrow> Inl (notFound ''app_not_found'') | Some a \<Rightarrow> Inr (serializeApp a))"

section \<open>api-key.service.ts\<close>

record create_key_input =
  ck_appId :: string
  ck_name :: string
  ck_scopes :: "string list"

definition createApiKeyForOwner :: "env \<Rightarrow> byte list \<Rightarrow> request \<Rightarrow> string \<Rightarrow> create_key_input \<Rightarrow> json plproc" where
  "createApiKeyForOwner E random req ownerId input =
     pr_bind (atomically (findAppForOwner ownerId (ck_appId input))) (\<lambda>found.
     pr_bind (atomically (tx_some (notFound ''app_not_found'') found)) (\<lambda>app.
     let rawKey = createRawApiKey random (if ap_environment app = ''production'' then ''production'' else ''sandbox'') in
     pr_catch
       (pr_bind (atomically (createApiKey E
          \<lparr>kd_appId = ap_id app, kd_name = ck_name input, kd_keyPrefix = getApiKeyPrefix rawKey,
           kd_keyHash = hashApiKey E rawKey, kd_environment = ap_environment app, kd_scopes = ck_scopes input\<rparr>)) (\<lambda>key.
        pr_bind (atomically (auditOwner E req ownerId (ap_id app) ''api_key.created'' ''api_key'' (ak_id key) None
          (serializeApiKey key))) (\<lambda>_.
        pr_return (serializeCreatedApiKey key rawKey))))
       (\<lambda>e. pr_throw (if e = P2002 then conflict ''api_key_conflict'' else e))))"

definition listApiKeysForOwner :: "string \<Rightarrow> string option \<Rightarrow> nat \<Rightarrow> string option \<Rightarrow> json page pltx" where
  "listApiKeysForOwner ownerId appId limit cursor =
     tx_bind (case appId of
         None \<Rightarrow> tx_return ()
       | Some a \<Rightarrow> tx_bind (findAppForOwner ownerId a) (\<lambda>found.
           tx_bind (tx_some (notFound ''app_not_found'') found) (\<lambda>_. tx_return ()))) (\<lambda>_.
     tx_gets (\<lambda>p. make_page ak_id serializeApiKey limit (listApiKeyRows ownerId appId limit cursor p)))"

definition revokeApiKeyForOwner :: "env \<Rightarrow> request \<Rightarrow> string \<Rightarrow> string \<Rightarrow> json plproc" where
  "revokeApiKeyForOwner E req ownerId keyId =
     pr_bind (atomically (findApiKeyForOwner ownerId keyId)) (\<lambda>found.
     pr_bind (atomically (tx_some (notFound ''api_key_not_found'') found)) (\<lambda>previous.
     pr_bind (atomically (revokeApiKeyRows ownerId keyId)) (\<lambda>_.
     pr_bind (atomically (findApiKeyForOwner ownerId keyId)) (\<lambda>found'.
     pr_bind (atomically (tx_some (notFound ''api_key_not_found'') found')) (\<lambda>after.
     pr_bind (atomically (auditOwner E req ownerId (ak_appId after) ''api_key.revoked'' ''api_key'' keyId
       (Some (serializeApiKey previous)) (serializeApiKey after))) (\<lambda>_.
     pr_return (serializeApiKey after)))))))"

definition authenticateApiKey :: "env \<Rightarrow> string \<Rightarrow> (api_key \<times> app_row) option plproc" where
  "authenticateApiKey E rawKey =
     pr_bind (atomically (findActiveApiKeyByHash (hashApiKey E rawKey))) (\<lambda>found.
     case found of
       None \<Rightarrow> pr_return None
     | Some ka \<Rightarrow> pr_bind (atomically (updateApiKeyLastUsedAt (ak_id (fst ka)))) (\<lambda>_. pr_return (Some ka)))"

section \<open>Steps of the platform\<close>

text \<open>
  A step of the platform: a statement of the services of owners, the use of a key, or a step of the
  tenants' system.
\<close>

inductive access_step :: "platform \<Rightarrow> platform \<Rightarrow> bool" where
  app_created: "createApp E ownerId input p = Inr (a, q) \<Longrightarrow> access_step p q"
| app_changed: "updateAppRows ownerId appId input p = Inr (n, q) \<Longrightarrow> access_step p q"
| app_disabled: "disableAppRows ownerId appId p = Inr (n, q) \<Longrightarrow> access_step p q"
| key_created: "createApiKey E d p = Inr (k, q) \<Longrightarrow> access_step p q"
| key_revoked: "revokeApiKeyRows ownerId keyId p = Inr (n, q) \<Longrightarrow> access_step p q"
| key_used: "updateApiKeyLastUsedAt keyId p = Inr (u, q) \<Longrightarrow> access_step p q"
| audited: "createAuditLogForRequest E req auth u (pl_db p) = Inr (l, t) \<Longrightarrow> access_step p (p\<lparr>pl_db := t\<rparr>)"
| served: "server_step (pl_db p) t \<Longrightarrow> access_step p (p\<lparr>pl_db := t\<rparr>)"

definition empty_platform :: platform where
  "empty_platform = \<lparr>pl_db = empty_db, pl_apps = [], pl_apiKeys = []\<rparr>"

definition key_can :: "KeyStatus \<Rightarrow> KeyStatus \<Rightarrow> bool" where
  "key_can a b \<longleftrightarrow> a = KeyActive \<and> b = KeyRevoked"

definition ak_terms where
  "ak_terms k = (ak_id k, ak_appId k, ak_name k, ak_keyPrefix k, ak_keyHash k, ak_environment k,
     ak_scopes k, ak_createdAt k)"

interpretation keyRows: lifecycle_rows key_can "\<lambda>st. st = KeyRevoked" ak_status ak_terms KeyActive False
  by unfold_locales (auto simp: key_can_def)

text \<open>What the constraints of the schema keep: identifiers, key hashes and the application of a key.\<close>

definition accounts_inv :: "platform \<Rightarrow> bool" where
  "accounts_inv p \<longleftrightarrow> distinct (map ap_id (pl_apps p)) \<and> distinct (map ak_id (pl_apiKeys p))
     \<and> distinct (map ak_keyHash (pl_apiKeys p))
     \<and> list_all (\<lambda>k. list_ex (\<lambda>a. ap_id a = ak_appId k) (pl_apps p)) (pl_apiKeys p)"

definition accounts_le :: "platform \<Rightarrow> platform \<Rightarrow> bool" where
  "accounts_le p q \<longleftrightarrow> keyRows.rows_le (pl_apiKeys p) (pl_apiKeys q) \<and> (accounts_inv p \<longrightarrow> accounts_inv q)"

interpretation accountsOrder: step_order accounts_le
  by unfold_locales (auto simp: accounts_le_def intro: keyRows.rows_le_refl keyRows.rows_le_trans)

lemma map_if_same: "(\<And>x. g (f x) = g x) \<Longrightarrow> map g (map (\<lambda>x. if c x then f x else x) xs) = map g xs"
  by (induction xs) auto

lemma list_ex_map_if: "(\<And>x. P (f x) = P x) \<Longrightarrow> list_ex P (map (\<lambda>x. if c x then f x else x) xs) = list_ex P xs"
  by (induction xs) auto

lemma list_all_map_if: "(\<And>x. P (f x) = P x) \<Longrightarrow> list_all P (map (\<lambda>x. if c x then f x else x) xs) = list_all P xs"
  by (induction xs) auto

lemma key_moves: "ak_terms k = ak_terms l \<Longrightarrow> ak_status l = ak_status k \<or> key_can (ak_status k) (ak_status l) \<Longrightarrow>
    keyRows.row_le k l"
  by (auto simp: keyRows.row_le_def)

lemma accounts_apps:
  assumes "\<And>a. ap_id (f a) = ap_id a"
  shows "accounts_le p (pl_apps_update (map (\<lambda>a. if c a then f a else a)) p)"
  using assms by (simp add: accounts_le_def accounts_inv_def keyRows.rows_le_refl map_if_same [of ap_id f]
      list_ex_map_if [of "\<lambda>a. ap_id a = _" f] del: map_map)

lemma accounts_keys:
  assumes "\<And>k. ak_terms (f k) = ak_terms k" and "\<And>k. c k \<Longrightarrow> keyRows.row_le k (f k)"
  shows "accounts_le p (pl_apiKeys_update (map (\<lambda>k. if c k then f k else k)) p)"
proof -
  have f: "ak_id (f k) = ak_id k" "ak_keyHash (f k) = ak_keyHash k" "ak_appId (f k) = ak_appId k" for k
    using assms(1) [of k] by (simp_all add: ak_terms_def)
  show ?thesis
    by (simp add: accounts_le_def accounts_inv_def keyRows.rows_le_map [OF assms(2)] f
        list_all_map_if [of "\<lambda>k. list_ex (\<lambda>a. ap_id a = ak_appId k) (pl_apps p)" f] map_if_same [of ak_id f] map_if_same [of ak_keyHash f] del: map_map)
qed

lemma accounts_step: "access_step p q \<Longrightarrow> accounts_le p q"
proof (induction rule: access_step.induct)
  case (app_created E ownerId input p a q)
  then show ?case
    by (auto simp: createApp_def tx_iff app_clash_def accounts_le_def accounts_inv_def list_all_iff
        keyRows.rows_le_refl)
next
  case (app_changed ownerId appId input p n q)
  then show ?case by (simp add: updateAppRows_def tx_iff) (rule accounts_apps, simp add: update_app_def)
next
  case (app_disabled ownerId appId p n q)
  then show ?case by (simp add: disableAppRows_def tx_iff) (rule accounts_apps, simp)
next
  case (key_created E d p k q)
  then show ?case
    by (auto simp: createApiKey_def tx_iff key_clash_def accounts_le_def accounts_inv_def list_all_iff list_ex_iff
        intro!: keyRows.rows_le_snoc)
next
  case (key_revoked ownerId keyId p n q)
  then show ?case
    by (simp add: revokeApiKeyRows_def tx_iff) (rule accounts_keys, simp_all add: ak_terms_def key_moves key_can_def)
next
  case (key_used keyId p u q)
  then show ?case
    by (simp add: updateApiKeyLastUsedAt_def tx_iff) (rule accounts_keys, simp_all add: ak_terms_def key_moves)
qed (simp_all add: accounts_le_def accounts_inv_def keyRows.rows_le_refl)

lemma accounts_run: "access_step\<^sup>*\<^sup>* p q \<Longrightarrow> accounts_le p q"
  by (induction rule: rtranclp_induct) (auto intro: accountsOrder.R_refl accountsOrder.R_trans accounts_step)

lemma reachable_accounts: "access_step\<^sup>*\<^sup>* empty_platform p \<Longrightarrow> accounts_inv p"
  by (drule accounts_run) (simp add: accounts_le_def accounts_inv_def empty_platform_def)

section \<open>Authentication\<close>

lemma distinct_map_eq: "distinct (map f xs) \<Longrightarrow> x \<in> set xs \<Longrightarrow> y \<in> set xs \<Longrightarrow> f x = f y \<Longrightarrow> x = y"
  by (auto simp: distinct_map inj_on_def)

lemma find_by:
  assumes "distinct (map f xs)" and "x \<in> set xs"
  shows "List.find (\<lambda>y. f y = f x) xs = Some x"
  using assms by (induction xs) auto

text \<open>Who authenticates: the raw key of an active key of an active application, and no other.\<close>

lemma authenticateApiKey_iff:
  assumes "accounts_inv p"
  shows "fst (authenticateApiKey E rawKey p) = Inr (Some (k, a)) \<longleftrightarrow>
    k \<in> set (pl_apiKeys p) \<and> ak_keyHash k = hashApiKey E rawKey \<and> ak_status k = KeyActive
    \<and> a \<in> set (pl_apps p) \<and> ap_id a = ak_appId k \<and> ap_status a = AppActive" (is "?l \<longleftrightarrow> ?r")
proof
  assume ?l
  then have f: "List.find (active_key p (hashApiKey E rawKey)) (pl_apiKeys p) = Some k"
    and g: "List.find (\<lambda>b. ap_id b = ak_appId k) (pl_apps p) = Some a"
    by (auto simp: authenticateApiKey_def pr_bind_def atomically_def findActiveApiKeyByHash_def tx_gets_def
        pr_return_def split: option.splits sum.splits prod.splits)
  from f have k: "k \<in> set (pl_apiKeys p)" "active_key p (hashApiKey E rawKey) k"
    by (auto simp: find_Some_iff)
  from k(2) obtain b where b: "b \<in> set (pl_apps p)" "ap_id b = ak_appId k" "ap_status b = AppActive"
    by (auto simp: active_key_def key_app_def list_ex_iff)
  moreover have "a \<in> set (pl_apps p)" "ap_id a = ak_appId k" using g by (auto simp: find_Some_iff)
  ultimately have "a = b" using assms by (auto simp: accounts_inv_def intro: distinct_map_eq)
  with b k show ?r by (simp add: active_key_def)
next
  assume r: ?r
  then have act: "active_key p (hashApiKey E rawKey) k" by (auto simp: active_key_def key_app_def list_ex_iff)
  have "\<And>l. l \<in> set (pl_apiKeys p) \<Longrightarrow> active_key p (hashApiKey E rawKey) l \<Longrightarrow> l = k"
    using r assms unfolding accounts_inv_def active_key_def by (metis distinct_map_eq)
  with act r have "List.find (active_key p (hashApiKey E rawKey)) (pl_apiKeys p) = Some k"
    by (metis find_None_iff find_Some_iff nth_mem option.exhaust)
  moreover have "List.find (\<lambda>b. ap_id b = ak_appId k) (pl_apps p) = Some a"
    using r assms find_by [of ap_id "pl_apps p" a] by (simp add: accounts_inv_def)
  moreover have "filter (\<lambda>l. ak_id l = ak_id k) (pl_apiKeys p) \<noteq> []"
    using r by (auto simp: filter_empty_conv)
  ultimately show ?l
    by (simp add: authenticateApiKey_def pr_bind_def atomically_def findActiveApiKeyByHash_def tx_gets_def
        pr_return_def updateApiKeyLastUsedAt_def tx_bind_def updateMany_def tx_require_def tx_return_def)
qed

lemma authenticateApiKey_refused:
  "(\<And>k a. fst (authenticateApiKey E rawKey p) \<noteq> Inr (Some (k, a))) \<Longrightarrow> accounts_inv p \<Longrightarrow>
    authenticateApiKey E rawKey p = (Inr None, p)"
proof (cases "List.find (active_key p (hashApiKey E rawKey)) (pl_apiKeys p)")
  case None
  then show ?thesis
    by (simp add: authenticateApiKey_def pr_bind_def atomically_def findActiveApiKeyByHash_def tx_gets_def pr_return_def)
next
  case (Some k)
  assume i: "accounts_inv p" and n: "\<And>k a. fst (authenticateApiKey E rawKey p) \<noteq> Inr (Some (k, a))"
  from Some have "k \<in> set (pl_apiKeys p)" "active_key p (hashApiKey E rawKey) k" by (auto simp: find_Some_iff)
  then obtain a where "a \<in> set (pl_apps p)" "ap_id a = ak_appId k" "ap_status a = AppActive"
    by (auto simp: active_key_def key_app_def list_ex_iff)
  with \<open>k \<in> _\<close> \<open>active_key _ _ k\<close> have "fst (authenticateApiKey E rawKey p) = Inr (Some (k, a))"
    by (simp add: authenticateApiKey_iff [OF i] active_key_def)
  with n show ?thesis by blast
qed

text \<open>A revoked key is refused for ever.\<close>

lemma revoked_key_refused:
  assumes "accounts_inv p" and "access_step\<^sup>*\<^sup>* p q"
    and "k \<in> set (pl_apiKeys p)" and "ak_status k = KeyRevoked" and "ak_keyHash k = hashApiKey E rawKey"
  shows "authenticateApiKey E rawKey q = (Inr None, q)"
proof -
  from accounts_run [OF assms(2)] assms(1) have i: "accounts_inv q"
    and rows: "keyRows.rows_le (pl_apiKeys p) (pl_apiKeys q)" by (simp_all add: accounts_le_def)
  from rows assms(3) obtain l where l: "l \<in> set (pl_apiKeys q)" "keyRows.row_le k l"
    by (auto simp: keyRows.rows_le_def)
  with assms(4,5) have "ak_status l = KeyRevoked" "ak_keyHash l = hashApiKey E rawKey"
    using keyRows.final_row_stays [of k l] by (auto simp: keyRows.row_le_def ak_terms_def)
  with l i have "\<not> (m \<in> set (pl_apiKeys q) \<and> ak_keyHash m = hashApiKey E rawKey \<and> ak_status m = KeyActive)" for m
    unfolding accounts_inv_def by (metis KeyStatus.distinct(1) distinct_map_eq)
  then show ?thesis using i by (intro authenticateApiKey_refused) (auto simp: authenticateApiKey_iff)
qed

section \<open>Owners\<close>

text \<open>
  What a service of the owner \<open>o\<close> leaves alone: the applications of other owners and the keys of
  those applications.
\<close>

definition owners_app :: "string \<Rightarrow> app_row \<Rightarrow> bool" where
  "owners_app ownerId a \<longleftrightarrow> ap_ownerId a = ownerId"

definition foreign_accounts :: "string \<Rightarrow> platform \<Rightarrow> app_row list \<times> api_key list" where
  "foreign_accounts ownerId p = (filter (\<lambda>a. \<not> owners_app ownerId a) (pl_apps p),
     filter (\<lambda>k. \<not> key_app p (owners_app ownerId) k) (pl_apiKeys p))"

definition owner_same :: "string \<Rightarrow> platform \<Rightarrow> platform \<Rightarrow> bool" where
  "owner_same ownerId p q \<longleftrightarrow> accounts_inv p \<longrightarrow> accounts_inv q \<and> foreign_accounts ownerId q = foreign_accounts ownerId p"

interpretation ownerOrder: step_order "owner_same ownerId" for ownerId
  by unfold_locales (auto simp: owner_same_def)

lemma owner_sameI:
  "accounts_le p q \<Longrightarrow> (accounts_inv p \<Longrightarrow> foreign_accounts ownerId q = foreign_accounts ownerId p) \<Longrightarrow>
    owner_same ownerId p q"
  by (simp add: owner_same_def accounts_le_def)

lemma filter_map_if:
  "(\<And>x. x \<in> set xs \<Longrightarrow> c x \<Longrightarrow> \<not> P x \<and> \<not> P (f x)) \<Longrightarrow> filter P (map (\<lambda>x. if c x then f x else x) xs) = filter P xs"
  by (induction xs) auto

lemma key_app_map:
  assumes "\<And>a. ap_id (f a) = ap_id a \<and> P (f a) = P a"
  shows "key_app (pl_apps_update (map (\<lambda>a. if c a then f a else a)) p) P = key_app p P"
  using assms by (auto simp: key_app_def fun_eq_iff list_ex_map_if [of "\<lambda>a. ap_id a = _ \<and> P a" f] simp del: list_ex_iff)

lemma createApp_owner: "ownerOrder.resp ownerId (createApp E ownerId input)"
proof (rule ownerOrder.respI)
  fix p a q
  assume c: "createApp E ownerId input p = Inr (a, q)"
  then have "accounts_le p q" by (intro accounts_step access_step.app_created)
  moreover have "foreign_accounts ownerId q = foreign_accounts ownerId p" if "accounts_inv p"
  proof -
    have apps: "pl_apps q = pl_apps p @ [a]" "pl_apiKeys q = pl_apiKeys p" "ap_ownerId a = ownerId"
      and new: "\<forall>b\<in>set (pl_apps p). ap_id b \<noteq> ap_id a"
      using c by (auto simp: createApp_def tx_iff app_clash_def)
    have fk: "ak_appId k \<noteq> ap_id a" if "k \<in> set (pl_apiKeys p)" for k
      using that \<open>accounts_inv p\<close> new by (auto simp: accounts_inv_def list_all_iff list_ex_iff)
    have "key_app q (owners_app ownerId) k = key_app p (owners_app ownerId) k" if "k \<in> set (pl_apiKeys p)" for k
      using fk [OF that] apps by (auto simp: key_app_def)
    then show ?thesis using apps by (auto simp: foreign_accounts_def owners_app_def intro: filter_cong)
  qed
  ultimately show "owner_same ownerId p q" by (rule owner_sameI)
qed

lemma changed_app_owner:
  assumes "\<And>a. ap_id (f a) = ap_id a" and "\<And>a. ap_ownerId (f a) = ap_ownerId a"
  shows "owner_same ownerId p (pl_apps_update (map (\<lambda>a. if app_is ownerId appId a then f a else a)) p)"
  using assms
  by (intro owner_sameI accounts_apps)
    (auto simp: foreign_accounts_def app_is_def owners_app_def key_app_map intro!: filter_map_if)

lemma updateAppRows_owner: "ownerOrder.resp ownerId (updateAppRows ownerId appId input)"
  by (rule ownerOrder.respI) (simp add: updateAppRows_def tx_iff changed_app_owner update_app_def)

lemma disableAppRows_owner: "ownerOrder.resp ownerId (disableAppRows ownerId appId)"
  by (rule ownerOrder.respI) (simp add: disableAppRows_def tx_iff changed_app_owner)

lemma auditOwner_owner: "ownerOrder.resp ownerId (auditOwner E req o' appId action ty i prev after)"
  by (rule ownerOrder.respI)
    (auto simp: auditOwner_def tx_iff owner_same_def accounts_inv_def foreign_accounts_def key_app_def)

lemma createApiKey_owner:
  assumes "findAppForOwner ownerId i p = Inr (Some app, p)" and "kd_appId d = ap_id app"
    and "createApiKey E d p' = Inr (k, q)" and "pl_apps p' = pl_apps p"
  shows "owner_same ownerId p' q"
proof (rule owner_sameI)
  from assms(3) show "accounts_le p' q" by (intro accounts_step access_step.key_created)
  from assms(1) have "app \<in> set (pl_apps p)" "owners_app ownerId app"
    by (auto simp: findAppForOwner_def findFirst_def tx_gets_def find_Some_iff app_is_def owners_app_def)
  with assms(2-4) show "foreign_accounts ownerId q = foreign_accounts ownerId p'"
    by (auto simp: createApiKey_def tx_iff foreign_accounts_def key_app_def list_ex_iff)
qed

lemma revokeApiKeyRows_owner: "ownerOrder.resp ownerId (revokeApiKeyRows ownerId keyId)"
proof (rule ownerOrder.respI)
  fix p n q
  assume "revokeApiKeyRows ownerId keyId p = Inr (n, q)"
  moreover from this have "accounts_le p q" by (intro accounts_step access_step.key_revoked)
  ultimately show "owner_same ownerId p q"
    by (intro owner_sameI)
      (auto simp: revokeApiKeyRows_def tx_iff foreign_accounts_def owner_key_def owners_app_def key_app_def
        intro!: filter_map_if)
qed

lemmas owner_rules =
  ownerOrder.presp_rules createApp_owner updateAppRows_owner disableAppRows_owner auditOwner_owner
  revokeApiKeyRows_owner

lemma findAppForOwner_owner: "ownerOrder.resp ownerId (findAppForOwner o' i)"
  "ownerOrder.resp ownerId (findApiKeyForOwner o' i)"
  by (simp_all add: findAppForOwner_def findApiKeyForOwner_def findFirst_def ownerOrder.resp_gets)

lemma app_services_owner:
  "ownerOrder.presp ownerId (createAppForOwner E req ownerId input)"
  "ownerOrder.presp ownerId (updateAppForOwner E req ownerId i upd)"
  "ownerOrder.presp ownerId (disableAppForOwner E req ownerId i)"
  "ownerOrder.presp ownerId (revokeApiKeyForOwner E req ownerId k)"
  unfolding createAppForOwner_def updateAppForOwner_def disableAppForOwner_def changeApp_def revokeApiKeyForOwner_def
  by (intro owner_rules findAppForOwner_owner ownerOrder.resp_rules)+

lemma createApiKeyForOwner_owner: "ownerOrder.presp ownerId (createApiKeyForOwner E random req ownerId input)"
proof -
  have "owner_same ownerId p (snd (createApiKeyForOwner E random req ownerId input p))" for p
  proof (cases "List.find (app_is ownerId (ck_appId input)) (pl_apps p)")
    case None
    then show ?thesis
      by (simp add: createApiKeyForOwner_def pr_bind_def atomically_def findAppForOwner_def findFirst_def tx_gets_def
          tx_some_def tx_throw_def ownerOrder.R_refl)
  next
    case (Some app)
    then have app: "findAppForOwner ownerId (ck_appId input) p = Inr (Some app, p)"
      by (simp add: findAppForOwner_def findFirst_def tx_gets_def)
    define d where "d = \<lparr>kd_appId = ap_id app, kd_name = ck_name input,
      kd_keyPrefix = getApiKeyPrefix (createRawApiKey random (if ap_environment app = ''production'' then ''production'' else ''sandbox'')),
      kd_keyHash = hashApiKey E (createRawApiKey random (if ap_environment app = ''production'' then ''production'' else ''sandbox'')),
      kd_environment = ap_environment app, kd_scopes = ck_scopes input\<rparr>"
    have k: "owner_same ownerId p q" if "createApiKey E d p = Inr (k, q)" for k q
      using createApiKey_owner [OF app _ that refl] by (simp add: d_def)
    have a: "owner_same ownerId q t" if "auditOwner E req ownerId i act ty j prev after q = Inr (l, t)"
      for i act ty j prev after q l t
      using that auditOwner_owner by (rule ownerOrder.respD [rotated])
    show ?thesis
      using app by (auto simp: createApiKeyForOwner_def pr_bind_def atomically_def tx_some_def tx_return_def Let_def
          pr_catch_def pr_throw_def pr_return_def d_def [symmetric] ownerOrder.R_refl
          split: sum.splits prod.splits dest!: k intro: ownerOrder.R_trans a)
  qed
  then show ?thesis by (simp add: ownerOrder.presp_def)
qed

end
