(* ===== verification/Validation.thy ===== *)
theory Validation
  imports Server Accounts
begin

text \<open>
  The request schemas of the files \<open>modules/*/*.validation.ts\<close> and \<open>common/validation/validate.ts\<close>. A schema maps
  the value of a member (or \<open>undefined\<close>) to the parsed value, or to an issue; the combinators follow
  the documented behaviour of the validation library for the combinations the schemas use, and its
  string formats (\<open>uuid\<close>, \<open>url\<close>, \<open>datetime\<close>) and \<open>Date.parse\<close> are parameters. The lemmas show that parsing is
  stable (a parsed body parses to itself) and what the services may assume of a parsed body.
\<close>

section \<open>Schemas\<close>

type_synonym schema = "json option \<Rightarrow> json option option"

record formats =
  fm_uuid :: "string \<Rightarrow> bool"
  fm_url :: "string \<Rightarrow> bool"
  fm_datetime :: "string \<Rightarrow> bool"
  fm_time :: "string \<Rightarrow> int"

definition z_string :: "(string \<Rightarrow> bool) \<Rightarrow> schema" where
  "z_string ok v = (case v of Some (JStr s) \<Rightarrow> if ok s then Some v else None | _ \<Rightarrow> None)"

text \<open>\<open>z.string().trim().min(lo).max(hi)\<close>, and the same followed by a format.\<close>

definition z_trimmed :: "(string \<Rightarrow> bool) \<Rightarrow> nat \<Rightarrow> nat \<Rightarrow> schema" where
  "z_trimmed ok lo hi v = (case v of
       Some (JStr s) \<Rightarrow> (let t = trim s in
         if lo \<le> length t \<and> length t \<le> hi \<and> ok t then Some (Some (JStr t)) else None)
     | _ \<Rightarrow> None)"

definition z_text :: "nat \<Rightarrow> nat \<Rightarrow> schema" where
  "z_text = z_trimmed (\<lambda>_. True)"

definition z_enum :: "string list \<Rightarrow> schema" where
  "z_enum names = z_string (\<lambda>s. s \<in> set names)"

definition z_int :: "int \<Rightarrow> schema" where
  "z_int lo v = (case v of Some (JNum n) \<Rightarrow> if lo \<le> n then Some v else None | _ \<Rightarrow> None)"

definition z_record :: schema where
  "z_record v = (case v of Some (JObj kvs) \<Rightarrow> Some v | _ \<Rightarrow> None)"

definition z_optional :: "schema \<Rightarrow> schema" where
  "z_optional p v = (if v = None then Some None else p v)"

definition z_default :: "json \<Rightarrow> schema \<Rightarrow> schema" where
  "z_default d p v = (if v = None then Some (Some d) else p v)"

definition z_nullable :: "schema \<Rightarrow> schema" where
  "z_nullable p v = (if v = Some JNull then Some v else p v)"

definition z_refine :: "(json option \<Rightarrow> bool) \<Rightarrow> schema \<Rightarrow> schema" where
  "z_refine ok p v = (case p v of None \<Rightarrow> None | Some w \<Rightarrow> if ok w then Some w else None)"

fun z_elements :: "schema \<Rightarrow> json list \<Rightarrow> json list option" where
  "z_elements p [] = Some []"
| "z_elements p (x # xs) = (case p (Some x) of
       Some (Some y) \<Rightarrow> map_option ((#) y) (z_elements p xs)
     | _ \<Rightarrow> None)"

definition z_array :: "nat \<Rightarrow> nat \<Rightarrow> schema \<Rightarrow> schema" where
  "z_array lo hi p v = (case v of
       Some (JArr xs) \<Rightarrow>
         if lo \<le> length xs \<and> length xs \<le> hi then map_option (\<lambda>ys. Some (JArr ys)) (z_elements p xs) else None
     | _ \<Rightarrow> None)"

fun z_fields :: "(string \<times> schema) list \<Rightarrow> (string \<times> json) list \<Rightarrow> (string \<times> json) list option" where
  "z_fields [] kvs = Some []"
| "z_fields ((k, p) # fs) kvs = (case p (map_of kvs k) of
       None \<Rightarrow> None
     | Some w \<Rightarrow> map_option (\<lambda>ms. case w of None \<Rightarrow> ms | Some y \<Rightarrow> (k, y) # ms) (z_fields fs kvs))"

definition z_object :: "(string \<times> schema) list \<Rightarrow> schema" where
  "z_object fs v = (case v of
       Some (JObj kvs) \<Rightarrow> map_option (\<lambda>ms. Some (JObj ms)) (z_fields fs kvs) | _ \<Rightarrow> None)"

definition z_strict :: "(string \<times> schema) list \<Rightarrow> schema" where
  "z_strict fs v = (case v of
       Some (JObj kvs) \<Rightarrow> if list_all (\<lambda>kv. fst kv \<in> set (map fst fs)) kvs then z_object fs v else None | _ \<Rightarrow> None)"

section \<open>Members of a parsed body\<close>

definition member :: "string \<Rightarrow> json option \<Rightarrow> json option" where
  "member k v = (case v of Some (JObj kvs) \<Rightarrow> map_of kvs k | _ \<Rightarrow> None)"

definition str_opt :: "string \<Rightarrow> json \<Rightarrow> string option" where
  "str_opt k v = (case member k (Some v) of Some (JStr s) \<Rightarrow> Some s | _ \<Rightarrow> None)"

definition str_at :: "string \<Rightarrow> json \<Rightarrow> string" where
  "str_at k v = (case str_opt k v of None \<Rightarrow> [] | Some s \<Rightarrow> s)"

definition strs_opt :: "string \<Rightarrow> json \<Rightarrow> string list option" where
  "strs_opt k v = (case member k (Some v) of
       Some (JArr xs) \<Rightarrow> Some [s. JStr s \<leftarrow> xs] | _ \<Rightarrow> None)"

definition strs_at :: "string \<Rightarrow> json \<Rightarrow> string list" where
  "strs_at k v = (case strs_opt k v of None \<Rightarrow> [] | Some xs \<Rightarrow> xs)"

definition num_opt :: "string \<Rightarrow> json \<Rightarrow> int option" where
  "num_opt k v = (case member k (Some v) of Some (JNum n) \<Rightarrow> Some n | _ \<Rightarrow> None)"

section \<open>validate.ts\<close>

definition validateBody :: "schema \<Rightarrow> json option \<Rightarrow> error + json" where
  "validateBody sch body = (case sch body of Some (Some v) \<Rightarrow> Inr v | _ \<Rightarrow> Inl ZodError)"

section \<open>The schemas of the modules\<close>

definition positiveIntegerString :: schema where
  "positiveIntegerString = z_string isPositiveIntegerAmount"

definition nonNegativeIntegerString :: schema where
  "nonNegativeIntegerString = z_string isNonNegativeIntegerAmount"

definition metadataSchema :: schema where
  "metadataSchema = z_refine (\<lambda>v. case v of None \<Rightarrow> True | Some m \<Rightarrow> byteLength m \<le> 16 * 1024)
     (z_default (JObj []) z_record)"

definition createAgreementSchema :: "formats \<Rightarrow> schema" where
  "createAgreementSchema F = z_object [
     (''externalReferenceId'', z_optional (z_text 1 160)),
     (''title'', z_text 1 200),
     (''description'', z_default (JStr []) (z_text 0 5000)),
     (''clientExternalId'', z_text 1 160),
     (''workerExternalId'', z_text 1 160),
     (''totalAmount'', positiveIntegerString),
     (''currency'', z_default (JStr ''CKB'') (z_text 2 12)),
     (''releaseMode'', z_default (JStr ''milestone'') (z_enum [''manual'', ''milestone'', ''automatic''])),
     (''disputeMode'', z_default (JStr ''app_managed'') (z_enum [''app_managed'', ''pactagent_managed''])),
     (''sourceType'', z_optional (z_text 1 80)),
     (''sourceUrl'', z_optional (z_string (fm_url F))),
     (''metadata'', metadataSchema)]"

definition createMilestoneSchema :: "formats \<Rightarrow> schema" where
  "createMilestoneSchema F = z_object [
     (''externalReferenceId'', z_optional (z_text 1 160)),
     (''title'', z_text 1 160),
     (''description'', z_default (JStr []) (z_text 0 3000)),
     (''amount'', positiveIntegerString),
     (''currency'', z_optional (z_text 2 12)),
     (''order'', z_optional (z_int 1)),
     (''dueDate'', z_optional (z_string (fm_datetime F)))]"

definition proofLinkSchema :: "formats \<Rightarrow> schema" where
  "proofLinkSchema F = z_string (\<lambda>s. fm_url F s \<and> length s \<le> 2048)"

definition createProofSchema :: "formats \<Rightarrow> schema" where
  "createProofSchema F = z_object [
     (''agreementId'', z_string (fm_uuid F)),
     (''milestoneId'', z_string (fm_uuid F)),
     (''submittedByExternalId'', z_text 1 160),
     (''type'', z_enum [''text'', ''url'', ''file'', ''github'', ''mixed'']),
     (''content'', z_text 1 20000),
     (''links'', z_default (JArr []) (z_array 0 10 (proofLinkSchema F))),
     (''fileRefs'', z_default (JArr []) (z_array 0 20 (z_text 1 512)))]"

definition reviewProofSchema :: schema where
  "reviewProofSchema = z_object [
     (''reviewerExternalId'', z_text 1 160),
     (''decision'', z_enum [''approved'', ''rejected'', ''needs_changes'']),
     (''note'', z_optional (z_text 0 5000))]"

definition createDisputeSchema :: "formats \<Rightarrow> schema" where
  "createDisputeSchema F = z_object [
     (''agreementId'', z_string (fm_uuid F)),
     (''milestoneId'', z_string (fm_uuid F)),
     (''openedByExternalId'', z_text 1 160),
     (''reason'', z_text 1 5000),
     (''evidenceLinks'', z_default (JArr []) (z_array 0 20 (z_string (\<lambda>s. fm_url F s \<and> length s \<le> 2048))))]"

definition split_amounts :: "json option \<Rightarrow> bool" where
  "split_amounts v =
     (if member ''resolutionType'' v \<noteq> Some (JStr ''split'')
      then \<not> (member ''workerAmount'' v \<noteq> None \<or> member ''clientAmount'' v \<noteq> None)
      else \<not> (member ''workerAmount'' v = None \<or> member ''clientAmount'' v = None))"

definition resolveDisputeSchema :: schema where
  "resolveDisputeSchema = z_refine split_amounts (z_object [
     (''resolutionType'', z_enum [''release'', ''refund'', ''split'']),
     (''resolutionNote'', z_optional (z_text 0 5000)),
     (''workerAmount'', z_optional nonNegativeIntegerString),
     (''clientAmount'', z_optional nonNegativeIntegerString)])"

definition any_hex_char :: "char \<Rightarrow> bool" where
  "any_hex_char c \<longleftrightarrow> digit c \<or> c \<in> set ''abcdefABCDEF''"

text \<open>\<open>/^0x[0-9a-fA-F]*$/\<close>\<close>

definition hex_string :: "string \<Rightarrow> bool" where
  "hex_string s \<longleftrightarrow> take 2 s = ''0x'' \<and> list_all any_hex_char (drop 2 s)"

definition ckbScriptSchema :: schema where
  "ckbScriptSchema = z_object [
     (''codeHash'', z_string (\<lambda>s. hex_string s \<and> length s = 66)),
     (''hashType'', z_enum [''data'', ''type'', ''data1'', ''data2'']),
     (''args'', z_string hex_string)]"

definition escrow_fields_ok :: "json option \<Rightarrow> bool" where
  "escrow_fields_ok v =
     ((if member ''rail'' v = Some (JStr ''ckb'')
       then member ''network'' v \<in> {Some (JStr ''testnet''), Some (JStr ''mainnet'')}
       else member ''network'' v = Some (JStr ''sandbox''))
     \<and> (member ''rail'' v = Some (JStr ''ckb'') \<longrightarrow> member ''currency'' v = Some (JStr ''CKB'')
         \<and> list_all (\<lambda>field. member field v \<noteq> None)
             [''milestoneId'', ''clientLockScript'', ''workerLockScript'', ''refundTimeoutSince'']))"

definition createEscrowSchema :: "formats \<Rightarrow> schema" where
  "createEscrowSchema F = z_refine escrow_fields_ok (z_object [
     (''agreementId'', z_string (fm_uuid F)),
     (''milestoneId'', z_optional (z_string (fm_uuid F))),
     (''amount'', positiveIntegerString),
     (''currency'', z_default (JStr ''CKB'') (z_text 2 12)),
     (''rail'', z_default (JStr ''mock'') (z_enum [''mock'', ''manual'', ''ckb''])),
     (''network'', z_default (JStr ''sandbox'') (z_enum [''sandbox'', ''testnet'', ''mainnet''])),
     (''clientLockScript'', z_optional ckbScriptSchema),
     (''workerLockScript'', z_optional ckbScriptSchema),
     (''refundTimeoutSince'', z_optional nonNegativeIntegerString)])"

definition markFundedSchema :: schema where
  "markFundedSchema = z_object [(''txHash'', z_optional (z_text 1 200))]"

definition emptyActionSchema :: schema where
  "emptyActionSchema = z_strict []"

definition some_member :: "json option \<Rightarrow> bool" where
  "some_member v = (case v of Some (JObj kvs) \<Rightarrow> kvs \<noteq> [] | _ \<Rightarrow> False)"

definition createWebhookEndpointSchema :: "formats \<Rightarrow> schema" where
  "createWebhookEndpointSchema F = z_object [
     (''url'', z_trimmed (fm_url F) 0 2048),
     (''description'', z_optional (z_text 0 240)),
     (''subscribedEvents'', z_array 1 50 (z_enum INFRASTRUCTURE_EVENT_TYPES))]"

definition updateWebhookEndpointSchema :: "formats \<Rightarrow> schema" where
  "updateWebhookEndpointSchema F = z_refine some_member (z_object [
     (''url'', z_optional (z_trimmed (fm_url F) 0 2048)),
     (''description'', z_optional (z_nullable (z_text 0 240))),
     (''subscribedEvents'', z_optional (z_array 1 50 (z_enum INFRASTRUCTURE_EVENT_TYPES))),
     (''status'', z_optional (z_enum [''active'', ''disabled'']))])"

text \<open>\<open>/^[a-z0-9]+(?:-[a-z0-9]+)*$/\<close>: runs of lowercase letters and digits, joined by single hyphens.\<close>

definition slug_char :: "char \<Rightarrow> bool" where
  "slug_char c \<longleftrightarrow> digit c \<or> (97 \<le> (of_char c :: nat) \<and> (of_char c :: nat) \<le> 122)"

fun slug_from :: "bool \<Rightarrow> string \<Rightarrow> bool" where
  "slug_from inrun [] = inrun"
| "slug_from inrun (c # cs) =
     (if slug_char c then slug_from True cs else c = CHR ''-'' \<and> inrun \<and> slug_from False cs)"

definition createAppSchema :: schema where
  "createAppSchema = z_object [
     (''name'', z_text 1 120),
     (''slug'', z_trimmed (slug_from False) 2 80),
     (''environment'', z_default (JStr ''sandbox'') (z_enum [''sandbox'', ''production''])),
     (''defaultCurrency'', z_default (JStr ''CKB'') (z_text 2 12)),
     (''defaultNetwork'', z_default (JStr ''sandbox'') (z_text 2 32))]"

definition updateAppSchema :: schema where
  "updateAppSchema = z_refine some_member (z_object [
     (''name'', z_optional (z_text 1 120)),
     (''status'', z_optional (z_enum [''active'', ''disabled'', ''suspended''])),
     (''defaultCurrency'', z_optional (z_text 2 12)),
     (''defaultNetwork'', z_optional (z_text 2 32))])"

text \<open>An array without an upper bound.\<close>

definition createApiKeySchema :: "formats \<Rightarrow> schema" where
  "createApiKeySchema F = z_object [
     (''appId'', z_string (fm_uuid F)),
     (''name'', z_text 1 120),
     (''scopes'', (\<lambda>v. z_array 1 (case v of Some (JArr xs) \<Rightarrow> length xs | _ \<Rightarrow> 0) (z_enum API_KEY_SCOPES) v))]"

section \<open>Typed inputs\<close>

text \<open>The inferred types of the schemas (\<open>z.infer\<close>): how the services read a parsed body.\<close>

definition agreement_input :: "json \<Rightarrow> create_agreement_input" where
  "agreement_input v = \<lparr>cai_externalReferenceId = str_opt ''externalReferenceId'' v, cai_title = str_at ''title'' v,
     cai_description = str_at ''description'' v, cai_clientExternalId = str_at ''clientExternalId'' v,
     cai_workerExternalId = str_at ''workerExternalId'' v, cai_totalAmount = str_at ''totalAmount'' v,
     cai_currency = str_at ''currency'' v, cai_releaseMode = str_at ''releaseMode'' v,
     cai_disputeMode = str_at ''disputeMode'' v, cai_sourceType = str_opt ''sourceType'' v,
     cai_sourceUrl = str_opt ''sourceUrl'' v,
     cai_metadata = (case member ''metadata'' (Some v) of None \<Rightarrow> JObj [] | Some m \<Rightarrow> m)\<rparr>"

definition milestone_input :: "formats \<Rightarrow> json \<Rightarrow> create_milestone_input" where
  "milestone_input F v = \<lparr>cmi_externalReferenceId = str_opt ''externalReferenceId'' v, cmi_title = str_at ''title'' v,
     cmi_description = str_at ''description'' v, cmi_amount = str_at ''amount'' v,
     cmi_currency = str_opt ''currency'' v, cmi_order = num_opt ''order'' v,
     cmi_dueDate = map_option (fm_time F) (str_opt ''dueDate'' v)\<rparr>"

definition proof_input :: "json \<Rightarrow> create_proof_input" where
  "proof_input v = \<lparr>cpi_agreementId = str_at ''agreementId'' v, cpi_milestoneId = str_at ''milestoneId'' v,
     cpi_submittedByExternalId = str_at ''submittedByExternalId'' v, cpi_type = str_at ''type'' v,
     cpi_content = str_at ''content'' v, cpi_links = strs_at ''links'' v, cpi_fileRefs = strs_at ''fileRefs'' v\<rparr>"

definition decision_of :: "string \<Rightarrow> ReviewDecision" where
  "decision_of s = (if s = ''approved'' then RD_approved else if s = ''rejected'' then RD_rejected else RD_needs_changes)"

definition review_body :: "json \<Rightarrow> review_input" where
  "review_body v = \<lparr>ri_reviewerExternalId = str_at ''reviewerExternalId'' v,
     ri_decision = decision_of (str_at ''decision'' v), ri_note = str_opt ''note'' v\<rparr>"

definition dispute_input :: "json \<Rightarrow> create_dispute_input" where
  "dispute_input v = \<lparr>cdi_agreementId = str_at ''agreementId'' v, cdi_milestoneId = str_at ''milestoneId'' v,
     cdi_openedByExternalId = str_at ''openedByExternalId'' v, cdi_reason = str_at ''reason'' v,
     cdi_evidenceLinks = strs_at ''evidenceLinks'' v\<rparr>"

definition resolution_of :: "string \<Rightarrow> DisputeResolutionType" where
  "resolution_of s = (if s = ''release'' then DR_release else if s = ''refund'' then DR_refund else DR_split)"

definition resolve_input :: "json \<Rightarrow> resolve_dispute_input" where
  "resolve_input v = \<lparr>rdi_resolutionType = resolution_of (str_at ''resolutionType'' v),
     rdi_resolutionNote = str_opt ''resolutionNote'' v, rdi_workerAmount = str_opt ''workerAmount'' v,
     rdi_clientAmount = str_opt ''clientAmount'' v\<rparr>"

definition escrow_input :: "json \<Rightarrow> create_escrow_input" where
  "escrow_input v = \<lparr>cei_agreementId = str_at ''agreementId'' v, cei_milestoneId = str_opt ''milestoneId'' v,
     cei_amount = str_at ''amount'' v, cei_currency = str_at ''currency'' v, cei_rail = str_at ''rail'' v,
     cei_network = str_at ''network'' v, cei_clientLockScript = member ''clientLockScript'' (Some v),
     cei_workerLockScript = member ''workerLockScript'' (Some v),
     cei_refundTimeoutSince = str_opt ''refundTimeoutSince'' v\<rparr>"

definition endpoint_input :: "json \<Rightarrow> create_endpoint_input" where
  "endpoint_input v = \<lparr>cen_url = str_at ''url'' v, cen_description = str_opt ''description'' v,
     cen_subscribedEvents = strs_at ''subscribedEvents'' v\<rparr>"

definition endpoint_update :: "json \<Rightarrow> update_endpoint_input" where
  "endpoint_update v = \<lparr>uen_url = str_opt ''url'' v,
     uen_description = map_option (\<lambda>_. str_opt ''description'' v) (member ''description'' (Some v)),
     uen_subscribedEvents = strs_opt ''subscribedEvents'' v, uen_status = str_opt ''status'' v\<rparr>"

section \<open>Parsing is stable\<close>

definition stable_schema :: "schema \<Rightarrow> bool" where
  "stable_schema p \<longleftrightarrow> (\<forall>v w. p v = Some w \<longrightarrow> p w = Some w)"

lemma stable_schemaD: "stable_schema p \<Longrightarrow> p v = Some w \<Longrightarrow> p w = Some w"
  by (simp add: stable_schema_def)

lemma stable_schemaI: "(\<And>v w. p v = Some w \<Longrightarrow> p w = Some w) \<Longrightarrow> stable_schema p"
  by (simp add: stable_schema_def)

lemma z_string_iff: "z_string ok v = Some w \<longleftrightarrow> (\<exists>s. v = Some (JStr s) \<and> ok s \<and> w = v)"
  by (cases v; cases "the v") (auto simp: z_string_def)

lemma z_trimmed_iff:
  "z_trimmed ok lo hi v = Some w \<longleftrightarrow>
     (\<exists>s. v = Some (JStr s) \<and> lo \<le> length (trim s) \<and> length (trim s) \<le> hi \<and> ok (trim s) \<and> w = Some (JStr (trim s)))"
  by (cases v; cases "the v") (auto simp: z_trimmed_def Let_def)

lemma z_int_iff: "z_int lo v = Some w \<longleftrightarrow> (\<exists>n. v = Some (JNum n) \<and> lo \<le> n \<and> w = v)"
  by (cases v; cases "the v") (auto simp: z_int_def)

lemma z_record_iff: "z_record v = Some w \<longleftrightarrow> (\<exists>kvs. v = Some (JObj kvs) \<and> w = v)"
  by (cases v; cases "the v") (auto simp: z_record_def)

lemma z_refine_iff: "z_refine ok p v = Some w \<longleftrightarrow> p v = Some w \<and> ok w"
  by (cases "p v") (auto simp: z_refine_def)

lemma z_array_iff:
  "z_array lo hi p v = Some w \<longleftrightarrow>
     (\<exists>xs ys. v = Some (JArr xs) \<and> lo \<le> length xs \<and> length xs \<le> hi \<and> z_elements p xs = Some ys \<and> w = Some (JArr ys))"
  by (cases v; cases "the v") (auto simp: z_array_def)

lemma z_object_iff:
  "z_object fs v = Some w \<longleftrightarrow> (\<exists>kvs ms. v = Some (JObj kvs) \<and> z_fields fs kvs = Some ms \<and> w = Some (JObj ms))"
  by (cases v; cases "the v") (auto simp: z_object_def)

lemma stable_string: "stable_schema (z_string ok)" "stable_schema (z_enum names)"
  by (auto simp: stable_schema_def z_string_iff z_enum_def)

lemma stable_trimmed: "stable_schema (z_trimmed ok lo hi)" "stable_schema (z_text lo hi)"
  by (simp_all add: stable_schema_def z_text_def z_trimmed_iff) (auto simp: trim_idem)

lemma stable_plain: "stable_schema (z_int lo)" "stable_schema z_record"
  by (auto simp: stable_schema_def z_int_iff z_record_iff)

lemma stable_wrap:
  "stable_schema p \<Longrightarrow> stable_schema (z_optional p)"
  "stable_schema p \<Longrightarrow> stable_schema (z_nullable p)"
  "stable_schema p \<Longrightarrow> stable_schema (z_refine ok p)"
proof -
  assume s: "stable_schema p"
  note p = stable_schemaD [OF s]
  show "stable_schema (z_refine ok p)" by (rule stable_schemaI) (auto simp: z_refine_iff intro: p)
  show "stable_schema (z_optional p)"
    by (rule stable_schemaI) (simp add: z_optional_def p split: if_split_asm)
  show "stable_schema (z_nullable p)"
    by (rule stable_schemaI) (simp add: z_nullable_def p split: if_split_asm)
qed

lemma stable_default:
  assumes "stable_schema p" and "p None = None" and "p (Some d) = Some (Some d)"
  shows "stable_schema (z_default d p)"
proof (rule stable_schemaI)
  fix v w assume "z_default d p v = Some w"
  then have "w = Some d \<or> p v = Some w" by (auto simp: z_default_def split: if_splits)
  then have "p w = Some w" using assms(3) stable_schemaD [OF assms(1)] by auto
  moreover from this have "w \<noteq> None" using assms(2) by (cases w) auto
  ultimately show "z_default d p w = Some w" by (simp add: z_default_def)
qed

lemma z_elements_stable: "stable_schema p \<Longrightarrow> z_elements p xs = Some ys \<Longrightarrow> z_elements p ys = Some ys"
proof (induction xs arbitrary: ys)
  case (Cons x xs)
  then obtain y zs where "p (Some x) = Some (Some y)" "z_elements p xs = Some zs" "ys = y # zs"
    by (auto split: option.splits)
  with Cons.IH [OF Cons.prems(1)] stable_schemaD [OF Cons.prems(1)] show ?case by simp
qed simp

lemma z_elements_length: "z_elements p xs = Some ys \<Longrightarrow> length ys = length xs"
  by (induction xs arbitrary: ys) (auto split: option.splits)

lemma stable_array: "stable_schema p \<Longrightarrow> stable_schema (z_array lo hi p)"
proof (rule stable_schemaI)
  fix v w assume s: "stable_schema p" and a: "z_array lo hi p v = Some w"
  then obtain xs ys where x: "lo \<le> length xs" "length xs \<le> hi" "z_elements p xs = Some ys" "w = Some (JArr ys)"
    by (auto simp: z_array_iff)
  from x(1,2) z_elements_length [OF x(3)] z_elements_stable [OF s x(3)] show "z_array lo hi p w = Some w"
    by (simp add: z_array_def x(4))
qed

lemma z_fields_keys: "z_fields fs kvs = Some ms \<Longrightarrow> set (map fst ms) \<subseteq> set (map fst fs)"
proof (induction fs kvs arbitrary: ms rule: z_fields.induct)
  case (2 k p fs kvs)
  then obtain w ns where "p (map_of kvs k) = Some w" "z_fields fs kvs = Some ns"
    "ms = (case w of None \<Rightarrow> ns | Some y \<Rightarrow> (k, y) # ns)" by (auto split: option.splits)
  with "2.IH" show ?case by (cases w) auto
qed simp

lemma z_fields_at:
  "z_fields fs kvs = Some ms \<Longrightarrow> distinct (map fst fs) \<Longrightarrow> (k, p) \<in> set fs \<Longrightarrow>
     p (map_of kvs k) = Some (map_of ms k)"
proof (induction fs kvs arbitrary: ms rule: z_fields.induct)
  case (2 l q fs kvs)
  then obtain w ns where w: "q (map_of kvs l) = Some w" and ns: "z_fields fs kvs = Some ns"
    and ms: "ms = (case w of None \<Rightarrow> ns | Some y \<Rightarrow> (l, y) # ns)" by (auto split: option.splits)
  have out: "map_of ns l = None"
    using z_fields_keys [OF ns] 2(3) by (auto simp: map_of_eq_None_iff)
  show ?case
  proof (cases "(k, p) = (l, q)")
    case True
    then show ?thesis using w ms out by (auto split: option.splits)
  next
    case False
    with 2(3,4) have "k \<noteq> l" "(k, p) \<in> set fs" by (auto simp: image_iff)
    with 2(1) [OF w ns] 2(3) ms show ?thesis by (auto split: option.splits)
  qed
qed simp

lemma z_fields_cong:
  "(\<And>k p. (k, p) \<in> set fs \<Longrightarrow> p (map_of kvs k) = p (map_of ls k)) \<Longrightarrow> z_fields fs kvs = z_fields fs ls"
proof (induction fs)
  case (Cons f fs)
  obtain k p where f: "f = (k, p)" by (cases f)
  have "p (map_of kvs k) = p (map_of ls k)" by (rule Cons.prems) (simp add: f)
  moreover have "z_fields fs kvs = z_fields fs ls" by (rule Cons.IH) (simp add: Cons.prems)
  ultimately show ?case by (simp add: f split: option.split)
qed simp

lemma z_fields_stable:
  assumes "z_fields fs kvs = Some ms" and "distinct (map fst fs)" and "\<forall>f\<in>set fs. stable_schema (snd f)"
  shows "z_fields fs ms = Some ms"
proof -
  have "p (map_of ms k) = p (map_of kvs k)" if "(k, p) \<in> set fs" for k p
    using z_fields_at [OF assms(1,2) that] assms(3) that stable_schemaD by fastforce
  then have "z_fields fs ms = z_fields fs kvs" by (rule z_fields_cong)
  with assms(1) show ?thesis by simp
qed

lemma stable_object:
  assumes "distinct (map fst fs)" and "\<forall>f\<in>set fs. stable_schema (snd f)"
  shows "stable_schema (z_object fs)" and "stable_schema (z_strict fs)"
proof -
  show o: "stable_schema (z_object fs)"
  proof (rule stable_schemaI)
    fix v w assume "z_object fs v = Some w"
    then obtain kvs ms where m: "z_fields fs kvs = Some ms" "w = Some (JObj ms)"
      by (auto simp: z_object_iff)
    from z_fields_stable [OF m(1) assms] show "z_object fs w = Some w" by (simp add: z_object_def m(2))
  qed
  show "stable_schema (z_strict fs)" unfolding stable_schema_def
  proof (intro allI impI)
    fix v w assume a: "z_strict fs v = Some w"
    then obtain kvs ms where v: "z_object fs v = Some w" "v = Some (JObj kvs)" "w = Some (JObj ms)" "z_fields fs kvs = Some ms"
      by (cases v; cases "the v") (auto simp: z_strict_def z_object_iff split: if_splits)
    with o have "z_object fs w = Some w" by (blast intro: stable_schemaD)
    with v(3) z_fields_keys [OF v(4)] show "z_strict fs w = Some w"
      by (auto simp: z_strict_def list_all_iff split: if_splits)
  qed
qed

lemmas stable_rules = stable_string stable_trimmed stable_plain stable_wrap stable_array

lemma trim_text: "trim s = s \<Longrightarrow> lo \<le> length s \<Longrightarrow> length s \<le> hi \<Longrightarrow> z_text lo hi (Some (JStr s)) = Some (Some (JStr s))"
  by (simp add: z_text_def z_trimmed_def)

lemma trim_constants: "trim [] = []" "trim ''CKB'' = ''CKB''" "trim ''sandbox'' = ''sandbox''"
  by code_simp+

lemma undefined_refused [simp]:
  "z_text lo hi None = None" "z_enum names None = None" "z_array lo hi p None = None" "z_record None = None"
  by (simp_all add: z_text_def z_trimmed_def z_enum_def z_string_def z_array_def z_record_def)

lemma default_accepted [simp]:
  "z_text 0 hi (Some (JStr [])) = Some (Some (JStr []))"
  "z_enum names (Some (JStr n)) = (if n \<in> set names then Some (Some (JStr n)) else None)"
  "z_array 0 hi p (Some (JArr [])) = Some (Some (JArr []))"
  "z_record (Some (JObj kvs)) = Some (Some (JObj kvs))"
  by (simp_all add: trim_text trim_constants z_enum_def z_string_def z_array_def z_record_def)

lemma default_texts:
  "lo \<le> 3 \<Longrightarrow> 3 \<le> hi \<Longrightarrow> z_text lo hi (Some (JStr ''CKB'')) = Some (Some (JStr ''CKB''))"
  "lo \<le> 7 \<Longrightarrow> 7 \<le> hi \<Longrightarrow> z_text lo hi (Some (JStr ''sandbox'')) = Some (Some (JStr ''sandbox''))"
  by (simp_all add: trim_text trim_constants)

lemma stable_amounts: "stable_schema positiveIntegerString" "stable_schema nonNegativeIntegerString"
  by (simp_all add: positiveIntegerString_def nonNegativeIntegerString_def stable_string)

lemma stable_metadata: "stable_schema metadataSchema"
  unfolding metadataSchema_def by (intro stable_rules stable_default) simp_all

lemmas schema_rules = stable_rules stable_default stable_amounts stable_metadata

lemma stable_objectI:
  "distinct (map fst fs) \<Longrightarrow> list_all (\<lambda>f. stable_schema (snd f)) fs \<Longrightarrow> stable_schema (z_object fs)"
  by (rule stable_object) (simp_all add: list_all_iff)

lemma stable_script: "stable_schema ckbScriptSchema"
  unfolding ckbScriptSchema_def by (rule stable_objectI) (simp_all add: stable_string)

lemma stable_schemas:
  "stable_schema (createAgreementSchema F)" "stable_schema (createMilestoneSchema F)" "stable_schema (createProofSchema F)"
  "stable_schema reviewProofSchema" "stable_schema (createDisputeSchema F)" "stable_schema resolveDisputeSchema"
  "stable_schema (createEscrowSchema F)" "stable_schema markFundedSchema" "stable_schema emptyActionSchema"
  "stable_schema (createWebhookEndpointSchema F)" "stable_schema (updateWebhookEndpointSchema F)"
  unfolding createAgreementSchema_def createMilestoneSchema_def createProofSchema_def reviewProofSchema_def
    createDisputeSchema_def resolveDisputeSchema_def createEscrowSchema_def markFundedSchema_def emptyActionSchema_def
    createWebhookEndpointSchema_def updateWebhookEndpointSchema_def proofLinkSchema_def
  by (intro stable_wrap(3) stable_objectI stable_object(2);
      simp add: schema_rules stable_script default_texts)+

section \<open>What a parsed body guarantees\<close>

lemma validateBody_iff: "validateBody sch body = Inr v \<longleftrightarrow> sch body = Some (Some v)"
  by (auto simp: validateBody_def split: option.splits)

lemma validateBody_stable: "stable_schema sch \<Longrightarrow> validateBody sch body = Inr v \<Longrightarrow> validateBody sch (Some v) = Inr v"
  unfolding validateBody_iff by (rule stable_schemaD)

lemma parsed_member:
  assumes "z_object fs body = Some w" and "(k, p) \<in> set fs" and "distinct (map fst fs)"
  shows "p (member k body) = Some (member k w)"
  using assms(1) z_fields_at [OF _ assms(3,2)] by (auto simp: z_object_iff member_def)

lemma parsed_string:
  assumes "z_object fs body = Some (Some v)" and "(k, z_string ok) \<in> set fs" and "distinct (map fst fs)"
  shows "ok (str_at k v)" and "member k (Some v) = Some (JStr (str_at k v))"
  using parsed_member [OF assms] by (auto simp: z_string_iff str_at_def str_opt_def)

lemma parsed_optional:
  assumes "z_object fs body = Some (Some v)" and "(k, z_optional (z_string ok)) \<in> set fs" and "distinct (map fst fs)"
  shows "member k (Some v) = map_option JStr (str_opt k v)" and "str_opt k v = Some s \<Longrightarrow> ok s"
  using parsed_member [OF assms] by (auto simp: z_optional_def z_string_iff str_opt_def split: if_splits)

lemma parsed_agreement:
  assumes "validateBody (createAgreementSchema F) body = Inr v"
  shows "isPositiveIntegerAmount (cai_totalAmount (agreement_input v))"
  using assms unfolding validateBody_iff createAgreementSchema_def positiveIntegerString_def
  by (auto simp: agreement_input_def dest!: parsed_string(1) [where k = "''totalAmount''" and ok = isPositiveIntegerAmount])

lemma parsed_milestone:
  assumes "validateBody (createMilestoneSchema F) body = Inr v"
  shows "isPositiveIntegerAmount (cmi_amount (milestone_input F v))"
  using assms unfolding validateBody_iff createMilestoneSchema_def positiveIntegerString_def
  by (auto simp: milestone_input_def dest!: parsed_string(1) [where k = "''amount''" and ok = isPositiveIntegerAmount])

lemma member_str: "member k (Some v) = Some (JStr s) \<Longrightarrow> str_at k v = s" "member k (Some v) = Some (JStr s) \<Longrightarrow> str_opt k v = Some s"
  by (simp_all add: str_at_def str_opt_def)

lemma parsed_escrow:
  assumes "validateBody (createEscrowSchema F) body = Inr v"
  shows "isPositiveIntegerAmount (cei_amount (escrow_input v))"
    and "cei_rail (escrow_input v) = ''ckb'' \<Longrightarrow> cei_network (escrow_input v) \<in> {''testnet'', ''mainnet''}
      \<and> cei_currency (escrow_input v) = ''CKB'' \<and> cei_milestoneId (escrow_input v) \<noteq> None
      \<and> cei_clientLockScript (escrow_input v) \<noteq> None \<and> cei_workerLockScript (escrow_input v) \<noteq> None
      \<and> cei_refundTimeoutSince (escrow_input v) \<noteq> None"
    and "cei_rail (escrow_input v) \<noteq> ''ckb'' \<Longrightarrow> cei_network (escrow_input v) = ''sandbox''"
proof -
  from assms have e: "escrow_fields_ok (Some v)"
    and o: "z_object [(''agreementId'', z_string (fm_uuid F)), (''milestoneId'', z_optional (z_string (fm_uuid F))),
     (''amount'', z_string isPositiveIntegerAmount), (''currency'', z_default (JStr ''CKB'') (z_text 2 12)),
     (''rail'', z_default (JStr ''mock'') (z_enum [''mock'', ''manual'', ''ckb''])),
     (''network'', z_default (JStr ''sandbox'') (z_enum [''sandbox'', ''testnet'', ''mainnet''])),
     (''clientLockScript'', z_optional ckbScriptSchema), (''workerLockScript'', z_optional ckbScriptSchema),
     (''refundTimeoutSince'', z_optional (z_string isNonNegativeIntegerAmount))] body = Some (Some v)"
    by (simp_all add: validateBody_iff createEscrowSchema_def z_refine_iff positiveIntegerString_def nonNegativeIntegerString_def)
  show "isPositiveIntegerAmount (cei_amount (escrow_input v))"
    using parsed_string(1) [OF o, of "''amount''" isPositiveIntegerAmount] by (simp add: escrow_input_def)
  have m: "member ''milestoneId'' (Some v) = map_option JStr (str_opt ''milestoneId'' v)"
    "member ''refundTimeoutSince'' (Some v) = map_option JStr (str_opt ''refundTimeoutSince'' v)"
    using parsed_optional(1) [OF o, of "''milestoneId''" "fm_uuid F"]
      parsed_optional(1) [OF o, of "''refundTimeoutSince''" isNonNegativeIntegerAmount] by simp_all
  have "\<exists>r. member ''rail'' (Some v) = Some (JStr r)"
    using parsed_member [OF o, of "''rail''"] by (auto simp: z_default_def z_enum_def z_string_iff split: if_splits; metis)
  then have r: "member ''rail'' (Some v) = Some (JStr (cei_rail (escrow_input v)))"
    by (auto simp: escrow_input_def dest: member_str(1))
  show "cei_network (escrow_input v) = ''sandbox''" if "cei_rail (escrow_input v) \<noteq> ''ckb''"
    using that e r by (auto simp: escrow_fields_ok_def escrow_input_def dest: member_str(1))
  assume "cei_rail (escrow_input v) = ''ckb''"
  with e r m show "cei_network (escrow_input v) \<in> {''testnet'', ''mainnet''}
      \<and> cei_currency (escrow_input v) = ''CKB'' \<and> cei_milestoneId (escrow_input v) \<noteq> None
      \<and> cei_clientLockScript (escrow_input v) \<noteq> None \<and> cei_workerLockScript (escrow_input v) \<noteq> None
      \<and> cei_refundTimeoutSince (escrow_input v) \<noteq> None"
    by (auto simp: escrow_fields_ok_def escrow_input_def dest: member_str(1))
qed

lemma parsed_resolution:
  assumes "validateBody resolveDisputeSchema body = Inr v"
  shows "rdi_resolutionType (resolve_input v) = DR_split \<Longrightarrow> \<exists>a b. rdi_workerAmount (resolve_input v) = Some a
      \<and> rdi_clientAmount (resolve_input v) = Some b \<and> isNonNegativeIntegerAmount a \<and> isNonNegativeIntegerAmount b"
    and "rdi_resolutionType (resolve_input v) \<noteq> DR_split \<Longrightarrow>
      rdi_workerAmount (resolve_input v) = None \<and> rdi_clientAmount (resolve_input v) = None"
proof -
  from assms have e: "split_amounts (Some v)"
    and o: "z_object [(''resolutionType'', z_string (\<lambda>s. s \<in> set [''release'', ''refund'', ''split''])),
     (''resolutionNote'', z_optional (z_text 0 5000)), (''workerAmount'', z_optional (z_string isNonNegativeIntegerAmount)),
     (''clientAmount'', z_optional (z_string isNonNegativeIntegerAmount))] body = Some (Some v)"
    by (simp_all add: validateBody_iff resolveDisputeSchema_def z_refine_iff nonNegativeIntegerString_def z_enum_def)
  have t: "str_at ''resolutionType'' v \<in> {''release'', ''refund'', ''split''}"
    "member ''resolutionType'' (Some v) = Some (JStr (str_at ''resolutionType'' v))"
    using parsed_string [OF o, of "''resolutionType''" "\<lambda>s. s \<in> set [''release'', ''refund'', ''split'']"] by simp_all
  have m: "member k (Some v) = map_option JStr (str_opt k v) \<and> (\<forall>s. str_opt k v = Some s \<longrightarrow> isNonNegativeIntegerAmount s)"
    if "k \<in> {''workerAmount'', ''clientAmount''}" for k
    using that parsed_optional [OF o, of k isNonNegativeIntegerAmount] by auto
  note amounts = m [of "''workerAmount''"] m [of "''clientAmount''"]
  show "rdi_resolutionType (resolve_input v) = DR_split \<Longrightarrow> \<exists>a b. rdi_workerAmount (resolve_input v) = Some a
      \<and> rdi_clientAmount (resolve_input v) = Some b \<and> isNonNegativeIntegerAmount a \<and> isNonNegativeIntegerAmount b"
    using e t amounts by (auto simp: split_amounts_def resolve_input_def resolution_of_def split: if_splits)
  show "rdi_resolutionType (resolve_input v) \<noteq> DR_split \<Longrightarrow>
      rdi_workerAmount (resolve_input v) = None \<and> rdi_clientAmount (resolve_input v) = None"
    using e t amounts by (auto simp: split_amounts_def resolve_input_def resolution_of_def split: if_splits)
qed

end
