(* ===== verification/RateLimits.thy ===== *)
theory RateLimits
  imports Errors "HOL-Library.Finite_Map"
begin

text \<open>
  The fixed-window rate limits of \<open>server/src/common/rate-limit/infrastructure-rate-limit.ts\<close>: the
  buckets in memory, the Redis script, the fallback between them and the middleware. A bucket store is
  an interface (the locale \<open>bucket_store\<close>): both stores implement it, and the bound on the requests
  that pass in any interval of one window is proved of the interface. Keys are hashed by a parameter.
\<close>

section \<open>Buckets\<close>

record bucket =
  bk_count :: nat
  bk_resetAt :: int

type_synonym buckets = "(string, bucket) fmap"

definition dropExpired :: "int \<Rightarrow> buckets \<Rightarrow> buckets" where
  "dropExpired time bs =
     fmfilter (\<lambda>key. case fmlookup bs key of None \<Rightarrow> True | Some b \<Rightarrow> \<not> bk_resetAt b \<le> time) bs"

text \<open>\<open>consumeMemory\<close>, with the removal of expired entries from a big map.\<close>

definition consumeMemory :: "int \<Rightarrow> string \<Rightarrow> int \<Rightarrow> buckets \<Rightarrow> bucket \<times> buckets" where
  "consumeMemory time key windowMs memoryBuckets =
     (let existing = fmlookup memoryBuckets key;
          fresh = \<lparr>bk_count = 1, bk_resetAt = time + windowMs\<rparr>;
          bucket = (case existing of
              None \<Rightarrow> fresh
            | Some b \<Rightarrow> if bk_resetAt b \<le> time then fresh
                else \<lparr>bk_count = bk_count b + 1, bk_resetAt = bk_resetAt b\<rparr>);
          stored = fmupd key bucket memoryBuckets
      in (bucket, if size stored > 10000 then dropExpired time stored else stored))"

text \<open>
  The Redis script of \<open>consumeRedis\<close>: a counter with an expiry. An expired key does not exist; \<open>INCR\<close>
  keeps the expiry; \<open>PTTL\<close> is what is left of it.
\<close>

definition consumeRedis :: "int \<Rightarrow> string \<Rightarrow> int \<Rightarrow> buckets \<Rightarrow> bucket \<times> buckets" where
  "consumeRedis time key windowMs redis =
     (let live = (case fmlookup redis key of None \<Rightarrow> None | Some e \<Rightarrow> if bk_resetAt e \<le> time then None else Some e);
          count = (case live of None \<Rightarrow> 1 | Some e \<Rightarrow> bk_count e + 1);
          expiry = (if count = 1 then time + windowMs else case live of None \<Rightarrow> time | Some e \<Rightarrow> bk_resetAt e);
          pttl = expiry - time
      in (\<lparr>bk_count = count, bk_resetAt = time + max 1 pttl\<rparr>,
          fmupd key \<lparr>bk_count = count, bk_resetAt = expiry\<rparr> redis))"

record limiter =
  lm_memory :: buckets
  lm_redis :: buckets

record limiter_config =
  lc_redisUrl :: bool
  lc_rateLimitFailClosed :: bool

text \<open>\<open>up\<close> says whether Redis answers this call; \<open>None\<close> is the error \<open>consume\<close> throws.\<close>

definition consume :: "limiter_config \<Rightarrow> bool \<Rightarrow> int \<Rightarrow> string \<Rightarrow> int \<Rightarrow> limiter \<Rightarrow> bucket option \<times> limiter" where
  "consume cfg up time key windowMs l =
     (let mem = (case consumeMemory time key windowMs (lm_memory l) of (b, m) \<Rightarrow> (Some b, l\<lparr>lm_memory := m\<rparr>)) in
      if \<not> lc_redisUrl cfg then mem
      else if up then (case consumeRedis time key windowMs (lm_redis l) of (b, m) \<Rightarrow> (Some b, l\<lparr>lm_redis := m\<rparr>))
      else if lc_rateLimitFailClosed cfg then (None, l)
      else mem)"

section \<open>The middleware\<close>

record limit_options =
  lo_namespace :: string
  lo_windowMs :: int
  lo_max :: nat

record limit_headers =
  lh_limit :: nat
  lh_remaining :: nat
  lh_reset :: int
  lh_retryAfter :: "int option"

definition ceil_seconds :: "int \<Rightarrow> int" where
  "ceil_seconds ms = - ((- ms) div 1000)"

definition storageKey :: "(string \<Rightarrow> string) \<Rightarrow> string \<Rightarrow> string \<Rightarrow> string" where
  "storageKey sha namespace rawKey = ''pactagent:rate-limit:'' @ namespace @ '':'' @ sha rawKey"

definition bucketHeaders :: "limit_options \<Rightarrow> int \<Rightarrow> bucket \<Rightarrow> limit_headers" where
  "bucketHeaders opts time b =
     \<lparr>lh_limit = lo_max opts, lh_remaining = lo_max opts - bk_count b, lh_reset = ceil_seconds (bk_resetAt b),
      lh_retryAfter = (if bk_count b > lo_max opts then Some (max 1 (ceil_seconds (bk_resetAt b - time))) else None)\<rparr>"

text \<open>\<open>rawKey\<close> is what \<open>options.key\<close> gives for the request; an empty key is not limited.\<close>

definition infrastructureRateLimit ::
  "(string \<Rightarrow> string) \<Rightarrow> limiter_config \<Rightarrow> limit_options \<Rightarrow> bool \<Rightarrow> int \<Rightarrow> string option \<Rightarrow> limiter
     \<Rightarrow> (error + limit_headers option) \<times> limiter" where
  "infrastructureRateLimit sha cfg opts up time rawKey l = (case rawKey of
       None \<Rightarrow> (Inr None, l)
     | Some k \<Rightarrow>
         if k = [] then (Inr None, l)
         else case consume cfg up time (storageKey sha (lo_namespace opts) k) (lo_windowMs opts) l of
             (None, l') \<Rightarrow> (if lc_rateLimitFailClosed cfg then Inl rateLimitError else Inr None, l')
           | (Some b, l') \<Rightarrow>
               (if bk_count b > lo_max opts then Inl rateLimitError
                else Inr (Some (bucketHeaders opts time b)), l'))"

section \<open>A bucket store\<close>

text \<open>The request of a trace: when and for which key. A request passes when its bucket is within the limit.\<close>

fun passes :: "(int \<Rightarrow> string \<Rightarrow> int \<Rightarrow> 's \<Rightarrow> bucket \<times> 's) \<Rightarrow> nat \<Rightarrow> int \<Rightarrow> (int \<times> string) list \<Rightarrow> 's \<Rightarrow> (int \<times> string) list" where
  "passes take_one limit windowMs [] s = []"
| "passes take_one limit windowMs ((time, key) # rs) s =
     (case take_one time key windowMs s of (b, s') \<Rightarrow>
        (if bk_count b \<le> limit then [(time, key)] else []) @ passes take_one limit windowMs rs s')"

locale bucket_store =
  fixes take_one :: "int \<Rightarrow> string \<Rightarrow> int \<Rightarrow> 's \<Rightarrow> bucket \<times> 's"
    and live :: "int \<Rightarrow> string \<Rightarrow> 's \<Rightarrow> bucket option"
    and ok :: "'s \<Rightarrow> bool"
    and windowMs :: int
  assumes live_later: "time \<le> later \<Longrightarrow> live later key s =
      (case live time key s of None \<Rightarrow> None | Some b \<Rightarrow> if bk_resetAt b > later then Some b else None)"
    and take_ok: "ok s \<Longrightarrow> take_one time key windowMs s = (b, s') \<Longrightarrow> ok s'"
    and take_bucket: "ok s \<Longrightarrow> take_one time key windowMs s = (b, s') \<Longrightarrow>
      b = (case live time key s of None \<Rightarrow> \<lparr>bk_count = 1, bk_resetAt = time + windowMs\<rparr>
           | Some c \<Rightarrow> \<lparr>bk_count = bk_count c + 1, bk_resetAt = bk_resetAt c\<rparr>)"
    and take_live: "ok s \<Longrightarrow> take_one time key windowMs s = (b, s') \<Longrightarrow>
      live time key s' = (if bk_resetAt b > time then Some b else None)"
    and take_other: "ok s \<Longrightarrow> take_one time key windowMs s = (b, s') \<Longrightarrow> other \<noteq> key \<Longrightarrow> live time other s' = live time other s"
begin

text \<open>How many requests of a trace are for a key.\<close>

abbreviation of_key :: "string \<Rightarrow> (int \<times> string) list \<Rightarrow> nat" where
  "of_key key rs \<equiv> length (filter (\<lambda>r. snd r = key) rs)"

lemma live_Some_later:
  assumes "live time key s = Some b" and "bk_resetAt b > later" and "time \<le> later"
  shows "live later key s = Some b"
  unfolding live_later [OF assms(3)] using assms(1,2) by simp

text \<open>While a bucket that outlasts the trace is open, at most its rest passes.\<close>

lemma passes_open:
  assumes "ok s" and "sorted (map fst rs)" and "\<forall>r\<in>set rs. time \<le> fst r \<and> fst r < bk_resetAt b" and "live time key s = Some b"
  shows "of_key key (passes take_one limit windowMs rs s) \<le> limit - bk_count b"
  using assms
proof (induction rs arbitrary: time s b)
  case Nil
  then show ?case by simp
next
  case (Cons r rs)
  obtain t k where r: "r = (t, k)" by (cases r)
  obtain c s' where c: "take_one t k windowMs s = (c, s')" by (cases "take_one t k windowMs s")
  note c_facts = take_ok [OF Cons.prems(1) c] take_bucket [OF Cons.prems(1) c] take_live [OF Cons.prems(1) c]
    take_other [OF Cons.prems(1) c, of key]
  have l: "live t key s = Some b" using Cons.prems(3) live_Some_later [OF Cons.prems(4), of t] r by auto
  have later: "sorted (map fst rs)" "\<forall>x\<in>set rs. t \<le> fst x" using Cons.prems(2) r by auto
  show ?case
  proof (cases "k = key")
    case True
    with l have b: "c = \<lparr>bk_count = bk_count b + 1, bk_resetAt = bk_resetAt b\<rparr>" using c_facts by simp
    with True Cons.prems(3) r have "live t key s' = Some c" using c_facts by simp
    with later Cons.prems(3) b c_facts(1) have "of_key key (passes take_one limit windowMs rs s') \<le> limit - bk_count c"
      by (intro Cons.IH [of s' t]) auto
    with b c r True show ?thesis by (auto split: if_splits)
  next
    case False
    with l have "live t key s' = Some b" using c_facts by simp
    with later Cons.prems(3) c_facts(1) have "of_key key (passes take_one limit windowMs rs s') \<le> limit - bk_count b"
      by (intro Cons.IH [of s' t]) auto
    with c r False show ?thesis by simp
  qed
qed

text \<open>In an interval of one window at most one new bucket is opened.\<close>

lemma passes_window:
  assumes "ok s" and "sorted (map fst rs)" and "\<forall>r\<in>set rs. time \<le> fst r \<and> fst r < start + windowMs" and "start \<le> time"
  shows "of_key key (passes take_one limit windowMs rs s)
    \<le> (case live time key s of None \<Rightarrow> 0 | Some b \<Rightarrow> limit - bk_count b) + limit"
  using assms
proof (induction rs arbitrary: time s)
  case Nil
  then show ?case by simp
next
  case (Cons r rs)
  obtain t k where r: "r = (t, k)" by (cases r)
  obtain c s' where c: "take_one t k windowMs s = (c, s')" by (cases "take_one t k windowMs s")
  note c_facts = take_ok [OF Cons.prems(1) c] take_bucket [OF Cons.prems(1) c] take_live [OF Cons.prems(1) c]
    take_other [OF Cons.prems(1) c, of key]
  have t: "time \<le> t" "t < start + windowMs" using Cons.prems(3) r by auto
  have later: "sorted (map fst rs)" "\<forall>x\<in>set rs. t \<le> fst x \<and> fst x < start + windowMs"
    using Cons.prems r by auto
  have IH: "of_key key (passes take_one limit windowMs rs s')
      \<le> (case live t key s' of None \<Rightarrow> 0 | Some b \<Rightarrow> limit - bk_count b) + limit"
    using later t Cons.prems(4) c_facts(1) by (intro Cons.IH) auto
  have now: "live t key s = (case live time key s of None \<Rightarrow> None | Some b \<Rightarrow> if bk_resetAt b > t then Some b else None)"
    using t by (intro live_later)
  show ?case
  proof (cases "k = key")
    case False
    with c now IH r show ?thesis using c_facts(4) by (auto split: option.splits if_splits)
  next
    case True
    show ?thesis
    proof (cases "live t key s")
      case None
      with True have b: "c = \<lparr>bk_count = 1, bk_resetAt = t + windowMs\<rparr>" using c_facts by simp
      with True Cons.prems(4) t have "live t key s' = Some c" using c_facts by simp
      with later b t Cons.prems(4) c_facts(1) have "of_key key (passes take_one limit windowMs rs s') \<le> limit - bk_count c"
        by (intro passes_open [of s' _ t]) auto
      with b c r True show ?thesis by (auto split: if_splits)
    next
      case (Some b)
      with now have b0: "live time key s = Some b" by (auto split: option.splits if_splits)
      from Some True have b: "c = \<lparr>bk_count = bk_count b + 1, bk_resetAt = bk_resetAt b\<rparr>" using c_facts by simp
      from Some now have "bk_resetAt b > t" by (auto split: option.splits if_splits)
      with b True have "live t key s' = Some c" using c_facts by simp
      with IH b b0 c r True show ?thesis by (auto split: if_splits)
    qed
  qed
qed

lemma window_bound:
  assumes "ok s" and "sorted (map fst rs)" and "\<forall>r\<in>set rs. start \<le> fst r \<and> fst r < start + windowMs"
  shows "of_key key (passes take_one limit windowMs rs s) \<le> 2 * limit"
  using passes_window [OF assms order_refl, of key limit] by (auto split: option.splits)

end

section \<open>The two stores\<close>

definition live_bucket :: "int \<Rightarrow> string \<Rightarrow> buckets \<Rightarrow> bucket option" where
  "live_bucket time key bs =
     (case fmlookup bs key of None \<Rightarrow> None | Some b \<Rightarrow> if bk_resetAt b > time then Some b else None)"

lemma live_bucket_upd [simp]:
  "live_bucket time key (fmupd k b bs) = (if k = key then (if bk_resetAt b > time then Some b else None)
     else live_bucket time key bs)"
  by (simp add: live_bucket_def)

text \<open>Removing expired entries changes nothing that is live.\<close>

lemma live_bucket_drop [simp]: "live_bucket time key (dropExpired time bs) = live_bucket time key bs"
  by (auto simp: live_bucket_def dropExpired_def split: option.splits)

lemma live_bucket_later: "time \<le> later \<Longrightarrow> live_bucket later key bs =
    (case live_bucket time key bs of None \<Rightarrow> None | Some b \<Rightarrow> if bk_resetAt b > later then Some b else None)"
  by (auto simp: live_bucket_def split: option.splits)

abbreviation counted :: "bucket option \<Rightarrow> int \<Rightarrow> bucket" where
  "counted b reset \<equiv> (case b of None \<Rightarrow> \<lparr>bk_count = 1, bk_resetAt = reset\<rparr>
     | Some c \<Rightarrow> \<lparr>bk_count = bk_count c + 1, bk_resetAt = bk_resetAt c\<rparr>)"

lemma consumeMemory_bucket:
  "consumeMemory time key w bs = (b, bs') \<Longrightarrow> b = counted (live_bucket time key bs) (time + w)"
  by (auto simp: consumeMemory_def Let_def live_bucket_def split: option.splits if_splits)

lemma consumeMemory_live:
  "consumeMemory time key w bs = (b, bs') \<Longrightarrow> live_bucket time other bs' =
     (if key = other then (if bk_resetAt b > time then Some b else None) else live_bucket time other bs)"
  by (auto simp: consumeMemory_def Let_def split: if_splits)

definition counted_once :: "buckets \<Rightarrow> bool" where
  "counted_once bs \<longleftrightarrow> (\<forall>key b. fmlookup bs key = Some b \<longrightarrow> 1 \<le> bk_count b)"

lemma consumeRedis_bucket:
  "0 < w \<Longrightarrow> counted_once bs \<Longrightarrow> consumeRedis time key w bs = (b, bs') \<Longrightarrow>
     b = counted (live_bucket time key bs) (time + w) \<and> bs' = fmupd key b bs"
  by (fastforce simp: consumeRedis_def Let_def live_bucket_def counted_once_def split: option.splits if_splits)

interpretation memoryStore: bucket_store consumeMemory live_bucket "\<lambda>_. True" w for w
proof unfold_locales
qed (simp_all add: live_bucket_later consumeMemory_bucket consumeMemory_live)

text \<open>Redis keeps a key for a positive number of milliseconds.\<close>

interpretation redisStore: bucket_store consumeRedis live_bucket counted_once "max 1 w" for w
proof unfold_locales
  fix s s' :: buckets and time key b other
  assume a: "counted_once s" "consumeRedis time key (max 1 w) s = (b, s')"
  note c = consumeRedis_bucket [OF _ a]
  show "counted_once s'" using c a(1) by (auto simp: counted_once_def split: option.splits)
  show "b = counted (live_bucket time key s) (time + max 1 w)" using c by simp
  show "live_bucket time key s' = (if bk_resetAt b > time then Some b else None)" using c by simp
  show "other \<noteq> key \<Longrightarrow> live_bucket time other s' = live_bucket time other s" using c by simp
qed (rule live_bucket_later)

section \<open>The limit on requests\<close>

text \<open>
  A trace of requests: whether Redis answers, the time, and the key. \<open>admitted\<close> are those the
  middleware lets through.
\<close>

fun admitted ::
  "(string \<Rightarrow> string) \<Rightarrow> limiter_config \<Rightarrow> limit_options \<Rightarrow> (bool \<times> int \<times> string) list \<Rightarrow> limiter \<Rightarrow> (int \<times> string) list" where
  "admitted sha cfg opts [] l = []"
| "admitted sha cfg opts ((up, time, key) # rs) l =
     (case infrastructureRateLimit sha cfg opts up time (Some key) l of (r, l') \<Rightarrow>
        (if isl r then [] else [(time, key)]) @ admitted sha cfg opts rs l')"

abbreviation stored :: "(string \<Rightarrow> string) \<Rightarrow> limit_options \<Rightarrow> int \<times> string \<Rightarrow> int \<times> string" where
  "stored sha opts r \<equiv> (fst r, storageKey sha (lo_namespace opts) (snd r))"

lemma admitted_memory:
  assumes "\<not> lc_redisUrl cfg" and "\<forall>r\<in>set rs. snd (snd r) \<noteq> []"
  shows "map (stored sha opts) (admitted sha cfg opts rs l)
    = passes consumeMemory (lo_max opts) (lo_windowMs opts) (map (stored sha opts \<circ> snd) rs) (lm_memory l)"
  using assms
  by (induction sha cfg opts rs l rule: admitted.induct)
    (auto simp: infrastructureRateLimit_def consume_def Let_def split: prod.splits)

text \<open>With Redis and a closed failure mode the requests Redis does not answer are refused.\<close>

lemma admitted_redis:
  assumes "lc_redisUrl cfg" and "lc_rateLimitFailClosed cfg" and "\<forall>r\<in>set rs. snd (snd r) \<noteq> []"
  shows "map (stored sha opts) (admitted sha cfg opts rs l)
    = passes consumeRedis (lo_max opts) (lo_windowMs opts) (map (stored sha opts \<circ> snd) (filter fst rs)) (lm_redis l)"
  using assms
  by (induction sha cfg opts rs l rule: admitted.induct)
    (auto simp: infrastructureRateLimit_def consume_def Let_def split: prod.splits)

lemma of_stored:
  "length (filter (\<lambda>r. snd r = key) rs)
     \<le> length (filter (\<lambda>r. snd r = storageKey sha (lo_namespace opts) key) (map (stored sha opts) rs))"
  by (induction rs) auto

lemma sorted_filter_map: "sorted (map f rs) \<Longrightarrow> sorted (map f (filter P rs))"
  by (induction rs) auto

lemma admitted_bound:
  assumes "\<not> lc_redisUrl cfg \<or> lc_rateLimitFailClosed cfg" and "counted_once (lm_redis l)" and "0 < lo_windowMs opts"
    and "sorted (map (fst \<circ> snd) rs)"
    and "\<forall>r\<in>set rs. snd (snd r) \<noteq> [] \<and> start \<le> fst (snd r) \<and> fst (snd r) < start + lo_windowMs opts"
  shows "length (filter (\<lambda>r. snd r = key) (admitted sha cfg opts rs l)) \<le> 2 * lo_max opts"
proof -
  let ?k = "storageKey sha (lo_namespace opts) key"
  have k: "\<forall>r\<in>set rs. snd (snd r) \<noteq> []" using assms(5) by blast
  have "length (filter (\<lambda>r. snd r = ?k) (map (stored sha opts) (admitted sha cfg opts rs l))) \<le> 2 * lo_max opts"
  proof (cases "lc_redisUrl cfg")
    case False
    show ?thesis unfolding admitted_memory [OF False k]
      using assms(4,5) by (intro memoryStore.window_bound [where start = start]) (auto simp: comp_def)
  next
    case True
    with assms(1) have f: "lc_rateLimitFailClosed cfg" by simp
    have w: "max 1 (lo_windowMs opts) = lo_windowMs opts" using assms(3) by simp
    show ?thesis unfolding admitted_redis [OF True f k]
      using assms(2,4,5) sorted_filter_map [of "fst \<circ> snd" rs fst]
      by (intro redisStore.window_bound [where start = start and w = "lo_windowMs opts", unfolded w])
        (auto simp: comp_def)
  qed
  with of_stored show ?thesis using order_trans by blast
qed

end
