(* ===== verification/Gateway.thy ===== *)
theory Gateway
  imports Validation RateLimits
begin

text \<open>
  The mutating routes of the application API as \<open>app.ts\<close>, the \<open>*.routes.ts\<close> files and the controllers
  compose them: request identifier, address limit, payload limits, API key with its two limits,
  scope, limit of high-risk actions, validation of the body, service, response. The state is the
  platform and the rate limiter. The lemmas show that the middleware changes no business row and that
  a request that changes the database was admitted by an active key of an active application with
  the scope of the route, and changed rows of that tenant only.
\<close>

section \<open>HTTP requests and routes\<close>

text \<open>\<open>hq_headers\<close> looks a header up by its lower-case name; \<open>hq_uuid\<close> is the UUID drawn, without hyphens.\<close>

record http_request =
  hq_headers :: "string \<Rightarrow> string option"
  hq_contentLength :: "nat option"
  hq_originalUrl :: string
  hq_body :: "json option"
  hq_ip :: "string option"
  hq_remoteAddress :: "string option"
  hq_uuid :: string

datatype route =
    PostAgreement
  | PostMilestone string
  | PostAccept string
  | PostFundingRequired string
  | PostCancel string
  | PostProof
  | PostReview string
  | PostDispute
  | PostResolve string
  | PostEscrow
  | PostMarkFunded string
  | PostRelease string
  | PostRefund string
  | PostEndpoint
  | PatchEndpoint string
  | DeleteEndpoint string
  | PostRetry string

fun route_method :: "route \<Rightarrow> string" where
  "route_method (PatchEndpoint _) = ''PATCH''"
| "route_method (DeleteEndpoint _) = ''DELETE''"
| "route_method _ = ''POST''"

text \<open>The scope, the high-risk limit and the schema each route file puts before its controller.\<close>

fun agreement_scope_of :: "route \<Rightarrow> string option" where
  "agreement_scope_of PostAgreement = Some ''agreements:create''"
| "agreement_scope_of (PostMilestone _) = Some ''milestones:create''"
| "agreement_scope_of (PostAccept _) = Some ''agreements:update''"
| "agreement_scope_of (PostFundingRequired _) = Some ''agreements:update''"
| "agreement_scope_of (PostCancel _) = Some ''agreements:cancel''"
| "agreement_scope_of _ = None"

fun proof_scope_of :: "route \<Rightarrow> string option" where
  "proof_scope_of PostProof = Some ''proofs:create''"
| "proof_scope_of (PostReview _) = Some ''proofs:review''"
| "proof_scope_of _ = None"

fun dispute_scope_of :: "route \<Rightarrow> string option" where
  "dispute_scope_of PostDispute = Some ''disputes:create''"
| "dispute_scope_of (PostResolve _) = Some ''disputes:resolve''"
| "dispute_scope_of _ = None"

fun escrow_scope_of :: "route \<Rightarrow> string option" where
  "escrow_scope_of PostEscrow = Some ''escrows:create''"
| "escrow_scope_of (PostMarkFunded _) = Some ''escrows:fund''"
| "escrow_scope_of (PostRelease _) = Some ''escrows:release''"
| "escrow_scope_of (PostRefund _) = Some ''escrows:refund''"
| "escrow_scope_of _ = None"

fun webhook_scope_of :: "route \<Rightarrow> string option" where
  "webhook_scope_of PostEndpoint = Some ''webhooks:manage''"
| "webhook_scope_of (PatchEndpoint _) = Some ''webhooks:manage''"
| "webhook_scope_of (DeleteEndpoint _) = Some ''webhooks:manage''"
| "webhook_scope_of (PostRetry _) = Some ''webhooks:manage''"
| "webhook_scope_of _ = None"

definition route_scope :: "route \<Rightarrow> string" where
  "route_scope rt = hd (List.map_filter (\<lambda>f. f rt)
     [agreement_scope_of, proof_scope_of, dispute_scope_of, escrow_scope_of, webhook_scope_of])"

fun high_risk :: "route \<Rightarrow> bool" where
  "high_risk (PostMarkFunded _) = True"
| "high_risk (PostRelease _) = True"
| "high_risk (PostRefund _) = True"
| "high_risk PostEndpoint = True"
| "high_risk (PostRetry _) = True"
| "high_risk _ = False"

fun route_schema :: "formats \<Rightarrow> route \<Rightarrow> schema option" where
  "route_schema F PostAgreement = Some (createAgreementSchema F)"
| "route_schema F (PostMilestone _) = Some (createMilestoneSchema F)"
| "route_schema F PostProof = Some (createProofSchema F)"
| "route_schema F (PostReview _) = Some reviewProofSchema"
| "route_schema F PostDispute = Some (createDisputeSchema F)"
| "route_schema F (PostResolve _) = Some resolveDisputeSchema"
| "route_schema F PostEscrow = Some (createEscrowSchema F)"
| "route_schema F (PostMarkFunded _) = Some markFundedSchema"
| "route_schema F (PostRelease _) = Some emptyActionSchema"
| "route_schema F (PostRefund _) = Some emptyActionSchema"
| "route_schema F PostEndpoint = Some (createWebhookEndpointSchema F)"
| "route_schema F (PatchEndpoint _) = Some (updateWebhookEndpointSchema F)"
| "route_schema F _ = None"

text \<open>The payload limits mounted on the path of a route, in order: its own prefix, then \<open>/v1\<close>.\<close>

fun prefix_limit :: "route \<Rightarrow> nat option" where
  "prefix_limit PostProof = Some (1024 * 1024)"
| "prefix_limit (PostReview _) = Some (1024 * 1024)"
| "prefix_limit PostDispute = Some (256 * 1024)"
| "prefix_limit (PostResolve _) = Some (256 * 1024)"
| "prefix_limit PostEscrow = Some (64 * 1024)"
| "prefix_limit (PostMarkFunded _) = Some (64 * 1024)"
| "prefix_limit (PostRelease _) = Some (64 * 1024)"
| "prefix_limit (PostRefund _) = Some (64 * 1024)"
| "prefix_limit PostEndpoint = Some (64 * 1024)"
| "prefix_limit (PatchEndpoint _) = Some (64 * 1024)"
| "prefix_limit (DeleteEndpoint _) = Some (64 * 1024)"
| "prefix_limit (PostRetry _) = None"
| "prefix_limit _ = Some (256 * 1024)"

definition payload_limits :: "route \<Rightarrow> nat list" where
  "payload_limits rt = (case prefix_limit rt of None \<Rightarrow> [] | Some n \<Rightarrow> [n]) @ [256 * 1024]"

section \<open>Middleware\<close>

record gateway =
  gw_platform :: platform
  gw_limiter :: limiter

type_synonym 'a gwproc = "(gateway, error, 'a) proc"

definition on_platform :: "'a plproc \<Rightarrow> 'a gwproc" where
  "on_platform m = (\<lambda>g. case m (gw_platform g) of (r, p) \<Rightarrow> (r, g\<lparr>gw_platform := p\<rparr>))"

definition on_tenants :: "'a dbproc \<Rightarrow> 'a gwproc" where
  "on_tenants m = (\<lambda>g. case m (pl_db (gw_platform g)) of
     (r, s) \<Rightarrow> (r, g\<lparr>gw_platform := (gw_platform g)\<lparr>pl_db := s\<rparr>\<rparr>))"

text \<open>
  The settings of \<open>config.ts\<close> the limits use; \<open>gc_up\<close> says for which limit Redis answers.
\<close>

record gateway_config =
  gc_limiter :: limiter_config
  gc_up :: "string \<Rightarrow> bool"
  gc_v1IpRateLimitWindowMs :: int
  gc_v1IpRateLimitMax :: nat
  gc_v1ApiKeyRateLimitWindowMs :: int
  gc_v1ApiKeyRateLimitMax :: nat
  gc_v1TenantRateLimitMax :: nat
  gc_actionRateLimitWindowMs :: int
  gc_actionRateLimitMax :: nat

definition rate_limit :: "gateway_config \<Rightarrow> env \<Rightarrow> limit_options \<Rightarrow> string option \<Rightarrow> unit gwproc" where
  "rate_limit C E opts rawKey = (\<lambda>g.
     case infrastructureRateLimit (sha256 E) (gc_limiter C) opts (gc_up C (lo_namespace opts))
       (clock (pl_db (gw_platform g))) rawKey (gw_limiter g) of
       (Inl e, l) \<Rightarrow> (Inl e, g\<lparr>gw_limiter := l\<rparr>)
     | (Inr h, l) \<Rightarrow> (Inr (), g\<lparr>gw_limiter := l\<rparr>))"

text \<open>JavaScript's \<open>a || b\<close> on optional strings.\<close>

definition js_or :: "string option \<Rightarrow> string option \<Rightarrow> string option" where
  "js_or a b = (case a of None \<Rightarrow> b | Some s \<Rightarrow> if s = [] then b else a)"

definition v1IpRateLimit :: "gateway_config \<Rightarrow> env \<Rightarrow> http_request \<Rightarrow> unit gwproc" where
  "v1IpRateLimit C E http = rate_limit C E
     \<lparr>lo_namespace = ''v1:ip'', lo_windowMs = gc_v1IpRateLimitWindowMs C, lo_max = gc_v1IpRateLimitMax C\<rparr>
     (js_or (js_or (hq_ip http) (hq_remoteAddress http)) (Some ''unknown''))"

definition v1ApiKeyRateLimit :: "gateway_config \<Rightarrow> env \<Rightarrow> api_key \<Rightarrow> unit gwproc" where
  "v1ApiKeyRateLimit C E k = rate_limit C E
     \<lparr>lo_namespace = ''v1:api-key'', lo_windowMs = gc_v1ApiKeyRateLimitWindowMs C, lo_max = gc_v1ApiKeyRateLimitMax C\<rparr>
     (Some (ak_id k))"

definition v1TenantRateLimit :: "gateway_config \<Rightarrow> env \<Rightarrow> api_key \<Rightarrow> unit gwproc" where
  "v1TenantRateLimit C E k = rate_limit C E
     \<lparr>lo_namespace = ''v1:tenant'', lo_windowMs = gc_v1ApiKeyRateLimitWindowMs C, lo_max = gc_v1TenantRateLimitMax C\<rparr>
     (Some (ak_appId k))"

definition v1HighRiskActionRateLimit :: "gateway_config \<Rightarrow> env \<Rightarrow> http_request \<Rightarrow> api_key \<Rightarrow> unit gwproc" where
  "v1HighRiskActionRateLimit C E http k = rate_limit C E
     \<lparr>lo_namespace = ''v1:high-risk-action'', lo_windowMs = gc_actionRateLimitWindowMs C, lo_max = gc_actionRateLimitMax C\<rparr>
     (js_or (Some (ak_id k)) (hq_ip http))"

definition payloadTooLarge :: error where
  "payloadTooLarge = App \<lparr>statusCode = 413, errorType = invalid_request_error, code = ''payload_too_large''\<rparr>"

definition payloadLimit :: "nat \<Rightarrow> string \<Rightarrow> http_request \<Rightarrow> error + unit" where
  "payloadLimit maxBytes meth http =
     (if meth \<notin> {''POST'', ''PUT'', ''PATCH''} then Inr ()
      else let declared = (case hq_contentLength http of None \<Rightarrow> 0 | Some n \<Rightarrow> n);
               actual = (case hq_body http of None \<Rightarrow> 0 | Some b \<Rightarrow> byteLength b)
        in if declared > maxBytes \<or> actual > maxBytes then Inl payloadTooLarge else Inr ())"

fun payloadLimits :: "nat list \<Rightarrow> string \<Rightarrow> http_request \<Rightarrow> error + unit" where
  "payloadLimits [] meth http = Inr ()"
| "payloadLimits (n # ns) meth http = res_bind (payloadLimit n meth http) (\<lambda>_. payloadLimits ns meth http)"

definition requestContext :: "http_request \<Rightarrow> string" where
  "requestContext http =
     the (js_or (map_option trim (hq_headers http ''x-request-id'')) (Some (''req_'' @ hq_uuid http)))"

definition extractApiKey :: "http_request \<Rightarrow> string option" where
  "extractApiKey http =
     js_or (map_option trim (hq_headers http ''x-api-key''))
       (case hq_headers http ''authorization'' of
          None \<Rightarrow> None
        | Some authorization \<Rightarrow>
            if take 7 authorization = ''Bearer '' then
              (let token = trim (drop 7 authorization) in
               if take 8 token = ''pa_test_'' \<or> take 8 token = ''pa_live_'' then Some token else None)
            else None)"

definition requireApiKey :: "gateway_config \<Rightarrow> env \<Rightarrow> http_request \<Rightarrow> (api_key \<times> app_row \<times> string) gwproc" where
  "requireApiKey C E http =
     pr_bind (pr_lift (case extractApiKey http of None \<Rightarrow> Inl authenticationError | Some r \<Rightarrow> Inr r)) (\<lambda>rawKey.
     pr_bind (on_platform (authenticateApiKey E rawKey)) (\<lambda>found.
     pr_bind (pr_lift (case found of None \<Rightarrow> Inl authenticationError | Some ka \<Rightarrow> Inr ka)) (\<lambda>ka.
     pr_bind (pr_lift (tenantContext (ak_appId (fst ka)))) (\<lambda>tenant.
     pr_bind (v1ApiKeyRateLimit C E (fst ka)) (\<lambda>_.
     pr_bind (v1TenantRateLimit C E (fst ka)) (\<lambda>_.
     pr_return (fst ka, snd ka, tenant)))))))"

text \<open>What runs before the controller of a route.\<close>

definition admit ::
  "gateway_config \<Rightarrow> env \<Rightarrow> formats \<Rightarrow> http_request \<Rightarrow> route \<Rightarrow> (api_key \<times> app_row \<times> string \<times> json option) gwproc" where
  "admit C E F http rt =
     pr_bind (v1IpRateLimit C E http) (\<lambda>_.
     pr_bind (pr_lift (payloadLimits (payload_limits rt) (route_method rt) http)) (\<lambda>_.
     pr_bind (requireApiKey C E http) (\<lambda>(k, app, tenant).
     pr_bind (pr_lift (requireScope (route_scope rt) (Some k))) (\<lambda>_.
     pr_bind (if high_risk rt then v1HighRiskActionRateLimit C E http k else pr_return ()) (\<lambda>_.
     pr_bind (pr_lift (case route_schema F rt of
         None \<Rightarrow> Inr (hq_body http)
       | Some sch \<Rightarrow> (case validateBody sch (hq_body http) of Inl e \<Rightarrow> Inl e | Inr v \<Rightarrow> Inr (Some v)))) (\<lambda>body.
     pr_return (k, app, tenant, body)))))))"

section \<open>Controllers\<close>

definition service_request :: "http_request \<Rightarrow> route \<Rightarrow> api_key \<Rightarrow> json option \<Rightarrow> request" where
  "service_request http rt k body =
     \<lparr>rq_idempotencyKey = hq_headers http ''idempotency-key'', rq_method = route_method rt,
      rq_originalUrl = hq_originalUrl http, rq_body = body, rq_requestId = requestContext http,
      rq_apiKeyId = Some (ak_id k), rq_ip = hq_ip http, rq_userAgent = hq_headers http ''user-agent''\<rparr>"

text \<open>The body of a route with a schema is present after validation.\<close>

fun route_command :: "formats \<Rightarrow> route \<Rightarrow> json \<Rightarrow> command option" where
  "route_command F PostAgreement v = Some (Mutate (CreateAgreement (agreement_input v)))"
| "route_command F (PostMilestone i) v = Some (Mutate (CreateMilestone i (milestone_input F v)))"
| "route_command F (PostAccept i) v = Some (Mutate (AcceptAgreement i))"
| "route_command F (PostFundingRequired i) v = Some (Mutate (TransitionAgreement i AS_funding_required))"
| "route_command F (PostCancel i) v = Some (Mutate (TransitionAgreement i AS_cancelled))"
| "route_command F PostProof v = Some (Mutate (CreateProof (proof_input v)))"
| "route_command F (PostReview i) v = Some (Mutate (ReviewProof i (review_body v)))"
| "route_command F PostDispute v = Some (Mutate (CreateDispute (dispute_input v)))"
| "route_command F (PostResolve i) v = Some (Mutate (ResolveDispute i (resolve_input v)))"
| "route_command F PostEscrow v = Some (CreateEscrow (escrow_input v))"
| "route_command F (PostMarkFunded i) v = Some (MarkEscrowFunded i (str_opt ''txHash'' v))"
| "route_command F (PostRelease i) v = Some (ReleaseEscrow i)"
| "route_command F (PostRefund i) v = Some (RefundEscrow i)"
| "route_command F _ v = None"

text \<open>Identifiers of applications have no blanks, so that \<open>app.id\<close> is the identifier of the tenant.\<close>

fun webhook_controller ::
  "env \<Rightarrow> webhook_services \<Rightarrow> request \<Rightarrow> app_row \<Rightarrow> string \<Rightarrow> route \<Rightarrow> json \<Rightarrow> json dbproc" where
  "webhook_controller E S req app tenant PostEndpoint v =
     createWebhookEndpointForApp E S req tenant (ap_environment app) (endpoint_input v)"
| "webhook_controller E S req app tenant (PatchEndpoint i) v =
     updateWebhookEndpointForApp E S req tenant (ap_environment app) i (endpoint_update v)"
| "webhook_controller E S req app tenant (DeleteEndpoint i) v = deleteWebhookEndpointForApp E req tenant i"
| "webhook_controller E S req app tenant (PostRetry i) v = retryWebhookDeliveryForApp E req tenant i"
| "webhook_controller E S req app tenant _ v = pr_throw (notFound ''route_not_found'')"

definition controller ::
  "env \<Rightarrow> ckb_services \<Rightarrow> webhook_services \<Rightarrow> formats \<Rightarrow> request \<Rightarrow> app_row \<Rightarrow> string \<Rightarrow> route \<Rightarrow> json \<Rightarrow> json dbproc" where
  "controller E K S F req app tenant rt v = (case route_command F rt v of
       Some c \<Rightarrow> handle E K req tenant c
     | None \<Rightarrow> webhook_controller E S req app tenant rt v)"

fun success_status :: "route \<Rightarrow> nat" where
  "success_status PostAgreement = 201"
| "success_status (PostMilestone _) = 201"
| "success_status PostProof = 201"
| "success_status PostDispute = 201"
| "success_status PostEscrow = 201"
| "success_status PostEndpoint = 201"
| "success_status _ = 200"

fun error_type_name :: "ApiErrorType \<Rightarrow> string" where
  "error_type_name authentication_error = ''authentication_error''"
| "error_type_name permission_error = ''permission_error''"
| "error_type_name invalid_request_error = ''invalid_request_error''"
| "error_type_name not_found_error = ''not_found_error''"
| "error_type_name conflict_error = ''conflict_error''"
| "error_type_name rate_limit_error = ''rate_limit_error''"
| "error_type_name internal_error = ''internal_error''"

text \<open>\<open>errorHandler\<close> and \<open>sendSuccess\<close>; the message of an error is not kept.\<close>

definition errorHandler :: "string \<Rightarrow> error \<Rightarrow> nat \<times> json" where
  "errorHandler requestId e = (let n = normalizeError e in
     (statusCode n, JObj [(''error'', JObj [(''type'', JStr (error_type_name (errorType n))),
        (''code'', JStr (code n)), (''requestId'', JStr requestId)])]))"

definition sendSuccess :: "string \<Rightarrow> json \<Rightarrow> nat \<Rightarrow> nat \<times> json" where
  "sendSuccess requestId v st = (st, JObj [(''data'', v), (''requestId'', JStr requestId)])"

definition serve ::
  "gateway_config \<Rightarrow> env \<Rightarrow> ckb_services \<Rightarrow> webhook_services \<Rightarrow> formats \<Rightarrow> http_request \<Rightarrow> route \<Rightarrow> gateway
     \<Rightarrow> (nat \<times> json) \<times> gateway" where
  "serve C E K S F http rt g =
     (case pr_bind (admit C E F http rt) (\<lambda>(k, app, tenant, body).
         on_tenants (controller E K S F (service_request http rt k body) app tenant rt
           (case body of None \<Rightarrow> JNull | Some v \<Rightarrow> v))) g of
       (Inl e, h) \<Rightarrow> (errorHandler (requestContext http) e, h)
     | (Inr v, h) \<Rightarrow> (sendSuccess (requestContext http) v (success_status rt), h))"

section \<open>The middleware changes no business row\<close>

definition key_core :: "api_key \<Rightarrow> api_key" where
  "key_core k = k\<lparr>ak_lastUsedAt := None\<rparr>"

definition quiet :: "gateway \<Rightarrow> gateway \<Rightarrow> bool" where
  "quiet g h \<longleftrightarrow> pl_db (gw_platform h) = pl_db (gw_platform g) \<and> pl_apps (gw_platform h) = pl_apps (gw_platform g)
     \<and> map key_core (pl_apiKeys (gw_platform h)) = map key_core (pl_apiKeys (gw_platform g))"

interpretation quietOrder: step_order quiet
  by unfold_locales (simp_all add: quiet_def)

lemma rate_limit_platform: "gw_platform (snd (rate_limit C E opts key g)) = gw_platform g"
  by (simp add: rate_limit_def split: prod.split sum.split)

lemma rate_limit_quiet: "quietOrder.presp (rate_limit C E opts key)"
  by (simp add: quietOrder.presp_def quiet_def rate_limit_platform)

lemma limits_quiet:
  "quietOrder.presp (v1IpRateLimit C E http)" "quietOrder.presp (v1ApiKeyRateLimit C E k)"
  "quietOrder.presp (v1TenantRateLimit C E k)" "quietOrder.presp (v1HighRiskActionRateLimit C E http k)"
  unfolding v1IpRateLimit_def v1ApiKeyRateLimit_def v1TenantRateLimit_def v1HighRiskActionRateLimit_def
  by (rule rate_limit_quiet)+

lemma lastUsed_core:
  "map key_core (map (\<lambda>k. if p k then k\<lparr>ak_lastUsedAt := t\<rparr> else k) ks) = map key_core ks"
  by (simp add: key_core_def)

lemma authenticate_quiet: "quietOrder.presp (on_platform (authenticateApiKey E rawKey))"
  by (auto simp: quietOrder.presp_def on_platform_def quiet_def authenticateApiKey_def pr_bind_def atomically_def
      findActiveApiKeyByHash_def tx_gets_def pr_return_def updateApiKeyLastUsedAt_def tx_bind_def updateMany_def
      tx_require_def tx_return_def tx_throw_def key_core_def split: option.splits sum.splits prod.splits)

lemma requireApiKey_quiet: "quietOrder.presp (requireApiKey C E http)"
  unfolding requireApiKey_def by (intro quietOrder.presp_rules limits_quiet authenticate_quiet)

lemma admit_quiet: "quietOrder.presp (admit C E F http rt)"
  unfolding admit_def by (intro quietOrder.presp_rules limits_quiet requireApiKey_quiet)

section \<open>Who is admitted\<close>

lemma pr_bind_Inr:
  "pr_bind m f s = (Inr y, u) \<longleftrightarrow> (\<exists>x t. m s = (Inr x, t) \<and> f x t = (Inr y, u))"
  by (auto simp: pr_bind_def split: prod.splits sum.splits)

lemma pr_lift_Inr: "pr_lift r s = (Inr x, t) \<longleftrightarrow> r = Inr x \<and> t = s"
  by (auto simp: pr_lift_def)

lemma pr_return_Inr: "pr_return y s = (Inr x, t) \<longleftrightarrow> x = y \<and> t = s"
  by (auto simp: pr_return_def)

lemma case_option_Inr:
  "(case v of None \<Rightarrow> Inl e | Some x \<Rightarrow> Inr x) = Inr y \<longleftrightarrow> v = Some y"
  by (cases v) auto

lemma on_platform_Inr:
  "on_platform m g = (Inr x, h) \<longleftrightarrow> (\<exists>p. m (gw_platform g) = (Inr x, p) \<and> h = g\<lparr>gw_platform := p\<rparr>)"
  by (auto simp: on_platform_def split: prod.splits)

lemmas pr_Inr = pr_bind_Inr pr_lift_Inr pr_return_Inr case_option_Inr on_platform_Inr

lemma requireApiKey_admits:
  assumes "requireApiKey C E http g = (Inr (k, app, tenant), h)"
  shows "\<exists>rawKey. extractApiKey http = Some rawKey
    \<and> fst (authenticateApiKey E rawKey (gw_platform g)) = Inr (Some (k, app)) \<and> tenantContext (ak_appId k) = Inr tenant"
  using assms unfolding requireApiKey_def pr_Inr by auto

lemma admit_admits:
  assumes "admit C E F http rt g = (Inr (k, app, tenant, body), h)"
  shows "\<exists>rawKey. extractApiKey http = Some rawKey
    \<and> fst (authenticateApiKey E rawKey (gw_platform g)) = Inr (Some (k, app)) \<and> tenantContext (ak_appId k) = Inr tenant"
    and "route_scope rt \<in> set (ak_scopes k)"
    and "route_schema F rt = Some sch \<Longrightarrow> \<exists>v. body = Some v \<and> validateBody sch (hq_body http) = Inr v"
proof -
  from assms obtain g1 g2 where a: "v1IpRateLimit C E http g = (Inr (), g1)"
    "requireApiKey C E http g1 = (Inr (k, app, tenant), g2)"
    and s: "requireScope (route_scope rt) (Some k) = Inr ()"
    and b: "(case route_schema F rt of None \<Rightarrow> Inr (hq_body http)
       | Some sch \<Rightarrow> (case validateBody sch (hq_body http) of Inl e \<Rightarrow> Inl e | Inr v \<Rightarrow> Inr (Some v))) = Inr body"
    unfolding admit_def pr_Inr by (auto simp: pr_Inr split: prod.splits)
  have "gw_platform g1 = gw_platform g"
    using rate_limit_platform a(1) unfolding v1IpRateLimit_def by (metis snd_conv)
  with requireApiKey_admits [OF a(2)] show "\<exists>rawKey. extractApiKey http = Some rawKey
    \<and> fst (authenticateApiKey E rawKey (gw_platform g)) = Inr (Some (k, app)) \<and> tenantContext (ak_appId k) = Inr tenant"
    by simp
  show "route_scope rt \<in> set (ak_scopes k)" using s by (simp add: requireScope_def tx_iff)
  show "\<exists>v. body = Some v \<and> validateBody sch (hq_body http) = Inr v" if "route_schema F rt = Some sch"
    using b that by (auto split: sum.splits)
qed

section \<open>What a request changes\<close>

lemma tenant_endpoint: "we_appId w = a \<Longrightarrow> tenantFrame.resp a (insertRow endpoints endpoints_update c w)"
  by (auto intro!: tenantFrame.resp_insert simp: foreign_same_def)

lemma webhook_tenant:
  "tenantFrame.resp a (createWebhookEndpoint E a input u h c)"
  "tenantFrame.resp a (updateWebhookEndpointRow a i uinput v)" "tenantFrame.resp a (deleteWebhookEndpointRow a i)"
  "tenantFrame.resp a (auditWebhook E req a action ty i b k)" "tenantFrame.resp a (retryDelivery_run E req a i d)"
  unfolding createWebhookEndpoint_def updateWebhookEndpointRow_def deleteWebhookEndpointRow_def updateEndpoint_def
    auditWebhook_def retryDelivery_run_def markWebhookDeliveryForRetry_def enqueueWebhookDeliveryJob_def Let_def
  by (intro tenant_rules tenantFrame.resp_rules tenant_endpoint tenant_update enqueueJob_tenant;
      auto simp: endpoint_is_def delivery_is_def)+

lemma endpoint_reads_tenant:
  "tenantFrame.resp a (findWebhookEndpointForApp b i)" "tenantFrame.resp a (findWebhookDeliveryForApp b i)"
  unfolding findWebhookEndpointForApp_def findWebhookDeliveryForApp_def by (intro tenant_base)+

lemma endpoint_handlers_tenant:
  "tenantFrame.presp a (createWebhookEndpointForApp E S req a environment input)"
  "tenantFrame.presp a (updateWebhookEndpointForApp E S req a environment i uinput)"
  "tenantFrame.presp a (deleteWebhookEndpointForApp E req a i)"
  "tenantFrame.presp a (retryWebhookDeliveryForApp E req a i)"
  unfolding createWebhookEndpointForApp_def updateWebhookEndpointForApp_def deleteWebhookEndpointForApp_def
    retryWebhookDeliveryForApp_def Let_def
  by (intro tenantFrame.presp_rules tenantFrame.resp_rules webhook_tenant endpoint_reads_tenant)+

lemma controller_tenant: "tenantFrame.presp tenant (controller E K S F req app tenant rt v)"
proof (cases "route_command F rt v")
  case None
  then show ?thesis
    by (cases rt) (simp_all add: controller_def endpoint_handlers_tenant)
next
  case (Some c)
  then show ?thesis by (simp add: controller_def tenantFrame.presp_def tenantTx.handler_respects)
qed

lemma serve_cases:
  obtains (refused) e h where "admit C E F http rt g = (Inl e, h)"
      "serve C E K S F http rt g = (errorHandler (requestContext http) e, h)"
  | (admitted) k app tenant body h where "admit C E F http rt g = (Inr (k, app, tenant, body), h)"
      "snd (serve C E K S F http rt g) = snd (on_tenants (controller E K S F (service_request http rt k body) app tenant rt
           (case body of None \<Rightarrow> JNull | Some v \<Rightarrow> v)) h)"
proof (cases "admit C E F http rt g")
  case (Pair r h)
  then show ?thesis
  proof (cases r)
    case (Inl e)
    with Pair show ?thesis by (intro refused [of e h]) (simp_all add: serve_def pr_bind_def)
  next
    case (Inr x)
    obtain k app tenant body where x: "x = (k, app, tenant, body)" by (metis prod.exhaust)
    with Pair Inr show ?thesis
      by (intro admitted [of k app tenant body h]) (simp_all add: serve_def pr_bind_def split: prod.splits sum.splits)
  qed
qed

lemma serve_access:
  assumes "accounts_inv (gw_platform g)" and "pl_db (gw_platform (snd (serve C E K S F http rt g))) \<noteq> pl_db (gw_platform g)"
  shows "\<exists>rawKey k app tenant. extractApiKey http = Some rawKey \<and> k \<in> set (pl_apiKeys (gw_platform g))
    \<and> ak_keyHash k = hashApiKey E rawKey \<and> ak_status k = KeyActive
    \<and> app \<in> set (pl_apps (gw_platform g)) \<and> ap_id app = ak_appId k \<and> ap_status app = AppActive
    \<and> route_scope rt \<in> set (ak_scopes k) \<and> tenantContext (ak_appId k) = Inr tenant
    \<and> foreign_same tenant (pl_db (gw_platform g)) (pl_db (gw_platform (snd (serve C E K S F http rt g))))"
proof (cases rule: serve_cases [of C E F http rt g K S])
  case (refused e h)
  with admit_quiet [of C E F http rt] have "quiet g h" unfolding quietOrder.presp_def by (metis snd_conv)
  with refused assms(2) show ?thesis by (simp add: quiet_def)
next
  case (admitted k app tenant body h)
  with admit_quiet [of C E F http rt] have "quiet g h" unfolding quietOrder.presp_def by (metis snd_conv)
  then have db: "pl_db (gw_platform h) = pl_db (gw_platform g)" by (simp add: quiet_def)
  let ?m = "controller E K S F (service_request http rt k body) app tenant rt (case body of None \<Rightarrow> JNull | Some v \<Rightarrow> v)"
  have "foreign_same tenant (pl_db (gw_platform g)) (snd (?m (pl_db (gw_platform g))))"
    using controller_tenant unfolding tenantFrame.presp_def by blast
  moreover have "pl_db (gw_platform (snd (serve C E K S F http rt g))) = snd (?m (pl_db (gw_platform g)))"
    unfolding admitted(2) by (simp add: on_tenants_def db split: prod.split)
  ultimately show ?thesis
    using admit_admits(1,2) [OF admitted(1)] unfolding authenticateApiKey_iff [OF assms(1)] by auto
qed

lemma serve_accounts: "pl_apps (gw_platform (snd (serve C E K S F http rt g))) = pl_apps (gw_platform g)
   \<and> map key_core (pl_apiKeys (gw_platform (snd (serve C E K S F http rt g)))) = map key_core (pl_apiKeys (gw_platform g))"
proof (cases rule: serve_cases [of C E F http rt g K S])
  case (refused e h)
  with admit_quiet [of C E F http rt] have "quiet g h" unfolding quietOrder.presp_def by (metis snd_conv)
  with refused show ?thesis by (simp add: quiet_def)
next
  case (admitted k app tenant body h)
  with admit_quiet [of C E F http rt] have "quiet g h" unfolding quietOrder.presp_def by (metis snd_conv)
  then show ?thesis unfolding admitted(2) by (simp add: quiet_def on_tenants_def split: prod.split)
qed

end
