(* ===== verification/Config.thy ===== *)
theory Config
  imports WebhookSigning
begin

text \<open>
  The configuration, \<open>server/src/config.ts\<close>: parsing of environment variables, the bounded settings,
  secrets and keyrings, and the validation every process runs before it starts
  (\<open>validateProductionConfig\<close>, \<open>validateCkbRailConfig\<close>). URL parsing, \<open>Number\<close>, \<open>JSON.parse\<close> and files
  are parameters (\<open>host\<close>). An error carries the name of the setting. The lemmas show that every
  bounded setting is within its bounds whatever the environment holds, and that no process starts
  in a deployed environment, or for the main network, with the CKB rail enabled.
\<close>

section \<open>The host\<close>

type_synonym variables = "string \<Rightarrow> string option"

record url_parts =
  up_protocol :: string
  up_hostname :: string
  up_port :: string
  up_pathname :: string

record host =
  ho_url :: "string \<Rightarrow> url_parts option"
  ho_number :: "string \<Rightarrow> int option"
  ho_readFile :: "string \<Rightarrow> string option"
  ho_parseJson :: "string \<Rightarrow> json option"

section \<open>The environment schema\<close>

record environment =
  en_NODE_ENV :: string
  en_SERVICE_ROLE :: string
  en_PORT :: int
  en_WORKER_HEALTH_PORT :: int
  en_WEBHOOK_EGRESS_PROXY_URL :: "string option"
  en_CKB_NODE_URL :: string
  en_CKB_INDEXER_URL :: "string option"
  en_CKB_NETWORK :: string
  en_DEFAULT_CKB_FEE_RATE :: string

definition env_enum :: "string list \<Rightarrow> string \<Rightarrow> string \<Rightarrow> string option \<Rightarrow> error + string" where
  "env_enum names fallback name v = (case v of
       None \<Rightarrow> Inr fallback
     | Some s \<Rightarrow> if s \<in> set names then Inr s else Inl (JsError name))"

definition env_port :: "host \<Rightarrow> int \<Rightarrow> string \<Rightarrow> string option \<Rightarrow> error + int" where
  "env_port H fallback name v = (case v of
       None \<Rightarrow> Inr fallback
     | Some s \<Rightarrow> (case ho_number H s of
           None \<Rightarrow> Inl (JsError name)
         | Some n \<Rightarrow> if 1 \<le> n \<and> n \<le> 65535 then Inr n else Inl (JsError name)))"

definition optionalUrl :: "host \<Rightarrow> string \<Rightarrow> string option \<Rightarrow> error + string option" where
  "optionalUrl H name v = (case v of
       None \<Rightarrow> Inr None
     | Some s \<Rightarrow> if s = [] then Inr None else if ho_url H s = None then Inl (JsError name) else Inr (Some s))"

definition env_url :: "host \<Rightarrow> string \<Rightarrow> string \<Rightarrow> string option \<Rightarrow> error + string" where
  "env_url H fallback name v = (case v of
       None \<Rightarrow> Inr fallback
     | Some s \<Rightarrow> if ho_url H s = None then Inl (JsError name) else Inr s)"

definition env_feeRate :: "string \<Rightarrow> string \<Rightarrow> string option \<Rightarrow> error + string" where
  "env_feeRate fallback name v = (case v of
       None \<Rightarrow> Inr fallback
     | Some s \<Rightarrow> if isPositiveIntegerAmount s then Inr s else Inl (JsError name))"

definition environmentSchema :: "host \<Rightarrow> variables \<Rightarrow> error + environment" where
  "environmentSchema H env =
     res_bind (env_enum [''development'', ''test'', ''staging'', ''production''] ''development'' ''NODE_ENV'' (env ''NODE_ENV'')) (\<lambda>nodeEnv.
     res_bind (env_enum [''api'', ''worker''] ''api'' ''SERVICE_ROLE'' (env ''SERVICE_ROLE'')) (\<lambda>role.
     res_bind (env_port H 4000 ''PORT'' (env ''PORT'')) (\<lambda>port.
     res_bind (env_port H 4001 ''WORKER_HEALTH_PORT'' (env ''WORKER_HEALTH_PORT'')) (\<lambda>healthPort.
     res_bind (optionalUrl H ''DATABASE_URL'' (env ''DATABASE_URL'')) (\<lambda>_.
     res_bind (optionalUrl H ''DIRECT_URL'' (env ''DIRECT_URL'')) (\<lambda>_.
     res_bind (optionalUrl H ''REDIS_URL'' (env ''REDIS_URL'')) (\<lambda>_.
     res_bind (optionalUrl H ''WEBHOOK_EGRESS_PROXY_URL'' (env ''WEBHOOK_EGRESS_PROXY_URL'')) (\<lambda>proxy.
     res_bind (optionalUrl H ''OTEL_EXPORTER_OTLP_ENDPOINT'' (env ''OTEL_EXPORTER_OTLP_ENDPOINT'')) (\<lambda>_.
     res_bind (env_url H ''https://testnet.ckb.dev/'' ''CKB_NODE_URL'' (env ''CKB_NODE_URL'')) (\<lambda>nodeUrl.
     res_bind (optionalUrl H ''CKB_INDEXER_URL'' (env ''CKB_INDEXER_URL'')) (\<lambda>indexer.
     res_bind (env_enum [''testnet'', ''mainnet''] ''testnet'' ''CKB_NETWORK'' (env ''CKB_NETWORK'')) (\<lambda>network.
     res_bind (env_feeRate ''1200'' ''DEFAULT_CKB_FEE_RATE'' (env ''DEFAULT_CKB_FEE_RATE'')) (\<lambda>feeRate.
     res_bind (case env ''REQUIRE_SETTLEMENT_READY'' of None \<Rightarrow> Inr []
       | Some v \<Rightarrow> env_enum [''true'', ''false''] [] ''REQUIRE_SETTLEMENT_READY'' (Some v)) (\<lambda>_.
     Inr \<lparr>en_NODE_ENV = nodeEnv, en_SERVICE_ROLE = role, en_PORT = port, en_WORKER_HEALTH_PORT = healthPort,
       en_WEBHOOK_EGRESS_PROXY_URL = proxy, en_CKB_NODE_URL = nodeUrl, en_CKB_INDEXER_URL = indexer,
       en_CKB_NETWORK = network, en_DEFAULT_CKB_FEE_RATE = feeRate\<rparr>))))))))))))))"

section \<open>Parsers\<close>

definition isProduction :: "variables \<Rightarrow> bool" where
  "isProduction env \<longleftrightarrow> env ''NODE_ENV'' = Some ''production''"

definition isDeployedEnvironment :: "variables \<Rightarrow> bool" where
  "isDeployedEnvironment env \<longleftrightarrow> env ''NODE_ENV'' = Some ''staging'' \<or> env ''NODE_ENV'' = Some ''production''"

text \<open>\<open>parseInt(value || '', 10)\<close>: blanks, an optional sign, the longest run of digits; \<open>None\<close> is \<open>NaN\<close>.\<close>

definition parseInt :: "string option \<Rightarrow> int option" where
  "parseInt value =
     (let s = dropWhile whitespace (or_else value []);
          neg = (s \<noteq> [] \<and> hd s = CHR ''-'');
          rest = (if s \<noteq> [] \<and> (hd s = CHR ''-'' \<or> hd s = CHR ''+'') then tl s else s);
          digits = takeWhile digit rest
      in if digits = [] then None else Some (if neg then - BigInt digits else BigInt digits))"

definition parseNumber :: "string option \<Rightarrow> int \<Rightarrow> int" where
  "parseNumber value fallback = (case parseInt value of
       None \<Rightarrow> fallback | Some parsed \<Rightarrow> if parsed > 0 then parsed else fallback)"

definition parseNonNegativeNumber :: "string option \<Rightarrow> int \<Rightarrow> int" where
  "parseNonNegativeNumber value fallback = (case parseInt value of
       None \<Rightarrow> fallback | Some parsed \<Rightarrow> if parsed \<ge> 0 then parsed else fallback)"

definition parseBoundedNumber :: "string option \<Rightarrow> int \<Rightarrow> string \<Rightarrow> int \<Rightarrow> int \<Rightarrow> error + int" where
  "parseBoundedNumber value fallback name lo hi =
     (let parsed = parseNumber value fallback in
      if parsed < lo \<or> parsed > hi then Inl (JsError name) else Inr parsed)"

definition parseBoolean :: "string option \<Rightarrow> bool \<Rightarrow> string \<Rightarrow> error + bool" where
  "parseBoolean value fallback name =
     (if value = None \<or> value = Some [] then Inr fallback
      else if value = Some ''true'' then Inr True
      else if value = Some ''false'' then Inr False
      else Inl (JsError name))"

definition parseCsv :: "string option \<Rightarrow> string list" where
  "parseCsv value = (if or_else value [] = [] then []
     else filter (\<lambda>s. s \<noteq> []) (map trim (split_on (CHR '','') (or_else value []))))"

definition parseCorsOrigins :: "host \<Rightarrow> string option \<Rightarrow> error + string list" where
  "parseCorsOrigins H value =
     (if or_else value [] = [] then Inr [''http://localhost:3000'']
      else let origins = parseCsv value in
        if list_all (\<lambda>o'. case ho_url H o' of None \<Rightarrow> False | Some u \<Rightarrow> up_protocol u \<in> {''http:'', ''https:''}) origins
        then Inr origins else Inl (JsError ''CORS_ORIGIN''))"

definition secretValue :: "host \<Rightarrow> variables \<Rightarrow> string \<Rightarrow> error + string" where
  "secretValue H env name =
     (let path = or_else (env (name @ ''_FILE'')) [] in
      if path \<noteq> [] then
        (case ho_readFile H path of None \<Rightarrow> Inl (JsError name) | Some contents \<Rightarrow> Inr (trim contents))
      else Inr (or_else (env name) []))"

text \<open>The entries of the parsed value whose value is a string that is not empty (\<open>Object.entries\<close>).\<close>

definition keyring_entries :: "json \<Rightarrow> (string \<times> string) list" where
  "keyring_entries v = (case v of
       JObj kvs \<Rightarrow> [(k, s). (k, JStr s) \<leftarrow> kvs, k \<noteq> [], s \<noteq> []]
     | JArr xs \<Rightarrow> [(show_nat i, s). (i, JStr s) \<leftarrow> enumerate 0 xs, s \<noteq> []]
     | JStr s \<Rightarrow> [(show_nat i, [ch]). (i, ch) \<leftarrow> enumerate 0 s]
     | _ \<Rightarrow> [])"

definition parseSecretKeyring :: "host \<Rightarrow> variables \<Rightarrow> string \<Rightarrow> error + (string \<times> string) list" where
  "parseSecretKeyring H env name =
     res_bind (secretValue H env name) (\<lambda>raw.
     if raw = [] then Inr []
     else case ho_parseJson H raw of
         None \<Rightarrow> Inl (JsError name)
       | Some JNull \<Rightarrow> Inl (JsError name)
       | Some v \<Rightarrow> Inr (keyring_entries v))"

definition hasWildcardOrigin :: "string \<Rightarrow> bool" where
  "hasWildcardOrigin origin \<longleftrightarrow> origin = ''*'' \<or> CHR ''*'' \<in> set origin"

definition hasLocalhostOrigin :: "host \<Rightarrow> string \<Rightarrow> bool" where
  "hasLocalhostOrigin H origin = (case ho_url H origin of
       None \<Rightarrow> True | Some u \<Rightarrow> up_hostname u \<in> {''localhost'', ''127.0.0.1'', ''0.0.0.0'', ''::1''})"

definition databaseEndpointIdentity :: "host \<Rightarrow> string \<Rightarrow> error + string" where
  "databaseEndpointIdentity H value = (case ho_url H value of
       None \<Rightarrow> Inl (JsError ''Invalid URL'')
     | Some u \<Rightarrow> Inr (up_protocol u @ ''//'' @ up_hostname u @ '':'' @ or_else (Some (up_port u)) ''5432'' @ up_pathname u))"

definition assertDistinctDatabaseEndpoints :: "host \<Rightarrow> string \<Rightarrow> string \<Rightarrow> error + unit" where
  "assertDistinctDatabaseEndpoints H databaseUrl directUrl =
     res_bind (databaseEndpointIdentity H databaseUrl) (\<lambda>a.
     res_bind (databaseEndpointIdentity H directUrl) (\<lambda>b.
     res_require (a \<noteq> b) (JsError ''DATABASE_URL'')))"

definition assertControlledEgressProxy :: "host \<Rightarrow> string \<Rightarrow> error + unit" where
  "assertControlledEgressProxy H proxyUrl =
     res_bind (requireConfig proxyUrl) (\<lambda>_.
     case ho_url H proxyUrl of
       None \<Rightarrow> Inl (JsError ''Invalid URL'')
     | Some u \<Rightarrow> res_require (up_protocol u = ''http:'') (JsError ''WEBHOOK_EGRESS_PROXY_URL''))"

definition requireStrongSecret :: "string \<Rightarrow> string \<Rightarrow> error + unit" where
  "requireStrongSecret value name =
     res_bind (requireConfig value) (\<lambda>_.
     res_bind (res_require (\<not> length value < 32) (JsError name)) (\<lambda>_.
     res_require (toLowerCase value \<notin> {''change-me'', ''changeme'', ''secret'', ''password'', ''development'', ''dev'', ''test''})
       (JsError name)))"

section \<open>The configuration object\<close>

text \<open>The settings read by \<open>parseBoundedNumber\<close>: variable, fallback, least and greatest value.\<close>

definition BOUNDED_SETTINGS :: "(string \<times> int \<times> int \<times> int) list" where
  "BOUNDED_SETTINGS = [
     (''CKB_CONFIRMATIONS'', 4, 1, 10000),
     (''CKB_STALE_TRANSACTION_MS'', 15 * 60000, 60000, 24 * 60 * 60000),
     (''CKB_RECONCILIATION_POLL_MS'', 15000, 5000, 5 * 60000),
     (''SHUTDOWN_TIMEOUT_MS'', 30000, 5000, 120000),
     (''WORKER_HEARTBEAT_STALE_MS'', 30000, 5000, 10 * 60000),
     (''WORKER_CONCURRENCY'', 4, 1, 32),
     (''JOB_LEASE_MS'', 60000, 10000, 15 * 60000),
     (''JOB_TIMEOUT_MS'', 5 * 60000, 5000, 30 * 60000),
     (''AUTH_RATE_LIMIT_WINDOW_MS'', 15 * 60 * 1000, 1000, 24 * 60 * 60 * 1000),
     (''AUTH_RATE_LIMIT_MAX'', 20, 1, 10000),
     (''ACTION_RATE_LIMIT_WINDOW_MS'', 60 * 1000, 1000, 24 * 60 * 60 * 1000),
     (''ACTION_RATE_LIMIT_MAX'', 12, 1, 10000),
     (''V1_IP_RATE_LIMIT_WINDOW_MS'', 60000, 1000, 24 * 60 * 60 * 1000),
     (''V1_IP_RATE_LIMIT_MAX'', 300, 1, 100000),
     (''V1_API_KEY_RATE_LIMIT_WINDOW_MS'', 60000, 1000, 24 * 60 * 60 * 1000),
     (''V1_API_KEY_RATE_LIMIT_MAX'', 600, 1, 100000),
     (''V1_TENANT_RATE_LIMIT_MAX'', 1200, 1, 100000),
     (''DB_TRANSACTION_MAX_WAIT_MS'', 5000, 1000, 60000),
     (''DB_TRANSACTION_TIMEOUT_MS'', 30000, 5000, 120000),
     (''DB_POOL_MAX'', 10, 1, 100),
     (''DB_POOL_IDLE_TIMEOUT_MS'', 30000, 1000, 10 * 60000),
     (''DB_CONNECTION_TIMEOUT_MS'', 10000, 1000, 60000),
     (''DB_STATEMENT_TIMEOUT_MS'', 30000, 1000, 120000),
     (''DB_QUERY_TIMEOUT_MS'', 35000, 1000, 180000),
     (''WEBHOOK_TIMEOUT_MS'', 10000, 1000, 30000),
     (''WEBHOOK_MAX_ATTEMPTS'', 5, 1, 10),
     (''WEBHOOK_MAX_REDIRECTS'', 3, 0, 5),
     (''WEBHOOK_RESPONSE_SNIPPET_BYTES'', 2000, 0, 8192),
     (''IDEMPOTENCY_RETENTION_MS'', 24 * 60 * 60 * 1000, 60000, 7 * 24 * 60 * 60 * 1000),
     (''IDEMPOTENCY_PROCESSING_LEASE_MS'', 2 * 60000, 10000, 30 * 60000),
     (''IDEMPOTENCY_MAX_RESPONSE_BYTES'', 256 * 1024, 1024, 1024 * 1024),
     (''WEBHOOK_RETENTION_DAYS'', 30, 1, 3650),
     (''EVENT_RETENTION_DAYS'', 90, 1, 3650),
     (''JOB_RETENTION_DAYS'', 30, 1, 3650),
     (''AUDIT_ARCHIVE_AFTER_DAYS'', 365, 30, 3650)]"

fun parseBounded :: "variables \<Rightarrow> (string \<times> int \<times> int \<times> int) list \<Rightarrow> error + (string \<times> int) list" where
  "parseBounded env [] = Inr []"
| "parseBounded env ((name, fallback, lo, hi) # rest) =
     res_bind (parseBoundedNumber (env name) fallback name lo hi) (\<lambda>n.
     res_bind (parseBounded env rest) (\<lambda>ns. Inr ((name, n) # ns)))"

record config =
  cf_deployed :: bool
  cf_environment :: environment
  cf_corsOrigins :: "string list"
  cf_allowLocalhostCors :: bool
  cf_ckbRailEnabled :: bool
  cf_ckbMainnetEnabled :: bool
  cf_ckbContractCodeHash :: string
  cf_ckbContractHashType :: string
  cf_ckbContractDeploymentTxHash :: string
  cf_ckbContractOutputIndex :: int
  cf_ckbContractDepType :: string
  cf_ckbSignerMode :: string
  cf_ckbSignerPrivateKey :: string
  cf_agentIntervalMs :: int
  cf_workerQueues :: "string list"
  cf_requireWorkerReady :: bool
  cf_requireSettlementReady :: bool
  cf_metricsBearerToken :: string
  cf_authJwtSecret :: string
  cf_authJwtActiveKid :: string
  cf_authJwtKeys :: "(string \<times> string) list"
  cf_authTokenTtlSecs :: int
  cf_authChallengeTtlSecs :: int
  cf_webhookSecretEncryptionKey :: string
  cf_webhookActiveKeyId :: string
  cf_webhookEncryptionKeys :: "(string \<times> string) list"
  cf_adminAddresses :: "string list"
  cf_trustProxyHops :: int
  cf_redisUrl :: string
  cf_rateLimitFailClosed :: bool
  cf_bounded :: "(string \<times> int) list"

definition setting :: "config \<Rightarrow> string \<Rightarrow> int" where
  "setting c name = (case map_of (cf_bounded c) name of None \<Rightarrow> 0 | Some n \<Rightarrow> n)"

definition loadConfig :: "host \<Rightarrow> variables \<Rightarrow> error + config" where
  "loadConfig H env =
     res_bind (environmentSchema H env) (\<lambda>environment.
     res_bind (parseBoolean (env ''CKB_RAIL_ENABLED'') False ''CKB_RAIL_ENABLED'') (\<lambda>rail.
     res_bind (parseCorsOrigins H (env ''CORS_ORIGIN'')) (\<lambda>cors.
     res_bind (parseBoolean (env ''CKB_MAINNET_ENABLED'') False ''CKB_MAINNET_ENABLED'') (\<lambda>mainnet.
     res_bind (parseBounded env BOUNDED_SETTINGS) (\<lambda>bounded.
     res_bind (secretValue H env ''CKB_SIGNER_PRIVATE_KEY'') (\<lambda>signerKey.
     res_bind (parseBoolean (env ''REQUIRE_WORKER_READY'') (isDeployedEnvironment env) ''REQUIRE_WORKER_READY'') (\<lambda>workerReady.
     res_bind (parseBoolean (env ''REQUIRE_SETTLEMENT_READY'') (rail \<and> isDeployedEnvironment env) ''REQUIRE_SETTLEMENT_READY'') (\<lambda>settlementReady.
     res_bind (secretValue H env ''METRICS_BEARER_TOKEN'') (\<lambda>metricsToken.
     res_bind (secretValue H env ''AUTH_JWT_SECRET'') (\<lambda>jwtSecret.
     res_bind (parseSecretKeyring H env ''AUTH_JWT_KEYRING'') (\<lambda>jwtKeys.
     res_bind (secretValue H env ''WEBHOOK_SECRET_ENCRYPTION_KEY'') (\<lambda>webhookSecret.
     res_bind (parseSecretKeyring H env ''WEBHOOK_ENCRYPTION_KEYRING'') (\<lambda>webhookKeys.
     res_bind (secretValue H env ''REDIS_URL'') (\<lambda>redisUrl.
     res_bind (parseBoolean (env ''RATE_LIMIT_FAIL_CLOSED'') (isDeployedEnvironment env) ''RATE_LIMIT_FAIL_CLOSED'') (\<lambda>failClosed.
     Inr \<lparr>cf_deployed = isDeployedEnvironment env, cf_environment = environment, cf_corsOrigins = cors,
       cf_allowLocalhostCors = (\<not> isProduction env), cf_ckbRailEnabled = rail, cf_ckbMainnetEnabled = mainnet,
       cf_ckbContractCodeHash = or_else (env ''CKB_CONTRACT_CODE_HASH'') [],
       cf_ckbContractHashType = or_else (env ''CKB_CONTRACT_HASH_TYPE'') [],
       cf_ckbContractDeploymentTxHash = or_else (env ''CKB_CONTRACT_DEPLOYMENT_TX_HASH'') [],
       cf_ckbContractOutputIndex = parseNonNegativeNumber (env ''CKB_CONTRACT_OUTPUT_INDEX'') 0,
       cf_ckbContractDepType = or_else (env ''CKB_CONTRACT_DEP_TYPE'') ''code'',
       cf_ckbSignerMode = or_else (env ''CKB_SIGNER_MODE'') ''disabled'', cf_ckbSignerPrivateKey = signerKey,
       cf_agentIntervalMs = parseNumber (env ''AGENT_INTERVAL_MS'') 2000,
       cf_workerQueues = parseCsv (Some (or_else (env ''WORKER_QUEUES'') ''webhook,settlement'')),
       cf_requireWorkerReady = workerReady, cf_requireSettlementReady = settlementReady,
       cf_metricsBearerToken = metricsToken, cf_authJwtSecret = jwtSecret,
       cf_authJwtActiveKid = or_else (env ''AUTH_JWT_ACTIVE_KID'') ''legacy'', cf_authJwtKeys = jwtKeys,
       cf_authTokenTtlSecs = parseNumber (env ''AUTH_TOKEN_TTL_SECS'') 3600,
       cf_authChallengeTtlSecs = parseNumber (env ''AUTH_CHALLENGE_TTL_SECS'') 600,
       cf_webhookSecretEncryptionKey = webhookSecret,
       cf_webhookActiveKeyId = or_else (env ''WEBHOOK_ACTIVE_KEY_ID'') ''legacy'', cf_webhookEncryptionKeys = webhookKeys,
       cf_adminAddresses = map toLowerCase (parseCsv (env ''ADMIN_ADDRESSES'')),
       cf_trustProxyHops = parseNonNegativeNumber (env ''TRUST_PROXY_HOPS'') 0, cf_redisUrl = redisUrl,
       cf_rateLimitFailClosed = failClosed, cf_bounded = bounded\<rparr>)))))))))))))))"

section \<open>Validation\<close>

text \<open>\<open>/^0x[0-9a-fA-F]{64}$/\<close>\<close>

definition HEX_32 :: "string \<Rightarrow> bool" where
  "HEX_32 s \<longleftrightarrow> take 2 s = ''0x'' \<and> length s = 66
     \<and> list_all (\<lambda>c. digit c \<or> c \<in> set ''abcdefABCDEF'') (drop 2 s)"

definition validateCkbRailConfig :: "config \<Rightarrow> error + unit" where
  "validateCkbRailConfig c =
     (if \<not> cf_ckbRailEnabled c then Inr ()
      else
        res_bind (requireConfig (en_CKB_NODE_URL (cf_environment c))) (\<lambda>_.
        res_bind (requireConfig (or_else (en_CKB_INDEXER_URL (cf_environment c)) [])) (\<lambda>_.
        res_bind (res_require (HEX_32 (cf_ckbContractCodeHash c)) (JsError ''CKB_CONTRACT_CODE_HASH'')) (\<lambda>_.
        res_bind (res_require (cf_ckbContractHashType c \<in> {''data'', ''type'', ''data1'', ''data2''})
          (JsError ''CKB_CONTRACT_HASH_TYPE'')) (\<lambda>_.
        res_bind (res_require (HEX_32 (cf_ckbContractDeploymentTxHash c)) (JsError ''CKB_CONTRACT_DEPLOYMENT_TX_HASH'')) (\<lambda>_.
        res_bind (res_require (cf_ckbContractDepType c \<in> {''code'', ''depGroup''}) (JsError ''CKB_CONTRACT_DEP_TYPE'')) (\<lambda>_.
        res_bind (res_require (cf_ckbSignerMode c \<in> {''local_dev'', ''external''}) (JsError ''CKB_SIGNER_MODE'')) (\<lambda>_.
        res_bind (res_require (\<not> (cf_ckbSignerMode c = ''local_dev'' \<and> \<not> HEX_32 (cf_ckbSignerPrivateKey c)))
          (JsError ''CKB_SIGNER_PRIVATE_KEY'')) (\<lambda>_.
        res_bind (if en_CKB_NETWORK (cf_environment c) = ''mainnet'' then
            res_bind (res_require (cf_ckbMainnetEnabled c) (JsError ''CKB_MAINNET_ENABLED'')) (\<lambda>_.
            res_bind (res_require (\<not> cf_ckbSignerMode c \<noteq> ''external'') (JsError ''CKB_SIGNER_MODE'')) (\<lambda>_.
            Inl (JsError ''mainnet'')))
          else Inr ()) (\<lambda>_.
        res_bind (res_require (cf_ckbSignerMode c \<noteq> ''external'') (JsError ''CKB_SIGNER_MODE'')) (\<lambda>_.
        res_require (\<not> (cf_deployed c \<and> cf_ckbSignerMode c = ''local_dev'')) (JsError ''CKB_SIGNER_MODE''))))))))))))"

definition active_key_of :: "(string \<times> string) list \<Rightarrow> string \<Rightarrow> string \<Rightarrow> string" where
  "active_key_of keys kid legacy = or_else (map_of keys kid) legacy"

definition validateWorkerConfig :: "config \<Rightarrow> error + unit" where
  "validateWorkerConfig c =
     (let invalidQueues = filter (\<lambda>q. q \<notin> {''webhook'', ''settlement''}) (cf_workerQueues c) in
      res_bind (res_require (\<not> (cf_workerQueues c = [] \<or> invalidQueues \<noteq> [])) (JsError ''WORKER_QUEUES'')) (\<lambda>_.
      res_require (\<not> setting c ''JOB_TIMEOUT_MS'' \<ge> setting c ''JOB_LEASE_MS'' * 30) (JsError ''JOB_TIMEOUT_MS'')))"

definition validateApiConfig :: "host \<Rightarrow> variables \<Rightarrow> config \<Rightarrow> error + unit" where
  "validateApiConfig H env c =
     res_bind (requireStrongSecret (active_key_of (cf_authJwtKeys c) (cf_authJwtActiveKid c) (cf_authJwtSecret c))
       ''JWT key'') (\<lambda>_.
     res_bind (requireStrongSecret (cf_metricsBearerToken c) ''METRICS_BEARER_TOKEN'') (\<lambda>_.
     res_bind (res_require (cf_adminAddresses c \<noteq> []) (JsError ''ADMIN_ADDRESSES'')) (\<lambda>_.
     res_bind (res_require (or_else (env ''CORS_ORIGIN'') [] \<noteq> []) (JsError ''CORS_ORIGIN'')) (\<lambda>_.
     res_require (\<not> list_ex (\<lambda>o'. hasWildcardOrigin o' \<or> hasLocalhostOrigin H o') (cf_corsOrigins c))
       (JsError ''CORS_ORIGIN'')))))"

definition validateProductionConfig :: "host \<Rightarrow> variables \<Rightarrow> config \<Rightarrow> error + unit" where
  "validateProductionConfig H env c =
     (let api = (en_SERVICE_ROLE (cf_environment c) = ''api'');
          worker = (en_SERVICE_ROLE (cf_environment c) = ''worker'') in
      res_bind (validateCkbRailConfig c) (\<lambda>_.
      if \<not> cf_deployed c then Inr ()
      else
        res_bind (res_require (\<not> (cf_ckbRailEnabled c \<and> \<not> cf_requireSettlementReady c)) (JsError ''REQUIRE_SETTLEMENT_READY'')) (\<lambda>_.
        res_bind (res_require (\<not> cf_authTokenTtlSecs c > 86400) (JsError ''AUTH_TOKEN_TTL_SECS'')) (\<lambda>_.
        res_bind (requireConfig (or_else (env ''DATABASE_URL'') [])) (\<lambda>databaseUrl.
        res_bind (requireConfig (or_else (env ''DIRECT_URL'') [])) (\<lambda>directUrl.
        res_bind (assertDistinctDatabaseEndpoints H databaseUrl directUrl) (\<lambda>_.
        res_bind (res_require (\<not> (api \<and> cf_redisUrl c = [])) (JsError ''REDIS_URL'')) (\<lambda>_.
        res_bind (assertControlledEgressProxy H (or_else (en_WEBHOOK_EGRESS_PROXY_URL (cf_environment c)) [])) (\<lambda>_.
        res_bind (if worker then validateWorkerConfig c else Inr ()) (\<lambda>_.
        res_bind (requireStrongSecret (active_key_of (cf_webhookEncryptionKeys c) (cf_webhookActiveKeyId c)
          (cf_webhookSecretEncryptionKey c)) ''webhook encryption key'') (\<lambda>_.
        if api then validateApiConfig H env c else Inr ())))))))))))"

text \<open>What a process does before it serves: load the configuration and validate it.\<close>

definition startup :: "host \<Rightarrow> variables \<Rightarrow> error + config" where
  "startup H env = res_bind (loadConfig H env) (\<lambda>c. res_bind (validateProductionConfig H env c) (\<lambda>_. Inr c))"

section \<open>What a started process relies on\<close>

lemma parseNumber_positive: "0 < fallback \<Longrightarrow> 0 < parseNumber value fallback"
  by (auto simp: parseNumber_def split: option.splits)

lemma parseBounded_within:
  "parseBounded env table = Inr ns \<Longrightarrow> distinct (map fst table) \<Longrightarrow> (name, fallback, lo, hi) \<in> set table \<Longrightarrow>
     \<exists>n. map_of ns name = Some n \<and> lo \<le> n \<and> n \<le> hi \<and> n = parseNumber (env name) fallback"
proof (induction env table arbitrary: ns rule: parseBounded.induct)
  case (2 env name' fallback' lo' hi' rest)
  then obtain n ns' where n: "parseBoundedNumber (env name') fallback' name' lo' hi' = Inr n"
    "parseBounded env rest = Inr ns'" "ns = (name', n) # ns'" by (auto simp: tx_iff)
  then have b: "lo' \<le> n" "n \<le> hi'" "n = parseNumber (env name') fallback'"
    by (auto simp: parseBoundedNumber_def Let_def split: if_splits)
  show ?case
  proof (cases "(name, fallback, lo, hi) = (name', fallback', lo', hi')")
    case True
    with n b show ?thesis by simp
  next
    case False
    with 2(4) have "(name, fallback, lo, hi) \<in> set rest" by auto
    moreover from this 2(3) have "name \<noteq> name'" by force
    ultimately show ?thesis using 2(1) [OF n(2)] 2(3) n(3) by simp
  qed
qed simp

lemma settings_distinct: "distinct (map fst BOUNDED_SETTINGS)"
  by (simp add: BOUNDED_SETTINGS_def)

lemma loadConfig_bounded: "loadConfig H env = Inr c \<Longrightarrow> parseBounded env BOUNDED_SETTINGS = Inr (cf_bounded c)"
  unfolding loadConfig_def res_bind_iff by clarsimp

lemma setting_bounds:
  assumes "loadConfig H env = Inr c" and "(name, fallback, lo, hi) \<in> set BOUNDED_SETTINGS"
  shows "lo \<le> setting c name \<and> setting c name \<le> hi"
  using parseBounded_within [OF loadConfig_bounded [OF assms(1)] settings_distinct assms(2)] by (auto simp: setting_def)

lemma setting_positive:
  assumes "loadConfig H env = Inr c" and "(name, fallback, lo, hi) \<in> set BOUNDED_SETTINGS"
  shows "0 < setting c name"
proof -
  have "0 < fallback" using assms(2) by (auto simp: BOUNDED_SETTINGS_def)
  with parseBounded_within [OF loadConfig_bounded [OF assms(1)] settings_distinct assms(2)] show ?thesis
    by (auto simp: setting_def parseNumber_positive)
qed

lemma rail_config:
  assumes "validateCkbRailConfig c = Inr u" and "cf_ckbRailEnabled c"
  shows "\<not> cf_deployed c" and "en_CKB_NETWORK (cf_environment c) \<noteq> ''mainnet''" and "cf_ckbSignerMode c = ''local_dev''"
    and "HEX_32 (cf_ckbSignerPrivateKey c)"
  using assms by (auto simp: validateCkbRailConfig_def tx_iff split: if_splits)

lemma startup_valid: "startup H env = Inr c \<Longrightarrow> loadConfig H env = Inr c \<and> validateProductionConfig H env c = Inr ()"
  by (auto simp: startup_def tx_iff)

lemma startup_rail:
  assumes "startup H env = Inr c" and "isDeployedEnvironment env \<or> en_CKB_NETWORK (cf_environment c) = ''mainnet''"
  shows "\<not> cf_ckbRailEnabled c"
proof
  assume r: "cf_ckbRailEnabled c"
  from startup_valid [OF assms(1)] have l: "loadConfig H env = Inr c" and "validateCkbRailConfig c = Inr ()"
    by (auto simp: validateProductionConfig_def Let_def tx_iff)
  from rail_config [OF this(2) r] have "\<not> cf_deployed c" "en_CKB_NETWORK (cf_environment c) \<noteq> ''mainnet''" by auto
  moreover have "cf_deployed c = isDeployedEnvironment env"
    using l unfolding loadConfig_def res_bind_iff by clarsimp
  ultimately show False using assms(2) by simp
qed

end
