(* ===== verification/Operations.thy ===== *)
theory Operations
  imports Accounts Config
begin

text \<open>
  What operators see and do: worker heartbeats (\<open>services/workerHeartbeatService.ts\<close>), health and
  readiness (\<open>modules/health/health.service.ts\<close>), the migration check
  (\<open>common/migrations/migration-readiness.ts\<close>), the reads and the replay of the admin module
  (\<open>modules/admin\<close>), the reads of events and audit entries, and the rotation of webhook secrets
  (\<open>scripts/rotateWebhookSecrets.ts\<close>). Metrics are not kept. The lemmas say when a worker counts as
  alive, what a rotation keeps, and that reads of a tenant show rows of that tenant only.
\<close>

section \<open>workerHeartbeatService.ts\<close>

record heartbeat =
  hb_id :: string
  hb_service :: string
  hb_hostname :: string
  hb_processId :: int
  hb_version :: string
  hb_status :: string
  hb_startedAt :: int
  hb_lastHeartbeatAt :: int
  hb_lastCycleAt :: "int option"
  hb_lastCycleDurationMs :: "int option"
  hb_lastError :: "string option"
  hb_cyclesSucceeded :: nat
  hb_cyclesFailed :: nat
  hb_stoppedAt :: "int option"

type_synonym heartbeats = "heartbeat list"

text \<open>The process that reports: host name, process number and build version.\<close>

record process =
  pc_hostname :: string
  pc_pid :: int
  pc_version :: string

definition registerWorker :: "process \<Rightarrow> string \<Rightarrow> string \<Rightarrow> int \<Rightarrow> heartbeats \<Rightarrow> heartbeats" where
  "registerWorker pc workerId service time hs =
     (if list_ex (\<lambda>h. hb_id h = workerId) hs
      then map (\<lambda>h. if hb_id h = workerId
        then h\<lparr>hb_service := service, hb_hostname := pc_hostname pc, hb_processId := pc_pid pc,
          hb_version := pc_version pc, hb_status := ''running'', hb_startedAt := time, hb_lastHeartbeatAt := time,
          hb_stoppedAt := None, hb_lastError := None\<rparr> else h) hs
      else hs @ [\<lparr>hb_id = workerId, hb_service = service, hb_hostname = pc_hostname pc, hb_processId = pc_pid pc,
        hb_version = pc_version pc, hb_status = ''running'', hb_startedAt = time, hb_lastHeartbeatAt = time,
        hb_lastCycleAt = None, hb_lastCycleDurationMs = None, hb_lastError = None, hb_cyclesSucceeded = 0,
        hb_cyclesFailed = 0, hb_stoppedAt = None\<rparr>])"

text \<open>\<open>failure\<close> is the text of the error the cycle ended with; \<open>update\<close> of a missing row raises \<open>P2025\<close>.\<close>

definition recordWorkerCycle :: "string \<Rightarrow> int \<Rightarrow> string option \<Rightarrow> int \<Rightarrow> heartbeats \<Rightarrow> error + heartbeats" where
  "recordWorkerCycle workerId durationMs failure time hs =
     (if list_ex (\<lambda>h. hb_id h = workerId) hs
      then Inr (map (\<lambda>h. if hb_id h = workerId
        then h\<lparr>hb_status := (if failure \<noteq> None then ''degraded'' else ''running''), hb_lastHeartbeatAt := time,
          hb_lastCycleAt := Some time, hb_lastCycleDurationMs := Some (max 0 durationMs),
          hb_lastError := map_option (take 1000) failure,
          hb_cyclesFailed := (if failure \<noteq> None then hb_cyclesFailed h + 1 else hb_cyclesFailed h),
          hb_cyclesSucceeded := (if failure = None then hb_cyclesSucceeded h + 1 else hb_cyclesSucceeded h)\<rparr> else h) hs)
      else Inl P2025)"

definition touchWorker :: "string \<Rightarrow> int \<Rightarrow> heartbeats \<Rightarrow> heartbeats" where
  "touchWorker workerId time hs =
     map (\<lambda>h. if hb_id h = workerId \<and> hb_status h \<noteq> ''stopped'' then h\<lparr>hb_lastHeartbeatAt := time\<rparr> else h) hs"

definition stopWorker :: "string \<Rightarrow> int \<Rightarrow> heartbeats \<Rightarrow> heartbeats" where
  "stopWorker workerId time hs =
     map (\<lambda>h. if hb_id h = workerId
       then h\<lparr>hb_status := ''stopped'', hb_lastHeartbeatAt := time, hb_stoppedAt := Some time\<rparr> else h) hs"

section \<open>health.service.ts\<close>

definition waiting_job :: "agent_job \<Rightarrow> bool" where
  "waiting_job j \<longleftrightarrow> List.member [JS_QUEUED, JS_RETRY] (aj_status j)"

text \<open>The queues a worker advertises.\<close>

definition advertised :: "heartbeat \<Rightarrow> string list" where
  "advertised h = filter (\<lambda>q. q \<noteq> []) (map trim (split_on (CHR '','') (hb_service h)))"

definition covering :: "string list \<Rightarrow> heartbeat \<Rightarrow> bool" where
  "covering required h \<longleftrightarrow> list_all (\<lambda>q. q \<in> set (advertised h)) required"

record worker_status =
  wk_status :: string
  wk_workerId :: "string option"
  wk_heartbeatAgeMs :: "int option"
  wk_lastCycleAt :: "string option"
  wk_lastCycleDurationMs :: "int option"
  wk_cyclesSucceeded :: nat
  wk_cyclesFailed :: nat
  wk_queuedJobs :: nat
  wk_deadLetterJobs :: nat
  wk_oldestQueuedJobAgeMs :: int

definition latest_heartbeat :: "string list \<Rightarrow> heartbeats \<Rightarrow> heartbeat option" where
  "latest_heartbeat required hs =
     List.find (covering required) (take 50 (sort_key (\<lambda>h. - hb_lastHeartbeatAt h) hs))"

definition getWorkerAndQueueStatus :: "string list \<Rightarrow> int \<Rightarrow> int \<Rightarrow> heartbeats \<Rightarrow> db \<Rightarrow> worker_status" where
  "getWorkerAndQueueStatus queues staleMs time hs s =
     (let queued = length (filter waiting_job (jobs s));
          deadLetters = length (filter (\<lambda>j. aj_status j = JS_DEAD_LETTER) (jobs s));
          due = filter (\<lambda>j. waiting_job j \<and> aj_availableAt j \<le> time) (jobs s);
          oldest = (if due = [] then None else Some (Min (set (map aj_availableAt due))));
          heartbeat = latest_heartbeat queues hs;
          age = map_option (\<lambda>h. max 0 (time - hb_lastHeartbeatAt h)) heartbeat
      in \<lparr>wk_status = (case heartbeat of
             None \<Rightarrow> ''stale''
           | Some h \<Rightarrow> if hb_status h \<noteq> ''stopped'' \<and> the age \<le> staleMs then ''ok'' else ''stale''),
          wk_workerId = map_option hb_id heartbeat, wk_heartbeatAgeMs = age,
          wk_lastCycleAt = map_option toISOString (Option.bind heartbeat hb_lastCycleAt),
          wk_lastCycleDurationMs = Option.bind heartbeat hb_lastCycleDurationMs,
          wk_cyclesSucceeded = (case heartbeat of None \<Rightarrow> 0 | Some h \<Rightarrow> hb_cyclesSucceeded h),
          wk_cyclesFailed = (case heartbeat of None \<Rightarrow> 0 | Some h \<Rightarrow> hb_cyclesFailed h), wk_queuedJobs = queued,
          wk_deadLetterJobs = deadLetters,
          wk_oldestQueuedJobAgeMs = (case oldest of None \<Rightarrow> 0 | Some t \<Rightarrow> max 0 (time - t))\<rparr>)"

text \<open>
  An answer of the node or of the indexer: \<open>None\<close> when the request fails or its status is not a
  success, otherwise the truth of \<open>result\<close> and of \<open>error\<close>.
\<close>

record rpc_answer =
  ra_result :: bool
  ra_error :: bool

definition getSettlementStatus :: "bool \<Rightarrow> string \<Rightarrow> rpc_answer option \<Rightarrow> rpc_answer option \<Rightarrow> string" where
  "getSettlementStatus required indexerUrl nodeAnswer indexerAnswer =
     (if \<not> required then ''not_required''
      else if indexerUrl = [] then ''error''
      else case (nodeAnswer, indexerAnswer) of
          (Some n, Some i) \<Rightarrow> if ra_result n \<and> \<not> ra_error n \<and> ra_result i \<and> \<not> ra_error i then ''ok'' else ''error''
        | _ \<Rightarrow> ''error'')"

record readiness =
  rd_status :: string
  rd_database :: string
  rd_worker :: "worker_status option"
  rd_settlement :: "string option"

definition getReadinessStatus :: "bool \<Rightarrow> bool \<Rightarrow> config \<Rightarrow> worker_status \<Rightarrow> string \<Rightarrow> readiness" where
  "getReadinessStatus databaseUp shuttingDown c operations settlement =
     (if \<not> databaseUp then \<lparr>rd_status = ''not_ready'', rd_database = ''error'', rd_worker = None, rd_settlement = None\<rparr>
      else
        let ready = (\<not> shuttingDown
          \<and> (\<not> cf_requireWorkerReady c \<or> wk_status operations = ''ok'')
          \<and> (\<not> cf_requireSettlementReady c \<or> settlement = ''ok''))
        in \<lparr>rd_status = (if ready then ''ready'' else ''not_ready''), rd_database = ''ok'',
            rd_worker = Some operations, rd_settlement = Some settlement\<rparr>)"

section \<open>migration-readiness.ts\<close>

record migration_row =
  mg_name :: string
  mg_finishedAt :: "int option"
  mg_rolledBackAt :: "int option"

record migration_readiness =
  mr_status :: string
  mr_required :: "string list"
  mr_missing :: "string list"
  mr_failed :: "string list"

definition evaluateMigrationReadiness :: "string list \<Rightarrow> migration_row list \<Rightarrow> migration_readiness" where
  "evaluateMigrationReadiness required rows =
     (let applied = map mg_name (filter (\<lambda>r. mg_finishedAt r \<noteq> None \<and> mg_rolledBackAt r = None) rows);
          failed = sort (filter (\<lambda>n. n \<in> set required)
            (map mg_name (filter (\<lambda>r. mg_finishedAt r = None \<and> mg_rolledBackAt r = None) rows)));
          missing = filter (\<lambda>n. n \<notin> set applied) required
      in \<lparr>mr_status = (if failed \<noteq> [] then ''failed'' else if missing \<noteq> [] then ''missing'' else ''ok''),
          mr_required = required, mr_missing = missing, mr_failed = failed\<rparr>)"

definition assertRequiredMigrationsApplied :: "string list \<Rightarrow> migration_row list \<Rightarrow> error + migration_readiness" where
  "assertRequiredMigrationsApplied required rows =
     (let r = evaluateMigrationReadiness required rows in
      if mr_status r \<noteq> ''ok'' then Inl (JsError ''Database migrations are not ready'') else Inr r)"

section \<open>Reads of events and audit entries\<close>

record event_query =
  evq_type :: "string option"
  evq_agreementId :: "string option"
  evq_limit :: nat
  evq_cursor :: "string option"

definition matches :: "string option \<Rightarrow> string \<Rightarrow> bool" where
  "matches wanted v \<longleftrightarrow> (case wanted of None \<Rightarrow> True | Some w \<Rightarrow> w = [] \<or> v = w)"

definition matches_opt :: "string option \<Rightarrow> string option \<Rightarrow> bool" where
  "matches_opt wanted v \<longleftrightarrow> (case wanted of None \<Rightarrow> True | Some w \<Rightarrow> w = [] \<or> v = Some w)"

definition event_selected :: "string \<Rightarrow> event_query \<Rightarrow> event \<Rightarrow> bool" where
  "event_selected appId params e \<longleftrightarrow> ev_appId e = appId \<and> matches (evq_type params) (ev_type e)
     \<and> matches_opt (evq_agreementId params) (ev_agreementId e)"

definition listEventsForApp :: "string \<Rightarrow> event_query \<Rightarrow> db \<Rightarrow> event list" where
  "listEventsForApp appId params s =
     list_desc ev_createdAt ev_id (event_selected appId params) (evq_limit params) (evq_cursor params) (events s)"

definition findEventForApp :: "string \<Rightarrow> string \<Rightarrow> event option dbtx" where
  "findEventForApp appId eventId = findFirst events (\<lambda>e. ev_id e = eventId \<and> ev_appId e = appId)"

definition listAppEvents :: "string \<Rightarrow> event_query \<Rightarrow> db \<Rightarrow> json page" where
  "listAppEvents appId params s = make_page ev_id serializeEvent (evq_limit params) (listEventsForApp appId params s)"

definition getAppEvent :: "string \<Rightarrow> string \<Rightarrow> json dbtx" where
  "getAppEvent appId eventId =
     tx_bind (findEventForApp appId eventId) (\<lambda>found.
     tx_bind (tx_some (notFound ''event_not_found'') found) (\<lambda>e. tx_return (serializeEvent e)))"

definition listAuditLogsForApp :: "string \<Rightarrow> nat \<Rightarrow> string option \<Rightarrow> db \<Rightarrow> audit_log list" where
  "listAuditLogsForApp appId limit cursor s =
     list_desc al_createdAt al_id (\<lambda>l. al_appId l = Some appId) limit cursor (auditLogs s)"

definition listAppAuditLogs :: "string \<Rightarrow> nat \<Rightarrow> string option \<Rightarrow> db \<Rightarrow> json page" where
  "listAppAuditLogs appId limit cursor s = make_page al_id serializeAuditLog limit (listAuditLogsForApp appId limit cursor s)"

section \<open>The admin module\<close>

record admin_query =
  adq_appId :: "string option"
  adq_status :: "string option"
  adq_type :: "string option"
  adq_limit :: nat
  adq_cursor :: "string option"

definition paginateAdminRows :: "('r \<Rightarrow> string) \<Rightarrow> ('r \<Rightarrow> json) \<Rightarrow> nat \<Rightarrow> 'r list \<Rightarrow> json page" where
  "paginateAdminRows ident serializer limit rows = make_page ident serializer limit rows"

definition adminListApps :: "admin_query \<Rightarrow> platform \<Rightarrow> json page" where
  "adminListApps q p = paginateAdminRows ap_id serializeApp (adq_limit q)
     (list_desc ap_createdAt ap_id (\<lambda>a. matches (adq_status q) (app_status_name (ap_status a)))
       (adq_limit q) (adq_cursor q) (pl_apps p))"

definition adminListAgreements :: "admin_query \<Rightarrow> platform \<Rightarrow> json page" where
  "adminListAgreements q p = paginateAdminRows ag_id
     (\<lambda>a. serializeAgreement a (Some (includeMilestones a (pl_db p)))) (adq_limit q)
     (list_desc ag_createdAt ag_id
       (\<lambda>a. matches (adq_appId q) (ag_appId a) \<and> matches (adq_status q) (agreement_status_name (ag_status a)))
       (adq_limit q) (adq_cursor q) (agreements (pl_db p)))"

definition adminListEscrows :: "admin_query \<Rightarrow> platform \<Rightarrow> json page" where
  "adminListEscrows q p = paginateAdminRows es_id serializeEscrow (adq_limit q)
     (list_desc es_createdAt es_id
       (\<lambda>e. matches (adq_appId q) (es_appId e) \<and> matches (adq_status q) (escrow_status_name (es_status e)))
       (adq_limit q) (adq_cursor q) (escrows (pl_db p)))"

definition adminListEvents :: "admin_query \<Rightarrow> platform \<Rightarrow> json page" where
  "adminListEvents q p = paginateAdminRows ev_id serializeEvent (adq_limit q)
     (list_desc ev_createdAt ev_id (\<lambda>e. matches (adq_appId q) (ev_appId e) \<and> matches (adq_type q) (ev_type e))
       (adq_limit q) (adq_cursor q) (events (pl_db p)))"

fun delivery_status_name :: "DeliveryStatus \<Rightarrow> string" where
  "delivery_status_name WD_PENDING = ''PENDING''"
| "delivery_status_name WD_DELIVERED = ''DELIVERED''"
| "delivery_status_name WD_FAILED = ''FAILED''"
| "delivery_status_name WD_RETRY = ''RETRY''"

definition adminListWebhookDeliveries :: "admin_query \<Rightarrow> platform \<Rightarrow> json page" where
  "adminListWebhookDeliveries q p = paginateAdminRows wd_id serializeWebhookDelivery (adq_limit q)
     (list_desc wd_createdAt wd_id
       (\<lambda>d. matches (adq_appId q) (wd_appId d) \<and> matches (adq_status q) (delivery_status_name (wd_status d)))
       (adq_limit q) (adq_cursor q) (deliveries (pl_db p)))"

definition adminListAuditLogs :: "admin_query \<Rightarrow> platform \<Rightarrow> json page" where
  "adminListAuditLogs q p = paginateAdminRows al_id serializeAuditLog (adq_limit q)
     (list_desc al_createdAt al_id
       (\<lambda>l. al_appId l \<noteq> None \<and> matches_opt (adq_appId q) (al_appId l) \<and> matches (adq_type q) (al_action l))
       (adq_limit q) (adq_cursor q) (auditLogs (pl_db p)))"

text \<open>Jobs are shown as they are, without a serializer.\<close>

fun job_status_name :: "JobStatus \<Rightarrow> string" where
  "job_status_name JS_QUEUED = ''QUEUED''"
| "job_status_name JS_RUNNING = ''RUNNING''"
| "job_status_name JS_RETRY = ''RETRY''"
| "job_status_name JS_COMPLETED = ''COMPLETED''"
| "job_status_name JS_DEAD_LETTER = ''DEAD_LETTER''"

definition adminListJobs :: "admin_query \<Rightarrow> platform \<Rightarrow> agent_job page" where
  "adminListJobs q p = make_page aj_id (\<lambda>j. j) (adq_limit q)
     (list_desc aj_createdAt aj_id
       (\<lambda>j. matches (adq_status q) (job_status_name (aj_status j)) \<and> matches (adq_type q) (aj_queue j)
          \<and> matches (adq_appId q) (aj_appId j))
       (adq_limit q) (adq_cursor q) (jobs (pl_db p)))"

record system_counts =
  sy_apps :: nat
  sy_activeApps :: nat
  sy_suspendedApps :: nat
  sy_agreements :: nat
  sy_infrastructureAgreements :: nat
  sy_escrows :: nat
  sy_fundedEscrows :: nat
  sy_pendingWebhookDeliveries :: nat
  sy_failedWebhookDeliveries :: nat
  sy_events :: nat
  sy_auditLogs :: nat

definition getSystemCounts :: "platform \<Rightarrow> system_counts" where
  "getSystemCounts p = (let s = pl_db p in
     \<lparr>sy_apps = length (pl_apps p),
      sy_activeApps = length (filter (\<lambda>a. app_status_name (ap_status a) = ''active'') (pl_apps p)),
      sy_suspendedApps = length (filter (\<lambda>a. app_status_name (ap_status a) = ''suspended'') (pl_apps p)),
      sy_agreements = length (agreements s),
      sy_infrastructureAgreements = length (filter (\<lambda>a. isAgreementStatus (ag_status a)) (agreements s)),
      sy_escrows = length (escrows s),
      sy_fundedEscrows = length (filter (\<lambda>e. es_status e = ES_funded) (escrows s)),
      sy_pendingWebhookDeliveries = length (filter (\<lambda>d. List.member [WD_PENDING, WD_RETRY] (wd_status d)) (deliveries s)),
      sy_failedWebhookDeliveries = length (filter (\<lambda>d. wd_status d = WD_FAILED) (deliveries s)),
      sy_events = length (events s),
      sy_auditLogs = length (filter (\<lambda>l. al_appId l \<noteq> None) (auditLogs s))\<rparr>)"

text \<open>The status of the database and the counts.\<close>

definition getSystemHealth :: "bool \<Rightarrow> platform \<Rightarrow> string \<times> string \<times> system_counts" where
  "getSystemHealth databaseUp p =
     (let database = (if databaseUp then ''ok'' else ''error'')
      in (if database = ''ok'' then ''ok'' else ''degraded'', database, getSystemCounts p))"

text \<open>The request of an administrator: the wallet address, the query and what the audit entry records.\<close>

record admin_request =
  ar_address :: "string option"
  ar_queryAppId :: "string option"
  ar_query :: json
  ar_request :: request

definition auditAdminRead :: "env \<Rightarrow> admin_request \<Rightarrow> string \<Rightarrow> audit_log dbtx" where
  "auditAdminRead E a targetType = createInfrastructureAuditLog E
     \<lparr>ai_appId = ar_queryAppId a, ai_agreementId = None, ai_actorType = ''user'', ai_actorId = ar_address a,
      ai_actorAddress = ar_address a, ai_action = ''admin.sensitive_record_viewed'', ai_targetType = targetType,
      ai_targetId = ''global'', ai_before = None,
      ai_after = Some (JObj [(''method'', JStr (rq_method (ar_request a))),
        (''path'', JStr (rq_originalUrl (ar_request a))), (''query'', ar_query a)]),
      ai_ipAddress = rq_ip (ar_request a), ai_userAgent = rq_userAgent (ar_request a),
      ai_requestId = Some (rq_requestId (ar_request a))\<rparr>"

text \<open>A read of the admin controller: the page is computed, then the audit entry is written.\<close>

definition adminRead :: "env \<Rightarrow> admin_request \<Rightarrow> string \<Rightarrow> (platform \<Rightarrow> 'a) \<Rightarrow> 'a plproc" where
  "adminRead E a targetType view =
     pr_bind (atomically (tx_gets view)) (\<lambda>result.
     pr_bind (atomically (on_db (auditAdminRead E a targetType))) (\<lambda>_.
     pr_return result))"

definition adminReplayJob :: "env \<Rightarrow> admin_request \<Rightarrow> string \<Rightarrow> agent_job plproc" where
  "adminReplayJob E a jobId =
     pr_bind (atomically (on_db (replayJob E jobId))) (\<lambda>replayed.
     pr_bind (atomically (on_db (createInfrastructureAuditLog E
       \<lparr>ai_appId = None, ai_agreementId = None, ai_actorType = ''user'', ai_actorId = ar_address a,
        ai_actorAddress = ar_address a, ai_action = ''admin.agent_job_replayed'', ai_targetType = ''agent_job'',
        ai_targetId = jobId, ai_before = None, ai_after = Some (JObj [(''replayedJobId'', JStr (aj_id replayed))]),
        ai_ipAddress = rq_ip (ar_request a), ai_userAgent = rq_userAgent (ar_request a),
        ai_requestId = Some (rq_requestId (ar_request a))\<rparr>))) (\<lambda>_.
     pr_return replayed))"

section \<open>rotateWebhookSecrets.ts\<close>

text \<open>\<open>iv w\<close> is the random vector drawn for the endpoint.\<close>

definition rotateEndpoint :: "webhook_crypto \<Rightarrow> (string \<Rightarrow> byte list) \<Rightarrow> int \<Rightarrow> webhook_endpoint \<Rightarrow> error + webhook_endpoint" where
  "rotateEndpoint C iv time w =
     (let current = or_else (we_secretCiphertext w) [] in
      if current = [] then Inr w
      else
        res_bind (getWebhookEncryptionKeyId current) (\<lambda>currentKeyId.
        if currentKeyId = wc_activeKeyId C then Inr w
        else
          res_bind (decryptWebhookSecret C current) (\<lambda>secret.
          res_bind (encryptWebhookSecret C (iv (we_id w)) secret) (\<lambda>secretCiphertext.
          res_bind (getWebhookEncryptionKeyId secretCiphertext) (\<lambda>version.
          Inr (w\<lparr>we_secretCiphertext := Some secretCiphertext, we_encryptionKeyVersion := Some version,
                 we_updatedAt := time\<rparr>))))))"

text \<open>
  The loop over the endpoints that are not deleted, which are kept in the order they were created: each update is committed on its own, so that an
  error leaves the rotations done before it.
\<close>

fun rotateAll :: "webhook_crypto \<Rightarrow> (string \<Rightarrow> byte list) \<Rightarrow> int \<Rightarrow> webhook_endpoint list \<Rightarrow> (error + unit) \<times> webhook_endpoint list" where
  "rotateAll C iv time [] = (Inr (), [])"
| "rotateAll C iv time (w # ws) =
     (if we_deletedAt w \<noteq> None then (case rotateAll C iv time ws of (r, vs) \<Rightarrow> (r, w # vs))
      else case rotateEndpoint C iv time w of
          Inl e \<Rightarrow> (Inl e, w # ws)
        | Inr v \<Rightarrow> (case rotateAll C iv time ws of (r, vs) \<Rightarrow> (r, v # vs)))"

section \<open>When a worker counts as alive\<close>

lemma latest_heartbeat_in:
  assumes "latest_heartbeat required hs = Some h"
  shows "h \<in> set hs" and "covering required h"
proof -
  have "h \<in> set (take 50 (sort_key (\<lambda>h. - hb_lastHeartbeatAt h) hs))" "covering required h"
    using assms unfolding latest_heartbeat_def find_Some_iff by (metis nth_mem)+
  then show "h \<in> set hs" "covering required h" by (auto dest: in_set_takeD)
qed

lemma worker_ok:
  assumes "wk_status (getWorkerAndQueueStatus queues staleMs time hs s) = ''ok''"
  shows "\<exists>h\<in>set hs. covering queues h \<and> hb_status h \<noteq> ''stopped'' \<and> time - hb_lastHeartbeatAt h \<le> staleMs"
  using assms latest_heartbeat_in [of queues hs]
  by (auto simp: getWorkerAndQueueStatus_def Let_def split: option.splits if_splits)

lemma sort_key_least:
  assumes "h \<in> set hs" and "\<And>k. k \<in> set hs \<Longrightarrow> k \<noteq> h \<Longrightarrow> f h < f k"
  shows "\<exists>rest. sort_key f hs = h # rest"
proof (cases "sort_key f hs")
  case Nil
  then have "set (sort_key f hs) = {}" by simp
  with assms(1) show ?thesis by simp
next
  case (Cons k rest)
  have s: "sorted (map f (k # rest))" unfolding Cons [symmetric] by simp
  have m: "set (k # rest) = set hs" unfolding Cons [symmetric] by simp
  with assms(1) have "f k \<le> f h" using s by auto
  moreover have "k \<in> set hs" using m by auto
  ultimately have "k = h" using assms(2) by force
  with Cons show ?thesis by simp
qed

lemma latest_is:
  assumes "h \<in> set hs" and "covering required h"
    and "\<And>k. k \<in> set hs \<Longrightarrow> k \<noteq> h \<Longrightarrow> hb_lastHeartbeatAt k < hb_lastHeartbeatAt h"
  shows "latest_heartbeat required hs = Some h"
proof -
  obtain rest where "sort_key (\<lambda>h. - hb_lastHeartbeatAt h) hs = h # rest"
    using sort_key_least [of h hs "\<lambda>h. - hb_lastHeartbeatAt h"] assms(1,3) by auto
  with assms(2) show ?thesis by (simp add: latest_heartbeat_def)
qed

text \<open>
  The worker that beat last decides, also when it beat last because it stopped: a worker that is
  still running is not seen until its next heartbeat.
\<close>

lemma last_beat_decides:
  assumes "h \<in> set hs" and "covering queues h"
    and "\<And>k. k \<in> set hs \<Longrightarrow> k \<noteq> h \<Longrightarrow> hb_lastHeartbeatAt k < hb_lastHeartbeatAt h"
  shows "wk_status (getWorkerAndQueueStatus queues staleMs time hs s) =
    (if hb_status h \<noteq> ''stopped'' \<and> max 0 (time - hb_lastHeartbeatAt h) \<le> staleMs then ''ok'' else ''stale'')"
  by (simp add: getWorkerAndQueueStatus_def latest_is [OF assms] Let_def)

lemma stopped_not_touched: "touchWorker w later (stopWorker w time hs) = stopWorker w time hs"
  by (auto simp: touchWorker_def stopWorker_def)

section \<open>Migrations\<close>

lemma sort_Nil: "sort xs = [] \<longleftrightarrow> xs = []"
  by (metis set_empty set_sort)

lemma migrations_applied_iff:
  "(\<exists>r. assertRequiredMigrationsApplied required rows = Inr r) \<longleftrightarrow>
     (\<forall>n\<in>set required. (\<exists>r\<in>set rows. mg_name r = n \<and> mg_finishedAt r \<noteq> None \<and> mg_rolledBackAt r = None)
        \<and> \<not> (\<exists>r\<in>set rows. mg_name r = n \<and> mg_finishedAt r = None \<and> mg_rolledBackAt r = None))"
proof -
  define fin where "fin = filter (\<lambda>r. mg_finishedAt r \<noteq> None \<and> mg_rolledBackAt r = None) rows"
  define bad where "bad = filter (\<lambda>r. mg_finishedAt r = None \<and> mg_rolledBackAt r = None) rows"
  have "(\<exists>r. assertRequiredMigrationsApplied required rows = Inr r) \<longleftrightarrow>
      sort (filter (\<lambda>n. n \<in> set required) (map mg_name bad)) = []
      \<and> filter (\<lambda>n. n \<notin> set (map mg_name fin)) required = []"
    by (simp add: assertRequiredMigrationsApplied_def evaluateMigrationReadiness_def Let_def fin_def bad_def)
  also have "\<dots> \<longleftrightarrow> (\<forall>r\<in>set bad. mg_name r \<notin> set required) \<and> (\<forall>n\<in>set required. n \<in> mg_name ` set fin)"
    by (auto simp: sort_Nil filter_empty_conv)
  finally show ?thesis unfolding fin_def bad_def set_filter image_iff mem_Collect_eq Ball_def Bex_def by blast
qed

section \<open>Reads\<close>

lemma list_desc_subset: "set (list_desc created ident p limit cursor rows) \<subseteq> {r \<in> set rows. p r}"
proof -
  have "set (find_page le ident tab ordered n cursor) \<subseteq> set ordered" for le :: "'a \<Rightarrow> 'a \<Rightarrow> bool" and tab ordered n
    by (auto simp: find_page_def dest!: in_set_takeD in_set_dropD split: option.splits)
  then show ?thesis by (fastforce simp: list_desc_def desc_order_def)
qed

lemma events_of_tenant:
  "e \<in> set (listEventsForApp appId params s) \<Longrightarrow> e \<in> set (events s) \<and> ev_appId e = appId"
  "l \<in> set (listAuditLogsForApp appId limit cursor s) \<Longrightarrow> l \<in> set (auditLogs s) \<and> al_appId l = Some appId"
  using list_desc_subset by (fastforce simp: listEventsForApp_def listAuditLogsForApp_def event_selected_def)+

text \<open>Every read of an administrator that answers has left its audit entry, and nothing else.\<close>

lemma adminRead_audited:
  assumes "adminRead E a targetType view p = (Inr v, q)"
  shows "v = view p" and "\<exists>l. auditLogs (pl_db q) = auditLogs (pl_db p) @ [l] \<and> al_actorAddress l = ar_address a
      \<and> al_action l = ''admin.sensitive_record_viewed'' \<and> al_targetType l = targetType
      \<and> pl_db q = (pl_db p)\<lparr>auditLogs := auditLogs (pl_db p) @ [l], uuidCount := uuidCount (pl_db q)\<rparr>"
    and "pl_apps q = pl_apps p" and "pl_apiKeys q = pl_apiKeys p"
  using assms
  by (auto simp: adminRead_def pr_bind_def atomically_def tx_gets_def pr_return_def on_db_def auditAdminRead_def
      createInfrastructureAuditLog_def tx_iff split: sum.splits prod.splits)

section \<open>Rotation keeps every secret\<close>

text \<open>What the cipher promises: opening a sealed text gives it back.\<close>

definition opens_sealed :: "webhook_crypto \<Rightarrow> byte list \<Rightarrow> bool" where
  "opens_sealed C iv \<longleftrightarrow> iv \<noteq> [] \<and> (\<forall>k p. case wc_seal C k iv p of (ct, tag) \<Rightarrow>
     wc_open C k iv tag ct = Inr p \<and> length ct = length p \<and> tag \<noteq> [])"

lemma rotateEndpoint_keeps:
  assumes rot: "rotateEndpoint C iv time w = Inr v"
    and c: "we_secretCiphertext w = Some c" "c \<noteq> []" and d: "decryptWebhookSecret C c = Inr secret" "secret \<noteq> []"
    and key: "wc_activeKeyId C \<noteq> []" "CHR ''.'' \<notin> set (wc_activeKeyId C)" and iv: "opens_sealed C (iv (we_id w))"
  shows "\<exists>c'. we_secretCiphertext v = Some c' \<and> getWebhookEncryptionKeyId c' = Inr (wc_activeKeyId C)
    \<and> decryptWebhookSecret C c' = Inr secret \<and> we_secretHash v = we_secretHash w \<and> we_id v = we_id w"
proof (cases "getWebhookEncryptionKeyId c = Inr (wc_activeKeyId C)")
  case True
  with rot c d show ?thesis by (auto simp: rotateEndpoint_def or_else_def tx_iff)
next
  case False
  with rot c d obtain c' where e: "encryptWebhookSecret C (iv (we_id w)) secret = Inr c'"
    and v: "we_secretCiphertext v = Some c'" "we_secretHash v = we_secretHash w" "we_id v = we_id w"
    by (auto simp: rotateEndpoint_def or_else_def tx_iff split: if_splits)
  have "decryptWebhookSecret C c' = Inr secret \<and> getWebhookEncryptionKeyId c' = Inr (wc_activeKeyId C)"
    by (rule secret_recovered [OF e key]) (use iv d in \<open>auto simp: opens_sealed_def\<close>)
  with v show ?thesis by blast
qed

lemma rotateAll_keeps:
  "rotateAll C iv time ws = (Inr (), vs) \<Longrightarrow> length vs = length ws \<and>
     (\<forall>i < length ws. we_deletedAt (ws ! i) = None \<longrightarrow> rotateEndpoint C iv time (ws ! i) = Inr (vs ! i))"
proof (induction C iv time ws arbitrary: vs rule: rotateAll.induct)
  case (2 C iv time w ws)
  show ?case
  proof (cases "we_deletedAt w = None")
    case True
    with 2(3) obtain v us where v: "rotateEndpoint C iv time w = Inr v" "rotateAll C iv time ws = (Inr (), us)" "vs = v # us"
      by (auto split: sum.splits prod.splits)
    with 2(2) [OF _ v(1,2)] True show ?thesis by (auto simp: nth_Cons split: nat.splits)
  next
    case False
    with 2(3) obtain us where v: "rotateAll C iv time ws = (Inr (), us)" "vs = w # us" by (auto split: prod.splits)
    with 2(1) [OF _ v(1)] False show ?thesis by (auto simp: nth_Cons split: nat.splits)
  qed
qed simp

end
