(* ===== verification/Fixtures.thy ===== *)
theory Fixtures
  imports Worker SettlementSafety Auth TenantAudit Gateway Operations
begin

text \<open>
  Concrete inputs for the witnesses of the properties: an environment, a chain that answers nothing,
  a request, and databases that hold an agreement with one milestone and its escrow.
\<close>

definition demo_env :: env where
  "demo_env = \<lparr>sha256 = (\<lambda>s. s), localeLE = (\<le>), randomUUID = (\<lambda>n. show_nat n),
     idempotencyProcessingLeaseMs = 60000, idempotencyRetentionMs = 86400000,
     idempotencyMaxResponseBytes = 100000\<rparr>"

text \<open>Comparison by code units is one of the orders \<open>localeCompare\<close> may use.\<close>

interpretation codeUnits: key_order "(\<le>) :: string \<Rightarrow> string \<Rightarrow> bool"
  by unfold_locales auto

definition demo_node :: ckb_node where
  "demo_node = \<lparr>getTransaction = (\<lambda>h. Inr None), getTipNumber = Inr 0\<rparr>"

definition demo_ckb :: ckb_services where
  "demo_ckb = \<lparr>ckb_cfg = \<lparr>railEnabled = False, railNetwork = ''testnet'', contractCodeHash = [],
       contractHashType = ''data1'', railConfirmations = 3\<rparr>,
     ckb_library = \<lparr>hashCkb = (\<lambda>s. s), scriptHash = (\<lambda>_. []), occupiedCapacity = (\<lambda>_ _. 0)\<rparr>,
     ckb_signer_provider = Inl (JsError []), ckb_send = (\<lambda>_. Inl (JsError [])), ckb_now = demo_node,
     ckb_later = demo_node\<rparr>"

definition demo_request :: request where
  "demo_request = \<lparr>rq_idempotencyKey = Some ''k'', rq_method = ''POST'', rq_originalUrl = ''/v1'',
     rq_body = None, rq_requestId = ''r'', rq_apiKeyId = None, rq_ip = None, rq_userAgent = None\<rparr>"

definition demo_hash :: string where
  "demo_hash = requestHashOf demo_env demo_request"

definition demo_context :: context_key where
  "demo_context = \<lparr>ctx_key = ''k'', ctx_requestHash = demo_hash\<rparr>"

definition demo_agreement_input :: create_agreement_input where
  "demo_agreement_input = \<lparr>cai_externalReferenceId = None, cai_title = ''t'', cai_description = ''d'',
     cai_clientExternalId = ''c'', cai_workerExternalId = ''w'', cai_totalAmount = ''9'', cai_currency = ''CKB'',
     cai_releaseMode = ''m'', cai_disputeMode = ''a'', cai_sourceType = None, cai_sourceUrl = None,
     cai_metadata = JNull\<rparr>"

text \<open>The database after a transaction that commits.\<close>

definition committed :: "'a dbtx \<Rightarrow> db \<Rightarrow> db" where
  "committed m s = (case m s of Inr (x, t) \<Rightarrow> t | Inl e \<Rightarrow> s)"

lemma committedI: "\<not> isl (m s) \<Longrightarrow> \<exists>x. m s = Inr (x, committed m s)"
  by (cases "m s") (auto simp: committed_def)

definition demo_reserved :: db where
  "demo_reserved = committed (reserveIdempotentRequest demo_env ''app'' demo_context) empty_db"

definition demo_create :: "json dbtx" where
  "demo_create = tx_bind (mutation_run demo_env demo_request ''app'' (CreateAgreement demo_agreement_input)) (\<lambda>result.
     tx_bind (storeIdempotentResponse demo_env ''app'' demo_context 201 (envelope demo_request result)) (\<lambda>_.
     tx_return result))"

lemma demo_reserved_eq: "reserveIdempotentRequest demo_env ''app'' demo_context empty_db = Inr (k, demo_reserved)
    \<longleftrightarrow> k = \<lparr>ik_appId = ''app'', ik_key = ''k'', ik_requestHash = demo_hash, ik_status = IS_pending,
        ik_responseStatus = None, ik_responseBody = None, ik_responseBytes = None,
        ik_processingExpiresAt = 60000, ik_expiresAt = 86400000\<rparr>"
  by (auto simp: demo_reserved_def committed_def reserveIdempotentRequest_def reserveIdempotencyKey_def tx_defs
      now_def insertRow_def empty_db_def demo_env_def demo_context_def)

text \<open>An upper bound of the size of a response that is cheap to evaluate.\<close>

primrec json_bound :: "json \<Rightarrow> nat" where
  "json_bound JNull = 4"
| "json_bound (JBool b) = 5"
| "json_bound (JNum n) = length (show_int n)"
| "json_bound (JStr s) = 6 * length s + 2"
| "json_bound (JArr xs) = sum_list (map (\<lambda>n. n + 1) (map json_bound xs)) + 2"
| "json_bound (JObj kvs) = sum_list (map (\<lambda>kv. 6 * length (fst kv) + 4 + snd kv) (map (map_prod (\<lambda>k. k) json_bound) kvs)) + 2"

lemma length_escape: "length (escape_char c) \<le> 6"
  by (simp add: escape_char_def Let_def)

lemma length_quote: "length (quote s) \<le> 6 * length s + 2"
proof -
  have "length (concat (map escape_char s)) \<le> 6 * length s"
  proof (induction s)
    case (Cons c s)
    then show ?case using length_escape [of c] by simp
  qed simp
  then show ?thesis by (simp add: quote_def)
qed

lemma length_join: "length (join '','' xs) \<le> sum_list (map (\<lambda>x. length x + 1) xs)"
  by (induction "'',''" xs rule: join.induct) auto

lemma length_members:
  assumes "\<And>kv. kv \<in> set kvs \<Longrightarrow> length (stringify (snd kv)) \<le> json_bound (snd kv)"
  shows "sum_list (map (\<lambda>x. length x + 1) (map (\<lambda>kv. quote (fst kv) @ '':'' @ snd kv) (map (map_prod (\<lambda>k. k) stringify) kvs)))
    \<le> sum_list (map (\<lambda>kv. 6 * length (fst kv) + 4 + snd kv) (map (map_prod (\<lambda>k. k) json_bound) kvs))"
  using assms
proof (induction kvs)
  case (Cons kv kvs)
  have "length (stringify (snd kv)) \<le> json_bound (snd kv)" by (rule Cons.prems) simp
  then show ?case using Cons.IH Cons.prems length_quote [of "fst kv"] by fastforce
qed simp

lemma byteLength_bound: "byteLength v \<le> json_bound v"
  unfolding byteLength_def
proof (induction v)
  case (JStr s)
  then show ?case using length_quote by simp
next
  case (JArr xs)
  have "sum_list (map (\<lambda>x. length x + 1) (map stringify xs)) \<le> sum_list (map (\<lambda>n. n + 1) (map json_bound xs))"
    using JArr by (induction xs) (fastforce)+
  then show ?case using length_join [of "map stringify xs"] by simp
next
  case (JObj kvs)
  have "\<And>kv. kv \<in> set kvs \<Longrightarrow> length (stringify (snd kv)) \<le> json_bound (snd kv)"
    by (rule JObj) (auto simp: snds.simps)
  then show ?case
    using length_members [of kvs]
      length_join [of "map (\<lambda>kv. quote (fst kv) @ '':'' @ snd kv) (map (map_prod (\<lambda>k. k) stringify) kvs)"]
    by simp
qed auto

lemma epoch_text: "toISOString 0 = ''1970-01-01T00:00:00.000Z''"
  by code_simp

lemma bounded_response: "json_bound v \<le> n \<Longrightarrow> \<not> n < byteLength v"
  using byteLength_bound [of v] by simp

lemmas eval_tx =
  tx_defs now_def insertRow_def freshId_def findFirst_def findMany_def findLatest_def updateMany_def Let_def

lemmas eval_demo = demo_env_def demo_request_def demo_context_def demo_agreement_input_def empty_db_def

lemma demo_reserved_eval [simp]:
  "demo_reserved = empty_db\<lparr>idempotencyKeys := [\<lparr>ik_appId = ''app'', ik_key = ''k'', ik_requestHash = demo_hash,
     ik_status = IS_pending, ik_responseStatus = None, ik_responseBody = None, ik_responseBytes = None,
     ik_processingExpiresAt = 60000, ik_expiresAt = 86400000\<rparr>]\<rparr>"
  by (simp add: demo_reserved_def committed_def reserveIdempotentRequest_def reserveIdempotencyKey_def eval_tx eval_demo)

lemma show_small: "show_nat 0 = ''0''" "show_nat (Suc 0) = ''1''" "show_nat 2 = ''2''" "show_nat 3 = ''3''"
  "show_nat 4 = ''4''" "show_nat 5 = ''5''"
  by code_simp+

lemmas eval_agreement =
  createAgreement_run_def createAgreement_def createEvent_def createWebhookDeliveriesForEvent_def
  auditLifecycleChange_def auditRequest_def createInfrastructureAuditLog_def storeIdempotentResponse_def
  completeIdempotencyKey_def key_is_def envelope_def serializeAgreement_def epoch_text jdate_def jobj_def
  jstr_opt_def normalizeStatus_def isAgreementStatus_def AGREEMENT_STATUSES_def

lemma demo_create_commits: "\<not> isl (demo_create demo_reserved)"
  by (simp add: demo_create_def eval_tx eval_demo show_small eval_agreement bounded_response)

text \<open>The agreement exists; then an escrow for it is reserved on the mock rail.\<close>

definition demo_created :: db where
  "demo_created = committed demo_create demo_reserved"

definition demo_escrow_input :: create_escrow_input where
  "demo_escrow_input = \<lparr>cei_agreementId = ''0'', cei_milestoneId = None, cei_amount = ''9'', cei_currency = ''CKB'',
     cei_rail = ''mock'', cei_network = ''sandbox'', cei_clientLockScript = None, cei_workerLockScript = None,
     cei_refundTimeoutSince = None\<rparr>"

definition demo_context2 :: context_key where
  "demo_context2 = \<lparr>ctx_key = ''k2'', ctx_requestHash = ''h2''\<rparr>"

definition demo_opened :: db where
  "demo_opened = committed (reserveEscrowCreation demo_env ''app'' demo_escrow_input demo_context2) demo_created"

lemma demo_create_run:
  obtains v s1 u where "createAgreement_run demo_env demo_request ''app'' demo_agreement_input demo_reserved = Inr (v, s1)"
    and "storeIdempotentResponse demo_env ''app'' demo_context 201 (envelope demo_request v) s1 = Inr (u, demo_created)"
proof -
  obtain x where "demo_create demo_reserved = Inr (x, demo_created)"
    using committedI [of demo_create demo_reserved, OF demo_create_commits] unfolding demo_created_def by blast
  then show thesis using that
    unfolding demo_create_def mutation_run.simps by (auto simp: tx_bind_iff tx_return_iff simp del: demo_reserved_eval)
qed

lemma store_core:
  assumes "storeIdempotentResponse E a ctx st body s = Inr (u, t)"
  shows "agreements t = agreements s" "milestones t = milestones s" "escrows t = escrows s"
    "transactions t = transactions s" "clock t = clock s"
    "map (\<lambda>k. (ik_appId k, ik_key k)) (idempotencyKeys t) = map (\<lambda>k. (ik_appId k, ik_key k)) (idempotencyKeys s)"
  using assms by (auto simp: storeIdempotentResponse_def completeIdempotencyKey_def Let_def tx_iff)

lemma demo_created_rows:
  "agreements demo_created = [new_agreement ''0'' ''app'' demo_agreement_input 0]" "milestones demo_created = []"
  "escrows demo_created = []" "transactions demo_created = []" "clock demo_created = 0"
  "map (\<lambda>k. (ik_appId k, ik_key k)) (idempotencyKeys demo_created) = [(''app'', ''k'')]"
proof -
  obtain v s1 u where c: "createAgreement_run demo_env demo_request ''app'' demo_agreement_input demo_reserved = Inr (v, s1)"
    and st: "storeIdempotentResponse demo_env ''app'' demo_context 201 (envelope demo_request v) s1 = Inr (u, demo_created)"
    by (rule demo_create_run)
  from createAgreement_run_effect [OF c]
  have "core s1 = core (agreements_update (\<lambda>rows. rows @ [new_agreement ''0'' ''app'' demo_agreement_input 0]) demo_reserved)"
    by (simp add: demo_env_def empty_db_def show_small)
  note core_eqD [OF this]
  with store_core [OF st]
  show "agreements demo_created = [new_agreement ''0'' ''app'' demo_agreement_input 0]" "milestones demo_created = []"
    "escrows demo_created = []" "transactions demo_created = []" "clock demo_created = 0"
    "map (\<lambda>k. (ik_appId k, ik_key k)) (idempotencyKeys demo_created) = [(''app'', ''k'')]"
    by (simp_all add: empty_db_def)
qed

lemma demo_amounts: "assertEscrowAmountWithinScope ''9'' ''9'' agreement_scope False = Inr ()"
  "assertCurrencyMatchesAgreement ''CKB'' ''CKB'' = Inr ()"
  by code_simp+

lemma demo_no_key: "\<forall>k\<in>set (idempotencyKeys demo_created). ik_key k = ''k''"
  using demo_created_rows(6) by auto

lemma demo_open_commits:
  "\<not> isl (reserveEscrowCreation demo_env ''app'' demo_escrow_input demo_context2 demo_created)"
  using demo_no_key
  by (simp add: reserveEscrowCreation_def assertEscrowAgreementScope_def findAgreementForApp_def agreement_is_def
      reserveIdempotentRequest_def reserveIdempotencyKey_def findTerminalEscrowForAgreement_def
      findActiveEscrowForScope_def createEscrow_def createTransaction_def demo_amounts idempotency_clash_def
      demo_context2_def demo_escrow_input_def demo_env_def demo_created_rows new_agreement_def
      demo_agreement_input_def eval_tx list_ex_iff)

lemma demo_created_run: "reachable demo_created"
proof -
  have "server_step empty_db demo_reserved"
    using demo_reserved_eq by (intro server_step.tenant txn_step.reserve) blast
  moreover have "server_step demo_reserved demo_created"
    using committedI [of demo_create demo_reserved, OF demo_create_commits] unfolding demo_create_def demo_created_def
    by (blast intro: server_step.tenant txn_step.mutate)
  ultimately show ?thesis by auto
qed

lemma demo_run: "reachable demo_opened"
proof -
  have "server_step demo_created demo_opened"
    using committedI [of "reserveEscrowCreation demo_env ''app'' demo_escrow_input demo_context2" demo_created,
        OF demo_open_commits] unfolding demo_opened_def
    by (blast intro: server_step.tenant txn_step.escrow_reserve)
  then show ?thesis using demo_created_run by auto
qed

text \<open>The handler that creates the agreement, run on the empty database.\<close>

lemma demo_header: "idempotencyHeader demo_request = Inr ''k''"
  by code_simp

lemma demo_handled: "\<exists>v. handle demo_env demo_ckb demo_request ''app'' (Mutate (CreateAgreement demo_agreement_input)) empty_db
    = (Inr v, demo_created)"
proof -
  obtain k where r: "reserveIdempotentRequest demo_env ''app'' demo_context empty_db = Inr (k, demo_reserved)"
    using demo_reserved_eq by blast
  obtain v where c: "demo_create demo_reserved = Inr (v, demo_created)"
    using committedI [of demo_create demo_reserved, OF demo_create_commits] by (auto simp: demo_created_def)
  have e: "idempotencyKeys empty_db = []" by (simp add: empty_db_def)
  have x: "demo_context = \<lparr>ctx_key = ''k'', ctx_requestHash = requestHashOf demo_env demo_request\<rparr>"
    by (simp add: demo_context_def demo_hash_def)
  have "sweepKey ''app'' ''k'' empty_db = empty_db" by (simp add: sweepKey_def e)
  then show ?thesis using c r
    by (simp add: handle_mutation run_cases [OF demo_header x] e judgeExisting_def pr_catch_def atomically_def
        demo_create_def)
qed

text \<open>An approved agreement with a funded escrow on the mock rail.\<close>

definition demo_escrow :: escrow where
  "demo_escrow = \<lparr>es_id = ''e'', es_appId = ''app'', es_agreementId = ''0'', es_milestoneId = None, es_amount = ''9'',
     es_currency = ''CKB'', es_rail = ''mock'', es_network = ''sandbox'', es_status = ES_funded, es_lockAddress = None,
     es_lockTxHash = None, es_lockOutputIndex = None, es_lockScript = None, es_clientLockScript = None,
     es_workerLockScript = None, es_cellData = None, es_contractVersion = None, es_refundTimeoutSince = None,
     es_releaseTxHash = None, es_refundTxHash = None, es_createdAt = 0, es_updatedAt = 0\<rparr>"

definition demo_funded :: db where
  "demo_funded = empty_db\<lparr>agreements := [(new_agreement ''0'' ''app'' demo_agreement_input 0)\<lparr>ag_status := AS_approved\<rparr>],
     escrows := [demo_escrow], clock := 7\<rparr>"

lemma demo_settles:
  "\<not> isl (reserveEscrowSettlement demo_env demo_request ''app'' ''e'' Release demo_context demo_funded)"
  by (simp add: reserveEscrowSettlement_def reserveIdempotentRequest_def reserveIdempotencyKey_def findEscrowForApp_def
      findAgreementForApp_def agreement_is_def escrow_is_def assertReleaseAllowed_def assertStatus_def
      assertEscrowTransition_def canTransitionEscrow_def settlementPendingStatus_def isEscrowStatus_def
      ESCROW_STATUSES_def isAgreementStatus_def AGREEMENT_STATUSES_def transitionEscrowStatus_def truthy_def
      createTransaction_def createEvent_def createWebhookDeliveriesForEvent_def auditEscrow_def auditRequest_def
      createInfrastructureAuditLog_def res_require_def demo_funded_def demo_escrow_def new_agreement_def eval_demo
      eval_tx)

definition demo_settling :: db where
  "demo_settling = committed (reserveEscrowSettlement demo_env demo_request ''app'' ''e'' Release demo_context) demo_funded"

lemma demo_settling_reserved:
  "\<exists>rs. reserveEscrowSettlement demo_env demo_request ''app'' ''e'' Release demo_context demo_funded = Inr (rs, demo_settling)"
  unfolding demo_settling_def by (rule committedI) (rule demo_settles)

lemma demo_settling_recorded:
  "\<exists>x. x \<in> set (transactions demo_settling) \<and> tr_appId x = ''app'' \<and> tr_operationId x = Some (''e'', operation_type Release)"
proof -
  obtain rs where "reserveEscrowSettlement demo_env demo_request ''app'' ''e'' Release demo_context demo_funded = Inr (rs, demo_settling)"
    using demo_settling_reserved by blast
  then show ?thesis by (rule reserveEscrowSettlement_effect) auto
qed

lemma demo_retention: "0 < idempotencyRetentionMs demo_env"
  by (simp add: demo_env_def)

text \<open>A key in use for another request, and a mutation that fails.\<close>

definition demo_used :: db where
  "demo_used = empty_db\<lparr>idempotencyKeys := [\<lparr>ik_appId = ''app'', ik_key = ''k'', ik_requestHash = ''other'',
     ik_status = IS_completed, ik_responseStatus = Some 200, ik_responseBody = Some JNull, ik_responseBytes = None,
     ik_processingExpiresAt = 60000, ik_expiresAt = 86400000\<rparr>]\<rparr>"

lemma demo_used_key:
  "List.find (key_is ''app'' ''k'') (idempotencyKeys demo_used) = Some (hd (idempotencyKeys demo_used))"
  "\<not> expired_key (clock demo_used) (hd (idempotencyKeys demo_used))"
  by (simp_all add: demo_used_def key_is_def empty_db_def expired_key_def)

lemma demo_used_hash: "ik_requestHash (hd (idempotencyKeys demo_used)) \<noteq> requestHashOf demo_env demo_request"
  by (simp add: requestHashOf_def createRequestHash_def demo_env_def demo_used_def)

lemma demo_sweep: "sweepKey ''app'' ''k'' empty_db = empty_db"
  by (simp add: sweepKey_def empty_db_def)

lemma demo_fails:
  "handle demo_env demo_ckb demo_request ''app'' (Mutate (AcceptAgreement ''0'')) empty_db
     = (Inl (notFound ''agreement_not_found''), snd (handle demo_env demo_ckb demo_request ''app'' (Mutate (AcceptAgreement ''0'')) empty_db))"
  by (simp add: handle_mutation run_cases [OF demo_header refl] sweepKey_def judgeExisting_def pr_catch_def atomically_def
      reserveIdempotentRequest_def reserveIdempotencyKey_def acceptAgreement_run_def findAgreementForApp_def
      idempotentFailure_def pr_defs isUniqueConstraintError_def clearPendingIdempotentRequest_def
      deletePendingIdempotencyKey_def deleteMany_def error_defs eval_tx empty_db_def)

lemma demo_fails_otherwise: "notFound ''agreement_not_found'' \<noteq> conflict ''idempotency_key_in_progress''"
  by (simp add: error_defs)

end
