(* ===== verification/Reads.thy ===== *)
theory Reads
  imports Gateway Operations
begin

text \<open>
  The routes of the application API that only read: the \<open>router.get\<close> entries of the \<open>*.routes.ts\<close> files, the
  query schemas of the \<open>*.validation.ts\<close> files, \<open>validateQuery\<close>, the list and get functions of the
  controllers and \<open>sendList\<close>. The query string arrives as the object that Express makes of it. The
  payload limits do nothing for \<open>GET\<close>. The lemmas show that a read changes no business row and that its
  answer is determined by the rows of the tenant, as long as its cursor is not a row of another tenant.
\<close>

section \<open>Query schemas\<close>

text \<open>\<open>Number(value)\<close> on what a query string can hold.\<close>

fun js_number_of :: "json \<Rightarrow> rat option" where
  "js_number_of JNull = Some 0"
| "js_number_of (JBool b) = Some (if b then 1 else 0)"
| "js_number_of (JNum n) = Some (of_int n)"
| "js_number_of (JStr s) = js_Number s"
| "js_number_of (JArr []) = Some 0"
| "js_number_of (JArr [v]) = (case v of JBool _ \<Rightarrow> None | _ \<Rightarrow> js_number_of v)"
| "js_number_of (JArr (_ # _ # _)) = None"
| "js_number_of (JObj _) = None"

text \<open>\<open>z.coerce.number().int().min(lo).max(hi)\<close>\<close>

definition z_coerce_int :: "int \<Rightarrow> int \<Rightarrow> schema" where
  "z_coerce_int lo hi v = (case Option.bind v js_number_of of
       None \<Rightarrow> None
     | Some x \<Rightarrow> if x = of_int \<lfloor>x\<rfloor> \<and> lo \<le> \<lfloor>x\<rfloor> \<and> \<lfloor>x\<rfloor> \<le> hi then Some (Some (JNum \<lfloor>x\<rfloor>)) else None)"

definition page_fields :: "(string \<times> schema) list" where
  "page_fields = [(''limit'', z_default (JNum 20) (z_coerce_int 1 100)), (''cursor'', z_optional (z_string (\<lambda>_. True)))]"

definition uuid_field :: "formats \<Rightarrow> string \<Rightarrow> string \<times> schema" where
  "uuid_field F name = (name, z_optional (z_string (fm_uuid F)))"

definition agreementListQuerySchema :: schema where
  "agreementListQuerySchema = z_object ([
     (''status'', z_optional (z_enum (map agreement_status_name AGREEMENT_STATUSES))),
     (''externalReferenceId'', z_optional (z_text 1 160))] @ page_fields)"

definition milestoneListQuerySchema :: "formats \<Rightarrow> schema" where
  "milestoneListQuerySchema F = z_object ([uuid_field F ''agreementId'', (''status'', z_optional (z_text 1 80))] @ page_fields)"

definition escrowListQuerySchema :: "formats \<Rightarrow> schema" where
  "escrowListQuerySchema F = z_object ([uuid_field F ''agreementId'', (''status'', z_optional (z_text 1 80))] @ page_fields)"

definition transactionListQuerySchema :: "formats \<Rightarrow> schema" where
  "transactionListQuerySchema F = z_object ([uuid_field F ''escrowId'', uuid_field F ''agreementId''] @ page_fields)"

definition proofListQuerySchema :: "formats \<Rightarrow> schema" where
  "proofListQuerySchema F = z_object ([uuid_field F ''agreementId'', uuid_field F ''milestoneId'',
     (''status'', z_optional (z_enum (map proof_status_name PROOF_STATUSES)))] @ page_fields)"

definition reviewListQuerySchema :: "formats \<Rightarrow> schema" where
  "reviewListQuerySchema F = z_object ([uuid_field F ''agreementId'', uuid_field F ''milestoneId'', uuid_field F ''proofSubmissionId'',
     (''decision'', z_optional (z_enum [''approved'', ''rejected'', ''needs_changes'']))] @ page_fields)"

definition disputeListQuerySchema :: "formats \<Rightarrow> schema" where
  "disputeListQuerySchema F = z_object ([uuid_field F ''agreementId'', uuid_field F ''milestoneId'',
     (''status'', z_optional (z_enum (map dispute_status_name DISPUTE_STATUSES)))] @ page_fields)"

definition eventListQuerySchema :: "formats \<Rightarrow> schema" where
  "eventListQuerySchema F = z_object ([(''type'', z_optional (z_text 1 120)), uuid_field F ''agreementId''] @ page_fields)"

definition webhookEndpointListQuerySchema :: schema where
  "webhookEndpointListQuerySchema = z_object ([(''status'', z_optional (z_enum [''active'', ''disabled'']))] @ page_fields)"

definition webhookDeliveryListQuerySchema :: "formats \<Rightarrow> schema" where
  "webhookDeliveryListQuerySchema F = z_object ([uuid_field F ''endpointId'', uuid_field F ''eventId'',
     (''status'', z_optional (z_enum [''pending'', ''delivered'', ''failed'']))] @ page_fields)"

definition auditLogListQuerySchema :: schema where
  "auditLogListQuerySchema = z_object page_fields"

definition validateQuery :: "schema \<Rightarrow> json \<Rightarrow> error + json" where
  "validateQuery sch query = (case sch (Some query) of Some (Some v) \<Rightarrow> Inr v | _ \<Rightarrow> Inl ZodError)"

section \<open>Routes\<close>

datatype read_route =
    GetAgreements | GetAgreement string | GetAgreementMilestones string
  | GetMilestones | GetMilestone string
  | GetEscrows | GetEscrow string | GetTransactions
  | GetProofs | GetProof string | GetReviews
  | GetDisputes | GetDispute string
  | GetEvents | GetEvent string
  | GetEndpoints | GetEndpoint string | GetDeliveries | GetDelivery string
  | GetAuditLogs | GetCurrentApp

text \<open>The scopes, of which one is needed, and the query schema that each route file puts before its controllers.\<close>

type_synonym get_entry = "string list \<times> schema option"

fun agreement_gets :: "formats \<Rightarrow> read_route \<Rightarrow> get_entry option" where
  "agreement_gets F GetAgreements = Some ([''agreements:read''], Some agreementListQuerySchema)"
| "agreement_gets F (GetAgreement _) = Some ([''agreements:read''], None)"
| "agreement_gets F (GetAgreementMilestones _) = Some ([''milestones:read''], Some (milestoneListQuerySchema F))"
| "agreement_gets F _ = None"

fun milestone_gets :: "formats \<Rightarrow> read_route \<Rightarrow> get_entry option" where
  "milestone_gets F GetMilestones = Some ([''milestones:read''], Some (milestoneListQuerySchema F))"
| "milestone_gets F (GetMilestone _) = Some ([''milestones:read''], None)"
| "milestone_gets F _ = None"

fun escrow_gets :: "formats \<Rightarrow> read_route \<Rightarrow> get_entry option" where
  "escrow_gets F GetEscrows = Some ([''escrows:read''], Some (escrowListQuerySchema F))"
| "escrow_gets F (GetEscrow _) = Some ([''escrows:read''], None)"
| "escrow_gets F _ = None"

fun transaction_gets :: "formats \<Rightarrow> read_route \<Rightarrow> get_entry option" where
  "transaction_gets F GetTransactions = Some ([''escrows:read'', ''admin:read''], Some (transactionListQuerySchema F))"
| "transaction_gets F _ = None"

fun proof_gets :: "formats \<Rightarrow> read_route \<Rightarrow> get_entry option" where
  "proof_gets F GetProofs = Some ([''proofs:read''], Some (proofListQuerySchema F))"
| "proof_gets F (GetProof _) = Some ([''proofs:read''], None)"
| "proof_gets F _ = None"

fun review_gets :: "formats \<Rightarrow> read_route \<Rightarrow> get_entry option" where
  "review_gets F GetReviews = Some ([''proofs:read''], Some (reviewListQuerySchema F))"
| "review_gets F _ = None"

fun dispute_gets :: "formats \<Rightarrow> read_route \<Rightarrow> get_entry option" where
  "dispute_gets F GetDisputes = Some ([''disputes:read''], Some (disputeListQuerySchema F))"
| "dispute_gets F (GetDispute _) = Some ([''disputes:read''], None)"
| "dispute_gets F _ = None"

fun event_gets :: "formats \<Rightarrow> read_route \<Rightarrow> get_entry option" where
  "event_gets F GetEvents = Some ([''events:read''], Some (eventListQuerySchema F))"
| "event_gets F (GetEvent _) = Some ([''events:read''], None)"
| "event_gets F _ = None"

fun endpoint_gets :: "formats \<Rightarrow> read_route \<Rightarrow> get_entry option" where
  "endpoint_gets F GetEndpoints = Some ([''webhooks:read''], Some webhookEndpointListQuerySchema)"
| "endpoint_gets F (GetEndpoint _) = Some ([''webhooks:read''], None)"
| "endpoint_gets F _ = None"

fun delivery_gets :: "formats \<Rightarrow> read_route \<Rightarrow> get_entry option" where
  "delivery_gets F GetDeliveries = Some ([''webhooks:read''], Some (webhookDeliveryListQuerySchema F))"
| "delivery_gets F (GetDelivery _) = Some ([''webhooks:read''], None)"
| "delivery_gets F _ = None"

fun auditLog_gets :: "formats \<Rightarrow> read_route \<Rightarrow> get_entry option" where
  "auditLog_gets F GetAuditLogs = Some ([''apps:read''], Some auditLogListQuerySchema)"
| "auditLog_gets F _ = None"

fun app_gets :: "formats \<Rightarrow> read_route \<Rightarrow> get_entry option" where
  "app_gets F GetCurrentApp = Some ([''apps:read''], None)"
| "app_gets F _ = None"

definition get_entry_of :: "formats \<Rightarrow> read_route \<Rightarrow> get_entry" where
  "get_entry_of F rt = hd (List.map_filter (\<lambda>f. f F rt)
     [agreement_gets, milestone_gets, escrow_gets, transaction_gets, proof_gets, review_gets, dispute_gets, event_gets,
      endpoint_gets, delivery_gets, auditLog_gets, app_gets])"

section \<open>Queries\<close>

text \<open>The status a text stands for in the column of strings.\<close>

definition named :: "('a \<Rightarrow> string) \<Rightarrow> 'a list \<Rightarrow> (string \<Rightarrow> 'a) \<Rightarrow> string \<Rightarrow> 'a" where
  "named name xs other s = (case List.find (\<lambda>x. name x = s) xs of Some x \<Rightarrow> x | None \<Rightarrow> other s)"

text \<open>\<open>params.cursor ? ... : {}\<close>: the empty cursor is no cursor.\<close>

definition query_cursor :: "json \<Rightarrow> string option" where
  "query_cursor v = (case str_opt ''cursor'' v of None \<Rightarrow> None | Some c \<Rightarrow> if c = [] then None else Some c)"

definition query_limit :: "json \<Rightarrow> nat" where
  "query_limit v = (case num_opt ''limit'' v of None \<Rightarrow> 20 | Some n \<Rightarrow> nat n)"

definition agreement_query_of :: "json \<Rightarrow> agreement_query" where
  "agreement_query_of v = \<lparr>agq_status = map_option (named agreement_status_name AGREEMENT_STATUSES AS_other) (str_opt ''status'' v),
     agq_externalReferenceId = str_opt ''externalReferenceId'' v, agq_limit = query_limit v, agq_cursor = query_cursor v\<rparr>"

definition milestone_query_of :: "json \<Rightarrow> milestone_query" where
  "milestone_query_of v = \<lparr>msq_agreementId = str_opt ''agreementId'' v,
     msq_status = map_option (named milestone_status_name MILESTONE_STATUSES MS_other) (str_opt ''status'' v),
     msq_limit = query_limit v, msq_cursor = query_cursor v\<rparr>"

definition escrow_query_of :: "json \<Rightarrow> escrow_query" where
  "escrow_query_of v = \<lparr>esq_agreementId = str_opt ''agreementId'' v,
     esq_status = map_option (named escrow_status_name ESCROW_STATUSES ES_other) (str_opt ''status'' v),
     esq_limit = query_limit v, esq_cursor = query_cursor v\<rparr>"

definition transaction_query_of :: "json \<Rightarrow> transaction_query" where
  "transaction_query_of v = \<lparr>trq_escrowId = str_opt ''escrowId'' v, trq_agreementId = str_opt ''agreementId'' v,
     trq_limit = query_limit v, trq_cursor = query_cursor v\<rparr>"

definition proof_query_of :: "json \<Rightarrow> proof_query" where
  "proof_query_of v = \<lparr>pfq_agreementId = str_opt ''agreementId'' v, pfq_milestoneId = str_opt ''milestoneId'' v,
     pfq_status = map_option (named proof_status_name PROOF_STATUSES PS_other) (str_opt ''status'' v),
     pfq_limit = query_limit v, pfq_cursor = query_cursor v\<rparr>"

definition review_query_of :: "json \<Rightarrow> review_query" where
  "review_query_of v = \<lparr>rvq_agreementId = str_opt ''agreementId'' v, rvq_milestoneId = str_opt ''milestoneId'' v,
     rvq_proofSubmissionId = str_opt ''proofSubmissionId'' v, rvq_decision = map_option decision_of (str_opt ''decision'' v),
     rvq_limit = query_limit v, rvq_cursor = query_cursor v\<rparr>"

definition dispute_query_of :: "json \<Rightarrow> dispute_query" where
  "dispute_query_of v = \<lparr>dpq_agreementId = str_opt ''agreementId'' v, dpq_milestoneId = str_opt ''milestoneId'' v,
     dpq_status = map_option (named dispute_status_name DISPUTE_STATUSES DS_other) (str_opt ''status'' v),
     dpq_limit = query_limit v, dpq_cursor = query_cursor v\<rparr>"

definition event_query_of :: "json \<Rightarrow> event_query" where
  "event_query_of v = \<lparr>evq_type = str_opt ''type'' v, evq_agreementId = str_opt ''agreementId'' v,
     evq_limit = query_limit v, evq_cursor = query_cursor v\<rparr>"

definition endpoint_query_of :: "json \<Rightarrow> endpoint_query" where
  "endpoint_query_of v = \<lparr>enq_status = str_opt ''status'' v, enq_limit = query_limit v, enq_cursor = query_cursor v\<rparr>"

definition delivery_query_of :: "json \<Rightarrow> delivery_query" where
  "delivery_query_of v = \<lparr>deq_endpointId = str_opt ''endpointId'' v, deq_eventId = str_opt ''eventId'' v,
     deq_status = str_opt ''status'' v, deq_limit = query_limit v, deq_cursor = query_cursor v\<rparr>"

section \<open>Controllers and answers\<close>

datatype answer = One json | Many "json page"

definition read_tx :: "'a dbtx \<Rightarrow> db \<Rightarrow> error + 'a" where
  "read_tx m s = (case m s of Inl e \<Rightarrow> Inl e | Inr (x, t) \<Rightarrow> Inr x)"

definition get_one :: "json dbtx \<Rightarrow> db \<Rightarrow> error + answer" where
  "get_one m s = res_bind (read_tx m s) (\<lambda>v. Inr (One v))"

definition list_many :: "(db \<Rightarrow> json page) \<Rightarrow> db \<Rightarrow> error + answer" where
  "list_many f s = Inr (Many (f s))"

fun agreement_reads :: "string \<Rightarrow> read_route \<Rightarrow> json \<Rightarrow> (db \<Rightarrow> error + answer) option" where
  "agreement_reads a GetAgreements q = Some (list_many (listAgreementsForApp a (agreement_query_of q)))"
| "agreement_reads a (GetAgreement i) q = Some (get_one (getAgreementForApp a i))"
| "agreement_reads a _ q = None"

fun milestone_reads :: "string \<Rightarrow> read_route \<Rightarrow> json \<Rightarrow> (db \<Rightarrow> error + answer) option" where
  "milestone_reads a (GetAgreementMilestones i) q = Some (
     \<lambda>s. res_bind (read_tx (listMilestonesForAgreement a i (milestone_query_of q)) s) (\<lambda>p. Inr (Many p)))"
| "milestone_reads a GetMilestones q = Some (list_many (listMilestonesForApp a (milestone_query_of q)))"
| "milestone_reads a (GetMilestone i) q = Some (get_one (getMilestoneForApp a i))"
| "milestone_reads a _ q = None"

fun escrow_reads :: "string \<Rightarrow> read_route \<Rightarrow> json \<Rightarrow> (db \<Rightarrow> error + answer) option" where
  "escrow_reads a GetEscrows q = Some (list_many (listEscrowsForApp a (escrow_query_of q)))"
| "escrow_reads a (GetEscrow i) q = Some (get_one (getEscrowForApp a i))"
| "escrow_reads a _ q = None"

fun transaction_reads :: "string \<Rightarrow> read_route \<Rightarrow> json \<Rightarrow> (db \<Rightarrow> error + answer) option" where
  "transaction_reads a GetTransactions q = Some (list_many (listAppTransactions a (transaction_query_of q)))"
| "transaction_reads a _ q = None"

fun proof_reads :: "string \<Rightarrow> read_route \<Rightarrow> json \<Rightarrow> (db \<Rightarrow> error + answer) option" where
  "proof_reads a GetProofs q = Some (list_many (listProofsForApp a (proof_query_of q)))"
| "proof_reads a (GetProof i) q = Some (get_one (getProofForApp a i))"
| "proof_reads a _ q = None"

fun review_reads :: "string \<Rightarrow> read_route \<Rightarrow> json \<Rightarrow> (db \<Rightarrow> error + answer) option" where
  "review_reads a GetReviews q = Some (list_many (listReviewsForApp a (review_query_of q)))"
| "review_reads a _ q = None"

fun dispute_reads :: "string \<Rightarrow> read_route \<Rightarrow> json \<Rightarrow> (db \<Rightarrow> error + answer) option" where
  "dispute_reads a GetDisputes q = Some (list_many (listDisputesForApp a (dispute_query_of q)))"
| "dispute_reads a (GetDispute i) q = Some (get_one (getDisputeForApp a i))"
| "dispute_reads a _ q = None"

fun event_reads :: "string \<Rightarrow> read_route \<Rightarrow> json \<Rightarrow> (db \<Rightarrow> error + answer) option" where
  "event_reads a GetEvents q = Some (list_many (listAppEvents a (event_query_of q)))"
| "event_reads a (GetEvent i) q = Some (get_one (getAppEvent a i))"
| "event_reads a _ q = None"

fun endpoint_reads :: "string \<Rightarrow> read_route \<Rightarrow> json \<Rightarrow> (db \<Rightarrow> error + answer) option" where
  "endpoint_reads a GetEndpoints q = Some (list_many (listWebhookEndpointsForApp a (endpoint_query_of q)))"
| "endpoint_reads a (GetEndpoint i) q = Some (get_one (getWebhookEndpointForApp a i))"
| "endpoint_reads a _ q = None"

fun delivery_reads :: "string \<Rightarrow> read_route \<Rightarrow> json \<Rightarrow> (db \<Rightarrow> error + answer) option" where
  "delivery_reads a GetDeliveries q = Some (list_many (listWebhookDeliveriesForApp a (delivery_query_of q)))"
| "delivery_reads a (GetDelivery i) q = Some (get_one (getWebhookDeliveryForApp a i))"
| "delivery_reads a _ q = None"

fun auditLog_reads :: "string \<Rightarrow> read_route \<Rightarrow> json \<Rightarrow> (db \<Rightarrow> error + answer) option" where
  "auditLog_reads a GetAuditLogs q = Some (list_many (listAppAuditLogs a (query_limit q) (query_cursor q)))"
| "auditLog_reads a _ q = None"

fun app_reads :: "app_row \<Rightarrow> read_route \<Rightarrow> (db \<Rightarrow> error + answer) option" where
  "app_reads app GetCurrentApp = Some (\<lambda>s. res_bind (getCurrentApiKeyApp (Some app)) (\<lambda>v. Inr (One v)))"
| "app_reads app _ = None"

definition read_controller :: "app_row \<Rightarrow> string \<Rightarrow> read_route \<Rightarrow> json \<Rightarrow> db \<Rightarrow> error + answer" where
  "read_controller app a rt q = hd (List.map_filter (\<lambda>r. r) (app_reads app rt # map (\<lambda>f. f a rt q)
     [agreement_reads, milestone_reads, escrow_reads, transaction_reads, proof_reads, review_reads, dispute_reads, event_reads,
      endpoint_reads, delivery_reads, auditLog_reads]))"

definition sendList :: "string \<Rightarrow> json page \<Rightarrow> nat \<times> json" where
  "sendList requestId p = (200, JObj [(''data'', JArr (pg_data p)),
     (''pagination'', JObj [(''limit'', JNum (int (pg_limit p))), (''cursor'', jstr_opt (pg_cursor p))]),
     (''requestId'', JStr requestId)])"

fun send_answer :: "string \<Rightarrow> answer \<Rightarrow> nat \<times> json" where
  "send_answer requestId (One v) = sendSuccess requestId v 200"
| "send_answer requestId (Many p) = sendList requestId p"

text \<open>\<open>requireScope\<close> on the routes with one scope, \<open>requireAnyScope\<close> on the transactions.\<close>

definition read_guard :: "string list \<Rightarrow> api_key \<Rightarrow> error + unit" where
  "read_guard scopes k = (case scopes of [sc] \<Rightarrow> requireScope sc (Some k) | scs \<Rightarrow> requireAnyScope scs (Some k))"

definition admit_read ::
  "gateway_config \<Rightarrow> env \<Rightarrow> formats \<Rightarrow> http_request \<Rightarrow> json \<Rightarrow> read_route \<Rightarrow> (app_row \<times> string \<times> json) gwproc" where
  "admit_read C E F http query rt =
     pr_bind (v1IpRateLimit C E http) (\<lambda>_.
     pr_bind (requireApiKey C E http) (\<lambda>(k, app, tenant).
     pr_bind (pr_lift (read_guard (fst (get_entry_of F rt)) k)) (\<lambda>_.
     pr_bind (pr_lift (case snd (get_entry_of F rt) of None \<Rightarrow> Inr query | Some sch \<Rightarrow> validateQuery sch query)) (\<lambda>q.
     pr_return (app, tenant, q)))))"

definition serve_read ::
  "gateway_config \<Rightarrow> env \<Rightarrow> formats \<Rightarrow> http_request \<Rightarrow> json \<Rightarrow> read_route \<Rightarrow> gateway \<Rightarrow> (nat \<times> json) \<times> gateway" where
  "serve_read C E F http query rt g =
     (case pr_bind (admit_read C E F http query rt) (\<lambda>(app, tenant, q) h.
         (read_controller app tenant rt q (pl_db (gw_platform h)), h)) g of
       (Inl e, h) \<Rightarrow> (errorHandler (requestContext http) e, h)
     | (Inr v, h) \<Rightarrow> (send_answer (requestContext http) v, h))"

section \<open>Reads depend on the rows of the tenant only\<close>

definition own_rows :: "string \<Rightarrow> db \<Rightarrow> db \<Rightarrow> bool" where
  "own_rows a s t \<longleftrightarrow>
     filter (\<lambda>r. ag_appId r = a) (agreements s) = filter (\<lambda>r. ag_appId r = a) (agreements t)
     \<and> filter (\<lambda>r. ms_appId r = a) (milestones s) = filter (\<lambda>r. ms_appId r = a) (milestones t)
     \<and> filter (\<lambda>r. es_appId r = a) (escrows s) = filter (\<lambda>r. es_appId r = a) (escrows t)
     \<and> filter (\<lambda>r. tr_appId r = a) (transactions s) = filter (\<lambda>r. tr_appId r = a) (transactions t)
     \<and> filter (\<lambda>r. pf_appId r = a) (proofs s) = filter (\<lambda>r. pf_appId r = a) (proofs t)
     \<and> filter (\<lambda>r. rv_appId r = a) (reviews s) = filter (\<lambda>r. rv_appId r = a) (reviews t)
     \<and> filter (\<lambda>r. dp_appId r = a) (disputes s) = filter (\<lambda>r. dp_appId r = a) (disputes t)
     \<and> filter (\<lambda>r. ev_appId r = a) (events s) = filter (\<lambda>r. ev_appId r = a) (events t)
     \<and> filter (\<lambda>r. we_appId r = a) (endpoints s) = filter (\<lambda>r. we_appId r = a) (endpoints t)
     \<and> filter (\<lambda>r. wd_appId r = a) (deliveries s) = filter (\<lambda>r. wd_appId r = a) (deliveries t)
     \<and> filter (\<lambda>r. al_appId r = Some a) (auditLogs s) = filter (\<lambda>r. al_appId r = Some a) (auditLogs t)"

text \<open>No row of another tenant has the identifier \<open>c\<close>.\<close>

definition own_cursor :: "string \<Rightarrow> string option \<Rightarrow> db \<Rightarrow> bool" where
  "own_cursor a cursor s \<longleftrightarrow> (case cursor of None \<Rightarrow> True | Some c \<Rightarrow>
     (\<forall>r\<in>set (agreements s). ag_id r = c \<longrightarrow> ag_appId r = a) \<and> (\<forall>r\<in>set (milestones s). ms_id r = c \<longrightarrow> ms_appId r = a)
     \<and> (\<forall>r\<in>set (escrows s). es_id r = c \<longrightarrow> es_appId r = a) \<and> (\<forall>r\<in>set (transactions s). tr_id r = c \<longrightarrow> tr_appId r = a)
     \<and> (\<forall>r\<in>set (proofs s). pf_id r = c \<longrightarrow> pf_appId r = a) \<and> (\<forall>r\<in>set (reviews s). rv_id r = c \<longrightarrow> rv_appId r = a)
     \<and> (\<forall>r\<in>set (disputes s). dp_id r = c \<longrightarrow> dp_appId r = a) \<and> (\<forall>r\<in>set (events s). ev_id r = c \<longrightarrow> ev_appId r = a)
     \<and> (\<forall>r\<in>set (endpoints s). we_id r = c \<longrightarrow> we_appId r = a) \<and> (\<forall>r\<in>set (deliveries s). wd_id r = c \<longrightarrow> wd_appId r = a)
     \<and> (\<forall>r\<in>set (auditLogs s). al_id r = c \<longrightarrow> al_appId r = Some a))"

lemma filter_own:
  assumes "filter own xs = filter own ys" and "\<And>r. p r \<Longrightarrow> own r"
  shows "filter p xs = filter p ys"
proof -
  have "filter p zs = filter p (filter own zs)" for zs using assms(2) by (induction zs) auto
  then show ?thesis using assms(1) by metis
qed

lemma find_own:
  assumes "filter own xs = filter own ys" and "\<And>r. r \<in> set xs \<union> set ys \<Longrightarrow> p r \<Longrightarrow> own r"
  shows "List.find p xs = List.find p ys"
proof -
  have "List.find p zs = List.find p (filter own zs)" if "\<And>r. r \<in> set zs \<Longrightarrow> p r \<Longrightarrow> own r" for zs
    using that by (induction zs) auto
  then show ?thesis using assms by (metis UnCI)
qed

lemma find_page_own:
  assumes "filter own xs = filter own ys"
    and "cursor = None \<or> (\<forall>r\<in>set xs \<union> set ys. ident r = the cursor \<longrightarrow> own r)"
  shows "find_page le ident xs ordered n cursor = find_page le ident ys ordered n cursor"
proof (cases cursor)
  case (Some c)
  then have "List.find (\<lambda>r. ident r = c) xs = List.find (\<lambda>r. ident r = c) ys"
    using assms(2) by (intro find_own [OF assms(1)]) auto
  with Some show ?thesis by (simp add: find_page_def)
qed (simp add: find_page_def)

lemma list_desc_own:
  assumes "filter own xs = filter own ys" and "\<And>r. p r \<Longrightarrow> own r"
    and "cursor = None \<or> (\<forall>r\<in>set xs \<union> set ys. ident r = the cursor \<longrightarrow> own r)"
  shows "list_desc created ident p n cursor xs = list_desc created ident p n cursor ys"
proof -
  have "filter p xs = filter p ys" by (rule filter_own [OF assms(1)]) (rule assms(2))
  then show ?thesis by (simp add: list_desc_def find_page_own [OF assms(1,3)])
qed

lemma read_found:
  "read_tx (tx_bind (findFirst tab p) (\<lambda>found. tx_bind (tx_some e found) k)) s =
     (case List.find p (tab s) of None \<Rightarrow> Inl e | Some r \<Rightarrow> read_tx (k r) s)"
  "read_tx (tx_return v) s = Inr v" "read_tx (tx_gets f) s = Inr (f s)"
  by (simp_all add: read_tx_def tx_bind_def findFirst_def tx_gets_def tx_some_def tx_throw_def tx_return_def
      split: option.split)

text \<open>What a query can select is a row of the tenant.\<close>

lemma selected_own:
  "agreement_selected a aq r1 \<Longrightarrow> ag_appId r1 = a" "milestone_selected a mq r2 \<Longrightarrow> ms_appId r2 = a"
  "escrow_selected a eq r3 \<Longrightarrow> es_appId r3 = a" "transaction_selected a tq r4 \<Longrightarrow> tr_appId r4 = a"
  "proof_selected a pq r5 \<Longrightarrow> pf_appId r5 = a" "review_selected a rq r6 \<Longrightarrow> rv_appId r6 = a"
  "dispute_selected a dq r7 \<Longrightarrow> dp_appId r7 = a" "event_selected a vq r8 \<Longrightarrow> ev_appId r8 = a"
  "endpoint_selected a nq r9 \<Longrightarrow> we_appId r9 = a" "delivery_selected a lq r10 \<Longrightarrow> wd_appId r10 = a"
  "allocated_to a i r2 \<Longrightarrow> ms_appId r2 = a"
  by (simp_all add: agreement_selected_def milestone_selected_def escrow_selected_def transaction_selected_def
      proof_selected_def review_selected_def dispute_selected_def event_selected_def endpoint_selected_def
      delivery_selected_def allocated_to_def)

lemma named_own:
  "agreement_is a i r1 \<Longrightarrow> ag_appId r1 = a" "milestone_is a i r2 \<Longrightarrow> ms_appId r2 = a"
  "escrow_is a i r3 \<Longrightarrow> es_appId r3 = a" "proof_is a i r5 \<Longrightarrow> pf_appId r5 = a" "dispute_is a i r7 \<Longrightarrow> dp_appId r7 = a"
  "endpoint_is a i r9 \<Longrightarrow> we_appId r9 = a" "delivery_is a i r10 \<Longrightarrow> wd_appId r10 = a"
  by (simp_all add: agreement_is_def milestone_is_def escrow_is_def proof_is_def dispute_is_def endpoint_is_def
      delivery_is_def)

lemma own_cursorD:
  assumes "own_cursor a c s" and "own_cursor a c t"
  shows "c = None \<or> (\<forall>r\<in>set (agreements s) \<union> set (agreements t). ag_id r = the c \<longrightarrow> ag_appId r = a)"
    "c = None \<or> (\<forall>r\<in>set (milestones s) \<union> set (milestones t). ms_id r = the c \<longrightarrow> ms_appId r = a)"
    "c = None \<or> (\<forall>r\<in>set (escrows s) \<union> set (escrows t). es_id r = the c \<longrightarrow> es_appId r = a)"
    "c = None \<or> (\<forall>r\<in>set (transactions s) \<union> set (transactions t). tr_id r = the c \<longrightarrow> tr_appId r = a)"
    "c = None \<or> (\<forall>r\<in>set (proofs s) \<union> set (proofs t). pf_id r = the c \<longrightarrow> pf_appId r = a)"
    "c = None \<or> (\<forall>r\<in>set (reviews s) \<union> set (reviews t). rv_id r = the c \<longrightarrow> rv_appId r = a)"
    "c = None \<or> (\<forall>r\<in>set (disputes s) \<union> set (disputes t). dp_id r = the c \<longrightarrow> dp_appId r = a)"
    "c = None \<or> (\<forall>r\<in>set (events s) \<union> set (events t). ev_id r = the c \<longrightarrow> ev_appId r = a)"
    "c = None \<or> (\<forall>r\<in>set (endpoints s) \<union> set (endpoints t). we_id r = the c \<longrightarrow> we_appId r = a)"
    "c = None \<or> (\<forall>r\<in>set (deliveries s) \<union> set (deliveries t). wd_id r = the c \<longrightarrow> wd_appId r = a)"
    "c = None \<or> (\<forall>r\<in>set (auditLogs s) \<union> set (auditLogs t). al_id r = the c \<longrightarrow> al_appId r = Some a)"
  using assms by (cases c; force simp: own_cursor_def)+

lemma own_rowsD:
  assumes "own_rows a s t"
  shows "filter (\<lambda>r. ag_appId r = a) (agreements s) = filter (\<lambda>r. ag_appId r = a) (agreements t)"
    "filter (\<lambda>r. ms_appId r = a) (milestones s) = filter (\<lambda>r. ms_appId r = a) (milestones t)"
    "filter (\<lambda>r. es_appId r = a) (escrows s) = filter (\<lambda>r. es_appId r = a) (escrows t)"
    "filter (\<lambda>r. tr_appId r = a) (transactions s) = filter (\<lambda>r. tr_appId r = a) (transactions t)"
    "filter (\<lambda>r. pf_appId r = a) (proofs s) = filter (\<lambda>r. pf_appId r = a) (proofs t)"
    "filter (\<lambda>r. rv_appId r = a) (reviews s) = filter (\<lambda>r. rv_appId r = a) (reviews t)"
    "filter (\<lambda>r. dp_appId r = a) (disputes s) = filter (\<lambda>r. dp_appId r = a) (disputes t)"
    "filter (\<lambda>r. ev_appId r = a) (events s) = filter (\<lambda>r. ev_appId r = a) (events t)"
    "filter (\<lambda>r. we_appId r = a) (endpoints s) = filter (\<lambda>r. we_appId r = a) (endpoints t)"
    "filter (\<lambda>r. wd_appId r = a) (deliveries s) = filter (\<lambda>r. wd_appId r = a) (deliveries t)"
    "filter (\<lambda>r. al_appId r = Some a) (auditLogs s) = filter (\<lambda>r. al_appId r = Some a) (auditLogs t)"
  using assms unfolding own_rows_def by blast+

lemma rows_listed_own:
  assumes "own_rows a s t"
  shows "own_cursor a (agq_cursor aq) s \<Longrightarrow> own_cursor a (agq_cursor aq) t \<Longrightarrow> listAgreementRows a aq s = listAgreementRows a aq t"
    "own_cursor a (msq_cursor mq) s \<Longrightarrow> own_cursor a (msq_cursor mq) t \<Longrightarrow> listMilestoneRowsForApp a mq s = listMilestoneRowsForApp a mq t"
    "own_cursor a (esq_cursor eq) s \<Longrightarrow> own_cursor a (esq_cursor eq) t \<Longrightarrow> listEscrowRows a eq s = listEscrowRows a eq t"
    "own_cursor a (trq_cursor tq) s \<Longrightarrow> own_cursor a (trq_cursor tq) t \<Longrightarrow> listTransactionsForApp a tq s = listTransactionsForApp a tq t"
    "own_cursor a (rvq_cursor rq) s \<Longrightarrow> own_cursor a (rvq_cursor rq) t \<Longrightarrow> listReviewRows a rq s = listReviewRows a rq t"
    "own_cursor a (dpq_cursor dq) s \<Longrightarrow> own_cursor a (dpq_cursor dq) t \<Longrightarrow> listDisputeRows a dq s = listDisputeRows a dq t"
    "own_cursor a (evq_cursor vq) s \<Longrightarrow> own_cursor a (evq_cursor vq) t \<Longrightarrow> listEventsForApp a vq s = listEventsForApp a vq t"
    "own_cursor a (enq_cursor nq) s \<Longrightarrow> own_cursor a (enq_cursor nq) t \<Longrightarrow> listWebhookEndpointRows a nq s = listWebhookEndpointRows a nq t"
    "own_cursor a (deq_cursor lq) s \<Longrightarrow> own_cursor a (deq_cursor lq) t \<Longrightarrow> listWebhookDeliveryRows a lq s = listWebhookDeliveryRows a lq t"
    "own_cursor a c s \<Longrightarrow> own_cursor a c t \<Longrightarrow> listAuditLogsForApp a n c s = listAuditLogsForApp a n c t"
  unfolding listAgreementRows_def listMilestoneRowsForApp_def listEscrowRows_def listTransactionsForApp_def
    listReviewRows_def listDisputeRows_def listEventsForApp_def listWebhookEndpointRows_def listWebhookDeliveryRows_def
    listAuditLogsForApp_def
  by (rule list_desc_own, rule own_rowsD [OF assms], (erule selected_own | assumption), erule (1) own_cursorD)+

lemma rows_ordered_own:
  assumes "own_rows a s t"
  shows "own_cursor a (msq_cursor mq) s \<Longrightarrow> own_cursor a (msq_cursor mq) t
      \<Longrightarrow> listMilestoneRowsForAgreement a i mq s = listMilestoneRowsForAgreement a i mq t"
    "own_cursor a (pfq_cursor pq) s \<Longrightarrow> own_cursor a (pfq_cursor pq) t \<Longrightarrow> listProofRows a pq s = listProofRows a pq t"
proof -
  have m: "filter (allocated_to a i) (milestones s) = filter (allocated_to a i) (milestones t)"
    by (rule filter_own [OF own_rowsD(2) [OF assms]]) (erule selected_own)
  have p: "filter (proof_selected a pq) (proofs s) = filter (proof_selected a pq) (proofs t)"
    by (rule filter_own [OF own_rowsD(5) [OF assms]]) (erule selected_own)
  show "listMilestoneRowsForAgreement a i mq s = listMilestoneRowsForAgreement a i mq t"
    if "own_cursor a (msq_cursor mq) s" "own_cursor a (msq_cursor mq) t"
    unfolding listMilestoneRowsForAgreement_def m by (rule find_page_own [OF own_rowsD(2) [OF assms] own_cursorD(2) [OF that]])
  show "listProofRows a pq s = listProofRows a pq t" if "own_cursor a (pfq_cursor pq) s" "own_cursor a (pfq_cursor pq) t"
    unfolding listProofRows_def p by (rule find_page_own [OF own_rowsD(5) [OF assms] own_cursorD(5) [OF that]])
qed

lemma rows_found_own:
  assumes "own_rows a s t"
  shows "List.find (agreement_is a i) (agreements s) = List.find (agreement_is a i) (agreements t)"
    "List.find (milestone_is a i) (milestones s) = List.find (milestone_is a i) (milestones t)"
    "List.find (escrow_is a i) (escrows s) = List.find (escrow_is a i) (escrows t)"
    "List.find (proof_is a i) (proofs s) = List.find (proof_is a i) (proofs t)"
    "List.find (dispute_is a i) (disputes s) = List.find (dispute_is a i) (disputes t)"
    "List.find (delivery_is a i) (deliveries s) = List.find (delivery_is a i) (deliveries t)"
    "List.find (\<lambda>w. endpoint_is a i w \<and> we_deletedAt w = None) (endpoints s) =
      List.find (\<lambda>w. endpoint_is a i w \<and> we_deletedAt w = None) (endpoints t)"
    "List.find (\<lambda>e. ev_id e = i \<and> ev_appId e = a) (events s) = List.find (\<lambda>e. ev_id e = i \<and> ev_appId e = a) (events t)"
  by (rule find_own, rule own_rowsD [OF assms], (elim conjE)?, (erule named_own | assumption))+

lemma includeMilestones_own:
  assumes "own_rows a s t" and "ag_appId r = a"
  shows "includeMilestones r s = includeMilestones r t"
  unfolding includeMilestones_def by (rule filter_own [OF own_rowsD(2) [OF assms(1)]]) (simp add: assms(2))

lemma make_page_cong:
  "(\<And>r. r \<in> set rows \<Longrightarrow> f r = g r) \<Longrightarrow> make_page ident f n rows = make_page ident g n rows"
  by (auto simp: make_page_def Let_def dest: in_set_takeD)

lemma agreements_read_own:
  assumes "own_rows a s t"
  shows "own_cursor a (agq_cursor q) s \<Longrightarrow> own_cursor a (agq_cursor q) t \<Longrightarrow> listAgreementsForApp a q s = listAgreementsForApp a q t"
    and "read_tx (getAgreementForApp a i) s = read_tx (getAgreementForApp a i) t"
proof -
  have inc: "serializeAgreement r (Some (includeMilestones r s)) = serializeAgreement r (Some (includeMilestones r t))"
    if "ag_appId r = a" for r by (simp add: includeMilestones_own [OF assms that])
  have "ag_appId r = a" if "r \<in> set (listAgreementRows a q t)" for r
    using that list_desc_subset unfolding listAgreementRows_def by (fastforce dest: selected_own)
  then show "listAgreementsForApp a q s = listAgreementsForApp a q t"
    if "own_cursor a (agq_cursor q) s" "own_cursor a (agq_cursor q) t"
    unfolding listAgreementsForApp_def rows_listed_own(1) [OF assms that] by (intro make_page_cong inc)
  have "ag_appId r = a" if "List.find (agreement_is a i) (agreements t) = Some r" for r
    using that by (auto simp: find_Some_iff dest: named_own)
  then show "read_tx (getAgreementForApp a i) s = read_tx (getAgreementForApp a i) t"
    by (auto simp: getAgreementForApp_def findAgreementForApp_def read_found rows_found_own [OF assms] inc split: option.split)
qed

lemma read_controller_own:
  assumes "own_rows a s t" and "own_cursor a (query_cursor q) s" and "own_cursor a (query_cursor q) t"
  shows "read_controller app a rt q s = read_controller app a rt q t"
proof -
  note queries = agreement_query_of_def milestone_query_of_def escrow_query_of_def transaction_query_of_def proof_query_of_def
    review_query_of_def dispute_query_of_def event_query_of_def endpoint_query_of_def delivery_query_of_def
  note pages = listMilestonesForApp_def listEscrowsForApp_def listAppTransactions_def listProofsForApp_def listReviewsForApp_def
    listDisputesForApp_def listAppEvents_def listWebhookEndpointsForApp_def listWebhookDeliveriesForApp_def listAppAuditLogs_def
  note finders = getMilestoneForApp_def findMilestoneForApp_def getEscrowForApp_def findEscrowForApp_def getProofForApp_def
    findProofForApp_def getDisputeForApp_def findDisputeForApp_def getAppEvent_def findEventForApp_def
    getWebhookEndpointForApp_def findWebhookEndpointForApp_def getWebhookDeliveryForApp_def findWebhookDeliveryForApp_def
    listMilestonesForAgreement_def findAgreementForApp_def
  note own = agreements_read_own [OF assms(1)] rows_listed_own [OF assms(1)] rows_ordered_own [OF assms(1)]
    rows_found_own [OF assms(1)]
  show ?thesis
    by (cases rt) (simp_all add: read_controller_def List.map_filter_def list_many_def get_one_def own pages finders read_found queries assms(2,3) split: option.split)
qed

section \<open>The middleware does not look at the tenants' rows\<close>

definition with_db :: "db \<Rightarrow> gateway \<Rightarrow> gateway" where
  "with_db t g = g\<lparr>gw_platform := (gw_platform g)\<lparr>pl_db := t\<rparr>\<rparr>"

text \<open>A part of the middleware that reads nothing of the business rows but the time.\<close>

definition blind :: "'a gwproc \<Rightarrow> bool" where
  "blind m \<longleftrightarrow> (\<forall>g t. clock t = clock (pl_db (gw_platform g)) \<longrightarrow>
     m (with_db t g) = (fst (m g), with_db t (snd (m g))) \<and> pl_db (gw_platform (snd (m g))) = pl_db (gw_platform g))"

lemma blind_bind:
  assumes "blind m" and "\<And>x. blind (f x)"
  shows "blind (pr_bind m f)"
  unfolding blind_def
proof (intro allI impI)
  fix g :: gateway and t :: db assume "clock t = clock (pl_db (gw_platform g))"
  with assms(1) have m: "m (with_db t g) = (fst (m g), with_db t (snd (m g)))"
    and d: "pl_db (gw_platform (snd (m g))) = pl_db (gw_platform g)" and c: "clock t = clock (pl_db (gw_platform (snd (m g))))"
    by (simp_all add: blind_def)
  show "pr_bind m f (with_db t g) = (fst (pr_bind m f g), with_db t (snd (pr_bind m f g)))
      \<and> pl_db (gw_platform (snd (pr_bind m f g))) = pl_db (gw_platform g)"
    using assms(2) c d by (cases "m g"; cases "fst (m g)") (auto simp: pr_bind_def m blind_def)
qed

lemma blind_pure: "blind (pr_lift r)" "blind (pr_return x)"
  by (simp_all add: blind_def pr_lift_def pr_return_def)

lemma blind_rate_limit: "blind (rate_limit C E opts rawKey)"
  by (auto simp: blind_def rate_limit_def with_db_def split: prod.splits sum.splits)

lemma blind_authenticate: "blind (on_platform (authenticateApiKey E rawKey))"
proof -
  have a: "active_key (p\<lparr>pl_db := t\<rparr>) h = active_key p h" "key_app (p\<lparr>pl_db := t\<rparr>) k = key_app p k" for p t h k
    by (auto simp: active_key_def key_app_def fun_eq_iff)
  show ?thesis
    by (auto simp: blind_def on_platform_def with_db_def authenticateApiKey_def pr_bind_def atomically_def a
      findActiveApiKeyByHash_def tx_gets_def pr_return_def updateApiKeyLastUsedAt_def tx_bind_def updateMany_def
      tx_require_def tx_return_def tx_throw_def split: option.splits sum.splits prod.splits)
qed

lemmas blind_rules = blind_bind blind_pure blind_rate_limit blind_authenticate

lemma admit_read_blind: "blind (admit_read C E F http query rt)"
  unfolding admit_read_def v1IpRateLimit_def requireApiKey_def v1ApiKeyRateLimit_def v1TenantRateLimit_def
  by (auto intro!: blind_rules split: prod.split)

lemma admit_read_quiet: "quietOrder.presp (admit_read C E F http query rt)"
  unfolding admit_read_def by (intro quietOrder.presp_rules limits_quiet requireApiKey_quiet)

lemma admit_read_admits:
  assumes "admit_read C E F http query rt g = (Inr (app, a, q), h)"
  shows "\<exists>k rawKey. extractApiKey http = Some rawKey \<and> fst (authenticateApiKey E rawKey (gw_platform g)) = Inr (Some (k, app))
    \<and> tenantContext (ak_appId k) = Inr a \<and> (\<exists>sc\<in>set (fst (get_entry_of F rt)). sc \<in> set (ak_scopes k))"
proof -
  from assms obtain k g1 g2 where a: "v1IpRateLimit C E http g = (Inr (), g1)"
    "requireApiKey C E http g1 = (Inr (k, app, a), g2)" and s: "read_guard (fst (get_entry_of F rt)) k = Inr ()"
    unfolding admit_read_def pr_Inr by (auto simp: pr_Inr split: prod.splits)
  have "gw_platform g1 = gw_platform g"
    using rate_limit_platform a(1) unfolding v1IpRateLimit_def by (metis snd_conv)
  moreover have "\<exists>sc\<in>set (fst (get_entry_of F rt)). sc \<in> set (ak_scopes k)"
    using s by (cases rt) (auto simp: get_entry_of_def List.map_filter_def read_guard_def requireScope_def requireAnyScope_def tx_iff)
  ultimately show ?thesis using requireApiKey_admits [OF a(2)] by auto
qed

lemma serve_read_state: "snd (serve_read C E F http query rt g) = snd (admit_read C E F http query rt g)"
  by (cases "admit_read C E F http query rt g"; cases "fst (admit_read C E F http query rt g)")
    (auto simp: serve_read_def pr_bind_def split: sum.split)

lemma serve_read_quiet: "quiet g (snd (serve_read C E F http query rt g))"
  using admit_read_quiet [of C E F http query rt] by (simp add: serve_read_state quietOrder.presp_def)

lemma serve_read_own:
  assumes clk: "clock t = clock (pl_db (gw_platform g))"
    and own: "\<And>app a q h. admit_read C E F http query rt g = (Inr (app, a, q), h) \<Longrightarrow>
      own_rows a (pl_db (gw_platform g)) t \<and> own_cursor a (query_cursor q) (pl_db (gw_platform g)) \<and> own_cursor a (query_cursor q) t"
  shows "fst (serve_read C E F http query rt (with_db t g)) = fst (serve_read C E F http query rt g)"
proof -
  have b: "admit_read C E F http query rt (with_db t g) =
      (fst (admit_read C E F http query rt g), with_db t (snd (admit_read C E F http query rt g)))"
    and d: "pl_db (gw_platform (snd (admit_read C E F http query rt g))) = pl_db (gw_platform g)"
    using admit_read_blind clk unfolding blind_def by blast+
  show ?thesis
  proof (cases "fst (admit_read C E F http query rt g)")
    case (Inl e)
    then show ?thesis using b by (cases "admit_read C E F http query rt g") (simp add: serve_read_def pr_bind_def)
  next
    case (Inr v)
    then obtain app a q h where g: "admit_read C E F http query rt g = (Inr (app, a, q), h)"
      by (metis prod.exhaust_sel)
    have "read_controller app a rt q (pl_db (gw_platform g)) = read_controller app a rt q t"
      using own [OF g] by (intro read_controller_own) auto
    then show ?thesis using b d g by (simp add: serve_read_def pr_bind_def with_db_def split: sum.split)
  qed
qed

section \<open>A cursor of another tenant\<close>

text \<open>
  The row of the cursor is looked up in the whole table. A tenant that passes the identifier of a row of
  another tenant gets an empty page when there is none, and rows when there is one: the answer tells
  whether the identifier is in use, and whether its row is newer than the rows of the tenant.
\<close>

lemma cursor_reveals_row:
  assumes "we_appId w = a" and "we_appId v = a" and "we_createdAt v < we_createdAt w"
    and "we_deletedAt w = None" and "we_deletedAt v = None" and "we_appId x \<noteq> a" and "we_createdAt w < we_createdAt x"
    and "we_id x \<noteq> we_id w" and "we_id x \<noteq> we_id v" and "endpoints s = [v, w]" and "endpoints t = [v, w, x]" and "0 < n"
  shows "listWebhookEndpointRows a \<lparr>enq_status = None, enq_limit = n, enq_cursor = Some (we_id x)\<rparr> s = []"
    and "listWebhookEndpointRows a \<lparr>enq_status = None, enq_limit = n, enq_cursor = Some (we_id x)\<rparr> t = [v]"
  using assms by (auto simp: listWebhookEndpointRows_def list_desc_def find_page_def endpoint_selected_def desc_order_def desc_le_def)

end
