(* ===== verification/Console.thy ===== *)
theory Console
  imports Reads Auth
begin

text \<open>
  The routes that a wallet session opens: those of owners (\<open>modules/apps\<close>, \<open>modules/api-keys\<close>), of
  administrators (\<open>modules/admin\<close>) and of \<open>modules/auth\<close>, with \<open>middleware/rateLimit.ts\<close>. The state is
  the gateway; the routes of \<open>modules/auth\<close> also use the store of challenges. The answers of administrators
  show jobs as rows and are not rendered. The lemmas show that a request that changes an application or
  a key carries a valid session and changes only what its address owns, that no owner's request touches a
  business row, and that every read of an administrator is recorded.
\<close>

section \<open>Schemas and typed inputs\<close>

definition appListQuerySchema :: schema where
  "appListQuerySchema = z_object page_fields"

definition apiKeyListQuerySchema :: "formats \<Rightarrow> schema" where
  "apiKeyListQuerySchema F = z_object (uuid_field F ''appId'' # page_fields)"

text \<open>\<open>z.string().uuid().or(z.string().min(1))\<close> accepts a text that either part accepts.\<close>

definition adminListQuerySchema :: "formats \<Rightarrow> schema" where
  "adminListQuerySchema F = z_object ([(''appId'', z_optional (z_string (\<lambda>s. fm_uuid F s \<or> s \<noteq> []))),
     (''status'', z_optional (z_text 1 80)), (''type'', z_optional (z_text 1 120))] @ page_fields)"

definition some_text :: schema where
  "some_text = z_string (\<lambda>s. s \<noteq> [])"

definition challengeSchema :: schema where
  "challengeSchema = z_object [(''address'', some_text)]"

definition verifySchema :: schema where
  "verifySchema = z_object [(''address'', some_text), (''message'', some_text),
     (''signature'', z_object [(''signature'', some_text), (''identity'', some_text), (''signType'', some_text)])]"

definition app_input :: "json \<Rightarrow> create_app_input" where
  "app_input v = \<lparr>ca_name = str_at ''name'' v, ca_slug = str_at ''slug'' v, ca_environment = str_at ''environment'' v,
     ca_defaultCurrency = str_at ''defaultCurrency'' v, ca_defaultNetwork = str_at ''defaultNetwork'' v\<rparr>"

definition app_status_of :: "string \<Rightarrow> AppStatus" where
  "app_status_of s = (if s = ''active'' then AppActive else if s = ''disabled'' then AppDisabled else AppSuspended)"

definition app_update :: "json \<Rightarrow> update_app_input" where
  "app_update v = \<lparr>ua_name = str_opt ''name'' v, ua_status = map_option app_status_of (str_opt ''status'' v),
     ua_defaultCurrency = str_opt ''defaultCurrency'' v, ua_defaultNetwork = str_opt ''defaultNetwork'' v\<rparr>"

definition apiKey_input :: "json \<Rightarrow> create_key_input" where
  "apiKey_input v = \<lparr>ck_appId = str_at ''appId'' v, ck_name = str_at ''name'' v, ck_scopes = strs_at ''scopes'' v\<rparr>"

definition admin_query_of :: "json \<Rightarrow> admin_query" where
  "admin_query_of q = \<lparr>adq_appId = str_opt ''appId'' q, adq_status = str_opt ''status'' q, adq_type = str_opt ''type'' q,
     adq_limit = query_limit q, adq_cursor = query_cursor q\<rparr>"

definition verify_input :: "json \<Rightarrow> verify_params" where
  "verify_input v = (let sig = (case member ''signature'' (Some v) of None \<Rightarrow> JObj [] | Some w \<Rightarrow> w) in
     \<lparr>vp_address = str_at ''address'' v, vp_message = str_at ''message'' v,
      vp_signature = \<lparr>sg_signature = str_at ''signature'' sig, sg_identity = str_at ''identity'' sig,
        sg_signType = str_at ''signType'' sig\<rparr>\<rparr>)"

section \<open>Middleware\<close>

definition getClientKey :: "auth_info option \<Rightarrow> http_request \<Rightarrow> string option" where
  "getClientKey auth http =
     js_or (js_or (js_or (map_option wa_address auth) (hq_ip http)) (hq_remoteAddress http)) (Some ''unknown'')"

definition createRateLimit ::
  "gateway_config \<Rightarrow> env \<Rightarrow> limit_options \<Rightarrow> auth_info option \<Rightarrow> http_request \<Rightarrow> unit gwproc" where
  "createRateLimit C E opts auth http = rate_limit C E opts (getClientKey auth http)"

definition session_of :: "auth_config \<Rightarrow> wallet_lib \<Rightarrow> http_request \<Rightarrow> gateway \<Rightarrow> error + auth_info" where
  "session_of cfg W http g = requireAuth cfg W (clock (pl_db (gw_platform g))) (hq_headers http ''authorization'')"

definition with_session :: "auth_config \<Rightarrow> wallet_lib \<Rightarrow> http_request \<Rightarrow> auth_info gwproc" where
  "with_session cfg W http = (\<lambda>g. (session_of cfg W http g, g))"

definition validated :: "schema option \<Rightarrow> schema option \<Rightarrow> http_request \<Rightarrow> json \<Rightarrow> error + json option \<times> json" where
  "validated body query http q =
     res_bind (case body of None \<Rightarrow> Inr (hq_body http)
       | Some sch \<Rightarrow> res_bind (validateBody sch (hq_body http)) (\<lambda>v. Inr (Some v))) (\<lambda>v.
     res_bind (case query of None \<Rightarrow> Inr q | Some sch \<Rightarrow> validateQuery sch q) (\<lambda>w. Inr (v, w)))"

definition console_request :: "http_request \<Rightarrow> string \<Rightarrow> json option \<Rightarrow> request" where
  "console_request http meth body =
     \<lparr>rq_idempotencyKey = hq_headers http ''idempotency-key'', rq_method = meth,
      rq_originalUrl = hq_originalUrl http, rq_body = body, rq_requestId = requestContext http,
      rq_apiKeyId = None, rq_ip = hq_ip http, rq_userAgent = hq_headers http ''user-agent''\<rparr>"

section \<open>Owners\<close>

datatype owner_route =
    PostApp | GetApps | GetApp string | PatchApp string | PostDisable string
  | PostApiKey | GetApiKeys | DeleteApiKey string

text \<open>The method and the schemas of body and query that a route file puts before its controllers.\<close>

type_synonym owner_entry = "string \<times> schema option \<times> schema option"

fun app_entries :: "owner_route \<Rightarrow> owner_entry option" where
  "app_entries PostApp = Some (''POST'', Some createAppSchema, None)"
| "app_entries GetApps = Some (''GET'', None, Some appListQuerySchema)"
| "app_entries (GetApp _) = Some (''GET'', None, None)"
| "app_entries (PatchApp _) = Some (''PATCH'', Some updateAppSchema, None)"
| "app_entries (PostDisable _) = Some (''POST'', None, None)"
| "app_entries _ = None"

fun apiKey_entries :: "formats \<Rightarrow> owner_route \<Rightarrow> owner_entry option" where
  "apiKey_entries F PostApiKey = Some (''POST'', Some (createApiKeySchema F), None)"
| "apiKey_entries F GetApiKeys = Some (''GET'', None, Some (apiKeyListQuerySchema F))"
| "apiKey_entries F (DeleteApiKey _) = Some (''DELETE'', None, None)"
| "apiKey_entries F _ = None"

definition owner_entry_of :: "formats \<Rightarrow> owner_route \<Rightarrow> owner_entry" where
  "owner_entry_of F rt = hd (List.map_filter (\<lambda>x. x) [app_entries rt, apiKey_entries F rt])"

definition requireOwner :: "auth_info option \<Rightarrow> error + string" where
  "requireOwner auth = (case auth of
       None \<Rightarrow> Inl authenticationError
     | Some a \<Rightarrow> if wa_address a = [] then Inl authenticationError else Inr (wa_address a))"

text \<open>An answer with its status.\<close>

definition answers :: "nat \<Rightarrow> json plproc \<Rightarrow> (nat \<times> answer) plproc" where
  "answers st m = pr_bind m (\<lambda>v. pr_return (st, One v))"

fun app_controller :: "env \<Rightarrow> request \<Rightarrow> string \<Rightarrow> owner_route \<Rightarrow> json \<Rightarrow> json \<Rightarrow> (nat \<times> answer) plproc option" where
  "app_controller E req ownerId PostApp v q = Some (answers 201 (createAppForOwner E req ownerId (app_input v)))"
| "app_controller E req ownerId GetApps v q =
     Some (\<lambda>p. (Inr (200, Many (listAppsForOwner ownerId (query_limit q) (query_cursor q) p)), p))"
| "app_controller E req ownerId (GetApp i) v q = Some (answers 200 (atomically (getAppForOwner ownerId i)))"
| "app_controller E req ownerId (PatchApp i) v q = Some (answers 200 (updateAppForOwner E req ownerId i (app_update v)))"
| "app_controller E req ownerId (PostDisable i) v q = Some (answers 200 (disableAppForOwner E req ownerId i))"
| "app_controller E req ownerId _ v q = None"

text \<open>\<open>random\<close> is what \<open>randomBytes\<close> draws for a new key.\<close>

fun apiKey_controller ::
  "env \<Rightarrow> byte list \<Rightarrow> request \<Rightarrow> string \<Rightarrow> owner_route \<Rightarrow> json \<Rightarrow> json \<Rightarrow> (nat \<times> answer) plproc option" where
  "apiKey_controller E random req ownerId PostApiKey v q =
     Some (answers 201 (createApiKeyForOwner E random req ownerId (apiKey_input v)))"
| "apiKey_controller E random req ownerId GetApiKeys v q =
     Some (pr_bind (atomically (listApiKeysForOwner ownerId (str_opt ''appId'' q) (query_limit q) (query_cursor q)))
       (\<lambda>p. pr_return (200, Many p)))"
| "apiKey_controller E random req ownerId (DeleteApiKey i) v q = Some (answers 200 (revokeApiKeyForOwner E req ownerId i))"
| "apiKey_controller E random req ownerId _ v q = None"

definition owner_controller ::
  "env \<Rightarrow> byte list \<Rightarrow> request \<Rightarrow> auth_info \<Rightarrow> owner_route \<Rightarrow> json \<Rightarrow> json \<Rightarrow> (nat \<times> answer) plproc" where
  "owner_controller E random req auth rt v q =
     pr_bind (pr_lift (requireOwner (Some auth))) (\<lambda>ownerId.
     hd (List.map_filter (\<lambda>x. x) [app_controller E req ownerId rt v q, apiKey_controller E random req ownerId rt v q]))"

definition serve_owner ::
  "gateway_config \<Rightarrow> auth_config \<Rightarrow> wallet_lib \<Rightarrow> env \<Rightarrow> formats \<Rightarrow> byte list \<Rightarrow> http_request \<Rightarrow> json \<Rightarrow> owner_route
     \<Rightarrow> (nat \<times> answer) gwproc" where
  "serve_owner C cfg W E F random http query rt = (case owner_entry_of F rt of (meth, body, qschema) \<Rightarrow>
     pr_bind (v1IpRateLimit C E http) (\<lambda>_.
     pr_bind (pr_lift (payloadLimits [64 * 1024, 256 * 1024] meth http)) (\<lambda>_.
     pr_bind (with_session cfg W http) (\<lambda>auth.
     pr_bind (pr_lift (validated body qschema http query)) (\<lambda>(v, q).
     on_platform (owner_controller E random (console_request http meth v) auth rt
       (case v of None \<Rightarrow> JNull | Some b \<Rightarrow> b) q))))))"

section \<open>Administrators\<close>

datatype admin_route =
    AdminHealth | AdminApps | AdminAgreements | AdminEscrows | AdminEvents | AdminDeliveries | AdminAuditLogs
  | AdminJobs | AdminReplay string

datatype admin_answer =
    HealthAnswer "string \<times> string \<times> system_counts" | PageAnswer "json page" | JobsAnswer "agent_job page" | JobAnswer agent_job

definition admin_view :: "('a \<Rightarrow> admin_answer) \<Rightarrow> 'a plproc \<Rightarrow> admin_answer plproc" where
  "admin_view f m = pr_bind m (\<lambda>v. pr_return (f v))"

text \<open>The query of \<open>/system-health\<close> is not parsed; \<open>up\<close> says whether the database answers \<open>SELECT 1\<close>.\<close>

fun admin_controller :: "env \<Rightarrow> bool \<Rightarrow> admin_request \<Rightarrow> admin_route \<Rightarrow> admin_query \<Rightarrow> admin_answer plproc" where
  "admin_controller E up a AdminHealth q = admin_view HealthAnswer (adminRead E a ''system_health'' (getSystemHealth up))"
| "admin_controller E up a AdminApps q = admin_view PageAnswer (adminRead E a ''app'' (adminListApps q))"
| "admin_controller E up a AdminAgreements q = admin_view PageAnswer (adminRead E a ''agreement'' (adminListAgreements q))"
| "admin_controller E up a AdminEscrows q = admin_view PageAnswer (adminRead E a ''escrow'' (adminListEscrows q))"
| "admin_controller E up a AdminEvents q = admin_view PageAnswer (adminRead E a ''event'' (adminListEvents q))"
| "admin_controller E up a AdminDeliveries q =
     admin_view PageAnswer (adminRead E a ''webhook_delivery'' (adminListWebhookDeliveries q))"
| "admin_controller E up a AdminAuditLogs q = admin_view PageAnswer (adminRead E a ''audit_log'' (adminListAuditLogs q))"
| "admin_controller E up a AdminJobs q = admin_view JobsAnswer (adminRead E a ''agent_job'' (adminListJobs q))"
| "admin_controller E up a (AdminReplay i) q = admin_view JobAnswer (adminReplayJob E a i)"

fun admin_method :: "admin_route \<Rightarrow> string" where
  "admin_method (AdminReplay _) = ''POST''"
| "admin_method _ = ''GET''"

text \<open>What stands before the controller of a route: the limit of replays, or the schema of the query.\<close>

fun admin_front ::
  "gateway_config \<Rightarrow> env \<Rightarrow> formats \<Rightarrow> auth_info \<Rightarrow> http_request \<Rightarrow> json \<Rightarrow> admin_route \<Rightarrow> json gwproc" where
  "admin_front C E F auth http query AdminHealth = pr_return query"
| "admin_front C E F auth http query (AdminReplay _) =
     pr_bind (createRateLimit C E \<lparr>lo_namespace = ''admin-job-replay'', lo_windowMs = gc_actionRateLimitWindowMs C,
       lo_max = gc_actionRateLimitMax C\<rparr> (Some auth) http) (\<lambda>_. pr_return query)"
| "admin_front C E F auth http query _ = pr_lift (validateQuery (adminListQuerySchema F) query)"

definition admin_request_of :: "auth_info \<Rightarrow> http_request \<Rightarrow> json \<Rightarrow> admin_route \<Rightarrow> admin_request" where
  "admin_request_of auth http q rt = \<lparr>ar_address = Some (wa_address auth), ar_queryAppId = str_opt ''appId'' q, ar_query = q,
     ar_request = console_request http (admin_method rt) (hq_body http)\<rparr>"

definition serve_admin ::
  "gateway_config \<Rightarrow> auth_config \<Rightarrow> wallet_lib \<Rightarrow> env \<Rightarrow> formats \<Rightarrow> bool \<Rightarrow> http_request \<Rightarrow> json \<Rightarrow> admin_route
     \<Rightarrow> admin_answer gwproc" where
  "serve_admin C cfg W E F up http query rt =
     pr_bind (v1IpRateLimit C E http) (\<lambda>_.
     pr_bind (pr_lift (payloadLimits [64 * 1024, 256 * 1024] (admin_method rt) http)) (\<lambda>_.
     pr_bind (with_session cfg W http) (\<lambda>auth.
     pr_bind (pr_lift (requireInfrastructureAdmin (Some auth))) (\<lambda>_.
     pr_bind (admin_front C E F auth http query rt) (\<lambda>q.
     on_platform (admin_controller E up (admin_request_of auth http q rt) rt (admin_query_of q)))))))"

section \<open>Sessions\<close>

text \<open>
  The routes of \<open>modules/auth\<close> on the gateway and the store of challenges. \<open>limit\<close> holds the settings of
  the authentication limit.
\<close>

definition authRateLimit :: "gateway_config \<Rightarrow> env \<Rightarrow> int \<times> nat \<Rightarrow> http_request \<Rightarrow> unit gwproc" where
  "authRateLimit C E limit http =
     createRateLimit C E \<lparr>lo_namespace = ''auth'', lo_windowMs = fst limit, lo_max = snd limit\<rparr> None http"

definition auth_front :: "gateway_config \<Rightarrow> env \<Rightarrow> int \<times> nat \<Rightarrow> schema \<Rightarrow> http_request \<Rightarrow> json gwproc" where
  "auth_front C E limit sch http =
     pr_bind (v1IpRateLimit C E http) (\<lambda>_.
     pr_bind (pr_lift (payloadLimits [16 * 1024, 256 * 1024] ''POST'' http)) (\<lambda>_.
     pr_bind (authRateLimit C E limit http) (\<lambda>_.
     pr_lift (validateBody sch (hq_body http)))))"

definition serve_challenge ::
  "gateway_config \<Rightarrow> env \<Rightarrow> int \<times> nat \<Rightarrow> auth_config \<Rightarrow> 's store_ops \<Rightarrow> string \<Rightarrow> http_request \<Rightarrow> gateway \<times> 's
     \<Rightarrow> (error + string \<times> string) \<times> gateway \<times> 's" where
  "serve_challenge C E limit cfg ops nonce http = (\<lambda>(g, s). case auth_front C E limit challengeSchema http g of
       (Inl e, h) \<Rightarrow> (Inl e, h, s)
     | (Inr v, h) \<Rightarrow> (case createChallenge cfg ops (clock (pl_db (gw_platform h))) nonce (str_at ''address'' v) s of
         (r, t) \<Rightarrow> (Inr r, h, t)))"

definition serve_verify ::
  "gateway_config \<Rightarrow> env \<Rightarrow> int \<times> nat \<Rightarrow> auth_config \<Rightarrow> wallet_lib \<Rightarrow> 's store_ops \<Rightarrow> int \<Rightarrow> http_request \<Rightarrow> gateway \<times> 's
     \<Rightarrow> (error + session) \<times> gateway \<times> 's" where
  "serve_verify C E limit cfg W ops time' http = (\<lambda>(g, s). case auth_front C E limit verifySchema http g of
       (Inl e, h) \<Rightarrow> (Inl e, h, s)
     | (Inr v, h) \<Rightarrow> (case verifyRoute cfg W ops (clock (pl_db (gw_platform h))) time' (verify_input v) s of
         (r, t) \<Rightarrow> (r, h, t)))"

definition serve_me :: "gateway_config \<Rightarrow> auth_config \<Rightarrow> wallet_lib \<Rightarrow> env \<Rightarrow> http_request \<Rightarrow> auth_info gwproc" where
  "serve_me C cfg W E http = pr_bind (v1IpRateLimit C E http) (\<lambda>_. with_session cfg W http)"

section \<open>Requests of owners touch no business row\<close>

text \<open>The tenants' database changes by audit entries only.\<close>

definition audited_only :: "platform \<Rightarrow> platform \<Rightarrow> bool" where
  "audited_only p q \<longleftrightarrow> (\<exists>ls n. pl_db q = (pl_db p)\<lparr>auditLogs := auditLogs (pl_db p) @ ls, uuidCount := n\<rparr>)"

interpretation auditedOrder: step_order audited_only
proof
  show "audited_only p p" for p by (auto simp: audited_only_def intro!: exI [of _ "[]"] exI [of _ "uuidCount (pl_db p)"])
next
  fix p q r :: platform
  assume "audited_only p q" and "audited_only q r"
  then obtain ls n ks m where "pl_db q = (pl_db p)\<lparr>auditLogs := auditLogs (pl_db p) @ ls, uuidCount := n\<rparr>"
    and "pl_db r = (pl_db q)\<lparr>auditLogs := auditLogs (pl_db q) @ ks, uuidCount := m\<rparr>"
    unfolding audited_only_def by blast
  then show "audited_only p r" by (auto simp: audited_only_def intro!: exI [of _ "ls @ ks"] exI [of _ m])
qed

lemma same_db_audited: "pl_db q = pl_db p \<Longrightarrow> audited_only p q"
  using auditedOrder.R_refl [of p] by (simp add: audited_only_def)

lemma rows_audited:
  "auditedOrder.resp (createApp E ownerId input)" "auditedOrder.resp (updateAppRows ownerId i upd)"
  "auditedOrder.resp (disableAppRows ownerId i)" "auditedOrder.resp (createApiKey E d)"
  "auditedOrder.resp (revokeApiKeyRows ownerId k)" "auditedOrder.resp (findAppForOwner ownerId i)"
  "auditedOrder.resp (findApiKeyForOwner ownerId k)"
proof -
  show "auditedOrder.resp (createApp E ownerId input)" "auditedOrder.resp (createApiKey E d)"
    by (rule auditedOrder.respI, auto simp: createApp_def createApiKey_def tx_iff audited_only_def intro!: exI [of _ "[]"])+
  show "auditedOrder.resp (updateAppRows ownerId i upd)" "auditedOrder.resp (disableAppRows ownerId i)"
    "auditedOrder.resp (revokeApiKeyRows ownerId k)" "auditedOrder.resp (findAppForOwner ownerId i)"
    "auditedOrder.resp (findApiKeyForOwner ownerId k)"
    by (rule auditedOrder.respI, auto simp: updateAppRows_def disableAppRows_def revokeApiKeyRows_def findAppForOwner_def
        findApiKeyForOwner_def tx_iff intro!: same_db_audited)+
qed

lemma auditOwner_audited: "auditedOrder.resp (auditOwner E req ownerId appId action ty i prev after)"
proof -
  have "audited_only p q" if "pl_db q = auditLogs_update (\<lambda>rows. rows @ ls) ((pl_db p)\<lparr>uuidCount := n\<rparr>)" for p q ls n
    using that by (auto simp: audited_only_def intro!: exI [of _ ls] exI [of _ n])
  then show ?thesis
    by (intro auditedOrder.respI) (auto simp: auditOwner_def createAuditLogForRequest_def createInfrastructureAuditLog_def tx_iff)
qed

lemmas audited_rules = auditedOrder.presp_rules rows_audited auditOwner_audited auditedOrder.resp_rules

lemma services_audited:
  "auditedOrder.presp (createAppForOwner E req ownerId input)" "auditedOrder.presp (updateAppForOwner E req ownerId i upd)"
  "auditedOrder.presp (disableAppForOwner E req ownerId i)" "auditedOrder.presp (revokeApiKeyForOwner E req ownerId k)"
  "auditedOrder.presp (createApiKeyForOwner E random req ownerId ki)"
  unfolding createAppForOwner_def updateAppForOwner_def disableAppForOwner_def changeApp_def revokeApiKeyForOwner_def
    createApiKeyForOwner_def Let_def
  by (intro audited_rules)+

section \<open>Requests of owners\<close>

lemma views_keep:
  "snd (atomically (getAppForOwner ownerId i) p) = p"
  "snd (atomically (listApiKeysForOwner ownerId a n c) p) = p"
  by (auto simp: atomically_def getAppForOwner_def listApiKeysForOwner_def findAppForOwner_def findFirst_def tx_bind_def
      tx_gets_def tx_some_def tx_return_def tx_throw_def split: option.splits)

lemma snd_answers: "snd (answers st m p) = snd (m p)"
  by (auto simp: answers_def pr_bind_def pr_return_def split: prod.splits sum.splits)

lemmas owner_services =
  app_services_owner [unfolded ownerOrder.presp_def, rule_format]
  createApiKeyForOwner_owner [unfolded ownerOrder.presp_def, rule_format]
  services_audited [unfolded auditedOrder.presp_def, rule_format]

lemma bind_lift: "pr_bind (pr_lift r) f s = (case r of Inl e \<Rightarrow> (Inl e, s) | Inr x \<Rightarrow> f x s)"
  by (simp add: pr_bind_def pr_lift_def)

lemma bind_snd: "snd (pr_bind m f s) = (case fst (m s) of Inl e \<Rightarrow> snd (m s) | Inr x \<Rightarrow> snd (f x (snd (m s))))"
  by (cases "m s") (simp add: pr_bind_def split: sum.split)

lemma owner_controller_keeps:
  "owner_same (wa_address auth) p (snd (owner_controller E random req auth rt v q p))
    \<and> audited_only p (snd (owner_controller E random req auth rt v q p))"
  by (cases rt; cases "wa_address auth = []")
    (simp_all add: owner_controller_def bind_lift requireOwner_def List.map_filter_def bind_snd pr_return_def
      snd_answers views_keep owner_services ownerOrder.R_refl auditedOrder.R_refl split: sum.split)

lemma owner_controller_anonymous:
  "wa_address auth = [] \<Longrightarrow> snd (owner_controller E random req auth rt v q p) = p"
  by (simp add: owner_controller_def bind_lift requireOwner_def)

text \<open>Up to the session the platform is as it was.\<close>

lemma v1Ip_platform: "gw_platform (snd (v1IpRateLimit C E http g)) = gw_platform g"
  by (simp add: v1IpRateLimit_def rate_limit_platform)

lemma session_bind:
  assumes "gw_platform h = gw_platform g"
  shows "pr_bind (with_session cfg W http) f h = (case session_of cfg W http g of Inl e \<Rightarrow> (Inl e, h) | Inr a \<Rightarrow> f a h)"
  using assms by (simp add: pr_bind_def with_session_def session_of_def)

lemma on_platform_snd: "gw_platform (snd (on_platform m g)) = snd (m (gw_platform g))"
  by (simp add: on_platform_def split: prod.split)

lemma serve_owner_access:
  assumes "accounts_inv (gw_platform g)" and h: "snd (serve_owner C cfg W E F random http query rt g) = h"
    and "gw_platform h \<noteq> gw_platform g"
  shows "\<exists>auth. session_of cfg W http g = Inr auth \<and> wa_address auth \<noteq> [] \<and> accounts_inv (gw_platform h)
    \<and> foreign_accounts (wa_address auth) (gw_platform h) = foreign_accounts (wa_address auth) (gw_platform g)
    \<and> audited_only (gw_platform g) (gw_platform h)"
proof -
  obtain meth body qs where e: "owner_entry_of F rt = (meth, body, qs)" by (metis prod_cases3)
  note p1 = v1Ip_platform [of C E http g]
  have "\<exists>auth v q req. session_of cfg W http g = Inr auth
    \<and> gw_platform h = snd (owner_controller E random req auth rt v q (gw_platform g))"
    using h assms(3) p1 unfolding serve_owner_def e prod.case bind_snd [of "v1IpRateLimit C E http"] bind_lift
    by (auto simp: session_bind [OF p1] on_platform_snd split: sum.splits prod.splits) (intro exI, rule refl)
  then obtain auth v q req where a: "session_of cfg W http g = Inr auth"
    and c: "gw_platform h = snd (owner_controller E random req auth rt v q (gw_platform g))" by blast
  have "wa_address auth \<noteq> []" using owner_controller_anonymous c assms(3) by metis
  with a c owner_controller_keeps [of auth "gw_platform g" E random req rt v q] assms(1) show ?thesis
    by (auto simp: owner_same_def)
qed

section \<open>Requests of administrators\<close>

text \<open>
  What a request of an administrator leaves: every table of the tenants as it was, jobs apart, and both logs
  extended.
\<close>

lemma admin_view_Inr: "admin_view f m p = (Inr y, q) \<longleftrightarrow> (\<exists>x. m p = (Inr x, q) \<and> y = f x)"
  by (auto simp: admin_view_def pr_bind_Inr pr_return_Inr)

lemma admin_front_platform: "gw_platform (snd (admin_front C E F auth http query rt g)) = gw_platform g"
  by (cases rt) (simp_all add: bind_snd createRateLimit_def rate_limit_platform pr_return_def pr_lift_def split: sum.split)

lemma serve_admin_admitted:
  assumes "serve_admin C cfg W E F up http query rt g = (Inr v, h)"
  shows "\<exists>auth q. session_of cfg W http g = Inr auth \<and> wa_address auth \<noteq> [] \<and> wa_isAdmin auth
    \<and> admin_controller E up (admin_request_of auth http q rt) rt (admin_query_of q) (gw_platform g) = (Inr v, gw_platform h)"
proof -
  from assms obtain u g1 w auth g2 where 1: "v1IpRateLimit C E http g = (Inr u, g1)"
    and 2: "with_session cfg W http g1 = (Inr auth, g2)" and 3: "requireInfrastructureAdmin (Some auth) = Inr w"
    and rest: "pr_bind (admin_front C E F auth http query rt)
      (\<lambda>q. on_platform (admin_controller E up (admin_request_of auth http q rt) rt (admin_query_of q))) g2 = (Inr v, h)"
    unfolding serve_admin_def pr_bind_Inr [of "v1IpRateLimit C E http"] pr_bind_Inr [of "pr_lift r" for r]
      pr_bind_Inr [of "with_session cfg W http"] pr_lift_Inr by blast
  have g2: "g2 = g1" "session_of cfg W http g1 = Inr auth" using 2 by (auto simp: with_session_def)
  have p1: "gw_platform g1 = gw_platform g" using v1Ip_platform [of C E http g] 1 by simp
  from rest obtain q g3 where "admin_front C E F auth http query rt g2 = (Inr q, g3)"
    and c: "admin_controller E up (admin_request_of auth http q rt) rt (admin_query_of q) (gw_platform g3) = (Inr v, gw_platform h)"
    by (auto simp: pr_bind_Inr on_platform_Inr)
  then have "gw_platform g3 = gw_platform g"
    using admin_front_platform [of C E F auth http query rt g2] p1 g2 by simp
  moreover have "session_of cfg W http g = Inr auth" using g2 p1 by (simp add: session_of_def)
  moreover have "wa_address auth \<noteq> [] \<and> wa_isAdmin auth"
    using 3 by (simp add: requireInfrastructureAdmin_def tx_iff split: if_splits)
  ultimately show ?thesis using c by auto
qed

text \<open>A read of an administrator that answers is recorded with the address of the session, and changes nothing else.\<close>

definition recorded :: "string option \<Rightarrow> platform \<Rightarrow> platform \<Rightarrow> bool" where
  "recorded address p q \<longleftrightarrow> (\<exists>l n. al_actorAddress l = address \<and> al_action l = ''admin.sensitive_record_viewed''
     \<and> q = p\<lparr>pl_db := (pl_db p)\<lparr>auditLogs := auditLogs (pl_db p) @ [l], uuidCount := n\<rparr>\<rparr>)"

lemma adminRead_recorded:
  assumes "adminRead E a ty view p = (Inr v, q)"
  shows "recorded (ar_address a) p q"
proof -
  obtain l where l: "al_actorAddress l = ar_address a" "al_action l = ''admin.sensitive_record_viewed''"
    and d: "pl_db q = (pl_db p)\<lparr>auditLogs := auditLogs (pl_db p) @ [l], uuidCount := uuidCount (pl_db q)\<rparr>"
    using adminRead_audited(2) [OF assms] by blast
  have "q = p\<lparr>pl_db := pl_db q\<rparr>" using adminRead_audited(3,4) [OF assms] by (cases p; cases q) simp
  with l d show ?thesis unfolding recorded_def by metis
qed

lemma admin_read_recorded:
  assumes "serve_admin C cfg W E F up http query rt g = (Inr v, h)" and "\<And>i. rt \<noteq> AdminReplay i"
  shows "\<exists>auth. session_of cfg W http g = Inr auth \<and> wa_isAdmin auth
    \<and> recorded (Some (wa_address auth)) (gw_platform g) (gw_platform h)"
proof -
  obtain auth q where a: "session_of cfg W http g = Inr auth" "wa_isAdmin auth"
    and c: "admin_controller E up (admin_request_of auth http q rt) rt (admin_query_of q) (gw_platform g) = (Inr v, gw_platform h)"
    using serve_admin_admitted [OF assms(1)] by blast
  have "recorded (ar_address (admin_request_of auth http q rt)) (gw_platform g) (gw_platform h)"
    using c assms(2) by (cases rt) (auto simp: admin_view_Inr dest!: adminRead_recorded)
  with a show ?thesis by (auto simp: admin_request_of_def)
qed

section \<open>Sessions are opened behind the limit\<close>

text \<open>A request that the limit or the schema refuses does not reach the store of challenges.\<close>

lemma auth_refused:
  assumes "fst (auth_front C E limit challengeSchema http g) = Inl e"
  shows "fst (serve_challenge C E limit cfg ops nonce http (g, s)) = Inl e
    \<and> snd (snd (serve_challenge C E limit cfg ops nonce http (g, s))) = s"
  using assms by (cases "auth_front C E limit challengeSchema http g") (simp add: serve_challenge_def)

lemma serve_verify_session:
  assumes "serve_verify C E limit cfg W ops time' http (g, s) = (Inr se, h, t)"
  shows "\<exists>v. validateBody verifySchema (hq_body http) = Inr v
    \<and> verifyChallenge cfg W ops (clock (pl_db (gw_platform h))) time' (verify_input v) s = (Inr se, t)"
proof -
  obtain v where f: "auth_front C E limit verifySchema http g = (Inr v, h)"
    and r: "verifyRoute cfg W ops (clock (pl_db (gw_platform h))) time' (verify_input v) s = (Inr se, t)"
    using assms by (auto simp: serve_verify_def split: prod.splits sum.splits)
  from f have "validateBody verifySchema (hq_body http) = Inr v"
    by (auto simp: auth_front_def pr_bind_Inr pr_lift_Inr)
  moreover from r have "verifyChallenge cfg W ops (clock (pl_db (gw_platform h))) time' (verify_input v) s = (Inr se, t)"
    by (auto simp: verifyRoute_def split: prod.splits sum.splits)
  ultimately show ?thesis by blast
qed

end
