(* ===== verification/Scenarios.thy ===== *)
theory Scenarios
  imports Fixtures Console
begin

text \<open>
  Concrete inputs for the witnesses of the access, delivery and operations properties: a platform with
  one application, its key and an endpoint, and requests to it.
\<close>

section \<open>A request through the middleware\<close>

definition demo_app :: app_row where
  "demo_app = \<lparr>ap_id = ''app'', ap_name = ''n'', ap_slug = ''s'', ap_ownerId = ''owner'', ap_environment = ''sandbox'',
     ap_status = AppActive, ap_defaultCurrency = ''CKB'', ap_defaultNetwork = ''sandbox'', ap_createdAt = 0, ap_updatedAt = 0\<rparr>"

definition demo_key :: api_key where
  "demo_key = \<lparr>ak_id = ''id'', ak_appId = ''app'', ak_name = ''n'', ak_keyPrefix = ''key'', ak_keyHash = ''key'',
     ak_environment = ''sandbox'', ak_status = KeyActive, ak_scopes = [''webhooks:manage'', ''webhooks:read''], ak_lastUsedAt = None,
     ak_createdAt = 0, ak_revokedAt = None\<rparr>"

definition demo_endpoint :: webhook_endpoint where
  "demo_endpoint = \<lparr>we_id = ''w'', we_appId = ''app'', we_url = ''https://a'', we_description = None,
     we_subscribedEvents = [], we_secretHash = None, we_secretCiphertext = None, we_encryptionKeyVersion = None,
     we_status = ''active'', we_deletedAt = None, we_createdAt = 0, we_updatedAt = 0\<rparr>"

definition demo_platform :: platform where
  "demo_platform = \<lparr>pl_db = empty_db\<lparr>endpoints := [demo_endpoint]\<rparr>, pl_apps = [demo_app], pl_apiKeys = [demo_key]\<rparr>"

definition demo_gateway :: gateway where
  "demo_gateway = \<lparr>gw_platform = demo_platform, gw_limiter = \<lparr>lm_memory = fmempty, lm_redis = fmempty\<rparr>\<rparr>"

definition demo_limits :: gateway_config where
  "demo_limits = \<lparr>gc_limiter = \<lparr>lc_redisUrl = False, lc_rateLimitFailClosed = True\<rparr>, gc_up = (\<lambda>_. True),
     gc_v1IpRateLimitWindowMs = 1000, gc_v1IpRateLimitMax = 9, gc_v1ApiKeyRateLimitWindowMs = 1000,
     gc_v1ApiKeyRateLimitMax = 9, gc_v1TenantRateLimitMax = 9, gc_actionRateLimitWindowMs = 1000,
     gc_actionRateLimitMax = 9\<rparr>"

definition demo_http :: http_request where
  "demo_http = \<lparr>hq_headers = (\<lambda>n. if n = ''x-api-key'' then Some ''key'' else None), hq_contentLength = None,
     hq_originalUrl = ''/v1'', hq_body = None, hq_ip = Some ''i'', hq_remoteAddress = None, hq_uuid = ''u''\<rparr>"

lemma demo_accounts: "accounts_inv demo_platform"
  by (simp add: accounts_inv_def demo_platform_def demo_app_def demo_key_def)

lemma demo_trims: "trim ''key'' = ''key''" "trim ''app'' = ''app''"
  by code_simp+

lemma fresh_bucket:
  assumes "\<not> lc_redisUrl (gc_limiter C)" and "k \<noteq> []" and "0 < lo_max opts"
    and "fmlookup (lm_memory (gw_limiter g)) (storageKey (sha256 E) (lo_namespace opts) k) = None"
  shows "\<exists>l. rate_limit C E opts (Some k) g = (Inr (), g\<lparr>gw_limiter := l\<rparr>)
    \<and> (\<forall>other. other \<noteq> storageKey (sha256 E) (lo_namespace opts) k \<longrightarrow> fmlookup (lm_memory (gw_limiter g)) other = None
         \<longrightarrow> fmlookup (lm_memory l) other = None)"
proof -
  obtain m where m: "consumeMemory (clock (pl_db (gw_platform g))) (storageKey (sha256 E) (lo_namespace opts) k)
      (lo_windowMs opts) (lm_memory (gw_limiter g))
    = (\<lparr>bk_count = 1, bk_resetAt = clock (pl_db (gw_platform g)) + lo_windowMs opts\<rparr>, m)"
    and o: "\<forall>other. other \<noteq> storageKey (sha256 E) (lo_namespace opts) k \<longrightarrow> fmlookup (lm_memory (gw_limiter g)) other = None
       \<longrightarrow> fmlookup m other = None"
    using assms(4) by (simp add: consumeMemory_def dropExpired_def Let_def)
  show ?thesis using assms(1-3) o
    by (intro exI [of _ "(gw_limiter g)\<lparr>lm_memory := m\<rparr>"])
      (auto simp: rate_limit_def infrastructureRateLimit_def consume_def m Let_def)
qed

lemma demo_authenticated:
  "authenticateApiKey demo_env ''key'' demo_platform =
     (Inr (Some (demo_key, demo_app)), demo_platform\<lparr>pl_apiKeys := [demo_key\<lparr>ak_lastUsedAt := Some 0\<rparr>]\<rparr>)"
  by (simp add: authenticateApiKey_def findActiveApiKeyByHash_def updateApiKeyLastUsedAt_def active_key_def key_app_def
      hashApiKey_def demo_env_def pr_defs eval_tx demo_platform_def demo_key_def demo_app_def empty_db_def)

lemma demo_extracted: "extractApiKey demo_http = Some ''key''"
  by (simp add: extractApiKey_def js_or_def demo_http_def demo_trims)

lemma demo_authorized:
  "\<exists>l1 l2 p. v1IpRateLimit demo_limits demo_env demo_http demo_gateway = (Inr (), demo_gateway\<lparr>gw_limiter := l1\<rparr>)
     \<and> requireApiKey demo_limits demo_env demo_http (demo_gateway\<lparr>gw_limiter := l1\<rparr>)
       = (Inr (demo_key, demo_app, ''app''), \<lparr>gw_platform = p, gw_limiter = l2\<rparr>) \<and> pl_db p = pl_db demo_platform"
proof -
  let ?ip = "storageKey (sha256 demo_env) ''v1:ip'' ''i''" and ?key = "storageKey (sha256 demo_env) ''v1:api-key'' ''id''"
  let ?app = "storageKey (sha256 demo_env) ''v1:tenant'' ''app''"
  have d: "?key \<noteq> ?ip" "?app \<noteq> ?ip" "?app \<noteq> ?key" by (simp_all add: storageKey_def demo_env_def)
  obtain l1 where l1: "v1IpRateLimit demo_limits demo_env demo_http demo_gateway = (Inr (), demo_gateway\<lparr>gw_limiter := l1\<rparr>)"
    "fmlookup (lm_memory l1) ?key = None" "fmlookup (lm_memory l1) ?app = None"
    using fresh_bucket [of demo_limits "''i''" "\<lparr>lo_namespace = ''v1:ip'', lo_windowMs = 1000, lo_max = 9\<rparr>" demo_gateway demo_env] d
    by (auto simp: v1IpRateLimit_def demo_limits_def demo_http_def js_or_def demo_gateway_def)
  define g1 where "g1 = \<lparr>gw_platform = demo_platform\<lparr>pl_apiKeys := [demo_key\<lparr>ak_lastUsedAt := Some 0\<rparr>]\<rparr>, gw_limiter = l1\<rparr>"
  obtain l2 where l2: "v1ApiKeyRateLimit demo_limits demo_env demo_key g1 = (Inr (), g1\<lparr>gw_limiter := l2\<rparr>)"
    "fmlookup (lm_memory l2) ?app = None"
    using fresh_bucket [of demo_limits "''id''" "\<lparr>lo_namespace = ''v1:api-key'', lo_windowMs = 1000, lo_max = 9\<rparr>" g1 demo_env] d l1
    by (auto simp: v1ApiKeyRateLimit_def demo_limits_def demo_key_def g1_def)
  obtain l3 where l3: "v1TenantRateLimit demo_limits demo_env demo_key (g1\<lparr>gw_limiter := l2\<rparr>) = (Inr (), g1\<lparr>gw_limiter := l3\<rparr>)"
    using fresh_bucket [of demo_limits "''app''" "\<lparr>lo_namespace = ''v1:tenant'', lo_windowMs = 1000, lo_max = 9\<rparr>"
        "g1\<lparr>gw_limiter := l2\<rparr>" demo_env] l2(2)
    by (auto simp: v1TenantRateLimit_def demo_limits_def demo_key_def g1_def)
  have k: "ak_appId demo_key = ''app''" by (simp add: demo_key_def)
  have p: "on_platform (authenticateApiKey demo_env ''key'') (demo_gateway\<lparr>gw_limiter := l1\<rparr>) = (Inr (Some (demo_key, demo_app)), g1)"
    by (simp add: on_platform_def demo_gateway_def demo_authenticated g1_def)
  have r: "requireApiKey demo_limits demo_env demo_http (demo_gateway\<lparr>gw_limiter := l1\<rparr>)
      = (Inr (demo_key, demo_app, ''app''), g1\<lparr>gw_limiter := l3\<rparr>)"
    by (simp add: requireApiKey_def demo_extracted pr_bind_def pr_lift_def pr_return_def p l2 l3 tenantContext_def k demo_trims)
  show ?thesis using l1(1) r
    by (intro exI [of _ l1] exI [of _ l3] exI [of _ "gw_platform g1"]) (simp add: g1_def)
qed

lemma demo_scopes: "ak_scopes demo_key = [''webhooks:manage'', ''webhooks:read'']" "hq_body demo_http = None"
  by (simp_all add: demo_key_def demo_http_def)

lemma demo_admitted:
  "\<exists>l p. admit demo_limits demo_env F demo_http (DeleteEndpoint ''w'') demo_gateway
     = (Inr (demo_key, demo_app, ''app'', None), \<lparr>gw_platform = p, gw_limiter = l\<rparr>) \<and> pl_db p = pl_db demo_platform"
  using demo_authorized by (auto simp: admit_def pr_bind_def pr_lift_def pr_return_def payload_limits_def payloadLimit_def
      requireScope_def res_require_def route_scope_def List.map_filter_def demo_scopes)

lemma demo_served:
  "endpoints (pl_db (gw_platform (snd (serve demo_limits demo_env K S F demo_http (DeleteEndpoint ''w'') demo_gateway))))
     \<noteq> endpoints (pl_db (gw_platform demo_gateway))"
proof -
  obtain l p where a: "admit demo_limits demo_env F demo_http (DeleteEndpoint ''w'') demo_gateway
     = (Inr (demo_key, demo_app, ''app'', None), \<lparr>gw_platform = p, gw_limiter = l\<rparr>)" and p: "pl_db p = pl_db demo_platform"
    using demo_admitted by blast
  have e: "snd (serve demo_limits demo_env K S F demo_http (DeleteEndpoint ''w'') demo_gateway) =
      snd (on_tenants (deleteWebhookEndpointForApp demo_env (service_request demo_http (DeleteEndpoint ''w'') demo_key None)
        ''app'' ''w'') \<lparr>gw_platform = p, gw_limiter = l\<rparr>)"
    by (simp add: serve_def pr_bind_def a controller_def split: prod.split sum.split)
  show ?thesis unfolding e
    by (simp add: pr_bind_def on_tenants_def deleteWebhookEndpointForApp_def p
        findWebhookEndpointForApp_def deleteWebhookEndpointRow_def updateEndpoint_def endpoint_is_def auditWebhook_def
        createInfrastructureAuditLog_def atomically_def pr_return_def eval_tx demo_platform_def demo_endpoint_def
        demo_gateway_def empty_db_def demo_env_def)
qed

text \<open>A page of the endpoints after the endpoint \<open>w\<close>, with and without the endpoint of another tenant.\<close>

definition demo_query :: json where
  "demo_query = JObj [(''limit'', JStr ''5''), (''cursor'', JStr ''w'')]"

definition demo_page_query :: json where
  "demo_page_query = JObj [(''limit'', JNum 5), (''cursor'', JStr ''w'')]"

definition demo_shared :: db where
  "demo_shared = empty_db\<lparr>endpoints := [demo_endpoint\<lparr>we_id := ''x'', we_appId := ''other''\<rparr>, demo_endpoint]\<rparr>"

lemma demo_query_valid: "validateQuery webhookEndpointListQuerySchema demo_query = Inr demo_page_query"
  by code_simp

lemma demo_read_admitted:
  "\<exists>h. admit_read demo_limits demo_env F demo_http demo_query GetEndpoints demo_gateway = (Inr (demo_app, ''app'', demo_page_query), h)"
  using demo_authorized by (auto simp: admit_read_def pr_bind_def pr_lift_def pr_return_def get_entry_of_def List.map_filter_def read_guard_def
      requireScope_def res_require_def demo_scopes demo_query_valid)

lemma demo_shared_own:
  "own_rows ''app'' (pl_db demo_platform) demo_shared" "own_cursor ''app'' (query_cursor demo_page_query) (pl_db demo_platform)"
  "own_cursor ''app'' (query_cursor demo_page_query) demo_shared" "clock demo_shared = clock (pl_db demo_platform)"
  by (simp_all add: own_rows_def own_cursor_def query_cursor_def demo_page_query_def demo_shared_def demo_platform_def
      demo_endpoint_def empty_db_def str_opt_def member_def)

section \<open>Accounts\<close>

text \<open>An owner creates an application and a key for it.\<close>

definition demo_key_data :: create_key_data where
  "demo_key_data = \<lparr>kd_appId = ''0'', kd_name = ''n'', kd_keyPrefix = ''key'', kd_keyHash = ''key'',
     kd_environment = ''sandbox'', kd_scopes = []\<rparr>"

definition demo_app_input :: create_app_input where
  "demo_app_input = \<lparr>ca_name = ''n'', ca_slug = ''s'', ca_environment = ''sandbox'', ca_defaultCurrency = ''CKB'',
     ca_defaultNetwork = ''sandbox''\<rparr>"

definition demo_with_app :: platform where
  "demo_with_app = (case createApp demo_env ''owner'' demo_app_input empty_platform of Inr r \<Rightarrow> snd r | Inl e \<Rightarrow> empty_platform)"

definition demo_owned :: platform where
  "demo_owned = (case createApiKey demo_env demo_key_data demo_with_app of Inr r \<Rightarrow> snd r | Inl e \<Rightarrow> demo_with_app)"

lemmas eval_accounts =
  createApp_def createApiKey_def on_db_def eval_tx demo_env_def demo_app_input_def demo_key_data_def empty_platform_def
  empty_db_def show_small

lemma demo_with_app_step: "access_step empty_platform demo_with_app"
proof -
  obtain r where "createApp demo_env ''owner'' demo_app_input empty_platform = Inr r" by (simp add: eval_accounts)
  then show ?thesis by (cases r) (auto simp: demo_with_app_def intro: access_step.app_created)
qed

lemma demo_owned_step: "access_step demo_with_app demo_owned"
proof -
  obtain r where "createApiKey demo_env demo_key_data demo_with_app = Inr r" by (simp add: eval_accounts demo_with_app_def)
  then show ?thesis by (cases r) (auto simp: demo_owned_def intro: access_step.key_created)
qed

lemma demo_owned_run: "access_step\<^sup>*\<^sup>* empty_platform demo_owned"
  using demo_with_app_step demo_owned_step by auto

lemma demo_owned_rows:
  "\<exists>k a. pl_apiKeys demo_owned = [k] \<and> pl_apps demo_owned = [a] \<and> ak_keyHash k = ''key'' \<and> ak_status k = KeyActive
     \<and> ap_id a = ak_appId k \<and> ap_status a = AppActive"
  by (simp add: demo_owned_def demo_with_app_def eval_accounts)

definition demo_revoked :: platform where
  "demo_revoked = demo_platform\<lparr>pl_apiKeys := [demo_key\<lparr>ak_status := KeyRevoked\<rparr>]\<rparr>"

lemma demo_revoked_accounts: "accounts_inv demo_revoked"
  by (simp add: accounts_inv_def demo_revoked_def demo_platform_def demo_app_def demo_key_def)

section \<open>A wallet that signs in\<close>

definition demo_auth :: auth_config where
  "demo_auth = \<lparr>ac_challengeTtlSecs = 600, ac_tokenTtlSecs = 3600, ac_jwtKeys = (\<lambda>_. None), ac_jwtActiveKid = ''legacy'',
     ac_jwtSecret = ''s'', ac_adminAddresses = []\<rparr>"

definition demo_wallet :: wallet_lib where
  "demo_wallet = \<lparr>wl_verifyMessage = (\<lambda>m sig. Inr (sg_signature sig = m)), wl_publicKeyAddress = (\<lambda>k. Some (Inr k)),
     wl_parseJson = (\<lambda>_. None), wl_sign = (\<lambda>a k kid t n. a), wl_decodeKid = (\<lambda>_. None),
     wl_verifyToken = (\<lambda>_ _ _. Inl (JsError []))\<rparr>"

definition demo_login :: verify_params where
  "demo_login = \<lparr>vp_address = ''a'', vp_message = ''m'',
     vp_signature = \<lparr>sg_signature = ''m'', sg_identity = ''a'', sg_signType = ''CkbSecp256k1''\<rparr>\<rparr>"

definition demo_challenges :: redis_store where
  "demo_challenges = redis_put (\<lambda>s. s) 0 \<lparr>ch_address = ''a'', ch_message = ''m'', ch_expiresAt = 600000\<rparr> 600000 fmempty"

lemma demo_normal: "normalizeWalletAddress ''a'' = ''a''"
  by code_simp

lemma demo_session:
  "\<exists>v t. verifyChallenge demo_auth demo_wallet (RedisAuthChallengeStore (\<lambda>s. s)) 1 2 demo_login demo_challenges = (Inr v, t)"
  by (simp add: verifyChallenge_def checkChallenge_def RedisAuthChallengeStore_def redis_get_def redis_consume_def
      redis_lookup_def redis_put_def parse_challenge_def challenge_json_def json_member_def challengeKey_def
      deriveAddressFromSignatureIdentity_def jwtSigningKey_def requireConfig_def or_else_def res_require_def
      demo_auth_def demo_wallet_def demo_login_def demo_challenges_def demo_normal Let_def)

text \<open>The owner of the application disables it.\<close>

definition demo_owner_wallet :: wallet_lib where
  "demo_owner_wallet = demo_wallet\<lparr>wl_verifyToken := (\<lambda>_ t _. Inr \<lparr>tc_address = Some t, tc_iat = None, tc_exp = None\<rparr>)\<rparr>"

definition demo_owner_http :: http_request where
  "demo_owner_http = demo_http\<lparr>hq_headers := (\<lambda>n. if n = ''authorization'' then Some ''Bearer owner'' else None)\<rparr>"

lemma demo_owner_session:
  "session_of demo_auth demo_owner_wallet demo_owner_http g
     = Inr \<lparr>wa_address = ''owner'', wa_isAdmin = False, wa_issuedAt = 0, wa_expiresAt = 0\<rparr>"
proof -
  have n: "normalizeWalletAddress ''owner'' = ''owner''" by code_simp
  show ?thesis
    by (simp add: session_of_def requireAuth_def startsWith_def verifyAuthToken_def jwtVerificationKey_def requireConfig_def
        or_else_def isAdminAddress_def demo_auth_def demo_owner_wallet_def demo_wallet_def demo_owner_http_def n)
qed

lemma demo_disabled:
  "pl_apps (gw_platform (snd (serve_owner demo_limits demo_auth demo_owner_wallet demo_env F random demo_owner_http JNull
     (PostDisable ''app'') demo_gateway))) = [demo_app\<lparr>ap_status := AppDisabled\<rparr>]"
proof -
  obtain l where l: "v1IpRateLimit demo_limits demo_env demo_owner_http demo_gateway = (Inr (), demo_gateway\<lparr>gw_limiter := l\<rparr>)"
    using fresh_bucket [of demo_limits "''i''" "\<lparr>lo_namespace = ''v1:ip'', lo_windowMs = 1000, lo_max = 9\<rparr>" demo_gateway demo_env]
    by (auto simp: v1IpRateLimit_def demo_limits_def demo_owner_http_def demo_http_def js_or_def demo_gateway_def)
  have b: "hq_body demo_owner_http = None" "hq_contentLength demo_owner_http = None"
    by (simp_all add: demo_owner_http_def demo_http_def)
  have "gw_platform (snd (serve_owner demo_limits demo_auth demo_owner_wallet demo_env F random demo_owner_http JNull
      (PostDisable ''app'') demo_gateway))
    = snd (disableAppForOwner demo_env (console_request demo_owner_http ''POST'' None) ''owner'' ''app'' demo_platform)"
    by (simp add: serve_owner_def owner_entry_of_def List.map_filter_def bind_snd [of "v1IpRateLimit C E http" for C E http] l bind_lift
        b payloadLimit_def session_bind [where g = h and h = h for h] demo_owner_session validated_def on_platform_snd
        owner_controller_def requireOwner_def snd_answers)
      (simp add: demo_gateway_def)
  also have "pl_apps \<dots> = [demo_app\<lparr>ap_status := AppDisabled\<rparr>]"
    by (simp add: disableAppForOwner_def changeApp_def findAppForOwner_def disableAppRows_def app_is_def auditOwner_def
        createAuditLogForRequest_def createInfrastructureAuditLog_def on_db_def pr_defs eval_tx
        demo_platform_def demo_app_def demo_env_def empty_db_def)
  finally show ?thesis .
qed

section \<open>A body and an environment\<close>

definition demo_formats :: formats where
  "demo_formats = \<lparr>fm_uuid = (\<lambda>s. length s = 1), fm_url = (\<lambda>s. s \<noteq> []), fm_datetime = (\<lambda>s. s \<noteq> []), fm_time = (\<lambda>s. 0)\<rparr>"

definition demo_escrow_parsed :: json where
  "demo_escrow_parsed = (case validateBody (createEscrowSchema demo_formats)
     (Some (JObj [(''agreementId'', JStr ''0''), (''amount'', JStr ''9'')])) of Inr v \<Rightarrow> v | Inl e \<Rightarrow> JNull)"

lemma demo_escrow_body:
  "validateBody (createEscrowSchema demo_formats) (Some (JObj [(''agreementId'', JStr ''0''), (''amount'', JStr ''9'')]))
     = Inr demo_escrow_parsed"
  by code_simp

definition demo_vars :: variables where
  "demo_vars = map_of [(''NODE_ENV'', ''staging''), (''SERVICE_ROLE'', ''worker''), (''DATABASE_URL'', ''a''), (''DIRECT_URL'', ''b''),
     (''WEBHOOK_EGRESS_PROXY_URL'', ''p''), (''WEBHOOK_SECRET_ENCRYPTION_KEY'', ''0123456789abcdef0123456789abcdef'')]"

definition demo_host :: host where
  "demo_host = \<lparr>ho_url = (\<lambda>s. Some \<lparr>up_protocol = ''http:'', up_hostname = s, up_port = [], up_pathname = []\<rparr>),
     ho_number = (\<lambda>_. None), ho_readFile = (\<lambda>_. None), ho_parseJson = (\<lambda>_. None)\<rparr>"

lemma demo_startup: "\<not> isl (startup demo_host demo_vars)"
  by code_simp

section \<open>A job that a worker claims\<close>

definition demo_job_params :: enqueue_params where
  "demo_job_params = \<lparr>ep_appId = ''app'', ep_agreementId = None, ep_kind = DELIVER_WEBHOOK, ep_payload = None,
     ep_availableAt = None, ep_maxAttempts = None, ep_dedupeKey = None\<rparr>"

definition demo_worker :: worker_config where
  "demo_worker = \<lparr>wk_queues = [''webhook''], wk_concurrency = 4, wk_jobLeaseMs = 10000, wk_reconciliationPollMs = 5000\<rparr>"

definition demo_queued :: db where
  "demo_queued = committed (enqueueJob demo_env demo_job_params) empty_db"

definition demo_claimed :: db where
  "demo_claimed = committed (claimAvailableJobs ''w'' [''webhook''] 9 10000) demo_queued"

lemmas eval_jobs =
  enqueueJob_def create_job_def claimAvailableJobs_def claimCandidates_def claimable_def queueForJobKind_def
  eval_tx demo_job_params_def demo_env_def empty_db_def show_small

lemma demo_queued_commits: "\<not> isl (enqueueJob demo_env demo_job_params empty_db)"
  by (simp add: eval_jobs)

lemma demo_queued_rows:
  "\<exists>j. jobs demo_queued = [j] \<and> clock demo_queued = 0 \<and> aj_kind j = DELIVER_WEBHOOK \<and> aj_payload j = None
     \<and> aj_status j = JS_QUEUED \<and> aj_queue j = ''webhook'' \<and> aj_availableAt j = 0 \<and> aj_leaseExpiresAt j = None"
  by (simp add: demo_queued_def committed_def eval_jobs)

lemma claim_commits: "\<not> isl (claimAvailableJobs w queues limit leaseMs s)"
  by (simp add: claimAvailableJobs_def eval_tx)

lemma demo_claimed_eq:
  "\<exists>js. claimAvailableJobs ''w'' [''webhook''] 9 10000 demo_queued = Inr (js, demo_claimed)"
  unfolding demo_claimed_def by (rule committedI) (rule claim_commits)

lemma demo_claimed_rows:
  "\<exists>k. jobs demo_claimed = [k] \<and> aj_kind k = DELIVER_WEBHOOK \<and> aj_payload k = None \<and> owned_by (aj_id k) ''w'' k"
proof -
  obtain j where "jobs demo_queued = [j]" "clock demo_queued = 0" "aj_kind j = DELIVER_WEBHOOK" "aj_payload j = None"
    "aj_status j = JS_QUEUED" "aj_queue j = ''webhook''" "aj_availableAt j = 0" "aj_leaseExpiresAt j = None"
    using demo_queued_rows by blast
  then show ?thesis
    by (simp add: demo_claimed_def committed_def claimAvailableJobs_def claimCandidates_def claimable_def owned_by_def eval_tx)
qed

lemma demo_claimed_owned:
  "jobs demo_claimed ! 0 \<in> set (jobs demo_claimed)"
  "owned_by (aj_id (jobs demo_claimed ! 0)) ''w'' (jobs demo_claimed ! 0)"
  using demo_claimed_rows by auto

lemma demo_queued_run: "reachable demo_queued"
  using committedI [of "enqueueJob demo_env demo_job_params", OF demo_queued_commits] unfolding demo_queued_def
  by (blast intro: server_step.queue queue_step.enqueue)

lemma demo_claim_run: "server_step\<^sup>*\<^sup>* demo_queued demo_claimed"
  using demo_claimed_eq by (blast intro: server_step.queue queue_step.claim)

lemma demo_claimed_run: "reachable demo_claimed"
  using demo_queued_run demo_claim_run by (rule rtranclp_trans)

lemma demo_claims:
  "\<exists>js js' t. claimAvailableJobs ''w'' [''webhook''] 9 10000 demo_queued = Inr (js, demo_claimed)
     \<and> claimAvailableJobs ''v'' [''webhook''] 9 10000 demo_claimed = Inr (js', t)"
  using demo_claimed_eq committedI [of "claimAvailableJobs ''v'' [''webhook''] 9 10000", OF claim_commits] by blast

text \<open>The job has no payload, so it fails.\<close>

lemma demo_job_fails:
  "\<exists>r. runWithJobDeadline d (processJob demo_env X demo_worker (jobs demo_claimed ! 0)) demo_claimed = (r, demo_claimed)"
proof -
  have "aj_kind (jobs demo_claimed ! 0) = DELIVER_WEBHOOK" "aj_payload (jobs demo_claimed ! 0) = None"
    using demo_claimed_rows by auto
  then show ?thesis
    by (cases d) (simp_all add: runWithJobDeadline_def processJob_def parseJobPayload_def truthy_def pr_throw_def Let_def)
qed

section \<open>Deliveries, secrets and connections\<close>

definition demo_delivery :: webhook_delivery where
  "demo_delivery = \<lparr>wd_id = ''d'', wd_appId = ''app'', wd_endpointId = ''w'', wd_eventId = None, wd_agreementId = None,
     wd_eventType = ''t'', wd_payloadJson = ''p'', wd_payloadHash = ''h'', wd_status = WD_DELIVERED, wd_statusCode = Some 200,
     wd_responseBodySnippet = None, wd_attempts = 1, wd_lastError = None, wd_nextRetryAt = None, wd_deliveredAt = Some 0,
     wd_createdAt = 0, wd_updatedAt = 0\<rparr>"

definition demo_delivered_db :: db where
  "demo_delivered_db = empty_db\<lparr>deliveries := [demo_delivery]\<rparr>"

definition demo_after_delivery :: db where
  "demo_after_delivery = committed (enqueueJob demo_env demo_job_params) demo_delivered_db"

lemma demo_delivery_run: "server_step\<^sup>*\<^sup>* demo_delivered_db demo_after_delivery"
proof -
  have "\<not> isl (enqueueJob demo_env demo_job_params demo_delivered_db)" by (simp add: demo_delivered_db_def eval_jobs)
  from committedI [of "enqueueJob demo_env demo_job_params", OF this] show ?thesis unfolding demo_after_delivery_def
    by (blast intro: server_step.queue queue_step.enqueue)
qed

text \<open>A cipher that only authenticates, with an old and an active key.\<close>

definition demo_crypto :: webhook_crypto where
  "demo_crypto = \<lparr>wc_encryptionKeys = map_of [(''k1'', ''one''), (''k2'', ''two'')], wc_secretEncryptionKey = [], wc_activeKeyId = ''k2'',
     wc_digest = utf8_bytes, wc_seal = (\<lambda>k iv p. (p, k @ [0])),
     wc_open = (\<lambda>k iv tag ct. if tag = k @ [0] then Inr ct else Inl (JsError ''auth'')),
     wc_hmac = (\<lambda>_ _. []), wc_sha256 = (\<lambda>s. s)\<rparr>"

definition demo_ciphertext :: string where
  "demo_ciphertext = (case encryptWebhookSecret (demo_crypto\<lparr>wc_activeKeyId := ''k1''\<rparr>) [1] ''s'' of Inr c \<Rightarrow> c | Inl e \<Rightarrow> [])"

definition demo_sealed_endpoint :: webhook_endpoint where
  "demo_sealed_endpoint = demo_endpoint\<lparr>we_secretCiphertext := Some demo_ciphertext\<rparr>"

lemma demo_opens: "opens_sealed demo_crypto [1]" "opens_sealed (demo_crypto\<lparr>wc_activeKeyId := k\<rparr>) [1]"
  by (simp_all add: opens_sealed_def demo_crypto_def)

lemma demo_key_known: "\<not> isl (encryptWebhookSecret (demo_crypto\<lparr>wc_activeKeyId := ''k1''\<rparr>) [1] ''s'')"
  "\<not> isl (encryptWebhookSecret demo_crypto [1] ''s'')"
  by (simp_all add: encryptWebhookSecret_def encryptionKey_def requireConfig_def or_else_def demo_crypto_def)

lemma decrypt_any_active: "decryptWebhookSecret (C\<lparr>wc_activeKeyId := k\<rparr>) c = decryptWebhookSecret C c"
proof -
  have k: "encryptionKey (C\<lparr>wc_activeKeyId := k\<rparr>) = encryptionKey C" by (rule ext) (simp add: encryptionKey_def)
  have o: "wc_open (C\<lparr>wc_activeKeyId := k\<rparr>) = wc_open C" by simp
  show ?thesis unfolding decryptWebhookSecret_def k o ..
qed

lemma demo_decrypts:
  "decryptWebhookSecret demo_crypto demo_ciphertext = Inr ''s''" "getWebhookEncryptionKeyId demo_ciphertext = Inr ''k1''"
proof -
  let ?C = "demo_crypto\<lparr>wc_activeKeyId := ''k1''\<rparr>"
  have "encryptWebhookSecret ?C [1] ''s'' = Inr demo_ciphertext"
    using demo_key_known(1) by (cases "encryptWebhookSecret ?C [1] ''s''") (auto simp: demo_ciphertext_def)
  then have "decryptWebhookSecret ?C demo_ciphertext = Inr ''s'' \<and> getWebhookEncryptionKeyId demo_ciphertext = Inr (wc_activeKeyId ?C)"
    by (rule secret_recovered) (use demo_opens in \<open>auto simp: opens_sealed_def\<close>)
  then show "decryptWebhookSecret demo_crypto demo_ciphertext = Inr ''s''" "getWebhookEncryptionKeyId demo_ciphertext = Inr ''k1''"
    by (simp_all add: decrypt_any_active)
qed

lemma demo_ciphertext_text: "demo_ciphertext \<noteq> []"
  using demo_decrypts(1) by (auto simp: decryptWebhookSecret_def nth_opt_def)

lemma demo_sealed_row:
  "we_deletedAt demo_sealed_endpoint = None" "we_secretCiphertext demo_sealed_endpoint = Some demo_ciphertext"
  "wc_activeKeyId demo_crypto = ''k2''"
  by (simp_all add: demo_sealed_endpoint_def demo_endpoint_def demo_crypto_def)

lemma demo_rotated: "\<exists>vs. rotateAll demo_crypto (\<lambda>_. [1]) 5 [demo_sealed_endpoint] = (Inr (), vs) \<and> length vs = 1"
proof -
  obtain c where c: "encryptWebhookSecret demo_crypto [1] ''s'' = Inr c"
    using demo_key_known(2) by (cases "encryptWebhookSecret demo_crypto [1] ''s''") auto
  moreover have "getWebhookEncryptionKeyId c = Inr (wc_activeKeyId demo_crypto)"
    using secret_recovered [OF c] demo_opens(1) demo_sealed_row(3) by (auto simp: opens_sealed_def)
  ultimately have "\<not> isl (rotateEndpoint demo_crypto (\<lambda>_. [1]) 5 demo_sealed_endpoint)"
    using demo_decrypts demo_ciphertext_text demo_sealed_row by (simp add: rotateEndpoint_def or_else_def)
  then show ?thesis
    by (cases "rotateEndpoint demo_crypto (\<lambda>_. [1]) 5 demo_sealed_endpoint")
      (auto simp: demo_sealed_row)
qed

definition demo_url :: web_url where
  "demo_url = \<lparr>u_protocol = ''https:'', u_username = [], u_password = [], u_hostname = ''1.1.1.1'', u_href = ''u''\<rparr>"

definition demo_web :: web where
  "demo_web = \<lparr>parseUrl = (\<lambda>_. Some demo_url), relativeUrl = (\<lambda>_ _. None), lookupAll = (\<lambda>_ _. Inr []),
     requestImpl = (\<lambda>_ _ _. Inr \<lparr>hr_status = 200, hr_location = None, hr_body = []\<rparr>)\<rparr>"

lemma demo_target:
  "isIP ''1.1.1.1'' = 4" "strip_brackets ''1.1.1.1'' = ''1.1.1.1''" "\<not> isBlockedIpAddress ''1.1.1.1''"
  "\<not> isBlockedHostname ''1.1.1.1''"
proof -
  show ip: "isIP ''1.1.1.1'' = 4" and br: "strip_brackets ''1.1.1.1'' = ''1.1.1.1''" by code_simp+
  moreover have "\<not> list_ex (in_block (ipv4_value (map BigInt (split_on (CHR ''.'') ''1.1.1.1'')))) BLOCKED_RANGES" by code_simp
  ultimately show a: "\<not> isBlockedIpAddress ''1.1.1.1''" using ipv4_filter by blast
  have "toLowerCase ''1.1.1.1'' = ''1.1.1.1''" "\<not> endsWith ''1.1.1.1'' ''.localhost''" "\<not> endsWith ''1.1.1.1'' ''.local''"
    "\<not> endsWith ''1.1.1.1'' ''.internal''" by code_simp+
  then show "\<not> isBlockedHostname ''1.1.1.1''" using a by (simp add: isBlockedHostname_def ip br)
qed

lemma demo_fetched: "\<exists>r. fetchWebhookUrl demo_web ''u'' ''production'' 2 = (r, [(demo_url, ''1.1.1.1'')])"
proof -
  have "resolveAllowedTarget demo_web 0 ''u'' ''production'' = Inr (demo_url, [''1.1.1.1''])"
    using demo_target
    by (simp add: resolveAllowedTarget_def assertWebhookUrlShapeAllowed_def resolveHostname_def res_require_def
        demo_web_def demo_url_def)
  then show ?thesis by (simp add: fetchWebhookUrl_def fetchFrom.simps [of _ _ 0 2] demo_web_def)
qed

section \<open>Cells and transactions of the chain\<close>

definition demo_hex :: "char \<Rightarrow> string" where
  "demo_hex c = ''0x'' @ replicate 64 c"

lemma demo_lower: "toLowerCase (demo_hex (CHR ''a'')) = demo_hex (CHR ''a'')"
  by code_simp

definition demo_lock_args :: EscrowLockArgs where
  "demo_lock_args = \<lparr>clientLockHash = demo_hex (CHR ''a''), workerLockHash = demo_hex (CHR ''a''), agreementSalt = demo_hex (CHR ''a'')\<rparr>"

definition demo_cell_data :: EscrowCellData where
  "demo_cell_data = \<lparr>milestoneIndex = 1, refundTimeoutSince = 2, agreementDigest = demo_hex (CHR ''a''),
     milestoneDigest = demo_hex (CHR ''a'')\<rparr>"

lemma demo_encodes: "\<not> isl (encodeEscrowLockArgs demo_lock_args)" "\<not> isl (encodeEscrowCellData demo_cell_data)"
proof -
  have "list_all hex_char (replicate 64 (CHR ''a''))" by code_simp
  then have "fixedHex (demo_hex (CHR ''a'')) 32 = Inr (replicate 64 (CHR ''a''))"
    unfolding demo_hex_def by (rule fixedHex_canonical) simp
  then show "\<not> isl (encodeEscrowLockArgs demo_lock_args)" "\<not> isl (encodeEscrowCellData demo_cell_data)"
    by (simp_all add: encodeEscrowLockArgs_def encodeEscrowCellData_def demo_lock_args_def demo_cell_data_def
        unsignedInteger_def UINT32_MAX_def UINT64_MAX_def)
qed

definition demo_script :: json where
  "demo_script = JObj [(''codeHash'', JStr (demo_hex (CHR ''a''))), (''hashType'', JStr ''type''), (''args'', JStr ''0x'')]"

definition demo_settlement :: settlement_claim where
  "demo_settlement = \<lparr>sc_txHash = ''t'', sc_lockTxHash = ''l'', sc_lockOutputIndex = 0,
     sc_destinationLockScript = Some demo_script, sc_amount = ''9''\<rparr>"

definition demo_chain :: ckb_node where
  "demo_chain = \<lparr>getTransaction = (\<lambda>_. Inr (Some \<lparr>rs_transaction = Some \<lparr>rx_inputs = [\<lparr>ip_txHash = ''l'', ip_index = 0\<rparr>],
        rx_outputs = [\<lparr>ou_capacity = 9, ou_lock = demo_script\<rparr>], rx_outputsData = []\<rparr>,
      rs_status = ''committed'', rs_blockHash = None, rs_blockNumber = Some 5, rs_reason = None\<rparr>)), getTipNumber = Inr 7\<rparr>"

lemma demo_settlement_checked:
  "\<exists>ob. verifySettlement (ckb_cfg demo_ckb) demo_chain demo_chain demo_settlement = Inr ob \<and> ob_status ob = CS_confirmed"
proof -
  have "case verifySettlement (ckb_cfg demo_ckb) demo_chain demo_chain demo_settlement of
      Inl e \<Rightarrow> False | Inr ob \<Rightarrow> ob_status ob = CS_confirmed" by code_simp
  then show ?thesis by (auto split: sum.splits)
qed

section \<open>A query and an archive\<close>

definition demo_escrow_query :: escrow_query where
  "demo_escrow_query = \<lparr>esq_agreementId = None, esq_status = None, esq_limit = 1, esq_cursor = None\<rparr>"

lemma demo_opened_rows: "\<exists>e. escrows demo_opened = [e] \<and> es_appId e = ''app''"
  using demo_no_key
  by (simp add: demo_opened_def committed_def reserveEscrowCreation_def assertEscrowAgreementScope_def findAgreementForApp_def
      agreement_is_def reserveIdempotentRequest_def reserveIdempotencyKey_def findTerminalEscrowForAgreement_def
      findActiveEscrowForScope_def createEscrow_def createTransaction_def demo_amounts idempotency_clash_def
      demo_context2_def demo_escrow_input_def demo_env_def demo_created_rows new_agreement_def
      demo_agreement_input_def eval_tx list_ex_iff)

definition demo_retention_config :: retention_config where
  "demo_retention_config = \<lparr>rc_webhookRetentionDays = 30, rc_eventRetentionDays = 90, rc_jobRetentionDays = 30,
     rc_auditArchiveAfterDays = 365\<rparr>"

definition demo_archive :: archive_db where
  "demo_archive = \<lparr>ar_db = demo_used, ar_archive = []\<rparr>"

end
