(* ===== verification/LockScript.thy ===== *)
theory LockScript
  imports CkbRail
begin

unbundle bit_operations_syntax

text \<open>
  The lock script of the escrow cell on the chain: \<open>contracts/pact-escrow-lock/src/lib.rs\<close> and
  \<open>main.rs\<close>. Integers keep their Rust widths. A \<open>lock_view\<close> is what the system calls show the script of
  the transaction: the arguments of the script, the inputs of its group, the lock hashes of all inputs
  and the outputs; a call out of range gives \<open>IndexOutOfBound\<close>, and the other failures of the calls do
  not occur. The lemmas say that the terms have exactly one encoding, that the script reads what the
  server writes, and which spends it accepts.
\<close>

section \<open>lib.rs\<close>

definition HASH_LEN :: nat where "HASH_LEN = 32"
definition PARTY_HASHES_LEN :: nat where "PARTY_HASHES_LEN = HASH_LEN * 3"
definition MAGIC :: "byte list" where "MAGIC = map (\<lambda>c. of_nat (of_char c)) ''PACTESC1''"
definition VERSION :: byte where "VERSION = 1"
definition ESCROW_DATA_LEN :: nat where "ESCROW_DATA_LEN = 88"

datatype LockError = InvalidArgsLength | InvalidCellDataLength | InvalidMagic | UnsupportedVersion | MissingRequiredSigner
  | MissingExpectedOutput | InvalidTimeoutSince | AmbiguousSettlementOutputs | MultipleEscrowInputs | NonCanonicalCellData

fun error_number :: "LockError \<Rightarrow> int" where
  "error_number InvalidArgsLength = 5"
| "error_number InvalidCellDataLength = 6"
| "error_number InvalidMagic = 7"
| "error_number UnsupportedVersion = 8"
| "error_number MissingRequiredSigner = 9"
| "error_number MissingExpectedOutput = 10"
| "error_number InvalidTimeoutSince = 11"
| "error_number AmbiguousSettlementOutputs = 12"
| "error_number MultipleEscrowInputs = 13"
| "error_number NonCanonicalCellData = 14"

record PartyHashes =
  ph_client :: "byte list"
  ph_worker :: "byte list"
  ph_agreement_salt :: "byte list"

record EscrowTerms =
  tm_version :: byte
  tm_milestone_index :: "32 word"
  tm_refund_timeout_since :: "64 word"
  tm_agreement_digest :: "byte list"
  tm_milestone_digest :: "byte list"

record OutputCell =
  oc_lock_hash :: "byte list"
  oc_capacity :: "64 word"

record TxState =
  ts_input_capacity :: "64 word"
  ts_input_since :: "64 word"
  ts_signer_lock_hashes :: "byte list list"
  ts_outputs :: "OutputCell list"

datatype ResolutionPath = ClientPayout | WorkerRefund | TimeoutRefund

definition parse_party_hashes :: "byte list \<Rightarrow> LockError + PartyHashes" where
  "parse_party_hashes args =
     (if length args \<noteq> PARTY_HASHES_LEN then Inl InvalidArgsLength
      else Inr \<lparr>ph_client = slice 0 HASH_LEN args, ph_worker = slice HASH_LEN (HASH_LEN * 2) args,
        ph_agreement_salt = slice (HASH_LEN * 2) (HASH_LEN * 3) args\<rparr>)"

definition parse_terms :: "byte list \<Rightarrow> LockError + EscrowTerms" where
  "parse_terms data =
     (if length data \<noteq> ESCROW_DATA_LEN then Inl InvalidCellDataLength
      else if slice 0 8 data \<noteq> MAGIC then Inl InvalidMagic
      else if data ! 8 \<noteq> VERSION then Inl UnsupportedVersion
      else if slice 9 12 data \<noteq> [0, 0, 0] then Inl NonCanonicalCellData
      else let refund_timeout_since = (of_nat (le_value (slice 16 24 data)) :: 64 word) in
        if drop_bit 56 refund_timeout_since \<noteq> 0 then Inl InvalidTimeoutSince
        else Inr \<lparr>tm_version = data ! 8, tm_milestone_index = of_nat (le_value (slice 12 16 data)),
          tm_refund_timeout_since = refund_timeout_since, tm_agreement_digest = slice 24 56 data,
          tm_milestone_digest = slice 56 88 data\<rparr>)"

text \<open>The three bytes after the version stay zero.\<close>

definition serialize_terms :: "EscrowTerms \<Rightarrow> byte list" where
  "serialize_terms terms = MAGIC @ [tm_version terms, 0, 0, 0] @ le_bytes 4 (unat (tm_milestone_index terms))
     @ le_bytes 8 (unat (tm_refund_timeout_since terms)) @ tm_agreement_digest terms @ tm_milestone_digest terms"

definition has_signer :: "byte list list \<Rightarrow> byte list \<Rightarrow> bool" where
  "has_signer signers target = list_ex (\<lambda>hash. hash = target) signers"

definition has_exact_output :: "OutputCell list \<Rightarrow> byte list \<Rightarrow> 64 word \<Rightarrow> LockError + bool" where
  "has_exact_output outputs target_lock_hash expected_capacity =
     (let matches = length (filter (\<lambda>c. oc_lock_hash c = target_lock_hash \<and> oc_capacity c = expected_capacity) outputs) in
      if matches > 1 then Inl AmbiguousSettlementOutputs else Inr (matches = 1))"

definition timeout_refund_reached :: "64 word \<Rightarrow> 64 word \<Rightarrow> bool" where
  "timeout_refund_reached current_since required_since \<longleftrightarrow> drop_bit 56 current_since = 0 \<and> current_since \<ge> required_since"

definition evaluate_spend :: "PartyHashes \<Rightarrow> EscrowTerms \<Rightarrow> TxState \<Rightarrow> LockError + ResolutionPath" where
  "evaluate_spend parties terms tx =
     (let client_auth = has_signer (ts_signer_lock_hashes tx) (ph_client parties);
          worker_auth = has_signer (ts_signer_lock_hashes tx) (ph_worker parties) in
      case has_exact_output (ts_outputs tx) (ph_worker parties) (ts_input_capacity tx) of Inl e \<Rightarrow> Inl e | Inr worker_output \<Rightarrow>
      case has_exact_output (ts_outputs tx) (ph_client parties) (ts_input_capacity tx) of Inl e \<Rightarrow> Inl e | Inr client_output \<Rightarrow>
      if worker_output \<and> client_output then Inl AmbiguousSettlementOutputs
      else if worker_output \<and> client_auth then Inr ClientPayout
      else if client_output \<and> worker_auth then Inr WorkerRefund
      else if client_output \<and> timeout_refund_reached (ts_input_since tx) (tm_refund_timeout_since terms)
        then Inr TimeoutRefund
      else if \<not> client_auth \<and> \<not> worker_auth then Inl MissingRequiredSigner
      else Inl MissingExpectedOutput)"

section \<open>main.rs\<close>

datatype SysError = IndexOutOfBound

definition map_sys_error :: "SysError \<Rightarrow> LockError" where
  "map_sys_error e = MissingExpectedOutput"

record group_input =
  gi_capacity :: "64 word"
  gi_since :: "64 word"
  gi_data :: "byte list"

record lock_view =
  lv_args :: "byte list"
  lv_group :: "group_input list"
  lv_input_locks :: "byte list list"
  lv_outputs :: "OutputCell list"

definition load_at :: "'a list \<Rightarrow> nat \<Rightarrow> SysError + 'a" where
  "load_at xs i = (if i < length xs then Inr (xs ! i) else Inl IndexOutOfBound)"

lemma load_at_iff [simp]: "load_at xs i = Inr x \<longleftrightarrow> i < length xs \<and> x = xs ! i" "load_at xs i = Inl e \<longleftrightarrow> length xs \<le> i"
  by (cases e; auto simp: load_at_def)+

text \<open>The loops end at the first index out of range.\<close>

function collect_outputs_from :: "lock_view \<Rightarrow> nat \<Rightarrow> OutputCell list \<Rightarrow> OutputCell list" where
  "collect_outputs_from v index outputs =
     (case (load_at (map oc_lock_hash (lv_outputs v)) index, load_at (map oc_capacity (lv_outputs v)) index) of
        (Inr lock_hash, Inr capacity) \<Rightarrow>
          collect_outputs_from v (index + 1) (outputs @ [\<lparr>oc_lock_hash = lock_hash, oc_capacity = capacity\<rparr>])
      | _ \<Rightarrow> outputs)"
  by pat_completeness auto
termination
  by (relation "measure (\<lambda>(v, index, _). length (lv_outputs v) - index)") (auto dest!: sym [of "Inr _"])

definition collect_outputs :: "lock_view \<Rightarrow> OutputCell list" where
  "collect_outputs v = collect_outputs_from v 0 []"

function collect_lock_hashes_from :: "lock_view \<Rightarrow> nat \<Rightarrow> byte list list \<Rightarrow> byte list list" where
  "collect_lock_hashes_from v index hashes =
     (case load_at (lv_input_locks v) index of
        Inr hash \<Rightarrow> collect_lock_hashes_from v (index + 1) (hashes @ [hash])
      | Inl _ \<Rightarrow> hashes)"
  by pat_completeness auto
termination
  by (relation "measure (\<lambda>(v, index, _). length (lv_input_locks v) - index)") (auto dest!: sym [of "Inr _"])

definition collect_lock_hashes :: "lock_view \<Rightarrow> byte list list" where
  "collect_lock_hashes v = collect_lock_hashes_from v 0 []"

definition sys :: "SysError + 'a \<Rightarrow> LockError + 'a" where
  "sys r = (case r of Inl e \<Rightarrow> Inl (map_sys_error e) | Inr x \<Rightarrow> Inr x)"

definition lock_bind :: "LockError + 'a \<Rightarrow> ('a \<Rightarrow> LockError + 'b) \<Rightarrow> LockError + 'b" where
  "lock_bind r k = (case r of Inl e \<Rightarrow> Inl e | Inr x \<Rightarrow> k x)"

definition validate :: "lock_view \<Rightarrow> LockError + unit" where
  "validate v =
     lock_bind (parse_party_hashes (lv_args v)) (\<lambda>parties.
     lock_bind (sys (load_at (map gi_data (lv_group v)) 0)) (\<lambda>data.
     lock_bind (parse_terms data) (\<lambda>terms.
     lock_bind (case load_at (map gi_capacity (lv_group v)) 1 of Inr _ \<Rightarrow> Inl MultipleEscrowInputs
       | Inl IndexOutOfBound \<Rightarrow> Inr ()) (\<lambda>_.
     lock_bind (sys (load_at (map gi_capacity (lv_group v)) 0)) (\<lambda>input_capacity.
     lock_bind (sys (load_at (map gi_since (lv_group v)) 0)) (\<lambda>input_since.
     lock_bind (evaluate_spend parties terms
       \<lparr>ts_input_capacity = input_capacity, ts_input_since = input_since,
        ts_signer_lock_hashes = collect_lock_hashes v, ts_outputs = collect_outputs v\<rparr>) (\<lambda>_.
     Inr ())))))))"

definition program_entry :: "lock_view \<Rightarrow> int" where
  "program_entry v = (case validate v of Inr () \<Rightarrow> 0 | Inl err \<Rightarrow> error_number err)"

section \<open>The encoding of the terms\<close>

lemma loads [simp]: "i < length xs \<Longrightarrow> load_at xs i = Inr (xs ! i)" "length xs \<le> i \<Longrightarrow> load_at xs i = Inl IndexOutOfBound"
  by (simp_all add: load_at_def)

declare collect_outputs_from.simps [simp del] collect_lock_hashes_from.simps [simp del]

lemma output_cell_eta [simp]: "\<lparr>oc_lock_hash = oc_lock_hash c, oc_capacity = oc_capacity c\<rparr> = (c :: OutputCell)"
  by simp

lemma collect_outputs_all: "collect_outputs v = lv_outputs v"
proof -
  have "collect_outputs_from v i acc = acc @ drop i (lv_outputs v)" for i acc
  proof (induction "length (lv_outputs v) - i" arbitrary: i acc)
    case 0
    then show ?case by (subst collect_outputs_from.simps) simp
  next
    case (Suc n)
    then show ?case by (subst collect_outputs_from.simps) (simp add: Cons_nth_drop_Suc)
  qed
  then show ?thesis by (simp add: collect_outputs_def)
qed

lemma collect_lock_hashes_all: "collect_lock_hashes v = lv_input_locks v"
proof -
  have "collect_lock_hashes_from v i acc = acc @ drop i (lv_input_locks v)" for i acc
  proof (induction "length (lv_input_locks v) - i" arbitrary: i acc)
    case 0
    then show ?case by (subst collect_lock_hashes_from.simps) simp
  next
    case (Suc n)
    then show ?case by (subst collect_lock_hashes_from.simps) (simp add: Cons_nth_drop_Suc)
  qed
  then show ?thesis by (simp add: collect_lock_hashes_def)
qed

lemma magic_agrees: "MAGIC = ESCROW_MAGIC"
  by (simp add: MAGIC_def ESCROW_MAGIC_def)

lemma le_value_bound: "le_value bs < 256 ^ length bs"
proof (induction bs)
  case (Cons b bs)
  then have "le_value bs + 1 \<le> 256 ^ length bs" by simp
  then have "256 * le_value bs + 256 \<le> 256 * 256 ^ length bs" by linarith
  then show ?case using unat_byte_lt [of b] by simp
qed simp

lemma le_bytes_value: "le_bytes (length bs) (le_value bs) = bs"
proof (induction bs)
  case (Cons b bs)
  have "(unat b + 256 * le_value bs) mod 256 = unat b" "(unat b + 256 * le_value bs) div 256 = le_value bs"
    using unat_byte_lt [of b] by simp_all
  with Cons show ?case by simp
qed simp

lemma high_byte_clear: "drop_bit 56 w = 0 \<longleftrightarrow> unat (w :: 64 word) < 2 ^ 56"
proof -
  have "unat (drop_bit 56 w) = unat w div 2 ^ 56"
    using unat_drop_bit_eq [of 56 w] by (metis drop_bit_eq_div)
  then show ?thesis by (metis div_eq_0_iff unat_eq_zero zero_neq_numeral power_eq_0_iff)
qed

definition terms_ok :: "EscrowTerms \<Rightarrow> bool" where
  "terms_ok t \<longleftrightarrow> tm_version t = VERSION \<and> unat (tm_refund_timeout_since t) < 2 ^ 56
     \<and> length (tm_agreement_digest t) = 32 \<and> length (tm_milestone_digest t) = 32"

lemma magic_length [simp]: "length MAGIC = 8"
  by (simp add: MAGIC_def)

lemma terms_parse:
  assumes "terms_ok t"
  shows "parse_terms (serialize_terms t) = Inr t"
proof -
  let ?i = "le_bytes 4 (unat (tm_milestone_index t))" and ?t = "le_bytes 8 (unat (tm_refund_timeout_since t))"
  have "unat (tm_milestone_index t) < 256 ^ 4" "unat (tm_refund_timeout_since t) < 256 ^ 8"
    using unsigned_less [of "tm_milestone_index t"] unsigned_less [of "tm_refund_timeout_since t"] by simp_all
  then have v: "le_value ?i = unat (tm_milestone_index t)" "le_value ?t = unat (tm_refund_timeout_since t)"
    by (auto intro: le_value_bytes)
  have slices: "slice 0 8 (serialize_terms t) = MAGIC" "serialize_terms t ! 8 = VERSION"
    "slice 9 12 (serialize_terms t) = [0, 0, 0]" "slice 12 16 (serialize_terms t) = ?i"
    "slice 16 24 (serialize_terms t) = ?t" "slice 24 56 (serialize_terms t) = tm_agreement_digest t"
    "slice 56 88 (serialize_terms t) = tm_milestone_digest t" "length (serialize_terms t) = 88"
    using assms by (simp_all add: serialize_terms_def terms_ok_def slice_def nth_append)
  show ?thesis using assms unfolding parse_terms_def slices v
    by (simp add: ESCROW_DATA_LEN_def terms_ok_def high_byte_clear)
qed

lemma slices_join:
  "length d = 88 \<Longrightarrow> d = slice 0 8 d @ [d ! 8] @ slice 9 12 d @ slice 12 16 d @ slice 16 24 d @ slice 24 56 d @ slice 56 88 d"
proof -
  assume n: "length d = 88"
  have j: "i \<le> k \<Longrightarrow> k \<le> 88 \<Longrightarrow> drop i d = slice i k d @ drop k d" for i k
    unfolding slice_def by (metis append_take_drop_id drop_drop le_add_diff_inverse2)
  have "drop 8 d = d ! 8 # drop 9 d" using n Cons_nth_drop_Suc [of 8 d] by simp
  moreover have "drop 88 d = []" using n by simp
  ultimately show ?thesis using j [of 0 8] j [of 9 12] j [of 12 16] j [of 16 24] j [of 24 56] j [of 56 88] by simp
qed

lemma terms_serialize:
  assumes "parse_terms d = Inr t"
  shows "serialize_terms t = d" and "terms_ok t"
proof -
  have n: "length d = 88" and p: "slice 0 8 d = MAGIC" "d ! 8 = VERSION" "slice 9 12 d = [0, 0, 0]"
    and s: "drop_bit 56 (of_nat (le_value (slice 16 24 d)) :: 64 word) = 0"
    and t: "t = \<lparr>tm_version = d ! 8, tm_milestone_index = of_nat (le_value (slice 12 16 d)),
       tm_refund_timeout_since = of_nat (le_value (slice 16 24 d)), tm_agreement_digest = slice 24 56 d,
       tm_milestone_digest = slice 56 88 d\<rparr>"
    using assms by (auto simp: parse_terms_def Let_def ESCROW_DATA_LEN_def split: if_splits)
  have l: "length (slice 12 16 d) = 4" "length (slice 16 24 d) = 8" "length (slice 24 56 d) = 32" "length (slice 56 88 d) = 32"
    using n by (simp_all add: slice_def)
  have "unat (of_nat (le_value (slice 12 16 d)) :: 32 word) = le_value (slice 12 16 d)"
    "unat (of_nat (le_value (slice 16 24 d)) :: 64 word) = le_value (slice 16 24 d)"
    using le_value_bound [of "slice 12 16 d"] le_value_bound [of "slice 16 24 d"] l by (simp_all add: unat_of_nat)
  then have "serialize_terms t = MAGIC @ [VERSION, 0, 0, 0] @ slice 12 16 d @ slice 16 24 d @ slice 24 56 d @ slice 56 88 d"
    using le_bytes_value [of "slice 12 16 d"] le_bytes_value [of "slice 16 24 d"] l p(2)
    by (simp add: t serialize_terms_def)
  also have "\<dots> = d" using slices_join [OF n] p by simp
  finally show "serialize_terms t = d" .
  show "terms_ok t" using s l p(2) by (simp add: terms_ok_def t high_byte_clear)
qed

text \<open>The script reads the cell data and the lock arguments that the server writes.\<close>

definition lock_terms :: "EscrowCellData \<Rightarrow> EscrowTerms" where
  "lock_terms d = \<lparr>tm_version = VERSION, tm_milestone_index = of_int (milestoneIndex d),
     tm_refund_timeout_since = of_int (refundTimeoutSince d),
     tm_agreement_digest = hex_bytes (drop 2 (toLowerCase (agreementDigest d))),
     tm_milestone_digest = hex_bytes (drop 2 (toLowerCase (milestoneDigest d)))\<rparr>"

lemma cell_data_read:
  assumes "encodeEscrowCellData d = Inr e" and "refundTimeoutSince d \<le> MAX_BLOCK_SINCE"
  shows "parse_terms (hex_bytes (drop 2 e)) = Inr (lock_terms d)"
proof -
  obtain a m where h: "toLowerCase (agreementDigest d) = ''0x'' @ a" "toLowerCase (milestoneDigest d) = ''0x'' @ m"
    and x: "length a = 64" "length m = 64"
    and r: "0 \<le> milestoneIndex d" "milestoneIndex d \<le> UINT32_MAX" "0 \<le> refundTimeoutSince d"
    and e: "e = ''0x'' @ bytes_hex (ESCROW_MAGIC @ [ESCROW_CELL_DATA_VERSION, 0, 0, 0] @ le_bytes 4 (nat (milestoneIndex d))
       @ le_bytes 8 (nat (refundTimeoutSince d)) @ hex_bytes a @ hex_bytes m)"
    by (rule cell_data_layout [OF assms(1)])
  have u: "unat (of_int (milestoneIndex d) :: 32 word) = nat (milestoneIndex d)"
    "unat (of_int (refundTimeoutSince d) :: 64 word) = nat (refundTimeoutSince d)"
    using r assms(2) by (simp_all add: unat_eq_nat_uint uint_word_of_int UINT32_MAX_def MAX_BLOCK_SINCE_def take_bit_int_eq_self)
  have "hex_bytes (drop 2 e) = serialize_terms (lock_terms d)"
    by (simp add: e serialize_terms_def lock_terms_def h u magic_agrees VERSION_def ESCROW_CELL_DATA_VERSION_def)
  moreover have "terms_ok (lock_terms d)"
    using r assms(2) x by (simp add: terms_ok_def lock_terms_def u h length_hex_bytes MAX_BLOCK_SINCE_def nat_less_iff)
  ultimately show ?thesis using terms_parse by simp
qed


definition hash_bytes :: "string \<Rightarrow> byte list" where
  "hash_bytes h = hex_bytes (drop 2 (toLowerCase h))"

lemma lock_args_read:
  assumes "encodeEscrowLockArgs a = Inr e"
  shows "parse_party_hashes (hex_bytes (drop 2 e)) = Inr \<lparr>ph_client = hash_bytes (clientLockHash a),
     ph_worker = hash_bytes (workerLockHash a), ph_agreement_salt = hash_bytes (agreementSalt a)\<rparr>"
proof -
  from assms obtain c w s where h: "toLowerCase (clientLockHash a) = ''0x'' @ c" "toLowerCase (workerLockHash a) = ''0x'' @ w"
      "toLowerCase (agreementSalt a) = ''0x'' @ s"
    and x: "list_all hex_char c" "list_all hex_char w" "list_all hex_char s" "length c = 64" "length w = 64" "length s = 64"
    and e: "e = ''0x'' @ c @ w @ s"
    by (auto simp: encodeEscrowLockArgs_def tx_iff)
  have "hex_bytes (c @ w @ s) = hex_bytes c @ hex_bytes w @ hex_bytes s"
    using x hex_bytes_hex [of "hex_bytes c"] hex_bytes_hex [of "hex_bytes w"] by (simp add: bytes_hex_bytes)
  moreover have "length (hex_bytes c) = 32" "length (hex_bytes w) = 32" "length (hex_bytes s) = 32"
    using x by (simp_all add: length_hex_bytes)
  ultimately show ?thesis
    by (simp add: e h hash_bytes_def parse_party_hashes_def PARTY_HASHES_LEN_def HASH_LEN_def slice_def)
qed

section \<open>What the script accepts\<close>

definition paid_outputs :: "OutputCell list \<Rightarrow> byte list \<Rightarrow> 64 word \<Rightarrow> nat" where
  "paid_outputs outputs lock capacity = length (filter (\<lambda>c. oc_lock_hash c = lock \<and> oc_capacity c = capacity) outputs)"

lemma has_exact_output_count:
  "has_exact_output outputs lock capacity =
     (if paid_outputs outputs lock capacity > 1 then Inl AmbiguousSettlementOutputs else Inr (paid_outputs outputs lock capacity = 1))"
  by (simp add: has_exact_output_def paid_outputs_def Let_def)

lemma evaluate_iff:
  "(\<exists>r. evaluate_spend p t x = Inr r) \<longleftrightarrow>
     (let worker = paid_outputs (ts_outputs x) (ph_worker p) (ts_input_capacity x);
          client = paid_outputs (ts_outputs x) (ph_client p) (ts_input_capacity x) in
      worker = 1 \<and> client = 0 \<and> has_signer (ts_signer_lock_hashes x) (ph_client p)
      \<or> client = 1 \<and> worker = 0 \<and> (has_signer (ts_signer_lock_hashes x) (ph_worker p)
          \<or> timeout_refund_reached (ts_input_since x) (tm_refund_timeout_since t)))"
proof -
  let ?w = "paid_outputs (ts_outputs x) (ph_worker p) (ts_input_capacity x)"
    and ?c = "paid_outputs (ts_outputs x) (ph_client p) (ts_input_capacity x)"
  have n: "n > 1 \<or> n = 1 \<or> n = 0" for n :: nat by auto
  show ?thesis using n [of ?w] n [of ?c] by (auto simp: evaluate_spend_def has_exact_output_count Let_def)
qed

lemma lock_bind_iff: "lock_bind r k = Inr y \<longleftrightarrow> (\<exists>x. r = Inr x \<and> k x = Inr y)"
  by (cases r) (auto simp: lock_bind_def)

lemma sys_iff: "sys r = Inr x \<longleftrightarrow> r = Inr x"
  by (cases r) (auto simp: sys_def)

lemma validate_iff:
  "validate v = Inr () \<longleftrightarrow> (\<exists>p g t r. parse_party_hashes (lv_args v) = Inr p \<and> lv_group v = [g] \<and> parse_terms (gi_data g) = Inr t
     \<and> evaluate_spend p t \<lparr>ts_input_capacity = gi_capacity g, ts_input_since = gi_since g,
          ts_signer_lock_hashes = lv_input_locks v, ts_outputs = lv_outputs v\<rparr> = Inr r)"
proof -
  have one: "0 < length xs \<and> \<not> 1 < length xs \<longleftrightarrow> (\<exists>x. xs = [x])" for xs :: "group_input list" by (cases xs; cases "tl xs") auto
  have c: "(case load_at (map gi_capacity xs) 1 of Inr y \<Rightarrow> Inl MultipleEscrowInputs | Inl IndexOutOfBound \<Rightarrow> Inr ()) = Inr u
      \<longleftrightarrow> \<not> 1 < length xs" for xs :: "group_input list" and u by (simp add: load_at_def)
  show ?thesis unfolding validate_def lock_bind_iff sys_iff collect_outputs_all collect_lock_hashes_all c
    using one [of "lv_group v"] by fastforce
qed


lemma validate_eval:
  assumes "parse_party_hashes (lv_args v) = Inr p" "lv_group v = [g]" "parse_terms (gi_data g) = Inr t"
  shows "validate v = lock_bind (evaluate_spend p t \<lparr>ts_input_capacity = gi_capacity g, ts_input_since = gi_since g,
     ts_signer_lock_hashes = lv_input_locks v, ts_outputs = lv_outputs v\<rparr>) (\<lambda>_. Inr ())"
  using assms by (simp add: validate_def lock_bind_def sys_def collect_outputs_all collect_lock_hashes_all)

end
