(* ===== verification/Signer.thy ===== *)
theory Signer
  imports LockScript
begin

text \<open>
  The transport to the CKB node and indexer (\<open>server/src/rails/ckb/rpc.ts\<close>) and the signer
  (\<open>signer-provider.ts\<close>). HTTP is the parameter \<open>fetchImpl\<close>; the indexer is a function of the lock script
  and the cursor, its quantities given as the numbers they encode; what the signer uses of the package
  \<open>@ckb-ccc/core\<close> is the record \<open>ccc_lib\<close>. The loop over the pages of the indexer ends only when the
  indexer lets it, so a signature is an \<open>option\<close>, with \<open>None\<close> for a loop that does not end.
\<close>

section \<open>rpc.ts\<close>

text \<open>The outcome of \<open>fetch\<close> with its body read: a rejection (network, timeout, no JSON) or an answer.\<close>

datatype http_outcome = HttpFailed | HttpAnswer nat json

record rpc_client =
  rc_url :: string
  rc_requestId :: int

definition providerUnavailable :: error where
  "providerUnavailable = App \<lparr>statusCode = 503, errorType = internal_error, code = ''ckb_provider_unavailable''\<rparr>"

definition falsy_json :: "json \<Rightarrow> bool" where
  "falsy_json v \<longleftrightarrow> v = JNull \<or> v = JBool False \<or> v = JNum 0 \<or> v = JStr []"

definition rpcBody :: "int \<Rightarrow> string \<Rightarrow> json list \<Rightarrow> string" where
  "rpcBody requestId rpcMethod params = stringify (JObj [(''jsonrpc'', JStr ''2.0''), (''id'', JNum requestId),
     (''method'', JStr rpcMethod), (''params'', JArr params)])"

definition rpcPayload :: "json \<Rightarrow> error + json" where
  "rpcPayload payload = (case payload of
       JObj kvs \<Rightarrow>
         (case (map_of kvs ''error'', map_of kvs ''result'') of
            (Some e, r) \<Rightarrow> (if falsy_json e then (case r of None \<Rightarrow> Inl providerUnavailable | Some v \<Rightarrow> Inr v) else Inl providerUnavailable)
          | (None, Some v) \<Rightarrow> Inr v
          | (None, None) \<Rightarrow> Inl providerUnavailable)
     | _ \<Rightarrow> Inl providerUnavailable)"

definition rpcRequest :: "(string \<Rightarrow> string \<Rightarrow> http_outcome) \<Rightarrow> string \<Rightarrow> json list \<Rightarrow> rpc_client \<Rightarrow> (error + json) \<times> rpc_client" where
  "rpcRequest fetchImpl rpcMethod params c =
     (let c' = c\<lparr>rc_requestId := rc_requestId c + 1\<rparr> in
      (case fetchImpl (rc_url c) (rpcBody (rc_requestId c') rpcMethod params) of
         HttpFailed \<Rightarrow> Inl providerUnavailable
       | HttpAnswer status payload \<Rightarrow>
           if \<not> (200 \<le> status \<and> status < 300) then Inl providerUnavailable else rpcPayload payload, c'))"

fun nat_hex :: "nat \<Rightarrow> string" where
  "nat_hex n = (if n < 16 then [hex_digit n] else nat_hex (n div 16) @ [hex_digit (n mod 16)])"

text \<open>\<open>0x${value.toString(16)}\<close>\<close>

definition hex :: "int \<Rightarrow> string" where
  "hex v = ''0x'' @ (if v < 0 then ''-'' @ nat_hex (nat (- v)) else nat_hex (nat v))"

definition rpcScript :: "ckb_script \<Rightarrow> json" where
  "rpcScript sc = JObj [(''code_hash'', JStr (codeHash sc)), (''hash_type'', JStr (hashType sc)), (''args'', JStr (scriptArgs sc))]"

definition node_getTransaction where
  "node_getTransaction F txHash = rpcRequest F ''get_transaction'' [JStr txHash]"

definition node_getTipHeader where
  "node_getTipHeader F = rpcRequest F ''get_tip_header'' []"

definition node_getLiveCell where
  "node_getLiveCell F txHash index =
     rpcRequest F ''get_live_cell'' [JObj [(''tx_hash'', JStr txHash), (''index'', JStr (hex index))], JBool True]"

definition node_sendTransaction where
  "node_sendTransaction F transaction = rpcRequest F ''send_transaction'' [transaction, JStr ''passthrough'']"

definition indexer_getTip where
  "indexer_getTip F = rpcRequest F ''get_indexer_tip'' []"

definition optional_cursor :: "string option \<Rightarrow> json list" where
  "optional_cursor cursor = (case cursor of None \<Rightarrow> [] | Some c \<Rightarrow> if c = [] then [] else [JStr c])"

definition indexer_getCells where
  "indexer_getCells F lock limit cursor = rpcRequest F ''get_cells''
     ([JObj [(''script'', lock), (''script_type'', JStr ''lock''), (''script_search_mode'', JStr ''exact'')],
       JStr ''asc'', JStr (hex limit)] @ optional_cursor cursor)"

definition indexer_getTransactions where
  "indexer_getTransactions F lock limit cursor = rpcRequest F ''get_transactions''
     ([JObj [(''script'', lock), (''script_type'', JStr ''lock''), (''script_search_mode'', JStr ''exact''),
         (''group_by_transaction'', JBool True)],
       JStr ''desc'', JStr (hex limit)] @ optional_cursor cursor)"

section \<open>signer-provider.ts\<close>

record ccc_input =
  xi_txHash :: string
  xi_index :: int
  xi_since :: int

record ccc_output =
  xo_capacity :: int
  xo_lock :: ckb_script
  xo_type :: "ckb_script option"

record ccc_dep =
  xd_txHash :: string
  xd_index :: int
  xd_depType :: string

record ccc_transaction =
  xt_version :: int
  xt_cellDeps :: "ccc_dep list"
  xt_headerDeps :: "string list"
  xt_inputs :: "ccc_input list"
  xt_outputs :: "ccc_output list"
  xt_outputsData :: "string list"
  xt_witnesses :: "string list"

text \<open>\<open>Script.eq\<close>, \<open>Transaction.from\<close> and the methods of the transaction and of \<open>SignerCkbPrivateKey\<close>.\<close>

record ccc_lib =
  cl_scriptEq :: "ckb_script \<Rightarrow> ckb_script \<Rightarrow> bool"
  cl_address :: "error + string"
  cl_lockScript :: "error + ckb_script"
  cl_transactionFrom :: "ccc_input list \<Rightarrow> ccc_output list \<Rightarrow> string list \<Rightarrow> ccc_dep list \<Rightarrow> ccc_transaction"
  cl_prepareTransaction :: "ccc_transaction \<Rightarrow> error + ccc_transaction"
  cl_estimateFee :: "ccc_transaction \<Rightarrow> int \<Rightarrow> int"
  cl_occupiedSize :: "ccc_output \<Rightarrow> int"
  cl_signOnlyTransaction :: "ccc_transaction \<Rightarrow> error + ccc_transaction"
  cl_hash :: "ccc_transaction \<Rightarrow> string"

record rpc_out_point =
  ro_tx_hash :: string
  ro_index :: string

record rpc_dep =
  rd_out_point :: rpc_out_point
  rd_dep_type :: string

record rpc_input =
  ri_previous_output :: rpc_out_point
  ri_since :: string

record rpc_output =
  rp_capacity :: string
  rp_lock :: json
  rp_type :: json

record CkbRpcTransaction =
  rt_version :: string
  rt_cell_deps :: "rpc_dep list"
  rt_header_deps :: "string list"
  rt_inputs :: "rpc_input list"
  rt_outputs :: "rpc_output list"
  rt_outputs_data :: "string list"
  rt_witnesses :: "string list"

definition rpcInput :: "ccc_input \<Rightarrow> rpc_input" where
  "rpcInput input = \<lparr>ri_previous_output = \<lparr>ro_tx_hash = xi_txHash input, ro_index = hex (xi_index input)\<rparr>,
     ri_since = hex (xi_since input)\<rparr>"

definition rpcTransaction :: "ccc_transaction \<Rightarrow> CkbRpcTransaction" where
  "rpcTransaction tx = \<lparr>
     rt_version = hex (xt_version tx),
     rt_cell_deps = map (\<lambda>dep. \<lparr>rd_out_point = \<lparr>ro_tx_hash = xd_txHash dep, ro_index = hex (xd_index dep)\<rparr>,
       rd_dep_type = (if xd_depType dep = ''depGroup'' then ''dep_group'' else ''code'')\<rparr>) (xt_cellDeps tx),
     rt_header_deps = xt_headerDeps tx,
     rt_inputs = map rpcInput (xt_inputs tx),
     rt_outputs = map (\<lambda>output. \<lparr>rp_capacity = hex (xo_capacity output), rp_lock = rpcScript (xo_lock output),
       rp_type = (case xo_type output of Some t \<Rightarrow> rpcScript t | None \<Rightarrow> JNull)\<rparr>) (xt_outputs tx),
     rt_outputs_data = xt_outputsData tx,
     rt_witnesses = xt_witnesses tx\<rparr>"

record indexer_cell =
  ic_capacity :: int
  ic_type :: "json option"
  ic_output_data :: string
  ic_tx_hash :: string
  ic_index :: int

record cell_page =
  cp_objects :: "indexer_cell list"
  cp_last_cursor :: string

type_synonym indexer = "ckb_script \<Rightarrow> string option \<Rightarrow> error + cell_page"

type_synonym selection = "indexer_cell list \<times> int"

definition insufficientCapacity :: error where
  "insufficientCapacity = invalidRequest ''ckb_insufficient_capacity''"

text \<open>The loop over the cells of a page: the selection, and whether it is enough.\<close>

fun takeCells :: "int \<Rightarrow> indexer_cell list \<Rightarrow> selection \<Rightarrow> bool \<times> selection" where
  "takeCells required [] selected = (False, selected)"
| "takeCells required (cell # rest) (cells, capacity) =
     (if ic_type cell \<noteq> None \<or> ic_output_data cell \<noteq> ''0x'' then takeCells required rest (cells, capacity)
      else let selected = (cells @ [cell], capacity + ic_capacity cell) in
        if snd selected \<ge> required then (True, selected) else takeCells required rest selected)"

partial_function (option) collectFrom :: "indexer \<Rightarrow> ckb_script \<Rightarrow> int \<Rightarrow> selection \<Rightarrow> string option \<Rightarrow> (error + selection) option" where
  "collectFrom idx lock required selected cursor =
     (case idx lock cursor of
        Inl e \<Rightarrow> Some (Inl e)
      | Inr page \<Rightarrow>
          (case takeCells required (cp_objects page) selected of (enough, selected') \<Rightarrow>
           if enough then Some (Inr selected')
           else if cp_last_cursor page = [] \<or> Some (cp_last_cursor page) = cursor \<or> length (cp_objects page) = 0
             then Some (Inl insufficientCapacity)
           else if length (fst selected') < 1000 then collectFrom idx lock required selected' (Some (cp_last_cursor page))
           else Some (Inl insufficientCapacity)))"

definition collectCapacity :: "indexer \<Rightarrow> ckb_script \<Rightarrow> int \<Rightarrow> (error + selection) option" where
  "collectCapacity idx lock required = collectFrom idx lock required ([], 0) None"

record prepare_params =
  pp_inputs :: "ccc_input list"
  pp_outputs :: "ccc_output list"
  pp_outputsData :: "string list"
  pp_changeIndex :: int
  pp_fixedOutputCapacity :: int
  pp_inputCapacity :: int
  pp_cellDeps :: "ccc_dep list"

type_synonym signed_rpc = "CkbRpcTransaction \<times> string"

definition prepareAndSign :: "ccc_lib \<Rightarrow> int \<Rightarrow> prepare_params \<Rightarrow> error + signed_rpc" where
  "prepareAndSign C feeRate params =
     res_bind (cl_prepareTransaction C
       (cl_transactionFrom C (pp_inputs params) (pp_outputs params) (pp_outputsData params) (pp_cellDeps params))) (\<lambda>prepared.
     let fee = cl_estimateFee C prepared feeRate;
         changeCapacity = pp_inputCapacity params - pp_fixedOutputCapacity params - fee in
     case nth_opt (xt_outputs prepared) (pp_changeIndex params) of
       None \<Rightarrow> Inl insufficientCapacity
     | Some changeOutput \<Rightarrow>
         if changeCapacity < cl_occupiedSize C changeOutput * 100000000 then Inl insufficientCapacity
         else res_bind (cl_signOnlyTransaction C (prepared\<lparr>xt_outputs :=
             (xt_outputs prepared)[nat (pp_changeIndex params) := changeOutput\<lparr>xo_capacity := changeCapacity\<rparr>]\<rparr>)) (\<lambda>signed.
           Inr (rpcTransaction signed, cl_hash C signed)))"

definition cell_input :: "indexer_cell \<Rightarrow> ccc_input" where
  "cell_input cell = \<lparr>xi_txHash = ic_tx_hash cell, xi_index = ic_index cell, xi_since = 0\<rparr>"

definition plain_output :: "int \<Rightarrow> ckb_script \<Rightarrow> ccc_output" where
  "plain_output capacity lock = \<lparr>xo_capacity = capacity, xo_lock = lock, xo_type = None\<rparr>"

definition minimumChange :: int where "minimumChange = 61 * 100000000"

text \<open>Awaiting a result that may not come: \<open>None\<close> is passed on.\<close>

definition await :: "(error + 'a) option \<Rightarrow> ('a \<Rightarrow> error + 'b) \<Rightarrow> (error + 'b) option" where
  "await r k = map_option (\<lambda>x. res_bind x k) r"

definition local_signEscrowLock :: "ccc_lib \<Rightarrow> indexer \<Rightarrow> int \<Rightarrow> CkbEscrowCommitment \<Rightarrow> (error + signed_rpc) option" where
  "local_signEscrowLock C idx feeRate commitment =
     (case cl_lockScript C of
        Inl e \<Rightarrow> Some (Inl e)
      | Inr signerLock \<Rightarrow>
          await (collectCapacity idx signerLock (BigInt (cm_amount commitment) + minimumChange + feeRate * 10)) (\<lambda>(cells, capacity).
          prepareAndSign C feeRate \<lparr>pp_inputs = map cell_input cells,
            pp_outputs = [plain_output (BigInt (cm_amount commitment)) (cm_lockScript commitment),
              plain_output (capacity - BigInt (cm_amount commitment)) signerLock],
            pp_outputsData = [cm_cellData commitment, ''0x''], pp_changeIndex = 1,
            pp_fixedOutputCapacity = BigInt (cm_amount commitment), pp_inputCapacity = capacity, pp_cellDeps = []\<rparr>))"

definition local_signSettlement ::
  "ccc_lib \<Rightarrow> indexer \<Rightarrow> int \<Rightarrow> ccc_dep \<Rightarrow> settlement_intent \<Rightarrow> (error + signed_rpc) option" where
  "local_signSettlement C idx feeRate contractCellDep intent =
     (case cl_lockScript C of
        Inl e \<Rightarrow> Some (Inl e)
      | Inr signerLock \<Rightarrow>
          if \<not> cl_scriptEq C signerLock (in_authorizerLock intent) then Some (Inl (invalidRequest ''ckb_signer_mismatch''))
          else await (collectCapacity idx signerLock (minimumChange + feeRate * 10)) (\<lambda>(cells, capacity).
          prepareAndSign C feeRate \<lparr>
            pp_inputs = \<lparr>xi_txHash = in_outPointTxHash intent, xi_index = in_outPointIndex intent, xi_since = in_since intent\<rparr>
              # map cell_input cells,
            pp_outputs = [plain_output (in_amount intent) (in_destinationLock intent), plain_output capacity signerLock],
            pp_outputsData = [''0x'', ''0x''], pp_changeIndex = 1, pp_fixedOutputCapacity = in_amount intent,
            pp_inputCapacity = in_amount intent + capacity, pp_cellDeps = [contractCellDep]\<rparr>))"

text \<open>\<open>contractCellDep\<close> of \<open>transaction-builder.ts\<close>, of the deployment in the configuration.\<close>

definition contractCellDep :: "string \<Rightarrow> int \<Rightarrow> string \<Rightarrow> ccc_dep" where
  "contractCellDep deploymentTxHash outputIndex depType =
     \<lparr>xd_txHash = deploymentTxHash, xd_index = outputIndex, xd_depType = depType\<rparr>"

record signer_provider =
  sp_getAddress :: "error + string"
  sp_getLockScript :: "error + ckb_script"
  sp_signEscrowLock :: "CkbEscrowCommitment \<Rightarrow> (error + signed_rpc) option"
  sp_signSettlement :: "ccc_dep \<Rightarrow> settlement_intent \<Rightarrow> (error + signed_rpc) option"

definition LocalDevCkbSignerProvider :: "ccc_lib \<Rightarrow> indexer \<Rightarrow> ckb_config \<Rightarrow> int \<Rightarrow> error + signer_provider" where
  "LocalDevCkbSignerProvider C idx railConfig feeRate =
     (if railNetwork railConfig = ''mainnet'' then Inl (JsError ''Local CKB signing is disabled on mainnet.'')
      else Inr \<lparr>sp_getAddress = cl_address C, sp_getLockScript = cl_lockScript C,
        sp_signEscrowLock = local_signEscrowLock C idx feeRate, sp_signSettlement = local_signSettlement C idx feeRate\<rparr>)"

definition createCkbSignerProvider :: "string \<Rightarrow> ccc_lib \<Rightarrow> indexer \<Rightarrow> ckb_config \<Rightarrow> int \<Rightarrow> error + signer_provider" where
  "createCkbSignerProvider ckbSignerMode C idx railConfig feeRate =
     (if ckbSignerMode = ''local_dev'' then LocalDevCkbSignerProvider C idx railConfig feeRate
      else Inl (invalidRequest ''ckb_signer_unavailable''))"

section \<open>Transport\<close>

lemma rpcRequest_errors:
  assumes "rpcRequest F m ps c = (r, c')"
  shows "rc_requestId c' = rc_requestId c + 1 \<and> rc_url c' = rc_url c \<and> (\<forall>e. r = Inl e \<longrightarrow> e = providerUnavailable)"
  using assms
  by (auto simp: rpcRequest_def rpcPayload_def Let_def split: http_outcome.splits json.splits option.splits if_splits)

text \<open>\<open>BigInt\<close> on a hexadecimal literal.\<close>

definition BigInt_hex :: "string \<Rightarrow> int" where
  "BigInt_hex s = foldl (\<lambda>n c. 16 * n + int (hex_value c)) 0 (drop 2 s)"

declare nat_hex.simps [simp del]

lemma nat_hex_value: "foldl (\<lambda>n c. 16 * n + int (hex_value c)) 0 (nat_hex n) = int n"
proof (induction n rule: nat_hex.induct)
  case (1 n)
  show ?case
  proof (cases "n < 16")
    case True
    then show ?thesis using hex_digit_props [of n] by (subst nat_hex.simps) simp
  next
    case False
    have "16 * int (n div 16) + int (n mod 16) = int n" by presburger
    then show ?thesis using 1 False hex_digit_props [of "n mod 16"] by (subst nat_hex.simps) simp
  qed
qed

lemma BigInt_hex: "0 \<le> v \<Longrightarrow> BigInt_hex (hex v) = v"
  using nat_hex_value [of "nat v"] by (simp add: BigInt_hex_def hex_def)

section \<open>Collecting capacity\<close>

definition plain_cell :: "indexer_cell \<Rightarrow> bool" where
  "plain_cell c \<longleftrightarrow> ic_type c = None \<and> ic_output_data c = ''0x''"

definition served :: "indexer \<Rightarrow> ckb_script \<Rightarrow> indexer_cell \<Rightarrow> bool" where
  "served idx lock c \<longleftrightarrow> (\<exists>cursor page. idx lock cursor = Inr page \<and> c \<in> set (cp_objects page))"

definition good_selection :: "indexer \<Rightarrow> ckb_script \<Rightarrow> selection \<Rightarrow> bool" where
  "good_selection idx lock sel \<longleftrightarrow> snd sel = sum_list (map ic_capacity (fst sel))
     \<and> (\<forall>c\<in>set (fst sel). plain_cell c \<and> served idx lock c)"

lemma takeCells_good:
  assumes "\<forall>c\<in>set cells. served idx lock c" and "good_selection idx lock sel"
  shows "good_selection idx lock (snd (takeCells required cells sel))
    \<and> (fst (takeCells required cells sel) \<longrightarrow> required \<le> snd (snd (takeCells required cells sel)))"
  using assms
proof (induction required cells sel rule: takeCells.induct)
  case (2 required cell rest cells capacity)
  show ?case
  proof (cases "plain_cell cell")
    case True
    then have g: "good_selection idx lock (cells @ [cell], capacity + ic_capacity cell)"
      using "2.prems" by (simp add: good_selection_def)
    show ?thesis using "2.IH"(2) [OF _ refl] "2.prems"(1) g True by (simp add: plain_cell_def Let_def)
  next
    case False
    then show ?thesis using "2.IH"(1) "2.prems" by (simp add: plain_cell_def)
  qed
qed simp

lemma collectFrom_good:
  assumes "collectFrom idx lock required sel cursor = Some r"
  shows "good_selection idx lock sel \<longrightarrow> (\<forall>s. r = Inr s \<longrightarrow> good_selection idx lock s \<and> required \<le> snd s)"
  using assms
proof (induction rule: collectFrom.raw_induct [rotated, consumes 1, case_names step])
  case (step collect idx lock required sel cursor r)
  note IH = step(1) and body = step(2)
  show ?case
  proof (cases "idx lock cursor")
    case (Inl e)
    then show ?thesis using body by auto
  next
    case (Inr page)
    then have s: "\<forall>c\<in>set (cp_objects page). served idx lock c" by (auto simp: served_def)
    obtain enough sel' where t: "takeCells required (cp_objects page) sel = (enough, sel')"
      by (cases "takeCells required (cp_objects page) sel")
    have g: "good_selection idx lock sel \<Longrightarrow> good_selection idx lock sel' \<and> (enough \<longrightarrow> required \<le> snd sel')"
      using takeCells_good [OF s, of sel required] t by simp
    show ?thesis
    proof (cases enough)
      case True
      with body have "Inr sel' = r" by (simp add: Inr t)
      with g True show ?thesis by auto
    next
      case False
      show ?thesis
      proof (cases "collect idx lock required sel' (Some (cp_last_cursor page)) = Some r")
        case True
        from IH [OF this] g show ?thesis by blast
      next
        case c: False
        have "r = Inl insufficientCapacity" using body False c by (simp add: Inr t split: if_splits)
        then show ?thesis by simp
      qed
    qed
  qed
qed

lemma collectCapacity_good:
  "collectCapacity idx lock required = Some (Inr (cells, capacity)) \<Longrightarrow>
     capacity = sum_list (map ic_capacity cells) \<and> required \<le> capacity \<and> (\<forall>c\<in>set cells. plain_cell c \<and> served idx lock c)"
  unfolding collectCapacity_def by (drule collectFrom_good) (simp add: good_selection_def)

text \<open>
  The loop ends when the cursors of the indexer do: when every page with a further cursor is nearer to
  the last one.
\<close>

lemma collectFrom_ends:
  assumes "\<And>cursor page. idx lock cursor = Inr page \<Longrightarrow> cp_objects page \<noteq> [] \<Longrightarrow> cp_last_cursor page \<noteq> [] \<Longrightarrow>
      Some (cp_last_cursor page) \<noteq> cursor \<Longrightarrow> rank (Some (cp_last_cursor page)) < (rank cursor :: nat)"
  shows "\<exists>r. collectFrom idx lock required sel cursor = Some r"
proof (induction "rank cursor" arbitrary: cursor sel rule: less_induct)
  case less
  show ?case
  proof (cases "idx lock cursor")
    case (Inr page)
    obtain enough sel' where "takeCells required (cp_objects page) sel = (enough, sel')"
      by (cases "takeCells required (cp_objects page) sel")
    with Inr less assms [OF Inr] show ?thesis by (subst collectFrom.simps) auto
  qed (subst collectFrom.simps, simp)
qed

section \<open>What is signed\<close>

text \<open>
  What the signer relies on of the package: \<open>Transaction.from\<close> keeps inputs, outputs of positive capacity
  and data; \<open>prepareTransaction\<close> adds dependencies and witnesses, \<open>signOnlyTransaction\<close> fills the witnesses;
  \<open>Script.eq\<close> compares the fields, and sizes are not negative.
\<close>

definition tx_body :: "ccc_transaction \<Rightarrow> ccc_input list \<times> ccc_output list \<times> string list" where
  "tx_body t = (xt_inputs t, xt_outputs t, xt_outputsData t)"

definition ccc_laws :: "ccc_lib \<Rightarrow> bool" where
  "ccc_laws C \<longleftrightarrow>
     (\<forall>i os d c. (\<forall>x\<in>set os. 0 < xo_capacity x) \<longrightarrow> tx_body (cl_transactionFrom C i os d c) = (i, os, d))
     \<and> (\<forall>t t'. cl_prepareTransaction C t = Inr t' \<longrightarrow> tx_body t' = tx_body t)
     \<and> (\<forall>t t'. cl_signOnlyTransaction C t = Inr t' \<longrightarrow> tx_body t' = tx_body t)
     \<and> (\<forall>a b. cl_scriptEq C a b \<longleftrightarrow> a = b) \<and> (\<forall>out. 0 \<le> cl_occupiedSize C out)"

lemma signed_body:
  assumes laws: "ccc_laws C" and signed: "prepareAndSign C feeRate P = Inr (tx, h)"
    and P: "pp_outputs P = [a, b]" "pp_changeIndex P = 1" "0 < xo_capacity a" "0 < xo_capacity b"
  shows "\<exists>t fee. tx = rpcTransaction t \<and> h = cl_hash C t
    \<and> tx_body t = (pp_inputs P, [a, b\<lparr>xo_capacity := pp_inputCapacity P - pp_fixedOutputCapacity P - fee\<rparr>], pp_outputsData P)
    \<and> cl_occupiedSize C b * 100000000 \<le> pp_inputCapacity P - pp_fixedOutputCapacity P - fee"
proof -
  let ?from = "cl_transactionFrom C (pp_inputs P) (pp_outputs P) (pp_outputsData P) (pp_cellDeps P)"
  obtain p where p: "cl_prepareTransaction C ?from = Inr p"
    using signed by (auto simp: prepareAndSign_def res_bind_iff)
  have "tx_body ?from = (pp_inputs P, [a, b], pp_outputsData P)" using laws P by (simp add: ccc_laws_def)
  moreover have "tx_body p = tx_body ?from" using laws p by (auto simp: ccc_laws_def)
  ultimately have b: "xt_inputs p = pp_inputs P" "xt_outputs p = [a, b]" "xt_outputsData p = pp_outputsData P"
    by (simp_all add: tx_body_def)
  let ?fee = "cl_estimateFee C p feeRate"
  let ?ready = "p\<lparr>xt_outputs := [a, b\<lparr>xo_capacity := pp_inputCapacity P - pp_fixedOutputCapacity P - ?fee\<rparr>]\<rparr>"
  obtain t where t: "cl_signOnlyTransaction C ?ready = Inr t" "tx = rpcTransaction t" "h = cl_hash C t"
    and o: "cl_occupiedSize C b * 100000000 \<le> pp_inputCapacity P - pp_fixedOutputCapacity P - ?fee"
    using signed p b(2) P(2) by (auto simp: prepareAndSign_def res_bind_iff Let_def nth_opt_def split: if_splits)
  moreover have "tx_body t = tx_body ?ready" using laws t(1) by (auto simp: ccc_laws_def)
  ultimately show ?thesis using b by (auto simp: tx_body_def)
qed

lemma await_iff: "await r k = Some (Inr y) \<longleftrightarrow> (\<exists>x. r = Some (Inr x) \<and> k x = Inr y)"
  by (cases r) (auto simp: await_def res_bind_iff)

definition settlement_body :: "settlement_intent \<Rightarrow> indexer_cell list \<Rightarrow> int \<Rightarrow> ccc_input list \<times> ccc_output list \<times> string list" where
  "settlement_body intent cells change =
     (\<lparr>xi_txHash = in_outPointTxHash intent, xi_index = in_outPointIndex intent, xi_since = in_since intent\<rparr> # map cell_input cells,
      [plain_output (in_amount intent) (in_destinationLock intent), plain_output change (in_authorizerLock intent)], [''0x'', ''0x''])"

lemma settlement_signed:
  assumes laws: "ccc_laws C" and "local_signSettlement C idx feeRate dep intent = Some (Inr (tx, h))"
    and "0 < in_amount intent" "0 \<le> feeRate"
  obtains t cells change fee where "tx = rpcTransaction t" "h = cl_hash C t" "tx_body t = settlement_body intent cells change"
    "change = sum_list (map ic_capacity cells) - fee" "cells \<noteq> []"
    "\<And>c. c \<in> set cells \<Longrightarrow> plain_cell c \<and> served idx (in_authorizerLock intent) c"
    "cl_occupiedSize C (plain_output (sum_list (map ic_capacity cells)) (in_authorizerLock intent)) * 100000000 \<le> change"
proof -
  let ?lock = "in_authorizerLock intent"
  obtain cells capacity where c: "collectCapacity idx ?lock (minimumChange + feeRate * 10) = Some (Inr (cells, capacity))"
    and p: "prepareAndSign C feeRate \<lparr>
            pp_inputs = \<lparr>xi_txHash = in_outPointTxHash intent, xi_index = in_outPointIndex intent, xi_since = in_since intent\<rparr>
              # map cell_input cells,
            pp_outputs = [plain_output (in_amount intent) (in_destinationLock intent), plain_output capacity ?lock],
            pp_outputsData = [''0x'', ''0x''], pp_changeIndex = 1, pp_fixedOutputCapacity = in_amount intent,
            pp_inputCapacity = in_amount intent + capacity, pp_cellDeps = [dep]\<rparr> = Inr (tx, h)"
    using assms(2) laws by (auto simp: local_signSettlement_def await_iff ccc_laws_def split: sum.splits if_splits)
  from collectCapacity_good [OF c] have g: "capacity = sum_list (map ic_capacity cells)" "0 < capacity"
    "\<And>x. x \<in> set cells \<Longrightarrow> plain_cell x \<and> served idx ?lock x"
    using assms(4) by (auto simp: minimumChange_def)
  then have n: "cells \<noteq> []" by auto
  from signed_body [OF laws p] assms(3) g(2) obtain t fee where
    "tx = rpcTransaction t" "h = cl_hash C t" "tx_body t = settlement_body intent cells (capacity - fee)"
    "cl_occupiedSize C (plain_output capacity ?lock) * 100000000 \<le> capacity - fee"
    by (auto simp: plain_output_def settlement_body_def)
  with g n show ?thesis using that by blast
qed

text \<open>A signed funding or settlement balances: what it pays, with the fee, is what its inputs hold.\<close>

lemma funding_signed:
  assumes laws: "ccc_laws C" and "local_signEscrowLock C idx feeRate cm = Some (Inr (tx, h))"
    and "0 < BigInt (cm_amount cm)" "0 \<le> feeRate"
  shows "\<exists>t cells fee lock. cl_lockScript C = Inr lock \<and> tx = rpcTransaction t \<and> h = cl_hash C t
    \<and> (\<forall>c\<in>set cells. plain_cell c \<and> served idx lock c)
    \<and> tx_body t = (map cell_input cells, [plain_output (BigInt (cm_amount cm)) (cm_lockScript cm),
         plain_output (sum_list (map ic_capacity cells) - BigInt (cm_amount cm) - fee) lock], [cm_cellData cm, ''0x''])"
proof -
  obtain lock where l: "cl_lockScript C = Inr lock" using assms(2) by (auto simp: local_signEscrowLock_def split: sum.splits)
  obtain cells capacity where c: "collectCapacity idx lock (BigInt (cm_amount cm) + minimumChange + feeRate * 10) = Some (Inr (cells, capacity))"
    and p: "prepareAndSign C feeRate \<lparr>pp_inputs = map cell_input cells,
            pp_outputs = [plain_output (BigInt (cm_amount cm)) (cm_lockScript cm), plain_output (capacity - BigInt (cm_amount cm)) lock],
            pp_outputsData = [cm_cellData cm, ''0x''], pp_changeIndex = 1, pp_fixedOutputCapacity = BigInt (cm_amount cm),
            pp_inputCapacity = capacity, pp_cellDeps = []\<rparr> = Inr (tx, h)"
    using assms(2) l by (auto simp: local_signEscrowLock_def await_iff)
  from collectCapacity_good [OF c] have g: "capacity = sum_list (map ic_capacity cells)" "BigInt (cm_amount cm) < capacity"
    "\<forall>x\<in>set cells. plain_cell x \<and> served idx lock x"
    using assms(4) by (auto simp: minimumChange_def)
  from signed_body [OF laws p] assms(3) g(2) obtain t fee where
    "tx = rpcTransaction t" "h = cl_hash C t"
    "tx_body t = (map cell_input cells, [plain_output (BigInt (cm_amount cm)) (cm_lockScript cm),
       plain_output (capacity - BigInt (cm_amount cm) - fee) lock], [cm_cellData cm, ''0x''])"
    by (auto simp: plain_output_def)
  with g l show ?thesis by blast
qed

end
