(* ===== verification/OnChain.thy ===== *)
theory OnChain
  imports Signer
begin

text \<open>
  The server and the lock script together. \<open>lock_view_of\<close> is what the chain shows the script of a
  broadcast transaction: the live cells its inputs spend, in order, and its outputs, with the quantities
  read from their hexadecimal texts. The main lemma: a settlement that the server builds from the terms
  of a funded escrow and signs is accepted by the lock script of that escrow and by the verification of
  the server.
\<close>

record live_cell =
  lc_capacity :: int
  lc_lock :: ckb_script
  lc_data :: string

type_synonym chain = "string \<Rightarrow> int \<Rightarrow> live_cell option"

definition script_bytes :: "ckb_lib \<Rightarrow> json \<Rightarrow> byte list" where
  "script_bytes L j = (case normalizeScript (Some j) of None \<Rightarrow> [] | Some sc \<Rightarrow> hash_bytes (scriptHash L sc))"

definition spent_cells :: "chain \<Rightarrow> rpc_input list \<Rightarrow> (rpc_input \<times> live_cell) list" where
  "spent_cells cells inputs = List.map_filter (\<lambda>i. map_option (Pair i)
     (cells (ro_tx_hash (ri_previous_output i)) (BigInt_hex (ro_index (ri_previous_output i))))) inputs"

definition lock_view_of :: "ckb_lib \<Rightarrow> chain \<Rightarrow> ckb_script \<Rightarrow> CkbRpcTransaction \<Rightarrow> lock_view" where
  "lock_view_of L cells lock tx = (let spent = spent_cells cells (rt_inputs tx) in
     \<lparr>lv_args = hex_bytes (drop 2 (scriptArgs lock)),
      lv_group = map (\<lambda>(i, c). \<lparr>gi_capacity = of_int (lc_capacity c), gi_since = of_int (BigInt_hex (ri_since i)),
        gi_data = hex_bytes (drop 2 (lc_data c))\<rparr>) (filter (\<lambda>(i, c). lc_lock c = lock) spent),
      lv_input_locks = map (\<lambda>(i, c). hash_bytes (scriptHash L (lc_lock c))) spent,
      lv_outputs = map (\<lambda>out. \<lparr>oc_lock_hash = script_bytes L (rp_lock out),
        oc_capacity = of_int (BigInt_hex (rp_capacity out))\<rparr>) (rt_outputs tx)\<rparr>)"

text \<open>The node's answer for a broadcast transaction, as the verification reads it.\<close>

definition rpc_view :: "CkbRpcTransaction \<Rightarrow> rpc_transaction" where
  "rpc_view tx = \<lparr>
     rx_inputs = map (\<lambda>i. \<lparr>ip_txHash = ro_tx_hash (ri_previous_output i), ip_index = BigInt_hex (ro_index (ri_previous_output i))\<rparr>) (rt_inputs tx),
     rx_outputs = map (\<lambda>out. \<lparr>ou_capacity = BigInt_hex (rp_capacity out), ou_lock = rp_lock out\<rparr>) (rt_outputs tx),
     rx_outputsData = rt_outputs_data tx\<rparr>"

text \<open>An exact search of the indexer finds live cells of the lock, with hashes in lower case.\<close>

definition indexer_laws :: "indexer \<Rightarrow> chain \<Rightarrow> bool" where
  "indexer_laws idx cells \<longleftrightarrow> (\<forall>lock c. served idx lock c \<longrightarrow>
     cells (ic_tx_hash c) (ic_index c) = Some \<lparr>lc_capacity = ic_capacity c, lc_lock = lock, lc_data = ic_output_data c\<rparr>
     \<and> 0 \<le> ic_index c \<and> toLowerCase (ic_tx_hash c) = ic_tx_hash c)"

section \<open>Scripts\<close>

lemma normalizeHex_again: "normalizeHex v n = Some s \<Longrightarrow> normalizeHex (Some (JStr s)) n = Some s"
  by (auto simp: normalizeHex_def Let_def toLowerCase_idem split: option.splits json.splits if_splits)

lemma requiredScript_rpc:
  assumes "requiredScript v = Inr sc"
  shows "normalizeScript (Some (rpcScript sc)) = Some sc"
proof -
  obtain j where j: "normalizeScript (Some j) = Some sc" "v = Some j"
    using assms by (cases v) (auto simp: requiredScript_def normalizeScript_def split: option.splits)
  obtain h where h: "normalizeHex (member_or j ''codeHash'' ''code_hash'') (Some 32) = Some (codeHash sc)"
    "normalizeHex (member_at j ''args'') None = Some (scriptArgs sc)" "hashType sc = toLowerCase h"
    "List.member HASH_TYPES (toLowerCase h)"
    using j(1) by (auto simp: normalizeScript_def split: option.splits json.splits if_splits)
  then show ?thesis using normalizeHex_again [OF h(1)] normalizeHex_again [OF h(2)]
    by (simp add: normalizeScript_def rpcScript_def member_or_def member_at_def toLowerCase_idem)
qed

lemma scriptsEqual_required:
  assumes "requiredScript v = Inr sc"
  shows "scriptsEqual (Some (rpcScript sc)) v"
  using requiredScript_rpc [OF assms] assms
  by (auto simp: scriptsEqual_def requiredScript_def split: option.splits)

lemma scriptsEqual_distinct:
  assumes "requiredScript v = Inr a" and "requiredScript u = Inr b" and "a \<noteq> b"
  shows "\<not> scriptsEqual (Some (rpcScript b)) v"
  using requiredScript_rpc [OF assms(2)] assms
  by (auto simp: scriptsEqual_def requiredScript_def split: option.splits)

section \<open>The transaction as the script sees it\<close>

definition live :: "chain \<Rightarrow> ccc_input \<Rightarrow> live_cell" where
  "live cells i = the (cells (xi_txHash i) (xi_index i))"

lemma spent_rpc:
  assumes "\<And>i. i \<in> set is \<Longrightarrow> 0 \<le> xi_index i \<and> cells (xi_txHash i) (xi_index i) \<noteq> None"
  shows "spent_cells cells (map rpcInput is) = map (\<lambda>i. (rpcInput i, live cells i)) is"
  using assms
proof (induction "is")
  case (Cons i rest)
  obtain c where c: "cells (xi_txHash i) (xi_index i) = Some c" "0 \<le> xi_index i" using Cons.prems [of i] by auto
  have "spent_cells cells (map rpcInput rest) = map (\<lambda>i. (rpcInput i, live cells i)) rest"
    using Cons.prems by (intro Cons.IH) simp
  moreover have "ro_tx_hash (ri_previous_output (rpcInput i)) = xi_txHash i"
    "BigInt_hex (ro_index (ri_previous_output (rpcInput i))) = xi_index i"
    using c by (simp_all add: rpcInput_def BigInt_hex)
  ultimately show ?case using c by (simp add: spent_cells_def map_filter_simps live_def)
qed (simp add: spent_cells_def map_filter_simps)

lemma settlement_view:
  assumes idx: "indexer_laws idx cells" and t: "tx_body t = settlement_body intent cs change"
    and cs: "\<And>c. c \<in> set cs \<Longrightarrow> served idx (in_authorizerLock intent) c" "cs \<noteq> []"
    and e: "cells (in_outPointTxHash intent) (in_outPointIndex intent) = Some ec" "lc_lock ec = lock" "0 \<le> in_outPointIndex intent"
    and other: "in_authorizerLock intent \<noteq> lock"
    and pos: "0 \<le> in_since intent" "0 \<le> in_amount intent" "0 \<le> change"
  shows "lv_group (lock_view_of L cells lock (rpcTransaction t)) =
      [\<lparr>gi_capacity = of_int (lc_capacity ec), gi_since = of_int (in_since intent), gi_data = hex_bytes (drop 2 (lc_data ec))\<rparr>]" (is ?group)
    and "hash_bytes (scriptHash L (in_authorizerLock intent)) \<in> set (lv_input_locks (lock_view_of L cells lock (rpcTransaction t)))" (is ?signer)
    and "lv_outputs (lock_view_of L cells lock (rpcTransaction t)) =
      [\<lparr>oc_lock_hash = script_bytes L (rpcScript (in_destinationLock intent)), oc_capacity = of_int (in_amount intent)\<rparr>,
       \<lparr>oc_lock_hash = script_bytes L (rpcScript (in_authorizerLock intent)), oc_capacity = of_int change\<rparr>]"
proof -
  let ?e = "\<lparr>xi_txHash = in_outPointTxHash intent, xi_index = in_outPointIndex intent, xi_since = in_since intent\<rparr>"
  have b: "xt_inputs t = ?e # map cell_input cs"
    "xt_outputs t = [plain_output (in_amount intent) (in_destinationLock intent), plain_output change (in_authorizerLock intent)]"
    using t by (simp_all add: tx_body_def settlement_body_def)
  have c: "0 \<le> ic_index c" "cells (ic_tx_hash c) (ic_index c) =
      Some \<lparr>lc_capacity = ic_capacity c, lc_lock = in_authorizerLock intent, lc_data = ic_output_data c\<rparr>" if "c \<in> set cs" for c
    using idx cs(1) [OF that] by (auto simp: indexer_laws_def)
  have "0 \<le> xi_index i \<and> cells (xi_txHash i) (xi_index i) \<noteq> None" if "i \<in> set (xt_inputs t)" for i
    using that e c by (auto simp: b cell_input_def)
  then have "spent_cells cells (map rpcInput (xt_inputs t)) = map (\<lambda>i. (rpcInput i, live cells i)) (xt_inputs t)"
    by (rule spent_rpc)
  then have spent: "spent_cells cells (rt_inputs (rpcTransaction t)) =
      (rpcInput ?e, ec) # map (\<lambda>c. (rpcInput (cell_input c), live cells (cell_input c))) cs"
    using e by (simp add: rpcTransaction_def b live_def)
  have m: "lc_lock (live cells (cell_input c)) = in_authorizerLock intent" if "c \<in> set cs" for c
    using c(2) [OF that] by (simp add: live_def cell_input_def)
  have "filter (\<lambda>(i, c). lc_lock c = lock) (map (\<lambda>c. (rpcInput (cell_input c), live cells (cell_input c))) cs) = []"
    using m other by (auto simp: filter_empty_conv)
  moreover have "BigInt_hex (ri_since (rpcInput ?e)) = in_since intent" using pos by (simp add: rpcInput_def BigInt_hex)
  ultimately show ?group using e by (simp add: lock_view_of_def spent Let_def)
  show ?signer using cs(2) m by (cases cs) (auto simp: lock_view_of_def spent Let_def)
  show "lv_outputs (lock_view_of L cells lock (rpcTransaction t)) =
      [\<lparr>oc_lock_hash = script_bytes L (rpcScript (in_destinationLock intent)), oc_capacity = of_int (in_amount intent)\<rparr>,
       \<lparr>oc_lock_hash = script_bytes L (rpcScript (in_authorizerLock intent)), oc_capacity = of_int change\<rparr>]"
    using pos by (simp add: lock_view_of_def rpcTransaction_def b plain_output_def BigInt_hex Let_def)
qed

section \<open>A signed settlement is accepted\<close>

lemma word_of_int_eq64: "0 \<le> a \<Longrightarrow> a < 2 ^ 64 \<Longrightarrow> 0 \<le> b \<Longrightarrow> b < 2 ^ 64 \<Longrightarrow> (of_int a :: 64 word) = of_int b \<longleftrightarrow> a = b"
  by (simp add: word_of_int_eq_iff take_bit_int_eq_self)

lemma since_range: "parseRefundTimeoutSince v = Inr s \<Longrightarrow> 0 \<le> s \<and> s \<le> MAX_BLOCK_SINCE"
proof -
  have "0 \<le> BigInt ''0''" by code_simp
  then show "parseRefundTimeoutSince v = Inr s \<Longrightarrow> 0 \<le> s \<and> s \<le> MAX_BLOCK_SINCE"
    using isPositiveIntegerAmount_digits [of v] BigInt_nonneg [of v]
    by (auto simp: parseRefundTimeoutSince_def Let_def isNonNegativeIntegerAmount_def split: if_splits)
qed

text \<open>What the commitment and the intent have in common when they are built from the same terms.\<close>

lemma same_terms:
  assumes cm: "createCommitment L cfg ci = Inr cm" and intent: "createSettlementIntent op si = Inr intent"
    and same: "si_amount si = ci_amount ci" "si_clientLockScript si = ci_clientLockScript ci" "si_workerLockScript si = ci_workerLockScript ci"
  obtains client worker terms salt where
    "requiredScript (ci_clientLockScript ci) = Inr client" "requiredScript (ci_workerLockScript ci) = Inr worker"
    "in_destinationLock intent = (if op = Release then worker else client)"
    "in_authorizerLock intent = (if op = Release then client else worker)"
    "BigInt (cm_amount cm) = in_amount intent" "0 < in_amount intent" "in_amount intent < 2 ^ 64" "0 \<le> in_since intent"
    "BigInt (si_amount si) = in_amount intent" "in_outPointTxHash intent = toLowerCase (si_lockTxHash si)" "in_outPointIndex intent = si_lockOutputIndex si"
    "parse_party_hashes (hex_bytes (drop 2 (scriptArgs (cm_lockScript cm)))) =
       Inr \<lparr>ph_client = hash_bytes (scriptHash L client), ph_worker = hash_bytes (scriptHash L worker), ph_agreement_salt = salt\<rparr>"
    "parse_terms (hex_bytes (drop 2 (cm_cellData cm))) = Inr terms"
proof -
  from cm obtain amount client worker since args data where
      a: "parsePositiveIntegerAmount (ci_amount ci) = Inr amount" "requiredScript (ci_clientLockScript ci) = Inr client"
        "requiredScript (ci_workerLockScript ci) = Inr worker" "parseRefundTimeoutSince (ci_refundTimeoutSince ci) = Inr since"
      and e: "encodeEscrowLockArgs \<lparr>clientLockHash = scriptHash L client, workerLockHash = scriptHash L worker,
          agreementSalt = digest L [''pactagent'', ''agreement-salt'', ci_agreementId ci]\<rparr> = Inr args"
        "encodeEscrowCellData \<lparr>milestoneIndex = ci_milestoneIndex ci, refundTimeoutSince = since,
          agreementDigest = digest L [''pactagent'', ''agreement'', ci_agreementId ci],
          milestoneDigest = digest L [''pactagent'', ''milestone'', ci_agreementId ci, ci_milestoneId ci, ci_amount ci]\<rparr> = Inr data"
      and c: "scriptArgs (cm_lockScript cm) = args" "cm_cellData cm = data" "cm_amount cm = show_int amount"
    by (auto simp: createCommitment_def res_bind_iff Let_def)
  have s: "since \<le> MAX_BLOCK_SINCE" using since_range [OF a(4)] by simp
  have p: "0 < amount" "amount \<le> MAX_SHANNONS" "BigInt (ci_amount ci) = amount" using parsePositive_pos [OF a(1)] by auto
  have i: "in_amount intent = amount" "in_destinationLock intent = (if op = Release then worker else client)"
      "in_authorizerLock intent = (if op = Release then client else worker)"
      "in_outPointTxHash intent = toLowerCase (si_lockTxHash si)" "in_outPointIndex intent = si_lockOutputIndex si"
    using intent a same by (auto simp: createSettlementIntent_def res_bind_iff split: if_splits)
  have "0 \<le> in_since intent" using intent
    by (auto simp: createSettlementIntent_def res_bind_iff dest: since_range split: if_splits)
  then show ?thesis
    using that [of client worker, OF a(2,3) i(2,3)] lock_args_read [OF e(1)] cell_data_read [OF e(2)] s c i p same
    by (simp add: show_int_def BigInt_show_nat MAX_SHANNONS_def)
qed


lemma settlement_spends:
  assumes idx: "indexer_laws idx cells" and t: "tx_body t = settlement_body intent cs change"
    and cs: "\<And>c. c \<in> set cs \<Longrightarrow> served idx (in_authorizerLock intent) c"
    and e: "cells (toLowerCase (sc_lockTxHash claim)) (sc_lockOutputIndex claim) = Some ec" "lc_lock ec = lock"
    and other: "in_authorizerLock intent \<noteq> lock"
    and o: "in_outPointTxHash intent = toLowerCase (sc_lockTxHash claim)" "in_outPointIndex intent = sc_lockOutputIndex claim"
      "0 \<le> sc_lockOutputIndex claim"
  shows "length (filter (spends_escrow claim) (rx_inputs (rpc_view (rpcTransaction t)))) = 1"
proof -
  have "\<not> spends_escrow claim \<lparr>ip_txHash = ic_tx_hash c, ip_index = ic_index c\<rparr>" if "c \<in> set cs" for c
  proof -
    have "cells (ic_tx_hash c) (ic_index c) =
        Some \<lparr>lc_capacity = ic_capacity c, lc_lock = in_authorizerLock intent, lc_data = ic_output_data c\<rparr>"
      "toLowerCase (ic_tx_hash c) = ic_tx_hash c"
      using idx cs [OF that] by (auto simp: indexer_laws_def)
    then show ?thesis using e other by (auto simp: spends_escrow_def)
  qed
  moreover have "0 \<le> ic_index c" if "c \<in> set cs" for c using idx cs [OF that] by (auto simp: indexer_laws_def)
  ultimately have "filter (spends_escrow claim) (map (\<lambda>c. \<lparr>ip_txHash = ic_tx_hash c, ip_index = BigInt_hex (hex (ic_index c))\<rparr>) cs) = []"
    by (auto simp: filter_empty_conv BigInt_hex)
  then show ?thesis using t o
    by (simp add: rpc_view_def rpcTransaction_def tx_body_def settlement_body_def rpcInput_def cell_input_def comp_def
        BigInt_hex spends_escrow_def toLowerCase_idem)
qed

lemma paid_two:
  "paid_outputs [\<lparr>oc_lock_hash = d, oc_capacity = a\<rparr>, \<lparr>oc_lock_hash = e, oc_capacity = b\<rparr>] x a =
     (if d = x then 1 else 0) + (if e = x \<and> b = a then 1 else 0)"
  by (simp add: paid_outputs_def)

lemma settlement_validates:
  assumes v: "lv_args v = hex_bytes (drop 2 (scriptArgs lock))" "lv_group v = [g]" "a \<in> set (lv_input_locks v)"
      "lv_outputs v = [\<lparr>oc_lock_hash = d, oc_capacity = gi_capacity g\<rparr>, \<lparr>oc_lock_hash = a, oc_capacity = b\<rparr>]"
    and p: "parse_party_hashes (hex_bytes (drop 2 (scriptArgs lock))) = Inr \<lparr>ph_client = c, ph_worker = w, ph_agreement_salt = salt\<rparr>"
      "parse_terms (gi_data g) = Inr terms"
    and k: "c \<noteq> w" "(d, a) = (w, c) \<or> (d, a) = (c, w)"
  shows "validate v = (if b = gi_capacity g then Inl AmbiguousSettlementOutputs else Inr ())"
proof -
  have "parse_party_hashes (lv_args v) = Inr \<lparr>ph_client = c, ph_worker = w, ph_agreement_salt = salt\<rparr>" using p(1) v(1) by simp
  from validate_eval [OF this v(2) p(2)] show ?thesis using k v(3)
    by (auto simp: v(4) evaluate_spend_def has_exact_output_count paid_two has_signer_def list_ex_iff lock_bind_def Let_def)
qed

text \<open>
  The setting: an escrow with distinct parties whose cell is on the chain as its commitment says, and a
  signed settlement of it.
\<close>

record settlement_case =
  sx_C :: ccc_lib
  sx_idx :: indexer
  sx_feeRate :: int
  sx_dep :: ccc_dep
  sx_L :: ckb_lib
  sx_cfg :: ckb_config
  sx_cells :: chain
  sx_terms :: commitment_input
  sx_op :: settlement_operation
  sx_input :: settlement_input

definition settles :: "settlement_case \<Rightarrow> CkbEscrowCommitment \<Rightarrow> settlement_intent \<Rightarrow> ckb_script \<Rightarrow> ckb_script
    \<Rightarrow> CkbRpcTransaction \<Rightarrow> string \<Rightarrow> bool" where
  "settles x cm intent client worker tx h \<longleftrightarrow>
     createCommitment (sx_L x) (sx_cfg x) (sx_terms x) = Inr cm \<and> createSettlementIntent (sx_op x) (sx_input x) = Inr intent
     \<and> si_amount (sx_input x) = ci_amount (sx_terms x) \<and> si_clientLockScript (sx_input x) = ci_clientLockScript (sx_terms x)
     \<and> si_workerLockScript (sx_input x) = ci_workerLockScript (sx_terms x)
     \<and> sx_cells x (toLowerCase (si_lockTxHash (sx_input x))) (si_lockOutputIndex (sx_input x)) =
         Some \<lparr>lc_capacity = BigInt (cm_amount cm), lc_lock = cm_lockScript cm, lc_data = cm_cellData cm\<rparr>
     \<and> 0 \<le> si_lockOutputIndex (sx_input x) \<and> in_authorizerLock intent \<noteq> cm_lockScript cm \<and> 0 \<le> sx_feeRate x
     \<and> requiredScript (ci_clientLockScript (sx_terms x)) = Inr client \<and> requiredScript (ci_workerLockScript (sx_terms x)) = Inr worker
     \<and> hash_bytes (scriptHash (sx_L x) client) \<noteq> hash_bytes (scriptHash (sx_L x) worker)
     \<and> local_signSettlement (sx_C x) (sx_idx x) (sx_feeRate x) (sx_dep x) intent = Some (Inr (tx, h))
     \<and> BigInt_hex (rp_capacity (rt_outputs tx ! 1)) < 2 ^ 64"

lemma settles_terms:
  assumes x: "settles x cm intent client worker tx h"
  obtains terms salt where
    "in_destinationLock intent = (if sx_op x = Release then worker else client)"
    "in_authorizerLock intent = (if sx_op x = Release then client else worker)"
    "BigInt (cm_amount cm) = in_amount intent" "0 < in_amount intent" "in_amount intent < 2 ^ 64" "0 \<le> in_since intent"
    "BigInt (si_amount (sx_input x)) = in_amount intent"
    "in_outPointTxHash intent = toLowerCase (si_lockTxHash (sx_input x))" "in_outPointIndex intent = si_lockOutputIndex (sx_input x)"
    "parse_party_hashes (hex_bytes (drop 2 (scriptArgs (cm_lockScript cm)))) = Inr \<lparr>ph_client = hash_bytes (scriptHash (sx_L x) client),
       ph_worker = hash_bytes (scriptHash (sx_L x) worker), ph_agreement_salt = salt\<rparr>"
    "parse_terms (hex_bytes (drop 2 (cm_cellData cm))) = Inr terms"
proof -
  have p: "createCommitment (sx_L x) (sx_cfg x) (sx_terms x) = Inr cm" "createSettlementIntent (sx_op x) (sx_input x) = Inr intent"
    "si_amount (sx_input x) = ci_amount (sx_terms x)" "si_clientLockScript (sx_input x) = ci_clientLockScript (sx_terms x)"
    "si_workerLockScript (sx_input x) = ci_workerLockScript (sx_terms x)"
    and r: "requiredScript (ci_clientLockScript (sx_terms x)) = Inr client" "requiredScript (ci_workerLockScript (sx_terms x)) = Inr worker"
    using x by (simp_all add: settles_def)
  show ?thesis
  proof (rule same_terms [OF p])
    fix c w terms salt
    assume e: "requiredScript (ci_clientLockScript (sx_terms x)) = Inr c" "requiredScript (ci_workerLockScript (sx_terms x)) = Inr w"
      and rest: "in_destinationLock intent = (if sx_op x = Release then w else c)"
        "in_authorizerLock intent = (if sx_op x = Release then c else w)"
        "BigInt (cm_amount cm) = in_amount intent" "0 < in_amount intent" "in_amount intent < 2 ^ 64" "0 \<le> in_since intent"
        "BigInt (si_amount (sx_input x)) = in_amount intent"
        "in_outPointTxHash intent = toLowerCase (si_lockTxHash (sx_input x))" "in_outPointIndex intent = si_lockOutputIndex (sx_input x)"
        "parse_party_hashes (hex_bytes (drop 2 (scriptArgs (cm_lockScript cm)))) = Inr \<lparr>ph_client = hash_bytes (scriptHash (sx_L x) c),
           ph_worker = hash_bytes (scriptHash (sx_L x) w), ph_agreement_salt = salt\<rparr>"
        "parse_terms (hex_bytes (drop 2 (cm_cellData cm))) = Inr terms"
    have "c = client" "w = worker" using e r by simp_all
    with that rest show ?thesis by blast
  qed
qed

lemma settlement_parts:
  assumes laws: "ccc_laws (sx_C x)" and x: "settles x cm intent client worker tx h"
  obtains t cs ch where "tx = rpcTransaction t" "tx_body t = settlement_body intent cs ch" "cs \<noteq> []"
    "\<And>c. c \<in> set cs \<Longrightarrow> served (sx_idx x) (in_authorizerLock intent) c"
    "BigInt_hex (rp_capacity (rt_outputs tx ! 1)) = ch" "0 \<le> ch" "ch < 2 ^ 64"
proof -
  have "0 < in_amount intent" by (rule settles_terms [OF x])
  then obtain t cs ch f where t: "tx = rpcTransaction t" "tx_body t = settlement_body intent cs ch" "cs \<noteq> []"
      "\<And>c. c \<in> set cs \<Longrightarrow> served (sx_idx x) (in_authorizerLock intent) c"
      and ch: "cl_occupiedSize (sx_C x) (plain_output (sum_list (map ic_capacity cs)) (in_authorizerLock intent)) * 100000000 \<le> ch"
    using settlement_signed [OF laws, of "sx_idx x" "sx_feeRate x" "sx_dep x" intent tx h] x unfolding settles_def by metis
  have z: "0 \<le> ch" using ch laws by (auto simp: ccc_laws_def intro: order_trans [OF _ ch])
  moreover have "rp_capacity (rt_outputs tx ! 1) = hex ch"
    using t(2) by (simp add: t(1) rpcTransaction_def tx_body_def settlement_body_def plain_output_def)
  moreover from this z have "ch < 2 ^ 64" using x by (simp add: settles_def BigInt_hex)
  ultimately show ?thesis using that [OF t] by (simp add: BigInt_hex)
qed

lemma settlement_accepted:
  assumes laws: "ccc_laws (sx_C x)" "indexer_laws (sx_idx x) (sx_cells x)" and x: "settles x cm intent client worker tx h"
  shows "validate (lock_view_of (sx_L x) (sx_cells x) (cm_lockScript cm) tx) =
      (if BigInt_hex (rp_capacity (rt_outputs tx ! 1)) = in_amount intent then Inl AmbiguousSettlementOutputs else Inr ())"
proof -
  note X = x [unfolded settles_def]
  obtain terms salt where i: "in_destinationLock intent = (if sx_op x = Release then worker else client)"
      "in_authorizerLock intent = (if sx_op x = Release then client else worker)"
      and a: "BigInt (cm_amount cm) = in_amount intent" "0 < in_amount intent" "in_amount intent < 2 ^ 64" "0 \<le> in_since intent"
      and o: "in_outPointTxHash intent = toLowerCase (si_lockTxHash (sx_input x))" "in_outPointIndex intent = si_lockOutputIndex (sx_input x)"
      and p: "parse_party_hashes (hex_bytes (drop 2 (scriptArgs (cm_lockScript cm)))) =
         Inr \<lparr>ph_client = hash_bytes (scriptHash (sx_L x) client), ph_worker = hash_bytes (scriptHash (sx_L x) worker), ph_agreement_salt = salt\<rparr>"
        "parse_terms (hex_bytes (drop 2 (cm_cellData cm))) = Inr terms"
    by (rule settles_terms [OF x])
  obtain t cs ch where tx: "tx = rpcTransaction t" and b: "tx_body t = settlement_body intent cs ch" and cs: "cs \<noteq> []"
      "\<And>c. c \<in> set cs \<Longrightarrow> served (sx_idx x) (in_authorizerLock intent) c"
      and d: "BigInt_hex (rp_capacity (rt_outputs tx ! 1)) = ch" "0 \<le> ch" "ch < 2 ^ 64"
    by (rule settlement_parts [OF laws(1) x]) blast
  have hb: "script_bytes (sx_L x) (rpcScript client) = hash_bytes (scriptHash (sx_L x) client)"
    "script_bytes (sx_L x) (rpcScript worker) = hash_bytes (scriptHash (sx_L x) worker)"
    using requiredScript_rpc [of "ci_clientLockScript (sx_terms x)" client] requiredScript_rpc [of "ci_workerLockScript (sx_terms x)" worker] X
    by (simp_all add: script_bytes_def)
  have w: "(of_int ch :: 64 word) = of_int (in_amount intent) \<longleftrightarrow> ch = in_amount intent"
    using word_of_int_eq64 [of ch "in_amount intent"] a d by simp
  let ?ec = "\<lparr>lc_capacity = BigInt (cm_amount cm), lc_lock = cm_lockScript cm, lc_data = cm_cellData cm\<rparr>"
  have e: "sx_cells x (in_outPointTxHash intent) (in_outPointIndex intent) = Some ?ec" "lc_lock ?ec = cm_lockScript cm"
    "0 \<le> in_outPointIndex intent" "in_authorizerLock intent \<noteq> cm_lockScript cm" "0 \<le> in_amount intent" using X o a by simp_all
  note v = settlement_view [OF laws(2) b cs(2,1) e(1,2,3,4) a(4) e(5) d(2), of "sx_L x", folded tx, unfolded i]
  have "lv_args (lock_view_of (sx_L x) (sx_cells x) (cm_lockScript cm) tx) = hex_bytes (drop 2 (scriptArgs (cm_lockScript cm)))"
    by (simp add: lock_view_of_def Let_def)
  from settlement_validates [OF this v(1,2) _ p(1)] v(3) p(2) w X show ?thesis
    unfolding d(1) by (cases "sx_op x = Release") (simp_all add: a(1) hb)
qed

text \<open>The claim that the reconciliation checks for the settlement.\<close>

definition claim_of :: "settlement_case \<Rightarrow> string \<Rightarrow> settlement_claim" where
  "claim_of x h = \<lparr>sc_txHash = h, sc_lockTxHash = si_lockTxHash (sx_input x), sc_lockOutputIndex = si_lockOutputIndex (sx_input x),
     sc_destinationLockScript = (if sx_op x = Release then si_workerLockScript (sx_input x) else si_clientLockScript (sx_input x)),
     sc_amount = si_amount (sx_input x)\<rparr>"

lemma settlement_verifies:
  assumes laws: "ccc_laws (sx_C x)" "indexer_laws (sx_idx x) (sx_cells x)" and x: "settles x cm intent client worker tx h"
    and n: "getTransaction node h = Inr (Some r)" "rs_transaction r = Some (rpc_view tx)"
  shows "verifySettlement cfg node later (claim_of x h) = observeTransaction cfg later h"
proof -
  note X = x [unfolded settles_def]
  obtain t cs ch where tx: "tx = rpcTransaction t" and b: "tx_body t = settlement_body intent cs ch" and ch: "0 \<le> ch"
      and cs: "\<And>c. c \<in> set cs \<Longrightarrow> served (sx_idx x) (in_authorizerLock intent) c"
    by (rule settlement_parts [OF laws(1) x]) blast
  have ne: "client \<noteq> worker" using X by auto
  obtain terms salt where i: "in_destinationLock intent = (if sx_op x = Release then worker else client)"
      "in_authorizerLock intent = (if sx_op x = Release then client else worker)"
    and a: "BigInt (si_amount (sx_input x)) = in_amount intent" "0 < in_amount intent"
      "in_outPointTxHash intent = toLowerCase (si_lockTxHash (sx_input x))" "in_outPointIndex intent = si_lockOutputIndex (sx_input x)"
    by (rule settles_terms [OF x])
  have "length (filter (spends_escrow (claim_of x h)) (rx_inputs (rpc_view tx))) = 1"
    unfolding tx by (rule settlement_spends [OF laws(2) b cs, where lock = "cm_lockScript cm"
        and ec = "\<lparr>lc_capacity = BigInt (cm_amount cm), lc_lock = cm_lockScript cm, lc_data = cm_cellData cm\<rparr>"]) (use X a in \<open>simp_all add: claim_of_def\<close>)
  moreover have "\<not> scriptsEqual (Some (rpcScript (in_authorizerLock intent))) (sc_destinationLockScript (claim_of x h))"
    "scriptsEqual (Some (rpcScript (in_destinationLock intent))) (sc_destinationLockScript (claim_of x h))"
    using scriptsEqual_distinct scriptsEqual_required X i ne by (auto simp: claim_of_def)
  then have "length (filter (pays_destination (claim_of x h)) (rx_outputs (rpc_view tx))) = 1"
    using b a by (simp add: tx rpc_view_def rpcTransaction_def tx_body_def settlement_body_def plain_output_def pays_destination_def
        BigInt_hex claim_of_def ch)
  ultimately show ?thesis using n by (simp add: verifySettlement_def res_require_def claim_of_def)
qed

end
