(* ===== verification/ChainScenario.thy ===== *)
theory ChainScenario
  imports OnChain
begin

text \<open>
  A concrete release for the witnesses: a signer library that adds nothing but a fee, an indexer with one
  page, and a chain with the cell of the escrow and one cell of the signer.
\<close>

definition demo_party :: "char \<Rightarrow> ckb_script" where
  "demo_party c = \<lparr>codeHash = ''0x'' @ replicate 64 (CHR ''d''), hashType = ''type'', scriptArgs = [CHR ''0'', CHR ''x'', c, c]\<rparr>"

definition demo_ckb_lib :: ckb_lib where
  "demo_ckb_lib = \<lparr>hashCkb = (\<lambda>_. ''0x'' @ replicate 64 (CHR ''c'')),
     scriptHash = (\<lambda>sc. ''0x'' @ concat (replicate 32 (take 2 (drop 2 (scriptArgs sc))))), occupiedCapacity = (\<lambda>_ _. 0)\<rparr>"

definition demo_ccc :: ccc_lib where
  "demo_ccc = \<lparr>cl_scriptEq = (\<lambda>a b. a = b), cl_address = Inr ''ckt'', cl_lockScript = Inr (demo_party (CHR ''a'')),
     cl_transactionFrom = (\<lambda>i os d c. \<lparr>xt_version = 0, xt_cellDeps = c, xt_headerDeps = [], xt_inputs = i, xt_outputs = os,
       xt_outputsData = d, xt_witnesses = []\<rparr>),
     cl_prepareTransaction = Inr, cl_estimateFee = (\<lambda>_ r. r), cl_occupiedSize = (\<lambda>_. 61), cl_signOnlyTransaction = Inr,
     cl_hash = (\<lambda>_. ''0x'' @ replicate 64 (CHR ''e''))\<rparr>"

definition demo_fee_cell :: indexer_cell where
  "demo_fee_cell = \<lparr>ic_capacity = 10000000000, ic_type = None, ic_output_data = ''0x'', ic_tx_hash = ''0x'' @ replicate 64 (CHR ''1''), ic_index = 0\<rparr>"

definition demo_indexer :: indexer where
  "demo_indexer lock cursor = Inr \<lparr>cp_objects = (if lock = demo_party (CHR ''a'') then [demo_fee_cell] else []), cp_last_cursor = []\<rparr>"

definition demo_terms :: commitment_input where
  "demo_terms = \<lparr>ci_agreementId = ''a'', ci_milestoneId = ''m'', ci_milestoneIndex = 1, ci_amount = ''200'',
     ci_clientLockScript = Some (script_json (demo_party (CHR ''a''))), ci_workerLockScript = Some (script_json (demo_party (CHR ''b''))),
     ci_refundTimeoutSince = ''100''\<rparr>"

definition demo_rail :: ckb_config where
  "demo_rail = \<lparr>railEnabled = True, railNetwork = ''testnet'', contractCodeHash = ''0x'' @ replicate 64 (CHR ''f''),
     contractHashType = ''data1'', railConfirmations = 6\<rparr>"

definition demo_commitment :: CkbEscrowCommitment where
  "demo_commitment = projr (createCommitment demo_ckb_lib demo_rail demo_terms)"

definition demo_release :: settlement_input where
  "demo_release = \<lparr>si_lockTxHash = ''0x'' @ replicate 64 (CHR ''2''), si_lockOutputIndex = 0, si_amount = ''200'',
     si_clientLockScript = ci_clientLockScript demo_terms, si_workerLockScript = ci_workerLockScript demo_terms,
     si_refundTimeoutSince = ''100''\<rparr>"

definition demo_intent :: settlement_intent where
  "demo_intent = projr (createSettlementIntent Release demo_release)"

definition demo_live :: chain where
  "demo_live h i = (if i = 0 \<and> h = ''0x'' @ replicate 64 (CHR ''1'') then
       Some \<lparr>lc_capacity = 10000000000, lc_lock = demo_party (CHR ''a''), lc_data = ''0x''\<rparr>
     else if i = 0 \<and> h = ''0x'' @ replicate 64 (CHR ''2'') then
       Some \<lparr>lc_capacity = 200, lc_lock = cm_lockScript demo_commitment, lc_data = cm_cellData demo_commitment\<rparr>
     else None)"

definition demo_case :: settlement_case where
  "demo_case = \<lparr>sx_C = demo_ccc, sx_idx = demo_indexer, sx_feeRate = 1000, sx_dep = contractCellDep ''0x00'' 0 ''code'',
     sx_L = demo_ckb_lib, sx_cfg = demo_rail, sx_cells = demo_live, sx_terms = demo_terms, sx_op = Release, sx_input = demo_release\<rparr>"

definition demo_signed :: "CkbRpcTransaction \<times> string" where
  "demo_signed = projr (the (local_signSettlement demo_ccc demo_indexer 1000 (contractCellDep ''0x00'' 0 ''code'') demo_intent))"

lemma demo_case_laws: "ccc_laws (sx_C demo_case)" "indexer_laws (sx_idx demo_case) (sx_cells demo_case)"
proof -
  show "ccc_laws (sx_C demo_case)" by (simp add: demo_case_def ccc_laws_def demo_ccc_def tx_body_def)
  have "served demo_indexer lock c \<Longrightarrow> c = demo_fee_cell \<and> lock = demo_party (CHR ''a'')" for lock c
    by (auto simp: served_def demo_indexer_def split: if_splits)
  moreover have "toLowerCase (ic_tx_hash demo_fee_cell) = ic_tx_hash demo_fee_cell" by code_simp
  moreover have "demo_live (ic_tx_hash demo_fee_cell) (ic_index demo_fee_cell) = Some \<lparr>lc_capacity = ic_capacity demo_fee_cell,
      lc_lock = demo_party (CHR ''a''), lc_data = ic_output_data demo_fee_cell\<rparr>" by (simp add: demo_live_def demo_fee_cell_def)
  moreover have "0 \<le> ic_index demo_fee_cell" by (simp add: demo_fee_cell_def)
  ultimately show "indexer_laws (sx_idx demo_case) (sx_cells demo_case)"
    unfolding indexer_laws_def by (simp add: demo_case_def) metis
qed

lemma demo_digest: "fixedHex (''0x'' @ replicate 64 c) 32 = Inr (replicate 64 c)" if "hex_char c"
  by (rule fixedHex_canonical) (use that in \<open>simp_all add: list_all_iff\<close>)

lemma demo_scripts:
  "requiredScript (ci_clientLockScript demo_terms) = Inr (demo_party (CHR ''a''))"
  "requiredScript (ci_workerLockScript demo_terms) = Inr (demo_party (CHR ''b''))"
  "scriptHash demo_ckb_lib (demo_party (CHR ''a'')) = ''0x'' @ replicate 64 (CHR ''a'')"
  "scriptHash demo_ckb_lib (demo_party (CHR ''b'')) = ''0x'' @ replicate 64 (CHR ''b'')"
  by code_simp+

lemma demo_commits: "createCommitment demo_ckb_lib demo_rail demo_terms = Inr demo_commitment"
  and demo_commitment_amount: "cm_amount demo_commitment = ''200''"
  and demo_commitment_lock: "codeHash (cm_lockScript demo_commitment) = contractCodeHash demo_rail"
proof -
  have h: "hex_char (CHR ''a'')" "hex_char (CHR ''b'')" "hex_char (CHR ''c'')" by code_simp+
  have n: "parsePositiveIntegerAmount (ci_amount demo_terms) = Inr 200" "parseRefundTimeoutSince (ci_refundTimeoutSince demo_terms) = Inr 100"
    "show_int 200 = ''200''" by code_simp+
  have d: "digest demo_ckb_lib ps = ''0x'' @ replicate 64 (CHR ''c'')" "occupiedCapacity demo_ckb_lib sc e = 0" for ps sc e
    by (simp_all add: digest_def demo_ckb_lib_def)
  have a: "encodeEscrowLockArgs \<lparr>clientLockHash = ''0x'' @ replicate 64 (CHR ''a''), workerLockHash = ''0x'' @ replicate 64 (CHR ''b''),
      agreementSalt = ''0x'' @ replicate 64 (CHR ''c'')\<rparr> = Inr (''0x'' @ replicate 64 (CHR ''a'') @ replicate 64 (CHR ''b'') @ replicate 64 (CHR ''c''))"
    using demo_digest [OF h(1)] demo_digest [OF h(2)] demo_digest [OF h(3)] by (simp add: encodeEscrowLockArgs_def)
  obtain e where e: "encodeEscrowCellData \<lparr>milestoneIndex = ci_milestoneIndex demo_terms, refundTimeoutSince = 100,
      agreementDigest = ''0x'' @ replicate 64 (CHR ''c''), milestoneDigest = ''0x'' @ replicate 64 (CHR ''c'')\<rparr> = Inr e"
    using demo_digest [OF h(3)] by (simp add: encodeEscrowCellData_def unsignedInteger_def demo_terms_def UINT32_MAX_def UINT64_MAX_def)
  have "\<exists>cm. createCommitment demo_ckb_lib demo_rail demo_terms = Inr cm \<and> cm_amount cm = ''200''
      \<and> codeHash (cm_lockScript cm) = contractCodeHash demo_rail"
    unfolding createCommitment_def n demo_scripts d res_bind_simps a e Let_def by (simp add: n res_require_def)
  then show "createCommitment demo_ckb_lib demo_rail demo_terms = Inr demo_commitment" "cm_amount demo_commitment = ''200''"
    "codeHash (cm_lockScript demo_commitment) = contractCodeHash demo_rail"
    by (auto simp: demo_commitment_def)
qed

lemma demo_intends: "createSettlementIntent Release demo_release = Inr demo_intent"
proof -
  have "isl (createSettlementIntent Release demo_release) = False" by code_simp
  then show ?thesis by (cases "createSettlementIntent Release demo_release") (simp_all add: demo_intent_def)
qed

lemma demo_collects: "collectCapacity demo_indexer (demo_party (CHR ''a'')) 6100010000 = Some (Inr ([demo_fee_cell], 10000000000))"
  by (simp add: collectCapacity_def collectFrom.simps demo_indexer_def demo_fee_cell_def)

lemma demo_intent_value:
  "demo_intent = \<lparr>in_operation = Release, in_outPointTxHash = ''0x'' @ replicate 64 (CHR ''2''), in_outPointIndex = 0,
     in_amount = 200, in_destinationLock = demo_party (CHR ''b''), in_authorizerLock = demo_party (CHR ''a''), in_since = 0\<rparr>"
  by code_simp

lemma demo_signs: "local_signSettlement demo_ccc demo_indexer 1000 (contractCellDep ''0x00'' 0 ''code'') demo_intent = Some (Inr demo_signed)"
  and demo_change: "BigInt_hex (rp_capacity (rt_outputs (fst demo_signed) ! 1)) = 9999999000"
proof -
  obtain t where r: "local_signSettlement demo_ccc demo_indexer 1000 (contractCellDep ''0x00'' 0 ''code'') demo_intent
      = Some (Inr (rpcTransaction t, ''0x'' @ replicate 64 (CHR ''e'')))"
    and t: "xt_outputs t = [plain_output 200 (demo_party (CHR ''b'')), plain_output 9999999000 (demo_party (CHR ''a''))]"
  proof (rule that)
    let ?t = "\<lparr>xt_version = 0, xt_cellDeps = [contractCellDep ''0x00'' 0 ''code''], xt_headerDeps = [],
      xt_inputs = [\<lparr>xi_txHash = ''0x'' @ replicate 64 (CHR ''2''), xi_index = 0, xi_since = 0\<rparr>, cell_input demo_fee_cell],
      xt_outputs = [plain_output 200 (demo_party (CHR ''b'')), plain_output 9999999000 (demo_party (CHR ''a''))],
      xt_outputsData = [''0x'', ''0x''], xt_witnesses = []\<rparr>"
    show "local_signSettlement demo_ccc demo_indexer 1000 (contractCellDep ''0x00'' 0 ''code'') demo_intent
        = Some (Inr (rpcTransaction ?t, ''0x'' @ replicate 64 (CHR ''e'')))"
      by (simp add: local_signSettlement_def demo_ccc_def demo_intent_value minimumChange_def demo_collects await_def prepareAndSign_def
          nth_opt_def plain_output_def)
  qed simp
  then show "local_signSettlement demo_ccc demo_indexer 1000 (contractCellDep ''0x00'' 0 ''code'') demo_intent = Some (Inr demo_signed)"
    by (simp add: demo_signed_def)
  from r t show "BigInt_hex (rp_capacity (rt_outputs (fst demo_signed) ! 1)) = 9999999000"
    by (simp add: demo_signed_def rpcTransaction_def plain_output_def BigInt_hex)
qed

lemma demo_release_settles:
  "settles demo_case demo_commitment demo_intent (demo_party (CHR ''a'')) (demo_party (CHR ''b'')) (fst demo_signed) (snd demo_signed)"
proof -
  have "hash_bytes (scriptHash demo_ckb_lib (demo_party (CHR ''a''))) \<noteq> hash_bytes (scriptHash demo_ckb_lib (demo_party (CHR ''b'')))"
    "toLowerCase (si_lockTxHash demo_release) = si_lockTxHash demo_release" "si_amount demo_release = ci_amount demo_terms"
    "BigInt ''200'' = 200" "codeHash (demo_party (CHR ''a'')) \<noteq> contractCodeHash demo_rail" by code_simp+
  moreover from this have "in_authorizerLock demo_intent \<noteq> cm_lockScript demo_commitment"
    using demo_commitment_lock by (auto simp: demo_intent_value)
  moreover have "demo_live (si_lockTxHash demo_release) 0 = Some \<lparr>lc_capacity = 200, lc_lock = cm_lockScript demo_commitment,
      lc_data = cm_cellData demo_commitment\<rparr>"
    by (simp add: demo_live_def demo_release_def)
  ultimately show ?thesis using demo_commits demo_intends demo_signs demo_change demo_scripts demo_commitment_amount
    by (simp add: settles_def demo_case_def demo_release_def)
qed

end
