(* ===== verification/Transport.thy ===== *)
theory Transport
  imports WebhookSecurity
begin

text \<open>
  The transport of webhook deliveries, the rest of \<open>modules/webhooks/webhook.security.ts\<close>: how a request to
  a resolved address is handed to Node's \<open>http\<close>, \<open>https\<close> and \<open>tls\<close>, directly or through the egress proxy, and
  how the answer is read. Node itself is a parameter, the record \<open>node\<close>: it answers a request with a
  stream of chunks. An exception inside an event handler settles no promise and is not caught: it is the
  outcome \<open>Uncaught\<close>. The lemmas show where a request goes, that the answer is bounded, and when reading it
  ends in such an exception.
\<close>

section \<open>Requests and answers of Node\<close>

text \<open>\<open>ri_signal\<close> is \<open>Some r\<close> when the signal is aborted; \<open>r\<close> is its reason when that is an \<open>Error\<close>.\<close>

datatype request_body = NoBody | BytesBody string | OtherBody

record request_init =
  ri_method :: "string option"
  ri_headers :: "string \<rightharpoonup> string"
  ri_body :: request_body
  ri_signal :: "failure option option"

text \<open>The parts of a URL that go on the wire.\<close>

record wire =
  wi_host :: string
  wi_port :: string
  wi_pathname :: string
  wi_search :: string

text \<open>The options of one \<open>request\<close> call; \<open>ex_signal\<close> says whether the abort signal reaches it.\<close>

record exchange =
  ex_secure :: bool
  ex_hostname :: string
  ex_port :: string
  ex_method :: string
  ex_path :: string
  ex_headers :: "string \<rightharpoonup> string"
  ex_servername :: "string option"
  ex_signal :: bool

text \<open>A request to the address, one that the proxy forwards, or one through a tunnel of the proxy.\<close>

datatype dial = Direct exchange | Forward exchange | Tunnel exchange exchange

text \<open>An answer: its status, its \<open>location\<close> header, the chunks of its body and the error that may end them.\<close>

record incoming =
  in_statusCode :: "nat option"
  in_location :: "string option"
  in_chunks :: "string list"
  in_error :: "failure option"

text \<open>
  \<open>nd_withHostname\<close> is the text of a URL whose \<open>hostname\<close> was assigned; \<open>nd_decode\<close> is \<open>decodeURIComponent\<close>,
  \<open>None\<close> when it throws; \<open>nd_base64\<close> encodes the bytes of a string; \<open>nd_send\<close> performs a request with its body.
\<close>

record node =
  nd_parseUrl :: "string \<Rightarrow> web_url option"
  nd_wire :: "web_url \<Rightarrow> wire"
  nd_withHostname :: "web_url \<Rightarrow> string \<Rightarrow> string"
  nd_decode :: "string \<Rightarrow> string option"
  nd_base64 :: "string \<Rightarrow> string"
  nd_send :: "dial \<Rightarrow> string option \<Rightarrow> failure + incoming"

section \<open>Reading the answer\<close>

definition MAX_WEBHOOK_RESPONSE_BYTES :: nat where
  "MAX_WEBHOOK_RESPONSE_BYTES = 64 * 1024"

fun read_chunks :: "nat \<Rightarrow> string \<Rightarrow> string list \<Rightarrow> failure + string" where
  "read_chunks responseBytes received [] = Inr received"
| "read_chunks responseBytes received (c # cs) =
     (let responseBytes' = responseBytes + length c in
      if responseBytes' > MAX_WEBHOOK_RESPONSE_BYTES then Inl (PlainError ''Webhook response exceeded 65536 bytes.'')
      else read_chunks responseBytes' (received @ c) cs)"

datatype outcome = Settled "failure + http_response" | Uncaught

text \<open>
  \<open>new Response(body, { status })\<close> throws for a status outside 200 to 599, and for a body that is not null
  with a status that has none.
\<close>

definition new_response :: "string option \<Rightarrow> nat \<Rightarrow> string option \<Rightarrow> http_response option" where
  "new_response body status location =
     (if status < 200 \<or> status > 599 then None
      else if body \<noteq> None \<and> List.member [204, 205, 304] status then None
      else Some \<lparr>hr_status = status, hr_location = location, hr_body = (case body of None \<Rightarrow> [] | Some b \<Rightarrow> b)\<rparr>)"

text \<open>The handlers of \<open>data\<close>, \<open>error\<close> and \<open>end\<close>; \<open>body_of\<close> is what the last one makes of the bytes.\<close>

definition receive :: "(string \<Rightarrow> string option) \<Rightarrow> failure + incoming \<Rightarrow> outcome" where
  "receive body_of r = (case r of
       Inl e \<Rightarrow> Settled (Inl e)
     | Inr m \<Rightarrow> (case read_chunks 0 [] (in_chunks m) of
           Inl e \<Rightarrow> Settled (Inl e)
         | Inr bytes \<Rightarrow> (case in_error m of
               Some e \<Rightarrow> Settled (Inl e)
             | None \<Rightarrow> (case new_response (body_of bytes) (case in_statusCode m of None \<Rightarrow> 500 | Some c \<Rightarrow> c) (in_location m) of
                   None \<Rightarrow> Uncaught
                 | Some x \<Rightarrow> Settled (Inr x)))))"

definition responseToFetchResponse :: "failure + incoming \<Rightarrow> outcome" where
  "responseToFetchResponse r = receive Some r"

definition pinned_response :: "failure + incoming \<Rightarrow> outcome" where
  "pinned_response r = receive (\<lambda>bytes. if length bytes > 0 then Some bytes else None) r"

section \<open>Sending the request\<close>

definition writeRequestBody :: "request_body \<Rightarrow> failure + string option" where
  "writeRequestBody body = (case body of
       NoBody \<Rightarrow> Inr None
     | BytesBody b \<Rightarrow> Inr (Some b)
     | OtherBody \<Rightarrow> Inl (JsTypeError ''Webhook request body must be a string or byte array.''))"

definition proxyAuthorization :: "node \<Rightarrow> web_url \<Rightarrow> failure + string option" where
  "proxyAuthorization N proxy =
     (if u_username proxy = [] \<and> u_password proxy = [] then Inr None
      else case (nd_decode N (u_username proxy), nd_decode N (u_password proxy)) of
          (Some u, Some p) \<Rightarrow> Inr (Some (''Basic '' @ nd_base64 N (u @ '':'' @ p)))
        | _ \<Rightarrow> Inl (CodedError ''URIError'' ''URI malformed''))"

definition or_default :: "string \<Rightarrow> string \<Rightarrow> string" where
  "or_default s d = (if s = [] then d else s)"

definition method_of :: "request_init \<Rightarrow> string" where
  "method_of init = (case ri_method init of None \<Rightarrow> ''GET'' | Some m \<Rightarrow> m)"

definition with_authorization :: "string option \<Rightarrow> (string \<rightharpoonup> string) \<Rightarrow> (string \<rightharpoonup> string)" where
  "with_authorization authorization hs = (case authorization of None \<Rightarrow> hs | Some a \<Rightarrow> hs(''proxy-authorization'' \<mapsto> a))"

definition direct_dial :: "node \<Rightarrow> web_url \<Rightarrow> request_init \<Rightarrow> string \<Rightarrow> dial" where
  "direct_dial N url init address = (let w = nd_wire N url in
     Direct \<lparr>ex_secure = (u_protocol url = ''https:''), ex_hostname = address, ex_port = wi_port w,
       ex_method = method_of init, ex_path = wi_pathname w @ wi_search w,
       ex_headers = (if ri_headers init ''host'' = None then (ri_headers init)(''host'' \<mapsto> wi_host w) else ri_headers init),
       ex_servername = (if u_protocol url = ''https:'' then Some (u_hostname url) else None), ex_signal = True\<rparr>)"

definition proxy_dial :: "node \<Rightarrow> web_url \<Rightarrow> request_init \<Rightarrow> string \<Rightarrow> web_url \<Rightarrow> string option \<Rightarrow> dial" where
  "proxy_dial N url init address proxy authorization =
     (let w = nd_wire N url; headers = (ri_headers init)(''host'' \<mapsto> wi_host w);
          proxyPort = or_default (wi_port (nd_wire N proxy)) ''80''; port = or_default (wi_port w) ''443'';
          target = address @ '':'' @ port in
      if u_protocol url = ''http:'' then
        Forward \<lparr>ex_secure = False, ex_hostname = u_hostname proxy, ex_port = proxyPort, ex_method = method_of init,
          ex_path = nd_withHostname N url address, ex_headers = with_authorization authorization headers,
          ex_servername = None, ex_signal = True\<rparr>
      else
        Tunnel
          \<lparr>ex_secure = False, ex_hostname = u_hostname proxy, ex_port = proxyPort, ex_method = ''CONNECT'', ex_path = target,
           ex_headers = with_authorization authorization [''host'' \<mapsto> target], ex_servername = None, ex_signal = False\<rparr>
          \<lparr>ex_secure = True, ex_hostname = u_hostname url, ex_port = port, ex_method = method_of init,
           ex_path = wi_pathname w @ wi_search w, ex_headers = headers, ex_servername = Some (u_hostname url),
           ex_signal = True\<rparr>)"

definition requestThroughProxy :: "node \<Rightarrow> web_url \<Rightarrow> request_init \<Rightarrow> string \<Rightarrow> web_url \<Rightarrow> outcome" where
  "requestThroughProxy N url init address proxy = (case proxyAuthorization N proxy of
       Inl e \<Rightarrow> Settled (Inl e)
     | Inr authorization \<Rightarrow> (case writeRequestBody (ri_body init) of
           Inl e \<Rightarrow> Settled (Inl e)
         | Inr body \<Rightarrow> responseToFetchResponse (nd_send N (proxy_dial N url init address proxy authorization) body)))"

text \<open>\<open>proxyUrl\<close> is \<open>config.webhookEgressProxyUrl\<close>; a signal aborted before the call ends a direct request.\<close>

definition requestPinnedAddress :: "node \<Rightarrow> string \<Rightarrow> web_url \<Rightarrow> request_init \<Rightarrow> string \<Rightarrow> outcome" where
  "requestPinnedAddress N proxyUrl url init address =
     (if proxyUrl \<noteq> [] then (case nd_parseUrl N proxyUrl of
          None \<Rightarrow> Settled (Inl (JsTypeError ''Invalid URL''))
        | Some proxy \<Rightarrow> requestThroughProxy N url init address proxy)
      else case ri_signal init of
          Some reason \<Rightarrow> Settled (Inl (case reason of None \<Rightarrow> PlainError ''Webhook request aborted.'' | Some e \<Rightarrow> e))
        | None \<Rightarrow> (case writeRequestBody (ri_body init) of
              Inl e \<Rightarrow> Settled (Inl e)
            | Inr body \<Rightarrow> pinned_response (nd_send N (direct_dial N url init address) body)))"

section \<open>The answer is bounded\<close>

lemma read_chunks_exact:
  "read_chunks n received cs = (if n + length (concat cs) > MAX_WEBHOOK_RESPONSE_BYTES \<and> cs \<noteq> []
     then Inl (PlainError ''Webhook response exceeded 65536 bytes.'') else Inr (received @ concat cs))"
  by (induction cs arbitrary: n received) (auto simp: Let_def)

lemma receive_bounded:
  assumes "receive body_of r = Settled (Inr x)" and "\<And>b c. body_of b = Some c \<Longrightarrow> c = b"
  shows "length (hr_body x) \<le> MAX_WEBHOOK_RESPONSE_BYTES \<and> 200 \<le> hr_status x \<and> hr_status x \<le> 599"
  using assms(1)
  by (auto simp: receive_def read_chunks_exact new_response_def dest!: assms(2) split: sum.splits option.splits if_splits)

lemma response_bounded:
  assumes "requestPinnedAddress N proxyUrl url init address = Settled (Inr x)"
  shows "length (hr_body x) \<le> MAX_WEBHOOK_RESPONSE_BYTES \<and> 200 \<le> hr_status x \<and> hr_status x \<le> 599"
  using assms
  by (auto simp: requestPinnedAddress_def requestThroughProxy_def responseToFetchResponse_def pinned_response_def
      intro!: receive_bounded split: if_splits option.splits sum.splits)

section \<open>Where a request goes\<close>

fun dialed :: "dial \<Rightarrow> string" where
  "dialed (Direct e) = ex_hostname e"
| "dialed (Forward e) = ex_hostname e"
| "dialed (Tunnel c e) = ex_hostname c"

text \<open>
  No name of the URL is resolved again: a direct request goes to the address that was checked, any other to
  the proxy, and a tunnel asks it for that address; the certificate is always that of the host of the URL.
\<close>

lemma direct_pinned: "dialed (direct_dial N url init address) = address"
  by (simp add: direct_dial_def Let_def)

lemma proxy_pinned:
  assumes "proxy_dial N url init address proxy authorization = d"
  shows "dialed d = u_hostname proxy"
    and "u_protocol url \<noteq> ''http:'' \<Longrightarrow> \<exists>c e. d = Tunnel c e \<and> ex_path c = address @ '':'' @ or_default (wi_port (nd_wire N url)) ''443''
      \<and> ex_secure e \<and> ex_servername e = Some (u_hostname url) \<and> ex_headers e ''proxy-authorization'' = ri_headers init ''proxy-authorization''"
  unfolding assms [symmetric] by (simp_all add: proxy_dial_def Let_def)

text \<open>The tunnel is opened without the signal of the delivery, so that its timeout does not end a proxy that hangs.\<close>

lemma tunnel_without_signal:
  "u_protocol url \<noteq> ''http:'' \<Longrightarrow> \<exists>c e. proxy_dial N url init address proxy authorization = Tunnel c e \<and> \<not> ex_signal c"
  by (simp add: proxy_dial_def Let_def)

section \<open>Answers without a body\<close>

text \<open>
  The two ways to read an answer differ in the empty body: it is null for a direct request and an empty
  buffer behind the proxy, where a status without body therefore raises an exception in an event handler.
\<close>

lemma direct_empty_reply:
  assumes "proxyUrl = []" and "ri_signal init = None" and "writeRequestBody (ri_body init) = Inr body"
    and "nd_send N (direct_dial N url init address) body =
      Inr \<lparr>in_statusCode = Some 204, in_location = loc, in_chunks = [], in_error = None\<rparr>"
  shows "requestPinnedAddress N proxyUrl url init address = Settled (Inr \<lparr>hr_status = 204, hr_location = loc, hr_body = []\<rparr>)"
  using assms by (simp add: requestPinnedAddress_def pinned_response_def receive_def new_response_def)

lemma proxied_empty_reply:
  assumes "proxyUrl \<noteq> []" and "nd_parseUrl N proxyUrl = Some proxy" and "proxyAuthorization N proxy = Inr authorization"
    and "writeRequestBody (ri_body init) = Inr body"
    and "nd_send N (proxy_dial N url init address proxy authorization) body =
      Inr \<lparr>in_statusCode = Some 204, in_location = loc, in_chunks = [], in_error = None\<rparr>"
  shows "requestPinnedAddress N proxyUrl url init address = Uncaught"
  using assms by (simp add: requestPinnedAddress_def requestThroughProxy_def responseToFetchResponse_def receive_def new_response_def)

text \<open>Directly, only statuses outside 200 to 599 and bodies where there should be none do that.\<close>

lemma direct_uncaught:
  assumes "proxyUrl = []" and "requestPinnedAddress N proxyUrl url init address = Uncaught"
  shows "\<exists>m body. nd_send N (direct_dial N url init address) body = Inr m \<and> (\<exists>st. in_statusCode m = Some st \<and>
    (st < 200 \<or> st > 599 \<or> st \<in> {204, 205, 304} \<and> concat (in_chunks m) \<noteq> []))"
  using assms
  by (auto simp: requestPinnedAddress_def pinned_response_def receive_def new_response_def read_chunks_exact
      split: option.splits sum.splits if_splits)

end
