(* ===== verification/AuditChain.thy ===== *)
theory AuditChain
  imports Events Pagination
begin

text \<open>
  The hash chain of the audit log: the triggers of the migrations \<open>audit_immutability_retention\<close> and
  \<open>nonblocking_audit_chain\<close>, and \<open>scripts/verifyAuditChain.ts\<close>, which recomputes it. An insert sees the rows
  that were committed when it ran, so that concurrent inserts may follow the same row. SHA-256 in
  hexadecimal and the text of a timestamp are parameters. The lemmas show that the log always verifies,
  that a change of a hashed column is found, and which changes are not.
\<close>

section \<open>The triggers\<close>

record chained_log = audit_log +
  cl_previousHash :: "string option"
  cl_recordHash :: "string option"

text \<open>\<open>coalesce(x, '')\<close>\<close>

definition coalesce :: "string option \<Rightarrow> string" where
  "coalesce x = (case x of None \<Rightarrow> [] | Some s \<Rightarrow> s)"

definition chain_text :: "(int \<Rightarrow> string) \<Rightarrow> string option \<Rightarrow> 'a audit_log_scheme \<Rightarrow> string" where
  "chain_text timeText prior l = join ''|'' [coalesce prior, al_id l, coalesce (al_appId l), al_actorType l, al_action l,
     al_targetType l, al_targetId l, coalesce (map_option stringify (al_before l)),
     coalesce (map_option stringify (al_after l)), timeText (al_createdAt l)]"

definition prior_hash :: "chained_log list \<Rightarrow> string option" where
  "prior_hash visible = (case desc_order al_createdAt al_id (filter (\<lambda>r. cl_recordHash r \<noteq> None) visible) of
       [] \<Rightarrow> None | r # rs \<Rightarrow> cl_recordHash r)"

definition pactagent_hash_audit_log ::
  "(string \<Rightarrow> string) \<Rightarrow> (int \<Rightarrow> string) \<Rightarrow> chained_log list \<Rightarrow> audit_log \<Rightarrow> chained_log" where
  "pactagent_hash_audit_log sha timeText visible l = (let p = prior_hash visible in
     audit_log.extend l (chained_log.fields p (Some (sha (chain_text timeText p l)))))"

text \<open>The trigger before an update or a delete of a row; \<open>maintenance\<close> is the session setting.\<close>

definition pactagent_reject_audit_mutation :: "string option \<Rightarrow> 'r \<Rightarrow> error + 'r" where
  "pactagent_reject_audit_mutation maintenance row =
     (if maintenance = Some ''authorized'' then Inr row else Inl (JsError ''AuditLog is append-only''))"

text \<open>Inserts, by a transaction that sees some of the committed rows; \<open>id\<close> and \<open>recordHash\<close> are unique.\<close>

inductive chain_step :: "(string \<Rightarrow> string) \<Rightarrow> (int \<Rightarrow> string) \<Rightarrow> chained_log list \<Rightarrow> chained_log list \<Rightarrow> bool"
  for sha timeText where
  logged: "set visible \<subseteq> set rows \<Longrightarrow> new = pactagent_hash_audit_log sha timeText visible l \<Longrightarrow>
    \<forall>r\<in>set rows. al_id r \<noteq> al_id new \<and> cl_recordHash r \<noteq> cl_recordHash new \<Longrightarrow>
    chain_step sha timeText rows (rows @ [new])"

section \<open>verifyAuditChain.ts\<close>

definition broken :: "(string \<Rightarrow> string) \<Rightarrow> (int \<Rightarrow> string) \<Rightarrow> chained_log list \<Rightarrow> chained_log \<Rightarrow> bool" where
  "broken sha timeText rows current \<longleftrightarrow> cl_recordHash current \<noteq> None
     \<and> (cl_previousHash current \<noteq> None \<and> \<not> list_ex (\<lambda>previous. cl_recordHash previous = cl_previousHash current) rows
        \<or> cl_recordHash current \<noteq> Some (sha (chain_text timeText (cl_previousHash current) current)))"

definition verifyAuditChain :: "(string \<Rightarrow> string) \<Rightarrow> (int \<Rightarrow> string) \<Rightarrow> chained_log list \<Rightarrow> error + unit" where
  "verifyAuditChain sha timeText rows =
     res_require (\<not> length (filter (broken sha timeText rows) rows) > 0) (JsError ''Audit chain verification failed'')"

section \<open>The log verifies\<close>

lemma chain_verify_iff: "verifyAuditChain sha timeText rows = Inr u \<longleftrightarrow> (\<forall>r\<in>set rows. \<not> broken sha timeText rows r)"
  by (auto simp: verifyAuditChain_def res_require_def filter_empty_conv)

lemma broken_mono: "set rows \<subseteq> set rows' \<Longrightarrow> broken sha timeText rows' r \<Longrightarrow> broken sha timeText rows r"
  by (auto simp: broken_def list_ex_iff)

lemma prior_hash_in: "prior_hash visible = Some h \<Longrightarrow> \<exists>r\<in>set visible. cl_recordHash r = Some h"
proof -
  assume h: "prior_hash visible = Some h"
  let ?o = "desc_order al_createdAt al_id (filter (\<lambda>r. cl_recordHash r \<noteq> None) visible)"
  have o: "set ?o \<subseteq> set visible" by (auto simp: desc_order_def)
  from h obtain r rs where r: "?o = r # rs" and "cl_recordHash r = Some h"
    by (auto simp: prior_hash_def split: list.splits)
  then show ?thesis using o unfolding r by auto
qed

lemma extend_fields:
  "cl_previousHash (audit_log.extend l (chained_log.fields p h)) = p"
  "cl_recordHash (audit_log.extend l (chained_log.fields p h)) = h"
  "chain_text timeText q (audit_log.extend l (chained_log.fields p h)) = chain_text timeText q l"
  by (simp_all add: audit_log.defs chained_log.defs chain_text_def)

lemma logged_verifies:
  assumes "chain_step sha timeText rows rows'" and "\<forall>r\<in>set rows. \<not> broken sha timeText rows r"
  shows "\<forall>r\<in>set rows'. \<not> broken sha timeText rows' r"
  using assms
proof (cases rule: chain_step.cases)
  case (logged visible new l)
  have "\<not> broken sha timeText rows new"
    using logged(2) prior_hash_in [of visible] unfolding logged(3) pactagent_hash_audit_log_def Let_def
    by (cases "prior_hash visible") (fastforce simp: broken_def extend_fields list_ex_iff)+
  with logged(1) assms(2) broken_mono [of rows rows'] show ?thesis by auto
qed

lemma chain_verifies:
  assumes "(chain_step sha timeText)\<^sup>*\<^sup>* rows rows'" and "\<forall>r\<in>set rows. cl_recordHash r = None"
  shows "verifyAuditChain sha timeText rows' = Inr ()"
  unfolding chain_verify_iff using assms(1)
proof (induction rule: rtranclp_induct)
  case base
  then show ?case using assms(2) by (simp add: broken_def)
qed (rule logged_verifies)

section \<open>What a verification finds, and what it misses\<close>

text \<open>A row whose hashed columns were changed is found, if the hash has no collision there.\<close>

lemma change_found:
  assumes "verifyAuditChain sha timeText (xs @ r # ys) = Inr u" and "cl_recordHash r \<noteq> None"
    and "cl_recordHash r' = cl_recordHash r"
    and "sha (chain_text timeText (cl_previousHash r') r') \<noteq> sha (chain_text timeText (cl_previousHash r) r)"
  shows "\<exists>e. verifyAuditChain sha timeText (xs @ r' # ys) = Inl e"
proof -
  have "cl_recordHash r = Some (sha (chain_text timeText (cl_previousHash r) r))"
    using assms(1,2) by (auto simp: chain_verify_iff broken_def)
  then have "broken sha timeText (xs @ r' # ys) r'" using assms(3,4) by (simp add: broken_def)
  then have "verifyAuditChain sha timeText (xs @ r' # ys) \<noteq> Inr ()" by (auto simp: chain_verify_iff)
  then show ?thesis by (cases "verifyAuditChain sha timeText (xs @ r' # ys)") auto
qed

text \<open>
  The columns of the actor, the agreement and the request are not hashed: whoever changes them behind the
  trigger is not found. The last rows of a branch can be removed.
\<close>

lemma actor_change_missed:
  assumes "verifyAuditChain sha timeText (xs @ r # ys) = Inr u"
  shows "verifyAuditChain sha timeText (xs @ r\<lparr>al_actorAddress := a, al_actorId := i, al_agreementId := g, al_ipAddress := ip,
    al_userAgent := ua, al_requestId := rid\<rparr> # ys) = Inr u"
  using assms by (auto simp: chain_verify_iff broken_def chain_text_def)

lemma removal_missed:
  assumes "verifyAuditChain sha timeText (xs @ r # ys) = Inr u"
    and "\<forall>q\<in>set (xs @ ys). cl_previousHash q = None \<or> cl_previousHash q \<noteq> cl_recordHash r"
  shows "verifyAuditChain sha timeText (xs @ ys) = Inr u"
  using assms unfolding chain_verify_iff broken_def list_ex_iff by fastforce

text \<open>The separator may occur in the columns, so that different rows have the same text.\<close>

lemma separator_ambiguous:
  assumes "l' = l\<lparr>al_action := al_action l @ ''|'' @ al_targetType l, al_targetType := t, al_targetId := i\<rparr>"
    and "al_targetId l = t @ ''|'' @ i"
  shows "chain_text timeText prior l' = chain_text timeText prior l"
  using assms by (simp add: chain_text_def)

end
