(* ===== verification/ServiceProperties.thy ===== *)
theory ServiceProperties
  imports Scenarios ChainScenario Transport AuditChain
begin

text \<open>
  The properties of the single services: authentication, validation, configuration, the job queue and
  its worker, webhooks, outbound calls, the CKB rail, pagination and retention. Each is followed by its
  witness on a concrete input.
\<close>

section \<open>Wallet authentication\<close>


text \<open>
  C20. A session that is opened with a CKB signature proves that the store held a challenge for its
  address, that the signature of the challenge verifies under the key of that address, and that the
  challenge is gone afterwards.
\<close>

theorem wallet_session:
  assumes "verifyChallenge cfg W (RedisAuthChallengeStore sha) time time' params s = (Inr v, t)"
    and "sg_signType (vp_signature params) = ''CkbSecp256k1''"
  shows "se_address v = normalizeWalletAddress (vp_address params)
    \<and> redis_holds sha s (se_address v) (vp_message params) \<and> \<not> redis_holds sha t (se_address v) (vp_message params)
    \<and> wl_verifyMessage W (vp_message params) (vp_signature params) = Inr True
    \<and> (\<exists>a. wl_publicKeyAddress W (sg_identity (vp_signature params)) = Some (Inr a)
        \<and> normalizeWalletAddress a = se_address v)"
proof -
  from verifyChallenge_session [OF assms(1)] obtain s1 found where
    g: "st_get (RedisAuthChallengeStore sha) time (normalizeWalletAddress (vp_address params)) s = (found, s1)"
    and c: "checkChallenge W time found params = Inr (se_address v)"
    and d: "st_consume (RedisAuthChallengeStore sha) time' (se_address v) (vp_message params) s1 = (True, t)" by blast
  have "redis_holds sha s (se_address v) (vp_message params)"
    using redisChallenges.consume_held [OF d] redisChallenges.get_keeps [of sha time "normalizeWalletAddress (vp_address params)" s]
    by (simp add: g)
  with redisChallenges.consume_held [OF d] c secp_session [OF assms] show ?thesis by (simp add: checkChallenge_iff)
qed

theorem wallet_session_witness:
  "redis_holds (\<lambda>s. s) demo_challenges ''a'' ''m''
   \<and> wl_publicKeyAddress demo_wallet (sg_identity (vp_signature demo_login)) = Some (Inr ''a'')"
proof -
  obtain v t where s: "verifyChallenge demo_auth demo_wallet (RedisAuthChallengeStore (\<lambda>s. s)) 1 2 demo_login demo_challenges
      = (Inr v, t)" using demo_session by blast
  have k: "sg_signType (vp_signature demo_login) = ''CkbSecp256k1''" by (simp add: demo_login_def)
  note f = wallet_session [OF s k]
  have m: "vp_message demo_login = ''m''" "vp_address demo_login = ''a''" by (simp_all add: demo_login_def)
  then have "redis_holds (\<lambda>s. s) demo_challenges ''a'' ''m''" using f by (metis demo_normal)
  then show ?thesis by (simp add: demo_wallet_def demo_login_def)
qed

section \<open>Requests and configuration\<close>



text \<open>
  The body of a request for an escrow that passes validation has a positive integer amount; on the
  CKB rail it names a milestone, both lock scripts, the timeout, the currency CKB and a chain; on the
  other rails it stays in the sandbox.
\<close>

lemma escrow_body_type:
  assumes "validateBody (createEscrowSchema F) body = Inr v"
  shows "isPositiveIntegerAmount (cei_amount (escrow_input v))
    \<and> (if cei_rail (escrow_input v) = ''ckb''
       then cei_network (escrow_input v) \<in> {''testnet'', ''mainnet''}
         \<and> cei_currency (escrow_input v) = ''CKB'' \<and> cei_milestoneId (escrow_input v) \<noteq> None
         \<and> cei_clientLockScript (escrow_input v) \<noteq> None \<and> cei_workerLockScript (escrow_input v) \<noteq> None
         \<and> cei_refundTimeoutSince (escrow_input v) \<noteq> None
       else cei_network (escrow_input v) = ''sandbox'')"
  using parsed_escrow [OF assms] by (cases "cei_rail (escrow_input v) = ''ckb''") simp_all

text \<open>
  No process starts in a deployed environment, or for the main network, with the CKB rail enabled.
\<close>

lemma rail_never_deployed:
  assumes "startup H env = Inr c"
    and "isDeployedEnvironment env \<or> en_CKB_NETWORK (cf_environment c) = ''mainnet''"
  shows "\<not> cf_ckbRailEnabled c"
  using assms by (rule startup_rail)

text \<open>
  Every bounded setting of a configuration that loads is within its bounds and positive, whatever the
  environment holds.
\<close>

lemma settings_bounded:
  assumes "loadConfig H env = Inr c" and "(name, fallback, lo, hi) \<in> set BOUNDED_SETTINGS"
  shows "max 1 lo \<le> setting c name \<and> setting c name \<le> hi"
  using setting_bounds [OF assms] setting_positive [OF assms] by simp

section \<open>Reads\<close>

text \<open>
  C22. Reads are confidential and change nothing. A read that is admitted carries an API key with a scope
  of its route, and its answer depends on the rows of the tenant of that key only: on any other database
  of the same time with the same rows of this tenant the answer is the same, in every route, as long as
  no row of another tenant has the identifier that the query passes as its cursor. It
  leaves every business row, application and key as it was, apart from the time of last use of the key.
\<close>

theorem reads_confidential:
  assumes "admit_read C E F http query rt g = (Inr (app, a, q), h)"
    and "clock t = clock (pl_db (gw_platform g))" and "own_rows a (pl_db (gw_platform g)) t"
    and "own_cursor a (query_cursor q) (pl_db (gw_platform g))" and "own_cursor a (query_cursor q) t"
  shows "fst (serve_read C E F http query rt (with_db t g)) = fst (serve_read C E F http query rt g)
    \<and> (\<exists>k rawKey. extractApiKey http = Some rawKey \<and> fst (authenticateApiKey E rawKey (gw_platform g)) = Inr (Some (k, app))
      \<and> tenantContext (ak_appId k) = Inr a \<and> (\<exists>sc\<in>set (fst (get_entry_of F rt)). sc \<in> set (ak_scopes k)))
    \<and> quiet g (snd (serve_read C E F http query rt g))"
  using assms by (auto intro!: serve_read_own serve_read_quiet admit_read_admits [OF assms(1)])

theorem reads_confidential_witness:
  "fst (serve_read demo_limits demo_env demo_formats demo_http demo_query GetEndpoints (with_db demo_shared demo_gateway))
     = fst (serve_read demo_limits demo_env demo_formats demo_http demo_query GetEndpoints demo_gateway)
   \<and> demo_shared \<noteq> pl_db (gw_platform demo_gateway)"
proof -
  obtain h where h: "admit_read demo_limits demo_env demo_formats demo_http demo_query GetEndpoints demo_gateway
      = (Inr (demo_app, ''app'', demo_page_query), h)" using demo_read_admitted by blast
  have g: "gw_platform demo_gateway = demo_platform" by (simp add: demo_gateway_def)
  have "demo_shared \<noteq> pl_db demo_platform" by (simp add: demo_shared_def demo_platform_def empty_db_def)
  then show ?thesis
    using reads_confidential [OF h, of demo_shared] demo_shared_own by (simp add: g)
qed

section \<open>Tenant integrity\<close>

text \<open>
  C23. The tenant integrity audit is sound and complete, and it always passes: it succeeds exactly when
  no row of a checked relation refers to a row of another tenant, and it succeeds in every state that
  the server and the retention script can reach together. In such a state every reference of a row
  points to a row that exists in the tenant of the referring row.
\<close>

theorem tenant_audit_passes:
  assumes "operated a"
  shows "auditMain agreementTable (ar_db a) = Inr 0
    \<and> row_refs (ar_db a) \<subseteq> row_keys (ar_db a)
    \<and> (\<forall>s. auditMain (Some ''Agreement'') s = Inr 0 \<longleftrightarrow> (\<forall>check\<in>set checks. \<not> cross_tenant s check))"
  using operated_audit [OF assms] operated_sound [OF assms] audit_complete
  by (simp add: sound_rows_def referential_def)

theorem tenant_audit_passes_witness:
  "auditMain (Some ''Agreement'') (ar_db (snd (runRetention demo_retention_config False 10 1 0
     \<lparr>ar_db = demo_opened, ar_archive = []\<rparr>))) = Inr 0"
  using tenant_audit_passes [OF operated.retain [OF operated_reachable [OF demo_run]]] by blast

section \<open>Background work\<close>


text \<open>
  C25. In every run of the system the jobs of the queue keep their identity and work, move only along
  the job lifecycle, never lose an attempt, and at most one job holds a deduplication key.
\<close>

theorem job_lifecycle:
  assumes "reachable s" and "server_step\<^sup>*\<^sup>* s t"
  shows "distinct (map aj_id (jobs t)) \<and> distinct (filter (\<lambda>k. k \<noteq> None) (map aj_dedupeKey (jobs t)))
    \<and> length (jobs s) \<le> length (jobs t)
    \<and> (\<forall>i<length (jobs s). aj_id (jobs t ! i) = aj_id (jobs s ! i) \<and> aj_payload (jobs t ! i) = aj_payload (jobs s ! i)
        \<and> aj_attempts (jobs s ! i) \<le> aj_attempts (jobs t ! i)
        \<and> job_can\<^sup>*\<^sup>* (aj_status (jobs s ! i)) (aj_status (jobs t ! i)))"
proof -
  have "jobs_inv s" using jobsSys.run_respects [OF assms(1)] empty_jobs by (simp add: jobs_kept_def)
  with jobsSys.run_respects [OF assms(2)] show ?thesis by (simp add: jobs_kept_def jobs_inv_def jobs_le_def job_le_def)
qed

theorem job_lifecycle_witness: "job_can\<^sup>*\<^sup>* JS_QUEUED (aj_status (jobs demo_claimed ! 0))"
  using job_lifecycle [OF demo_queued_run demo_claim_run] demo_queued_rows by fastforce

text \<open>
  C26. Claims exclude each other: a job that a claim returned is not returned by the next claim, by the
  same or another worker, before it is given back.
\<close>

theorem claims_exclusive:
  assumes "reachable s" and "claimAvailableJobs w queues limit leaseMs s = Inr (js, t)"
    and "claimAvailableJobs w' queues' limit' leaseMs' t = Inr (js', t')"
  shows "length js \<le> 100 \<and> (\<forall>k\<in>set js. aj_lockedBy k = Some w \<and> aj_status k = JS_RUNNING)
    \<and> aj_id ` set js \<inter> aj_id ` set js' = {}"
proof -
  have "jobs_inv s" using jobsSys.run_respects [OF assms(1)] empty_jobs by (simp add: jobs_kept_def)
  then show ?thesis using claimAvailableJobs_effect [OF assms(2)] claims_disjoint [OF assms(2) _ assms(3)] by blast
qed

theorem claims_exclusive_witness:
  "\<exists>js js' t. claimAvailableJobs ''w'' [''webhook''] 9 10000 demo_queued = Inr (js, demo_claimed)
     \<and> claimAvailableJobs ''v'' [''webhook''] 9 10000 demo_claimed = Inr (js', t) \<and> aj_id ` set js \<inter> aj_id ` set js' = {}"
  using demo_claims claims_exclusive [OF demo_queued_run] by blast

text \<open>
  C27. A job whose lease the worker still holds when its work ends is given back: its execution ends
  without an error, and no row of the queue is still running for it.
\<close>

theorem job_given_back:
  assumes "reachable s"
    and "runWithJobDeadline (ou_deadline X (aj_id job)) (processJob E X cfg job) s = (r, t)"
    and "k \<in> set (jobs t)" and "owned_by (aj_id job) w k"
  shows "\<exists>u. executeClaimedJob E X cfg w job s = (Inr (), u) \<and> (\<forall>j\<in>set (jobs u). \<not> owned_by (aj_id job) w j)"
proof -
  have "server_step\<^sup>*\<^sup>* s t" using deadline_presp [OF processJob_presp] assms(2) by (metis serverSteps.presp_def snd_conv)
  then have "reachable t" using assms(1) by (meson rtranclp_trans)
  then have "jobs_inv t" using jobsSys.run_respects empty_jobs by (simp add: jobs_kept_def)
  from executeClaimedJob_returns [OF this assms(2-4)] show ?thesis using executeClaimedJob_released by blast
qed

theorem job_given_back_witness:
  "\<forall>X. \<exists>u. executeClaimedJob demo_env X demo_worker ''w'' (jobs demo_claimed ! 0) demo_claimed = (Inr (), u)"
proof
  fix X
  obtain r where "runWithJobDeadline (ou_deadline X (aj_id (jobs demo_claimed ! 0)))
      (processJob demo_env X demo_worker (jobs demo_claimed ! 0)) demo_claimed = (r, demo_claimed)"
    using demo_job_fails by blast
  from job_given_back [OF _ this, of "jobs demo_claimed ! 0" "''w''"] demo_claimed_run demo_claimed_owned
  show "\<exists>u. executeClaimedJob demo_env X demo_worker ''w'' (jobs demo_claimed ! 0) demo_claimed = (Inr (), u)" by blast
qed

section \<open>Webhooks and outbound calls\<close>

text \<open>
  C28. In every run of the system a webhook delivery keeps its endpoint, event and payload, its attempts
  only grow, and once it is delivered nothing about it changes.
\<close>

theorem delivery_finality:
  assumes "server_step\<^sup>*\<^sup>* s t" and "i < length (deliveries s)"
  shows "i < length (deliveries t) \<and> wd_id (deliveries t ! i) = wd_id (deliveries s ! i)
    \<and> wd_endpointId (deliveries t ! i) = wd_endpointId (deliveries s ! i)
    \<and> wd_eventId (deliveries t ! i) = wd_eventId (deliveries s ! i)
    \<and> wd_payloadJson (deliveries t ! i) = wd_payloadJson (deliveries s ! i)
    \<and> wd_attempts (deliveries s ! i) \<le> wd_attempts (deliveries t ! i)
    \<and> (wd_status (deliveries s ! i) = WD_DELIVERED \<longrightarrow> deliveries t ! i = deliveries s ! i)"
  using deliveriesSys.run_respects [OF assms(1)] assms(2) by (auto simp: deliveries_le_def delivery_le_def)

theorem delivery_finality_witness: "deliveries demo_after_delivery ! 0 = demo_delivery"
proof -
  have d: "deliveries demo_delivered_db ! 0 = demo_delivery" "0 < length (deliveries demo_delivered_db)"
    "wd_status demo_delivery = WD_DELIVERED" by (simp_all add: demo_delivered_db_def demo_delivery_def)
  show ?thesis using delivery_finality [OF demo_delivery_run d(2)] d(1,3) by simp
qed




text \<open>
  C31. On IPv4 addresses the filter of webhook targets, which tests octets, decides membership in the
  special-purpose address blocks it stands for.
\<close>

theorem ipv4_filter_blocks:
  assumes "isIP address = 4"
  shows "isBlockedIpAddress address \<longleftrightarrow>
    list_ex (in_block (ipv4_value (map BigInt (split_on (CHR ''.'') address)))) BLOCKED_RANGES"
  using assms by (rule ipv4_filter)

theorem ipv4_filter_blocks_witness: "isBlockedIpAddress ''10.0.0.1''"
proof -
  have "isIP ''10.0.0.1'' = 4" by code_simp
  moreover have "list_ex (in_block (ipv4_value (map BigInt (split_on (CHR ''.'') ''10.0.0.1'')))) BLOCKED_RANGES"
    by code_simp
  ultimately show ?thesis using ipv4_filter_blocks by blast
qed



text \<open>
  C33. A call to a provider whose circuit is closed makes at most the configured number of attempts, and
  another attempt only after a failure that is retryable; a success resets the count of failures and
  a failure adds one, which opens the circuit when the threshold is reached.
\<close>

theorem provider_attempts:
  assumes "executeProviderRequest params time0 time run P = (r, n, Q)" and "pv_openUntil P \<le> time0"
    and "0 < pp_maxAttempts params"
  shows "n \<le> pp_maxAttempts params
    \<and> (\<forall>i. i + 1 < n \<longrightarrow> (\<exists>cause. run (Suc i) = Inl cause \<and> fst (classifyProviderFailure cause)))
    \<and> (case r of
         Inr x \<Rightarrow> pv_failures Q = 0
       | Inl e \<Rightarrow> pv_failures Q = pv_failures P + 1 \<and>
           (pv_failures Q \<ge> pp_failureThreshold params \<longrightarrow> pv_openUntil Q = time n + pp_circuitResetMs params))"
proof -
  let ?P = "if pv_openUntil P \<noteq> 0 then P\<lparr>pv_openUntil := 0\<rparr> else P"
  have a: "attemptFrom params time run 1 (pp_maxAttempts params) ?P = (r, n, Q)"
    using assms(1,2) by (simp add: executeProviderRequest_def)
  have "\<forall>i. i + 1 < n \<longrightarrow> (\<exists>cause. run (Suc i) = Inl cause \<and> fst (classifyProviderFailure cause))"
    using attemptFrom_retryable [OF a] by simp
  then show ?thesis using executeProviderRequest_outcome [OF assms] by blast
qed

theorem provider_attempts_witness:
  "pv_failures (snd (snd (executeProviderRequest provider_defaults 0 int (\<lambda>_. Inl (JsTypeError []) :: failure + nat)
     \<lparr>pv_failures = 4, pv_openUntil = 0\<rparr>))) = 5"
proof -
  obtain e n Q where x: "executeProviderRequest provider_defaults 0 int (\<lambda>_. Inl (JsTypeError []) :: failure + nat)
     \<lparr>pv_failures = 4, pv_openUntil = 0\<rparr> = (Inl e, n, Q)"
    by (simp add: executeProviderRequest_def provider_defaults_def numeral_eq_Suc)
  from provider_attempts [OF x] have "pv_failures Q = 5" by (simp add: provider_defaults_def)
  then show ?thesis by (simp add: x)
qed

section \<open>The CKB rail\<close>

text \<open>
  C34. Round trips of the codecs of the escrow cell: decoding the lock arguments or the cell data that
  were encoded gives the fields back, with the digests in lower case.
\<close>

theorem escrow_codec_roundtrip:
  assumes "encodeEscrowLockArgs a = Inr e" and "encodeEscrowCellData d = Inr f"
  shows "decodeEscrowLockArgs e = Inr \<lparr>clientLockHash = toLowerCase (clientLockHash a),
       workerLockHash = toLowerCase (workerLockHash a), agreementSalt = toLowerCase (agreementSalt a)\<rparr>
    \<and> decodeEscrowCellData f = Inr (d\<lparr>agreementDigest := toLowerCase (agreementDigest d),
       milestoneDigest := toLowerCase (milestoneDigest d)\<rparr>)
    \<and> parse_party_hashes (hex_bytes (drop 2 e)) = Inr \<lparr>ph_client = hash_bytes (clientLockHash a),
       ph_worker = hash_bytes (workerLockHash a), ph_agreement_salt = hash_bytes (agreementSalt a)\<rparr>
    \<and> (refundTimeoutSince d \<le> MAX_BLOCK_SINCE \<longrightarrow> parse_terms (hex_bytes (drop 2 f)) = Inr (lock_terms d))"
  using lock_args_roundtrip [OF assms(1)] cell_data_roundtrip [OF assms(2)] lock_args_read [OF assms(1)] cell_data_read [OF assms(2)]
  by blast

theorem escrow_codec_roundtrip_witness:
  "\<exists>e f. encodeEscrowLockArgs demo_lock_args = Inr e \<and> encodeEscrowCellData demo_cell_data = Inr f
     \<and> decodeEscrowLockArgs e = Inr demo_lock_args \<and> decodeEscrowCellData f = Inr demo_cell_data"
proof -
  obtain e f where e: "encodeEscrowLockArgs demo_lock_args = Inr e" and f: "encodeEscrowCellData demo_cell_data = Inr f"
    using demo_encodes by (cases "encodeEscrowLockArgs demo_lock_args"; cases "encodeEscrowCellData demo_cell_data") auto
  from escrow_codec_roundtrip [OF this] have "decodeEscrowLockArgs e = Inr demo_lock_args \<and> decodeEscrowCellData f = Inr demo_cell_data"
    by (simp add: demo_lock_args_def demo_cell_data_def demo_lower)
  with e f show ?thesis by blast
qed

text \<open>
  C35. When the chain confirms a settlement, the transaction the node returned spends the cell of the
  escrow once, pays the whole amount to the destination once, and lies as deep under the tip as the
  rail demands.
\<close>

theorem settlement_verified:
  assumes "verifySettlement cfg node later c = Inr ob" and "ob_status ob = CS_confirmed"
  shows "(\<exists>r tx i out. getTransaction node (sc_txHash c) = Inr (Some r) \<and> rs_transaction r = Some tx
      \<and> filter (spends_escrow c) (rx_inputs tx) = [i] \<and> filter (pays_destination c) (rx_outputs tx) = [out])
    \<and> (\<exists>r b tip. getTransaction later (sc_txHash c) = Inr (Some r) \<and> rs_status r = ''committed''
      \<and> rs_blockNumber r = Some b \<and> getTipNumber later = Inr tip \<and> railConfirmations cfg \<le> tip - b + 1)"
  using verifySettlement_contents [OF assms(1)] confirmed_depth [OF _ assms(2)] by blast

theorem settlement_verified_witness:
  "\<exists>r b tip. getTransaction demo_chain ''t'' = Inr (Some r) \<and> rs_blockNumber r = Some b \<and> getTipNumber demo_chain = Inr tip
     \<and> 3 \<le> tip - b + 1"
proof -
  obtain ob where o: "verifySettlement (ckb_cfg demo_ckb) demo_chain demo_chain demo_settlement = Inr ob" "ob_status ob = CS_confirmed"
    using demo_settlement_checked by blast
  have "sc_txHash demo_settlement = ''t''" "railConfirmations (ckb_cfg demo_ckb) = 3"
    by (simp_all add: demo_ckb_def demo_settlement_def)
  then show ?thesis using settlement_verified [OF o] by auto
qed

text \<open>
  C36. A settlement that the server builds from the terms of an escrow and signs with its local signer is
  accepted on the chain: when the cell of the escrow is there as its commitment says and the parties are
  distinct, the lock script of the escrow accepts the broadcast transaction unless the change happens to
  equal the escrowed amount, which the script rejects as ambiguous; and once a node returns the transaction,
  the verification of the server finds its input and its output. The hypotheses \<open>ccc_laws\<close> and
  \<open>indexer_laws\<close> are the documented behaviour of the CKB package and of the indexer.
\<close>

theorem settlement_accepted_on_chain:
  assumes "ccc_laws (sx_C x)" and "indexer_laws (sx_idx x) (sx_cells x)" and "settles x cm intent client worker tx h"
  shows "validate (lock_view_of (sx_L x) (sx_cells x) (cm_lockScript cm) tx) =
      (if BigInt_hex (rp_capacity (rt_outputs tx ! 1)) = in_amount intent then Inl AmbiguousSettlementOutputs else Inr ())
    \<and> (\<forall>node later r cfg. getTransaction node h = Inr (Some r) \<and> rs_transaction r = Some (rpc_view tx) \<longrightarrow>
         verifySettlement cfg node later (claim_of x h) = observeTransaction cfg later h)"
  using settlement_accepted [OF assms] settlement_verifies [OF assms] by blast

theorem settlement_accepted_on_chain_witness:
  "validate (lock_view_of demo_ckb_lib demo_live (cm_lockScript demo_commitment) (fst demo_signed)) = Inr ()"
proof -
  have "in_amount demo_intent = 200" by (simp add: demo_intent_value)
  then show ?thesis using settlement_accepted_on_chain [OF demo_case_laws demo_release_settles]
    by (simp add: demo_case_def demo_change [simplified])
qed

text \<open>
  C37. The lock script releases a cell exactly in these cases: the arguments and the data parse, the cell
  is the only one of its script in the transaction, and either one output pays its whole capacity to the
  worker, none to the client, and an input of the client is present, or one output pays it to the client,
  none to the worker, and an input of the worker is present or the timeout has passed.
\<close>

theorem lock_script_accepts:
  "validate v = Inr () \<longleftrightarrow> (\<exists>p g t. parse_party_hashes (lv_args v) = Inr p \<and> lv_group v = [g] \<and> parse_terms (gi_data g) = Inr t
     \<and> (paid_outputs (lv_outputs v) (ph_worker p) (gi_capacity g) = 1 \<and> paid_outputs (lv_outputs v) (ph_client p) (gi_capacity g) = 0
          \<and> ph_client p \<in> set (lv_input_locks v)
        \<or> paid_outputs (lv_outputs v) (ph_client p) (gi_capacity g) = 1 \<and> paid_outputs (lv_outputs v) (ph_worker p) (gi_capacity g) = 0
          \<and> (ph_worker p \<in> set (lv_input_locks v)
             \<or> unat (gi_since g) < 2 ^ 56 \<and> tm_refund_timeout_since t \<le> gi_since g)))"
  unfolding validate_iff
  by (simp add: evaluate_iff Let_def has_signer_def list_ex_iff timeout_refund_reached_def high_byte_clear)



section \<open>Amounts, pages and retention\<close>

text \<open>
  The amounts the services accept are exactly the canonical decimal texts of the integers from one
  to the total supply: no sign, leading zero, blank or fraction, and no two texts for one amount.
\<close>

lemma amount_canonical:
  "parsePositiveIntegerAmount s = Inr n \<longleftrightarrow> 0 < n \<and> n \<le> MAX_SHANNONS \<and> s = show_nat (nat n)"
  by (rule parsePositive_iff)

text \<open>
  C39. In every reachable state a client that follows the cursors of the list of escrows sees every
  escrow its query selects exactly once, newest first, whatever the size of the pages.
\<close>

theorem pages_complete:
  assumes "reachable s" and "0 < esq_limit q" and "length (filter (escrow_selected appId q) (escrows s)) < n"
  shows "walk n (\<lambda>cursor. listEscrowsForApp appId (q\<lparr>esq_cursor := cursor\<rparr>) s) None
    = map serializeEscrow (desc_order es_createdAt es_id (filter (escrow_selected appId q) (escrows s)))"
proof -
  have "distinct (map es_id (escrows s))"
    using scopeSys.run_respects [OF assms(1)] empty_inv(2) by (simp add: scope_kept_def scope_inv_def)
  from walk_list_desc [OF this assms(2,3), of serializeEscrow es_createdAt] show ?thesis
    by (simp add: listEscrowsForApp_def listEscrowRows_def escrow_selected_def [abs_def])
qed

theorem pages_complete_witness:
  "\<exists>e. escrows demo_opened = [e] \<and> walk 9 (\<lambda>cursor. listEscrowsForApp ''app'' (demo_escrow_query\<lparr>esq_cursor := cursor\<rparr>) demo_opened) None
     = [serializeEscrow e]"
proof -
  obtain e where e: "escrows demo_opened = [e]" "es_appId e = ''app''" using demo_opened_rows by blast
  then show ?thesis using pages_complete [OF demo_run, of demo_escrow_query "''app''" 9]
    by (simp add: demo_escrow_query_def escrow_selected_def desc_order_def)
qed

text \<open>
  C40. Retention keeps what it has to: the business tables and the audit log are untouched, the archive
  only grows, no key, delivery or job that is not eligible is removed, and no event that is recent or
  that a remaining delivery refers to. Every class takes as many eligible rows as its batches allow
  and reports truthfully whether some are left.
\<close>

theorem retention_keeps:
  assumes "retention_ok a" and "0 < n" and "runRetention cfg False n m time a = (results, b)"
  shows "business_tables b = business_tables a \<and> prefix (ar_archive a) (ar_archive b)
    \<and> filter (\<lambda>k. \<not> expired_idempotency time k) (idempotencyKeys (ar_db b))
        = filter (\<lambda>k. \<not> expired_idempotency time k) (idempotencyKeys (ar_db a))
    \<and> filter (\<lambda>d. \<not> old_delivery (co_webhookDelivery (retentionCutoffs cfg time)) d) (deliveries (ar_db b))
        = filter (\<lambda>d. \<not> old_delivery (co_webhookDelivery (retentionCutoffs cfg time)) d) (deliveries (ar_db a))
    \<and> filter (\<lambda>j. \<not> old_job (co_job (retentionCutoffs cfg time)) j) (jobs (ar_db b))
        = filter (\<lambda>j. \<not> old_job (co_job (retentionCutoffs cfg time)) j) (jobs (ar_db a))
    \<and> (\<forall>e\<in>set (events (ar_db a)). \<not> ev_createdAt e < co_event (retentionCutoffs cfg time)
          \<or> list_ex (\<lambda>d. wd_eventId d = Some (ev_id e)) (deliveries (ar_db b)) \<longrightarrow> e \<in> set (events (ar_db b)))
    \<and> list_all (\<lambda>r. rr_affected r = min (m * n) (rr_eligible r) \<and> rr_truncated r = (m * n < rr_eligible r)) results"
proof -
  have k: "retention_kept (retentionCutoffs cfg time) a b"
    using runRetention_keeps [of cfg time a False n m] assms(3) by simp
  have x: "list_all (exact_result n m) results" using runRetention_exact [OF assms(1,2), of m cfg time] assms(3) by simp
  have t: "co_idempotency (retentionCutoffs cfg time) = time" by (simp add: retentionCutoffs_def)
  show ?thesis using k x assms(1) unfolding retention_kept_def t by (auto simp: exact_result_def list_all_iff)
qed

theorem retention_keeps_witness:
  "\<exists>results b. runRetention demo_retention_config False 10 1 0 demo_archive = (results, b)
     \<and> business_tables b = business_tables demo_archive"
proof -
  obtain results b where r: "runRetention demo_retention_config False 10 1 0 demo_archive = (results, b)"
    by (cases "runRetention demo_retention_config False 10 1 0 demo_archive")
  have "retention_ok demo_archive" by (simp add: retention_ok_def demo_archive_def demo_used_def empty_db_def)
  moreover have "0 < (10 :: nat)" by simp
  ultimately have "business_tables b = business_tables demo_archive" using retention_keeps [OF _ _ r] by blast
  with r show ?thesis by blast
qed

end
