(* ===== verification/Spec2Isabelle.thy ===== *)
theory Spec2Isabelle
  imports ServiceProperties
begin

text \<open>
  A verification library for the PactAgent server (\<open>server/src\<close>): a multi-tenant API for agreements,
  milestones, proofs, disputes and escrows, whose escrows are settled on a mock, a manual or a CKB rail.

  \<^bold>\<open>The program and how its parts interact.\<close> A client calls the API with an API key. The gateway applies
  rate and payload limits, finds the key and its application, checks the scope of the route and parses
  the body; the controller calls a service. A service runs in the tenant of the application, under an
  idempotency key, as one database transaction (agreements, milestones, proofs, disputes) or as a
  reservation, a call to the rail and a finalisation (escrows). A transaction also writes events, audit
  entries, webhook deliveries and jobs. A worker claims jobs under a lease, delivers webhooks and
  reconciles CKB transactions. Owners manage applications and keys, with a session that a wallet
  signature opens; operators read, replay jobs, rotate secrets and apply retention.

  \<^bold>\<open>How it is modelled.\<close> The state is a record of tables (\<open>db\<close>; \<open>platform\<close> adds applications and keys,
  \<open>gateway\<close> the rate limits). A transaction is a function \<open>db \<Rightarrow> error + 'a \<times> db\<close> (\<open>dbtx\<close>): an error rolls it
  back. A service is a procedure \<open>db \<Rightarrow> (error + 'a) \<times> db\<close> (\<open>dbproc\<close>) that composes transactions and calls
  to the outside as the code does. Concurrency is the interleaving of committed transactions:
  \<open>txn_step\<close> for the requests of a tenant, \<open>queue_step\<close> for the job queue, \<open>webhook_step\<close> for the webhook
  services, \<open>server_step\<close> for all of them and the passing of time; \<open>reachable\<close> is what is reached
  from the empty database. Code of other packages (SHA-256, ciphers, JSON web tokens, wallet signatures, the
  CKB library and node, URL parsing, name resolution, the HTTP transport) is a parameter.

  \<^bold>\<open>The theories.\<close>
  \<^item> \<open>Prelude\<close>: the transaction and procedure monads, their rewrite rules (the collection \<open>tx_iff\<close>), the
    locale \<open>step_order\<close> for relations every transaction respects.
  \<^item> \<open>Errors\<close>, \<open>Amounts\<close>, \<open>Json\<close>, \<open>Encodings\<close>, \<open>Lifecycles\<close> (\<open>common/errors\<close>, \<open>common/amounts\<close>,
    \<open>common/idempotency/request-hash.ts\<close>, the state machines): values, canonical JSON, base64 and hex.
  \<^item> \<open>Store\<close>, \<open>Pagination\<close>, \<open>JobQueue\<close>, \<open>Events\<close>, \<open>Idempotency\<close>: the rows and what the repositories do with
    them, the cursor lists, \<open>services/jobQueueService.ts\<close>, events and audit entries, and
    \<open>common/idempotency\<close>.
  \<^item> \<open>Agreements\<close>, \<open>Milestones\<close>, \<open>Proofs\<close>, \<open>Disputes\<close>: the business modules, a definition per operation of
    the service (\<open>createAgreement_run\<close> is the transaction of \<open>createAgreementForApp\<close>, and so on).
  \<^item> \<open>CkbRail\<close>, \<open>EscrowAdapters\<close>, \<open>Escrows\<close>, \<open>EscrowSettlement\<close>: \<open>rails/ckb\<close>, the adapters behind the locale
    \<open>escrow_adapter_contract\<close>, and \<open>modules/escrows/escrow.service.ts\<close>.
  \<^item> \<open>WebhookSigning\<close>, \<open>WebhookSecurity\<close>, \<open>Transport\<close>, \<open>Resilience\<close>, \<open>Webhooks\<close>: \<open>modules/webhooks\<close> and
    \<open>common/resilience\<close>. The HTTP modules of Node are a parameter of \<open>Transport\<close>, which shows that the answer of a
    consumer is bounded, and that an answer without body behind the proxy raises an exception nothing catches.
  \<^item> \<open>Server\<close>: the commands, \<open>handle\<close> and the step relations. \<open>Frames\<close>, \<open>EscrowScopes\<close>, \<open>Replays\<close>,
    \<open>WorkFrames\<close>, \<open>SettlementSafety\<close>: invariants of runs; the locales \<open>handler_frame\<close>, \<open>idempotent_frame\<close>,
    \<open>transaction_frame\<close>, \<open>work_frame\<close> and \<open>system_frame\<close> carry a relation from the repository operations to
    handlers and to all runs, and are interpreted once per table or invariant.
  \<^item> \<open>LockScript\<close>, \<open>Signer\<close>, \<open>OnChain\<close>: the lock script of \<open>contracts/pact-escrow-lock\<close> (Rust),
    \<open>rails/ckb/signer-provider.ts\<close> and \<open>rpc.ts\<close>, and the two together: the script reads what the server
    encodes and accepts what it signs.
  \<^item> \<open>Worker\<close>, \<open>Retention\<close>: \<open>worker/agentLoop.ts\<close> and \<open>services/retentionService.ts\<close> with the locale
    \<open>retention_class\<close>.
  \<^item> \<open>ForeignKeys\<close>, \<open>TenantAudit\<close>: referential integrity of the tables within the tenants, as an invariant of
    all runs (rules for facts that transactions establish are in the locale \<open>fact_logic\<close>), and
    \<open>scripts/auditTenantIntegrity.ts\<close>, which finds nothing in such states. An insert does not check its
    foreign keys in the model, since the invariant shows that the check cannot fail; the references of
    jobs and those to applications are not part of it.
  \<^item> \<open>AuditChain\<close>: the triggers that chain audit entries by their hashes and \<open>scripts/verifyAuditChain.ts\<close>: every log
    the triggers make verifies, a change of a hashed column is found, and the columns of the actor are not hashed.
  \<^item> \<open>Accounts\<close>, \<open>AuthChallenges\<close>, \<open>Auth\<close>, \<open>RateLimits\<close>, \<open>Validation\<close>, \<open>Gateway\<close>, \<open>Config\<close>, \<open>Operations\<close>:
    applications and keys, the challenge stores behind the locale \<open>challenge_store\<close>, wallet sessions, rate
    limits, the schemas of request bodies, the middleware chain up to the answer, \<open>config.ts\<close>, and what
    operators do.
  \<^item> \<open>Reads\<close>, \<open>Console\<close>: the routes of an API key that only read, with the schemas of their query strings, and
    the routes of wallet sessions: those of owners (\<open>modules/apps\<close>, \<open>modules/api-keys\<close>), of administrators
    (\<open>modules/admin\<close>) and of \<open>modules/auth\<close>. A read is confidential when its answer is the same on databases that
    agree on the rows of its tenant; \<open>cursor_reveals_row\<close> shows why a cursor of another tenant is excluded.
  \<^item> \<open>Fixtures\<close>, \<open>Scenarios\<close>, \<open>ChainScenario\<close>: concrete inputs. \<open>ServiceProperties\<close>: the properties of single services. This
    theory: the properties that span components.

  \<^bold>\<open>What is shown.\<close> C1 to C9: handlers refine interleaved transactions; in every run rows move along their
  lifecycles, tenants are isolated, logs are append-only, milestones stay within their agreement, a
  scope has one escrow, and funds move only when approved, once. C10 to C13: idempotent
  replay, conflicts, failures without a trace, and the request hash. C14 to C18: who may change what,
  end to end. C19 to C40: authentication, validation, confidential reads, the worker and
  its queue, tenant integrity, webhooks, outbound calls, the CKB codecs, signer and lock script, pages and
  retention.

  \<^bold>\<open>Bounds.\<close> No model runs on fuel: every loop is structural (the redirect loop on the redirects left, the
  attempts of a provider call on the attempts left, retention on the batches left) with the
  bound the code has, or ends by a measure. The one loop that the code does not bound, over the pages of the
  CKB indexer (\<open>collectFrom\<close>), is a partial function: \<open>collectFrom_ends\<close> says that it returns when the
  cursors of the indexer end. \<open>walk\<close>, a client that follows cursors, takes a number of pages, and C39 says which
  number is enough.

  \<^bold>\<open>Not modelled.\<close> The texts of error messages, metrics and logs; CORS, the other response headers, the
  documentation routes and the rendering of the health routes; start and stop of the processes; seed data; the
  web console. Strings are byte strings; times are integers in milliseconds; the database serialises
  transactions.
\<close>

section \<open>The system\<close>




text \<open>
  C3. Tenant isolation: no request of a tenant, however it ends, changes a row of another tenant in
  any table (the deduplication key of a finished job aside, which the queue may free).
\<close>

theorem tenant_isolation: "foreign_same appId s (snd (handle E K req appId c s))"
  by (rule tenantTx.handler_respects)

text \<open>
  C4. The event log and the audit log are append-only in every run of the system: no request, worker
  or interleaving removes, reorders or rewrites an entry. (Retention, which a maintenance script
  runs and which removes old events, is not a step of the server.)
\<close>

theorem log_append_only:
  assumes "server_step\<^sup>*\<^sup>* s t"
  shows "prefix (events s) (events t) \<and> prefix (auditLogs s) (auditLogs t)"
  using logSys.run_respects [OF assms] by (simp add: log_le_def)

theorem log_append_only_witness: "prefix (events empty_db) (events demo_opened)"
  using log_append_only [OF demo_run] by simp

text \<open>
  C5. In every reachable state every milestone belongs to an agreement of its tenant, and the amounts
  of the milestones of an agreement never add up to more than the amount of the agreement.
\<close>

theorem allocation_bounded:
  assumes "reachable s"
  shows "(\<forall>m\<in>set (milestones s). \<exists>g\<in>set (agreements s). allocated_to (ag_appId g) (ag_id g) m)
    \<and> (\<forall>g\<in>set (agreements s). filter (allocated_to (ag_appId g) (ag_id g)) (milestones s) = []
         \<or> allocatedAmount (ag_appId g) (ag_id g) (milestones s) \<le> BigInt (ag_amount g))"
  using allocSys.run_respects [OF assms] empty_inv(1) by (simp add: alloc_kept_def alloc_inv_def)

theorem allocation_bounded_witness:
  "filter (allocated_to ''app'' ''0'') (milestones demo_created) = []
     \<or> allocatedAmount ''app'' ''0'' (milestones demo_created) \<le> BigInt ''9''"
  using allocation_bounded [OF demo_created_run]
  by (simp add: demo_created_rows new_agreement_def demo_agreement_input_def)



section \<open>When funds may move\<close>

text \<open>
  C7. A settlement is reserved only for a funded escrow of the tenant, and a release only when the
  release is allowed: the agreement is approved, and the milestone of the escrow too, or the agreement
  is disputed and a dispute of the scope was resolved as a release. The reservation leaves the escrow
  pending and records one transaction under the identifier of the operation.
\<close>

theorem settlement_gate:
  assumes "reserveEscrowSettlement E req appId escrowId operation ctx s = Inr (rs, t)"
  shows "\<exists>e x. List.find (escrow_is appId escrowId) (escrows s) = Some e \<and> es_status e = ES_funded
    \<and> (operation = Release \<longrightarrow> release_allowed appId e s)
    \<and> List.find (escrow_is appId escrowId) (escrows t)
        = Some (e\<lparr>es_status := settlementPendingStatus operation, es_updatedAt := clock s\<rparr>)
    \<and> transactions t = transactions s @ [x] \<and> tr_status x = TS_pending
    \<and> tr_operationId x = Some (escrowId, operation_type operation)"
  using assms by (rule reserveEscrowSettlement_effect) blast

theorem settlement_gate_witness:
  "\<exists>e. List.find (escrow_is ''app'' ''e'') (escrows demo_funded) = Some e \<and> release_allowed ''app'' e demo_funded"
  using demo_settling_reserved settlement_gate by blast



text \<open>
  C9. A settlement of a kind is reserved at most once per escrow, while the record of the first
  reservation exists, even when the escrow is funded again: the identifier of the operation is
  unique, so that an escrow whose release failed cannot be released by a second request.
\<close>

theorem settlement_once_per_operation:
  assumes "x \<in> set (transactions s)" and "tr_appId x = appId"
    and "tr_operationId x = Some (escrowId, operation_type operation)"
  shows "isl (reserveEscrowSettlement E req appId escrowId operation ctx s)"
  using assms by (rule recorded_refuses)

theorem settlement_once_per_operation_witness:
  "isl (reserveEscrowSettlement demo_env demo_request ''app'' ''e'' Release demo_context2
     (demo_settling\<lparr>escrows := [demo_escrow]\<rparr>))"
proof -
  obtain x where "x \<in> set (transactions demo_settling)" "tr_appId x = ''app''"
    "tr_operationId x = Some (''e'', operation_type Release)"
    using demo_settling_recorded by blast
  then show ?thesis by (intro settlement_once_per_operation [of x]) simp_all
qed

section \<open>Idempotency\<close>

text \<open>
  C10. A request that was answered is answered the same way when it is repeated, and the repetition
  changes nothing: neither the database nor, since nothing of the chain is consulted, the rail. This
  holds of every mutating command, whatever path the first run took.
\<close>

theorem repeated_request_replays:
  assumes "0 < idempotencyRetentionMs E" and "handle E K req appId c s = (Inr v, t)"
  shows "handle E K' req appId c' t = (Inr v, t)"
  using handler_answered [OF assms] by (auto intro: answered_handler)

theorem repeated_request_replays_witness:
  "\<exists>v. handle demo_env demo_ckb demo_request ''app'' (Mutate (CreateAgreement demo_agreement_input)) demo_created
     = (Inr v, demo_created)"
  using demo_handled repeated_request_replays [of demo_env, OF demo_retention] by blast

text \<open>
  C11. An idempotency key that is in use for a different request is refused with a conflict, before
  anything is read or written for the request.
\<close>

theorem reused_key_conflicts:
  assumes "idempotencyHeader req = Inr key"
    and "List.find (key_is appId key) (idempotencyKeys s) = Some k" and "\<not> expired_key (clock s) k"
    and "ik_requestHash k \<noteq> requestHashOf E req"
  shows "handle E K req appId c s = (Inl (conflict ''idempotency_key_conflict''), s)"
  using assms by (rule handler_conflict)

theorem reused_key_conflicts_witness:
  "handle demo_env demo_ckb demo_request ''app'' (ReleaseEscrow ''e'') demo_used
     = (Inl (conflict ''idempotency_key_conflict''), demo_used)"
  by (rule reused_key_conflicts [OF demo_header demo_used_key]) (rule demo_used_hash)

text \<open>
  C12. A mutation that fails leaves no trace: the database is the one it found, without the expired
  entry of its key. The one exception is an error that says the request is in progress, which the
  service also answers when the transaction itself violated a unique constraint.
\<close>

theorem failed_mutation_leaves_no_trace:
  assumes "handle E K req appId (Mutate m) s = (Inl e, t)"
    and "e \<noteq> conflict ''idempotency_key_in_progress''"
  shows "t = s \<or> (\<exists>key. idempotencyHeader req = Inr key \<and> t = sweepKey appId key s)"
  using assms by (rule mutation_failure)

theorem failed_mutation_leaves_no_trace_witness:
  "handle demo_env demo_ckb demo_request ''app'' (Mutate (AcceptAgreement ''0'')) empty_db
     = (Inl (notFound ''agreement_not_found''), empty_db)"
  using failed_mutation_leaves_no_trace [OF demo_fails demo_fails_otherwise] demo_fails by (auto simp: demo_header demo_sweep)



section \<open>Who may change what\<close>

text \<open>
  C14. End to end: when a request to a mutating route of the API changes the database, it carried the
  raw key of an active API key of an active application that has the scope of the route, and the rows
  it changed are rows of that application's tenant. This covers the whole middleware chain, the
  validation, the controllers and the services of the route.
\<close>

theorem gateway_access:
  assumes "accounts_inv (gw_platform g)"
    and "pl_db (gw_platform (snd (serve C E K S F http rt g))) \<noteq> pl_db (gw_platform g)"
  shows "\<exists>rawKey k app tenant. extractApiKey http = Some rawKey \<and> k \<in> set (pl_apiKeys (gw_platform g))
    \<and> ak_keyHash k = hashApiKey E rawKey \<and> ak_status k = KeyActive
    \<and> app \<in> set (pl_apps (gw_platform g)) \<and> ap_id app = ak_appId k \<and> ap_status app = AppActive
    \<and> route_scope rt \<in> set (ak_scopes k) \<and> tenantContext (ak_appId k) = Inr tenant
    \<and> foreign_same tenant (pl_db (gw_platform g)) (pl_db (gw_platform (snd (serve C E K S F http rt g))))"
  using assms by (rule serve_access)

theorem gateway_access_witness:
  "\<forall>K S F. \<exists>k app. k \<in> set (pl_apiKeys demo_platform) \<and> app \<in> set (pl_apps demo_platform)
     \<and> route_scope (DeleteEndpoint ''w'') \<in> set (ak_scopes k) \<and> foreign_same ''app'' (pl_db demo_platform)
         (pl_db (gw_platform (snd (serve demo_limits demo_env K S F demo_http (DeleteEndpoint ''w'') demo_gateway))))"
proof (intro allI)
  fix K S F
  have "pl_db (gw_platform (snd (serve demo_limits demo_env K S F demo_http (DeleteEndpoint ''w'') demo_gateway)))
      \<noteq> pl_db (gw_platform demo_gateway)" using demo_served by metis
  from gateway_access [OF _ this] demo_accounts show "\<exists>k app. k \<in> set (pl_apiKeys demo_platform) \<and> app \<in> set (pl_apps demo_platform)
     \<and> route_scope (DeleteEndpoint ''w'') \<in> set (ak_scopes k) \<and> foreign_same ''app'' (pl_db demo_platform)
         (pl_db (gw_platform (snd (serve demo_limits demo_env K S F demo_http (DeleteEndpoint ''w'') demo_gateway))))"
    by (auto simp: demo_gateway_def demo_platform_def demo_key_def tenantContext_def demo_trims)
qed

text \<open>
  C15. A raw key authenticates exactly when it is the key of an active API key of an active
  application; the answer is that key and that application. This holds in every platform that is
  reached from the empty one by the services of owners, by use of keys and by the tenants' system.
\<close>

theorem api_key_authentication:
  assumes "access_step\<^sup>*\<^sup>* empty_platform p"
  shows "fst (authenticateApiKey E rawKey p) = Inr (Some (k, a)) \<longleftrightarrow>
    k \<in> set (pl_apiKeys p) \<and> ak_keyHash k = hashApiKey E rawKey \<and> ak_status k = KeyActive
    \<and> a \<in> set (pl_apps p) \<and> ap_id a = ak_appId k \<and> ap_status a = AppActive"
  using reachable_accounts [OF assms] by (rule authenticateApiKey_iff)

theorem api_key_authentication_witness:
  "fst (authenticateApiKey demo_env ''key'' demo_owned) = Inr (Some (hd (pl_apiKeys demo_owned), hd (pl_apps demo_owned)))"
  using api_key_authentication [OF demo_owned_run, of demo_env "''key''"] demo_owned_rows
  by (auto simp: hashApiKey_def demo_env_def)

text \<open>
  C16. A revoked API key is refused for ever: whatever the owners, the tenants and the system do
  afterwards, its raw key authenticates nothing and the attempt changes nothing.
\<close>

theorem revocation_is_final:
  assumes "accounts_inv p" and "access_step\<^sup>*\<^sup>* p q"
    and "k \<in> set (pl_apiKeys p)" and "ak_status k = KeyRevoked" and "ak_keyHash k = hashApiKey E rawKey"
  shows "authenticateApiKey E rawKey q = (Inr None, q)"
  using assms by (rule revoked_key_refused)

theorem revocation_is_final_witness:
  "authenticateApiKey demo_env ''key'' demo_revoked = (Inr None, demo_revoked)"
  by (rule revocation_is_final [OF demo_revoked_accounts rtranclp.rtrancl_refl, of "demo_key\<lparr>ak_status := KeyRevoked\<rparr>"])
    (simp_all add: demo_revoked_def demo_key_def hashApiKey_def demo_env_def)

text \<open>
  C17. Owners are isolated from each other and from the business of the tenants. A request to the routes
  of owners that changes anything carries a valid session of a wallet address; whether it succeeds or
  fails, it touches no application of another owner and no API key of such an application, and it leaves
  the tenants' database as it was, apart from new audit entries and the identifiers drawn for them.
\<close>

theorem owner_isolation:
  assumes "accounts_inv (gw_platform g)" and "snd (serve_owner C cfg W E F random http query rt g) = h"
    and "gw_platform h \<noteq> gw_platform g"
  shows "\<exists>auth. session_of cfg W http g = Inr auth \<and> wa_address auth \<noteq> [] \<and> accounts_inv (gw_platform h)
    \<and> foreign_accounts (wa_address auth) (gw_platform h) = foreign_accounts (wa_address auth) (gw_platform g)
    \<and> audited_only (gw_platform g) (gw_platform h)"
  using assms by (rule serve_owner_access)

theorem owner_isolation_witness:
  "audited_only demo_platform (gw_platform (snd (serve_owner demo_limits demo_auth demo_owner_wallet demo_env demo_formats []
     demo_owner_http JNull (PostDisable ''app'') demo_gateway)))"
proof -
  have g: "gw_platform demo_gateway = demo_platform" by (simp add: demo_gateway_def)
  have i: "accounts_inv (gw_platform demo_gateway)" using demo_accounts by (simp add: g)
  have c: "gw_platform (snd (serve_owner demo_limits demo_auth demo_owner_wallet demo_env demo_formats [] demo_owner_http JNull
      (PostDisable ''app'') demo_gateway)) \<noteq> gw_platform demo_gateway"
    using demo_disabled [of demo_formats "[]"] by (auto simp: g demo_platform_def demo_app_def)
  from owner_isolation [OF i refl c] show ?thesis unfolding g by blast
qed

text \<open>
  C18. A rate limit admits at most twice its maximum of requests of one key in any interval as long as
  its window, with the buckets in memory or with Redis when the limiter fails closed, whatever the
  other keys do and however often Redis is out of reach.
\<close>

theorem rate_limit_bound:
  assumes "\<not> lc_redisUrl cfg \<or> lc_rateLimitFailClosed cfg" and "counted_once (lm_redis l)" and "0 < lo_windowMs opts"
    and "sorted (map (fst \<circ> snd) rs)"
    and "\<forall>r\<in>set rs. snd (snd r) \<noteq> [] \<and> start \<le> fst (snd r) \<and> fst (snd r) < start + lo_windowMs opts"
  shows "length (filter (\<lambda>r. snd r = key) (admitted sha cfg opts rs l)) \<le> 2 * lo_max opts"
  using assms by (rule admitted_bound)

theorem rate_limit_bound_witness:
  "length (filter (\<lambda>r. snd r = ''a'') (admitted (\<lambda>s. s) (gc_limiter demo_limits)
     \<lparr>lo_namespace = ''n'', lo_windowMs = 10, lo_max = 1\<rparr>
     [(True, 0, ''a''), (True, 1, ''a''), (True, 1, ''b''), (True, 9, ''a'')] (gw_limiter demo_gateway))) \<le> 2"
  using rate_limit_bound [of "gc_limiter demo_limits" "gw_limiter demo_gateway"
      "\<lparr>lo_namespace = ''n'', lo_windowMs = 10, lo_max = 1\<rparr>"
      "[(True, 0, ''a''), (True, 1, ''a''), (True, 1, ''b''), (True, 9, ''a'')]" 0 "''a''" "\<lambda>s. s"]
  by (simp add: demo_limits_def demo_gateway_def counted_once_def)

end
